(* ===== verification/Prelude.thy ===== *)
theory Prelude
  imports Main "HOL-Library.Word" "HOL-Library.Multiset"
begin

text \<open>
  What every component of the development shares: the representation of Go errors and of
  fallible, state-changing calls; identifiers, times and 64-bit values; the decimal
  conversions of Go's \<open>strconv\<close>; JSON values as \<open>encoding/json\<close> reads and writes them;
  and generic lemmas on lists and options. Three collections of facts are filled by the
  components: \<open>defs\<close> (definitions that proofs unfold), \<open>effs\<close> (how an operation changes the
  state) and \<open>keyfacts\<close> (how Valkey keys differ).
\<close>

unbundle bit_operations_syntax

named_theorems defs
named_theorems effs
named_theorems keyfacts

section \<open>Errors and calls\<close>

text \<open>
  A Go error value. \<open>Sentinel\<close> is a package variable made by \<open>errors.New\<close>, named by package
  and variable; \<open>Wrap\<close> is \<open>fmt.Errorf("text: %w", err)\<close>; \<open>PgError\<close> is a \<open>pgconn.PgError\<close> with
  its SQLSTATE; \<open>Ext\<close> is any other error value raised outside the repository.
\<close>

datatype error =
    Sentinel string
  | Wrap string error
  | PgError string
  | Ext string

text \<open>The standard library's \<open>errors.Is\<close> follows the chain of wrapped errors.\<close>

fun errors_Is :: "error \<Rightarrow> error \<Rightarrow> bool" where
  "errors_Is (Wrap m e) t = (Wrap m e = t \<or> errors_Is e t)"
| "errors_Is e t = (e = t)"

type_synonym 'a result = "error + 'a"

text \<open>
  A call with an effect takes the state it works on and returns the pair of Go's result
  (an error or a value) and the new state.
\<close>

type_synonym ('a, 's) call = "'s \<Rightarrow> 'a result \<times> 's"

fun is_ok :: "'a result \<Rightarrow> bool" where
  "is_ok (Inl _) = False"
| "is_ok (Inr _) = True"

lemma is_ok_iff: "is_ok r \<longleftrightarrow> (\<exists>x. r = Inr x)"
  by (cases r) auto

section \<open>Identifiers, times and machine integers\<close>

text \<open>\<open>uuid.UUID\<close> is a 16-byte array; times and durations count milliseconds.\<close>

type_synonym uuid = "128 word"
type_synonym int64 = "64 word"
type_synonym time = int

definition uuid_Nil :: uuid where
  "uuid_Nil = 0"

section \<open>Decimal conversions of strconv\<close>

definition digit_char :: "nat \<Rightarrow> char" where
  "digit_char d = char_of (48 + d)"

definition char_digit :: "char \<Rightarrow> nat option" where
  "char_digit c = (let n = of_char c :: nat in if 48 \<le> n \<and> n \<le> 57 then Some (n - 48) else None)"

fun show_nat :: "nat \<Rightarrow> string" where
  "show_nat n = (if n < 10 then [digit_char n] else show_nat (n div 10) @ [digit_char (n mod 10)])"

declare show_nat.simps [simp del]

fun parse_digits :: "nat \<Rightarrow> string \<Rightarrow> nat option" where
  "parse_digits acc [] = Some acc"
| "parse_digits acc (c # cs) =
     (case char_digit c of None \<Rightarrow> None | Some d \<Rightarrow> parse_digits (10 * acc + d) cs)"

text \<open>\<open>strconv.FormatInt(n, 10)\<close>\<close>

definition FormatInt :: "int \<Rightarrow> string" where
  "FormatInt n = (if n < 0 then CHR ''-'' # show_nat (nat (- n)) else show_nat (nat n))"

text \<open>
  \<open>strconv.ParseInt(s, 10, 64)\<close>: an optional sign, at least one decimal digit and nothing
  else, and a value within the signed 64-bit range.
\<close>

definition ParseInt64 :: "string \<Rightarrow> int option" where
  "ParseInt64 s =
     (let neg = (s \<noteq> [] \<and> hd s = CHR ''-'');
          body = (if s \<noteq> [] \<and> (hd s = CHR ''-'' \<or> hd s = CHR ''+'') then tl s else s)
      in if body = [] then None
         else case parse_digits 0 body of
                None \<Rightarrow> None
              | Some n \<Rightarrow>
                  (if neg then (if n \<le> 2 ^ 63 then Some (- int n) else None)
                   else (if n < 2 ^ 63 then Some (int n) else None)))"

lemma char_digit_digit_char [simp]: "d < 10 \<Longrightarrow> char_digit (digit_char d) = Some d"
  by (simp add: char_digit_def digit_char_def Let_def)

lemma parse_digits_append:
  "parse_digits acc (xs @ ys) = Option.bind (parse_digits acc xs) (\<lambda>a. parse_digits a ys)"
  by (induction xs arbitrary: acc) (auto split: option.splits)

lemma parse_digits_show_nat: "parse_digits 0 (show_nat n) = Some n"
proof (induction n rule: show_nat.induct)
  case (1 n)
  show ?case
  proof (cases "n < 10")
    case True
    then show ?thesis by (simp add: show_nat.simps [of n])
  next
    case False
    with "1.IH" have "parse_digits 0 (show_nat (n div 10)) = Some (n div 10)" by simp
    with False show ?thesis by (simp add: show_nat.simps [of n] parse_digits_append)
  qed
qed

lemma show_nat_hd: "\<exists>c cs. show_nat n = c # cs \<and> (\<exists>d < 10. c = digit_char d)"
proof (induction n rule: show_nat.induct)
  case (1 n)
  show ?case
  proof (cases "n < 10")
    case True
    then show ?thesis by (auto simp: show_nat.simps [of n])
  next
    case False
    with "1.IH" obtain c cs where "show_nat (n div 10) = c # cs" "\<exists>d < 10. c = digit_char d"
      by blast
    with False show ?thesis by (auto simp: show_nat.simps [of n])
  qed
qed

lemma digit_char_no_sign: "d < 10 \<Longrightarrow> digit_char d \<noteq> CHR ''-'' \<and> digit_char d \<noteq> CHR ''+''"
proof -
  assume "d < 10"
  then have "of_char (digit_char d) = (48 + d :: nat)"
    by (simp add: digit_char_def)
  then show ?thesis by auto
qed

lemma ParseInt64_FormatInt:
  assumes "- (2 ^ 63) \<le> n" and "n < 2 ^ 63"
  shows "ParseInt64 (FormatInt n) = Some n"
proof (cases "n < 0")
  case True
  have "show_nat (nat (- n)) \<noteq> []" using show_nat_hd [of "nat (- n)"] by auto
  with True assms show ?thesis
    by (simp add: ParseInt64_def FormatInt_def parse_digits_show_nat nat_le_iff)
next
  case False
  obtain c cs d where c: "show_nat (nat n) = c # cs" "d < 10" "c = digit_char d"
    using show_nat_hd by blast
  with False assms show ?thesis
    using parse_digits_show_nat [of "nat n"] digit_char_no_sign [of d]
    by (simp add: ParseInt64_def FormatInt_def nat_less_iff)
qed

text \<open>A 64-bit value printed as a signed decimal and parsed back is unchanged.\<close>

lemma ParseInt64_FormatInt_word:
  "map_option word_of_int (ParseInt64 (FormatInt (sint w))) = Some (w :: int64)"
  using sint_greater_eq [of w] sint_less [of w]
  by (simp add: ParseInt64_FormatInt)

section \<open>JSON values\<close>

text \<open>
  \<open>encoding/json\<close> is represented by the values its texts denote. A byte string is either
  plain text or the text of a JSON value; decoding plain text as JSON is the error the
  decoder reports on malformed input.
\<close>

datatype json =
    JNull
  | JBool bool
  | JNum int
  | JStr string
  | JArr "json list"
  | JObj "(string \<times> json) list"

datatype bytes = Text string | Json json

definition ascii_lower :: "char \<Rightarrow> char" where
  "ascii_lower c = (let n = of_char c :: nat in if 65 \<le> n \<and> n \<le> 90 then char_of (n + 32) else c)"

text \<open>
  The decoder matches object keys to struct fields without regard to case, and the last
  of several matching keys wins.
\<close>

definition json_field :: "string \<Rightarrow> (string \<times> json) list \<Rightarrow> json option" where
  "json_field k kvs =
     map_of (rev (map (\<lambda>(x, v). (map ascii_lower x, v)) kvs)) (map ascii_lower k)"

text \<open>
  Reading one field of a struct: an absent key or \<open>null\<close> leaves the zero value, a value of
  another kind is an error.
\<close>

definition json_read :: "string \<Rightarrow> 'a \<Rightarrow> (json \<Rightarrow> 'a option) \<Rightarrow> (string \<times> json) list \<Rightarrow> 'a option" where
  "json_read k zero conv kvs =
     (case json_field k kvs of
        None \<Rightarrow> Some zero
      | Some JNull \<Rightarrow> Some zero
      | Some v \<Rightarrow> conv v)"

fun json_string :: "json \<Rightarrow> string option" where
  "json_string (JStr s) = Some s"
| "json_string _ = None"

fun json_bool :: "json \<Rightarrow> bool option" where
  "json_bool (JBool b) = Some b"
| "json_bool _ = None"

text \<open>A JSON number read into a 64-bit integer must be in range.\<close>

fun json_int64 :: "json \<Rightarrow> int option" where
  "json_int64 (JNum n) = (if - (2 ^ 63) \<le> n \<and> n < 2 ^ 63 then Some n else None)"
| "json_int64 _ = None"

fun json_object :: "bytes \<Rightarrow> (string \<times> json) list option" where
  "json_object (Json (JObj kvs)) = Some kvs"
| "json_object (Json JNull) = Some []"
| "json_object _ = None"

lemma json_int64_sint [simp]: "json_int64 (JNum (sint (w :: int64))) = Some (sint w)"
  using sint_greater_eq [of w] sint_less [of w] by simp

section \<open>Finding and replacing rows\<close>

lemma find_replaced:
  "find P xs = Some old \<Longrightarrow> P row \<Longrightarrow> find P (map (\<lambda>r. if P r then row else r) xs) = Some row"
  by (induction xs) (auto split: if_splits)

lemma find_replaced_other:
  "(\<And>r. P r \<Longrightarrow> \<not> Q r) \<Longrightarrow> \<not> Q row \<Longrightarrow> find Q (map (\<lambda>r. if P r then row else r) xs) = find Q xs"
  by (induction xs) auto

lemma find_snoc:
  "find P (xs @ [x]) = (case find P xs of None \<Rightarrow> if P x then Some x else None | Some y \<Rightarrow> Some y)"
  by (induction xs) auto

lemma find_filter_other: "(\<And>r. Q r \<Longrightarrow> P r) \<Longrightarrow> find Q (filter P xs) = find Q xs"
  by (induction xs) auto

lemma find_Some_member: "find Q xs = Some x \<Longrightarrow> x \<in> set xs \<and> Q x"
  by (induction xs) (auto split: if_splits)

lemma find_map_update:
  "(\<And>x. P x \<Longrightarrow> P (f x)) \<Longrightarrow> find P (map (\<lambda>x. if P x then f x else x) xs) = map_option f (find P xs)"
  by (induction xs) auto

lemma find_unique:
  assumes "distinct (map f xs)" and "x \<in> set xs" and "Q x" and "\<And>y. Q y \<longleftrightarrow> f y = k"
  shows "find Q xs = Some x"
  using assms by (induction xs) (auto simp: image_iff)

text \<open>Replacing the row of one key keeps a column without duplicates if the new value is new.\<close>

lemma distinct_replace:
  assumes "distinct (map key xs)" and "distinct (map f xs)" and "f y \<notin> f ` {x \<in> set xs. key x \<noteq> k}"
  shows "distinct (map f (map (\<lambda>x. if key x = k then y else x) xs))"
  using assms
proof (induction xs)
  case (Cons x xs)
  show ?case
  proof (cases "key x = k")
    case True
    then have "\<forall>z \<in> set xs. key z \<noteq> k" using Cons.prems(1) by (force simp: image_iff)
    then have "map (\<lambda>x. if key x = k then y else x) xs = xs" and "{z \<in> set (x # xs). key z \<noteq> k} = set xs"
      using True by (auto intro: map_idI)
    then show ?thesis using Cons.prems True by (simp del: map_map)
  next
    case False
    then show ?thesis using Cons by (auto simp: image_iff)
  qed
qed simp

end
