(* ===== verification/Extern.thy ===== *)
theory Extern
  imports Prelude
begin

text \<open>
  The third-party packages the code calls, as parameters of the model. \<open>perm_lib\<close> stands for
  \<open>uncord-protocol/permissions\<close> (a 64-bit set of permission bits and its operations) and
  \<open>uuid_lib\<close> for \<open>google/uuid\<close> (text form and parsing). The locales \<open>perm_bits\<close> and \<open>uuid_text\<close>
  name the documented behaviour that theorems rely on; the instances \<open>ref_perm\<close> and
  \<open>ref_uuid\<close> show that it can be met and are what witnesses evaluate.
\<close>

section \<open>Permission bits\<close>

type_synonym perm = int64

record perm_lib =
  pAdd :: "perm \<Rightarrow> perm \<Rightarrow> perm"
  pRemove :: "perm \<Rightarrow> perm \<Rightarrow> perm"
  pHas :: "perm \<Rightarrow> perm \<Rightarrow> bool"
  AllPermissions :: perm
  ManageServer :: perm
  ViewChannels :: perm
  ManageChannels :: perm
  ManageMessages :: perm
  ReadMessageHistory :: perm
  CreateThreads :: perm
  SendMessagesThreads :: perm

locale perm_bits =
  fixes P :: perm_lib
  assumes add_bits: "pAdd P a b = a OR b"
    and remove_bits: "pRemove P a b = a AND NOT b"
    and has_bits: "pHas P a b \<longleftrightarrow> a AND b = b"
    and view_in_all: "ViewChannels P AND AllPermissions P = ViewChannels P"
    and manage_in_all: "ManageServer P AND AllPermissions P = ManageServer P"
begin

lemma bit_add [simp]: "bit (pAdd P a b) n \<longleftrightarrow> bit a n \<or> bit b n"
  by (simp add: add_bits bit_simps)

lemma bit_remove [simp]: "bit (pRemove P a b) n \<longleftrightarrow> bit a n \<and> \<not> bit b n"
  by (cases "n < 64") (auto simp: remove_bits bit_simps dest: bit_imp_le_length)

lemma has_iff_bits: "pHas P a b \<longleftrightarrow> (\<forall>n. bit b n \<longrightarrow> bit a n)"
proof -
  have "a AND b = b \<longleftrightarrow> (\<forall>n. bit (a AND b) n \<longleftrightarrow> bit b n)"
    by (auto intro: bit_eqI)
  then show ?thesis by (auto simp: has_bits bit_simps)
qed

lemma all_has_view [simp]: "pHas P (AllPermissions P) (ViewChannels P)"
  by (simp add: has_bits and.commute [of "AllPermissions P"] view_in_all)

lemma add_comm: "pAdd P a b = pAdd P b a"
  by (simp add: add_bits or.commute)

lemma add_assoc: "pAdd P (pAdd P a b) c = pAdd P a (pAdd P b c)"
  by (simp add: add_bits or.assoc)

end

text \<open>The instance: bit 0 is \<open>ViewChannels\<close>, bit 1 \<open>ManageServer\<close>, eight bits in all.\<close>

definition ref_perm :: perm_lib where
  "ref_perm = \<lparr>pAdd = (\<lambda>a b. a OR b), pRemove = (\<lambda>a b. a AND NOT b),
     pHas = (\<lambda>a b. a AND b = b),
     AllPermissions = 255, ManageServer = 2, ViewChannels = 1, ManageChannels = 8, ManageMessages = 4,
     ReadMessageHistory = 32, CreateThreads = 64, SendMessagesThreads = 128\<rparr>"

interpretation ref_bits: perm_bits ref_perm
  by unfold_locales (simp_all add: ref_perm_def)

section \<open>UUID text\<close>

record uuid_lib =
  uuid_String :: "uuid \<Rightarrow> string"
  uuid_Parse :: "string \<Rightarrow> uuid option"

definition uuid_chars :: string where
  "uuid_chars = ''0123456789abcdef-''"

locale uuid_text =
  fixes U :: uuid_lib
  assumes parse_string [simp]: "uuid_Parse U (uuid_String U u) = Some u"
    and string_length [simp]: "length (uuid_String U u) = 36"
    and string_chars: "c \<in> set (uuid_String U u) \<Longrightarrow> c \<in> set uuid_chars"
begin

lemma string_inj [simp]: "uuid_String U u = uuid_String U v \<longleftrightarrow> u = v"
  by (metis option.inject parse_string)

lemma no_colon: "CHR '':'' \<notin> set (uuid_String U u)"
  using string_chars [of "CHR '':''" u] by (auto simp: uuid_chars_def)

lemma no_star: "CHR ''*'' \<notin> set (uuid_String U u)"
  using string_chars [of "CHR ''*''" u] by (auto simp: uuid_chars_def)

lemma string_neq_Nil [simp]: "uuid_String U u \<noteq> []"
  using string_length [of u] by (metis list.size(3) zero_neq_numeral)

text \<open>Two identifiers before and after a separator are determined by the whole text.\<close>

lemma string_pair_inj:
  "uuid_String U a @ CHR '':'' # uuid_String U b = uuid_String U a' @ CHR '':'' # uuid_String U b'
     \<longleftrightarrow> a = a' \<and> b = b'"
  by (subst append_eq_append_conv) auto

end

text \<open>
  The instance: the canonical 8-4-4-4-12 form in lower-case hexadecimal digits, and a
  parser that accepts exactly that form.
\<close>

fun nibbles :: "nat \<Rightarrow> nat \<Rightarrow> nat list" where
  "nibbles 0 n = []"
| "nibbles (Suc k) n = nibbles k (n div 16) @ [n mod 16]"

definition hex_char :: "nat \<Rightarrow> char" where
  "hex_char d = ''0123456789abcdef'' ! d"

definition hex_value :: "char \<Rightarrow> nat" where
  "hex_value c = (let n = of_char c :: nat in if n \<le> 57 then n - 48 else n - 87)"

definition ref_String :: "uuid \<Rightarrow> string" where
  "ref_String u =
     (let h = map hex_char (nibbles 32 (unat u))
      in take 8 h @ ''-'' @ take 4 (drop 8 h) @ ''-'' @ take 4 (drop 12 h) @ ''-''
         @ take 4 (drop 16 h) @ ''-'' @ drop 20 h)"

definition ref_Parse :: "string \<Rightarrow> uuid option" where
  "ref_Parse s =
     (let u = of_nat (foldl (\<lambda>a d. 16 * a + hex_value d) 0 (filter (\<lambda>c. c \<noteq> CHR ''-'') s)) :: uuid
      in if ref_String u = s then Some u else None)"

definition ref_uuid :: uuid_lib where
  "ref_uuid = \<lparr>uuid_String = ref_String, uuid_Parse = ref_Parse\<rparr>"

lemma length_nibbles [simp]: "length (nibbles k n) = k"
  by (induction k n rule: nibbles.induct) auto

lemma nibbles_bound: "d \<in> set (nibbles k n) \<Longrightarrow> d < 16"
  by (induction k n rule: nibbles.induct) auto

lemma foldl_nibbles: "foldl (\<lambda>a d. 16 * a + d) 0 (nibbles k n) = n mod 16 ^ k"
proof (induction k n rule: nibbles.induct)
  case (2 k n)
  have "16 * (n div 16 mod 16 ^ k) + n mod 16 = n mod (16 * 16 ^ k)"
    by (simp add: mod_mult2_eq)
  with 2 show ?case by simp
qed simp

lemma hex_char_props:
  assumes "d < 16"
  shows "hex_value (hex_char d) = d" and "hex_char d \<noteq> CHR ''-''" and "hex_char d \<in> set uuid_chars"
proof -
  have "\<forall>d \<in> set [0..<16]. hex_value (hex_char d) = d \<and> hex_char d \<noteq> CHR ''-''
          \<and> hex_char d \<in> set uuid_chars"
    by code_simp
  with assms show "hex_value (hex_char d) = d" "hex_char d \<noteq> CHR ''-''" "hex_char d \<in> set uuid_chars"
    by auto
qed

lemma filter_hex: "filter (\<lambda>c. c \<noteq> CHR ''-'') (ref_String u) = map hex_char (nibbles 32 (unat u))"
proof -
  let ?h = "map hex_char (nibbles 32 (unat u))"
  have "CHR ''-'' \<notin> set ?h"
    using hex_char_props(2) nibbles_bound by (metis image_iff set_map)
  then have h: "filter (\<lambda>c. c \<noteq> CHR ''-'') xs = xs" if "set xs \<subseteq> set ?h" for xs
    using that by (auto simp: filter_id_conv)
  have "take 4 (drop 16 ?h) @ drop 20 ?h = drop 16 ?h" "take 4 (drop 12 ?h) @ drop 16 ?h = drop 12 ?h"
    "take 4 (drop 8 ?h) @ drop 12 ?h = drop 8 ?h" "take 8 ?h @ drop 8 ?h = ?h"
    using append_take_drop_id [of 4 "drop 16 ?h"] append_take_drop_id [of 4 "drop 12 ?h"]
      append_take_drop_id [of 4 "drop 8 ?h"] append_take_drop_id [of 8 ?h]
    by (simp_all only: drop_drop) simp_all
  then have split: "?h = take 8 ?h @ take 4 (drop 8 ?h) @ take 4 (drop 12 ?h) @ take 4 (drop 16 ?h) @ drop 20 ?h"
    by metis
  have "filter (\<lambda>c. c \<noteq> CHR ''-'') (ref_String u) =
     take 8 ?h @ take 4 (drop 8 ?h) @ take 4 (drop 12 ?h) @ take 4 (drop 16 ?h) @ drop 20 ?h"
    unfolding ref_String_def Let_def filter_append
    by (simp only: h [OF set_take_subset] h [OF set_drop_subset]
        h [OF subset_trans [OF set_take_subset set_drop_subset]]) simp
  with split show ?thesis by simp
qed

lemma ref_String_foldl:
  "foldl (\<lambda>a d. 16 * a + hex_value d) 0 (map hex_char (nibbles k n)) = n mod 16 ^ k"
proof -
  have "foldl (\<lambda>a d. 16 * a + hex_value (hex_char d)) 0 (nibbles k n)
      = foldl (\<lambda>a d. 16 * a + d) 0 (nibbles k n)"
    by (rule foldl_cong) (auto simp: hex_char_props dest: nibbles_bound)
  then show ?thesis by (simp add: foldl_map foldl_nibbles)
qed

interpretation ref_text: uuid_text ref_uuid
proof unfold_locales
  fix u :: uuid and c
  have "unat u < 16 ^ 32" using unsigned_less [of u] by simp
  then show "uuid_Parse ref_uuid (uuid_String ref_uuid u) = Some u"
    by (simp add: ref_uuid_def ref_Parse_def filter_hex ref_String_foldl del: nibbles.simps)
  show "length (uuid_String ref_uuid u) = 36"
    by (simp add: ref_uuid_def ref_String_def Let_def del: nibbles.simps)
  assume "c \<in> set (uuid_String ref_uuid u)"
  then have "c \<in> set (map hex_char (nibbles 32 (unat u))) \<or> c = CHR ''-''"
    by (auto simp: ref_uuid_def ref_String_def Let_def simp del: nibbles.simps set_map
        dest!: in_set_takeD in_set_dropD)
  then show "c \<in> set uuid_chars"
    by (auto simp: hex_char_props uuid_chars_def simp del: nibbles.simps dest!: nibbles_bound
        dest: hex_char_props(3) [unfolded uuid_chars_def])
qed

end
