(* ===== verification/Protocol.thy ===== *)
theory Protocol
  imports Extern
begin

text \<open>
  The parts of the package \<open>uncord-protocol\<close> the code builds and reads: models as records
  with the fields the source sets, and the package itself as the parameter \<open>proto\<close>, which
  holds the text of its event names, its opcodes and the JSON form of its types. The theorems
  hold for every such package; \<open>ref_proto\<close> is one, for concrete runs.
\<close>

datatype event_name =
    EvReady | EvResumed | EvPresenceUpdate | EvTypingStart | EvTypingStop
  | EvRoleCreate | EvRoleUpdate | EvRoleDelete | EvMemberAdd | EvMemberUpdate | EvMemberRemove
  | EvServerUpdate | EvChannelCreate | EvChannelUpdate | EvChannelDelete | EvMessageCreate | EvMessageUpdate | EvMessageDelete
  | EvReactionAdd | EvReactionRemove | EvThreadCreate | EvThreadUpdate | EvMessageAck | EvInviteCreate | EvInviteDelete
  | EvDMChannelCreate | EvDMMessageCreate | EvEmojiUpdate
  | EvKeyBundleLow | EvIdentityKeyChanged

datatype opcode =
    OpcodeDispatch | OpcodeHeartbeat | OpcodeIdentify | OpcodePresenceUpdate | OpcodeResume
  | OpcodeReconnect | OpcodeInvalidSession | OpcodeHello | OpcodeHeartbeatACK

record Frame =
  fr_Op :: int
  fr_Seq :: "int64 option"
  fr_Type :: "string option"
  fr_Data :: "json option"

record PermissionOverrideModel =
  po_ID :: string
  po_Type :: string
  po_TargetID :: string
  po_Allow :: int
  po_Deny :: int
  po_CreatedAt :: string
  po_UpdatedAt :: string

record RoleModel =
  rm_ID :: string
  rm_Name :: string
  rm_Colour :: int
  rm_Position :: int
  rm_Hoist :: bool
  rm_Permissions :: int
  rm_IsEveryone :: bool
  rm_CreatedAt :: string
  rm_UpdatedAt :: string

record MemberUserModel =
  mu_ID :: string
  mu_Username :: string
  mu_DisplayName :: "string option"
  mu_AvatarKey :: "string option"

record MemberModel =
  mm_User :: MemberUserModel
  mm_Nickname :: "string option"
  mm_JoinedAt :: string
  mm_Roles :: "string list"
  mm_Status :: string
  mm_TimeoutUntil :: "string option"

record UserModel =
  um_ID :: string
  um_Email :: string
  um_Username :: string
  um_DisplayName :: "string option"
  um_AvatarKey :: "string option"
  um_Pronouns :: "string option"
  um_BannerKey :: "string option"
  um_About :: "string option"
  um_ThemeColourPrimary :: "int option"
  um_ThemeColourSecondary :: "int option"
  um_MFAEnabled :: bool
  um_EmailVerified :: bool

record UserProfileModel =
  up_ID :: string
  up_Username :: string
  up_DisplayName :: "string option"
  up_AvatarKey :: "string option"
  up_Pronouns :: "string option"
  up_BannerKey :: "string option"
  up_About :: "string option"
  up_ThemeColourPrimary :: "int option"
  up_ThemeColourSecondary :: "int option"

record BanModel =
  bm_User :: MemberUserModel
  bm_Reason :: "string option"
  bm_BannedBy :: "string option"
  bm_ExpiresAt :: "string option"
  bm_CreatedAt :: string

record CategoryModel =
  gm_ID :: string
  gm_Name :: string
  gm_Position :: int
  gm_CreatedAt :: string
  gm_UpdatedAt :: string

record ChannelModel =
  cm_ID :: string
  cm_CategoryID :: "string option"
  cm_CreatedBy :: "string option"
  cm_Name :: string
  cm_Type :: string
  cm_Topic :: string
  cm_Position :: int
  cm_SlowmodeSeconds :: int
  cm_NSFW :: bool
  cm_CreatedAt :: string
  cm_UpdatedAt :: string

record InviteModel =
  vm_ID :: string
  vm_Code :: string
  vm_ChannelID :: string
  vm_CreatorID :: string
  vm_MaxUses :: "int option"
  vm_UseCount :: int
  vm_MaxAgeSeconds :: "int option"
  vm_ExpiresAt :: "string option"
  vm_CreatedAt :: string

record OnboardingDocumentModel =
  od_Slug :: string
  od_Title :: string
  od_Content :: string
  od_Position :: int
  od_Required :: bool

record OnboardingConfigModel =
  oc_WelcomeChannelID :: "string option"
  oc_RequireEmailVerification :: bool
  oc_OpenJoin :: bool
  oc_MinAccountAgeSeconds :: int
  oc_AutoRoles :: "string list"
  oc_Documents :: "OnboardingDocumentModel list"

datatype OnboardingStep =
    OnboardingStepVerifyEmail | OnboardingStepJoinServer | OnboardingStepAcceptDocuments | OnboardingStepComplete

record DocumentAcceptanceModel =
  dm_Slug :: string
  dm_AcceptedAt :: string

record AttachmentModel =
  am_ID :: string
  am_Filename :: string
  am_URL :: string
  am_Size :: int
  am_ContentType :: string
  am_Width :: "int option"
  am_Height :: "int option"
  am_ThumbnailURL :: "string option"

record ReactionSummaryModel =
  rg_EmojiID :: "string option"
  rg_EmojiUnicode :: "string option"
  rg_Count :: int
  rg_Me :: bool

record MessageModel =
  mo_ID :: string
  mo_ChannelID :: string
  mo_Author :: MemberUserModel
  mo_Content :: string
  mo_Attachments :: "AttachmentModel list"
  mo_Reactions :: "ReactionSummaryModel list"
  mo_ReplyToID :: "string option"
  mo_ThreadID :: "string option"
  mo_Pinned :: bool
  mo_Encrypted :: bool
  mo_EditedAt :: "string option"
  mo_CreatedAt :: string

record ThreadModel =
  tm_ID :: string
  tm_ChannelID :: string
  tm_ParentMessageID :: string
  tm_Name :: string
  tm_Archived :: bool
  tm_Locked :: bool
  tm_CreatedAt :: string
  tm_UpdatedAt :: string

record ReactionUserModel =
  ru_UserID :: string
  ru_Username :: string

record ReadStateModel =
  rt_ChannelID :: string
  rt_LastMessageID :: "string option"
  rt_MentionCount :: int

record EmojiModel =
  ej_ID :: string
  ej_Name :: string
  ej_Animated :: bool
  ej_URL :: string
  ej_UploaderID :: string
  ej_CreatedAt :: string

record DeviceModel =
  vj_ID :: string
  vj_DeviceID :: string
  vj_Label :: string
  vj_IdentityKey :: string
  vj_CreatedAt :: string

record DeviceKeyBundleModel =
  kb_DeviceID :: string
  kb_IdentityKey :: string
  kb_SignedPreKeyID :: int
  kb_SignedPreKey :: string
  kb_Signature :: string
  kb_OneTimeKeyID :: "int option"
  kb_OneTimeKey :: "string option"

record UserKeyBundleModel =
  kx_UserID :: string
  kx_Devices :: "DeviceKeyBundleModel list"

record SyncedSettingsModel =
  zs_EncryptedBlob :: string
  zs_Salt :: string
  zs_Nonce :: string
  zs_BlobVersion :: int
  zs_UpdatedAt :: string

text \<open>The payloads of the events about keys.\<close>

record KeyBundleLowData =
  kl_DeviceID :: string
  kl_Remaining :: int

record IdentityKeyData =
  ik_UserID :: string
  ik_DeviceID :: string
  ik_IdentityKey :: string

text \<open>The payloads of the events about reactions and typing.\<close>

record ReactionData =
  xd_MessageID :: string
  xd_ChannelID :: string
  xd_UserID :: string
  xd_EmojiID :: "string option"
  xd_EmojiUnicode :: "string option"

record TypingData =
  yd_ChannelID :: string
  yd_UserID :: string

record PresenceState =
  ps_UserID :: string
  ps_Status :: string

record ReadyData =
  rd_User :: json
  rd_Server :: json
  rd_Channels :: "json list"
  rd_Roles :: "json list"
  rd_Members :: "json list"
  rd_Presences :: "PresenceState list"
  rd_ReadStates :: "json list"
  rd_Onboarding :: "json option"
  rd_SessionID :: string

record IdentifyData =
  id_Token :: string

record ResumeData =
  rs_Token :: string
  rs_SessionID :: string
  rs_Seq :: int64

record proto =
  ev :: "event_name \<Rightarrow> string"
  opc :: "opcode \<Rightarrow> int"
  js_Frame :: "Frame \<Rightarrow> json"
  un_Frame :: "bytes \<Rightarrow> Frame option"
  js_Ready :: "ReadyData \<Rightarrow> json"
  js_Hello :: "int \<Rightarrow> json"
  js_PresenceUpdate :: "PresenceState \<Rightarrow> json"
  js_Role :: "RoleModel \<Rightarrow> json"
  js_RoleDelete :: "string \<Rightarrow> json"
  js_Member :: "MemberModel \<Rightarrow> json"
  js_MemberRemove :: "string \<Rightarrow> json"
  js_Channel :: "ChannelModel \<Rightarrow> json"
  js_ChannelDelete :: "string \<Rightarrow> json"
  js_Invite :: "InviteModel \<Rightarrow> json"
  js_InviteDelete :: "string \<Rightarrow> json"
  js_Message :: "MessageModel \<Rightarrow> json"
  js_MessageDelete :: "string \<Rightarrow> string \<Rightarrow> json"
  js_MessageAck :: "string \<Rightarrow> string \<Rightarrow> json"
  js_ReactionAdd :: "ReactionData \<Rightarrow> json"
  js_ReactionRemove :: "ReactionData \<Rightarrow> json"
  js_Thread :: "ThreadModel \<Rightarrow> json"
  js_TypingStart :: "TypingData \<Rightarrow> string \<Rightarrow> json"
  js_TypingStop :: "TypingData \<Rightarrow> json"
  js_EmojiUpdate :: "EmojiModel list \<Rightarrow> json"
  js_KeyBundleLow :: "KeyBundleLowData \<Rightarrow> json"
  js_IdentityKeyChanged :: "IdentityKeyData \<Rightarrow> json"
  un_Identify :: "json option \<Rightarrow> IdentifyData option"
  un_Resume :: "json option \<Rightarrow> ResumeData option"
  un_PresenceUpdate :: "json option \<Rightarrow> string option"

definition ref_proto :: proto where
  "ref_proto =
     \<lparr>ev = (\<lambda>e. case e of EvReady \<Rightarrow> ''READY'' | EvResumed \<Rightarrow> ''RESUMED'' | EvPresenceUpdate \<Rightarrow> ''PRESENCE_UPDATE''
            | EvTypingStart \<Rightarrow> ''TYPING_START'' | EvTypingStop \<Rightarrow> ''TYPING_STOP'' | EvRoleCreate \<Rightarrow> ''ROLE_CREATE''
            | EvRoleUpdate \<Rightarrow> ''ROLE_UPDATE'' | EvRoleDelete \<Rightarrow> ''ROLE_DELETE'' | EvMemberAdd \<Rightarrow> ''MEMBER_ADD''
            | EvMemberUpdate \<Rightarrow> ''MEMBER_UPDATE'' | EvMemberRemove \<Rightarrow> ''MEMBER_REMOVE'' | EvServerUpdate \<Rightarrow> ''SERVER_UPDATE''
            | EvChannelCreate \<Rightarrow> ''CHANNEL_CREATE'' | EvChannelUpdate \<Rightarrow> ''CHANNEL_UPDATE'' | EvChannelDelete \<Rightarrow> ''CHANNEL_DELETE''
            | EvMessageCreate \<Rightarrow> ''MESSAGE_CREATE'' | EvMessageUpdate \<Rightarrow> ''MESSAGE_UPDATE'' | EvMessageDelete \<Rightarrow> ''MESSAGE_DELETE''
            | EvReactionAdd \<Rightarrow> ''REACTION_ADD'' | EvReactionRemove \<Rightarrow> ''REACTION_REMOVE'' | EvThreadCreate \<Rightarrow> ''THREAD_CREATE''
            | EvThreadUpdate \<Rightarrow> ''THREAD_UPDATE'' | EvMessageAck \<Rightarrow> ''MESSAGE_ACK'' | EvInviteCreate \<Rightarrow> ''INVITE_CREATE''
            | EvInviteDelete \<Rightarrow> ''INVITE_DELETE'' | EvDMChannelCreate \<Rightarrow> ''DM_CHANNEL_CREATE'' | EvDMMessageCreate \<Rightarrow> ''DM_MESSAGE_CREATE''
            | EvEmojiUpdate \<Rightarrow> ''EMOJI_UPDATE'' | EvKeyBundleLow \<Rightarrow> ''KEY_BUNDLE_LOW'' | EvIdentityKeyChanged \<Rightarrow> ''IDENTITY_KEY_CHANGED''),
      opc = (\<lambda>x. case x of OpcodeDispatch \<Rightarrow> 0 | OpcodeHeartbeat \<Rightarrow> 1 | OpcodeIdentify \<Rightarrow> 2 | OpcodePresenceUpdate \<Rightarrow> 3
            | OpcodeResume \<Rightarrow> 4 | OpcodeReconnect \<Rightarrow> 5 | OpcodeInvalidSession \<Rightarrow> 6 | OpcodeHello \<Rightarrow> 7 | OpcodeHeartbeatACK \<Rightarrow> 8),
      js_Frame = (\<lambda>f. JArr [JNum (fr_Op f), (case fr_Seq f of None \<Rightarrow> JNull | Some n \<Rightarrow> JNum (sint n)),
            (case fr_Type f of None \<Rightarrow> JNull | Some t \<Rightarrow> JStr t), (case fr_Data f of None \<Rightarrow> JNull | Some j \<Rightarrow> j)]),
      un_Frame = (\<lambda>b. case b of Json (JArr [JNum x, j]) \<Rightarrow> Some \<lparr>fr_Op = x, fr_Seq = None, fr_Type = None, fr_Data = Some j\<rparr> | _ \<Rightarrow> None), js_Ready = (\<lambda>r. JStr (rd_SessionID r)), js_Hello = JNum,
      js_PresenceUpdate = (\<lambda>p. JArr [JStr (ps_UserID p), JStr (ps_Status p)]), js_Role = (\<lambda>r. JStr (rm_ID r)),
      js_RoleDelete = JStr, js_Member = (\<lambda>m. JStr (mu_ID (mm_User m))), js_MemberRemove = JStr,
      js_Channel = (\<lambda>c. JStr (cm_ID c)), js_ChannelDelete = JStr, js_Invite = (\<lambda>i. JStr (vm_Code i)), js_InviteDelete = JStr,
      js_Message = (\<lambda>m. JArr [JStr (mo_ID m), JStr (mo_ChannelID m)]), js_MessageDelete = (\<lambda>i c. JArr [JStr i, JStr c]),
      js_MessageAck = (\<lambda>c i. JArr [JStr c, JStr i]), js_ReactionAdd = (\<lambda>x. JArr [JStr (xd_MessageID x), JStr (xd_ChannelID x)]),
      js_ReactionRemove = (\<lambda>x. JArr [JStr (xd_MessageID x), JStr (xd_ChannelID x)]), js_Thread = (\<lambda>t. JStr (tm_ID t)),
      js_TypingStart = (\<lambda>y t. JArr [JStr (yd_ChannelID y), JStr (yd_UserID y), JStr t]),
      js_TypingStop = (\<lambda>y. JArr [JStr (yd_ChannelID y), JStr (yd_UserID y)]), js_EmojiUpdate = (\<lambda>es. JArr (map (\<lambda>e. JStr (ej_ID e)) es)),
      js_KeyBundleLow = (\<lambda>k. JArr [JStr (kl_DeviceID k), JNum (kl_Remaining k)]), js_IdentityKeyChanged = (\<lambda>k. JArr [JStr (ik_UserID k), JStr (ik_DeviceID k)]),
      un_Identify = (\<lambda>j. case j of Some (JStr t) \<Rightarrow> Some \<lparr>id_Token = t\<rparr> | _ \<Rightarrow> None), un_Resume = (\<lambda>_. None), un_PresenceUpdate = (\<lambda>_. None)\<rparr>"

end
