(* ===== verification/Gateway_Client.thy ===== *)
theory Gateway_Client
  imports Protocol "HOL-Library.AList"
begin

text \<open>
  \<open>internal/gateway/frame.go\<close>, \<open>close_codes.go\<close> and the connection state of \<open>client.go\<close>: frames, close
  codes, the bounded send buffer, the write loop and the rate limit. A client records what
  was written to its connection and whether its two goroutines still run.
\<close>

section \<open>Frames and close codes\<close>

definition NewHelloFrame :: "proto \<Rightarrow> int \<Rightarrow> json" where
  "NewHelloFrame M heartbeatIntervalMS =
     js_Frame M \<lparr>fr_Op = opc M OpcodeHello, fr_Seq = None, fr_Type = None,
                 fr_Data = Some (js_Hello M heartbeatIntervalMS)\<rparr>"

definition NewHeartbeatACKFrame :: "proto \<Rightarrow> json" where
  "NewHeartbeatACKFrame M =
     js_Frame M \<lparr>fr_Op = opc M OpcodeHeartbeatACK, fr_Seq = None, fr_Type = None, fr_Data = None\<rparr>"

definition NewDispatchFrame :: "proto \<Rightarrow> int64 \<Rightarrow> string \<Rightarrow> json \<Rightarrow> json" where
  "NewDispatchFrame M seq eventType data =
     js_Frame M \<lparr>fr_Op = opc M OpcodeDispatch, fr_Seq = Some seq, fr_Type = Some eventType, fr_Data = Some data\<rparr>"

definition NewEphemeralDispatchFrame :: "proto \<Rightarrow> string \<Rightarrow> json \<Rightarrow> json" where
  "NewEphemeralDispatchFrame M eventType data =
     js_Frame M \<lparr>fr_Op = opc M OpcodeDispatch, fr_Seq = None, fr_Type = Some eventType, fr_Data = Some data\<rparr>"

definition NewReconnectFrame :: "proto \<Rightarrow> json" where
  "NewReconnectFrame M =
     js_Frame M \<lparr>fr_Op = opc M OpcodeReconnect, fr_Seq = None, fr_Type = None, fr_Data = None\<rparr>"

definition NewInvalidSessionFrame :: "proto \<Rightarrow> bool \<Rightarrow> json" where
  "NewInvalidSessionFrame M resumable =
     js_Frame M \<lparr>fr_Op = opc M OpcodeInvalidSession, fr_Seq = None, fr_Type = None, fr_Data = Some (JBool resumable)\<rparr>"

definition CloseUnknownError :: int where "CloseUnknownError = 4000"
definition CloseUnknownOpcode :: int where "CloseUnknownOpcode = 4001"
definition CloseDecodeError :: int where "CloseDecodeError = 4002"
definition CloseNotAuthenticated :: int where "CloseNotAuthenticated = 4003"
definition CloseAuthFailed :: int where "CloseAuthFailed = 4004"
definition CloseAlreadyAuthenticated :: int where "CloseAlreadyAuthenticated = 4005"
definition CloseRateLimited :: int where "CloseRateLimited = 4008"
definition CloseGoingAway :: int where "CloseGoingAway = 1001"

definition ErrMaxConnections :: error where
  "ErrMaxConnections = Sentinel ''gateway.ErrMaxConnections''"

section \<open>Connections\<close>

datatype wire = Message bytes | CloseMessage int string

record client =
  cl_userID :: uuid
  cl_sessionID :: string
  cl_seq :: int64
  cl_identified :: bool
  cl_send :: "bytes list"
  cl_done :: bool
  cl_eventCount :: int
  cl_windowStart :: time
  cl_open :: bool
  cl_wire :: "wire list"
  cl_writer :: bool
  cl_reader :: bool

definition sendBuffer :: nat where
  "sendBuffer = 256"

text \<open>\<open>newClient\<close> on an open connection, with the goroutines \<open>ServeWebSocket\<close> starts.\<close>

definition newClient :: client where
  "newClient =
     \<lparr>cl_userID = uuid_Nil, cl_sessionID = [], cl_seq = 0, cl_identified = False, cl_send = [],
      cl_done = False, cl_eventCount = 0, cl_windowStart = 0, cl_open = True, cl_wire = [], cl_writer = True,
      cl_reader = True\<rparr>"

definition closeSend :: "client \<Rightarrow> client" where
  "closeSend c = c\<lparr>cl_done := True\<rparr>"

definition conn_write :: "wire \<Rightarrow> client \<Rightarrow> client" where
  "conn_write m c = (if cl_open c then c\<lparr>cl_wire := cl_wire c @ [m]\<rparr> else c)"

definition conn_Close :: "client \<Rightarrow> client" where
  "conn_Close c = c\<lparr>cl_open := False\<rparr>"

definition nextSeq :: "client \<Rightarrow> int64 \<times> client" where
  "nextSeq c = (cl_seq c + 1, c\<lparr>cl_seq := cl_seq c + 1\<rparr>)"

definition client_enqueue :: "bytes \<Rightarrow> client \<Rightarrow> client" where
  "client_enqueue msg c =
     (if cl_done c then c
      else if length (cl_send c) < sendBuffer then c\<lparr>cl_send := cl_send c @ [msg]\<rparr>
      else conn_Close (closeSend c))"

definition closeWithCode :: "int \<Rightarrow> string \<Rightarrow> client \<Rightarrow> client" where
  "closeWithCode code reason c = conn_Close (conn_write (CloseMessage code reason) c)"

definition rateLimited :: "int \<Rightarrow> int \<Rightarrow> time \<Rightarrow> client \<Rightarrow> bool \<times> client" where
  "rateLimited maxCount windowSeconds now c =
     (let c1 = (if now - cl_windowStart c > windowSeconds * 1000
                then c\<lparr>cl_eventCount := 0, cl_windowStart := now\<rparr> else c);
          c2 = c1\<lparr>cl_eventCount := cl_eventCount c1 + 1\<rparr>
      in (cl_eventCount c2 > maxCount, c2))"

text \<open>
  The write loop: a buffered message is written, or the write fails and the loop ends; once
  \<open>done\<close> is closed and the buffer is empty it ends. With an empty buffer and \<open>done\<close> open it waits.
\<close>

inductive writePump :: "client \<Rightarrow> client \<Rightarrow> bool" where
  pump_write: "cl_writer c \<Longrightarrow> cl_open c \<Longrightarrow> cl_send c = m # ms \<Longrightarrow>
     writePump c ((conn_write (Message m) c)\<lparr>cl_send := ms\<rparr>)"
| pump_error: "cl_writer c \<Longrightarrow> cl_send c = m # ms \<Longrightarrow>
     writePump c ((conn_Close c)\<lparr>cl_send := ms, cl_writer := False\<rparr>)"
| pump_stop: "cl_writer c \<Longrightarrow> cl_done c \<Longrightarrow> cl_send c = [] \<Longrightarrow>
     writePump c ((conn_Close c)\<lparr>cl_writer := False\<rparr>)"

inductive_cases writePumpE: "writePump c c'"

section \<open>Send buffer and rate limit\<close>

lemma client_enqueue_fields [simp]:
  "cl_userID (client_enqueue m c) = cl_userID c" "cl_sessionID (client_enqueue m c) = cl_sessionID c"
  "cl_identified (client_enqueue m c) = cl_identified c" "cl_seq (client_enqueue m c) = cl_seq c"
  "cl_wire (client_enqueue m c) = cl_wire c" "cl_reader (client_enqueue m c) = cl_reader c"
  by (simp_all add: client_enqueue_def closeSend_def conn_Close_def)

lemma closeWithCode_fields [simp]:
  "cl_userID (closeWithCode n r c) = cl_userID c" "cl_sessionID (closeWithCode n r c) = cl_sessionID c"
  "cl_identified (closeWithCode n r c) = cl_identified c" "cl_send (closeWithCode n r c) = cl_send c"
  "cl_done (closeWithCode n r c) = cl_done c" "\<not> cl_open (closeWithCode n r c)"
  "cl_reader (closeWithCode n r c) = cl_reader c"
  by (simp_all add: closeWithCode_def conn_write_def conn_Close_def)

lemma closeSend_fields [simp]:
  "cl_userID (closeSend c) = cl_userID c" "cl_sessionID (closeSend c) = cl_sessionID c"
  "cl_identified (closeSend c) = cl_identified c" "cl_send (closeSend c) = cl_send c" "cl_done (closeSend c)"
  "cl_reader (closeSend c) = cl_reader c"
  by (simp_all add: closeSend_def)

lemma client_enqueue_bound:
  "length (cl_send c) \<le> sendBuffer \<Longrightarrow> length (cl_send (client_enqueue m c)) \<le> sendBuffer"
  by (auto simp: client_enqueue_def closeSend_def conn_Close_def)

lemma client_enqueue_cases:
  obtains (queued) "\<not> cl_done c" "cl_send (client_enqueue m c) = cl_send c @ [m]" "cl_done (client_enqueue m c) = cl_done c"
  | (dropped) "cl_send (client_enqueue m c) = cl_send c" "cl_done (client_enqueue m c)"
  by (cases "cl_done c"; cases "length (cl_send c) < sendBuffer")
    (auto simp: client_enqueue_def closeSend_def conn_Close_def)

end
