(* ===== verification/Valkey.thy ===== *)
theory Valkey
  imports Extern "HOL-Library.Finite_Map" "HOL-Library.Char_ord" "HOL-Library.List_Lexorder"
begin

text \<open>
  The Valkey server is a service outside the repository: a parameter \<open>V\<close> of the model with
  one operation, \<open>vk_exec\<close>, which sends one command and returns a reply or an error. The
  locale \<open>valkey_service\<close> states the documented behaviour that theorems rely on: a command
  that is acknowledged has the effect \<open>vk_doc\<close> describes on the server's contents, a
  command that fails has either that effect or none, and \<open>SCAN\<close> keeps the guarantees of a
  full iteration. The commands of a Lua script run as one command. \<open>mem_valkey\<close> is a server
  that behaves exactly as documented; it shows that the assumptions can be met.
\<close>

section \<open>Contents of the server\<close>

datatype rval = VStr bytes | VList "bytes list" | VSet "string set"

record vstore =
  vkeys :: "(string, rval \<times> time option) fmap"
  vclock :: time
  vlog :: "(string \<times> bytes) list"

text \<open>A key whose deadline has passed is treated as absent.\<close>

definition live :: "vstore \<Rightarrow> string \<Rightarrow> rval option" where
  "live st k =
     (case fmlookup (vkeys st) k of
        None \<Rightarrow> None
      | Some (v, None) \<Rightarrow> Some v
      | Some (v, Some d) \<Rightarrow> (if d \<le> vclock st then None else Some v))"

definition vput :: "string \<Rightarrow> rval \<Rightarrow> time option \<Rightarrow> vstore \<Rightarrow> vstore" where
  "vput k v d st = st\<lparr>vkeys := fmupd k (v, d) (vkeys st)\<rparr>"

definition vdrop :: "string \<Rightarrow> vstore \<Rightarrow> vstore" where
  "vdrop k st = st\<lparr>vkeys := fmdrop k (vkeys st)\<rparr>"

definition vdrops :: "string list \<Rightarrow> vstore \<Rightarrow> vstore" where
  "vdrops ks st = fold vdrop ks st"

definition deadline_of :: "vstore \<Rightarrow> string \<Rightarrow> time option" where
  "deadline_of st k = (case fmlookup (vkeys st) k of None \<Rightarrow> None | Some (_, d) \<Rightarrow> d)"

text \<open>A key stays usable for \<open>ttl\<close> milliseconds from the server's clock; \<open>None\<close> is no limit.\<close>

definition until :: "time option \<Rightarrow> vstore \<Rightarrow> time option" where
  "until ttl st = map_option (\<lambda>t. vclock st + t) ttl"

lemma live_vput:
  "live (vput k v d st) k' =
     (if k' = k then (case d of None \<Rightarrow> Some v | Some t \<Rightarrow> if t \<le> vclock st then None else Some v)
      else live st k')"
  by (simp add: live_def vput_def split: option.splits)

lemma live_vput_other [simp]: "k' \<noteq> k \<Longrightarrow> live (vput k v d st) k' = live st k'"
  by (simp add: live_vput)

lemma live_vput_until [simp]:
  "(\<forall>t. ttl = Some t \<longrightarrow> 0 < t) \<Longrightarrow> live (vput k v (until ttl st) st) k = Some v"
  by (auto simp: live_vput until_def split: option.splits)

lemma live_vput_ttl [simp]: "0 < t \<Longrightarrow> live (vput k v (until (Some t) st) st) k = Some v"
  by simp

lemma live_vdrop [simp]: "live (vdrop k st) k' = (if k' = k then None else live st k')"
  by (simp add: live_def vdrop_def split: option.splits prod.splits)

lemma live_vdrops [simp]: "live (vdrops ks st) k' = (if k' \<in> set ks then None else live st k')"
  unfolding vdrops_def by (induction ks arbitrary: st) auto

lemma vclock_upd [simp]:
  "vclock (vput k v d st) = vclock st" "vclock (vdrop k st) = vclock st" "vclock (vdrops ks st) = vclock st"
proof -
  show "vclock (vput k v d st) = vclock st" by (simp add: vput_def)
  show "vclock (vdrop k st) = vclock st" by (simp add: vdrop_def)
  show "vclock (vdrops ks st) = vclock st"
    unfolding vdrops_def by (induction ks arbitrary: st) (auto simp: vdrop_def)
qed

lemma vlog_upd [simp]:
  "vlog (vput k v d st) = vlog st" "vlog (vdrop k st) = vlog st" "vlog (vdrops ks st) = vlog st"
proof -
  show "vlog (vput k v d st) = vlog st" by (simp add: vput_def)
  show "vlog (vdrop k st) = vlog st" by (simp add: vdrop_def)
  show "vlog (vdrops ks st) = vlog st"
    unfolding vdrops_def by (induction ks arbitrary: st) (auto simp: vdrop_def)
qed

lemma live_vlog [simp]: "live (st\<lparr>vlog := l\<rparr>) k = live st k"
  by (simp add: live_def split: option.splits prod.splits)

section \<open>Commands and replies\<close>

datatype reply =
    ROk
  | RNil
  | RBytes bytes
  | RInt int
  | RBulk "bytes option list"
  | RList "bytes list"
  | RMembers "string set"
  | RScan "string list" nat

datatype command =
    GET string
  | SET string bytes "time option"
  | SETNX string bytes time
  | DEL "string list"
  | GETDEL string
  | MGET "string list"
  | EXPIRE string time
  | EXISTS string
  | INCR string
  | RPUSH string bytes
  | LTRIM string int int
  | LRANGE string int int
  | SADD string string
  | SREM string "string list"
  | SMEMBERS string
  | PUBLISH string bytes
  | EVAL "vstore \<Rightarrow> reply result \<times> vstore"
  | SCAN nat string int

definition WRONGTYPE :: error where
  "WRONGTYPE = Ext ''WRONGTYPE Operation against a key holding the wrong kind of value''"

definition NOTINT :: error where
  "NOTINT = Ext ''ERR value is not an integer or out of range''"

text \<open>A list slice with the server's index rules: negative indices count from the end.\<close>

definition lslice :: "int \<Rightarrow> int \<Rightarrow> 'a list \<Rightarrow> 'a list" where
  "lslice start stop xs =
     (let n = int (length xs);
          a = max 0 (if start < 0 then start + n else start);
          b = min (n - 1) (if stop < 0 then stop + n else stop)
      in if b < a then [] else take (nat (b - a + 1)) (drop (nat a) xs))"

lemma lslice_all [simp]: "lslice 0 (-1) xs = xs"
  by (auto simp: lslice_def Let_def)

lemma lslice_last: "0 < m \<Longrightarrow> lslice (- int m) (-1) xs = drop (length xs - m) xs"
  by (auto simp: lslice_def Let_def nat_diff_distrib min_def max_def split: if_splits)

fun rval_bytes :: "rval option \<Rightarrow> bytes option" where
  "rval_bytes (Some (VStr b)) = Some b"
| "rval_bytes _ = None"

text \<open>The documented effect of each command other than \<open>SCAN\<close>.\<close>

fun vk_doc :: "command \<Rightarrow> vstore \<Rightarrow> reply result \<times> vstore" where
  "vk_doc (GET k) st =
     (case live st k of
        None \<Rightarrow> (Inr RNil, st)
      | Some (VStr b) \<Rightarrow> (Inr (RBytes b), st)
      | Some _ \<Rightarrow> (Inl WRONGTYPE, st))"
| "vk_doc (SET k b ttl) st = (Inr ROk, vput k (VStr b) (until ttl st) st)"
| "vk_doc (SETNX k b ttl) st =
     (if live st k = None then (Inr (RInt 1), vput k (VStr b) (until (Some ttl) st) st)
      else (Inr (RInt 0), st))"
| "vk_doc (DEL ks) st =
     (Inr (RInt (int (length (filter (\<lambda>k. live st k \<noteq> None) (remdups ks))))), vdrops ks st)"
| "vk_doc (GETDEL k) st =
     (case live st k of
        None \<Rightarrow> (Inr RNil, st)
      | Some (VStr b) \<Rightarrow> (Inr (RBytes b), vdrop k st)
      | Some _ \<Rightarrow> (Inl WRONGTYPE, st))"
| "vk_doc (MGET ks) st = (Inr (RBulk (map (\<lambda>k. rval_bytes (live st k)) ks)), st)"
| "vk_doc (EXPIRE k ttl) st =
     (case live st k of
        None \<Rightarrow> (Inr (RInt 0), st)
      | Some v \<Rightarrow> (Inr (RInt 1), vput k v (until (Some ttl) st) st))"
| "vk_doc (EXISTS k) st = (Inr (RInt (if live st k = None then 0 else 1)), st)"
| "vk_doc (INCR k) st =
     (case live st k of
        None \<Rightarrow> (Inr (RInt 1), vput k (VStr (Text (FormatInt 1))) None st)
      | Some (VStr (Text s)) \<Rightarrow>
          (case ParseInt64 s of
             None \<Rightarrow> (Inl NOTINT, st)
           | Some n \<Rightarrow>
               (if n < 2 ^ 63 - 1
                then (Inr (RInt (n + 1)), vput k (VStr (Text (FormatInt (n + 1)))) (deadline_of st k) st)
                else (Inl NOTINT, st)))
      | Some (VStr _) \<Rightarrow> (Inl NOTINT, st)
      | Some _ \<Rightarrow> (Inl WRONGTYPE, st))"
| "vk_doc (RPUSH k b) st =
     (case live st k of
        None \<Rightarrow> (Inr (RInt 1), vput k (VList [b]) None st)
      | Some (VList xs) \<Rightarrow>
          (Inr (RInt (int (length xs) + 1)), vput k (VList (xs @ [b])) (deadline_of st k) st)
      | Some _ \<Rightarrow> (Inl WRONGTYPE, st))"
| "vk_doc (LTRIM k i j) st =
     (case live st k of
        None \<Rightarrow> (Inr ROk, st)
      | Some (VList xs) \<Rightarrow>
          (Inr ROk, if lslice i j xs = [] then vdrop k st
                    else vput k (VList (lslice i j xs)) (deadline_of st k) st)
      | Some _ \<Rightarrow> (Inl WRONGTYPE, st))"
| "vk_doc (LRANGE k i j) st =
     (case live st k of
        None \<Rightarrow> (Inr (RList []), st)
      | Some (VList xs) \<Rightarrow> (Inr (RList (lslice i j xs)), st)
      | Some _ \<Rightarrow> (Inl WRONGTYPE, st))"
| "vk_doc (SADD k m) st =
     (case live st k of
        None \<Rightarrow> (Inr (RInt 1), vput k (VSet {m}) None st)
      | Some (VSet S) \<Rightarrow>
          (Inr (RInt (if m \<in> S then 0 else 1)), vput k (VSet (insert m S)) (deadline_of st k) st)
      | Some _ \<Rightarrow> (Inl WRONGTYPE, st))"
| "vk_doc (SREM k ms) st =
     (case live st k of
        None \<Rightarrow> (Inr (RInt 0), st)
      | Some (VSet S) \<Rightarrow>
          (Inr (RInt (int (card (S \<inter> set ms)))),
           if S - set ms = {} then vdrop k st else vput k (VSet (S - set ms)) (deadline_of st k) st)
      | Some _ \<Rightarrow> (Inl WRONGTYPE, st))"
| "vk_doc (SMEMBERS k) st =
     (case live st k of
        None \<Rightarrow> (Inr (RMembers {}), st)
      | Some (VSet S) \<Rightarrow> (Inr (RMembers S), st)
      | Some _ \<Rightarrow> (Inl WRONGTYPE, st))"
| "vk_doc (PUBLISH ch b) st = (Inr (RInt 0), st\<lparr>vlog := vlog st @ [(ch, b)]\<rparr>)"
| "vk_doc (EVAL f) st = f st"
| "vk_doc (SCAN _ _ _) st = (Inr RNil, st)"

fun is_scan :: "command \<Rightarrow> bool" where
  "is_scan (SCAN _ _ _) = True"
| "is_scan _ = False"

lemma live_deadline: "live st k = Some v \<Longrightarrow> live (vput k w (deadline_of st k) st) k = Some w"
  by (auto simp: live_def vput_def deadline_of_def split: option.splits if_splits prod.splits)

section \<open>The service as a parameter\<close>

text \<open>
  Glob patterns as \<open>SCAN ... MATCH\<close> documents them: a star matches any text, a question mark
  any one character. Patterns with brackets or backslashes do not occur in the code.
\<close>

fun glob :: "string \<Rightarrow> string \<Rightarrow> bool" where
  "glob [] s = (s = [])"
| "glob (c # p) [] = (c = CHR ''*'' \<and> glob p [])"
| "glob (c # p) (d # s) =
     (if c = CHR ''*'' then glob p (d # s) \<or> glob (c # p) s
      else (c = CHR ''?'' \<or> c = d) \<and> glob p s)"

definition plain_pattern :: "string \<Rightarrow> bool" where
  "plain_pattern p = (set p \<inter> {CHR ''['', CHR '']'', CHR 0x5C} = {})"

record 'r valkey =
  vk_exec :: "command \<Rightarrow> 'r \<Rightarrow> reply result \<times> 'r"
  vk_store :: "'r \<Rightarrow> vstore"

text \<open>
  A run of \<open>SCAN\<close> calls: each entry holds the server state before a call and the keys the
  call returned; every call passes the cursor the call before it returned. The run
  reaches \<open>c'\<close> when \<open>c'\<close> is the cursor its last call returned, and only that one may be 0.
\<close>

fun scan_run :: "'r valkey \<Rightarrow> string \<Rightarrow> int \<Rightarrow> nat \<Rightarrow> ('r \<times> string list) list \<Rightarrow> nat \<Rightarrow> bool" where
  "scan_run V p n c [] c' = (c = c')"
| "scan_run V p n c ((r, ks) # run) c' =
     (\<exists>c1 r1. vk_exec V (SCAN c p n) r = (Inr (RScan ks c1), r1)
        \<and> (run \<noteq> [] \<longrightarrow> c1 \<noteq> 0) \<and> scan_run V p n c1 run c')"

text \<open>The collection does not grow during the run.\<close>

definition shrinking :: "'r valkey \<Rightarrow> ('r \<times> string list) list \<Rightarrow> bool" where
  "shrinking V run =
     (\<forall>i j k. i \<le> j \<and> j < length run \<and> live (vk_store V (fst (run ! j))) k \<noteq> None \<longrightarrow>
        live (vk_store V (fst (run ! i))) k \<noteq> None)"

text \<open>The client library reports a missing value as a sentinel error of its own.\<close>

definition redis_Nil :: error where
  "redis_Nil = Sentinel ''redis.Nil''"

locale valkey_service =
  fixes V :: "'r valkey"
  assumes exec_ok:
      "\<not> is_scan c \<Longrightarrow> vk_exec V c r = (Inr rep, r') \<Longrightarrow>
         vk_doc c (vk_store V r) = (Inr rep, vk_store V r')"
    and exec_err:
      "\<not> is_scan c \<Longrightarrow> vk_exec V c r = (Inl e, r') \<Longrightarrow>
         vk_store V r' = vk_store V r \<or> vk_store V r' = snd (vk_doc c (vk_store V r))"
    and exec_not_nil: "vk_exec V c r = (Inl e, r') \<Longrightarrow> \<not> errors_Is e redis_Nil"
    and scan_store:
      "vk_exec V (SCAN cur p n) r = (x, r') \<Longrightarrow> vk_store V r' = vk_store V r"
    and scan_sound:
      "plain_pattern p \<Longrightarrow> vk_exec V (SCAN cur p n) r = (Inr rep, r') \<Longrightarrow>
         \<exists>ks cur'. rep = RScan ks cur' \<and> (\<forall>k \<in> set ks. glob p k)"
    and scan_full:
      "plain_pattern p \<Longrightarrow> run \<noteq> [] \<Longrightarrow> scan_run V p n 0 run 0 \<Longrightarrow> glob p k \<Longrightarrow>
         (\<forall>(r, ks) \<in> set run. live (vk_store V r) k \<noteq> None) \<Longrightarrow> \<exists>(r, ks) \<in> set run. k \<in> set ks"
    and scan_ends:
      "\<exists>N. \<forall>run cur. scan_run V p n 0 run cur \<and> run \<noteq> [] \<and> fst (hd run) = r \<and> shrinking V run \<longrightarrow>
         length run \<le> N"
begin

lemma ok_store:
  "vk_exec V c r = (Inr rep, r') \<Longrightarrow> \<not> is_scan c \<Longrightarrow> vk_store V r' = snd (vk_doc c (vk_store V r))"
  by (metis exec_ok snd_conv)

lemma ok_reply:
  "vk_exec V c r = (Inr rep, r') \<Longrightarrow> \<not> is_scan c \<Longrightarrow> fst (vk_doc c (vk_store V r)) = Inr rep"
  by (metis exec_ok fst_conv)

text \<open>Commands that only read leave the contents alone, whatever the outcome.\<close>

lemma exec_read:
  assumes "vk_exec V c r = (x, r')" and "\<not> is_scan c" and "snd (vk_doc c (vk_store V r)) = vk_store V r"
  shows "vk_store V r' = vk_store V r"
  using assms by (cases x) (auto dest: exec_err ok_store)

end

section \<open>Results of the client library\<close>

text \<open>
  A pipeline sends its commands in order and returns the first error among their results.
\<close>

definition redis_unexpected :: error where
  "redis_unexpected = Ext ''redis: unexpected type''"

definition redis_Get :: "'r valkey \<Rightarrow> string \<Rightarrow> (bytes, 'r) call" where
  "redis_Get V k r =
     (case vk_exec V (GET k) r of
        (Inl e, r') \<Rightarrow> (Inl e, r')
      | (Inr (RBytes b), r') \<Rightarrow> (Inr b, r')
      | (Inr RNil, r') \<Rightarrow> (Inl redis_Nil, r')
      | (Inr _, r') \<Rightarrow> (Inl redis_unexpected, r'))"

definition redis_GetDel :: "'r valkey \<Rightarrow> string \<Rightarrow> (bytes, 'r) call" where
  "redis_GetDel V k r =
     (case vk_exec V (GETDEL k) r of
        (Inl e, r') \<Rightarrow> (Inl e, r')
      | (Inr (RBytes b), r') \<Rightarrow> (Inr b, r')
      | (Inr RNil, r') \<Rightarrow> (Inl redis_Nil, r')
      | (Inr _, r') \<Rightarrow> (Inl redis_unexpected, r'))"

definition redis_MGet :: "'r valkey \<Rightarrow> string list \<Rightarrow> (bytes option list, 'r) call" where
  "redis_MGet V ks r =
     (case vk_exec V (MGET ks) r of
        (Inl e, r') \<Rightarrow> (Inl e, r')
      | (Inr (RBulk vs), r') \<Rightarrow> (Inr vs, r')
      | (Inr _, r') \<Rightarrow> (Inl redis_unexpected, r'))"

definition redis_Do :: "'r valkey \<Rightarrow> command \<Rightarrow> (unit, 'r) call" where
  "redis_Do V c r =
     (case vk_exec V c r of (Inl e, r') \<Rightarrow> (Inl e, r') | (Inr _, r') \<Rightarrow> (Inr (), r'))"

definition redis_Int :: "'r valkey \<Rightarrow> command \<Rightarrow> (int, 'r) call" where
  "redis_Int V c r =
     (case vk_exec V c r of
        (Inl e, r') \<Rightarrow> (Inl e, r')
      | (Inr (RInt n), r') \<Rightarrow> (Inr n, r')
      | (Inr _, r') \<Rightarrow> (Inl redis_unexpected, r'))"

definition redis_LRange :: "'r valkey \<Rightarrow> string \<Rightarrow> int \<Rightarrow> int \<Rightarrow> (bytes list, 'r) call" where
  "redis_LRange V k i j r =
     (case vk_exec V (LRANGE k i j) r of
        (Inl e, r') \<Rightarrow> (Inl e, r')
      | (Inr (RList xs), r') \<Rightarrow> (Inr xs, r')
      | (Inr _, r') \<Rightarrow> (Inl redis_unexpected, r'))"

fun redis_Pipeline :: "'r valkey \<Rightarrow> command list \<Rightarrow> (unit, 'r) call" where
  "redis_Pipeline V [] r = (Inr (), r)"
| "redis_Pipeline V (c # cs) r =
     (case vk_exec V c r of
        (Inl e, r') \<Rightarrow> (Inl e, snd (redis_Pipeline V cs r'))
      | (Inr _, r') \<Rightarrow> redis_Pipeline V cs r')"

context valkey_service
begin

text \<open>What each client call returns and leaves behind.\<close>

lemma redis_Get_store: "redis_Get V k r = (x, r') \<Longrightarrow> vk_store V r' = vk_store V r"
  by (rule exec_read [of "GET k" r "fst (vk_exec V (GET k) r)"])
    (auto simp: redis_Get_def split: prod.splits sum.splits reply.splits option.splits rval.splits)

lemma redis_Get_ok: "redis_Get V k r = (Inr b, r') \<Longrightarrow> live (vk_store V r) k = Some (VStr b)"
  by (auto simp: redis_Get_def split: prod.splits sum.splits reply.splits option.splits rval.splits
      dest!: exec_ok [rotated])

lemma redis_Get_nil:
  "redis_Get V k r = (Inl e, r') \<Longrightarrow> errors_Is e redis_Nil \<Longrightarrow> live (vk_store V r) k = None"
  by (auto simp: redis_Get_def redis_unexpected_def redis_Nil_def split: prod.splits sum.splits reply.splits
      option.splits rval.splits dest: exec_not_nil [unfolded redis_Nil_def] dest!: exec_ok [rotated])

lemma redis_GetDel_ok:
  "redis_GetDel V k r = (Inr b, r') \<Longrightarrow>
     live (vk_store V r) k = Some (VStr b) \<and> vk_store V r' = vdrop k (vk_store V r)"
  by (auto simp: redis_GetDel_def split: prod.splits sum.splits reply.splits option.splits rval.splits
      dest!: exec_ok [rotated])

lemma redis_GetDel_none:
  "live (vk_store V r) k = None \<Longrightarrow> \<exists>e r'. redis_GetDel V k r = (Inl e, r') \<and> vk_store V r' = vk_store V r"
  by (auto simp: redis_GetDel_def split: prod.splits sum.splits reply.splits
      dest!: exec_ok [rotated] exec_err [rotated])

lemma redis_MGet_store: "redis_MGet V ks r = (x, r') \<Longrightarrow> vk_store V r' = vk_store V r"
  by (rule exec_read [of "MGET ks" r "fst (vk_exec V (MGET ks) r)"])
    (auto simp: redis_MGet_def split: prod.splits sum.splits reply.splits)

lemma redis_MGet_ok:
  "redis_MGet V ks r = (Inr vs, r') \<Longrightarrow> vs = map (\<lambda>k. rval_bytes (live (vk_store V r) k)) ks"
  by (auto simp: redis_MGet_def split: prod.splits sum.splits reply.splits dest!: exec_ok [rotated])

lemma redis_Do_ok:
  "redis_Do V c r = (Inr u, r') \<Longrightarrow> \<not> is_scan c \<Longrightarrow> vk_store V r' = snd (vk_doc c (vk_store V r))"
  by (auto simp: redis_Do_def split: prod.splits sum.splits dest: ok_store)

lemma redis_Do_err:
  "redis_Do V c r = (Inl e, r') \<Longrightarrow> \<not> is_scan c \<Longrightarrow>
     vk_store V r' = vk_store V r \<or> vk_store V r' = snd (vk_doc c (vk_store V r))"
  by (auto simp: redis_Do_def split: prod.splits sum.splits dest: exec_err)

lemma redis_Int_ok:
  "redis_Int V c r = (Inr n, r') \<Longrightarrow> \<not> is_scan c \<Longrightarrow>
     fst (vk_doc c (vk_store V r)) = Inr (RInt n) \<and> vk_store V r' = snd (vk_doc c (vk_store V r))"
  by (auto simp: redis_Int_def split: prod.splits sum.splits reply.splits dest: ok_store ok_reply)

lemma redis_LRange_store: "redis_LRange V k i j r = (x, r') \<Longrightarrow> vk_store V r' = vk_store V r"
  by (rule exec_read [of "LRANGE k i j" r "fst (vk_exec V (LRANGE k i j) r)"])
    (auto simp: redis_LRange_def split: prod.splits sum.splits reply.splits option.splits rval.splits)

lemma redis_LRange_ok:
  "redis_LRange V k i j r = (Inr xs, r') \<Longrightarrow>
     (case live (vk_store V r) k of
        None \<Rightarrow> xs = [] | Some (VList ys) \<Rightarrow> xs = lslice i j ys | Some _ \<Rightarrow> False)"
  by (auto simp: redis_LRange_def split: prod.splits sum.splits reply.splits option.splits rval.splits
      dest!: exec_ok [rotated])

lemma redis_Pipeline_step:
  assumes "redis_Pipeline V (c # cs) r = (Inr u, r')" and "\<not> is_scan c"
  obtains rep r1 where "vk_doc c (vk_store V r) = (Inr rep, vk_store V r1)" "redis_Pipeline V cs r1 = (Inr u, r')"
  using assms by (auto split: prod.splits sum.splits dest: exec_ok)

lemma redis_Pipeline_ok:
  "redis_Pipeline V cs r = (Inr u, r') \<Longrightarrow> \<forall>c \<in> set cs. \<not> is_scan c \<Longrightarrow>
     vk_store V r' = fold (\<lambda>c st. snd (vk_doc c st)) cs (vk_store V r)"
proof (induction cs arbitrary: r)
  case (Cons c cs)
  then obtain rep r1 where "vk_exec V c r = (Inr rep, r1)" "redis_Pipeline V cs r1 = (Inr u, r')"
    by (auto split: prod.splits sum.splits)
  with Cons show ?case by (auto dest: ok_store)
qed simp

end

section \<open>A server that behaves as documented\<close>

definition mem_scan :: "string \<Rightarrow> vstore \<Rightarrow> string list" where
  "mem_scan p st =
     filter (\<lambda>k. glob p k \<and> live st k \<noteq> None) (sorted_list_of_fset (fmdom (vkeys st)))"

fun mem_exec :: "command \<Rightarrow> vstore \<Rightarrow> reply result \<times> vstore" where
  "mem_exec (SCAN _ p _) st = (Inr (RScan (mem_scan p st) 0), st)"
| "mem_exec c st =
     (case vk_doc c st of
        (Inl e, st') \<Rightarrow> (Inl (if errors_Is e redis_Nil then Ext ''ERR'' else e), st')
      | (Inr rep, st') \<Rightarrow> (Inr rep, st'))"

definition mem_valkey :: "vstore valkey" where
  "mem_valkey = \<lparr>vk_exec = mem_exec, vk_store = (\<lambda>st. st)\<rparr>"

definition vempty :: vstore where
  "vempty = \<lparr>vkeys = fmempty, vclock = 0, vlog = []\<rparr>"

lemma live_vempty [simp]: "live vempty k = None"
  by (simp add: live_def vempty_def)

lemma vempty_parts [simp]: "vclock vempty = 0" "vkeys vempty = fmempty" "vlog vempty = []"
  by (simp_all add: vempty_def)

lemma mem_exec_doc:
  "\<not> is_scan c \<Longrightarrow>
     mem_exec c st =
       (case vk_doc c st of
          (Inl e, st') \<Rightarrow> (Inl (if errors_Is e redis_Nil then Ext ''ERR'' else e), st')
        | (Inr rep, st') \<Rightarrow> (Inr rep, st'))"
  by (cases c) simp_all

lemma mem_scan_complete: "glob p k \<Longrightarrow> live st k \<noteq> None \<Longrightarrow> k \<in> set (mem_scan p st)"
  by (auto simp: mem_scan_def live_def fmdomI sorted_list_of_fset_simps split: option.splits)

lemma mem_scan_run: "scan_run mem_valkey p n c run c' \<Longrightarrow> length run \<le> 1"
  by (cases run; cases "tl run") (auto simp: mem_valkey_def)

interpretation mem: valkey_service mem_valkey
proof unfold_locales
  fix c :: command and r r' :: vstore and rep e x and cur and p k :: string and n :: int
    and run :: "(vstore \<times> string list) list"
  show "\<not> is_scan c \<Longrightarrow> vk_exec mem_valkey c r = (Inr rep, r') \<Longrightarrow>
      vk_doc c (vk_store mem_valkey r) = (Inr rep, vk_store mem_valkey r')"
    by (auto simp: mem_valkey_def mem_exec_doc split: prod.splits sum.splits)
  show "\<not> is_scan c \<Longrightarrow> vk_exec mem_valkey c r = (Inl e, r') \<Longrightarrow>
      vk_store mem_valkey r' = vk_store mem_valkey r
        \<or> vk_store mem_valkey r' = snd (vk_doc c (vk_store mem_valkey r))"
    by (auto simp: mem_valkey_def mem_exec_doc split: prod.splits sum.splits)
  show "vk_exec mem_valkey c r = (Inl e, r') \<Longrightarrow> \<not> errors_Is e redis_Nil"
    by (cases "is_scan c"; cases c)
      (auto simp: mem_valkey_def mem_exec_doc redis_Nil_def split: prod.splits sum.splits if_splits)
  show "vk_exec mem_valkey (SCAN cur p n) r = (x, r') \<Longrightarrow> vk_store mem_valkey r' = vk_store mem_valkey r"
    by (simp add: mem_valkey_def)
  show "plain_pattern p \<Longrightarrow> vk_exec mem_valkey (SCAN cur p n) r = (Inr rep, r') \<Longrightarrow>
      \<exists>ks cur'. rep = RScan ks cur' \<and> (\<forall>k \<in> set ks. glob p k)"
    by (auto simp: mem_valkey_def mem_scan_def)
  show "plain_pattern p \<Longrightarrow> run \<noteq> [] \<Longrightarrow> scan_run mem_valkey p n 0 run 0 \<Longrightarrow> glob p k \<Longrightarrow>
      \<forall>(r, ks) \<in> set run. live (vk_store mem_valkey r) k \<noteq> None \<Longrightarrow>
      \<exists>(r, ks) \<in> set run. k \<in> set ks"
    by (cases run) (auto simp: mem_valkey_def mem_scan_complete)
  show "\<exists>N. \<forall>run cur. scan_run mem_valkey p n 0 run cur \<and> run \<noteq> [] \<and> fst (hd run) = r
      \<and> shrinking mem_valkey run \<longrightarrow> length run \<le> N"
    using mem_scan_run by blast
qed

end
