(* ===== verification/Gateway_Session.thy ===== *)
theory Gateway_Session
  imports Valkey
begin

text \<open>
  \<open>internal/gateway/session.go\<close>: gateway sessions and their replay buffers in Valkey. A session
  is saved when its client disconnects; the replay buffer holds the last frames sent to it,
  capped by \<open>LTRIM\<close>. \<open>replay_items\<close> is the buffer as a list.
\<close>

section \<open>Operations\<close>

definition ErrSessionNotFound :: error where
  "ErrSessionNotFound = Sentinel ''gateway.ErrSessionNotFound''"

record SessionStore =
  ss_ttl :: time
  ss_maxReplay :: nat

definition sessionKey :: "string \<Rightarrow> string" where
  "sessionKey sessionID = ''gwsession:'' @ sessionID"

definition replayKey :: "string \<Rightarrow> string" where
  "replayKey sessionID = ''gwreplay:'' @ sessionID"

definition sessionData :: "uuid_lib \<Rightarrow> uuid \<Rightarrow> int64 \<Rightarrow> int64 \<Rightarrow> bytes" where
  "sessionData U userID lastSeq disconnectedAt = Json (JObj
     [(''user_id'', JStr (uuid_String U userID)), (''last_seq'', JNum (sint lastSeq)),
      (''disconnected_at'', JNum (sint disconnectedAt))])"

text \<open>\<open>unixNow\<close> is \<open>time.Now().Unix()\<close>.\<close>

definition session_Save ::
  "uuid_lib \<Rightarrow> 'r valkey \<Rightarrow> SessionStore \<Rightarrow> int64 \<Rightarrow> string \<Rightarrow> uuid \<Rightarrow> int64 \<Rightarrow> (unit, 'r) call" where
  "session_Save U V s unixNow sessionID userID lastSeq r =
     (case redis_Pipeline V
             [SET (sessionKey sessionID) (sessionData U userID lastSeq unixNow) (Some (ss_ttl s)),
              EXPIRE (replayKey sessionID) (ss_ttl s)] r of
        (Inl e, r') \<Rightarrow> (Inl (Wrap ''save session'' e), r')
      | (Inr _, r') \<Rightarrow> (Inr (), r'))"

record LoadedSession =
  ls_UserID :: uuid
  ls_LastSeq :: int64

definition unmarshal_session :: "bytes \<Rightarrow> (string \<times> int) option" where
  "unmarshal_session b =
     Option.bind (json_object b) (\<lambda>kvs.
     Option.bind (json_read ''user_id'' [] json_string kvs) (\<lambda>u.
     Option.bind (json_read ''last_seq'' 0 json_int64 kvs) (\<lambda>q.
     Option.bind (json_read ''disconnected_at'' 0 json_int64 kvs) (\<lambda>_. Some (u, q)))))"

definition session_Load :: "uuid_lib \<Rightarrow> 'r valkey \<Rightarrow> string \<Rightarrow> (LoadedSession, 'r) call" where
  "session_Load U V sessionID r =
     (case redis_Get V (sessionKey sessionID) r of
        (Inl e, r') \<Rightarrow>
          (if errors_Is e redis_Nil then (Inl ErrSessionNotFound, r') else (Inl (Wrap ''load session'' e), r'))
      | (Inr raw, r') \<Rightarrow>
          (case unmarshal_session raw of
             None \<Rightarrow> (Inl (Wrap ''unmarshal session'' (Ext ''json'')), r')
           | Some (u, q) \<Rightarrow>
               (case uuid_Parse U u of
                  None \<Rightarrow> (Inl (Wrap ''parse session user ID'' (Ext ''uuid'')), r')
                | Some userID \<Rightarrow> (Inr \<lparr>ls_UserID = userID, ls_LastSeq = word_of_int q\<rparr>, r'))))"

definition session_Delete :: "'r valkey \<Rightarrow> string \<Rightarrow> (unit, 'r) call" where
  "session_Delete V sessionID r =
     (case redis_Do V (DEL [sessionKey sessionID, replayKey sessionID]) r of
        (Inl e, r') \<Rightarrow> (Inl (Wrap ''delete session'' e), r')
      | (Inr _, r') \<Rightarrow> (Inr (), r'))"

definition replayEntry :: "int64 \<Rightarrow> json \<Rightarrow> bytes" where
  "replayEntry seq payload = Json (JObj [(''s'', JNum (sint seq)), (''p'', payload)])"

definition AppendReplay ::
  "'r valkey \<Rightarrow> SessionStore \<Rightarrow> string \<Rightarrow> int64 \<Rightarrow> json \<Rightarrow> (unit, 'r) call" where
  "AppendReplay V s sessionID seq payload r =
     (let key = replayKey sessionID
      in case redis_Pipeline V
             [RPUSH key (replayEntry seq payload), LTRIM key (- int (ss_maxReplay s)) (-1), EXPIRE key (ss_ttl s)] r of
           (Inl e, r') \<Rightarrow> (Inl (Wrap ''append replay'' e), r')
         | (Inr _, r') \<Rightarrow> (Inr (), r'))"

text \<open>A \<open>json.RawMessage\<close> that is absent is the empty text.\<close>

definition unmarshal_entry :: "bytes \<Rightarrow> (int \<times> bytes) option" where
  "unmarshal_entry b =
     Option.bind (json_object b) (\<lambda>kvs.
     Option.bind (json_read ''s'' 0 json_int64 kvs) (\<lambda>q.
       Some (q, case json_field ''p'' kvs of None \<Rightarrow> Text [] | Some j \<Rightarrow> Json j)))"

fun collect_replay :: "int64 \<Rightarrow> bytes list \<Rightarrow> bytes list" where
  "collect_replay afterSeq [] = []"
| "collect_replay afterSeq (item # raw) =
     (case unmarshal_entry item of
        None \<Rightarrow> collect_replay afterSeq raw
      | Some (seq, payload) \<Rightarrow>
          (if seq > sint afterSeq then payload # collect_replay afterSeq raw else collect_replay afterSeq raw))"

definition Replay :: "'r valkey \<Rightarrow> string \<Rightarrow> int64 \<Rightarrow> (bytes list, 'r) call" where
  "Replay V sessionID afterSeq r =
     (case redis_LRange V (replayKey sessionID) 0 (-1) r of
        (Inl e, r') \<Rightarrow> (Inl (Wrap ''read replay buffer'' e), r')
      | (Inr raw, r') \<Rightarrow> (Inr (collect_replay afterSeq raw), r'))"

text \<open>\<open>strconv.FormatInt(n, 36)\<close> for the non-negative \<open>UnixNano\<close>.\<close>

fun show36 :: "nat \<Rightarrow> string" where
  "show36 n = (let c = ''0123456789abcdefghijklmnopqrstuvwxyz'' ! (n mod 36)
               in if n < 36 then [c] else show36 (n div 36) @ [c])"

declare show36.simps [simp del]

definition NewSessionID :: "uuid_lib \<Rightarrow> nat \<Rightarrow> uuid \<Rightarrow> string" where
  "NewSessionID U unixNano new = show36 unixNano @ ''-'' @ take 8 (uuid_String U new)"

section \<open>The buffer as a list\<close>

definition replay_items :: "'r valkey \<Rightarrow> 'r \<Rightarrow> string \<Rightarrow> bytes list" where
  "replay_items V r sid = (case live (vk_store V r) (replayKey sid) of Some (VList xs) \<Rightarrow> xs | _ \<Rightarrow> [])"

definition lastn :: "nat \<Rightarrow> 'a list \<Rightarrow> 'a list" where
  "lastn n xs = drop (length xs - n) xs"

text \<open>Appending frames one after the other, each append acknowledged.\<close>

fun append_all :: "'r valkey \<Rightarrow> SessionStore \<Rightarrow> string \<Rightarrow> (int64 \<times> json) list \<Rightarrow> (unit, 'r) call" where
  "append_all V s sid [] r = (Inr (), r)"
| "append_all V s sid ((q, p) # es) r =
     (case AppendReplay V s sid q p r of
        (Inl e, r') \<Rightarrow> (Inl e, r')
      | (Inr _, r') \<Rightarrow> append_all V s sid es r')"

lemma keys_differ [simp]:
  "sessionKey a \<noteq> replayKey b" "replayKey b \<noteq> sessionKey a"
  "sessionKey a = sessionKey b \<longleftrightarrow> a = b" "replayKey a = replayKey b \<longleftrightarrow> a = b"
  by (auto simp: sessionKey_def replayKey_def)

lemma lastn_Nil [simp]: "lastn n [] = []"
  by (simp add: lastn_def)

lemma lastn_lastn: "lastn n (lastn n xs @ [y]) = lastn n (xs @ [y])"
  by (cases "length xs \<le> n") (simp_all add: lastn_def Suc_diff_le)

lemma length_lastn [simp]: "length (lastn n xs) = min n (length xs)"
  by (simp add: lastn_def)

lemma unmarshal_replayEntry [simp]: "unmarshal_entry (replayEntry q p) = Some (sint q, Json p)"
  by (simp add: unmarshal_entry_def replayEntry_def json_read_def json_field_def ascii_lower_def
      del: json_int64.simps)

lemma collect_replay_entries:
  "collect_replay a (map (\<lambda>(q, p). replayEntry q p) es)
     = map (\<lambda>(q, p). Json p) (filter (\<lambda>(q, p). sint q > sint a) es)"
  by (induction es) auto

lemma lslice_lastn: "0 < m \<Longrightarrow> lslice (- int m) (-1) xs = lastn m xs"
  by (simp add: lslice_last lastn_def)

context valkey_service
begin

text \<open>The three commands of an append, in turn.\<close>

lemma AppendReplay_store:
  assumes "AppendReplay V s sid q p r = (Inr (), r')" and "0 < ss_maxReplay s"
  obtains d where "vk_store V r' =
      vput (replayKey sid) (VList (lastn (ss_maxReplay s) (replay_items V r sid @ [replayEntry q p])))
        (until (Some (ss_ttl s)) (vk_store V r)) d"
    and "\<And>k. k \<noteq> replayKey sid \<Longrightarrow> live d k = live (vk_store V r) k" and "vclock d = vclock (vk_store V r)"
proof -
  let ?k = "replayKey sid" and ?e = "replayEntry q p" and ?st = "vk_store V r" and ?m = "ss_maxReplay s"
  have "redis_Pipeline V [RPUSH ?k ?e, LTRIM ?k (- int ?m) (-1), EXPIRE ?k (ss_ttl s)] r = (Inr (), r')"
    using assms(1) by (auto simp: AppendReplay_def Let_def simp del: redis_Pipeline.simps split: prod.splits sum.splits)
  then obtain r1 r2 rep1 rep2 rep3 where
    push: "vk_doc (RPUSH ?k ?e) ?st = (Inr rep1, vk_store V r1)"
    and trim: "vk_doc (LTRIM ?k (- int ?m) (-1)) (vk_store V r1) = (Inr rep2, vk_store V r2)"
    and exp: "vk_doc (EXPIRE ?k (ss_ttl s)) (vk_store V r2) = (Inr rep3, vk_store V r')"
    by (elim redis_Pipeline_step) (auto simp: is_scan.simps)
  let ?xs = "replay_items V r sid"
  have 1: "live (vk_store V r1) ?k = Some (VList (?xs @ [?e]))" "vclock (vk_store V r1) = vclock ?st"
    "\<And>k. k \<noteq> ?k \<Longrightarrow> live (vk_store V r1) k = live ?st k"
    using push
    by (auto simp: replay_items_def live_vput [of _ _ None] live_deadline
        split: option.splits rval.splits dest!: sym [of _ "vk_store V r1"])
  have ne: "lastn ?m (?xs @ [?e]) \<noteq> []" using assms(2) by (simp add: lastn_def)
  have 2: "live (vk_store V r2) ?k = Some (VList (lastn ?m (?xs @ [?e])))" "vclock (vk_store V r2) = vclock ?st"
    "\<And>k. k \<noteq> ?k \<Longrightarrow> live (vk_store V r2) k = live ?st k"
    using trim 1 ne
    by (auto simp: lslice_lastn [OF assms(2)] live_deadline dest!: sym [of _ "vk_store V r2"])
  have "vk_store V r' = vput ?k (VList (lastn ?m (?xs @ [?e]))) (until (Some (ss_ttl s)) (vk_store V r2)) (vk_store V r2)"
    using exp 2(1) by simp
  then show thesis using that [of "vk_store V r2"] 2(2,3) by (simp add: until_def)
qed

lemma AppendReplay_items:
  assumes "AppendReplay V s sid q p r = (Inr (), r')" and "0 < ss_maxReplay s" and "0 < ss_ttl s"
  shows "replay_items V r' sid = lastn (ss_maxReplay s) (replay_items V r sid @ [replayEntry q p])"
    and "k \<noteq> replayKey sid \<Longrightarrow> live (vk_store V r') k = live (vk_store V r) k"
proof -
  from AppendReplay_store [OF assms(1,2)] obtain d where d: "vk_store V r' =
      vput (replayKey sid) (VList (lastn (ss_maxReplay s) (replay_items V r sid @ [replayEntry q p])))
        (until (Some (ss_ttl s)) (vk_store V r)) d"
    "\<And>k. k \<noteq> replayKey sid \<Longrightarrow> live d k = live (vk_store V r) k" "vclock d = vclock (vk_store V r)" by blast
  show "replay_items V r' sid = lastn (ss_maxReplay s) (replay_items V r sid @ [replayEntry q p])"
    using d(1,3) assms(3) by (simp add: replay_items_def live_vput until_def)
  show "k \<noteq> replayKey sid \<Longrightarrow> live (vk_store V r') k = live (vk_store V r) k"
    using d by simp
qed

lemma append_all_items:
  assumes "append_all V s sid es r = (Inr (), r')" and "0 < ss_maxReplay s" and "0 < ss_ttl s"
    and "replay_items V r sid = lastn (ss_maxReplay s) (map (\<lambda>(q, p). replayEntry q p) es0)"
  shows "replay_items V r' sid = lastn (ss_maxReplay s) (map (\<lambda>(q, p). replayEntry q p) (es0 @ es))"
  using assms(1,4)
proof (induction es arbitrary: r es0)
  case (Cons e es)
  obtain q p where e: "e = (q, p)" by fastforce
  with Cons.prems obtain r1 where a: "AppendReplay V s sid q p r = (Inr (), r1)"
    and rest: "append_all V s sid es r1 = (Inr (), r')" by (auto split: prod.splits sum.splits)
  have "replay_items V r1 sid = lastn (ss_maxReplay s) (map (\<lambda>(q, p). replayEntry q p) (es0 @ [e]))"
    using AppendReplay_items(1) [OF a assms(2,3)] Cons.prems(2) e by (simp add: lastn_lastn)
  from Cons.IH [OF rest this] show ?case by simp
qed simp

lemma Replay_items: "Replay V sid a r = (Inr ps, r') \<Longrightarrow> ps = collect_replay a (replay_items V r sid)"
  by (auto simp: Replay_def replay_items_def split: prod.splits sum.splits option.splits rval.splits
      dest!: redis_LRange_ok)

lemma Delete_session:
  "session_Delete V sid r = (Inr (), r') \<Longrightarrow>
     live (vk_store V r') (sessionKey sid) = None \<and> replay_items V r' sid = []
     \<and> (sid' \<noteq> sid \<longrightarrow> live (vk_store V r') (sessionKey sid') = live (vk_store V r) (sessionKey sid')
          \<and> replay_items V r' sid' = replay_items V r sid')"
  by (auto simp: session_Delete_def replay_items_def split: prod.splits sum.splits dest!: redis_Do_ok)

end

locale session_store = uuid_text U + valkey_service V for U :: uuid_lib and V :: "'r valkey"
begin

lemma unmarshal_sessionData [simp]:
  "unmarshal_session (sessionData U u q t) = Some (uuid_String U u, sint q)"
  by (simp add: unmarshal_session_def sessionData_def json_read_def json_field_def ascii_lower_def
      del: json_int64.simps)

lemma Save_live:
  assumes "session_Save U V s now sid u q r = (Inr (), r')" and "0 < ss_ttl s"
  shows "live (vk_store V r') (sessionKey sid) = Some (VStr (sessionData U u q now))"
    and "replay_items V r' sid' = replay_items V r sid'"
proof -
  have "redis_Pipeline V [SET (sessionKey sid) (sessionData U u q now) (Some (ss_ttl s)),
      EXPIRE (replayKey sid) (ss_ttl s)] r = (Inr (), r')"
    using assms(1) by (auto simp: session_Save_def simp del: redis_Pipeline.simps split: prod.splits sum.splits)
  then obtain r1 rep1 rep2 where
    set: "vk_doc (SET (sessionKey sid) (sessionData U u q now) (Some (ss_ttl s))) (vk_store V r) = (Inr rep1, vk_store V r1)"
    and exp: "vk_doc (EXPIRE (replayKey sid) (ss_ttl s)) (vk_store V r1) = (Inr rep2, vk_store V r')"
    by (elim redis_Pipeline_step) (auto simp: is_scan.simps)
  have 1: "live (vk_store V r1) (sessionKey sid) = Some (VStr (sessionData U u q now))"
    "\<And>k. k \<noteq> sessionKey sid \<Longrightarrow> live (vk_store V r1) k = live (vk_store V r) k"
    using set assms(2) by (auto dest!: sym [of _ "vk_store V r1"])
  show "live (vk_store V r') (sessionKey sid) = Some (VStr (sessionData U u q now))"
    using exp 1(1) by (auto split: option.splits dest!: sym [of _ "vk_store V r'"])
  have "live (vk_store V r') (replayKey sid') = live (vk_store V r) (replayKey sid')"
    using exp 1(2) assms(2)
    by (auto simp: live_vput until_def split: option.splits dest!: sym [of _ "vk_store V r'"])
  then show "replay_items V r' sid' = replay_items V r sid'" by (simp add: replay_items_def)
qed

lemma Load_saved:
  assumes "live (vk_store V r) (sessionKey sid) = Some (VStr (sessionData U u q now))"
    and "session_Load U V sid r = (Inr ls, r')"
  shows "ls = \<lparr>ls_UserID = u, ls_LastSeq = q\<rparr>"
proof -
  from assms(2) obtain raw where g: "redis_Get V (sessionKey sid) r = (Inr raw, r')"
    and rest: "(case unmarshal_session raw of
             None \<Rightarrow> (Inl (Wrap ''unmarshal session'' (Ext ''json'')), r')
           | Some (u, q) \<Rightarrow>
               (case uuid_Parse U u of
                  None \<Rightarrow> (Inl (Wrap ''parse session user ID'' (Ext ''uuid'')), r')
                | Some userID \<Rightarrow> (Inr \<lparr>ls_UserID = userID, ls_LastSeq = word_of_int q\<rparr>, r'))) = (Inr ls, r')"
    by (auto simp: session_Load_def split: prod.splits sum.splits if_splits option.splits)
  have "raw = sessionData U u q now" using redis_Get_ok [OF g] assms(1) by simp
  with rest show ?thesis by simp
qed

lemma Load_missing:
  "live (vk_store V r) (sessionKey sid) = None \<Longrightarrow> fst (session_Load U V sid r) \<noteq> Inr ls"
  by (auto simp: session_Load_def split: prod.splits sum.splits if_splits dest!: redis_Get_ok)

end

interpretation mem_sessions: session_store ref_uuid mem_valkey
  by unfold_locales

section \<open>Properties\<close>

text \<open>
  A saved session is loaded with the user and the sequence number it was saved with, and
  saving does not change any replay buffer.
\<close>

theorem session_Save_Load:
  assumes "session_store U V" and "0 < ss_ttl s"
    and "session_Save U V s now sid u q r = (Inr (), r1)" and "session_Load U V sid r1 = (Inr ls, r2)"
  shows "ls = \<lparr>ls_UserID = u, ls_LastSeq = q\<rparr> \<and> (\<forall>sid'. replay_items V r1 sid' = replay_items V r sid')"
  using session_store.Load_saved [OF assms(1) session_store.Save_live(1) [OF assms(1,3,2)] assms(4)]
    session_store.Save_live(2) [OF assms(1,3,2)] by blast

lemma mem_Save:
  "session_Save U mem_valkey \<lparr>ss_ttl = 300000, ss_maxReplay = 2\<rparr> 0 sid u q vempty
     = (Inr (), vput (sessionKey sid) (VStr (sessionData U u q 0)) (Some 300000) vempty)"
  by (simp add: session_Save_def mem_valkey_def until_def)

theorem session_Save_Load_witness:
  "\<exists>r1 r2. session_Save ref_uuid mem_valkey \<lparr>ss_ttl = 300000, ss_maxReplay = 2\<rparr> 0 ''s'' 2 7 vempty = (Inr (), r1)
     \<and> session_Load ref_uuid mem_valkey ''s'' r1 = (Inr \<lparr>ls_UserID = 2, ls_LastSeq = 7\<rparr>, r2)"
proof -
  let ?r1 = "vput (sessionKey ''s'') (VStr (sessionData ref_uuid 2 7 0)) (Some 300000) vempty"
  obtain ls where l: "session_Load ref_uuid mem_valkey ''s'' ?r1 = (Inr ls, ?r1)"
    by (simp add: session_Load_def redis_Get_def mem_valkey_def live_vput vempty_def
        mem_sessions.unmarshal_sessionData)
  from session_Save_Load [OF mem_sessions.session_store_axioms _ mem_Save l] mem_Save l show ?thesis by auto
qed

text \<open>
  Replay is complete and in order up to the cap: after frames were appended to a fresh
  buffer, \<open>Replay\<close> returns, in the order they were sent, exactly the payloads of those among
  the last \<open>maxReplay\<close> frames whose sequence number is greater than the client's.
\<close>

theorem Replay_appended:
  assumes "valkey_service V" and "0 < ss_maxReplay s" and "0 < ss_ttl s" and "replay_items V r sid = []"
    and "append_all V s sid es r = (Inr (), r1)" and "Replay V sid afterSeq r1 = (Inr ps, r2)"
  shows "ps = map (\<lambda>(q, p). Json p) (filter (\<lambda>(q, p). sint q > sint afterSeq) (lastn (ss_maxReplay s) es))"
proof -
  have "replay_items V r1 sid = lastn (ss_maxReplay s) (map (\<lambda>(q, p). replayEntry q p) es)"
    using valkey_service.append_all_items [OF assms(1,5,2,3), of "[]"] assms(4) by simp
  then have "replay_items V r1 sid = map (\<lambda>(q, p). replayEntry q p) (lastn (ss_maxReplay s) es)"
    by (simp add: lastn_def drop_map)
  with valkey_service.Replay_items [OF assms(1,6)] show ?thesis by (simp add: collect_replay_entries)
qed

theorem Replay_appended_witness:
  "\<exists>r1 ps r2. append_all mem_valkey \<lparr>ss_ttl = 300000, ss_maxReplay = 2\<rparr> ''s''
       [(1, JNum 10), (2, JNum 20), (3, JNum 30)] vempty = (Inr (), r1)
     \<and> Replay mem_valkey ''s'' 2 r1 = (Inr [Json (JNum 30)], r2)"
proof -
  obtain r1 where a: "append_all mem_valkey \<lparr>ss_ttl = 300000, ss_maxReplay = 2\<rparr> ''s''
       [(1, JNum 10), (2, JNum 20), (3, JNum 30)] vempty = (Inr (), r1)"
    and l: "\<exists>xs. live r1 (replayKey ''s'') = Some (VList xs)"
    by (simp add: AppendReplay_def mem_valkey_def live_vput until_def vempty_def live_def lslice_def
        vput_def deadline_of_def Let_def)
  from l obtain ps where p: "Replay mem_valkey ''s'' 2 r1 = (Inr ps, r1)"
    by (auto simp: Replay_def redis_LRange_def mem_valkey_def)
  have "replay_items mem_valkey vempty ''s'' = []"
    by (simp add: replay_items_def mem_valkey_def live_def vempty_def)
  from Replay_appended [OF mem.valkey_service_axioms _ _ this a p] a p show ?thesis
    by (simp add: lastn_def)
qed

end
