(* ===== verification/Presence.thy ===== *)
theory Presence
  imports Valkey Protocol
begin

text \<open>
  \<open>internal/presence/presence.go\<close>: presence and typing state in Valkey. Presence keys live for
  two minutes unless refreshed, typing keys for ten seconds.
\<close>

section \<open>Operations\<close>

definition presenceTTL :: time where
  "presenceTTL = 120 * 1000"

definition typingTTL :: time where
  "typingTTL = 10 * 1000"

definition StatusOnline :: string where "StatusOnline = ''online''"
definition StatusIdle :: string where "StatusIdle = ''idle''"
definition StatusDND :: string where "StatusDND = ''dnd''"
definition StatusInvisible :: string where "StatusInvisible = ''invisible''"
definition StatusOffline :: string where "StatusOffline = ''offline''"

lemmas status_defs = StatusOnline_def StatusIdle_def StatusDND_def StatusInvisible_def StatusOffline_def

definition presenceKey :: "uuid_lib \<Rightarrow> uuid \<Rightarrow> string" where
  "presenceKey U userID = ''presence:'' @ uuid_String U userID"

definition typingKey :: "uuid_lib \<Rightarrow> uuid \<Rightarrow> uuid \<Rightarrow> string" where
  "typingKey U channelID userID = ''typing:'' @ uuid_String U channelID @ '':'' @ uuid_String U userID"

definition presence_Set :: "uuid_lib \<Rightarrow> 'r valkey \<Rightarrow> uuid \<Rightarrow> string \<Rightarrow> (unit, 'r) call" where
  "presence_Set U V userID status r =
     (case redis_Do V (SET (presenceKey U userID) (Text status) (Some presenceTTL)) r of
        (Inl e, r') \<Rightarrow> (Inl (Wrap (''set presence for '' @ uuid_String U userID) e), r')
      | (Inr _, r') \<Rightarrow> (Inr (), r'))"

text \<open>A value is read as the string it holds; JSON texts are never stored under these keys.\<close>

fun bytes_text :: "bytes \<Rightarrow> string" where
  "bytes_text (Text s) = s"
| "bytes_text (Json _) = []"

definition presence_Get :: "uuid_lib \<Rightarrow> 'r valkey \<Rightarrow> uuid \<Rightarrow> (string, 'r) call" where
  "presence_Get U V userID r =
     (case redis_Get V (presenceKey U userID) r of
        (Inl e, r') \<Rightarrow>
          (if errors_Is e redis_Nil then (Inr StatusOffline, r')
           else (Inl (Wrap (''get presence for '' @ uuid_String U userID) e), r'))
      | (Inr val, r') \<Rightarrow> (Inr (bytes_text val), r'))"

fun visible_states :: "uuid_lib \<Rightarrow> (uuid \<times> bytes option) list \<Rightarrow> PresenceState list" where
  "visible_states U [] = []"
| "visible_states U ((userID, v) # vs) =
     (case v of
        None \<Rightarrow> visible_states U vs
      | Some b \<Rightarrow>
          (if bytes_text b = StatusInvisible then visible_states U vs
           else \<lparr>ps_UserID = uuid_String U userID, ps_Status = bytes_text b\<rparr> # visible_states U vs))"

definition presence_GetMany :: "uuid_lib \<Rightarrow> 'r valkey \<Rightarrow> uuid list \<Rightarrow> (PresenceState list, 'r) call" where
  "presence_GetMany U V userIDs r =
     (if userIDs = [] then (Inr [], r)
      else case redis_MGet V (map (presenceKey U) userIDs) r of
             (Inl e, r') \<Rightarrow> (Inl (Wrap ''mget presence'' e), r')
           | (Inr vals, r') \<Rightarrow> (Inr (visible_states U (zip userIDs vals)), r'))"

definition presence_Refresh :: "uuid_lib \<Rightarrow> 'r valkey \<Rightarrow> uuid \<Rightarrow> (unit, 'r) call" where
  "presence_Refresh U V userID r =
     (case redis_Do V (EXPIRE (presenceKey U userID) presenceTTL) r of
        (Inl e, r') \<Rightarrow> (Inl (Wrap (''refresh presence for '' @ uuid_String U userID) e), r')
      | (Inr _, r') \<Rightarrow> (Inr (), r'))"

definition presence_Delete :: "uuid_lib \<Rightarrow> 'r valkey \<Rightarrow> uuid \<Rightarrow> (unit, 'r) call" where
  "presence_Delete U V userID r =
     (case redis_Do V (DEL [presenceKey U userID]) r of
        (Inl e, r') \<Rightarrow> (Inl (Wrap (''delete presence for '' @ uuid_String U userID) e), r')
      | (Inr _, r') \<Rightarrow> (Inr (), r'))"

definition SetTyping :: "uuid_lib \<Rightarrow> 'r valkey \<Rightarrow> uuid \<Rightarrow> uuid \<Rightarrow> (bool, 'r) call" where
  "SetTyping U V channelID userID r =
     (case redis_Int V (SETNX (typingKey U channelID userID) (Text ''1'') typingTTL) r of
        (Inl e, r') \<Rightarrow>
          (Inl (Wrap (''set typing for '' @ uuid_String U userID @ '' in '' @ uuid_String U channelID) e), r')
      | (Inr n, r') \<Rightarrow> (Inr (n = 1), r'))"

definition ClearTyping :: "uuid_lib \<Rightarrow> 'r valkey \<Rightarrow> uuid \<Rightarrow> uuid \<Rightarrow> (bool, 'r) call" where
  "ClearTyping U V channelID userID r =
     (case redis_Int V (DEL [typingKey U channelID userID]) r of
        (Inl e, r') \<Rightarrow>
          (Inl (Wrap (''clear typing for '' @ uuid_String U userID @ '' in '' @ uuid_String U channelID) e), r')
      | (Inr n, r') \<Rightarrow> (Inr (n > 0), r'))"

definition ValidStatus :: "string \<Rightarrow> bool" where
  "ValidStatus status \<longleftrightarrow> status \<in> set [StatusOnline, StatusIdle, StatusDND, StatusInvisible]"

section \<open>What the store shows\<close>

text \<open>The stored status of a user; \<open>None\<close> is a user with no presence key.\<close>

definition stored :: "uuid_lib \<Rightarrow> 'r valkey \<Rightarrow> 'r \<Rightarrow> uuid \<Rightarrow> string option" where
  "stored U V r u = map_option bytes_text (rval_bytes (live (vk_store V r) (presenceKey U u)))"

definition typing :: "uuid_lib \<Rightarrow> 'r valkey \<Rightarrow> 'r \<Rightarrow> uuid \<Rightarrow> uuid \<Rightarrow> bool" where
  "typing U V r c u \<longleftrightarrow> live (vk_store V r) (typingKey U c u) \<noteq> None"

text \<open>What others may see of a user: nothing of one who is offline or invisible.\<close>

definition visible :: "uuid_lib \<Rightarrow> 'r valkey \<Rightarrow> 'r \<Rightarrow> uuid \<Rightarrow> PresenceState list" where
  "visible U V r u =
     (case stored U V r u of
        None \<Rightarrow> []
      | Some s \<Rightarrow> if s = StatusInvisible then [] else [\<lparr>ps_UserID = uuid_String U u, ps_Status = s\<rparr>])"

lemma visible_states_map:
  "visible_states U (zip us (map f us)) =
     concat (map (\<lambda>u. case map_option bytes_text (f u) of
        None \<Rightarrow> []
      | Some s \<Rightarrow> if s = StatusInvisible then [] else [\<lparr>ps_UserID = uuid_String U u, ps_Status = s\<rparr>]) us)"
  by (induction us) (auto split: option.splits)

lemma TTL_pos [simp]: "0 < presenceTTL" "0 < typingTTL" "\<not> presenceTTL \<le> 0" "\<not> typingTTL \<le> 0"
  by (simp_all add: presenceTTL_def typingTTL_def)

locale presence_store = uuid_text U + valkey_service V for U :: uuid_lib and V :: "'r valkey"
begin

lemma presenceKey_inj [simp]: "presenceKey U u = presenceKey U v \<longleftrightarrow> u = v"
  by (simp add: presenceKey_def)

lemma typingKey_inj [simp]: "typingKey U c u = typingKey U c' u' \<longleftrightarrow> c = c' \<and> u = u'"
  by (simp add: typingKey_def string_pair_inj)

lemma presence_typing [simp]: "presenceKey U u \<noteq> typingKey U c v" "typingKey U c v \<noteq> presenceKey U u"
  by (simp_all add: presenceKey_def typingKey_def)

lemma GetMany_visible:
  "presence_GetMany U V us r = (Inr ps, r') \<Longrightarrow> ps = concat (map (visible U V r) us)"
  by (auto simp: presence_GetMany_def visible_states_map visible_def [abs_def] stored_def comp_def
      split: if_splits prod.splits sum.splits dest!: redis_MGet_ok)

lemma Set_stored:
  assumes "presence_Set U V u s r = (Inr (), r')"
  shows "stored U V r' v = (if v = u then Some s else stored U V r v)"
    and "typing U V r' = typing U V r"
  using assms
  by (auto simp: presence_Set_def stored_def typing_def fun_eq_iff split: prod.splits sum.splits dest!: redis_Do_ok)

lemma Delete_stored:
  "presence_Delete U V u r = (Inr (), r') \<Longrightarrow> stored U V r' v = (if v = u then None else stored U V r v)"
  by (auto simp: presence_Delete_def stored_def split: prod.splits sum.splits dest!: redis_Do_ok)

lemma Refresh_stored:
  "presence_Refresh U V u r = (Inr (), r') \<Longrightarrow> stored U V r' = stored U V r"
  by (auto simp: presence_Refresh_def stored_def fun_eq_iff live_vput until_def
      split: prod.splits sum.splits option.splits dest!: redis_Do_ok)

lemma Get_stored:
  "presence_Get U V u r = (Inr s, r') \<Longrightarrow>
     s = (case stored U V r u of None \<Rightarrow> StatusOffline | Some t \<Rightarrow> t)"
  by (auto simp: presence_Get_def stored_def split: prod.splits sum.splits if_splits
      dest: redis_Get_ok redis_Get_nil)

lemma SetTyping_ok:
  assumes "SetTyping U V c u r = (Inr b, r')"
  shows "b \<longleftrightarrow> \<not> typing U V r c u"
    and "typing U V r' c' u' \<longleftrightarrow> (c', u') = (c, u) \<or> typing U V r c' u'"
    and "stored U V r' = stored U V r"
  using assms
  by (auto simp: SetTyping_def typing_def stored_def fun_eq_iff live_vput until_def
      split: prod.splits sum.splits if_splits dest!: redis_Int_ok)

lemma ClearTyping_ok:
  assumes "ClearTyping U V c u r = (Inr b, r')"
  shows "b \<longleftrightarrow> typing U V r c u"
    and "typing U V r' c' u' \<longleftrightarrow> (c', u') \<noteq> (c, u) \<and> typing U V r c' u'"
  using assms
  by (auto simp: ClearTyping_def typing_def split: prod.splits sum.splits if_splits dest!: redis_Int_ok)

end

interpretation mem_presence: presence_store ref_uuid mem_valkey
  by unfold_locales

section \<open>Properties\<close>

text \<open>
  Invisible users stay invisible: \<open>GetMany\<close> returns, in order, exactly the users with a live
  presence key whose status is not \<open>invisible\<close>, each with the status last stored.
\<close>

theorem GetMany_hides_invisible:
  assumes "presence_store U V" and "presence_GetMany U V us r = (Inr ps, r')"
  shows "ps = concat (map (visible U V r) us) \<and> (\<forall>p \<in> set ps. ps_Status p \<noteq> StatusInvisible)"
  using presence_store.GetMany_visible [OF assms]
  by (auto simp: visible_def split: option.splits if_splits)

lemma mem_GetMany_Some: "\<exists>ps r'. presence_GetMany U mem_valkey us r = (Inr ps, r')"
  by (simp add: presence_GetMany_def redis_MGet_def mem_valkey_def)

theorem GetMany_hides_invisible_witness:
  "\<exists>ps r'. presence_GetMany ref_uuid mem_valkey [2]
       (snd (presence_Set ref_uuid mem_valkey 2 StatusInvisible vempty)) = (Inr ps, r') \<and> ps = []"
proof -
  let ?r = "snd (presence_Set ref_uuid mem_valkey 2 StatusInvisible vempty)"
  obtain ps r' where g: "presence_GetMany ref_uuid mem_valkey [2] ?r = (Inr ps, r')"
    using mem_GetMany_Some by blast
  have "presence_Set ref_uuid mem_valkey 2 StatusInvisible vempty = (Inr (), ?r)"
    by (simp add: presence_Set_def redis_Do_def mem_valkey_def)
  from mem_presence.Set_stored(1) [OF this, of 2] GetMany_hides_invisible [OF mem_presence.presence_store_axioms g] g
  show ?thesis by (auto simp: visible_def)
qed

text \<open>
  Typing indicators are deduplicated: the first \<open>SetTyping\<close> for a channel and user reports a
  new indicator, a second one while it lives reports none, and \<open>ClearTyping\<close> reports whether
  there was one to clear; no presence is affected by the indicator.
\<close>

theorem typing_deduplicated:
  assumes "presence_store U V" and "SetTyping U V c u r = (Inr b1, r1)"
    and "SetTyping U V c u r1 = (Inr b2, r2)" and "ClearTyping U V c u r2 = (Inr b3, r3)"
    and "SetTyping U V c u r3 = (Inr b4, r4)"
  shows "(b1 \<longleftrightarrow> \<not> typing U V r c u) \<and> \<not> b2 \<and> b3 \<and> b4 \<and> stored U V r1 = stored U V r"
proof -
  note st = presence_store.SetTyping_ok [OF assms(1)] and cl = presence_store.ClearTyping_ok [OF assms(1)]
  have "b1 \<longleftrightarrow> \<not> typing U V r c u" "typing U V r1 c u" "stored U V r1 = stored U V r"
    using st [OF assms(2)] by auto
  moreover have "\<not> b2" "typing U V r2 c u" using st [OF assms(3)] \<open>typing U V r1 c u\<close> by auto
  moreover have "b3" "\<not> typing U V r3 c u" using cl [OF assms(4)] \<open>typing U V r2 c u\<close> by auto
  moreover have "b4" using st(1) [OF assms(5)] \<open>\<not> typing U V r3 c u\<close> by simp
  ultimately show ?thesis by blast
qed

lemma mem_typing_returns:
  "\<exists>b r'. SetTyping U mem_valkey c u r = (Inr b, r')" "\<exists>b r'. ClearTyping U mem_valkey c u r = (Inr b, r')"
  by (auto simp: SetTyping_def ClearTyping_def redis_Int_def mem_valkey_def)

theorem typing_deduplicated_witness:
  "\<exists>r1 r2. SetTyping ref_uuid mem_valkey 10 2 vempty = (Inr True, r1)
     \<and> SetTyping ref_uuid mem_valkey 10 2 r1 = (Inr False, r2)"
proof -
  obtain b1 r1 where 1: "SetTyping ref_uuid mem_valkey 10 2 vempty = (Inr b1, r1)" using mem_typing_returns by blast
  obtain b2 r2 where 2: "SetTyping ref_uuid mem_valkey 10 2 r1 = (Inr b2, r2)" using mem_typing_returns by blast
  obtain b3 r3 where 3: "ClearTyping ref_uuid mem_valkey 10 2 r2 = (Inr b3, r3)" using mem_typing_returns by blast
  obtain b4 r4 where 4: "SetTyping ref_uuid mem_valkey 10 2 r3 = (Inr b4, r4)" using mem_typing_returns by blast
  from typing_deduplicated [OF mem_presence.presence_store_axioms 1 2 3 4] 1 2
  show ?thesis by (simp add: typing_def mem_valkey_def vempty_def live_def)
qed

end
