(* ===== verification/Auth_Tokens.thy ===== *)
theory Auth_Tokens
  imports Valkey
begin

text \<open>
  The token stores of \<open>internal/auth\<close> in Valkey: refresh tokens (\<open>refresh.go\<close>), gateway tickets
  (\<open>gateway_ticket.go\<close>), MFA tickets (\<open>mfa_ticket.go\<close>) and pending MFA setups (\<open>mfa_pending.go\<close>). A
  Lua script is the sequence of commands it calls, run as one \<open>EVAL\<close>; an error of a command
  ends the script and keeps what it has done. New identifiers are arguments.
\<close>

section \<open>Errors\<close>

definition ErrRefreshTokenReused :: error where
  "ErrRefreshTokenReused = Sentinel ''auth.ErrRefreshTokenReused''"

definition ErrInvalidToken :: error where
  "ErrInvalidToken = Sentinel ''auth.ErrInvalidToken''"

definition ErrRefreshTokenNotFound :: error where
  "ErrRefreshTokenNotFound = Sentinel ''auth.ErrRefreshTokenNotFound''"

section \<open>Scripts\<close>

text \<open>\<open>redis.call\<close>, and the script's result as the client library returns it.\<close>

definition lua :: "command \<Rightarrow> (reply \<Rightarrow> vstore \<Rightarrow> reply result \<times> vstore) \<Rightarrow> vstore \<Rightarrow> reply result \<times> vstore" where
  "lua c k st = (case vk_doc c st of (Inl e, st') \<Rightarrow> (Inl e, st') | (Inr rep, st') \<Rightarrow> k rep st')"

definition redis_Eval :: "'r valkey \<Rightarrow> (vstore \<Rightarrow> reply result \<times> vstore) \<Rightarrow> (reply, 'r) call" where
  "redis_Eval V script r =
     (case vk_exec V (EVAL script) r of
        (Inl e, r') \<Rightarrow> (Inl e, r')
      | (Inr RNil, r') \<Rightarrow> (Inl redis_Nil, r')
      | (Inr rep, r') \<Rightarrow> (Inr rep, r'))"

section \<open>Refresh tokens\<close>

definition refreshKey :: "string \<Rightarrow> string" where
  "refreshKey token = ''refresh:'' @ token"

definition userSetKey :: "string \<Rightarrow> string" where
  "userSetKey userId = ''user_refresh:'' @ userId"

definition userRefreshKey :: "uuid_lib \<Rightarrow> uuid \<Rightarrow> string" where
  "userRefreshKey U userID = userSetKey (uuid_String U userID)"

fun reply_text :: "reply \<Rightarrow> string" where
  "reply_text (RBytes (Text s)) = s"
| "reply_text _ = []"

fun reply_members :: "reply \<Rightarrow> string set" where
  "reply_members (RMembers S) = S"
| "reply_members _ = {}"

text \<open>The members of a set in some order; the ones whose token key no longer exists are stale.\<close>

definition stale_members :: "reply \<Rightarrow> vstore \<Rightarrow> string list" where
  "stale_members members st =
     filter (\<lambda>m. fst (vk_doc (EXISTS (refreshKey m)) st) = Inr (RInt 0))
       (sorted_list_of_set (reply_members members))"

definition drop_stale :: "string \<Rightarrow> (vstore \<Rightarrow> reply result \<times> vstore) \<Rightarrow> vstore \<Rightarrow> reply result \<times> vstore" where
  "drop_stale setKey k =
     lua (SMEMBERS setKey) (\<lambda>members st.
       let stale = stale_members members st
       in if stale \<noteq> [] then lua (SREM setKey stale) (\<lambda>_. k) st else k st)"

definition store_token ::
  "string \<Rightarrow> bytes \<Rightarrow> string \<Rightarrow> string \<Rightarrow> time \<Rightarrow> reply \<Rightarrow> vstore \<Rightarrow> reply result \<times> vstore" where
  "store_token tokenKey userId setKey token ttl result =
     lua (SET tokenKey userId (Some ttl)) (\<lambda>_.
     lua (SADD setKey token) (\<lambda>_.
     lua (EXPIRE setKey ttl) (\<lambda>_ st. (Inr result, st))))"

definition rotateScript :: "string \<Rightarrow> string \<Rightarrow> time \<Rightarrow> vstore \<Rightarrow> reply result \<times> vstore" where
  "rotateScript oldToken newToken ttl =
     lua (GET (refreshKey oldToken)) (\<lambda>userId.
       case userId of
         RNil \<Rightarrow> (\<lambda>st. (Inr RNil, st))
       | _ \<Rightarrow>
           (let setKey = userSetKey (reply_text userId)
            in lua (DEL [refreshKey oldToken]) (\<lambda>_.
               lua (SREM setKey [oldToken]) (\<lambda>_.
               drop_stale setKey
                 (store_token (refreshKey newToken) (Text (reply_text userId)) setKey newToken ttl userId)))))"

definition createScript :: "string \<Rightarrow> string \<Rightarrow> time \<Rightarrow> vstore \<Rightarrow> reply result \<times> vstore" where
  "createScript userId token ttl =
     drop_stale (userSetKey userId)
       (store_token (refreshKey token) (Text userId) (userSetKey userId) token ttl (RInt 1))"

definition revokeAllScript :: "string \<Rightarrow> vstore \<Rightarrow> reply result \<times> vstore" where
  "revokeAllScript setKey =
     lua (SMEMBERS setKey) (\<lambda>members.
       let tokens = sorted_list_of_set (reply_members members);
           done = lua (DEL [setKey]) (\<lambda>_ st. (Inr (RInt (int (length tokens))), st))
       in if tokens \<noteq> [] then lua (DEL (map refreshKey tokens)) (\<lambda>_. done) else done)"

text \<open>\<open>int(ttl.Seconds())\<close>: whole seconds.\<close>

definition whole_seconds :: "time \<Rightarrow> time" where
  "whole_seconds ttl = (ttl div 1000) * 1000"

definition CreateRefreshToken :: "uuid_lib \<Rightarrow> 'r valkey \<Rightarrow> uuid \<Rightarrow> uuid \<Rightarrow> time \<Rightarrow> (string, 'r) call" where
  "CreateRefreshToken U V new userID ttl r =
     (let token = uuid_String U new
      in case redis_Eval V (createScript (uuid_String U userID) token (whole_seconds ttl)) r of
           (Inl e, r') \<Rightarrow> (Inl (Wrap ''create refresh token'' e), r')
         | (Inr _, r') \<Rightarrow> (Inr token, r'))"

fun text_of :: "bytes \<Rightarrow> string" where
  "text_of (Text s) = s"
| "text_of (Json _) = []"

definition ValidateRefreshToken :: "uuid_lib \<Rightarrow> 'r valkey \<Rightarrow> string \<Rightarrow> (uuid, 'r) call" where
  "ValidateRefreshToken U V token r =
     (case redis_Get V (refreshKey token) r of
        (Inl e, r') \<Rightarrow>
          (if errors_Is e redis_Nil then (Inl ErrRefreshTokenNotFound, r')
           else (Inl (Wrap ''get refresh token'' e), r'))
      | (Inr val, r') \<Rightarrow>
          (case uuid_Parse U (text_of val) of
             None \<Rightarrow> (Inl (Wrap ''parse user ID from refresh token'' (Ext ''uuid'')), r')
           | Some userID \<Rightarrow> (Inr userID, r')))"

definition RotateRefreshToken ::
  "uuid_lib \<Rightarrow> 'r valkey \<Rightarrow> uuid \<Rightarrow> string \<Rightarrow> time \<Rightarrow> (string \<times> uuid, 'r) call" where
  "RotateRefreshToken U V new oldToken ttl r =
     (let newToken = uuid_String U new
      in case redis_Eval V (rotateScript oldToken newToken (whole_seconds ttl)) r of
           (Inl e, r') \<Rightarrow>
             (if errors_Is e redis_Nil then (Inl ErrRefreshTokenReused, r')
              else (Inl (Wrap ''rotate refresh token'' e), r'))
         | (Inr result, r') \<Rightarrow>
             (case uuid_Parse U (reply_text result) of
                None \<Rightarrow> (Inl (Wrap ''parse user ID from refresh token'' (Ext ''uuid'')), r')
              | Some userID \<Rightarrow> (Inr (newToken, userID), r')))"

definition RevokeAllRefreshTokens :: "uuid_lib \<Rightarrow> 'r valkey \<Rightarrow> uuid \<Rightarrow> (unit, 'r) call" where
  "RevokeAllRefreshTokens U V userID r =
     (case redis_Eval V (revokeAllScript (userRefreshKey U userID)) r of
        (Inl e, r') \<Rightarrow>
          (if errors_Is e redis_Nil then (Inr (), r') else (Inl (Wrap ''revoke refresh tokens'' e), r'))
      | (Inr _, r') \<Rightarrow> (Inr (), r'))"

section \<open>Tickets\<close>

definition GatewayTicketTTL :: time where
  "GatewayTicketTTL = 30 * 1000"

definition gatewayTicketKey :: "string \<Rightarrow> string" where
  "gatewayTicketKey ticket = ''gateway_ticket:'' @ ticket"

definition mfaTicketKey :: "string \<Rightarrow> string" where
  "mfaTicketKey ticket = ''mfa_ticket:'' @ ticket"

definition CreateGatewayTicket :: "uuid_lib \<Rightarrow> 'r valkey \<Rightarrow> uuid \<Rightarrow> uuid \<Rightarrow> (string, 'r) call" where
  "CreateGatewayTicket U V new userID r =
     (let ticket = uuid_String U new
      in case redis_Do V (SET (gatewayTicketKey ticket) (Text (uuid_String U userID)) (Some GatewayTicketTTL)) r of
           (Inl e, r') \<Rightarrow> (Inl (Wrap ''store gateway ticket'' e), r')
         | (Inr _, r') \<Rightarrow> (Inr ticket, r'))"

definition ConsumeGatewayTicket :: "uuid_lib \<Rightarrow> 'r valkey \<Rightarrow> string \<Rightarrow> (uuid, 'r) call" where
  "ConsumeGatewayTicket U V ticket r =
     (case redis_GetDel V (gatewayTicketKey ticket) r of
        (Inl e, r') \<Rightarrow>
          (if errors_Is e redis_Nil then (Inl ErrInvalidToken, r') else (Inl (Wrap ''consume gateway ticket'' e), r'))
      | (Inr val, r') \<Rightarrow>
          (case uuid_Parse U (text_of val) of
             None \<Rightarrow> (Inl (Wrap ''parse user ID from gateway ticket'' (Ext ''uuid'')), r')
           | Some userID \<Rightarrow> (Inr userID, r')))"

definition CreateMFATicket :: "uuid_lib \<Rightarrow> 'r valkey \<Rightarrow> uuid \<Rightarrow> uuid \<Rightarrow> time \<Rightarrow> (string, 'r) call" where
  "CreateMFATicket U V new userID ttl r =
     (let ticket = uuid_String U new
      in case redis_Do V (SET (mfaTicketKey ticket) (Text (uuid_String U userID)) (Some ttl)) r of
           (Inl e, r') \<Rightarrow> (Inl (Wrap ''store MFA ticket'' e), r')
         | (Inr _, r') \<Rightarrow> (Inr ticket, r'))"

definition ConsumeMFATicket :: "uuid_lib \<Rightarrow> 'r valkey \<Rightarrow> string \<Rightarrow> (uuid, 'r) call" where
  "ConsumeMFATicket U V ticket r =
     (case redis_GetDel V (mfaTicketKey ticket) r of
        (Inl e, r') \<Rightarrow>
          (if errors_Is e redis_Nil then (Inl ErrInvalidToken, r') else (Inl (Wrap ''consume MFA ticket'' e), r'))
      | (Inr val, r') \<Rightarrow>
          (case uuid_Parse U (text_of val) of
             None \<Rightarrow> (Inl (Wrap ''parse user ID from MFA ticket'' (Ext ''uuid'')), r')
           | Some userID \<Rightarrow> (Inr userID, r')))"

section \<open>Pending MFA setup\<close>

definition pendingMFATTL :: time where
  "pendingMFATTL = 10 * 60 * 1000"

definition maxMFASetupAttempts :: int where
  "maxMFASetupAttempts = 5"

definition mfaPendingKey :: "uuid_lib \<Rightarrow> uuid \<Rightarrow> string" where
  "mfaPendingKey U userID = ''mfa_pending:'' @ uuid_String U userID"

definition mfaPendingAttemptsKey :: "uuid_lib \<Rightarrow> uuid \<Rightarrow> string" where
  "mfaPendingAttemptsKey U userID = ''mfa_pending_attempts:'' @ uuid_String U userID"

definition StorePendingMFASecret :: "uuid_lib \<Rightarrow> 'r valkey \<Rightarrow> uuid \<Rightarrow> string \<Rightarrow> (unit, 'r) call" where
  "StorePendingMFASecret U V userID encryptedSecret r =
     (case redis_Do V (SET (mfaPendingKey U userID) (Text encryptedSecret) (Some pendingMFATTL)) r of
        (Inl e, r') \<Rightarrow> (Inl (Wrap ''store pending MFA secret'' e), r')
      | (Inr _, r') \<Rightarrow> (Inr (), r'))"

definition ConsumePendingMFASecret :: "uuid_lib \<Rightarrow> 'r valkey \<Rightarrow> uuid \<Rightarrow> (string, 'r) call" where
  "ConsumePendingMFASecret U V userID r =
     (case redis_GetDel V (mfaPendingKey U userID) r of
        (Inl e, r') \<Rightarrow>
          (if errors_Is e redis_Nil then (Inl ErrInvalidToken, r')
           else (Inl (Wrap ''consume pending MFA secret'' e), r'))
      | (Inr val, r') \<Rightarrow> (Inr (text_of val), r'))"

definition incrWithTTL :: "string \<Rightarrow> time \<Rightarrow> vstore \<Rightarrow> reply result \<times> vstore" where
  "incrWithTTL key ttl =
     lua (INCR key) (\<lambda>count.
       if count = RInt 1 then lua (EXPIRE key ttl) (\<lambda>_ st. (Inr count, st)) else (\<lambda>st. (Inr count, st)))"

definition IncrementMFASetupAttempts :: "uuid_lib \<Rightarrow> 'r valkey \<Rightarrow> uuid \<Rightarrow> (int, 'r) call" where
  "IncrementMFASetupAttempts U V userID r =
     (case redis_Eval V (incrWithTTL (mfaPendingAttemptsKey U userID) (whole_seconds pendingMFATTL)) r of
        (Inl e, r') \<Rightarrow> (Inl (Wrap ''increment MFA setup attempts'' e), r')
      | (Inr (RInt n), r') \<Rightarrow> (Inr n, r')
      | (Inr _, r') \<Rightarrow> (Inl (Wrap ''increment MFA setup attempts'' redis_unexpected), r'))"

definition ResetMFASetupAttempts :: "uuid_lib \<Rightarrow> 'r valkey \<Rightarrow> uuid \<Rightarrow> (unit, 'r) call" where
  "ResetMFASetupAttempts U V userID r =
     (case redis_Do V (DEL [mfaPendingAttemptsKey U userID]) r of
        (Inl e, r') \<Rightarrow> (Inl (Wrap ''reset MFA setup attempts'' e), r')
      | (Inr _, r') \<Rightarrow> (Inr (), r'))"

section \<open>What the scripts do\<close>

text \<open>Two states that agree outside a set of keys, in contents and deadlines.\<close>

definition agree_off :: "string set \<Rightarrow> vstore \<Rightarrow> vstore \<Rightarrow> bool" where
  "agree_off K st st' \<longleftrightarrow>
     vclock st' = vclock st \<and> (\<forall>k. k \<notin> K \<longrightarrow> live st' k = live st k \<and> deadline_of st' k = deadline_of st k)"

definition members_of :: "vstore \<Rightarrow> string \<Rightarrow> string set" where
  "members_of st k = (case live st k of Some (VSet S) \<Rightarrow> S | _ \<Rightarrow> {})"

definition set_key :: "vstore \<Rightarrow> string \<Rightarrow> bool" where
  "set_key st k \<longleftrightarrow> (\<forall>v. live st k = Some v \<longrightarrow> (\<exists>S. v = VSet S \<and> finite S))"

lemma key_neq [simp]:
  "refreshKey t \<noteq> userSetKey u" "userSetKey u \<noteq> refreshKey t"
  "refreshKey t = refreshKey t' \<longleftrightarrow> t = t'" "userSetKey u = userSetKey u' \<longleftrightarrow> u = u'"
  by (simp_all add: refreshKey_def userSetKey_def)

lemma deadline_vput [simp]: "deadline_of (vput k v d st) k' = (if k' = k then d else deadline_of st k')"
  by (simp add: deadline_of_def vput_def)

lemma deadline_vdrop [simp]: "deadline_of (vdrop k st) k' = (if k' = k then None else deadline_of st k')"
  by (simp add: deadline_of_def vdrop_def)

lemma deadline_vdrops [simp]: "deadline_of (vdrops ks st) k' = (if k' \<in> set ks then None else deadline_of st k')"
  unfolding vdrops_def by (induction ks arbitrary: st) auto

lemma agree_off_refl [simp]: "agree_off K st st"
  by (simp add: agree_off_def)

lemma agree_off_trans: "agree_off K st st1 \<Longrightarrow> agree_off K st1 st2 \<Longrightarrow> agree_off K st st2"
  by (simp add: agree_off_def)

lemma agree_off_mono: "agree_off K st st' \<Longrightarrow> K \<subseteq> K' \<Longrightarrow> agree_off K' st st'"
  by (auto simp: agree_off_def)

lemma set_key_cases:
  assumes "set_key st k"
  obtains "live st k = None" "members_of st k = {}" | S where "live st k = Some (VSet S)" "finite S" "members_of st k = S"
  using assms by (cases "live st k") (auto simp: set_key_def members_of_def)

lemma lua_ok: "vk_doc c st = (Inr rep, st') \<Longrightarrow> lua c k st = k rep st'"
  by (simp add: lua_def)

text \<open>Removing stale members keeps exactly those whose token is alive.\<close>

lemma drop_stale_run:
  assumes "set_key st k"
  obtains st' where "drop_stale k f st = f st'" "agree_off {k} st st'" "set_key st' k"
    "members_of st' k = {m \<in> members_of st k. live st (refreshKey m) \<noteq> None}"
    "live st' k \<noteq> None \<Longrightarrow> deadline_of st' k = deadline_of st k"
  using assms
proof (cases rule: set_key_cases)
  case 1
  then show thesis using that [of st] assms
    by (auto simp: drop_stale_def lua_def stale_members_def Let_def)
next
  case (2 S)
  define stale where "stale = stale_members (RMembers S) st"
  have stale: "set stale = {m \<in> S. live st (refreshKey m) = None}"
    using 2(2) by (auto simp: stale_def stale_members_def split: if_splits)
  define K where "K = {m \<in> S. live st (refreshKey m) \<noteq> None}"
  have keep: "S - set stale = K" using stale by (auto simp: K_def)
  have mem: "{m \<in> members_of st k. live st (refreshKey m) \<noteq> None} = K" using 2 by (simp add: K_def)
  show thesis
  proof (cases "stale = []")
    case True
    with stale have "K = S" by (auto simp: K_def)
    with 2 True assms show thesis using that [of st] unfolding mem
      by (auto simp: drop_stale_def lua_def Let_def stale_def)
  next
    case False
    define st' where "st' = (if K = {} then vdrop k st else vput k (VSet K) (deadline_of st k) st)"
    have "drop_stale k f st = f st'"
      using 2(1) False by (simp add: drop_stale_def lua_def Let_def stale_def [symmetric] keep st'_def)
    moreover have l: "live st' k = (if K = {} then None else Some (VSet K))"
      using live_deadline [OF 2(1)] by (simp add: st'_def)
    moreover have "members_of st' k = K" "set_key st' k"
      using l 2(2) by (auto simp: members_of_def set_key_def K_def)
    moreover have "agree_off {k} st st'" "live st' k \<noteq> None \<Longrightarrow> deadline_of st' k = deadline_of st k"
      using l by (auto simp: agree_off_def st'_def)
    ultimately show thesis using that [of st'] unfolding mem by blast
  qed
qed

text \<open>Storing a token sets its key and enters it in the user's set, both with the same lifetime.\<close>

lemma store_token_run:
  assumes "set_key st k" and "tk \<noteq> k" and "0 < ttl"
  obtains st' where "store_token tk uid k token ttl res st = (Inr res, st')" "agree_off {tk, k} st st'"
    "live st' tk = Some (VStr uid)" "deadline_of st' tk = Some (vclock st + ttl)"
    "live st' k = Some (VSet (insert token (members_of st k)))" "deadline_of st' k = Some (vclock st + ttl)"
proof -
  let ?S = "insert token (members_of st k)"
  define st1 where "st1 = vput tk (VStr uid) (Some (vclock st + ttl)) st"
  have l1: "live st1 k = live st k" using assms(2) by (simp add: st1_def)
  define st2 where "st2 = vput k (VSet ?S) (if live st k = None then None else deadline_of st1 k) st1"
  have sadd: "vk_doc (SADD k token) st1 = (Inr (RInt (if token \<in> members_of st k then 0 else 1)), st2)"
    using assms(1) l1 by (cases rule: set_key_cases) (simp_all add: st2_def)
  have l2: "live st2 k = Some (VSet ?S)"
    using l1 live_deadline [of st1 k] by (cases "live st k") (simp_all add: st2_def live_vput [of _ _ None])
  let ?st' = "vput k (VSet ?S) (Some (vclock st + ttl)) st2"
  have "store_token tk uid k token ttl res st = (Inr res, ?st')"
    using sadd l2 by (simp add: store_token_def lua_def until_def st1_def [symmetric])
      (simp add: st2_def st1_def)
  moreover have "agree_off {tk, k} st ?st'"
    by (auto simp: agree_off_def st2_def st1_def)
  ultimately show thesis
    using that [of ?st'] assms(2,3) by (auto simp: st2_def st1_def live_vput)
qed

section \<open>The index of tokens\<close>

text \<open>
  Every live token names a user whose set contains it and lives at least as long; lifetimes
  are at most \<open>ttl\<close>.
\<close>

definition indexed :: "time \<Rightarrow> vstore \<Rightarrow> string \<Rightarrow> bool" where
  "indexed ttl st t \<longleftrightarrow>
     (\<exists>u d D. live st (refreshKey t) = Some (VStr (Text u)) \<and> t \<in> members_of st (userSetKey u)
        \<and> deadline_of st (refreshKey t) = Some d \<and> deadline_of st (userSetKey u) = Some D
        \<and> d \<le> D \<and> d \<le> vclock st + ttl)"

definition index_ok :: "time \<Rightarrow> vstore \<Rightarrow> bool" where
  "index_ok ttl st \<longleftrightarrow>
     (\<forall>t. live st (refreshKey t) \<noteq> None \<longrightarrow> indexed ttl st t) \<and> (\<forall>u. set_key st (userSetKey u))"

lemma index_okD:
  "index_ok ttl st \<Longrightarrow> live st (refreshKey t) \<noteq> None \<Longrightarrow> indexed ttl st t"
  "index_ok ttl st \<Longrightarrow> set_key st (userSetKey u)"
  by (auto simp: index_ok_def)

lemma members_live: "m \<in> members_of st k \<Longrightarrow> live st k \<noteq> None"
  by (auto simp: members_of_def split: option.splits)

text \<open>Stale members may be dropped.\<close>

lemma drop_stale_index:
  assumes "index_ok ttl st" and "agree_off {userSetKey u} st st'" and "set_key st' (userSetKey u)"
    and "{m \<in> members_of st (userSetKey u). live st (refreshKey m) \<noteq> None} \<subseteq> members_of st' (userSetKey u)"
    and "live st' (userSetKey u) \<noteq> None \<Longrightarrow> deadline_of st' (userSetKey u) = deadline_of st (userSetKey u)"
  shows "index_ok ttl st'"
  unfolding index_ok_def
proof (intro conjI allI impI)
  fix t assume t: "live st' (refreshKey t) \<noteq> None"
  have same: "live st' (refreshKey t) = live st (refreshKey t)"
    "deadline_of st' (refreshKey t) = deadline_of st (refreshKey t)" "vclock st' = vclock st"
    using assms(2) by (auto simp: agree_off_def)
  with index_okD(1) [OF assms(1)] t have i: "indexed ttl st t" by simp
  then obtain v d D where v: "live st (refreshKey t) = Some (VStr (Text v))" "t \<in> members_of st (userSetKey v)"
    "deadline_of st (refreshKey t) = Some d" "deadline_of st (userSetKey v) = Some D" "d \<le> D" "d \<le> vclock st + ttl"
    by (auto simp: indexed_def)
  show "indexed ttl st' t"
  proof (cases "v = u")
    case True
    with v assms(4) have "t \<in> members_of st' (userSetKey u)" by auto
    with assms(5) members_live v True same show ?thesis by (fastforce simp: indexed_def)
  next
    case False
    then have "live st' (userSetKey v) = live st (userSetKey v)" "deadline_of st' (userSetKey v) = deadline_of st (userSetKey v)"
      using assms(2) by (auto simp: agree_off_def)
    with v same show ?thesis by (auto simp: indexed_def members_of_def)
  qed
next
  fix v show "set_key st' (userSetKey v)"
    using assms(2,3) index_okD(2) [OF assms(1), of v]
    by (cases "v = u") (auto simp: agree_off_def set_key_def)
qed

lemma store_token_index:
  assumes "index_ok ttl st" and "agree_off {refreshKey token, userSetKey u} st st'"
    and "live st' (refreshKey token) = Some (VStr (Text u))" and "deadline_of st' (refreshKey token) = Some (vclock st + ttl)"
    and "live st' (userSetKey u) = Some (VSet (insert token (members_of st (userSetKey u))))"
    and "deadline_of st' (userSetKey u) = Some (vclock st + ttl)"
  shows "index_ok ttl st'"
  unfolding index_ok_def
proof (intro conjI allI impI)
  fix t assume t: "live st' (refreshKey t) \<noteq> None"
  have clock: "vclock st' = vclock st" using assms(2) by (simp add: agree_off_def)
  show "indexed ttl st' t"
  proof (cases "t = token")
    case True
    with assms clock show ?thesis by (simp add: indexed_def members_of_def)
  next
    case False
    then have same: "live st' (refreshKey t) = live st (refreshKey t)"
      "deadline_of st' (refreshKey t) = deadline_of st (refreshKey t)"
      using assms(2) by (auto simp: agree_off_def)
    with index_okD(1) [OF assms(1)] t have i: "indexed ttl st t" by simp
    then obtain v d D where v: "live st (refreshKey t) = Some (VStr (Text v))" "t \<in> members_of st (userSetKey v)"
      "deadline_of st (refreshKey t) = Some d" "deadline_of st (userSetKey v) = Some D" "d \<le> D" "d \<le> vclock st + ttl"
      by (auto simp: indexed_def)
    show ?thesis
    proof (cases "v = u")
      case True
      with v same assms(5,6) clock show ?thesis by (auto simp: indexed_def members_of_def)
    next
      case False
      then have "live st' (userSetKey v) = live st (userSetKey v)" "deadline_of st' (userSetKey v) = deadline_of st (userSetKey v)"
        using assms(2) by (auto simp: agree_off_def)
      with v same clock show ?thesis by (auto simp: indexed_def members_of_def)
    qed
  qed
next
  fix v
  have "finite (members_of st (userSetKey u))"
    using index_okD(2) [OF assms(1), of u] by (cases rule: set_key_cases) auto
  then show "set_key st' (userSetKey v)"
    using assms(2,5) index_okD(2) [OF assms(1), of v]
    by (cases "v = u") (auto simp: agree_off_def set_key_def)
qed

text \<open>Removing tokens keeps the index.\<close>

lemma vdrops_tokens_index: "index_ok ttl st \<Longrightarrow> index_ok ttl (vdrops (map refreshKey ts) st)"
  by (auto simp: index_ok_def indexed_def members_of_def set_key_def image_iff)

lemma SREM_run:
  assumes "set_key st k"
  obtains n st' where "vk_doc (SREM k [m]) st = (Inr (RInt n), st')" "agree_off {k} st st'" "set_key st' k"
    "members_of st' k = members_of st k - {m}" "live st' k \<noteq> None \<Longrightarrow> deadline_of st' k = deadline_of st k"
  using assms
proof (cases rule: set_key_cases)
  case 1
  then show thesis using that [of 0 st] assms by simp
next
  case (2 S)
  define st' where "st' = (if S - {m} = {} then vdrop k st else vput k (VSet (S - {m})) (deadline_of st k) st)"
  have l: "live st' k = (if S - {m} = {} then None else Some (VSet (S - {m})))"
    using live_deadline [OF 2(1)] by (simp add: st'_def)
  have "vk_doc (SREM k [m]) st = (Inr (RInt (int (card (S \<inter> {m})))), st')"
    using 2 by (simp add: st'_def)
  moreover have "agree_off {k} st st'" "live st' k \<noteq> None \<Longrightarrow> deadline_of st' k = deadline_of st k"
    using l by (auto simp: agree_off_def st'_def)
  moreover have "members_of st' k = members_of st k - {m}" "set_key st' k"
    using l 2 by (auto simp: members_of_def set_key_def)
  ultimately show thesis using that by blast
qed

definition same_tokens :: "string set \<Rightarrow> vstore \<Rightarrow> vstore \<Rightarrow> bool" where
  "same_tokens T st st' \<longleftrightarrow> (\<forall>t. t \<notin> T \<longrightarrow> live st' (refreshKey t) = live st (refreshKey t))"

lemma agree_tokens: "agree_off K st st' \<Longrightarrow> refreshKey t \<notin> K \<Longrightarrow> live st' (refreshKey t) = live st (refreshKey t)"
  by (simp add: agree_off_def)

text \<open>Issuing a token: stale members go, then the token is stored.\<close>

lemma issue_run:
  assumes "index_ok ttl st" and "0 < ttl"
  obtains st' where
    "drop_stale (userSetKey u) (store_token (refreshKey t) (Text u) (userSetKey u) t ttl res) st = (Inr res, st')"
    "index_ok ttl st'" "live st' (refreshKey t) = Some (VStr (Text u))" "same_tokens {t} st st'"
proof -
  let ?f = "store_token (refreshKey t) (Text u) (userSetKey u) t ttl res"
  obtain st1 where d: "drop_stale (userSetKey u) ?f st = ?f st1" "agree_off {userSetKey u} st st1"
    "set_key st1 (userSetKey u)"
    "members_of st1 (userSetKey u) = {m \<in> members_of st (userSetKey u). live st (refreshKey m) \<noteq> None}"
    "live st1 (userSetKey u) \<noteq> None \<Longrightarrow> deadline_of st1 (userSetKey u) = deadline_of st (userSetKey u)"
    using drop_stale_run [OF index_okD(2) [OF assms(1)]] by blast
  have i1: "index_ok ttl st1" using drop_stale_index [OF assms(1) d(2,3) _ d(5)] d(4) by simp
  obtain st' where s: "?f st1 = (Inr res, st')" "agree_off {refreshKey t, userSetKey u} st1 st'"
    "live st' (refreshKey t) = Some (VStr (Text u))" "deadline_of st' (refreshKey t) = Some (vclock st1 + ttl)"
    "live st' (userSetKey u) = Some (VSet (insert t (members_of st1 (userSetKey u))))"
    "deadline_of st' (userSetKey u) = Some (vclock st1 + ttl)"
    using store_token_run [OF d(3) key_neq(1) assms(2)] by blast
  have "index_ok ttl st'" using store_token_index [OF i1 s(2-6)] .
  moreover have "same_tokens {t} st st'"
    using agree_tokens [OF d(2)] agree_tokens [OF s(2)] by (auto simp: same_tokens_def)
  ultimately show thesis using that [of st'] d(1) s(1,3) by simp
qed

lemma createScript_run:
  assumes "index_ok ttl st" and "0 < ttl"
  obtains st' where "createScript u t ttl st = (Inr (RInt 1), st')" "index_ok ttl st'"
    "live st' (refreshKey t) = Some (VStr (Text u))" "same_tokens {t} st st'"
  using issue_run [OF assms] unfolding createScript_def by metis

lemma rotateScript_missing: "live st (refreshKey old) = None \<Longrightarrow> rotateScript old new ttl st = (Inr RNil, st)"
  by (simp add: rotateScript_def lua_def)

lemma rotateScript_run:
  assumes "index_ok ttl st" and "0 < ttl" and "live st (refreshKey old) = Some (VStr (Text u))"
  obtains st' where "rotateScript old new ttl st = (Inr (RBytes (Text u)), st')" "index_ok ttl st'"
    "live st' (refreshKey new) = Some (VStr (Text u))" "old \<noteq> new \<Longrightarrow> live st' (refreshKey old) = None"
    "same_tokens {old, new} st st'"
proof -
  let ?k = "userSetKey u"
  define st1 where "st1 = vdrops (map refreshKey [old]) st"
  have i1: "index_ok ttl st1" using vdrops_tokens_index [OF assms(1), of "[old]"] by (simp add: st1_def)
  obtain n st2 where s: "vk_doc (SREM ?k [old]) st1 = (Inr (RInt n), st2)" "agree_off {?k} st1 st2" "set_key st2 ?k"
    "members_of st2 ?k = members_of st1 ?k - {old}" "live st2 ?k \<noteq> None \<Longrightarrow> deadline_of st2 ?k = deadline_of st1 ?k"
    using SREM_run [OF index_okD(2) [OF i1]] by blast
  have "live st1 (refreshKey old) = None" by (simp add: st1_def)
  then have "{m \<in> members_of st1 ?k. live st1 (refreshKey m) \<noteq> None} \<subseteq> members_of st2 ?k"
    unfolding s(4) by blast
  note i2 = drop_stale_index [OF i1 s(2,3) this s(5)]
  obtain st' where r: "drop_stale ?k (store_token (refreshKey new) (Text u) ?k new ttl (RBytes (Text u))) st2
      = (Inr (RBytes (Text u)), st')" "index_ok ttl st'" "live st' (refreshKey new) = Some (VStr (Text u))"
    "same_tokens {new} st2 st'"
    using issue_run [OF i2 assms(2)] by blast
  have get: "vk_doc (GET (refreshKey old)) st = (Inr (RBytes (Text u)), st)" using assms(3) by simp
  obtain n' where del: "vk_doc (DEL [refreshKey old]) st = (Inr (RInt n'), st1)" by (simp add: st1_def)
  have "rotateScript old new ttl st = (Inr (RBytes (Text u)), st')"
    unfolding rotateScript_def
    by (simp add: lua_ok [OF get] lua_ok [OF del] lua_ok [OF s(1)] r(1) Let_def del: vk_doc.simps)
  moreover have "live st' (refreshKey old) = None" if "old \<noteq> new"
    using r(4) agree_tokens [OF s(2), of old] that by (simp add: same_tokens_def st1_def)
  moreover have "same_tokens {old, new} st st'"
    using r(4) agree_tokens [OF s(2)] by (auto simp: same_tokens_def st1_def)
  ultimately show thesis using that [of st'] r(2,3) by blast
qed

lemma revokeAllScript_run:
  assumes "index_ok ttl st"
  obtains n st' where "revokeAllScript (userSetKey u) st = (Inr (RInt n), st')" "index_ok ttl st'"
    "\<And>t. live st' (refreshKey t) = (if t \<in> members_of st (userSetKey u) then None else live st (refreshKey t))"
proof -
  let ?k = "userSetKey u" and ?S = "members_of st (userSetKey u)"
  define ts where "ts = sorted_list_of_set ?S"
  have fin: "finite ?S" using index_okD(2) [OF assms, of u] by (cases rule: set_key_cases) auto
  then have ts: "set ts = ?S" by (simp add: ts_def)
  have sm: "vk_doc (SMEMBERS ?k) st = (Inr (RMembers ?S), st)"
    using index_okD(2) [OF assms, of u] by (cases rule: set_key_cases) simp_all
  define st1 where "st1 = vdrops (map refreshKey ts) st"
  let ?st' = "vdrops [?k] st1"
  have i1: "index_ok ttl st1" unfolding st1_def by (rule vdrops_tokens_index [OF assms])
  have l1: "live st1 (refreshKey t) = (if t \<in> ?S then None else live st (refreshKey t))" for t
    using ts by (auto simp: st1_def)
  have "revokeAllScript ?k st = (Inr (RInt (int (length ts))), ?st')"
    using sm by (cases "ts = []")
      (simp_all add: revokeAllScript_def lua_def Let_def ts_def [symmetric] st1_def vdrops_def)
  moreover have "index_ok ttl ?st'"
    unfolding index_ok_def
  proof (intro conjI allI impI)
    fix t assume "live ?st' (refreshKey t) \<noteq> None"
    then have t: "live st1 (refreshKey t) \<noteq> None" by simp
    with index_okD(1) [OF i1] have "indexed ttl st1 t" by blast
    then obtain v d D where v: "live st1 (refreshKey t) = Some (VStr (Text v))" "t \<in> members_of st1 (userSetKey v)"
      "deadline_of st1 (refreshKey t) = Some d" "deadline_of st1 (userSetKey v) = Some D" "d \<le> D" "d \<le> vclock st1 + ttl"
      by (auto simp: indexed_def)
    have "members_of st1 ?k = ?S" by (auto simp: members_of_def st1_def)
    with v(2) t l1 have "v \<noteq> u" by auto
    with v show "indexed ttl ?st' t" by (simp add: indexed_def members_of_def)
  next
    fix v show "set_key ?st' (userSetKey v)"
      using index_okD(2) [OF i1, of v] by (simp add: set_key_def)
  qed
  ultimately show thesis using that l1 by simp
qed

lemma tick_index:
  assumes "index_ok ttl st" and "vclock st \<le> c"
  shows "index_ok ttl (st\<lparr>vclock := c\<rparr>)"
proof -
  have live: "live (st\<lparr>vclock := c\<rparr>) k = (if \<exists>d. deadline_of st k = Some d \<and> d \<le> c then None else live st k)" for k
    using assms(2) by (auto simp: live_def deadline_of_def split: option.splits)
  have dl: "deadline_of (st\<lparr>vclock := c\<rparr>) k = deadline_of st k" for k by (simp add: deadline_of_def)
  show ?thesis
    unfolding index_ok_def
  proof (intro conjI allI impI)
    fix t assume t: "live (st\<lparr>vclock := c\<rparr>) (refreshKey t) \<noteq> None"
    then have "live st (refreshKey t) \<noteq> None" and nd: "\<not> (\<exists>d. deadline_of st (refreshKey t) = Some d \<and> d \<le> c)"
      by (auto simp: live split: if_splits)
    with index_okD(1) [OF assms(1)] have "indexed ttl st t" by blast
    then obtain v d D where v: "live st (refreshKey t) = Some (VStr (Text v))" "t \<in> members_of st (userSetKey v)"
      "deadline_of st (refreshKey t) = Some d" "deadline_of st (userSetKey v) = Some D" "d \<le> D" "d \<le> vclock st + ttl"
      by (auto simp: indexed_def)
    have "c < d" using nd v(3) by auto
    with v nd assms(2) show "indexed ttl (st\<lparr>vclock := c\<rparr>) t"
      by (simp add: indexed_def members_of_def live dl)
  next
    fix u show "set_key (st\<lparr>vclock := c\<rparr>) (userSetKey u)"
      using index_okD(2) [OF assms(1), of u] by (auto simp: set_key_def live split: if_splits)
  qed
qed

section \<open>Scripts that do not bring a key back\<close>

definition keeps_dead :: "string \<Rightarrow> (vstore \<Rightarrow> reply result \<times> vstore) \<Rightarrow> bool" where
  "keeps_dead k f \<longleftrightarrow> (\<forall>st. live st k = None \<longrightarrow> live (snd (f st)) k = None)"

lemma keeps_dead_lua:
  "keeps_dead k (vk_doc c) \<Longrightarrow> (\<And>rep. keeps_dead k (f rep)) \<Longrightarrow> keeps_dead k (lua c f)"
  by (auto simp: keeps_dead_def lua_def split: prod.splits sum.splits) (metis snd_conv)+

lemma keeps_dead_return: "keeps_dead k (\<lambda>st. (x, st))"
  by (simp add: keeps_dead_def)

lemma keeps_dead_commands:
  "keeps_dead k (vk_doc (GET k'))" "keeps_dead k (vk_doc (SMEMBERS k'))" "keeps_dead k (vk_doc (DEL ks))"
  "keeps_dead k (vk_doc (EXPIRE k' ttl))"
  "k' \<noteq> k \<Longrightarrow> keeps_dead k (vk_doc (SET k' b o'))"
  "k' \<noteq> k \<Longrightarrow> keeps_dead k (vk_doc (SADD k' m))" "k' \<noteq> k \<Longrightarrow> keeps_dead k (vk_doc (SREM k' ms))"
  by (auto simp: keeps_dead_def live_vput split: option.splits rval.splits if_splits)

lemma keeps_dead_stale: "k' \<noteq> k \<Longrightarrow> keeps_dead k f \<Longrightarrow> keeps_dead k (drop_stale k' f)"
  unfolding drop_stale_def
  by (rule keeps_dead_lua [OF keeps_dead_commands(2)])
    (use keeps_dead_lua [OF keeps_dead_commands(7), of k' k "\<lambda>_. f"] in \<open>auto simp: keeps_dead_def Let_def\<close>)

lemma keeps_dead_store: "tk \<noteq> k \<Longrightarrow> k' \<noteq> k \<Longrightarrow> keeps_dead k (store_token tk uid k' t ttl res)"
  unfolding store_token_def by (intro keeps_dead_lua keeps_dead_commands keeps_dead_return)

text \<open>The scripts store no token but the new one.\<close>

lemma keeps_dead_scripts:
  "t \<noteq> t' \<Longrightarrow> keeps_dead (refreshKey t) (createScript u t' ttl)"
  "t \<noteq> t' \<Longrightarrow> keeps_dead (refreshKey t) (rotateScript old t' ttl)"
  "keeps_dead (refreshKey t) (revokeAllScript (userSetKey u))"
proof -
  show "keeps_dead (refreshKey t) (createScript u t' ttl)" if "t \<noteq> t'"
    using that unfolding createScript_def by (intro keeps_dead_stale keeps_dead_store) auto
  show "keeps_dead (refreshKey t) (rotateScript old t' ttl)" if "t \<noteq> t'"
    unfolding rotateScript_def
  proof (rule keeps_dead_lua [OF keeps_dead_commands(1)])
    fix rep
    let ?k = "userSetKey (reply_text rep)"
    have "keeps_dead (refreshKey t) (lua (DEL [refreshKey old]) (\<lambda>_. lua (SREM ?k [old]) (\<lambda>_. drop_stale ?k
        (store_token (refreshKey t') (Text (reply_text rep)) ?k t' ttl rep))))"
      using that by (intro keeps_dead_lua keeps_dead_commands keeps_dead_stale keeps_dead_store) auto
    then show "keeps_dead (refreshKey t) (case rep of RNil \<Rightarrow> (\<lambda>st. (Inr RNil, st))
        | _ \<Rightarrow> (let setKey = ?k in lua (DEL [refreshKey old]) (\<lambda>_. lua (SREM setKey [old]) (\<lambda>_. drop_stale setKey
            (store_token (refreshKey t') (Text (reply_text rep)) setKey t' ttl rep)))))"
      by (cases rep) (simp_all add: keeps_dead_return Let_def)
  qed
  show "keeps_dead (refreshKey t) (revokeAllScript (userSetKey u))"
    unfolding revokeAllScript_def Let_def
    by (rule keeps_dead_lua [OF keeps_dead_commands(2)])
      (auto intro!: keeps_dead_lua keeps_dead_commands keeps_dead_return)
qed

section \<open>Token operations on any server\<close>

text \<open>What happens to the tokens over time: operations run in some order, and time passes.\<close>

inductive token_step :: "time \<Rightarrow> vstore \<Rightarrow> vstore \<Rightarrow> bool" for ttl where
  create: "createScript u t ttl st = (x, st') \<Longrightarrow> token_step ttl st st'"
| rotate: "rotateScript old new ttl st = (x, st') \<Longrightarrow> token_step ttl st st'"
| revoke: "revokeAllScript (userSetKey u) st = (x, st') \<Longrightarrow> token_step ttl st st'"
| tick: "vclock st \<le> c \<Longrightarrow> token_step ttl st (st\<lparr>vclock := c\<rparr>)"

lemma token_step_index:
  assumes "token_step ttl st st'" and "index_ok ttl st" and "0 < ttl"
  shows "index_ok ttl st'"
  using assms(1)
proof cases
  case (create u t x)
  with createScript_run [OF assms(2,3)] show ?thesis by (metis prod.inject)
next
  case (rotate old new x)
  show ?thesis
  proof (cases "live st (refreshKey old)")
    case None
    with rotate assms(2) show ?thesis by (simp add: rotateScript_missing)
  next
    case (Some v)
    then obtain u where "live st (refreshKey old) = Some (VStr (Text u))"
      using index_okD(1) [OF assms(2), of old] by (auto simp: indexed_def)
    from rotateScript_run [OF assms(2,3) this, of new] rotate show ?thesis by (metis prod.inject)
  qed
next
  case (revoke u x)
  with revokeAllScript_run [OF assms(2), of u] show ?thesis by (metis prod.inject)
next
  case (tick c)
  with tick_index [OF assms(2)] show ?thesis by simp
qed

lemma index_empty: "index_ok ttl vempty"
  by (simp add: index_ok_def set_key_def)

lemma token_reach_index: "(token_step ttl)\<^sup>*\<^sup>* vempty st \<Longrightarrow> 0 < ttl \<Longrightarrow> index_ok ttl st"
  by (induction rule: rtranclp_induct) (auto simp: index_empty dest: token_step_index)

locale token_store = uuid_text U + valkey_service V for U :: uuid_lib and V :: "'r valkey"
begin

lemma redis_Eval_ok:
  "redis_Eval V f r = (Inr rep, r') \<Longrightarrow> rep \<noteq> RNil \<and> f (vk_store V r) = (Inr rep, vk_store V r')"
  by (auto simp: redis_Eval_def split: prod.splits sum.splits reply.splits dest!: exec_ok [rotated])

lemma redis_Eval_nil:
  "redis_Eval V f r = (Inl e, r') \<Longrightarrow> errors_Is e redis_Nil \<Longrightarrow> f (vk_store V r) = (Inr RNil, vk_store V r')"
  by (auto simp: redis_Eval_def split: prod.splits sum.splits reply.splits
      dest: exec_not_nil dest!: exec_ok [rotated])

lemma Validate_ok:
  assumes "ValidateRefreshToken U V t r = (Inr u, r')"
  shows "\<exists>b. live (vk_store V r) (refreshKey t) = Some (VStr b) \<and> uuid_Parse U (text_of b) = Some u"
  using assms by (auto simp: ValidateRefreshToken_def split: prod.splits sum.splits if_splits option.splits
      dest!: redis_Get_ok)

lemma Rotate_ok:
  assumes "RotateRefreshToken U V new old ttl r = (Inr (tok, u), r')"
  shows "tok = uuid_String U new \<and> (\<exists>rep. rep \<noteq> RNil \<and> uuid_Parse U (reply_text rep) = Some u
    \<and> rotateScript old tok (whole_seconds ttl) (vk_store V r) = (Inr rep, vk_store V r'))"
  using assms by (auto simp: RotateRefreshToken_def Let_def split: prod.splits sum.splits if_splits option.splits
      dest!: redis_Eval_ok)

lemma Rotate_missing:
  assumes "live (vk_store V r) (refreshKey old) = None"
  shows "fst (RotateRefreshToken U V new old ttl r) \<noteq> Inr y"
proof
  assume "fst (RotateRefreshToken U V new old ttl r) = Inr y"
  then obtain tok u r' where "RotateRefreshToken U V new old ttl r = (Inr (tok, u), r')"
    by (metis prod.collapse)
  from Rotate_ok [OF this] assms show False by (auto simp: rotateScript_missing)
qed

text \<open>A rotation that succeeds: the old token is spent and the new one names the same user.\<close>

lemma Rotate_spends:
  assumes "index_ok (whole_seconds ttl) (vk_store V r)" and "1000 \<le> ttl" and "old \<noteq> uuid_String U new"
    and "RotateRefreshToken U V new old ttl r = (Inr (tok, u), r')"
  shows "tok = uuid_String U new" and "index_ok (whole_seconds ttl) (vk_store V r')"
    and "live (vk_store V r') (refreshKey old) = None"
    and "\<exists>s. uuid_Parse U s = Some u \<and> live (vk_store V r) (refreshKey old) = Some (VStr (Text s))
      \<and> live (vk_store V r') (refreshKey tok) = Some (VStr (Text s))"
    and "same_tokens {old, tok} (vk_store V r) (vk_store V r')"
proof -
  have ttl: "0 < whole_seconds ttl" using assms(2) by (simp add: whole_seconds_def pos_imp_zdiv_pos_iff)
  from Rotate_ok [OF assms(4)] obtain rep where tok: "tok = uuid_String U new" and rep: "rep \<noteq> RNil"
    "uuid_Parse U (reply_text rep) = Some u"
    "rotateScript old tok (whole_seconds ttl) (vk_store V r) = (Inr rep, vk_store V r')" by blast
  have "live (vk_store V r) (refreshKey old) \<noteq> None"
    using rep(1,3) rotateScript_missing [of "vk_store V r" old tok "whole_seconds ttl"] by auto
  with index_okD(1) [OF assms(1), of old] obtain s where
    s: "live (vk_store V r) (refreshKey old) = Some (VStr (Text s))" by (auto simp: indexed_def)
  from rotateScript_run [OF assms(1) ttl s, of tok] obtain st' where
    st': "rotateScript old tok (whole_seconds ttl) (vk_store V r) = (Inr (RBytes (Text s)), st')"
    "index_ok (whole_seconds ttl) st'" "live st' (refreshKey tok) = Some (VStr (Text s))"
    "old \<noteq> tok \<Longrightarrow> live st' (refreshKey old) = None" "same_tokens {old, tok} (vk_store V r) st'" by blast
  with rep have "st' = vk_store V r'" "rep = RBytes (Text s)" by auto
  with st' s rep tok assms(3) show "tok = uuid_String U new" "index_ok (whole_seconds ttl) (vk_store V r')"
    "live (vk_store V r') (refreshKey old) = None"
    "\<exists>s. uuid_Parse U s = Some u \<and> live (vk_store V r) (refreshKey old) = Some (VStr (Text s))
      \<and> live (vk_store V r') (refreshKey tok) = Some (VStr (Text s))"
    "same_tokens {old, tok} (vk_store V r) (vk_store V r')" by auto
qed

lemma Revoke_ok:
  assumes "index_ok ttl (vk_store V r)" and "RevokeAllRefreshTokens U V u r = (Inr (), r')"
  shows "index_ok ttl (vk_store V r')"
    and "live (vk_store V r') (refreshKey t) = (if t \<in> members_of (vk_store V r) (userRefreshKey U u) then None
      else live (vk_store V r) (refreshKey t))"
proof -
  from assms(2) obtain rep where "revokeAllScript (userRefreshKey U u) (vk_store V r) = (Inr rep, vk_store V r')"
    by (auto simp: RevokeAllRefreshTokens_def split: prod.splits sum.splits if_splits
        dest: redis_Eval_ok redis_Eval_nil)
  then have "revokeAllScript (userSetKey (uuid_String U u)) (vk_store V r) = (Inr rep, vk_store V r')"
    by (simp add: userRefreshKey_def)
  with revokeAllScript_run [OF assms(1), of "uuid_String U u"]
  have "index_ok ttl (vk_store V r') \<and> (\<forall>t. live (vk_store V r') (refreshKey t) =
      (if t \<in> members_of (vk_store V r) (userRefreshKey U u) then None else live (vk_store V r) (refreshKey t)))"
    unfolding userRefreshKey_def by (metis prod.inject)
  then show "index_ok ttl (vk_store V r')"
    "live (vk_store V r') (refreshKey t) = (if t \<in> members_of (vk_store V r) (userRefreshKey U u) then None
      else live (vk_store V r) (refreshKey t))" by blast+
qed

lemma Consume_ok:
  assumes "ConsumeGatewayTicket U V t r = (Inr u, r')"
  shows "(\<exists>b. live (vk_store V r) (gatewayTicketKey t) = Some (VStr b) \<and> uuid_Parse U (text_of b) = Some u)
    \<and> vk_store V r' = vdrop (gatewayTicketKey t) (vk_store V r)"
  using assms by (auto simp: ConsumeGatewayTicket_def split: prod.splits sum.splits if_splits option.splits
      dest!: redis_GetDel_ok)

lemma ConsumeMFA_ok:
  assumes "ConsumeMFATicket U V t r = (Inr u, r')"
  shows "(\<exists>b. live (vk_store V r) (mfaTicketKey t) = Some (VStr b) \<and> uuid_Parse U (text_of b) = Some u)
    \<and> vk_store V r' = vdrop (mfaTicketKey t) (vk_store V r)"
  using assms by (auto simp: ConsumeMFATicket_def split: prod.splits sum.splits if_splits option.splits
      dest!: redis_GetDel_ok)

lemma Create_ticket:
  assumes "CreateGatewayTicket U V new u r = (Inr t, r')"
  shows "t = uuid_String U new"
    and "live (vk_store V r') (gatewayTicketKey t) = Some (VStr (Text (uuid_String U u)))"
  using assms by (auto simp: CreateGatewayTicket_def GatewayTicketTTL_def Let_def
      split: prod.splits sum.splits dest!: redis_Do_ok)

lemma Create_mfa_ticket:
  assumes "CreateMFATicket U V new u ttl r = (Inr t, r')" and "0 < ttl"
  shows "live (vk_store V r') (mfaTicketKey t) = Some (VStr (Text (uuid_String U u)))"
  using assms by (auto simp: CreateMFATicket_def Let_def split: prod.splits sum.splits dest!: redis_Do_ok)

end

text \<open>
  A run of the store after a token was spent: the four refresh-token operations in any order
  and with any outcome, and whatever else happens on the server, other commands and the
  passing of time included, which can end tokens and not make one. New tokens are fresh: no
  operation is given the identifier of the spent token again.
\<close>

inductive refresh_step :: "uuid_lib \<Rightarrow> 'r valkey \<Rightarrow> string \<Rightarrow> 'r \<Rightarrow> 'r \<Rightarrow> bool" for U V spent where
  issue: "CreateRefreshToken U V n u ttl r = (x, r') \<Longrightarrow> uuid_String U n \<noteq> spent \<Longrightarrow> refresh_step U V spent r r'"
| exchange: "RotateRefreshToken U V n t ttl r = (y, r') \<Longrightarrow> uuid_String U n \<noteq> spent \<Longrightarrow> refresh_step U V spent r r'"
| validate: "ValidateRefreshToken U V t r = (z, r') \<Longrightarrow> refresh_step U V spent r r'"
| revoke_all: "RevokeAllRefreshTokens U V u r = (w, r') \<Longrightarrow> refresh_step U V spent r r'"
| elsewhere: "\<forall>t. live (vk_store V r') (refreshKey t) \<in> {None, live (vk_store V r) (refreshKey t)} \<Longrightarrow> refresh_step U V spent r r'"

context token_store
begin

lemma Eval_dead:
  assumes "redis_Eval V f r = (x, r')" and "keeps_dead k f" and "live (vk_store V r) k = None"
  shows "live (vk_store V r') k = None"
proof -
  obtain y where y: "vk_exec V (EVAL f) r = (y, r')"
    using assms(1) by (auto simp: redis_Eval_def split: prod.splits sum.splits reply.splits)
  then have "vk_store V r' \<in> {vk_store V r, snd (f (vk_store V r))}"
    by (cases y) (auto dest: exec_ok [rotated] exec_err [rotated])
  with assms(2,3) show ?thesis by (auto simp: keeps_dead_def)
qed

lemma spent_step:
  assumes "refresh_step U V t r r'" and "live (vk_store V r) (refreshKey t) = None"
  shows "live (vk_store V r') (refreshKey t) = None"
  using assms(1)
proof cases
  case (issue n u ttl x)
  then obtain y where "redis_Eval V (createScript (uuid_String U u) (uuid_String U n) (whole_seconds ttl)) r = (y, r')"
    by (auto simp: CreateRefreshToken_def Let_def split: prod.splits sum.splits)
  from Eval_dead [OF this keeps_dead_scripts(1) assms(2)] issue show ?thesis by auto
next
  case (exchange n old ttl y)
  then obtain z where "redis_Eval V (rotateScript old (uuid_String U n) (whole_seconds ttl)) r = (z, r')"
    by (auto simp: RotateRefreshToken_def Let_def split: prod.splits sum.splits if_splits option.splits)
  from Eval_dead [OF this keeps_dead_scripts(2) assms(2)] exchange show ?thesis by auto
next
  case (validate t' z)
  then obtain y where "redis_Get V (refreshKey t') r = (y, r')"
    by (auto simp: ValidateRefreshToken_def split: prod.splits sum.splits if_splits option.splits)
  from redis_Get_store [OF this] assms(2) show ?thesis by simp
next
  case (revoke_all u w)
  then obtain z where "redis_Eval V (revokeAllScript (userSetKey (uuid_String U u))) r = (z, r')"
    by (auto simp: RevokeAllRefreshTokens_def userRefreshKey_def split: prod.splits sum.splits if_splits)
  from Eval_dead [OF this keeps_dead_scripts(3) assms(2)] show ?thesis .
next
  case elsewhere
  then have "live (vk_store V r') (refreshKey t) \<in> {None, live (vk_store V r) (refreshKey t)}" by blast
  with assms(2) show ?thesis by auto
qed

lemma spent_run:
  "(refresh_step U V t)\<^sup>*\<^sup>* r r' \<Longrightarrow> live (vk_store V r) (refreshKey t) = None \<Longrightarrow> live (vk_store V r') (refreshKey t) = None"
  by (induction rule: rtranclp_induct) (auto intro: spent_step)

end

interpretation mem_tokens: token_store ref_uuid mem_valkey
  by unfold_locales

section \<open>Properties\<close>

text \<open>
  The token index is an invariant: starting from an empty server, whatever refresh tokens
  are created, rotated, revoked or expire, every live token names a user whose token set
  contains it and outlives it.
\<close>

theorem token_index_invariant:
  assumes "(token_step ttl)\<^sup>*\<^sup>* vempty st" and "0 < ttl"
  shows "index_ok ttl st"
  by (rule token_reach_index [OF assms])

theorem token_index_invariant_witness:
  "index_ok 604800000 (vempty\<lparr>vclock := 5\<rparr>)"
  by (rule token_index_invariant) (auto intro!: r_into_rtranclp token_step.tick)

text \<open>
  C5. Refresh tokens are single-use. When a rotation succeeds, the new token belongs to the
  same user and other tokens are untouched; and after any later run of token operations,
  failed ones included, as long as no new token is given the old one's identifier, the old
  token does not validate and no rotation of it succeeds.
\<close>

theorem rotate_single_use:
  assumes "token_store U V" and "index_ok (whole_seconds ttl) (vk_store V r)" and "1000 \<le> ttl"
    and "old \<noteq> uuid_String U new" and "RotateRefreshToken U V new old ttl r = (Inr (tok, u), r1)"
  shows "(\<forall>x r2. ValidateRefreshToken U V tok r1 = (Inr x, r2) \<longrightarrow> x = u)
    \<and> (\<forall>t. t \<notin> {old, tok} \<longrightarrow> live (vk_store V r1) (refreshKey t) = live (vk_store V r) (refreshKey t))
    \<and> (\<forall>r2. (refresh_step U V old)\<^sup>*\<^sup>* r1 r2 \<longrightarrow>
         (\<forall>x r3. ValidateRefreshToken U V old r2 \<noteq> (Inr x, r3))
         \<and> (\<forall>new' ttl' y. fst (RotateRefreshToken U V new' old ttl' r2) \<noteq> Inr y))"
proof -
  note sp = token_store.Rotate_spends [OF assms]
  note val = token_store.Validate_ok [OF assms(1)]
  from sp(4) obtain s where "uuid_Parse U s = Some u" "live (vk_store V r1) (refreshKey tok) = Some (VStr (Text s))"
    by blast
  then have "x = u" if "ValidateRefreshToken U V tok r1 = (Inr x, r2)" for x r2
    using val [OF that] by auto
  moreover have "(\<forall>x r3. ValidateRefreshToken U V old r2 \<noteq> (Inr x, r3))
      \<and> (\<forall>new' ttl' y. fst (RotateRefreshToken U V new' old ttl' r2) \<noteq> Inr y)"
    if "(refresh_step U V old)\<^sup>*\<^sup>* r1 r2" for r2
  proof -
    have "live (vk_store V r2) (refreshKey old) = None" using token_store.spent_run [OF assms(1) that sp(3)] .
    with val [of old r2] token_store.Rotate_missing [OF assms(1) this] show ?thesis by fastforce
  qed
  ultimately show ?thesis using sp(5) by (auto simp: same_tokens_def)
qed

lemma mem_Rotate:
  assumes "index_ok (whole_seconds ttl) st" "0 < whole_seconds ttl"
    and "live st (refreshKey old) = Some (VStr (Text (uuid_String ref_uuid u)))"
  shows "\<exists>r1. RotateRefreshToken ref_uuid mem_valkey new old ttl st = (Inr (uuid_String ref_uuid new, u), r1)"
proof -
  from rotateScript_run [OF assms, of "uuid_String ref_uuid new"] obtain st' where
    "rotateScript old (uuid_String ref_uuid new) (whole_seconds ttl) st
       = (Inr (RBytes (Text (uuid_String ref_uuid u))), st')" by blast
  then show ?thesis by (simp add: RotateRefreshToken_def redis_Eval_def mem_valkey_def Let_def)
qed

theorem rotate_single_use_witness:
  "\<exists>st r1 r2. live st (refreshKey ''old'') \<noteq> None \<and>
     RotateRefreshToken ref_uuid mem_valkey 9 ''old'' 1000 st = (Inr (uuid_String ref_uuid 9, 2), r1)
     \<and> CreateRefreshToken ref_uuid mem_valkey 11 2 1000 r1 = (Inr (uuid_String ref_uuid 11), r2)
     \<and> (\<forall>x r3. ValidateRefreshToken ref_uuid mem_valkey ''old'' r2 \<noteq> (Inr x, r3))
     \<and> fst (RotateRefreshToken ref_uuid mem_valkey 12 ''old'' 1000 r2) \<noteq> Inr (uuid_String ref_uuid 12, 2)"
proof -
  have w: "whole_seconds 1000 = 1000" by (simp add: whole_seconds_def)
  have ne: "''old'' \<noteq> uuid_String ref_uuid n" for n
  proof -
    have "length ''old'' \<noteq> length (uuid_String ref_uuid n)" by simp
    then show ?thesis by metis
  qed
  from createScript_run [OF index_empty [of 1000], of "uuid_String ref_uuid 2" "''old''"] obtain st where
    st: "index_ok 1000 st" "live st (refreshKey ''old'') = Some (VStr (Text (uuid_String ref_uuid 2)))" by auto
  from mem_Rotate [of 1000 st "''old''" 2 9] st w obtain r1 where
    r: "RotateRefreshToken ref_uuid mem_valkey 9 ''old'' 1000 st = (Inr (uuid_String ref_uuid 9, 2), r1)" by auto
  have "index_ok 1000 r1"
    using mem_tokens.Rotate_spends(2) [OF _ _ ne r] st w by (simp add: mem_valkey_def)
  from createScript_run [OF this, of "uuid_String ref_uuid 2" "uuid_String ref_uuid 11"] obtain r2 where
    "createScript (uuid_String ref_uuid 2) (uuid_String ref_uuid 11) 1000 r1 = (Inr (RInt 1), r2)" by auto
  then have c: "CreateRefreshToken ref_uuid mem_valkey 11 2 1000 r1 = (Inr (uuid_String ref_uuid 11), r2)"
    by (simp add: CreateRefreshToken_def redis_Eval_def mem_valkey_def Let_def w)
  then have run: "(refresh_step ref_uuid mem_valkey ''old'')\<^sup>*\<^sup>* r1 r2"
    using refresh_step.issue [OF c] ne [of 11] by (metis r_into_rtranclp)
  have "index_ok (whole_seconds 1000) (vk_store mem_valkey st)" using st(1) w by (simp add: mem_valkey_def)
  from rotate_single_use [OF mem_tokens.token_store_axioms this _ ne r] run
  have "(\<forall>x r3. ValidateRefreshToken ref_uuid mem_valkey ''old'' r2 \<noteq> (Inr x, r3))
      \<and> (\<forall>new' ttl' y. fst (RotateRefreshToken ref_uuid mem_valkey new' ''old'' ttl' r2) \<noteq> Inr y)" by simp
  moreover have "live st (refreshKey ''old'') \<noteq> None" using st(2) by simp
  ultimately show ?thesis using r c by blast
qed

text \<open>
  Revoking all refresh tokens of a user leaves that user none: no token validates as that
  user afterwards.
\<close>

theorem revoke_all_tokens:
  assumes "token_store U V" and "index_ok ttl (vk_store V r)"
    and "\<And>t s. live (vk_store V r) (refreshKey t) = Some (VStr (Text s)) \<Longrightarrow> \<exists>v. s = uuid_String U v"
    and "RevokeAllRefreshTokens U V u r = (Inr (), r1)"
  shows "\<forall>t x r2. ValidateRefreshToken U V t r1 = (Inr x, r2) \<longrightarrow> x \<noteq> u"
proof (intro allI impI notI)
  fix t x r2 assume v: "ValidateRefreshToken U V t r1 = (Inr x, r2)" and x: "x = u"
  note rv = token_store.Revoke_ok [OF assms(1,2,4)]
  from token_store.Validate_ok [OF assms(1) v] obtain b where
    b: "live (vk_store V r1) (refreshKey t) = Some (VStr b)" "uuid_Parse U (text_of b) = Some x" by blast
  with rv(2) [of t] have l: "live (vk_store V r) (refreshKey t) = Some (VStr b)"
    and nm: "t \<notin> members_of (vk_store V r) (userRefreshKey U u)" by (auto split: if_splits)
  from index_okD(1) [OF assms(2), of t] l obtain s where s: "b = Text s" "t \<in> members_of (vk_store V r) (userSetKey s)"
    by (auto simp: indexed_def)
  with assms(3) l obtain v where "s = uuid_String U v" by blast
  moreover have "v = u" using b(2) s(1) \<open>s = uuid_String U v\<close> x uuid_text.parse_string [OF token_store.axioms(1) [OF assms(1)]]
    by simp
  ultimately show False using s(2) nm by (simp add: userRefreshKey_def)
qed

theorem revoke_all_tokens_witness:
  "\<nexists>t r2. ValidateRefreshToken ref_uuid mem_valkey t
     (snd (RevokeAllRefreshTokens ref_uuid mem_valkey 2 vempty)) = (Inr 2, r2)"
proof -
  have "\<forall>t x r2. ValidateRefreshToken ref_uuid mem_valkey t
     (snd (RevokeAllRefreshTokens ref_uuid mem_valkey 2 vempty)) = (Inr x, r2) \<longrightarrow> x \<noteq> 2"
  proof (rule revoke_all_tokens [OF mem_tokens.token_store_axioms, where r = vempty and ttl = 1000])
  from revokeAllScript_run [OF index_empty [of 1000], of "uuid_String ref_uuid 2"] obtain n st' where
    "revokeAllScript (userSetKey (uuid_String ref_uuid 2)) vempty = (Inr (RInt n), st')" by blast
  then show "RevokeAllRefreshTokens ref_uuid mem_valkey 2 vempty =
      (Inr (), snd (RevokeAllRefreshTokens ref_uuid mem_valkey 2 vempty))"
    by (simp add: RevokeAllRefreshTokens_def redis_Eval_def mem_valkey_def userRefreshKey_def)
qed (simp_all add: index_empty mem_valkey_def)
  then show ?thesis by blast
qed

text \<open>
  Gateway and MFA tickets are single-use: consuming a ticket returns the user it was
  created for, and a second consumption never returns a user.
\<close>

theorem ticket_single_use:
  assumes "token_store U V" and "0 < ttl"
  shows "(CreateGatewayTicket U V new u r = (Inr t, r1) \<and> ConsumeGatewayTicket U V t r1 = (Inr x, r2) \<longrightarrow>
      x = u \<and> (\<forall>y r3. ConsumeGatewayTicket U V t r2 \<noteq> (Inr y, r3)))
    \<and> (CreateMFATicket U V new u ttl r = (Inr t, r1) \<and> ConsumeMFATicket U V t r1 = (Inr x, r2) \<longrightarrow>
      x = u \<and> (\<forall>y r3. ConsumeMFATicket U V t r2 \<noteq> (Inr y, r3)))"
proof (intro conjI impI; elim conjE)
  note parse = uuid_text.parse_string [OF token_store.axioms(1) [OF assms(1)]]
  assume c: "CreateGatewayTicket U V new u r = (Inr t, r1)" and x: "ConsumeGatewayTicket U V t r1 = (Inr x, r2)"
  show "x = u"
    using token_store.Create_ticket(2) [OF assms(1) c] token_store.Consume_ok [OF assms(1) x] parse by auto
  show "\<forall>y r3. ConsumeGatewayTicket U V t r2 \<noteq> (Inr y, r3)"
    using token_store.Consume_ok [OF assms(1) x] token_store.Consume_ok [OF assms(1), of t r2] by fastforce
next
  note parse = uuid_text.parse_string [OF token_store.axioms(1) [OF assms(1)]]
  assume c: "CreateMFATicket U V new u ttl r = (Inr t, r1)" and x: "ConsumeMFATicket U V t r1 = (Inr x, r2)"
  show "x = u"
    using token_store.Create_mfa_ticket [OF assms(1) c assms(2)] token_store.ConsumeMFA_ok [OF assms(1) x] parse by auto
  show "\<forall>y r3. ConsumeMFATicket U V t r2 \<noteq> (Inr y, r3)"
    using token_store.ConsumeMFA_ok [OF assms(1) x] token_store.ConsumeMFA_ok [OF assms(1), of t r2] by fastforce
qed

theorem ticket_single_use_witness:
  "\<exists>t r1 x r2. CreateGatewayTicket ref_uuid mem_valkey 9 2 vempty = (Inr t, r1)
     \<and> ConsumeGatewayTicket ref_uuid mem_valkey t r1 = (Inr x, r2) \<and> x = 2
     \<and> (\<forall>y r3. ConsumeGatewayTicket ref_uuid mem_valkey t r2 \<noteq> (Inr y, r3))"
proof -
  obtain t r1 x r2 where "CreateGatewayTicket ref_uuid mem_valkey 9 2 vempty = (Inr t, r1)"
    "ConsumeGatewayTicket ref_uuid mem_valkey t r1 = (Inr x, r2)"
    by (simp add: CreateGatewayTicket_def ConsumeGatewayTicket_def redis_Do_def redis_GetDel_def mem_valkey_def
        GatewayTicketTTL_def Let_def)
  with ticket_single_use [OF mem_tokens.token_store_axioms, of 1] show ?thesis by (metis zero_less_one)
qed

end
