(* ===== verification/Auth_Jwt.thy ===== *)
theory Auth_Jwt
  imports Extern
begin

text \<open>
  \<open>internal/auth/jwt.go\<close>: access tokens. The JWT package is the parameter \<open>jwt_lib\<close>: it rounds
  times to its precision, signs claims with a secret, and parses a token with a key
  function that is told whether the token's method is an HMAC one. The locale
  \<open>jwt_service\<close> states what the package documents of them.
\<close>

section \<open>Tokens\<close>

record AccessClaims =
  ac_Subject :: string
  ac_Issuer :: string
  ac_IssuedAt :: "time option"
  ac_ExpiresAt :: "time option"
  ac_EmailVerified :: bool

record jwt_lib =
  jwt_NewNumericDate :: "time \<Rightarrow> time"
  jwt_SignHS256 :: "AccessClaims \<Rightarrow> string \<Rightarrow> string result"
  jwt_ParseWithClaims :: "time \<Rightarrow> string \<Rightarrow> (bool \<Rightarrow> string result) \<Rightarrow> string \<Rightarrow> AccessClaims result"

definition NewAccessToken ::
  "uuid_lib \<Rightarrow> jwt_lib \<Rightarrow> time \<Rightarrow> uuid \<Rightarrow> string \<Rightarrow> time \<Rightarrow> string \<Rightarrow> bool \<Rightarrow> string result" where
  "NewAccessToken U J now userID secret ttl issuer emailVerified =
     (if secret = [] then Inl (Ext ''JWT secret must not be empty'')
      else if issuer = [] then Inl (Ext ''JWT issuer must not be empty'')
      else case jwt_SignHS256 J
               \<lparr>ac_Subject = uuid_String U userID, ac_Issuer = issuer,
                ac_IssuedAt = Some (jwt_NewNumericDate J now),
                ac_ExpiresAt = Some (jwt_NewNumericDate J (now + ttl)), ac_EmailVerified = emailVerified\<rparr> secret of
             Inl e \<Rightarrow> Inl (Wrap ''sign access token'' e)
           | Inr tok \<Rightarrow> Inr tok)"

definition ValidateAccessToken :: "jwt_lib \<Rightarrow> time \<Rightarrow> string \<Rightarrow> string \<Rightarrow> string \<Rightarrow> AccessClaims result" where
  "ValidateAccessToken J now tokenStr secret issuer =
     (if issuer = [] then Inl (Ext ''JWT issuer must not be empty'')
      else jwt_ParseWithClaims J now tokenStr
             (\<lambda>hmac. if \<not> hmac then Inl (Ext ''unexpected signing method'') else Inr secret) issuer)"

section \<open>The JWT package\<close>

text \<open>
  Times are kept to the second. A token signed with a secret and presented before it
  expires is parsed to its claims by a key function that gives that secret, for the
  issuer it names. A parsed token has the issuer asked for, is not expired, and its
  method is one the key function accepted.
\<close>

locale jwt_service =
  fixes J :: jwt_lib and hmac :: "string \<Rightarrow> bool"
  assumes date: "jwt_NewNumericDate J t \<le> t" "t < jwt_NewNumericDate J t + 1000"
    and sign_parse: "jwt_SignHS256 J c s = Inr tok \<Longrightarrow> kf True = Inr s \<Longrightarrow>
      (\<And>e. ac_ExpiresAt c = Some e \<Longrightarrow> now < e) \<Longrightarrow> jwt_ParseWithClaims J now tok kf (ac_Issuer c) = Inr c"
    and parse_sound: "jwt_ParseWithClaims J now tok kf iss = Inr c \<Longrightarrow>
      ac_Issuer c = iss \<and> (\<forall>e. ac_ExpiresAt c = Some e \<longrightarrow> now < e) \<and> (\<exists>s. kf (hmac tok) = Inr s)"
begin

lemma validate_new:
  assumes "NewAccessToken U J t0 u secret ttl iss v = Inr tok" and "now + 1000 \<le> t0 + ttl"
  shows "\<exists>c. ValidateAccessToken J now tok secret iss = Inr c \<and> ac_Subject c = uuid_String U u \<and> ac_EmailVerified c = v"
proof -
  define c where "c = \<lparr>ac_Subject = uuid_String U u, ac_Issuer = iss, ac_IssuedAt = Some (jwt_NewNumericDate J t0),
     ac_ExpiresAt = Some (jwt_NewNumericDate J (t0 + ttl)), ac_EmailVerified = v\<rparr>"
  from assms(1) have s: "jwt_SignHS256 J c secret = Inr tok" and "iss \<noteq> []"
    by (auto simp: NewAccessToken_def c_def split: if_splits sum.splits)
  have e: "now < jwt_NewNumericDate J (t0 + ttl)" using date(2) [of "t0 + ttl"] assms(2) by simp
  have "jwt_ParseWithClaims J now tok (\<lambda>b. if \<not> b then Inl (Ext ''unexpected signing method'') else Inr secret)
      (ac_Issuer c) = Inr c"
    by (rule sign_parse [OF s]) (simp_all add: c_def e)
  then have "ValidateAccessToken J now tok secret iss = Inr c"
    using \<open>iss \<noteq> []\<close> by (simp add: ValidateAccessToken_def) (simp add: c_def)
  then show ?thesis by (simp add: c_def)
qed

lemma validate_sound:
  assumes "ValidateAccessToken J now tok secret iss = Inr c"
  shows "iss \<noteq> [] \<and> ac_Issuer c = iss \<and> hmac tok \<and> (\<forall>e. ac_ExpiresAt c = Some e \<longrightarrow> now < e)"
  using assms parse_sound by (fastforce simp: ValidateAccessToken_def split: if_splits)

end

text \<open>
  An instance: a token is the text of its claims and secret, each part preceded by its
  length in unary.
\<close>

definition enc_nat :: "nat \<Rightarrow> string" where
  "enc_nat n = replicate n (CHR ''1'') @ ''0''"

definition dec_nat :: "string \<Rightarrow> nat \<times> string" where
  "dec_nat s = (length (takeWhile (\<lambda>c. c = CHR ''1'') s), tl (dropWhile (\<lambda>c. c = CHR ''1'') s))"

lemma dec_enc_nat [simp]: "dec_nat (enc_nat n @ s) = (n, s)"
  by (induction n) (simp_all add: enc_nat_def dec_nat_def)

definition enc_str :: "string \<Rightarrow> string" where
  "enc_str s = enc_nat (length s) @ s"

definition dec_str :: "string \<Rightarrow> string \<times> string" where
  "dec_str s = (case dec_nat s of (n, r) \<Rightarrow> (take n r, drop n r))"

lemma dec_enc_str [simp]: "dec_str (enc_str s @ r) = (s, r)"
  by (simp add: enc_str_def dec_str_def)

definition enc_time :: "time option \<Rightarrow> string" where
  "enc_time t = (case t of None \<Rightarrow> enc_nat 0 | Some i \<Rightarrow> enc_nat (if i < 0 then 2 else 1) @ enc_nat (nat \<bar>i\<bar>))"

definition dec_time :: "string \<Rightarrow> time option \<times> string" where
  "dec_time s =
     (case dec_nat s of (k, r) \<Rightarrow>
        (if k = 0 then (None, r)
         else case dec_nat r of (n, r') \<Rightarrow> (Some (if k = 2 then - int n else int n), r')))"

lemma dec_enc_time [simp]: "dec_time (enc_time t @ r) = (t, r)"
  by (auto simp: enc_time_def dec_time_def split: option.splits)

definition ref_token :: "AccessClaims \<Rightarrow> string \<Rightarrow> string" where
  "ref_token c s = enc_str (ac_Subject c) @ enc_str (ac_Issuer c) @ enc_time (ac_IssuedAt c)
     @ enc_time (ac_ExpiresAt c) @ enc_nat (if ac_EmailVerified c then 1 else 0) @ enc_str s @ []"

definition ref_claims :: "string \<Rightarrow> AccessClaims \<times> string" where
  "ref_claims tok =
     (case dec_str tok of (sub, r1) \<Rightarrow> case dec_str r1 of (iss, r2) \<Rightarrow> case dec_time r2 of (iat, r3) \<Rightarrow>
      case dec_time r3 of (ex, r4) \<Rightarrow> case dec_nat r4 of (v, r5) \<Rightarrow>
        (\<lparr>ac_Subject = sub, ac_Issuer = iss, ac_IssuedAt = iat, ac_ExpiresAt = ex, ac_EmailVerified = (v = 1)\<rparr>,
         fst (dec_str r5)))"

lemma ref_claims_token [simp]: "ref_claims (ref_token c s) = (c, s)"
  by (cases c) (simp add: ref_claims_def ref_token_def del: append_Nil2)

definition ref_jwt :: jwt_lib where
  "ref_jwt =
     \<lparr>jwt_NewNumericDate = (\<lambda>t. t div 1000 * 1000),
      jwt_SignHS256 = (\<lambda>c s. Inr (ref_token c s)),
      jwt_ParseWithClaims = (\<lambda>now tok kf iss.
        case ref_claims tok of (c, s) \<Rightarrow>
          (case kf True of
             Inl e \<Rightarrow> Inl e
           | Inr s' \<Rightarrow>
               (if s' = s \<and> ac_Issuer c = iss \<and> (case ac_ExpiresAt c of None \<Rightarrow> True | Some e \<Rightarrow> now < e)
                then Inr c else Inl (Ext ''token is invalid''))))\<rparr>"

interpretation ref_jwt_service: jwt_service ref_jwt "\<lambda>_. True"
proof
  fix t :: time
  show "jwt_NewNumericDate ref_jwt t \<le> t" by (simp add: ref_jwt_def div_mult_mod_eq)
  have "t = t div 1000 * 1000 + t mod 1000" by simp
  moreover have "t mod 1000 < 1000" by simp
  ultimately show "t < jwt_NewNumericDate ref_jwt t + 1000" unfolding ref_jwt_def by simp
qed (auto simp: ref_jwt_def split: option.splits sum.splits prod.splits if_splits)

section \<open>Properties\<close>

text \<open>
  C40. An access token the server issues is accepted with the same secret and issuer until one
  second before its lifetime is over, and gives back the user and the verification flag;
  every token that is accepted names the issuer, is not expired and uses an HMAC method.
\<close>

theorem access_token_validates:
  assumes "jwt_service J hmac" and "NewAccessToken U J t0 u secret ttl iss v = Inr tok" and "now + 1000 \<le> t0 + ttl"
  shows "(\<exists>c. ValidateAccessToken J now tok secret iss = Inr c \<and> ac_Subject c = uuid_String U u \<and> ac_EmailVerified c = v)
    \<and> (\<forall>t n c. ValidateAccessToken J n t secret iss = Inr c \<longrightarrow>
         ac_Issuer c = iss \<and> hmac t \<and> (\<forall>e. ac_ExpiresAt c = Some e \<longrightarrow> n < e))"
  using jwt_service.validate_new [OF assms] jwt_service.validate_sound [OF assms(1)] by blast

theorem access_token_validates_witness:
  "\<exists>tok c. NewAccessToken ref_uuid ref_jwt 5000 7 ''secret'' 3000 ''https://home'' True = Inr tok
     \<and> ValidateAccessToken ref_jwt 6500 tok ''secret'' ''https://home'' = Inr c
     \<and> ac_Subject c = uuid_String ref_uuid 7 \<and> ac_EmailVerified c"
proof -
  obtain tok where t: "NewAccessToken ref_uuid ref_jwt 5000 7 ''secret'' 3000 ''https://home'' True = Inr tok"
    by (simp add: NewAccessToken_def ref_jwt_def)
  then show ?thesis using access_token_validates [OF ref_jwt_service.jwt_service_axioms t, of 6500] by auto
qed

end
