(* ===== verification/Keyset.thy ===== *)
theory Keyset
  imports Prelude
begin

text \<open>
  Keyset pagination, as several repositories do it: rows are ordered by a pair of keys, and the
  page after a row holds the rows whose pair is greater. Followed from row to row, such pages
  give the whole list, without gaps or repetitions.
\<close>

section \<open>Ordering by a pair of keys\<close>

definition key_less :: "time \<times> int \<Rightarrow> time \<times> int \<Rightarrow> bool" where
  "key_less a b \<longleftrightarrow> fst a < fst b \<or> fst a = fst b \<and> snd a < snd b"

fun insort_by :: "('a \<Rightarrow> time \<times> int) \<Rightarrow> 'a \<Rightarrow> 'a list \<Rightarrow> 'a list" where
  "insort_by k x [] = [x]"
| "insort_by k x (y # ys) = (if key_less (k y) (k x) then y # insort_by k x ys else x # y # ys)"

definition sort_by :: "('a \<Rightarrow> time \<times> int) \<Rightarrow> 'a list \<Rightarrow> 'a list" where
  "sort_by k xs = foldr (insort_by k) xs []"

section \<open>Strictly ordered lists\<close>

definition strictly :: "('a \<Rightarrow> time \<times> int) \<Rightarrow> 'a list \<Rightarrow> bool" where
  "strictly k xs \<longleftrightarrow> sorted_wrt (\<lambda>x y. key_less (k x) (k y)) xs"

lemma key_less_trans: "key_less a b \<Longrightarrow> key_less b c \<Longrightarrow> key_less a c"
  by (auto simp: key_less_def)

lemma key_less_irrefl [simp]: "\<not> key_less a a"
  by (simp add: key_less_def)

lemma key_less_total: "a \<noteq> b \<Longrightarrow> key_less a b \<or> key_less b a"
  by (auto simp: key_less_def prod_eq_iff)

lemma key_less_asym: "key_less a b \<Longrightarrow> \<not> key_less b a"
  by (auto simp: key_less_def)

lemma set_insort_by [simp]: "set (insort_by k x ys) = insert x (set ys)"
  by (induction ys) auto

lemma set_sort_by [simp]: "set (sort_by k xs) = set xs"
  by (induction xs) (auto simp: sort_by_def)

lemma insort_by_strictly:
  assumes "strictly k ys" and "\<And>y. y \<in> set ys \<Longrightarrow> k y \<noteq> k x"
  shows "strictly k (insort_by k x ys)"
  using assms
proof (induction ys)
  case (Cons y ys)
  then show ?case
    using key_less_total [of "k y" "k x"] by (auto simp: strictly_def intro: key_less_trans)
qed (simp add: strictly_def)

lemma sort_by_strictly: "distinct (map k xs) \<Longrightarrow> strictly k (sort_by k xs)"
proof (induction xs)
  case (Cons x xs)
  have "strictly k (insort_by k x (sort_by k xs))"
    using Cons by (intro insort_by_strictly) (auto simp: image_iff)
  then show ?case by (simp add: sort_by_def)
qed (simp add: sort_by_def strictly_def)

lemma strictly_unique:
  "strictly k xs \<Longrightarrow> strictly k ys \<Longrightarrow> set xs = set ys \<Longrightarrow> xs = ys"
proof (induction xs arbitrary: ys)
  case (Cons x xs)
  then obtain y ys' where ys: "ys = y # ys'" by (cases ys) auto
  have "x = y"
    using Cons.prems ys key_less_asym by (auto simp: strictly_def set_eq_iff) (metis key_less_asym)
  moreover have "x \<notin> set xs" "y \<notin> set ys'" using Cons.prems ys by (auto simp: strictly_def)
  ultimately have "set xs = set ys'" using Cons.prems(3) ys by auto
  with Cons ys \<open>x = y\<close> show ?case by (auto simp: strictly_def)
qed simp

lemma strictly_filter: "strictly k xs \<Longrightarrow> strictly k (filter P xs)"
  by (simp add: strictly_def sorted_wrt_filter)

lemma sort_by_filter:
  assumes "distinct (map k xs)"
  shows "sort_by k (filter P xs) = filter P (sort_by k xs)"
proof (rule strictly_unique)
  show "strictly k (sort_by k (filter P xs))"
    using assms by (intro sort_by_strictly) (simp add: distinct_map_filter)
  show "strictly k (filter P (sort_by k xs))" using assms by (intro strictly_filter sort_by_strictly)
qed simp

text \<open>In a strictly ordered list, the entries after the key of an entry are those that follow it.\<close>

lemma strictly_after:
  assumes "strictly k xs" and "i < length xs"
  shows "filter (\<lambda>y. key_less (k (xs ! i)) (k y)) xs = drop (Suc i) xs"
  using assms
proof (induction xs arbitrary: i)
  case (Cons x xs)
  show ?case
  proof (cases i)
    case 0
    with Cons.prems show ?thesis by (auto simp: strictly_def filter_id_conv)
  next
    case (Suc j)
    with Cons.prems have "\<not> key_less (k (xs ! j)) (k x)"
      by (auto simp: strictly_def dest: key_less_asym)
    with Cons Suc show ?thesis by (simp add: strictly_def)
  qed
qed simp

text \<open>The rows after row \<open>i\<close> of the ordered result are the rest of it.\<close>

lemma keyset_page:
  assumes "distinct (map k rows)" and "i < length (sort_by k (filter match rows))"
  shows "sort_by k (filter (\<lambda>r. match r \<and> key_less (k (sort_by k (filter match rows) ! i)) (k r)) rows)
    = drop (Suc i) (sort_by k (filter match rows))"
proof -
  have d: "distinct (map k (filter match rows))" using assms(1) by (simp add: distinct_map_filter)
  have "filter (\<lambda>r. match r \<and> key_less (k (sort_by k (filter match rows) ! i)) (k r)) rows
    = filter (\<lambda>r. key_less (k (sort_by k (filter match rows) ! i)) (k r)) (filter match rows)"
    by (simp add: conj_commute)
  then have "sort_by k (filter (\<lambda>r. match r \<and> key_less (k (sort_by k (filter match rows) ! i)) (k r)) rows)
    = filter (\<lambda>r. key_less (k (sort_by k (filter match rows) ! i)) (k r)) (sort_by k (filter match rows))"
    by (simp only: sort_by_filter [OF d])
  also have "\<dots> = drop (Suc i) (sort_by k (filter match rows))"
    by (rule strictly_after [OF sort_by_strictly [OF d] assms(2)])
  finally show ?thesis .
qed

end
