(* ===== verification/Database.thy ===== *)
theory Database
  imports Prelude
begin

text \<open>
  The PostgreSQL tables the repositories work on, with the columns and constraints that
  \<open>internal/postgres/migrations/001_initial_schema.sql\<close> declares, and the helpers of
  \<open>internal/postgres\<close>. Each SQL statement of the source is a function on the tables; the
  order of rows a query does not fix is the order of the table. Whether the server runs a
  statement is the environment's choice: \<open>pg_outcomes\<close> lists the fate of the next
  statements (an empty list: they all run).
\<close>

record user_row =
  u_id :: uuid
  u_email :: string
  u_username :: string
  u_display_name :: "string option"
  u_avatar_key :: "string option"
  u_password_hash :: string
  u_mfa_secret :: "string option"
  u_mfa_enabled :: bool
  u_email_verified :: bool
  u_pronouns :: "string option"
  u_banner_key :: "string option"
  u_about :: "string option"
  u_theme_colour_primary :: "int option"
  u_theme_colour_secondary :: "int option"
  u_created_at :: time

record config_row =
  c_name :: string
  c_owner_id :: uuid
  c_id :: uuid
  c_description :: string
  c_icon_key :: "string option"
  c_banner_key :: "string option"
  c_created_at :: time
  c_updated_at :: time

datatype member_status = Pending | Active | TimedOut

record member_row =
  m_user_id :: uuid
  m_nickname :: "string option"
  m_status :: member_status
  m_timeout_until :: "time option"
  m_joined_at :: time
  m_onboarded_at :: "time option"

record category_row =
  ca_id :: uuid
  ca_name :: string
  ca_position :: int
  ca_created_at :: time
  ca_updated_at :: time

record channel_row =
  ch_id :: uuid
  ch_category_id :: "uuid option"
  ch_created_by :: "uuid option"
  ch_name :: string
  ch_type :: string
  ch_topic :: string
  ch_position :: int
  ch_slowmode_seconds :: int
  ch_nsfw :: bool
  ch_created_at :: time
  ch_updated_at :: time

record message_row =
  ms_id :: uuid
  ms_channel_id :: uuid
  ms_author_id :: uuid
  ms_content :: string
  ms_edited_at :: "time option"
  ms_reply_to_id :: "uuid option"
  ms_thread_id :: "uuid option"
  ms_pinned :: bool
  ms_deleted_at :: "time option"
  ms_deleted_by :: "uuid option"
  ms_encrypted :: bool
  ms_created_at :: time
  ms_updated_at :: time

record attachment_row =
  mt_id :: uuid
  mt_message_id :: "uuid option"
  mt_channel_id :: uuid
  mt_uploader_id :: uuid
  mt_filename :: string
  mt_content_type :: string
  mt_size_bytes :: int
  mt_storage_key :: string
  mt_width :: "int option"
  mt_height :: "int option"
  mt_thumbnail_key :: "string option"
  mt_created_at :: time

record thread_row =
  th_id :: uuid
  th_channel_id :: uuid
  th_parent_message_id :: uuid
  th_name :: string
  th_archived :: bool
  th_locked :: bool
  th_created_at :: time
  th_updated_at :: time

record reaction_row =
  rx_id :: uuid
  rx_message_id :: uuid
  rx_user_id :: uuid
  rx_emoji_id :: "uuid option"
  rx_emoji_unicode :: "string option"
  rx_created_at :: time

record read_state_row =
  rd_user_id :: uuid
  rd_channel_id :: uuid
  rd_last_message_id :: "uuid option"
  rd_mention_count :: int
  rd_updated_at :: time

record emoji_row =
  em_id :: uuid
  em_name :: string
  em_animated :: bool
  em_storage_key :: string
  em_uploader_id :: uuid
  em_created_at :: time
  em_updated_at :: time

record invite_row =
  iv_id :: uuid
  iv_code :: string
  iv_channel_id :: uuid
  iv_creator_id :: uuid
  iv_max_uses :: "int option"
  iv_use_count :: int
  iv_max_age_seconds :: "int option"
  iv_expires_at :: "time option"
  iv_created_at :: time

record onboarding_row =
  ob_id :: uuid
  ob_welcome_channel_id :: "uuid option"
  ob_require_email_verification :: bool
  ob_open_join :: bool
  ob_min_account_age_seconds :: int
  ob_require_phone :: bool
  ob_require_captcha :: bool
  ob_auto_roles :: "uuid list"
  ob_created_at :: time
  ob_updated_at :: time

record acceptance_row =
  da_user_id :: uuid
  da_slug :: string
  da_accepted_at :: time

record role_row =
  r_id :: uuid
  r_name :: string
  r_colour :: int
  r_position :: int
  r_hoist :: bool
  r_permissions :: int64
  r_is_everyone :: bool
  r_created_at :: time
  r_updated_at :: time

record member_role_row =
  mr_user_id :: uuid
  mr_role_id :: uuid

datatype TargetType = TargetChannel | TargetCategory
datatype PrincipalType = PrincipalRole | PrincipalUser

record OverrideRow =
  or_ID :: uuid
  or_TargetType :: TargetType
  or_TargetID :: uuid
  or_PrincipalType :: PrincipalType
  or_PrincipalID :: uuid
  or_Allow :: int64
  or_Deny :: int64
  or_CreatedAt :: time
  or_UpdatedAt :: time

record ban_row =
  b_user_id :: uuid
  b_reason :: "string option"
  b_banned_by :: "uuid option"
  b_expires_at :: "time option"
  b_created_at :: time

record audit_row =
  al_id :: uuid
  al_actor_id :: "uuid option"
  al_action :: string
  al_target_type :: "string option"
  al_target_id :: "uuid option"
  al_changes :: "json option"
  al_reason :: "string option"
  al_created_at :: time

record verification_row =
  vf_user_id :: uuid
  vf_token :: string
  vf_expires_at :: time
  vf_consumed_at :: "time option"
  vf_created_at :: time

record login_row =
  la_email :: string
  la_ip_address :: string
  la_success :: bool
  la_created_at :: time

record recovery_row =
  rc_id :: uuid
  rc_user_id :: uuid
  rc_code_hash :: string
  rc_used_at :: "time option"

datatype TombstoneType = TombstoneEmail | TombstoneUsername

record tombstone_row =
  ts_identifier_type :: TombstoneType
  ts_hmac_hash :: string
  ts_created_at :: time

text \<open>Direct messages, end-to-end keys and synchronised settings; keys and blobs are byte strings.\<close>

record dm_channel_row =
  dc_id :: uuid
  dc_type :: string
  dc_name :: "string option"
  dc_owner_id :: "uuid option"
  dc_created_at :: time
  dc_updated_at :: time

record participant_row =
  dp_dm_channel_id :: uuid
  dp_user_id :: uuid
  dp_joined_at :: time

record device_row =
  dv_id :: uuid
  dv_user_id :: uuid
  dv_device_id :: uuid
  dv_label :: "string option"
  dv_identity_key :: string
  dv_created_at :: time
  dv_updated_at :: time

record signed_key_row =
  sk_id :: uuid
  sk_device_id :: uuid
  sk_key_id :: int
  sk_public_key :: string
  sk_signature :: string
  sk_active :: bool
  sk_created_at :: time

record one_time_key_row =
  ok_id :: uuid
  ok_device_id :: uuid
  ok_key_id :: int
  ok_public_key :: string
  ok_created_at :: time

record message_key_row =
  mk_message_id :: uuid
  mk_device_id :: uuid
  mk_encrypted_key :: string

record settings_row =
  sy_user_id :: uuid
  sy_encrypted_blob :: string
  sy_salt :: string
  sy_nonce :: string
  sy_blob_version :: int
  sy_updated_at :: time

record direct_tables =
  t_dm_channels :: "dm_channel_row list"
  t_dm_participants :: "participant_row list"
  t_devices :: "device_row list"
  t_signed_pre_keys :: "signed_key_row list"
  t_one_time_pre_keys :: "one_time_key_row list"
  t_message_keys :: "message_key_row list"
  t_synced_settings :: "settings_row list"

text \<open>
  A statement runs, does not run, or runs while its acknowledgement is lost; the caller
  sees an error in the last two cases.
\<close>

datatype outcome = Done | NotRun | LostReply

record db =
  t_users :: "user_row list"
  t_server_config :: "config_row list"
  t_members :: "member_row list"
  t_channels :: "channel_row list"
  t_roles :: "role_row list"
  t_member_roles :: "member_role_row list"
  t_overrides :: "OverrideRow list"
  t_bans :: "ban_row list"
  t_audit_log :: "audit_row list"
  t_email_verifications :: "verification_row list"
  t_login_attempts :: "login_row list"
  t_recovery_codes :: "recovery_row list"
  t_tombstones :: "tombstone_row list"
  t_categories :: "category_row list"
  t_messages :: "message_row list"
  t_attachments :: "attachment_row list"
  t_threads :: "thread_row list"
  t_reactions :: "reaction_row list"
  t_read_states :: "read_state_row list"
  t_emoji :: "emoji_row list"
  t_invites :: "invite_row list"
  t_onboarding :: "onboarding_row list"
  t_acceptances :: "acceptance_row list"
  t_direct :: direct_tables
  pg_outcomes :: "outcome list"

definition no_direct :: direct_tables where
  "no_direct =
     \<lparr>t_dm_channels = [], t_dm_participants = [], t_devices = [], t_signed_pre_keys = [], t_one_time_pre_keys = [],
      t_message_keys = [], t_synced_settings = []\<rparr>"

definition empty_db :: db where
  "empty_db =
     \<lparr>t_users = [], t_server_config = [], t_members = [], t_channels = [], t_roles = [], t_member_roles = [],
      t_overrides = [], t_bans = [], t_audit_log = [], t_email_verifications = [], t_login_attempts = [],
      t_recovery_codes = [], t_tombstones = [],
      t_categories = [], t_messages = [], t_attachments = [], t_threads = [], t_reactions = [], t_read_states = [], t_emoji = [], t_invites = [], t_onboarding = [], t_acceptances = [], t_direct = no_direct, pg_outcomes = []\<rparr>"

lemma empty_db_fields [simp]:
  "t_users empty_db = []" "t_server_config empty_db = []" "t_members empty_db = []" "t_channels empty_db = []"
  "t_roles empty_db = []" "t_member_roles empty_db = []" "t_overrides empty_db = []" "t_bans empty_db = []"
  "t_audit_log empty_db = []" "t_email_verifications empty_db = []" "t_login_attempts empty_db = []"
  "t_recovery_codes empty_db = []" "t_tombstones empty_db = []" "pg_outcomes empty_db = []"
  "t_categories empty_db = []" "t_messages empty_db = []" "t_attachments empty_db = []" "t_threads empty_db = []" "t_reactions empty_db = []" "t_read_states empty_db = []" "t_emoji empty_db = []" "t_invites empty_db = []" "t_onboarding empty_db = []" "t_acceptances empty_db = []" "t_direct empty_db = no_direct"
  by (simp_all add: empty_db_def)

definition pg_conn :: error where
  "pg_conn = Ext ''connection failed''"

definition pgx_ErrNoRows :: error where
  "pgx_ErrNoRows = Sentinel ''pgx.ErrNoRows''"

definition unique_violation :: error where
  "unique_violation = PgError ''23505''"

definition foreign_key_violation :: error where
  "foreign_key_violation = PgError ''23503''"

fun pg_code :: "error \<Rightarrow> string option" where
  "pg_code (PgError c) = Some c"
| "pg_code (Wrap _ e) = pg_code e"
| "pg_code _ = None"

definition IsUniqueViolation :: "error \<Rightarrow> bool" where
  "IsUniqueViolation e \<longleftrightarrow> pg_code e = Some ''23505''"

definition IsForeignKeyViolation :: "error \<Rightarrow> bool" where
  "IsForeignKeyViolation e \<longleftrightarrow> pg_code e = Some ''23503''"

definition pg_stmt :: "('a, db) call \<Rightarrow> ('a, db) call" where
  "pg_stmt f d =
     (case pg_outcomes d of
        [] \<Rightarrow> f d
      | Done # os \<Rightarrow> f (d\<lparr>pg_outcomes := os\<rparr>)
      | NotRun # os \<Rightarrow> (Inl pg_conn, d\<lparr>pg_outcomes := os\<rparr>)
      | LostReply # os \<Rightarrow> (Inl pg_conn, snd (f (d\<lparr>pg_outcomes := os\<rparr>))))"

definition pg_query :: "(db \<Rightarrow> 'a) \<Rightarrow> ('a, db) call" where
  "pg_query f = pg_stmt (\<lambda>d. (Inr (f d), d))"

text \<open>A transaction that is rolled back leaves every table as it was.\<close>

definition rollback :: "db \<Rightarrow> db \<Rightarrow> db" where
  "rollback d0 d = d0\<lparr>pg_outcomes := pg_outcomes d\<rparr>"

definition WithTx :: "('a, db) call \<Rightarrow> ('a, db) call" where
  "WithTx fn d =
     (case pg_query (\<lambda>_. ()) d of
        (Inl e, d1) \<Rightarrow> (Inl (Wrap ''begin transaction'' e), d1)
      | (Inr _, d1) \<Rightarrow>
          (case fn d1 of
             (Inl e, d2) \<Rightarrow> (Inl e, rollback d1 d2)
           | (Inr x, d2) \<Rightarrow>
               (case pg_outcomes d2 of
                  [] \<Rightarrow> (Inr x, d2)
                | Done # os \<Rightarrow> (Inr x, d2\<lparr>pg_outcomes := os\<rparr>)
                | NotRun # os \<Rightarrow>
                    (Inl (Wrap ''commit transaction'' pg_conn), d1\<lparr>pg_outcomes := os\<rparr>)
                | LostReply # os \<Rightarrow>
                    (Inl (Wrap ''commit transaction'' pg_conn), d2\<lparr>pg_outcomes := os\<rparr>))))"

text \<open>The contents of the tables, without the fate of future statements.\<close>

definition tables :: "db \<Rightarrow> db" where
  "tables d = d\<lparr>pg_outcomes := []\<rparr>"

lemma tables_outcomes [simp]: "tables (d\<lparr>pg_outcomes := os\<rparr>) = tables d"
  by (simp add: tables_def)

lemma tables_rollback [simp]: "tables (rollback d0 d) = tables d0"
  by (simp add: rollback_def)

lemma tables_fields:
  assumes "tables d = tables d'"
  shows "t_users d = t_users d'" "t_server_config d = t_server_config d'" "t_members d = t_members d'"
    "t_channels d = t_channels d'" "t_roles d = t_roles d'" "t_member_roles d = t_member_roles d'"
    "t_overrides d = t_overrides d'" "t_bans d = t_bans d'" "t_audit_log d = t_audit_log d'"
    "t_email_verifications d = t_email_verifications d'" "t_login_attempts d = t_login_attempts d'"
    "t_recovery_codes d = t_recovery_codes d'" "t_tombstones d = t_tombstones d'"
    "t_categories d = t_categories d'" "t_messages d = t_messages d'" "t_attachments d = t_attachments d'" "t_threads d = t_threads d'" "t_reactions d = t_reactions d'" "t_read_states d = t_read_states d'" "t_emoji d = t_emoji d'" "t_invites d = t_invites d'" "t_onboarding d = t_onboarding d'" "t_acceptances d = t_acceptances d'" "t_direct d = t_direct d'"
  using assms by (cases d; cases d'; simp add: tables_def)+

text \<open>A query changes no table, and what it returns is read from the tables.\<close>

lemma pg_query_tables: "pg_query f d = (x, d') \<Longrightarrow> tables d' = tables d"
  by (auto simp: pg_query_def pg_stmt_def split: list.splits outcome.splits)

lemma pg_query_ok:
  assumes "pg_query f d = (Inr x, d')" and "\<And>os. f (d\<lparr>pg_outcomes := os\<rparr>) = f d"
  shows "x = f d"
  using assms by (auto simp: pg_query_def pg_stmt_def split: list.splits outcome.splits)

lemma pg_query_err: "pg_query f d = (Inl e, d') \<Longrightarrow> e = pg_conn"
  by (auto simp: pg_query_def pg_stmt_def split: list.splits outcome.splits)

lemma pg_query_none [simp]: "pg_outcomes d = [] \<Longrightarrow> pg_query f d = (Inr (f d), d)"
  by (simp add: pg_query_def pg_stmt_def)

lemma pg_stmt_none [simp]: "pg_outcomes d = [] \<Longrightarrow> pg_stmt f d = f d"
  by (simp add: pg_stmt_def)

lemma pg_stmt_ok:
  "pg_stmt f d = (Inr x, d') \<Longrightarrow> \<exists>os. f (d\<lparr>pg_outcomes := os\<rparr>) = (Inr x, d')"
  by (cases d) (auto simp: pg_stmt_def split: list.splits outcome.splits)

lemma pg_stmt_cases:
  assumes "pg_stmt f d = (x, d')"
  obtains (skipped) os where "x = Inl pg_conn" "d' = d\<lparr>pg_outcomes := os\<rparr>"
  | (lost) os where "x = Inl pg_conn" "d' = snd (f (d\<lparr>pg_outcomes := os\<rparr>))"
  | (run) os where "f (d\<lparr>pg_outcomes := os\<rparr>) = (x, d')"
proof (cases "pg_outcomes d")
  case Nil
  then have "f d = (x, d')" using assms by simp
  moreover have "d\<lparr>pg_outcomes := pg_outcomes d\<rparr> = d" by simp
  ultimately have "f (d\<lparr>pg_outcomes := pg_outcomes d\<rparr>) = (x, d')" by (simp only:)
  then show thesis by (rule run)
next
  case (Cons oc os)
  then show thesis
    using assms skipped [of os] lost [of os] run [of os] by (cases oc) (auto simp: pg_stmt_def)
qed

text \<open>A property of the tables that a statement keeps is kept however the statement ends.\<close>

lemma pg_stmt_inv:
  assumes "pg_stmt f d = (x, d')" and "I d" and "\<And>os. I (d\<lparr>pg_outcomes := os\<rparr>) = I d"
    and "\<And>os y e. f (d\<lparr>pg_outcomes := os\<rparr>) = (y, e) \<Longrightarrow> I e"
  shows "I d'"
  using assms(1)
proof (cases rule: pg_stmt_cases)
  case (lost os)
  then show ?thesis using assms(4) by (metis prod.collapse)
qed (use assms in auto)

section \<open>Statements as functions on the tables\<close>

definition table_fun :: "('a, db) call \<Rightarrow> bool" where
  "table_fun f \<longleftrightarrow> (\<forall>d os. tables (snd (f (d\<lparr>pg_outcomes := os\<rparr>))) = tables (snd (f d)))"

lemma tables_eqD: "tables d1 = tables d \<Longrightarrow> d1 = d\<lparr>pg_outcomes := pg_outcomes d1\<rparr>"
  by (cases d; cases d1) (simp add: tables_def)

lemma table_fun_eq: "table_fun f \<Longrightarrow> tables d1 = tables d \<Longrightarrow> tables (snd (f d1)) = tables (snd (f d))"
  by (metis table_fun_def tables_eqD)

lemma pg_stmt_effect:
  assumes "pg_stmt f d = (x, d')" and "table_fun f"
  shows "tables d' = tables d \<or> tables d' = tables (snd (f d))"
  using assms(1)
proof (cases rule: pg_stmt_cases)
  case (lost os)
  then show ?thesis using assms(2) by (auto simp: table_fun_def)
next
  case (run os)
  then have "d' = snd (f (d\<lparr>pg_outcomes := os\<rparr>))" by simp
  then show ?thesis using assms(2) by (auto simp: table_fun_def)
qed simp

lemma WithTx_effect:
  assumes "WithTx fn d = (x, d')"
    and "\<And>d1 y d2. tables d1 = tables d \<Longrightarrow> fn d1 = (y, d2) \<Longrightarrow> tables d2 = tables d \<or> Q (tables d2)"
  shows "tables d' = tables d \<or> Q (tables d')"
proof (cases "pg_query (\<lambda>_. ()) d")
  case (Pair b d1)
  have t1: "tables d1 = tables d" by (rule pg_query_tables [OF Pair])
  show ?thesis
  proof (cases b)
    case (Inl e)
    then show ?thesis using assms(1) Pair t1 by (auto simp: WithTx_def)
  next
    case (Inr u)
    obtain y d2 where y: "fn d1 = (y, d2)" by fastforce
    show ?thesis
      using assms(1) Pair Inr y t1 assms(2) [OF t1 y]
      by (auto simp: WithTx_def split: sum.splits list.splits outcome.splits)
  qed
qed

text \<open>A statement whose result and effect depend on the tables only.\<close>

definition pure_stmt :: "('a, db) call \<Rightarrow> bool" where
  "pure_stmt f \<longleftrightarrow> (\<forall>d os. f (d\<lparr>pg_outcomes := os\<rparr>) = (fst (f d), (snd (f d))\<lparr>pg_outcomes := os\<rparr>))"

lemma pure_table_fun: "pure_stmt f \<Longrightarrow> table_fun f"
  by (simp add: pure_stmt_def table_fun_def)

lemma pure_eq:
  assumes "pure_stmt f" and "tables d1 = tables d"
  shows "fst (f d1) = fst (f d)" and "tables (snd (f d1)) = tables (snd (f d))"
  using assms tables_eqD [OF assms(2)] by (metis pure_stmt_def fst_conv, metis pure_table_fun table_fun_eq)

lemma pg_stmt_success:
  assumes "pg_stmt f d = (Inr x, d')" and "pure_stmt f"
  shows "fst (f d) = Inr x \<and> tables d' = tables (snd (f d))"
proof -
  from pg_stmt_ok [OF assms(1)] obtain os where "f (d\<lparr>pg_outcomes := os\<rparr>) = (Inr x, d')" ..
  with assms(2) have "(fst (f d), (snd (f d))\<lparr>pg_outcomes := os\<rparr>) = (Inr x, d')" by (simp add: pure_stmt_def)
  then show ?thesis by auto
qed

lemma pg_stmt_success_at:
  assumes "pg_stmt f d1 = (Inr x, d')" and "pure_stmt f" and "tables d1 = tables d"
  shows "fst (f d) = Inr x" and "tables d' = tables (snd (f d))"
  using pg_stmt_success [OF assms(1,2)] pure_eq [OF assms(2,3)] by simp_all

text \<open>A transaction either leaves the tables alone and fails, or its body ran to the end.\<close>

lemma WithTx_cases:
  assumes "WithTx fn d = (x, d')"
  obtains (aborted) e where "x = Inl e" "tables d' = tables d"
  | (committed) d1 y d2 where "tables d1 = tables d" "fn d1 = (Inr y, d2)" "tables d' = tables d2"
      "x = Inr y \<or> x = Inl (Wrap ''commit transaction'' pg_conn)"
proof (cases "pg_query (\<lambda>_. ()) d")
  case (Pair b d1)
  have t1: "tables d1 = tables d" by (rule pg_query_tables [OF Pair])
  show thesis
  proof (cases b)
    case (Inl e)
    then show thesis using assms Pair t1 aborted by (auto simp: WithTx_def)
  next
    case (Inr u)
    obtain y d2 where y: "fn d1 = (y, d2)" by fastforce
    show thesis
    proof (cases y)
      case (Inl e)
      then show thesis using assms Pair Inr y t1 aborted by (auto simp: WithTx_def)
    next
      case (Inr v)
      then show thesis
        using assms Pair \<open>b = Inr u\<close> y t1 aborted [of "Wrap ''commit transaction'' pg_conn"] committed [OF t1, of v d2]
        by (auto simp: WithTx_def split: list.splits outcome.splits)
    qed
  qed
qed

section \<open>Cascades\<close>

text \<open>
  What the foreign keys of the content tables do when rows go: references are cleared or the rows
  that refer go too, and a row whose reference is cleared is touched by its \<open>updated_at\<close> trigger.
\<close>

definition unref :: "uuid list \<Rightarrow> uuid option \<Rightarrow> uuid option" where
  "unref gone r = (case r of Some i \<Rightarrow> if i \<in> set gone then None else r | None \<Rightarrow> None)"

definition unref_message :: "time \<Rightarrow> uuid list \<Rightarrow> uuid list \<Rightarrow> message_row \<Rightarrow> message_row" where
  "unref_message now gone threads m =
     (let m1 = m\<lparr>ms_reply_to_id := unref gone (ms_reply_to_id m), ms_thread_id := unref threads (ms_thread_id m)\<rparr>
      in if m1 = m then m else m1\<lparr>ms_updated_at := now\<rparr>)"

definition remove_threads :: "time \<Rightarrow> (thread_row \<Rightarrow> bool) \<Rightarrow> db \<Rightarrow> db" where
  "remove_threads now P d =
     (let gone = map th_id (filter P (t_threads d))
      in d\<lparr>t_threads := filter (\<lambda>t. \<not> P t) (t_threads d), t_messages := map (unref_message now [] gone) (t_messages d)\<rparr>)"

definition remove_devices :: "(device_row \<Rightarrow> bool) \<Rightarrow> direct_tables \<Rightarrow> direct_tables" where
  "remove_devices P s =
     (let gone = map dv_id (filter P (t_devices s))
      in s\<lparr>t_devices := filter (\<lambda>v. \<not> P v) (t_devices s),
           t_signed_pre_keys := filter (\<lambda>k. sk_device_id k \<notin> set gone) (t_signed_pre_keys s),
           t_one_time_pre_keys := filter (\<lambda>k. ok_device_id k \<notin> set gone) (t_one_time_pre_keys s),
           t_message_keys := filter (\<lambda>k. mk_device_id k \<notin> set gone) (t_message_keys s)\<rparr>)"

text \<open>What deleting a user does to the tables of direct messages, keys and settings.\<close>

definition remove_person :: "time \<Rightarrow> uuid \<Rightarrow> direct_tables \<Rightarrow> direct_tables" where
  "remove_person now i s =
     remove_devices (\<lambda>v. dv_user_id v = i)
       (s\<lparr>t_dm_channels := map (\<lambda>c. if dc_owner_id c = Some i then c\<lparr>dc_owner_id := None, dc_updated_at := now\<rparr> else c) (t_dm_channels s),
          t_dm_participants := filter (\<lambda>p. dp_user_id p \<noteq> i) (t_dm_participants s),
          t_synced_settings := filter (\<lambda>y. sy_user_id y \<noteq> i) (t_synced_settings s)\<rparr>)"

definition remove_messages :: "time \<Rightarrow> (message_row \<Rightarrow> bool) \<Rightarrow> db \<Rightarrow> db" where
  "remove_messages now P d =
     (let gone = map ms_id (filter P (t_messages d));
          d1 = d\<lparr>t_messages := map (unref_message now gone []) (filter (\<lambda>m. \<not> P m) (t_messages d)),
                 t_attachments := filter (\<lambda>a. mt_message_id a \<notin> Some ` set gone) (t_attachments d),
                 t_reactions := filter (\<lambda>r. rx_message_id r \<notin> set gone) (t_reactions d),
                 t_read_states := map (\<lambda>r. r\<lparr>rd_last_message_id := unref gone (rd_last_message_id r)\<rparr>) (t_read_states d),
                 t_direct := (t_direct d)\<lparr>t_message_keys := filter (\<lambda>k. mk_message_id k \<notin> set gone) (t_message_keys (t_direct d))\<rparr>\<rparr>
      in remove_threads now (\<lambda>t. th_parent_message_id t \<in> set gone) d1)"

definition remove_emoji :: "(emoji_row \<Rightarrow> bool) \<Rightarrow> db \<Rightarrow> db" where
  "remove_emoji P d =
     (let gone = map em_id (filter P (t_emoji d))
      in d\<lparr>t_emoji := filter (\<lambda>e. \<not> P e) (t_emoji d),
           t_reactions := filter (\<lambda>r. rx_emoji_id r \<notin> Some ` set gone) (t_reactions d)\<rparr>)"

lemma unref_Nil [simp]: "unref [] r = r"
  by (simp add: unref_def split: option.splits)

lemma cascade_frame [simp]:
  "t_users (remove_threads now PT d) = t_users d" "t_users (remove_messages now PM d) = t_users d" "t_users (remove_emoji PE d) = t_users d"
  "t_server_config (remove_threads now PT d) = t_server_config d" "t_server_config (remove_messages now PM d) = t_server_config d"
  "t_server_config (remove_emoji PE d) = t_server_config d"
  "t_members (remove_threads now PT d) = t_members d" "t_members (remove_messages now PM d) = t_members d" "t_members (remove_emoji PE d) = t_members d"
  "t_channels (remove_threads now PT d) = t_channels d" "t_channels (remove_messages now PM d) = t_channels d" "t_channels (remove_emoji PE d) = t_channels d"
  "t_roles (remove_threads now PT d) = t_roles d" "t_roles (remove_messages now PM d) = t_roles d" "t_roles (remove_emoji PE d) = t_roles d"
  "t_member_roles (remove_threads now PT d) = t_member_roles d" "t_member_roles (remove_messages now PM d) = t_member_roles d"
  "t_member_roles (remove_emoji PE d) = t_member_roles d"
  "t_overrides (remove_threads now PT d) = t_overrides d" "t_overrides (remove_messages now PM d) = t_overrides d"
  "t_overrides (remove_emoji PE d) = t_overrides d"
  "t_bans (remove_threads now PT d) = t_bans d" "t_bans (remove_messages now PM d) = t_bans d" "t_bans (remove_emoji PE d) = t_bans d"
  "t_audit_log (remove_threads now PT d) = t_audit_log d" "t_audit_log (remove_messages now PM d) = t_audit_log d"
  "t_audit_log (remove_emoji PE d) = t_audit_log d"
  "t_email_verifications (remove_threads now PT d) = t_email_verifications d" "t_email_verifications (remove_messages now PM d) = t_email_verifications d"
  "t_email_verifications (remove_emoji PE d) = t_email_verifications d"
  "t_recovery_codes (remove_threads now PT d) = t_recovery_codes d" "t_recovery_codes (remove_messages now PM d) = t_recovery_codes d"
  "t_recovery_codes (remove_emoji PE d) = t_recovery_codes d"
  "t_tombstones (remove_threads now PT d) = t_tombstones d" "t_tombstones (remove_messages now PM d) = t_tombstones d"
  "t_tombstones (remove_emoji PE d) = t_tombstones d"
  "t_login_attempts (remove_threads now PT d) = t_login_attempts d" "t_login_attempts (remove_messages now PM d) = t_login_attempts d"
  "t_login_attempts (remove_emoji PE d) = t_login_attempts d"
  "t_categories (remove_threads now PT d) = t_categories d" "t_categories (remove_messages now PM d) = t_categories d"
  "t_categories (remove_emoji PE d) = t_categories d"
  "pg_outcomes (remove_threads now PT d) = pg_outcomes d" "pg_outcomes (remove_messages now PM d) = pg_outcomes d"
  "pg_outcomes (remove_emoji PE d) = pg_outcomes d"
  by (simp_all add: remove_threads_def remove_messages_def remove_emoji_def Let_def)

lemma cascade_outcomes [simp]:
  "remove_threads now PT (d\<lparr>pg_outcomes := os\<rparr>) = (remove_threads now PT d)\<lparr>pg_outcomes := os\<rparr>"
  "remove_messages now PM (d\<lparr>pg_outcomes := os\<rparr>) = (remove_messages now PM d)\<lparr>pg_outcomes := os\<rparr>"
  "remove_emoji PE (d\<lparr>pg_outcomes := os\<rparr>) = (remove_emoji PE d)\<lparr>pg_outcomes := os\<rparr>"
  by (simp_all add: remove_threads_def remove_messages_def remove_emoji_def Let_def)

section \<open>Invariants of the tables\<close>

text \<open>
  A property of the tables that every statement of an operation keeps is kept by the operation,
  also when statements or commits fail: the interface of an invariant.
\<close>

locale table_invariant =
  fixes I :: "db \<Rightarrow> bool"
  assumes outcomes: "I (d\<lparr>pg_outcomes := os\<rparr>) = I d"
begin

lemma by_tables: "tables d = tables d' \<Longrightarrow> I d = I d'"
  by (metis outcomes tables_eqD)

lemma stmt:
  assumes "pg_stmt f d = (x, d')" and "\<And>d. I d \<Longrightarrow> I (snd (f d))" and "I d"
  shows "I d'"
  using assms(1)
proof (cases rule: pg_stmt_cases)
  case (run os)
  then show ?thesis using assms(2) [of "d\<lparr>pg_outcomes := os\<rparr>"] assms(3) outcomes by simp
qed (use assms outcomes in auto)

lemma query: "pg_query f d = (x, d') \<Longrightarrow> I d \<Longrightarrow> I d'"
  using by_tables [OF pg_query_tables] by blast

lemma tx:
  assumes "WithTx f d = (x, d')" and "\<And>d x d'. f d = (x, d') \<Longrightarrow> I d \<Longrightarrow> I d'" and "I d"
  shows "I d'"
  using assms(1)
proof (cases rule: WithTx_cases)
  case (aborted e)
  then show ?thesis using by_tables assms(3) by metis
next
  case (committed d1 y d2)
  then show ?thesis using by_tables assms(2,3) by metis
qed

end

end
