(* ===== verification/AuditLog.thy ===== *)
theory AuditLog
  imports Keyset Database
begin

text \<open>
  \<open>internal/audit\<close>: audit log entries, their repository and the logger. \<open>List\<close> pages through
  the log by the key of the last entry of the page before; the lemmas on keyset pagination
  show that the pages together are the whole log.
\<close>

section \<open>Entries\<close>

record Entry =
  en_ID :: uuid
  en_ActorID :: "uuid option"
  en_Action :: string
  en_TargetType :: "string option"
  en_TargetID :: "uuid option"
  en_Changes :: "json option"
  en_Reason :: "string option"
  en_CreatedAt :: time

definition DefaultLimit :: int where
  "DefaultLimit = 50"

definition MaxLimit :: int where
  "MaxLimit = 100"

definition ClampLimit :: "int \<Rightarrow> int" where
  "ClampLimit n = (if n \<le> 0 then DefaultLimit else if n > MaxLimit then MaxLimit else n)"

record ListParams =
  lp_ActorID :: "uuid option"
  lp_ActionType :: "string option"
  lp_TargetID :: "uuid option"
  lp_Before :: "uuid option"
  lp_Limit :: int

section \<open>Repository\<close>

text \<open>The actor column references \<open>users\<close>; \<open>newID\<close> and \<open>now\<close> are the column defaults.\<close>

definition insert_audit :: "uuid \<Rightarrow> time \<Rightarrow> Entry \<Rightarrow> (unit, db) call" where
  "insert_audit newID now entry d =
     (if \<exists>r \<in> set (t_audit_log d). al_id r = newID then (Inl unique_violation, d)
      else if (case en_ActorID entry of None \<Rightarrow> False | Some a \<Rightarrow> \<forall>u \<in> set (t_users d). u_id u \<noteq> a)
      then (Inl foreign_key_violation, d)
      else (Inr (), d\<lparr>t_audit_log := t_audit_log d @
        [\<lparr>al_id = newID, al_actor_id = en_ActorID entry, al_action = en_Action entry,
          al_target_type = en_TargetType entry, al_target_id = en_TargetID entry,
          al_changes = en_Changes entry, al_reason = en_Reason entry, al_created_at = now\<rparr>]\<rparr>))"

definition audit_Create :: "uuid \<Rightarrow> time \<Rightarrow> Entry \<Rightarrow> (unit, db) call" where
  "audit_Create newID now entry d =
     (case pg_stmt (insert_audit newID now entry) d of
        (Inl e, d') \<Rightarrow> (Inl (Wrap ''insert audit log entry'' e), d')
      | (Inr _, d') \<Rightarrow> (Inr (), d'))"

definition scanEntry :: "audit_row \<Rightarrow> Entry" where
  "scanEntry r =
     \<lparr>en_ID = al_id r, en_ActorID = al_actor_id r, en_Action = al_action r, en_TargetType = al_target_type r,
      en_TargetID = al_target_id r, en_Changes = al_changes r, en_Reason = al_reason r,
      en_CreatedAt = al_created_at r\<rparr>"

text \<open>Newest first: descending by creation time, then by identifier.\<close>

definition audit_key :: "audit_row \<Rightarrow> time \<times> int" where
  "audit_key r = (- al_created_at r, - uint (al_id r))"

definition audit_matches :: "ListParams \<Rightarrow> audit_row \<Rightarrow> bool" where
  "audit_matches p r \<longleftrightarrow>
     (\<forall>a. lp_ActorID p = Some a \<longrightarrow> al_actor_id r = Some a)
     \<and> (\<forall>a. lp_ActionType p = Some a \<longrightarrow> al_action r = a)
     \<and> (\<forall>t. lp_TargetID p = Some t \<longrightarrow> al_target_id r = Some t)"

text \<open>
  \<open>(created_at, id) < (SELECT created_at, id ... WHERE id = before)\<close>; no row with that
  identifier makes the comparison null and the result empty.
\<close>

definition before_cursor :: "uuid option \<Rightarrow> db \<Rightarrow> audit_row \<Rightarrow> bool" where
  "before_cursor before d r =
     (case before of
        None \<Rightarrow> True
      | Some b \<Rightarrow>
          (case find (\<lambda>x. al_id x = b) (t_audit_log d) of
             None \<Rightarrow> False
           | Some x \<Rightarrow> key_less (audit_key x) (audit_key r)))"

definition audit_rows :: "ListParams \<Rightarrow> db \<Rightarrow> Entry list" where
  "audit_rows p d =
     map scanEntry (take (nat (ClampLimit (lp_Limit p)))
       (sort_by audit_key (filter (\<lambda>r. audit_matches p r \<and> before_cursor (lp_Before p) d r) (t_audit_log d))))"

definition audit_List :: "ListParams \<Rightarrow> (Entry list, db) call" where
  "audit_List p d =
     (case pg_query (audit_rows p) d of
        (Inl e, d') \<Rightarrow> (Inl (Wrap ''query audit log'' e), d')
      | (Inr es, d') \<Rightarrow> (Inr es, d'))"

text \<open>The logger never fails its caller: an error is logged and dropped.\<close>

definition Record :: "uuid \<Rightarrow> time \<Rightarrow> Entry \<Rightarrow> db \<Rightarrow> string option \<times> db" where
  "Record newID now entry d =
     (case audit_Create newID now entry d of
        (Inl _, d') \<Rightarrow> (Some ''failed to write audit log entry'', d')
      | (Inr _, d') \<Rightarrow> (None, d'))"

section \<open>Paging\<close>

definition audit_all :: "ListParams \<Rightarrow> db \<Rightarrow> audit_row list" where
  "audit_all p d = sort_by audit_key (filter (audit_matches p) (t_audit_log d))"

lemma audit_key_distinct: "distinct (map al_id rs) \<Longrightarrow> distinct (map audit_key rs)"
  by (induction rs) (auto simp: audit_key_def word_uint_eq_iff [symmetric])

lemma audit_rows_from:
  assumes "distinct (map al_id (t_audit_log d))"
  shows "lp_Before p = None \<Longrightarrow>
      audit_rows p d = map scanEntry (take (nat (ClampLimit (lp_Limit p))) (audit_all p d))"
    and "lp_Before p = Some (al_id (audit_all p d ! i)) \<Longrightarrow> i < length (audit_all p d) \<Longrightarrow>
      audit_rows p d = map scanEntry (take (nat (ClampLimit (lp_Limit p))) (drop (Suc i) (audit_all p d)))"
proof -
  note dk = audit_key_distinct [OF assms]
  show "lp_Before p = None \<Longrightarrow>
      audit_rows p d = map scanEntry (take (nat (ClampLimit (lp_Limit p))) (audit_all p d))"
    by (simp add: audit_rows_def audit_all_def before_cursor_def)
  assume b: "lp_Before p = Some (al_id (audit_all p d ! i))" and i: "i < length (audit_all p d)"
  have "audit_all p d ! i \<in> set (t_audit_log d)"
    using nth_mem [OF i] by (auto simp: audit_all_def)
  then have "find (\<lambda>x. al_id x = al_id (audit_all p d ! i)) (t_audit_log d) = Some (audit_all p d ! i)"
    by (rule find_unique [OF assms, where k = "al_id (audit_all p d ! i)"]) simp_all
  then have "filter (\<lambda>r. audit_matches p r \<and> before_cursor (lp_Before p) d r) (t_audit_log d)
    = filter (\<lambda>r. audit_matches p r \<and> key_less (audit_key (audit_all p d ! i)) (audit_key r)) (t_audit_log d)"
    using b by (simp add: before_cursor_def)
  then have "sort_by audit_key (filter (\<lambda>r. audit_matches p r \<and> before_cursor (lp_Before p) d r) (t_audit_log d))
    = drop (Suc i) (audit_all p d)"
    using keyset_page [OF dk, of i "audit_matches p"] i by (simp add: audit_all_def)
  then show "audit_rows p d = map scanEntry (take (nat (ClampLimit (lp_Limit p))) (drop (Suc i) (audit_all p d)))"
    by (simp add: audit_rows_def)
qed

section \<open>Properties\<close>

text \<open>
  Paging through the audit log with the identifier of the last entry seen skips nothing
  and repeats nothing, also among entries with the same timestamp: the page requested
  after entry \<open>i\<close> of the matching entries, newest first, starts at entry \<open>i + 1\<close>.
\<close>

theorem audit_List_pages:
  assumes "distinct (map al_id (t_audit_log d))" and "pg_outcomes d = []"
    and "i < length (audit_all p d)" and "n = nat (ClampLimit (lp_Limit p))"
  shows "audit_List (p\<lparr>lp_Before := None\<rparr>) d = (Inr (map scanEntry (take n (audit_all p d))), d)
    \<and> audit_List (p\<lparr>lp_Before := Some (al_id (audit_all p d ! i))\<rparr>) d
        = (Inr (map scanEntry (take n (drop (Suc i) (audit_all p d)))), d)"
proof -
  have all: "audit_all (p\<lparr>lp_Before := b\<rparr>) d = audit_all p d" for b
    by (simp add: audit_all_def audit_matches_def [abs_def])
  have "audit_rows (p\<lparr>lp_Before := None\<rparr>) d = map scanEntry (take n (audit_all p d))"
    using audit_rows_from(1) [OF assms(1), of "p\<lparr>lp_Before := None\<rparr>"] assms(4) by (simp add: all)
  moreover have "audit_rows (p\<lparr>lp_Before := Some (al_id (audit_all p d ! i))\<rparr>) d
      = map scanEntry (take n (drop (Suc i) (audit_all p d)))"
    using audit_rows_from(2) [OF assms(1), of "p\<lparr>lp_Before := Some (al_id (audit_all p d ! i))\<rparr>" i] assms(3,4)
    by (simp add: all)
  ultimately show ?thesis using assms(2) by (simp add: audit_List_def)
qed

definition sample_audit :: db where
  "sample_audit =
     empty_db\<lparr>t_audit_log := [\<lparr>al_id = 1, al_actor_id = None, al_action = ''role.create'', al_target_type = None,
          al_target_id = None, al_changes = None, al_reason = None, al_created_at = 7\<rparr>,
        \<lparr>al_id = 2, al_actor_id = None, al_action = ''role.delete'', al_target_type = None,
          al_target_id = None, al_changes = None, al_reason = None, al_created_at = 7\<rparr>]\<rparr>"

theorem audit_List_pages_witness:
  "map en_ID (projr (fst (audit_List \<lparr>lp_ActorID = None, lp_ActionType = None, lp_TargetID = None,
      lp_Before = Some 2, lp_Limit = 1\<rparr> sample_audit))) = [1]"
proof -
  let ?p = "\<lparr>lp_ActorID = None, lp_ActionType = None, lp_TargetID = None, lp_Before = None, lp_Limit = 1\<rparr>"
  have "audit_all ?p sample_audit = rev (t_audit_log sample_audit)"
    by (simp add: audit_all_def sample_audit_def empty_db_def sort_by_def audit_matches_def audit_key_def key_less_def)
  with audit_List_pages [of sample_audit 0 ?p 1] show ?thesis
    by (simp add: sample_audit_def empty_db_def ClampLimit_def MaxLimit_def scanEntry_def)
qed

end
