(* ===== verification/Gateway_Publisher.thy ===== *)
theory Gateway_Publisher
  imports Valkey
begin

text \<open>
  \<open>internal/gateway/publisher.go\<close>: the bounded queue of gateway events and its workers.
  Producers run concurrently with the workers and with shutdown, so beside the operations
  the theory has a step relation in which \<open>enqueue\<close> is the two atomic steps it consists of.
\<close>

section \<open>State and operations\<close>

definition eventsChannel :: string where
  "eventsChannel = ''uncord.gateway.events''"

record job =
  jb_eventType :: string
  jb_data :: json
  jb_targets :: "uuid list"

text \<open>\<open>p_chanClosed\<close> is the state of the channel itself, which \<open>close(p.queue)\<close> sets.\<close>

record publisher =
  p_queue :: "job list"
  p_queueSize :: nat
  p_workers :: nat
  p_dropped :: int
  p_closed :: bool
  p_chanClosed :: bool

definition NewPublisher :: "nat \<Rightarrow> nat \<Rightarrow> publisher" where
  "NewPublisher workers queueSize =
     \<lparr>p_queue = [], p_queueSize = queueSize, p_workers = workers, p_dropped = 0,
      p_closed = False, p_chanClosed = False\<rparr>"

text \<open>The \<open>select\<close> of \<open>enqueue\<close>: a send on a channel that is not full, or the default branch.\<close>

definition select_send :: "job \<Rightarrow> publisher \<Rightarrow> publisher" where
  "select_send j p =
     (if length (p_queue p) < p_queueSize p then p\<lparr>p_queue := p_queue p @ [j]\<rparr>
      else p\<lparr>p_dropped := p_dropped p + 1\<rparr>)"

definition enqueue :: "job \<Rightarrow> publisher \<Rightarrow> publisher" where
  "enqueue j p =
     (if p_closed p then p\<lparr>p_dropped := p_dropped p + 1\<rparr> else select_send j p)"

text \<open>The JSON envelope; \<open>omitempty\<close> drops an empty list of targets.\<close>

definition marshal_envelope :: "uuid_lib \<Rightarrow> string \<Rightarrow> json \<Rightarrow> uuid list \<Rightarrow> bytes" where
  "marshal_envelope U t data targets = Json (JObj
     ([(''t'', JStr t), (''d'', data)]
      @ (if targets = [] then [] else [(''targets'', JArr (map (\<lambda>u. JStr (uuid_String U u)) targets))])))"

definition gw_publish :: "uuid_lib \<Rightarrow> 'r valkey \<Rightarrow> string \<Rightarrow> json \<Rightarrow> uuid list \<Rightarrow> (unit, 'r) call" where
  "gw_publish U V eventType data targets r =
     (case redis_Do V (PUBLISH eventsChannel (marshal_envelope U eventType data targets)) r of
        (Inl e, r') \<Rightarrow> (Inl (Wrap ''publish gateway event'' e), r')
      | (Inr _, r') \<Rightarrow> (Inr (), r'))"

definition Publish :: "uuid_lib \<Rightarrow> 'r valkey \<Rightarrow> string \<Rightarrow> json \<Rightarrow> (unit, 'r) call" where
  "Publish U V eventType data = gw_publish U V eventType data []"

text \<open>A failed publication is logged and the event is lost.\<close>

definition publishWithTimeout :: "uuid_lib \<Rightarrow> 'r valkey \<Rightarrow> job \<Rightarrow> 'r \<Rightarrow> 'r" where
  "publishWithTimeout U V j r = snd (gw_publish U V (jb_eventType j) (jb_data j) (jb_targets j) r)"

section \<open>Interleaving\<close>

text \<open>
  A configuration adds to the publisher the producers that have read \<open>p.closed\<close> and not yet
  sent, the jobs workers have received, those dropped, those whose send found the channel
  closed, and whether a goroutine has panicked. \<open>pc_begun\<close> holds the jobs of the calls of
  \<open>enqueue\<close> that have begun.
\<close>

record pconf =
  pc_pub :: publisher
  pc_checked :: "job list"
  pc_taken :: "job list"
  pc_refused :: "job list"
  pc_lost :: "job list"
  pc_begun :: "job list"
  pc_panic :: bool

inductive pub_step :: "pconf \<Rightarrow> pconf \<Rightarrow> bool" where
  check_closed:
    "p_closed (pc_pub c) \<Longrightarrow>
     pub_step c (c\<lparr>pc_pub := (pc_pub c)\<lparr>p_dropped := p_dropped (pc_pub c) + 1\<rparr>,
                  pc_refused := pc_refused c @ [j], pc_begun := pc_begun c @ [j]\<rparr>)"
| check_open:
    "\<not> p_closed (pc_pub c) \<Longrightarrow>
     pub_step c (c\<lparr>pc_checked := pc_checked c @ [j], pc_begun := pc_begun c @ [j]\<rparr>)"
| send:
    "\<not> p_chanClosed (pc_pub c) \<Longrightarrow> j \<in> set (pc_checked c) \<Longrightarrow>
     pub_step c (c\<lparr>pc_checked := remove1 j (pc_checked c), pc_pub := select_send j (pc_pub c),
                  pc_refused := pc_refused c @ (if length (p_queue (pc_pub c)) < p_queueSize (pc_pub c) then [] else [j])\<rparr>)"
| send_closed:
    "p_chanClosed (pc_pub c) \<Longrightarrow> j \<in> set (pc_checked c) \<Longrightarrow>
     pub_step c (c\<lparr>pc_checked := remove1 j (pc_checked c), pc_lost := pc_lost c @ [j], pc_panic := True\<rparr>)"
| receive:
    "p_queue (pc_pub c) = j # js \<Longrightarrow>
     pub_step c (c\<lparr>pc_taken := pc_taken c @ [j], pc_pub := (pc_pub c)\<lparr>p_queue := js\<rparr>\<rparr>)"
| store_closed:
    "pub_step c (c\<lparr>pc_pub := (pc_pub c)\<lparr>p_closed := True\<rparr>\<rparr>)"
| close_queue:
    "p_closed (pc_pub c) \<Longrightarrow> pub_step c (c\<lparr>pc_pub := (pc_pub c)\<lparr>p_chanClosed := True\<rparr>\<rparr>)"

definition pub_init :: "nat \<Rightarrow> nat \<Rightarrow> pconf" where
  "pub_init workers queueSize =
     \<lparr>pc_pub = NewPublisher workers queueSize, pc_checked = [], pc_taken = [], pc_refused = [], pc_lost = [],
      pc_begun = [], pc_panic = False\<rparr>"

definition pub_reach :: "nat \<Rightarrow> nat \<Rightarrow> pconf \<Rightarrow> bool" where
  "pub_reach w n c \<longleftrightarrow> pub_step\<^sup>*\<^sup>* (pub_init w n) c"

text \<open>Every job is in one place, and the queue never exceeds its size.\<close>

definition pub_inv :: "nat \<Rightarrow> pconf \<Rightarrow> bool" where
  "pub_inv n c \<longleftrightarrow>
     p_queueSize (pc_pub c) = n \<and> length (p_queue (pc_pub c)) \<le> n
     \<and> mset (pc_begun c) = mset (pc_checked c) + mset (p_queue (pc_pub c)) + mset (pc_taken c)
         + mset (pc_refused c) + mset (pc_lost c)
     \<and> p_dropped (pc_pub c) = int (length (pc_refused c)) \<and> (pc_panic c \<longleftrightarrow> pc_lost c \<noteq> [])
     \<and> (p_chanClosed (pc_pub c) \<longrightarrow> p_closed (pc_pub c))"

inductive_cases pub_stepE: "pub_step c c'"

lemma pub_step_inv: "pub_step c c' \<Longrightarrow> pub_inv n c \<Longrightarrow> pub_inv n c'"
proof (induction rule: pub_step.induct)
  case (send c j)
  then obtain R where "mset (pc_checked c) = add_mset j R" by (metis insert_DiffM set_mset_mset)
  with send show ?case by (auto simp: pub_inv_def select_send_def)
next
  case (send_closed c j)
  then obtain R where "mset (pc_checked c) = add_mset j R" by (metis insert_DiffM set_mset_mset)
  with send_closed show ?case by (auto simp: pub_inv_def)
qed (auto simp: pub_inv_def)

lemma pub_reach_inv: "pub_reach w n c \<Longrightarrow> pub_inv n c"
  unfolding pub_reach_def
  by (induction rule: rtranclp_induct) (simp add: pub_init_def NewPublisher_def pub_inv_def, rule pub_step_inv)

text \<open>A call of \<open>enqueue\<close> that nothing interrupts is one step, or its two steps in a row.\<close>

lemma enqueue_steps:
  assumes "p_chanClosed (pc_pub c) \<longrightarrow> p_closed (pc_pub c)"
  shows "\<exists>c'. pub_step\<^sup>*\<^sup>* c c' \<and> pc_pub c' = enqueue j (pc_pub c) \<and> pc_begun c' = pc_begun c @ [j]"
proof (cases "p_closed (pc_pub c)")
  case True
  let ?c1 = "c\<lparr>pc_pub := (pc_pub c)\<lparr>p_dropped := p_dropped (pc_pub c) + 1\<rparr>,
      pc_refused := pc_refused c @ [j], pc_begun := pc_begun c @ [j]\<rparr>"
  have one: "pub_step c ?c1" by (rule check_closed [OF True])
  then have "pub_step\<^sup>*\<^sup>* c ?c1" by (rule r_into_rtranclp)
  with True show ?thesis by (intro exI [of _ ?c1]) (simp add: enqueue_def)
next
  case False
  let ?c1 = "c\<lparr>pc_checked := pc_checked c @ [j], pc_begun := pc_begun c @ [j]\<rparr>"
  let ?c2 = "?c1\<lparr>pc_checked := remove1 j (pc_checked ?c1), pc_pub := select_send j (pc_pub ?c1),
      pc_refused := pc_refused ?c1 @ (if length (p_queue (pc_pub ?c1)) < p_queueSize (pc_pub ?c1) then [] else [j])\<rparr>"
  have one: "pub_step c ?c1" by (rule check_open [OF False])
  have "pub_step ?c1 ?c2" by (rule send) (use False assms in simp_all)
  then have "pub_step\<^sup>*\<^sup>* c ?c2" by (rule rtranclp.rtrancl_into_rtrancl [OF r_into_rtranclp [of pub_step, OF one]])
  with False show ?thesis by (intro exI [of _ ?c2]) (simp add: enqueue_def)
qed

section \<open>Properties\<close>

text \<open>
  C38. Every event handed to the gateway publisher is accounted for, whatever the interleaving
  of producers, workers and shutdown: it is still being sent, queued, received by a worker,
  dropped, or was lost in a send on the closed channel, which happens only when that send
  panicked; \<open>p.dropped\<close> is the number of the dropped ones, and the queue never holds more than its
  configured size. In each of these states a call of \<open>enqueue\<close> that is not interrupted is a run
  of the steps.
\<close>

theorem publisher_accounting:
  assumes "pub_reach workers queueSize c"
  shows "length (p_queue (pc_pub c)) \<le> queueSize
    \<and> mset (pc_begun c) = mset (pc_checked c) + mset (p_queue (pc_pub c)) + mset (pc_taken c)
        + mset (pc_refused c) + mset (pc_lost c)
    \<and> p_dropped (pc_pub c) = int (length (pc_refused c))
    \<and> (pc_lost c \<noteq> [] \<longleftrightarrow> pc_panic c)
    \<and> (\<forall>j. \<exists>c'. pub_step\<^sup>*\<^sup>* c c' \<and> pc_pub c' = enqueue j (pc_pub c) \<and> pc_begun c' = pc_begun c @ [j])"
  using pub_reach_inv [OF assms] enqueue_steps [of c] by (simp add: pub_inv_def)

definition sample_job :: "string \<Rightarrow> job" where
  "sample_job t = \<lparr>jb_eventType = t, jb_data = JNull, jb_targets = []\<rparr>"

text \<open>Two producers and a queue of one: the first job is delivered, the second is dropped.\<close>

theorem publisher_accounting_witness:
  "\<exists>c. pub_reach 4 1 c \<and> pc_taken c = [sample_job ''A''] \<and> pc_refused c = [sample_job ''B''] \<and> \<not> pc_panic c
     \<and> mset (pc_begun c) = {#sample_job ''A'', sample_job ''B''#} \<and> p_dropped (pc_pub c) = 1"
proof -
  let ?a = "sample_job ''A''" and ?b = "sample_job ''B''" and ?c0 = "pub_init 4 1"
  let ?c1 = "?c0\<lparr>pc_checked := pc_checked ?c0 @ [?a], pc_begun := pc_begun ?c0 @ [?a]\<rparr>"
  let ?c2 = "?c1\<lparr>pc_checked := pc_checked ?c1 @ [?b], pc_begun := pc_begun ?c1 @ [?b]\<rparr>"
  let ?p = "NewPublisher 4 1"
  let ?c3 = "?c2\<lparr>pc_checked := [?b], pc_pub := ?p\<lparr>p_queue := [?a]\<rparr>\<rparr>"
  let ?c4 = "?c3\<lparr>pc_checked := [], pc_pub := ?p\<lparr>p_queue := [?a], p_dropped := 1\<rparr>, pc_refused := [?b]\<rparr>"
  let ?c5 = "?c4\<lparr>pc_taken := [?a], pc_pub := ?p\<lparr>p_dropped := 1\<rparr>\<rparr>"
  have "pub_step ?c0 ?c1" by (rule check_open) (simp add: pub_init_def NewPublisher_def)
  moreover have "pub_step ?c1 ?c2" by (rule check_open) (simp add: pub_init_def NewPublisher_def)
  moreover have "pub_step ?c2 ?c3"
    using send [of ?c2 ?a] by (simp add: pub_init_def NewPublisher_def select_send_def sample_job_def)
  moreover have "pub_step ?c3 ?c4"
    using send [of ?c3 ?b] by (simp add: pub_init_def NewPublisher_def select_send_def sample_job_def)
  moreover have "pub_step ?c4 ?c5"
    using receive [of ?c4 ?a "[]"] by (simp add: pub_init_def NewPublisher_def)
  ultimately have r: "pub_reach 4 1 ?c5"
    unfolding pub_reach_def by (meson r_into_rtranclp rtranclp.rtrancl_into_rtrancl)
  have parts: "pc_taken ?c5 = [?a]" "pc_refused ?c5 = [?b]" "pc_checked ?c5 = []" "pc_lost ?c5 = []" "p_queue (pc_pub ?c5) = []"
    by (simp_all add: pub_init_def NewPublisher_def)
  from publisher_accounting [OF r] have "mset (pc_begun ?c5) = {#?a, ?b#}" "p_dropped (pc_pub ?c5) = 1" "\<not> pc_panic ?c5"
    unfolding parts by simp_all
  with r parts(1,2) show ?thesis by blast
qed

text \<open>
  C39. A producer that has read \<open>closed\<close> as false can be overtaken by shutdown, and its send on
  the closed channel then panics: for every pool and queue size such a run exists.
\<close>

theorem publisher_shutdown_race:
  "\<exists>c. pub_reach workers queueSize c \<and> pc_panic c"
proof -
  let ?c0 = "pub_init workers queueSize"
  let ?j = "\<lparr>jb_eventType = ''ROLE_CREATE'', jb_data = JNull, jb_targets = []\<rparr>"
  let ?c1 = "?c0\<lparr>pc_checked := pc_checked ?c0 @ [?j], pc_begun := pc_begun ?c0 @ [?j]\<rparr>"
  let ?c2 = "?c1\<lparr>pc_pub := (pc_pub ?c1)\<lparr>p_closed := True\<rparr>\<rparr>"
  let ?c3 = "?c2\<lparr>pc_pub := (pc_pub ?c2)\<lparr>p_chanClosed := True\<rparr>\<rparr>"
  let ?c4 = "?c3\<lparr>pc_checked := remove1 ?j (pc_checked ?c3), pc_lost := pc_lost ?c3 @ [?j], pc_panic := True\<rparr>"
  have "pub_step ?c0 ?c1" by (rule check_open) (simp add: pub_init_def NewPublisher_def)
  moreover have "pub_step ?c1 ?c2" by (rule store_closed)
  moreover have "pub_step ?c2 ?c3" by (rule close_queue) simp
  moreover have "pub_step ?c3 ?c4" by (rule send_closed) (simp_all add: pub_init_def)
  ultimately have "pub_reach workers queueSize ?c4"
    unfolding pub_reach_def by (meson r_into_rtranclp rtranclp.rtrancl_into_rtrancl)
  then show ?thesis by (intro exI [of _ ?c4]) simp
qed

end
