(* ===== verification/World.thy ===== *)
theory World
  imports AuditLog Gateway_Publisher
begin

text \<open>
  The state one server process works on: the database, the Valkey server, the gateway
  publisher, and the audit entries whose \<open>Record\<close> goroutine was started and has not run. An
  operation of the database or of Valkey is lifted to the whole by \<open>on_db\<close> and \<open>on_vk\<close>, which
  leave the other parts alone.
\<close>

record 'r world =
  w_db :: db
  w_vk :: 'r
  w_pub :: publisher
  w_audit :: "Entry list"

definition on_db :: "('a, db) call \<Rightarrow> ('a, 'r world) call" where
  "on_db f w = (case f (w_db w) of (x, d) \<Rightarrow> (x, w\<lparr>w_db := d\<rparr>))"

definition on_vk :: "('a, 'r) call \<Rightarrow> ('a, 'r world) call" where
  "on_vk f w = (case f (w_vk w) of (x, r) \<Rightarrow> (x, w\<lparr>w_vk := r\<rparr>))"

lemma on_dbD:
  "on_db f w = (x, w') \<Longrightarrow> f (w_db w) = (x, w_db w') \<and> w_vk w' = w_vk w \<and> w_pub w' = w_pub w \<and> w_audit w' = w_audit w"
  by (auto simp: on_db_def split: prod.splits)

lemma on_vkD:
  "on_vk f w = (x, w') \<Longrightarrow> f (w_vk w) = (x, w_vk w') \<and> w_db w' = w_db w \<and> w_pub w' = w_pub w \<and> w_audit w' = w_audit w"
  by (auto simp: on_vk_def split: prod.splits)

lemma on_db_simp [simp]: "f (w_db w) = (x, d) \<Longrightarrow> on_db f w = (x, w\<lparr>w_db := d\<rparr>)"
  by (simp add: on_db_def)

lemma on_vk_simp [simp]: "f (w_vk w) = (x, r) \<Longrightarrow> on_vk f w = (x, w\<lparr>w_vk := r\<rparr>)"
  by (simp add: on_vk_def)

text \<open>Which of its optional dependencies a handler was constructed with.\<close>

record handler =
  h_auditLogger :: bool
  h_perms :: bool
  h_gateway :: bool

text \<open>The calls handlers make after the fact: queue a gateway event, start an audit goroutine.\<close>

definition Enqueue :: "handler \<Rightarrow> string \<Rightarrow> json \<Rightarrow> 'r world \<Rightarrow> 'r world" where
  "Enqueue h eventType data w =
     (if h_gateway h
      then w\<lparr>w_pub := enqueue \<lparr>jb_eventType = eventType, jb_data = data, jb_targets = []\<rparr> (w_pub w)\<rparr>
      else w)"

definition go_Record :: "handler \<Rightarrow> Entry \<Rightarrow> 'r world \<Rightarrow> 'r world" where
  "go_Record h entry w = (if h_auditLogger h then w\<lparr>w_audit := w_audit w @ [entry]\<rparr> else w)"

text \<open>An \<open>audit.Entry\<close> literal with an actor, an action and a target.\<close>

definition audit_entry :: "uuid \<Rightarrow> string \<Rightarrow> string \<Rightarrow> uuid \<Rightarrow> Entry" where
  "audit_entry actor action targetType target =
     \<lparr>en_ID = uuid_Nil, en_ActorID = Some actor, en_Action = action, en_TargetType = Some targetType,
      en_TargetID = Some target, en_Changes = None, en_Reason = None, en_CreatedAt = 0\<rparr>"

lemma Enqueue_parts [simp]:
  "w_db (Enqueue h t j w) = w_db w" "w_vk (Enqueue h t j w) = w_vk w" "w_audit (Enqueue h t j w) = w_audit w"
  by (simp_all add: Enqueue_def)

lemma go_Record_parts [simp]:
  "w_db (go_Record h e w) = w_db w" "w_vk (go_Record h e w) = w_vk w" "w_pub (go_Record h e w) = w_pub w"
  by (simp_all add: go_Record_def)

end
