(* ===== verification/Sample.thy ===== *)
theory Sample
  imports World
begin

text \<open>
  A small server on which the hypotheses of theorems are met: user 1 owns it, users 2 and 3
  are members, user 2 holds role 31 beside the everyone role 30, and channel 10 sits in
  category 20. Its Valkey server is empty and every statement runs.
\<close>

definition sample_role :: "uuid \<Rightarrow> string \<Rightarrow> int \<Rightarrow> int64 \<Rightarrow> bool \<Rightarrow> role_row" where
  "sample_role i n pos p ev =
     \<lparr>r_id = i, r_name = n, r_colour = 0, r_position = pos, r_hoist = False, r_permissions = p,
      r_is_everyone = ev, r_created_at = 0, r_updated_at = 0\<rparr>"

definition sample_member :: "uuid \<Rightarrow> member_status \<Rightarrow> member_row" where
  "sample_member u st =
     \<lparr>m_user_id = u, m_nickname = None, m_status = st, m_timeout_until = None, m_joined_at = 0,
      m_onboarded_at = (if st = Pending then None else Some 0)\<rparr>"

definition sample_override :: "uuid \<Rightarrow> TargetType \<Rightarrow> uuid \<Rightarrow> PrincipalType \<Rightarrow> uuid \<Rightarrow> int64 \<Rightarrow> int64 \<Rightarrow> OverrideRow" where
  "sample_override i tt tid pt pid a d =
     \<lparr>or_ID = i, or_TargetType = tt, or_TargetID = tid, or_PrincipalType = pt, or_PrincipalID = pid,
      or_Allow = a, or_Deny = d, or_CreatedAt = 0, or_UpdatedAt = 0\<rparr>"

definition sample_user :: "uuid \<Rightarrow> string \<Rightarrow> user_row" where
  "sample_user i n =
     \<lparr>u_id = i, u_email = n @ ''@example.com'', u_username = n, u_display_name = None, u_avatar_key = None,
      u_password_hash = '''', u_mfa_secret = None, u_mfa_enabled = False, u_email_verified = True,
      u_pronouns = None, u_banner_key = None, u_about = None, u_theme_colour_primary = None, u_theme_colour_secondary = None,
      u_created_at = 0\<rparr>"

definition sample_channel :: "uuid \<Rightarrow> uuid option \<Rightarrow> int \<Rightarrow> channel_row" where
  "sample_channel i cat pos =
     \<lparr>ch_id = i, ch_category_id = cat, ch_created_by = Some 1, ch_name = ''general'', ch_type = ''text'', ch_topic = [], ch_position = pos,
      ch_slowmode_seconds = 0, ch_nsfw = False, ch_created_at = 0, ch_updated_at = 0\<rparr>"

definition sample_db :: db where
  "sample_db =
     empty_db\<lparr>t_users := [sample_user 1 ''ada'', sample_user 2 ''bob'', sample_user 3 ''eve''],
      t_server_config := [\<lparr>c_name = ''home'', c_owner_id = 1, c_id = 50, c_description = [], c_icon_key = None, c_banner_key = None,
                          c_created_at = 0, c_updated_at = 0\<rparr>],
      t_members := [sample_member 1 Active, sample_member 2 Active, sample_member 3 Active],
      t_categories := [\<lparr>ca_id = 20, ca_name = ''main'', ca_position = 0, ca_created_at = 0, ca_updated_at = 0\<rparr>],
      t_channels := [sample_channel 10 (Some 20) 0, sample_channel 11 None 1],
      t_roles := [sample_role 30 ''everyone'' 0 1 True, sample_role 31 ''mod'' 1 4 False],
      t_member_roles := [\<lparr>mr_user_id = 2, mr_role_id = 31\<rparr>],
      t_overrides := [sample_override 40 TargetCategory 20 PrincipalRole 30 8 0,
                     sample_override 41 TargetChannel 10 PrincipalRole 31 16 1,
                     sample_override 42 TargetChannel 10 PrincipalUser 2 1 4]\<rparr>"

definition sample_world :: "vstore world" where
  "sample_world = \<lparr>w_db = sample_db, w_vk = vempty, w_pub = NewPublisher 4 1024, w_audit = []\<rparr>"

lemmas sample_defs =
  sample_role_def sample_member_def sample_override_def sample_user_def sample_channel_def sample_db_def sample_world_def empty_db_def

lemma sample_outcomes [simp]: "pg_outcomes sample_db = []"
  by (simp add: sample_defs)

end
