(* ===== verification/Permission_Store.thy ===== *)
theory Permission_Store
  imports Sample
begin

text \<open>
  \<open>internal/permission/store.go\<close> and \<open>pg_store.go\<close>: the data the permission algorithm reads,
  the \<open>Store\<close> interface, and its PostgreSQL implementation. The locale \<open>perm_store\<close> states
  what a store promises its client; \<open>PGStore\<close> is shown to keep that promise.
\<close>

section \<open>Data and interfaces\<close>

definition ErrOverrideNotFound :: error where
  "ErrOverrideNotFound = Sentinel ''permission.ErrOverrideNotFound''"

definition ErrChannelNotFound :: error where
  "ErrChannelNotFound = Sentinel ''permission.ErrChannelNotFound''"

record Override =
  ov_PrincipalType :: PrincipalType
  ov_PrincipalID :: uuid
  ov_Allow :: perm
  ov_Deny :: perm

record ChannelInfo =
  ci_ID :: uuid
  ci_CategoryID :: "uuid option"

record RolePermEntry =
  rp_RoleID :: uuid
  rp_Permissions :: perm

record 's Store =
  IsOwner :: "uuid \<Rightarrow> (bool, 's) call"
  RolePermissions :: "uuid \<Rightarrow> (RolePermEntry list, 's) call"
  GetChannelInfo :: "uuid \<Rightarrow> (ChannelInfo, 's) call"
  Overrides :: "TargetType \<Rightarrow> uuid \<Rightarrow> (Override list, 's) call"

section \<open>The PostgreSQL store\<close>

definition pg_IsOwner :: "uuid \<Rightarrow> (bool, db) call" where
  "pg_IsOwner userID d =
     (case pg_query (\<lambda>d. \<exists>c \<in> set (t_server_config d). c_owner_id c = userID) d of
        (Inl e, d') \<Rightarrow> (Inl (Wrap ''check owner'' e), d')
      | (Inr b, d') \<Rightarrow> (Inr b, d'))"

text \<open>The union of the user's roles and the everyone role; \<open>UNION\<close> drops duplicates.\<close>

definition role_permission_rows :: "uuid \<Rightarrow> db \<Rightarrow> RolePermEntry list" where
  "role_permission_rows userID d =
     (let entry = (\<lambda>r. \<lparr>rp_RoleID = r_id r, rp_Permissions = r_permissions r\<rparr>)
      in remdups
        (concat (map (\<lambda>r. map (\<lambda>_. entry r)
             (filter (\<lambda>mr. mr_role_id mr = r_id r \<and> mr_user_id mr = userID) (t_member_roles d)))
             (t_roles d))
         @ map entry (filter r_is_everyone (t_roles d))))"

definition pg_RolePermissions :: "uuid \<Rightarrow> (RolePermEntry list, db) call" where
  "pg_RolePermissions userID d =
     (case pg_query (role_permission_rows userID) d of
        (Inl e, d') \<Rightarrow> (Inl (Wrap ''query role permissions'' e), d')
      | (Inr rows, d') \<Rightarrow> (Inr rows, d'))"

definition channel_info_row :: "uuid \<Rightarrow> db \<Rightarrow> ChannelInfo option" where
  "channel_info_row channelID d =
     map_option (\<lambda>c. \<lparr>ci_ID = ch_id c, ci_CategoryID = ch_category_id c\<rparr>)
       (find (\<lambda>c. ch_id c = channelID) (t_channels d))"

definition pg_ChannelInfo :: "uuid \<Rightarrow> (ChannelInfo, db) call" where
  "pg_ChannelInfo channelID d =
     (case pg_query (channel_info_row channelID) d of
        (Inl e, d') \<Rightarrow> (Inl (Wrap ''query channel info'' e), d')
      | (Inr None, d') \<Rightarrow> (Inl ErrChannelNotFound, d')
      | (Inr (Some info), d') \<Rightarrow> (Inr info, d'))"

definition override_rows :: "TargetType \<Rightarrow> uuid \<Rightarrow> db \<Rightarrow> Override list" where
  "override_rows targetType targetID d =
     map (\<lambda>r. \<lparr>ov_PrincipalType = or_PrincipalType r, ov_PrincipalID = or_PrincipalID r,
               ov_Allow = or_Allow r, ov_Deny = or_Deny r\<rparr>)
       (filter (\<lambda>r. or_TargetType r = targetType \<and> or_TargetID r = targetID) (t_overrides d))"

definition pg_Overrides :: "TargetType \<Rightarrow> uuid \<Rightarrow> (Override list, db) call" where
  "pg_Overrides targetType targetID d =
     (case pg_query (override_rows targetType targetID) d of
        (Inl e, d') \<Rightarrow> (Inl (Wrap ''query overrides'' e), d')
      | (Inr rows, d') \<Rightarrow> (Inr rows, d'))"

text \<open>
  \<open>Set\<close> upserts on the unique index over target and principal; \<open>newID\<close> and \<open>now\<close> are the
  values of \<open>gen_random_uuid()\<close> and \<open>NOW()\<close>.
\<close>

definition override_key :: "TargetType \<Rightarrow> uuid \<Rightarrow> PrincipalType \<Rightarrow> uuid \<Rightarrow> OverrideRow \<Rightarrow> bool" where
  "override_key tt tid pt pid r \<longleftrightarrow>
     or_TargetType r = tt \<and> or_TargetID r = tid \<and> or_PrincipalType r = pt \<and> or_PrincipalID r = pid"

definition upsert_override ::
  "uuid \<Rightarrow> time \<Rightarrow> TargetType \<Rightarrow> uuid \<Rightarrow> PrincipalType \<Rightarrow> uuid \<Rightarrow> perm \<Rightarrow> perm \<Rightarrow> (OverrideRow, db) call" where
  "upsert_override newID now tt tid pt pid allow deny d =
     (case find (override_key tt tid pt pid) (t_overrides d) of
        Some old \<Rightarrow>
          (let row = old\<lparr>or_Allow := allow, or_Deny := deny, or_UpdatedAt := now\<rparr>
           in (Inr row, d\<lparr>t_overrides :=
                map (\<lambda>r. if override_key tt tid pt pid r then row else r) (t_overrides d)\<rparr>))
      | None \<Rightarrow>
          (if \<exists>r \<in> set (t_overrides d). or_ID r = newID then (Inl unique_violation, d)
           else let row = \<lparr>or_ID = newID, or_TargetType = tt, or_TargetID = tid, or_PrincipalType = pt,
                           or_PrincipalID = pid, or_Allow = allow, or_Deny = deny,
                           or_CreatedAt = now, or_UpdatedAt = now\<rparr>
                in (Inr row, d\<lparr>t_overrides := t_overrides d @ [row]\<rparr>)))"

definition pg_SetOverride ::
  "uuid \<Rightarrow> time \<Rightarrow> TargetType \<Rightarrow> uuid \<Rightarrow> PrincipalType \<Rightarrow> uuid \<Rightarrow> perm \<Rightarrow> perm \<Rightarrow> (OverrideRow, db) call" where
  "pg_SetOverride newID now tt tid pt pid allow deny d =
     (case pg_stmt (upsert_override newID now tt tid pt pid allow deny) d of
        (Inl e, d') \<Rightarrow> (Inl (Wrap ''upsert override'' e), d')
      | (Inr row, d') \<Rightarrow> (Inr row, d'))"

definition delete_override ::
  "TargetType \<Rightarrow> uuid \<Rightarrow> PrincipalType \<Rightarrow> uuid \<Rightarrow> (nat, db) call" where
  "delete_override tt tid pt pid d =
     (Inr (length (filter (override_key tt tid pt pid) (t_overrides d))),
      d\<lparr>t_overrides := filter (\<lambda>r. \<not> override_key tt tid pt pid r) (t_overrides d)\<rparr>)"

definition pg_DeleteOverride ::
  "TargetType \<Rightarrow> uuid \<Rightarrow> PrincipalType \<Rightarrow> uuid \<Rightarrow> (unit, db) call" where
  "pg_DeleteOverride tt tid pt pid d =
     (case pg_stmt (delete_override tt tid pt pid) d of
        (Inl e, d') \<Rightarrow> (Inl (Wrap ''delete override'' e), d')
      | (Inr n, d') \<Rightarrow> (if n = 0 then (Inl ErrOverrideNotFound, d') else (Inr (), d')))"

definition PGStore :: "'r world Store" where
  "PGStore = \<lparr>IsOwner = (\<lambda>u. on_db (pg_IsOwner u)),
              RolePermissions = (\<lambda>u. on_db (pg_RolePermissions u)),
              GetChannelInfo = (\<lambda>c. on_db (pg_ChannelInfo c)),
              Overrides = (\<lambda>t i. on_db (pg_Overrides t i))\<rparr>"

section \<open>What a store promises\<close>

text \<open>The facts a store holds, independent of how it keeps them.\<close>

record perm_data =
  pd_owner :: "uuid \<Rightarrow> bool"
  pd_roles :: "uuid \<Rightarrow> RolePermEntry list"
  pd_channel :: "uuid \<Rightarrow> ChannelInfo option"
  pd_overrides :: "TargetType \<Rightarrow> uuid \<Rightarrow> Override list"

locale perm_store =
  fixes S :: "'s Store" and data :: "'s \<Rightarrow> perm_data"
  assumes owner_reads: "IsOwner S u s = (x, s') \<Longrightarrow> data s' = data s"
    and owner_ok: "IsOwner S u s = (Inr b, s') \<Longrightarrow> b = pd_owner (data s) u"
    and roles_reads: "RolePermissions S u s = (y, s') \<Longrightarrow> data s' = data s"
    and roles_ok: "RolePermissions S u s = (Inr es, s') \<Longrightarrow> es = pd_roles (data s) u"
    and channel_reads: "GetChannelInfo S c s = (z, s') \<Longrightarrow> data s' = data s"
    and channel_ok: "GetChannelInfo S c s = (Inr ci, s') \<Longrightarrow> pd_channel (data s) c = Some ci"
    and overrides_reads: "Overrides S t i s = (v, s') \<Longrightarrow> data s' = data s"
    and overrides_ok: "Overrides S t i s = (Inr os, s') \<Longrightarrow> os = pd_overrides (data s) t i"

definition db_perm_data :: "db \<Rightarrow> perm_data" where
  "db_perm_data d =
     \<lparr>pd_owner = (\<lambda>u. \<exists>c \<in> set (t_server_config d). c_owner_id c = u),
      pd_roles = (\<lambda>u. role_permission_rows u d),
      pd_channel = (\<lambda>c. channel_info_row c d),
      pd_overrides = (\<lambda>t i. override_rows t i d)\<rparr>"

lemma db_perm_data_tables: "tables d = tables d' \<Longrightarrow> db_perm_data d = db_perm_data d'"
  by (simp add: db_perm_data_def role_permission_rows_def channel_info_row_def override_rows_def
      tables_fields [of d d'])

lemma db_perm_data_outcomes [simp]: "db_perm_data (d\<lparr>pg_outcomes := os\<rparr>) = db_perm_data d"
  by (rule db_perm_data_tables) simp

text \<open>Each query leaves the tables alone and returns what the tables hold.\<close>

lemma pg_IsOwner_tables: "pg_IsOwner u d = (x, d') \<Longrightarrow> tables d' = tables d"
  by (auto simp: pg_IsOwner_def split: prod.splits sum.splits dest: pg_query_tables)

lemma pg_IsOwner_ok: "pg_IsOwner u d = (Inr b, d') \<Longrightarrow> b = pd_owner (db_perm_data d) u"
  by (auto simp: pg_IsOwner_def db_perm_data_def split: prod.splits sum.splits dest!: pg_query_ok)

lemma pg_RolePermissions_tables: "pg_RolePermissions u d = (x, d') \<Longrightarrow> tables d' = tables d"
  by (auto simp: pg_RolePermissions_def split: prod.splits sum.splits dest: pg_query_tables)

lemma pg_RolePermissions_ok:
  "pg_RolePermissions u d = (Inr es, d') \<Longrightarrow> es = pd_roles (db_perm_data d) u"
  by (auto simp: pg_RolePermissions_def db_perm_data_def role_permission_rows_def
      split: prod.splits sum.splits dest!: pg_query_ok)

lemma pg_ChannelInfo_tables: "pg_ChannelInfo c d = (x, d') \<Longrightarrow> tables d' = tables d"
  by (auto simp: pg_ChannelInfo_def split: prod.splits sum.splits option.splits dest: pg_query_tables)

lemma pg_ChannelInfo_ok: "pg_ChannelInfo c d = (Inr ci, d') \<Longrightarrow> pd_channel (db_perm_data d) c = Some ci"
proof -
  assume "pg_ChannelInfo c d = (Inr ci, d')"
  then have "pg_query (channel_info_row c) d = (Inr (Some ci), d')"
    by (auto simp: pg_ChannelInfo_def split: prod.splits sum.splits option.splits)
  then have "Some ci = channel_info_row c d"
    by (rule pg_query_ok) (simp add: channel_info_row_def)
  then show ?thesis by (simp add: db_perm_data_def)
qed

lemma pg_Overrides_tables: "pg_Overrides t i d = (x, d') \<Longrightarrow> tables d' = tables d"
  by (auto simp: pg_Overrides_def split: prod.splits sum.splits dest: pg_query_tables)

lemma pg_Overrides_ok: "pg_Overrides t i d = (Inr os, d') \<Longrightarrow> os = pd_overrides (db_perm_data d) t i"
  by (auto simp: pg_Overrides_def db_perm_data_def override_rows_def
      split: prod.splits sum.splits dest!: pg_query_ok)

lemmas pg_store_tables = pg_IsOwner_tables pg_RolePermissions_tables pg_ChannelInfo_tables pg_Overrides_tables
lemmas pg_store_ok = pg_IsOwner_ok pg_RolePermissions_ok pg_ChannelInfo_ok pg_Overrides_ok

interpretation pg: perm_store PGStore "\<lambda>w. db_perm_data (w_db w)"
  by unfold_locales
    (auto simp: PGStore_def dest!: on_dbD
      dest: pg_store_tables pg_store_ok
      intro!: db_perm_data_tables)

section \<open>Writing overrides\<close>

text \<open>
  The unique index: at most one override for each target and principal.
\<close>

definition overrides_unique :: "db \<Rightarrow> bool" where
  "overrides_unique d \<longleftrightarrow>
     distinct (map (\<lambda>r. (or_TargetType r, or_TargetID r, or_PrincipalType r, or_PrincipalID r)) (t_overrides d))"

definition find_override :: "TargetType \<Rightarrow> uuid \<Rightarrow> PrincipalType \<Rightarrow> uuid \<Rightarrow> db \<Rightarrow> OverrideRow option" where
  "find_override tt tid pt pid d = find (override_key tt tid pt pid) (t_overrides d)"

lemma override_key_tuple:
  "override_key tt tid pt pid r \<longleftrightarrow>
     (or_TargetType r, or_TargetID r, or_PrincipalType r, or_PrincipalID r) = (tt, tid, pt, pid)"
  by (auto simp: override_key_def)

lemma override_key_simps [simp]:
  "override_key tt tid pt pid (r\<lparr>or_Allow := a, or_Deny := b, or_UpdatedAt := t\<rparr>) = override_key tt tid pt pid r"
  "override_key tt tid pt pid \<lparr>or_ID = i, or_TargetType = tt', or_TargetID = tid', or_PrincipalType = pt',
     or_PrincipalID = pid', or_Allow = a, or_Deny = b, or_CreatedAt = t, or_UpdatedAt = t'\<rparr>
     \<longleftrightarrow> (tt', tid', pt', pid') = (tt, tid, pt, pid)"
  by (auto simp: override_key_def)

lemma find_override_None:
  "find_override tt tid pt pid d = None \<longleftrightarrow> (\<forall>r \<in> set (t_overrides d). \<not> override_key tt tid pt pid r)"
  by (auto simp: find_override_def find_None_iff)

lemma distinct_map_replace:
  assumes "distinct (map f xs)" and "\<And>x. f (g x) = f x"
  shows "distinct (map f (map g xs))"
  using assms by (simp add: comp_def)

lemma upsert_override_unique:
  assumes "upsert_override n t tt tid pt pid a b d = (x, d')" and "overrides_unique d"
  shows "overrides_unique d'"
proof (cases "find (override_key tt tid pt pid) (t_overrides d)")
  case None
  then have "\<forall>r \<in> set (t_overrides d). \<not> override_key tt tid pt pid r"
    by (auto simp: find_None_iff)
  with None assms show ?thesis
    by (auto simp: upsert_override_def overrides_unique_def override_key_tuple Let_def split: if_splits)
next
  case (Some old)
  then have "override_key tt tid pt pid old" by (auto simp: find_Some_iff)
  with Some assms show ?thesis
    by (auto simp: upsert_override_def overrides_unique_def override_key_def Let_def comp_def
        intro!: distinct_map_replace elim!: back_subst [where P = distinct] intro: map_cong)
qed

lemma upsert_override_finds:
  assumes "upsert_override n t tt tid pt pid a b d = (Inr row, d')"
  shows "find_override tt tid pt pid d' = Some row" and "or_Allow row = a" and "or_Deny row = b"
proof -
  have "override_key tt tid pt pid old" if "find (override_key tt tid pt pid) (t_overrides d) = Some old" for old
    using that by (auto simp: find_Some_iff)
  with assms show "find_override tt tid pt pid d' = Some row"
    by (auto simp: upsert_override_def find_override_def find_snoc Let_def
        split: option.splits if_splits intro!: find_replaced)
  from assms show "or_Allow row = a" "or_Deny row = b"
    by (auto simp: upsert_override_def Let_def split: option.splits if_splits)
qed

lemma upsert_override_others:
  assumes "upsert_override n t tt tid pt pid a b d = (x, d')"
    and "(tt', tid', pt', pid') \<noteq> (tt, tid, pt, pid)"
  shows "find_override tt' tid' pt' pid' d' = find_override tt' tid' pt' pid' d"
proof -
  have "\<not> override_key tt' tid' pt' pid' r" if "override_key tt tid pt pid r" for r
    using that assms(2) by (auto simp: override_key_def)
  moreover have "override_key tt tid pt pid old"
    if "find (override_key tt tid pt pid) (t_overrides d) = Some old" for old
    using that by (auto simp: find_Some_iff)
  ultimately show ?thesis
    using assms by (auto simp: upsert_override_def find_override_def find_snoc Let_def
        split: option.splits if_splits intro!: find_replaced_other)
qed

text \<open>The row the unique index finds is the one row a query returns for the principal.\<close>

lemma filter_unique:
  "distinct (map f xs) \<Longrightarrow> x \<in> set xs \<Longrightarrow> f x = k \<Longrightarrow> filter (\<lambda>y. f y = k) xs = [x]"
proof (induction xs)
  case (Cons y ys)
  show ?case
  proof (cases "x = y")
    case True
    with Cons.prems have "\<forall>z \<in> set ys. f z \<noteq> k" by (auto simp: image_iff)
    with True Cons.prems show ?thesis by (simp add: filter_False)
  qed (use Cons in \<open>auto simp: image_iff\<close>)
qed simp

lemma override_rows_found:
  assumes "overrides_unique d" and "find_override tt tid pt pid d = Some row"
  shows "filter (\<lambda>ov. ov_PrincipalType ov = pt \<and> ov_PrincipalID ov = pid) (override_rows tt tid d)
    = [\<lparr>ov_PrincipalType = pt, ov_PrincipalID = pid, ov_Allow = or_Allow row, ov_Deny = or_Deny row\<rparr>]"
proof -
  have row: "row \<in> set (t_overrides d)" "override_key tt tid pt pid row"
    using find_Some_member [OF assms(2) [unfolded find_override_def]] by auto
  have "filter (override_key tt tid pt pid) (t_overrides d) = [row]"
    using filter_unique [OF assms(1) [unfolded overrides_unique_def] row(1)] row(2)
    by (simp add: override_key_def [abs_def])
  moreover have "filter (\<lambda>ov. ov_PrincipalType ov = pt \<and> ov_PrincipalID ov = pid) (override_rows tt tid d)
    = map (\<lambda>r. \<lparr>ov_PrincipalType = or_PrincipalType r, ov_PrincipalID = or_PrincipalID r,
               ov_Allow = or_Allow r, ov_Deny = or_Deny r\<rparr>) (filter (override_key tt tid pt pid) (t_overrides d))"
    by (simp add: override_rows_def filter_map comp_def override_key_def [abs_def] conj_assoc)
  ultimately show ?thesis using row(2) by (simp add: override_key_def)
qed

section \<open>Properties\<close>

text \<open>
  Setting an override and reading the overrides of its target back gives exactly the
  allow and deny masks that were set, for that principal once; overrides for any other
  target or principal are unchanged, and the unique index still holds.
\<close>

theorem SetOverride_roundtrip:
  assumes "overrides_unique d" and "pg_SetOverride newID now tt tid pt pid allow deny d = (Inr row, d')"
  shows "overrides_unique d'
    \<and> filter (\<lambda>ov. ov_PrincipalType ov = pt \<and> ov_PrincipalID ov = pid) (override_rows tt tid d')
        = [\<lparr>ov_PrincipalType = pt, ov_PrincipalID = pid, ov_Allow = allow, ov_Deny = deny\<rparr>]
    \<and> (\<forall>tt' tid' pt' pid'. (tt', tid', pt', pid') \<noteq> (tt, tid, pt, pid) \<longrightarrow>
          find_override tt' tid' pt' pid' d' = find_override tt' tid' pt' pid' d)"
proof -
  from assms(2) have "pg_stmt (upsert_override newID now tt tid pt pid allow deny) d = (Inr row, d')"
    by (auto simp: pg_SetOverride_def split: prod.splits sum.splits)
  from pg_stmt_ok [OF this] obtain os
    where up: "upsert_override newID now tt tid pt pid allow deny (d\<lparr>pg_outcomes := os\<rparr>) = (Inr row, d')" ..
  have u: "overrides_unique d'"
    using upsert_override_unique [OF up] assms(1) by (simp add: overrides_unique_def)
  have "find_override tt' tid' pt' pid' d' = find_override tt' tid' pt' pid' d"
    if "(tt', tid', pt', pid') \<noteq> (tt, tid, pt, pid)" for tt' tid' pt' pid'
    using upsert_override_others [OF up that] by (simp add: find_override_def)
  then show ?thesis
    using u override_rows_found [OF u upsert_override_finds(1) [OF up]]
    unfolding upsert_override_finds(2,3) [OF up] by blast
qed

theorem SetOverride_roundtrip_witness:
  "\<exists>row d'. pg_SetOverride 43 5 TargetChannel 10 PrincipalUser 2 9 2 sample_db = (Inr row, d')
     \<and> filter (\<lambda>ov. ov_PrincipalType ov = PrincipalUser \<and> ov_PrincipalID ov = 2)
         (override_rows TargetChannel 10 d')
       = [\<lparr>ov_PrincipalType = PrincipalUser, ov_PrincipalID = 2, ov_Allow = 9, ov_Deny = 2\<rparr>]"
proof -
  have "overrides_unique sample_db" by (simp add: overrides_unique_def sample_defs)
  moreover obtain row d' where "pg_SetOverride 43 5 TargetChannel 10 PrincipalUser 2 9 2 sample_db = (Inr row, d')"
    by (simp add: pg_SetOverride_def upsert_override_def sample_defs override_key_def Let_def)
  ultimately show ?thesis using SetOverride_roundtrip by blast
qed

end
