(* ===== verification/Permission_Cache.thy ===== *)
theory Permission_Cache
  imports World
begin

text \<open>
  \<open>internal/permission/cache.go\<close>: the \<open>Cache\<close> interface and its Valkey implementation. The
  locale \<open>perm_cache\<close> states what the permission resolver relies on, in terms of a view of
  the cached values; the locale \<open>valkey_cache\<close> shows that \<open>ValkeyCache\<close> keeps it over any
  server that behaves as documented, and what the scan-and-delete loop removes.
\<close>

section \<open>Keys\<close>

definition CacheTTL :: time where
  "CacheTTL = 300 * 1000"

definition CachePrefix :: string where
  "CachePrefix = ''perms''"

definition InvalidateChannel :: string where
  "InvalidateChannel = ''uncord.cache.invalidate''"

definition scanBatchSize :: int where
  "scanBatchSize = 100"

definition cacheKey :: "uuid_lib \<Rightarrow> uuid \<Rightarrow> uuid \<Rightarrow> string" where
  "cacheKey U userID channelID =
     CachePrefix @ '':'' @ uuid_String U userID @ '':'' @ uuid_String U channelID"

section \<open>Operations\<close>

record 's Cache =
  cGet :: "uuid \<Rightarrow> uuid \<Rightarrow> (perm option, 's) call"
  cSet :: "uuid \<Rightarrow> uuid \<Rightarrow> perm \<Rightarrow> (unit, 's) call"
  cGetMany :: "uuid \<Rightarrow> uuid list \<Rightarrow> (uuid \<Rightarrow> perm option, 's) call"
  cSetMany :: "uuid \<Rightarrow> (uuid \<times> perm) list \<Rightarrow> (unit, 's) call"
  cGetManyUsers :: "uuid list \<Rightarrow> uuid \<Rightarrow> (uuid \<Rightarrow> perm option, 's) call"
  cSetManyUsers :: "uuid \<Rightarrow> (uuid \<times> perm) list \<Rightarrow> (unit, 's) call"

text \<open>The text a permission is stored as, and reading it back.\<close>

definition perm_text :: "perm \<Rightarrow> bytes" where
  "perm_text p = Text (FormatInt (sint p))"

fun parse_perm :: "bytes \<Rightarrow> perm option" where
  "parse_perm (Text s) = map_option word_of_int (ParseInt64 s)"
| "parse_perm (Json j) = map_option word_of_int (json_int64 j)"

definition cache_Get :: "uuid_lib \<Rightarrow> 'r valkey \<Rightarrow> uuid \<Rightarrow> uuid \<Rightarrow> (perm option, 'r) call" where
  "cache_Get U V userID channelID r =
     (case redis_Get V (cacheKey U userID channelID) r of
        (Inl e, r') \<Rightarrow>
          (if errors_Is e redis_Nil then (Inr None, r') else (Inl (Wrap ''cache get'' e), r'))
      | (Inr val, r') \<Rightarrow>
          (case parse_perm val of
             None \<Rightarrow> (Inl (Wrap ''parse cached permission'' (Ext ''strconv'')), r')
           | Some n \<Rightarrow> (Inr (Some n), r')))"

definition cache_Set :: "uuid_lib \<Rightarrow> 'r valkey \<Rightarrow> uuid \<Rightarrow> uuid \<Rightarrow> perm \<Rightarrow> (unit, 'r) call" where
  "cache_Set U V userID channelID p r =
     (case redis_Do V (SET (cacheKey U userID channelID) (perm_text p) (Some CacheTTL)) r of
        (Inl e, r') \<Rightarrow> (Inl (Wrap ''cache set'' e), r')
      | (Inr _, r') \<Rightarrow> (Inr (), r'))"

text \<open>The loops over \<open>MGET\<close> results skip missing and unreadable values.\<close>

fun collect_cached :: "(uuid \<times> bytes option) list \<Rightarrow> (uuid \<Rightarrow> perm option) \<Rightarrow> (uuid \<Rightarrow> perm option)" where
  "collect_cached [] m = m"
| "collect_cached ((i, val) # vals) m =
     (case val of
        None \<Rightarrow> collect_cached vals m
      | Some b \<Rightarrow>
          (case parse_perm b of
             None \<Rightarrow> collect_cached vals m
           | Some n \<Rightarrow> collect_cached vals (m(i \<mapsto> n))))"

definition cache_GetMany :: "uuid_lib \<Rightarrow> 'r valkey \<Rightarrow> uuid \<Rightarrow> uuid list \<Rightarrow> (uuid \<Rightarrow> perm option, 'r) call" where
  "cache_GetMany U V userID channelIDs r =
     (if channelIDs = [] then (Inr Map.empty, r)
      else case redis_MGet V (map (cacheKey U userID) channelIDs) r of
             (Inl e, r') \<Rightarrow> (Inl (Wrap ''cache mget'' e), r')
           | (Inr vals, r') \<Rightarrow> (Inr (collect_cached (zip channelIDs vals) Map.empty), r'))"

definition cache_SetMany :: "uuid_lib \<Rightarrow> 'r valkey \<Rightarrow> uuid \<Rightarrow> (uuid \<times> perm) list \<Rightarrow> (unit, 'r) call" where
  "cache_SetMany U V userID perms r =
     (if perms = [] then (Inr (), r)
      else case redis_Pipeline V
               (map (\<lambda>(chID, p). SET (cacheKey U userID chID) (perm_text p) (Some CacheTTL)) perms) r of
             (Inl e, r') \<Rightarrow> (Inl (Wrap ''cache pipeline set'' e), r')
           | (Inr _, r') \<Rightarrow> (Inr (), r'))"

definition cache_GetManyUsers :: "uuid_lib \<Rightarrow> 'r valkey \<Rightarrow> uuid list \<Rightarrow> uuid \<Rightarrow> (uuid \<Rightarrow> perm option, 'r) call" where
  "cache_GetManyUsers U V userIDs channelID r =
     (if userIDs = [] then (Inr Map.empty, r)
      else case redis_MGet V (map (\<lambda>uid. cacheKey U uid channelID) userIDs) r of
             (Inl e, r') \<Rightarrow> (Inl (Wrap ''cache mget users'' e), r')
           | (Inr vals, r') \<Rightarrow> (Inr (collect_cached (zip userIDs vals) Map.empty), r'))"

definition cache_SetManyUsers :: "uuid_lib \<Rightarrow> 'r valkey \<Rightarrow> uuid \<Rightarrow> (uuid \<times> perm) list \<Rightarrow> (unit, 'r) call" where
  "cache_SetManyUsers U V channelID perms r =
     (if perms = [] then (Inr (), r)
      else case redis_Pipeline V
               (map (\<lambda>(uid, p). SET (cacheKey U uid channelID) (perm_text p) (Some CacheTTL)) perms) r of
             (Inl e, r') \<Rightarrow> (Inl (Wrap ''cache pipeline set users'' e), r')
           | (Inr _, r') \<Rightarrow> (Inr (), r'))"

text \<open>
  The scan loop ends when the server returns cursor 0. Nothing in the code bounds it, so
  it is a partial function; \<open>None\<close> is a loop that never returns.
\<close>

partial_function (option) scanAndDelete ::
  "'r valkey \<Rightarrow> string \<Rightarrow> nat \<Rightarrow> 'r \<Rightarrow> (unit result \<times> 'r) option" where
  "scanAndDelete V pattern cursor r =
     (case vk_exec V (SCAN cursor pattern scanBatchSize) r of
        (Inl e, r1) \<Rightarrow> Some (Inl (Wrap ''scan keys'' e), r1)
      | (Inr (RScan keys next), r1) \<Rightarrow>
          (case (if keys \<noteq> [] then redis_Do V (DEL keys) r1 else (Inr (), r1)) of
             (Inl e, r2) \<Rightarrow> Some (Inl (Wrap ''delete keys'' e), r2)
           | (Inr _, r2) \<Rightarrow>
               (if next = 0 then Some (Inr (), r2) else scanAndDelete V pattern next r2))
      | (Inr _, r1) \<Rightarrow> Some (Inl (Wrap ''scan keys'' redis_unexpected), r1))"

definition user_pattern :: "uuid_lib \<Rightarrow> uuid \<Rightarrow> string" where
  "user_pattern U userID = CachePrefix @ '':'' @ uuid_String U userID @ '':*''"

definition channel_pattern :: "uuid_lib \<Rightarrow> uuid \<Rightarrow> string" where
  "channel_pattern U channelID = CachePrefix @ '':*:'' @ uuid_String U channelID"

definition cache_DeleteByUser :: "uuid_lib \<Rightarrow> 'r valkey \<Rightarrow> uuid \<Rightarrow> 'r \<Rightarrow> (unit result \<times> 'r) option" where
  "cache_DeleteByUser U V userID r = scanAndDelete V (user_pattern U userID) 0 r"

definition cache_DeleteByChannel :: "uuid_lib \<Rightarrow> 'r valkey \<Rightarrow> uuid \<Rightarrow> 'r \<Rightarrow> (unit result \<times> 'r) option" where
  "cache_DeleteByChannel U V channelID r = scanAndDelete V (channel_pattern U channelID) 0 r"

definition cache_DeleteExact :: "uuid_lib \<Rightarrow> 'r valkey \<Rightarrow> uuid \<Rightarrow> uuid \<Rightarrow> (unit, 'r) call" where
  "cache_DeleteExact U V userID channelID = redis_Do V (DEL [cacheKey U userID channelID])"

definition cache_DeleteAll :: "'r valkey \<Rightarrow> 'r \<Rightarrow> (unit result \<times> 'r) option" where
  "cache_DeleteAll V r = scanAndDelete V (CachePrefix @ '':*'') 0 r"

definition ValkeyCache :: "uuid_lib \<Rightarrow> 'r valkey \<Rightarrow> 'r world Cache" where
  "ValkeyCache U V =
     \<lparr>cGet = (\<lambda>u c. on_vk (cache_Get U V u c)),
      cSet = (\<lambda>u c p. on_vk (cache_Set U V u c p)),
      cGetMany = (\<lambda>u cs. on_vk (cache_GetMany U V u cs)),
      cSetMany = (\<lambda>u ps. on_vk (cache_SetMany U V u ps)),
      cGetManyUsers = (\<lambda>us c. on_vk (cache_GetManyUsers U V us c)),
      cSetManyUsers = (\<lambda>c ps. on_vk (cache_SetManyUsers U V c ps))\<rparr>"

section \<open>What a cache promises\<close>

locale perm_cache =
  fixes C :: "'s Cache" and cview :: "'s \<Rightarrow> uuid \<Rightarrow> uuid \<Rightarrow> perm option"
  assumes get_view: "cGet C u c s = (x, s') \<Longrightarrow> cview s' = cview s"
    and get_ok: "cGet C u c s = (Inr v, s') \<Longrightarrow> v = cview s u c"
    and set_view: "cSet C u c p s = (y, s') \<Longrightarrow>
       cview s' u' c' = cview s u' c' \<or> u' = u \<and> c' = c \<and> cview s' u' c' = Some p"
    and set_ok: "cSet C u c p s = (Inr (), s') \<Longrightarrow> cview s' u c = Some p"
    and get_many_view: "cGetMany C u cs s = (m, s') \<Longrightarrow> cview s' = cview s"
    and get_many_ok: "cGetMany C u cs s = (Inr f, s') \<Longrightarrow> f c = (if c \<in> set cs then cview s u c else None)"
    and set_many_view: "cSetMany C u ps s = (y, s') \<Longrightarrow>
       cview s' u' c' = cview s u' c' \<or> u' = u \<and> (\<exists>p. (c', p) \<in> set ps \<and> cview s' u' c' = Some p)"
    and get_users_view: "cGetManyUsers C us c s = (m, s') \<Longrightarrow> cview s' = cview s"
    and get_users_ok: "cGetManyUsers C us c s = (Inr f, s') \<Longrightarrow> f u = (if u \<in> set us then cview s u c else None)"
    and set_users_view: "cSetManyUsers C c ps s = (y, s') \<Longrightarrow>
       cview s' u' c' = cview s u' c' \<or> c' = c \<and> (\<exists>p. (u', p) \<in> set ps \<and> cview s' u' c' = Some p)"

section \<open>Patterns\<close>

lemma glob_literal:
  "CHR ''*'' \<notin> set p \<Longrightarrow> CHR ''?'' \<notin> set p \<Longrightarrow> glob (p @ q) s \<longleftrightarrow> (\<exists>t. s = p @ t \<and> glob q t)"
proof (induction p arbitrary: s)
  case (Cons c p)
  then show ?case by (cases s) auto
qed simp

lemma glob_star: "glob (CHR ''*'' # q) s \<longleftrightarrow> (\<exists>a b. s = a @ b \<and> glob q b)"
proof (induction s)
  case (Cons d s)
  have "(\<exists>a b. d # s = a @ b \<and> glob q b) \<longleftrightarrow> glob q (d # s) \<or> (\<exists>a b. s = a @ b \<and> glob q b)"
    by (metis append_Cons append_Nil append_eq_Cons_conv)
  with Cons show ?case by simp
qed simp

lemma glob_rest [simp]: "glob ''*'' s"
  by (simp add: glob_star)

context uuid_text
begin

lemma cacheKey_inj [simp]: "cacheKey U a b = cacheKey U a' b' \<longleftrightarrow> a = a' \<and> b = b'"
  by (simp add: cacheKey_def string_pair_inj)

lemma uuid_plain: "set (uuid_String U u) \<inter> {CHR ''*'', CHR ''?'', CHR ''['', CHR '']'', CHR 0x5C} = {}"
  using string_chars [of _ u] by (auto simp: uuid_chars_def)

lemma patterns_plain: "plain_pattern (user_pattern U u)" "plain_pattern (channel_pattern U c)"
  using uuid_plain [of u] uuid_plain [of c]
  by (auto simp: plain_pattern_def user_pattern_def channel_pattern_def CachePrefix_def)

lemma user_pattern_key: "glob (user_pattern U u) (cacheKey U u' c) \<longleftrightarrow> u' = u"
proof -
  let ?p = "CachePrefix @ '':'' @ uuid_String U u @ '':''"
  have "glob (?p @ ''*'') (cacheKey U u' c) \<longleftrightarrow> (\<exists>t. cacheKey U u' c = ?p @ t)"
    using uuid_plain [of u] by (subst glob_literal) (auto simp: CachePrefix_def)
  also have "\<dots> \<longleftrightarrow> u' = u"
    by (auto simp: cacheKey_def append_eq_append_conv)
  finally show ?thesis by (simp add: user_pattern_def)
qed

lemma channel_pattern_key: "glob (channel_pattern U c) (cacheKey U u c') \<longleftrightarrow> c' = c"
proof -
  let ?q = "CHR '':'' # uuid_String U c" and ?p = "CachePrefix @ '':''"
  have lit: "glob ?q t \<longleftrightarrow> t = ?q" for t
    using glob_literal [of ?q "[]" t] uuid_plain [of c] by auto
  have "glob (?p @ CHR ''*'' # ?q) (cacheKey U u c') \<longleftrightarrow> (\<exists>a. cacheKey U u c' = ?p @ a @ ?q)"
    by (subst glob_literal) (auto simp: CachePrefix_def glob_star lit simp del: glob.simps)
  also have "\<dots> \<longleftrightarrow> (\<exists>a. uuid_String U u @ '':'' @ uuid_String U c' = a @ '':'' @ uuid_String U c)"
    by (simp add: cacheKey_def)
  also have "\<dots> \<longleftrightarrow> c' = c"
  proof
    assume "\<exists>a. uuid_String U u @ '':'' @ uuid_String U c' = a @ '':'' @ uuid_String U c"
    then obtain a where "(uuid_String U u @ '':'') @ uuid_String U c' = (a @ '':'') @ uuid_String U c" by auto
    then have "uuid_String U c' = uuid_String U c"
      by (subst (asm) append_eq_append_conv) auto
    then show "c' = c" by simp
  qed auto
  finally show ?thesis by (simp add: channel_pattern_def)
qed

lemma all_pattern_key: "glob (CachePrefix @ '':*'') (cacheKey U u c)"
proof -
  have "glob ((CachePrefix @ '':'') @ ''*'') (cacheKey U u c)"
    by (subst glob_literal) (auto simp: CachePrefix_def cacheKey_def)
  then show ?thesis by simp
qed

end

section \<open>The scan loop\<close>

context valkey_service
begin

lemma delete_batch:
  assumes "(if ks \<noteq> [] then redis_Do V (DEL ks) r1 else (Inr (), r1)) = (Inr u, r2)"
  shows "live (vk_store V r2) k = (if k \<in> set ks then None else live (vk_store V r1) k)"
  using assms by (auto split: if_splits dest: redis_Do_ok)

text \<open>
  A loop that ends well is a full iteration during which keys only disappear, and which
  has deleted every key it was given.
\<close>

definition scan_done :: "string \<Rightarrow> nat \<Rightarrow> 'r \<Rightarrow> 'r \<Rightarrow> bool" where
  "scan_done p c r r' \<longleftrightarrow>
     (\<exists>run. run \<noteq> [] \<and> scan_run V p scanBatchSize c run 0 \<and>
        (\<forall>(s, ks) \<in> set run. (\<forall>k. live (vk_store V r') k \<noteq> None \<longrightarrow> live (vk_store V s) k \<noteq> None)
           \<and> (\<forall>k \<in> set ks. live (vk_store V r') k = None)))"

text \<open>However the loop ends, it only ever removes keys that match the pattern.\<close>

definition only_matching :: "string \<Rightarrow> 'r \<Rightarrow> 'r \<Rightarrow> bool" where
  "only_matching p r r' \<longleftrightarrow>
     (\<forall>k. live (vk_store V r') k = live (vk_store V r) k \<or> glob p k \<and> live (vk_store V r') k = None)"

lemma only_matching_refl [simp]: "vk_store V r' = vk_store V r \<Longrightarrow> only_matching p r r'"
  by (simp add: only_matching_def)

lemma only_matching_trans: "only_matching p r s \<Longrightarrow> only_matching p s t \<Longrightarrow> only_matching p r t"
  unfolding only_matching_def by metis

lemma delete_batch_matching:
  assumes "plain_pattern p" and "vk_exec V (SCAN c p n) r = (Inr (RScan ks c1), r1)"
    and "(if ks \<noteq> [] then redis_Do V (DEL ks) r1 else (Inr (), r1)) = (x, r2)"
  shows "only_matching p r r2"
proof -
  have ks: "\<forall>k \<in> set ks. glob p k" and st: "vk_store V r1 = vk_store V r"
    using scan_sound [OF assms(1,2)] scan_store [OF assms(2)] by auto
  have "vk_store V r2 = vk_store V r \<or> vk_store V r2 = vdrops ks (vk_store V r)"
    using assms(3) st by (cases x) (auto split: if_splits dest: redis_Do_ok redis_Do_err)
  with ks show ?thesis by (auto simp: only_matching_def)
qed

text \<open>Induction over the loop: it stops at a failed scan, stops after a batch, or goes on.\<close>

lemma scan_induct [consumes 1, case_names failed last_batch more]:
  assumes ret: "scanAndDelete V p c r = Some y"
    and failed: "\<And>c r x r1 e. vk_exec V (SCAN c p scanBatchSize) r = (x, r1) \<Longrightarrow> Q c r (Inl e, r1)"
    and last_batch: "\<And>c r ks n r1 x r2 z.
       vk_exec V (SCAN c p scanBatchSize) r = (Inr (RScan ks n), r1) \<Longrightarrow>
       (if ks \<noteq> [] then redis_Do V (DEL ks) r1 else (Inr (), r1)) = (x, r2) \<Longrightarrow>
       (z = Inr () \<Longrightarrow> x = Inr () \<and> n = 0) \<Longrightarrow> Q c r (z, r2)"
    and more: "\<And>c r ks n r1 r2 y.
       vk_exec V (SCAN c p scanBatchSize) r = (Inr (RScan ks n), r1) \<Longrightarrow>
       (if ks \<noteq> [] then redis_Do V (DEL ks) r1 else (Inr (), r1)) = (Inr (), r2) \<Longrightarrow>
       n \<noteq> 0 \<Longrightarrow> Q n r2 y \<Longrightarrow> Q c r y"
  shows "Q c r y"
proof -
  have "V = V \<and> p = p \<longrightarrow> Q c r y"
  proof (rule scanAndDelete.raw_induct [where P = "\<lambda>W q c r y. W = V \<and> q = p \<longrightarrow> Q c r y", OF _ ret],
      intro impI, elim conjE, hypsubst)
    fix f and c :: nat and r :: 'r and y
    assume IH: "\<And>W q c r y. f W q c r = Some y \<Longrightarrow> W = V \<and> q = p \<longrightarrow> Q c r y"
      and eq: "(case vk_exec V (SCAN c p scanBatchSize) r of
        (Inl e, r1) \<Rightarrow> Some (Inl (Wrap ''scan keys'' e), r1)
      | (Inr (RScan keys next), r1) \<Rightarrow>
          (case (if keys \<noteq> [] then redis_Do V (DEL keys) r1 else (Inr (), r1)) of
             (Inl e, r2) \<Rightarrow> Some (Inl (Wrap ''delete keys'' e), r2)
           | (Inr _, r2) \<Rightarrow> (if next = 0 then Some (Inr (), r2) else f V p next r2))
      | (Inr _, r1) \<Rightarrow> Some (Inl (Wrap ''scan keys'' redis_unexpected), r1)) = Some y"
    obtain x1 r1 where sc: "vk_exec V (SCAN c p scanBatchSize) r = (x1, r1)" by fastforce
    show "Q c r y"
    proof (cases "\<exists>ks n. x1 = Inr (RScan ks n)")
      case False
      with eq sc have "\<exists>e. y = (Inl e, r1)" by (auto split: sum.splits reply.splits)
      then show ?thesis using failed [OF sc] by blast
    next
      case True
      then obtain ks n where sc: "vk_exec V (SCAN c p scanBatchSize) r = (Inr (RScan ks n), r1)"
        using sc by blast
      obtain x r2 where d: "(if ks \<noteq> [] then redis_Do V (DEL ks) r1 else (Inr (), r1)) = (x, r2)" by fastforce
      show ?thesis
      proof (cases "x = Inr () \<and> n \<noteq> 0")
        case True
        with eq sc d have "f V p n r2 = Some y" by simp
        with IH have "Q n r2 y" by blast
        then show ?thesis using more [OF sc] d True by blast
      next
        case False
        with eq sc d have "\<exists>z. y = (z, r2) \<and> (z = Inr () \<longrightarrow> x = Inr () \<and> n = 0)"
          by (cases x) auto
        then show ?thesis using last_batch [OF sc d] by blast
      qed
    qed
  qed
  then show ?thesis by simp
qed

lemma scanAndDelete_matching:
  assumes "plain_pattern p" and "scanAndDelete V p c r = Some y"
  shows "only_matching p r (snd y)"
  using assms(2)
proof (induction rule: scan_induct)
  case (failed c r x r1 e)
  then show ?case by (simp add: scan_store)
next
  case (last_batch c r ks n r1 x r2 z)
  then show ?case by (simp add: delete_batch_matching [OF assms(1)])
next
  case (more c r ks n r1 r2 y)
  then show ?case using delete_batch_matching [OF assms(1)] only_matching_trans by blast
qed

lemma scanAndDelete_done:
  assumes "plain_pattern p" and "scanAndDelete V p c r = Some y" and "fst y = Inr ()"
  shows "scan_done p c r (snd y)"
proof -
  have "(fst y = Inr () \<longrightarrow> scan_done p c r (snd y)) \<and>
        (fst y = Inr () \<longrightarrow> (\<forall>k. live (vk_store V (snd y)) k \<noteq> None \<longrightarrow> live (vk_store V r) k \<noteq> None))"
    using assms(2)
  proof (induction rule: scan_induct)
    case (failed c r x r1 e)
    then show ?case by simp
  next
    case (last_batch c r ks n r1 x r2 z)
    show ?case
    proof (cases "z = Inr ()")
      case True
      with last_batch have d: "(if ks \<noteq> [] then redis_Do V (DEL ks) r1 else (Inr (), r1)) = (Inr (), r2)" "n = 0"
        by auto
      have "scan_run V p scanBatchSize c [(r, ks)] 0" using last_batch(1) d(2) by auto
      moreover have "live (vk_store V r2) k = (if k \<in> set ks then None else live (vk_store V r) k)" for k
        using delete_batch [OF d(1)] scan_store [OF last_batch(1)] by simp
      ultimately show ?thesis
        by (auto simp: scan_done_def intro!: exI [of _ "[(r, ks)]"] split: if_splits)
    qed simp
  next
    case (more c r ks n r1 r2 y)
    have b: "live (vk_store V r2) k = (if k \<in> set ks then None else live (vk_store V r) k)" for k
      using delete_batch [OF more(2)] scan_store [OF more(1)] by simp
    show ?case
    proof (cases "fst y = Inr ()")
      case True
      with more.IH obtain run where run: "run \<noteq> []" "scan_run V p scanBatchSize n run 0"
        "\<forall>(s, ks) \<in> set run. (\<forall>k. live (vk_store V (snd y)) k \<noteq> None \<longrightarrow> live (vk_store V s) k \<noteq> None)
           \<and> (\<forall>k \<in> set ks. live (vk_store V (snd y)) k = None)"
        and sub: "\<forall>k. live (vk_store V (snd y)) k \<noteq> None \<longrightarrow> live (vk_store V r2) k \<noteq> None"
        by (auto simp: scan_done_def)
      have s1: "\<forall>k. live (vk_store V (snd y)) k \<noteq> None \<longrightarrow> live (vk_store V r) k \<noteq> None"
        and s2: "\<forall>k \<in> set ks. live (vk_store V (snd y)) k = None"
        using sub b by metis+
      have "scan_run V p scanBatchSize c ((r, ks) # run) 0" using run more(1,3) by auto
      moreover define G where "G = (\<lambda>(s :: 'r, ks). (\<forall>k. live (vk_store V (snd y)) k \<noteq> None \<longrightarrow>
          live (vk_store V s) k \<noteq> None) \<and> (\<forall>k \<in> set ks. live (vk_store V (snd y)) k = None))"
      moreover have "\<forall>x \<in> set run. G x" "G (r, ks)" using run(3) s1 s2 by (auto simp only: G_def split_conv)
      ultimately have "scan_done p c r (snd y)"
        unfolding scan_done_def G_def [symmetric] by (intro exI [of _ "(r, ks) # run"]) simp
      with s1 show ?thesis by blast
    qed simp
  qed
  with assms(3) show ?thesis by blast
qed

text \<open>A scan that ends well has removed every key that matches the pattern, and no other.\<close>

lemma scanAndDelete_ok:
  assumes "plain_pattern p" and "scanAndDelete V p 0 r = Some (Inr (), r')"
  shows "live (vk_store V r') k = (if glob p k then None else live (vk_store V r) k)"
proof -
  from scanAndDelete_done [OF assms] obtain run where run: "run \<noteq> []" "scan_run V p scanBatchSize 0 run 0"
    "\<forall>(s, ks) \<in> set run. (\<forall>k. live (vk_store V r') k \<noteq> None \<longrightarrow> live (vk_store V s) k \<noteq> None)
       \<and> (\<forall>k \<in> set ks. live (vk_store V r') k = None)"
    by (auto simp: scan_done_def)
  have "live (vk_store V r') k = None" if "glob p k"
  proof (rule ccontr)
    assume k: "live (vk_store V r') k \<noteq> None"
    with run(3) have "\<forall>(s, ks) \<in> set run. live (vk_store V s) k \<noteq> None" by auto
    from scan_full [OF assms(1) run(1,2) that this] run(3) k show False by auto
  qed
  then show ?thesis
    using scanAndDelete_matching [OF assms] by (auto simp: only_matching_def)
qed

text \<open>
  The loop returns: a loop that did not would be an iteration without end over a
  collection that only shrinks.
\<close>

lemma shrinking_Cons:
  assumes "shrinking V run"
    and "\<And>k. run \<noteq> [] \<Longrightarrow> live (vk_store V (fst (hd run))) k \<noteq> None \<Longrightarrow> live (vk_store V r) k \<noteq> None"
  shows "shrinking V ((r, ks) # run)"
  unfolding shrinking_def
proof (intro allI impI, elim conjE)
  fix i j k
  assume ij: "i \<le> j" "j < length ((r, ks) # run)" and l: "live (vk_store V (fst (((r, ks) # run) ! j))) k \<noteq> None"
  have tail: "live (vk_store V (fst (run ! i'))) k \<noteq> None" if "j = Suc j'" "i' \<le> j'" for i' j'
    using assms(1) that ij(2) l unfolding shrinking_def by auto
  show "live (vk_store V (fst (((r, ks) # run) ! i))) k \<noteq> None"
  proof (cases i)
    case 0
    show ?thesis
    proof (cases j)
      case (Suc j')
      with ij have "run \<noteq> []" by auto
      with tail [OF Suc, of 0] assms(2) 0 show ?thesis by (simp add: hd_conv_nth)
    qed (use 0 l in simp)
  next
    case (Suc i')
    with ij obtain j' where "j = Suc j'" "i' \<le> j'" by (cases j) auto
    with tail Suc show ?thesis by simp
  qed
qed

lemma scan_None_run:
  assumes "scanAndDelete V p c r = None"
  shows "\<exists>run c'. length run = Suc N \<and> fst (hd run) = r \<and> scan_run V p scanBatchSize c run c' \<and> shrinking V run"
  using assms
proof (induction N arbitrary: c r)
  case (Suc N)
  from Suc.prems obtain ks n r1 r2 where sc: "vk_exec V (SCAN c p scanBatchSize) r = (Inr (RScan ks n), r1)"
    and d: "(if ks \<noteq> [] then redis_Do V (DEL ks) r1 else (Inr (), r1)) = (Inr (), r2)"
    and n: "n \<noteq> 0" "scanAndDelete V p n r2 = None"
    by (subst (asm) scanAndDelete.simps)
      (auto split: prod.splits sum.splits reply.splits if_splits)
  from Suc.IH [OF n(2)] obtain run c' where run: "length run = Suc N" "fst (hd run) = r2"
    "scan_run V p scanBatchSize n run c'" "shrinking V run" by blast
  have sub: "live (vk_store V r) k \<noteq> None" if "live (vk_store V r2) k \<noteq> None" for k
    using that delete_batch [OF d, of k] scan_store [OF sc] by (auto split: if_splits)
  have "shrinking V ((r, ks) # run)"
    using run(2,4) sub by (intro shrinking_Cons) auto
  moreover have "scan_run V p scanBatchSize c ((r, ks) # run) c'" using sc n run(3) by auto
  ultimately show ?case using run(1)
    by (intro exI [of _ "(r, ks) # run"] exI [of _ c']) simp
next
  case 0
  then obtain ks n r1 where sc: "vk_exec V (SCAN c p scanBatchSize) r = (Inr (RScan ks n), r1)"
    by (subst (asm) scanAndDelete.simps)
      (auto split: prod.splits sum.splits reply.splits if_splits)
  then show ?case
    by (intro exI [of _ "[(r, ks)]"] exI [of _ n]) (auto simp: shrinking_def)
qed

lemma scanAndDelete_returns: "\<exists>y. scanAndDelete V p 0 r = Some y"
proof (rule ccontr)
  assume "\<not> ?thesis"
  then have none: "scanAndDelete V p 0 r = None" by (cases "scanAndDelete V p 0 r") auto
  from scan_ends obtain N where N: "\<And>run c. scan_run V p scanBatchSize 0 run c \<Longrightarrow> run \<noteq> [] \<Longrightarrow>
      fst (hd run) = r \<Longrightarrow> shrinking V run \<Longrightarrow> length run \<le> N" by metis
  from scan_None_run [OF none, of N] obtain run c where "length run = Suc N" "fst (hd run) = r"
    "scan_run V p scanBatchSize 0 run c" "shrinking V run" by blast
  with N [of run c] show False by fastforce
qed

text \<open>A pipeline of stores, however it ends, has written listed values and nothing else.\<close>

lemma pipeline_sets:
  assumes "redis_Pipeline V (map (\<lambda>(i, p). SET (key i) (val p) (Some ttl)) ps) r = (x, r')" and "0 < ttl"
  shows "live (vk_store V r') k = live (vk_store V r) k
    \<or> (\<exists>(i, p) \<in> set ps. k = key i \<and> live (vk_store V r') k = Some (VStr (val p)))"
  using assms(1)
proof (induction ps arbitrary: r x)
  case (Cons ip ps)
  obtain i p where ip: "ip = (i, p)" by fastforce
  obtain y r1 where e: "vk_exec V (SET (key i) (val p) (Some ttl)) r = (y, r1)" by fastforce
  obtain z where rest: "redis_Pipeline V (map (\<lambda>(i, p). SET (key i) (val p) (Some ttl)) ps) r1 = (z, r')"
    using Cons.prems e ip by (cases y) (auto simp: prod_eq_iff split: prod.splits)
  have "vk_store V r1 = vk_store V r \<or> vk_store V r1 = vput (key i) (VStr (val p)) (until (Some ttl) (vk_store V r)) (vk_store V r)"
    using e by (cases y) (auto dest: ok_store dest!: exec_err [rotated])
  then have "live (vk_store V r1) k = live (vk_store V r) k
      \<or> k = key i \<and> live (vk_store V r1) k = Some (VStr (val p))"
    using assms(2) by (cases "k = key i") auto
  with Cons.IH [OF rest] ip show ?case by fastforce
qed simp

end

section \<open>The Valkey cache keeps the promise\<close>

definition cache_view :: "uuid_lib \<Rightarrow> 'r valkey \<Rightarrow> 'r \<Rightarrow> uuid \<Rightarrow> uuid \<Rightarrow> perm option" where
  "cache_view U V r u c = Option.bind (rval_bytes (live (vk_store V r) (cacheKey U u c))) parse_perm"

lemma parse_perm_text [simp]: "parse_perm (perm_text p) = Some p"
  by (simp add: perm_text_def ParseInt64_FormatInt_word)

lemma CacheTTL_pos [simp]: "0 < CacheTTL"
  by (simp add: CacheTTL_def)

lemma collect_cached_zip:
  "collect_cached (zip is (map f is)) m i =
     (case (if i \<in> set is then Option.bind (f i) parse_perm else None) of
        None \<Rightarrow> m i | Some n \<Rightarrow> Some n)"
  by (induction "is" arbitrary: m) (auto split: option.splits Option.bind_splits)

locale valkey_cache = uuid_text U + valkey_service V for U :: uuid_lib and V :: "'r valkey"
begin

lemma cache_view_store: "vk_store V r' = vk_store V r \<Longrightarrow> cache_view U V r' = cache_view U V r"
  by (simp add: cache_view_def fun_eq_iff)

lemma cache_Get_view: "cache_Get U V u c r = (x, r') \<Longrightarrow> vk_store V r' = vk_store V r"
  by (auto simp: cache_Get_def split: prod.splits sum.splits option.splits if_splits dest: redis_Get_store)

lemma cache_Get_ok: "cache_Get U V u c r = (Inr v, r') \<Longrightarrow> v = cache_view U V r u c"
  by (auto simp: cache_Get_def cache_view_def split: prod.splits sum.splits option.splits if_splits
      dest: redis_Get_ok redis_Get_nil)

lemma cache_Set_view:
  assumes "cache_Set U V u c p r = (x, r')"
  shows "cache_view U V r' u' c' = cache_view U V r u' c' \<or> u' = u \<and> c' = c \<and> cache_view U V r' u' c' = Some p"
proof -
  have "vk_store V r' = vk_store V r
      \<or> vk_store V r' = vput (cacheKey U u c) (VStr (perm_text p)) (until (Some CacheTTL) (vk_store V r)) (vk_store V r)"
    using assms by (auto simp: cache_Set_def split: prod.splits sum.splits dest: redis_Do_ok redis_Do_err)
  then show ?thesis by (cases "u' = u \<and> c' = c") (auto simp: cache_view_def)
qed

lemma cache_Set_ok: "cache_Set U V u c p r = (Inr (), r') \<Longrightarrow> cache_view U V r' u c = Some p"
  by (auto simp: cache_Set_def cache_view_def split: prod.splits sum.splits dest!: redis_Do_ok)

lemma cache_GetMany_view: "cache_GetMany U V u cs r = (x, r') \<Longrightarrow> vk_store V r' = vk_store V r"
  by (auto simp: cache_GetMany_def split: prod.splits sum.splits if_splits dest: redis_MGet_store)

lemma cache_GetMany_ok:
  "cache_GetMany U V u cs r = (Inr f, r') \<Longrightarrow> f c = (if c \<in> set cs then cache_view U V r u c else None)"
  by (auto simp: cache_GetMany_def cache_view_def collect_cached_zip comp_def
      split: prod.splits sum.splits if_splits option.splits dest!: redis_MGet_ok)

lemma cache_GetManyUsers_view: "cache_GetManyUsers U V us c r = (x, r') \<Longrightarrow> vk_store V r' = vk_store V r"
  by (auto simp: cache_GetManyUsers_def split: prod.splits sum.splits if_splits dest: redis_MGet_store)

lemma cache_GetManyUsers_ok:
  "cache_GetManyUsers U V us c r = (Inr f, r') \<Longrightarrow> f u = (if u \<in> set us then cache_view U V r u c else None)"
  by (auto simp: cache_GetManyUsers_def cache_view_def collect_cached_zip comp_def
      split: prod.splits sum.splits if_splits option.splits dest!: redis_MGet_ok)

lemma cache_SetMany_view:
  assumes "cache_SetMany U V u ps r = (x, r')"
  shows "cache_view U V r' u' c' = cache_view U V r u' c'
    \<or> u' = u \<and> (\<exists>p. (c', p) \<in> set ps \<and> cache_view U V r' u' c' = Some p)"
proof (cases "ps = []")
  case False
  with assms obtain y where
    "redis_Pipeline V (map (\<lambda>(c, p). SET (cacheKey U u c) (perm_text p) (Some CacheTTL)) ps) r = (y, r')"
    by (auto simp: cache_SetMany_def split: prod.splits sum.splits)
  from pipeline_sets [OF this CacheTTL_pos, of "cacheKey U u' c'"] show ?thesis
    by (auto simp: cache_view_def)
qed (use assms in \<open>simp add: cache_SetMany_def\<close>)

lemma cache_SetManyUsers_view:
  assumes "cache_SetManyUsers U V c ps r = (x, r')"
  shows "cache_view U V r' u' c' = cache_view U V r u' c'
    \<or> c' = c \<and> (\<exists>p. (u', p) \<in> set ps \<and> cache_view U V r' u' c' = Some p)"
proof (cases "ps = []")
  case False
  with assms obtain y where
    "redis_Pipeline V (map (\<lambda>(u, p). SET (cacheKey U u c) (perm_text p) (Some CacheTTL)) ps) r = (y, r')"
    by (auto simp: cache_SetManyUsers_def split: prod.splits sum.splits)
  from pipeline_sets [OF this CacheTTL_pos, of "cacheKey U u' c'"] show ?thesis
    by (auto simp: cache_view_def)
qed (use assms in \<open>simp add: cache_SetManyUsers_def\<close>)

lemma cache_DeleteByUser_ok:
  assumes "cache_DeleteByUser U V u r = Some (Inr (), r')"
  shows "cache_view U V r' u' c = (if u' = u then None else cache_view U V r u' c)"
  using scanAndDelete_ok [OF patterns_plain(1) assms [unfolded cache_DeleteByUser_def], of "cacheKey U u' c"]
  by (simp add: cache_view_def user_pattern_key)

lemma cache_DeleteByChannel_ok:
  assumes "cache_DeleteByChannel U V c r = Some (Inr (), r')"
  shows "cache_view U V r' u c' = (if c' = c then None else cache_view U V r u c')"
  using scanAndDelete_ok [OF patterns_plain(2) assms [unfolded cache_DeleteByChannel_def], of "cacheKey U u c'"]
  by (simp add: cache_view_def channel_pattern_key)

lemma cache_DeleteAll_ok:
  assumes "cache_DeleteAll V r = Some (Inr (), r')"
  shows "cache_view U V r' u c = None"
proof -
  have "plain_pattern (CachePrefix @ '':*'')" by (simp add: plain_pattern_def CachePrefix_def)
  from scanAndDelete_ok [OF this assms [unfolded cache_DeleteAll_def], of "cacheKey U u c"]
  show ?thesis using all_pattern_key [of u c] by (simp add: cache_view_def)
qed

lemma cache_DeleteExact_ok:
  "cache_DeleteExact U V u c r = (Inr (), r') \<Longrightarrow>
     cache_view U V r' u' c' = (if u' = u \<and> c' = c then None else cache_view U V r u' c')"
  by (auto simp: cache_DeleteExact_def cache_view_def dest!: redis_Do_ok)

end

sublocale valkey_cache \<subseteq> vcache: perm_cache "ValkeyCache U V" "\<lambda>w. cache_view U V (w_vk w)"
  by unfold_locales
    (auto simp: ValkeyCache_def dest!: on_vkD
      simp: cache_GetMany_ok cache_GetManyUsers_ok
      dest: cache_Get_view cache_Get_ok cache_Set_view cache_Set_ok cache_GetMany_view
        cache_SetMany_view cache_GetManyUsers_view cache_SetManyUsers_view
      intro!: cache_view_store)

interpretation mem_cache: valkey_cache ref_uuid mem_valkey
  by unfold_locales

section \<open>Properties\<close>

text \<open>
  A permission set written to the cache is read back unchanged, every 64-bit value
  through its signed decimal text.
\<close>

theorem cache_Set_Get:
  assumes "valkey_cache U V" and "cache_Set U V u c p r = (Inr (), r1)"
    and "cache_Get U V u c r1 = (Inr v, r2)"
  shows "v = Some p"
  using valkey_cache.cache_Set_ok [OF assms(1,2)] valkey_cache.cache_Get_ok [OF assms(1,3)] by simp

lemma mem_Set_Get:
  "\<exists>r1. cache_Set U mem_valkey u c p vempty = (Inr (), r1) \<and> (\<exists>v. cache_Get U mem_valkey u c r1 = (Inr v, r1))"
  by (simp add: cache_Set_def cache_Get_def redis_Do_def redis_Get_def mem_valkey_def)

theorem cache_Set_Get_witness:
  "\<exists>r1 r2. cache_Set ref_uuid mem_valkey 2 10 (-1) vempty = (Inr (), r1)
     \<and> cache_Get ref_uuid mem_valkey 2 10 r1 = (Inr (Some (-1)), r2)"
  using cache_Set_Get [OF mem_cache.valkey_cache_axioms] mem_Set_Get by metis

text \<open>
  Invalidating a user returns, and if it reports success then every cached permission of
  that user is gone and every entry of any other user is as before.
\<close>

theorem cache_DeleteByUser_exact:
  assumes "valkey_cache U V"
  shows "\<exists>x r'. cache_DeleteByUser U V u r = Some (x, r')
    \<and> (x = Inr () \<longrightarrow> (\<forall>u' c. cache_view U V r' u' c = (if u' = u then None else cache_view U V r u' c)))"
proof -
  obtain x r' where "cache_DeleteByUser U V u r = Some (x, r')"
    using valkey_service.scanAndDelete_returns [OF valkey_cache.axioms(2) [OF assms]]
    unfolding cache_DeleteByUser_def by (metis surj_pair)
  then show ?thesis using valkey_cache.cache_DeleteByUser_ok [OF assms] by blast
qed

lemma mem_scanAndDelete: "\<exists>st'. scanAndDelete mem_valkey p 0 st = Some (Inr (), st')"
  by (simp add: scanAndDelete.simps mem_valkey_def redis_Do_def)

definition sample_cache :: vstore where
  "sample_cache = snd (cache_Set ref_uuid mem_valkey 3 10 5 (snd (cache_Set ref_uuid mem_valkey 2 10 7 vempty)))"

lemma mem_Set: "cache_Set U mem_valkey u c p st = (Inr (), snd (cache_Set U mem_valkey u c p st))"
  by (simp add: cache_Set_def redis_Do_def mem_valkey_def)

lemma sample_cache_view:
  "cache_view ref_uuid mem_valkey sample_cache 2 10 = Some 7" "cache_view ref_uuid mem_valkey sample_cache 3 10 = Some 5"
proof -
  note s2 = mem_Set [of ref_uuid 2 10 7 vempty]
  note s3 = mem_Set [of ref_uuid 3 10 5 "snd (cache_Set ref_uuid mem_valkey 2 10 7 vempty)"]
  show "cache_view ref_uuid mem_valkey sample_cache 3 10 = Some 5"
    unfolding sample_cache_def by (rule mem_cache.cache_Set_ok [OF s3])
  show "cache_view ref_uuid mem_valkey sample_cache 2 10 = Some 7"
    using mem_cache.cache_Set_view [OF s3, of 2 10] mem_cache.cache_Set_ok [OF s2] unfolding sample_cache_def by simp
qed

theorem cache_DeleteByUser_exact_witness:
  "\<exists>r'. cache_DeleteByUser ref_uuid mem_valkey 2 sample_cache = Some (Inr (), r')
    \<and> cache_view ref_uuid mem_valkey r' 2 10 = None \<and> cache_view ref_uuid mem_valkey r' 3 10 = Some 5"
  using cache_DeleteByUser_exact [OF mem_cache.valkey_cache_axioms, of 2 sample_cache]
    mem_scanAndDelete [of "user_pattern ref_uuid 2" sample_cache]
  by (auto simp: cache_DeleteByUser_def sample_cache_view)

text \<open>
  Invalidating a channel returns, and if it reports success then every cached permission
  in that channel is gone and every entry of any other channel is as before.
\<close>

theorem cache_DeleteByChannel_exact:
  assumes "valkey_cache U V"
  shows "\<exists>x r'. cache_DeleteByChannel U V c r = Some (x, r')
    \<and> (x = Inr () \<longrightarrow> (\<forall>u c'. cache_view U V r' u c' = (if c' = c then None else cache_view U V r u c')))"
proof -
  obtain x r' where "cache_DeleteByChannel U V c r = Some (x, r')"
    using valkey_service.scanAndDelete_returns [OF valkey_cache.axioms(2) [OF assms]]
    unfolding cache_DeleteByChannel_def by (metis surj_pair)
  then show ?thesis using valkey_cache.cache_DeleteByChannel_ok [OF assms] by blast
qed

theorem cache_DeleteByChannel_exact_witness:
  "\<exists>r'. cache_DeleteByChannel ref_uuid mem_valkey 10 sample_cache = Some (Inr (), r')
    \<and> cache_view ref_uuid mem_valkey r' 2 10 = None \<and> cache_view ref_uuid mem_valkey r' 3 10 = None"
  using cache_DeleteByChannel_exact [OF mem_cache.valkey_cache_axioms, of 10 sample_cache]
    mem_scanAndDelete [of "channel_pattern ref_uuid 10" sample_cache]
  by (auto simp: cache_DeleteByChannel_def sample_cache_view)

end
