(* ===== verification/Permission_Resolver.thy ===== *)
theory Permission_Resolver
  imports Permission_Store Permission_Cache Sample "HOL-Library.AList"
begin

text \<open>
  \<open>internal/permission/resolver.go\<close>: the four-step permission algorithm, its cached entry
  points and the bulk filters. \<open>effective\<close> states bit by bit which permissions a user has in
  a channel; the locale \<open>resolver\<close> shows that the code computes exactly those, through a
  cache that holds only right values and keeps it so.
\<close>

section \<open>The algorithm\<close>

record baseResult =
  br_perm :: perm
  br_roleIDs :: "uuid set"
  br_admin :: bool

definition basePermissions :: "perm_lib \<Rightarrow> 's Store \<Rightarrow> uuid \<Rightarrow> (baseResult, 's) call" where
  "basePermissions P S userID s =
     (case IsOwner S userID s of
        (Inl e, s1) \<Rightarrow> (Inl (Wrap ''check owner'' e), s1)
      | (Inr isOwner, s1) \<Rightarrow>
          (if isOwner then (Inr \<lparr>br_perm = AllPermissions P, br_roleIDs = {}, br_admin = True\<rparr>, s1)
           else case RolePermissions S userID s1 of
                  (Inl e, s2) \<Rightarrow> (Inl (Wrap ''get role permissions'' e), s2)
                | (Inr roleEntries, s2) \<Rightarrow>
                    (let base = foldl (\<lambda>b entry. pAdd P b (rp_Permissions entry)) 0 roleEntries;
                         roleIDs = foldl (\<lambda>ids entry. insert (rp_RoleID entry) ids) {} roleEntries
                     in if pHas P base (ManageServer P)
                        then (Inr \<lparr>br_perm = AllPermissions P, br_roleIDs = {}, br_admin = True\<rparr>, s2)
                        else (Inr \<lparr>br_perm = base, br_roleIDs = roleIDs, br_admin = False\<rparr>, s2))))"

text \<open>One turn of the loop of \<open>applyOverrides\<close> over \<open>(roleAllow, roleDeny, userOverride)\<close>.\<close>

fun override_step ::
  "perm_lib \<Rightarrow> uuid set \<Rightarrow> uuid \<Rightarrow> perm \<times> perm \<times> Override option \<Rightarrow> Override \<Rightarrow> perm \<times> perm \<times> Override option" where
  "override_step P userRoles userID (roleAllow, roleDeny, userOverride) ov =
     (if ov_PrincipalType ov = PrincipalUser \<and> ov_PrincipalID ov = userID
      then (roleAllow, roleDeny, Some ov)
      else if ov_PrincipalType ov = PrincipalRole \<and> ov_PrincipalID ov \<in> userRoles
      then (pAdd P roleAllow (ov_Allow ov), pAdd P roleDeny (ov_Deny ov), userOverride)
      else (roleAllow, roleDeny, userOverride))"

definition applyOverrides :: "perm_lib \<Rightarrow> perm \<Rightarrow> Override list \<Rightarrow> uuid set \<Rightarrow> uuid \<Rightarrow> perm" where
  "applyOverrides P base overrides userRoles userID =
     (case foldl (override_step P userRoles userID) (0, 0, None) overrides of
        (roleAllow, roleDeny, userOverride) \<Rightarrow>
          (let b1 = pRemove P (pAdd P base roleAllow) roleDeny
           in case userOverride of
                None \<Rightarrow> b1
              | Some ov \<Rightarrow> pRemove P (pAdd P b1 (ov_Allow ov)) (ov_Deny ov)))"

definition channelOverrides ::
  "perm_lib \<Rightarrow> 's Store \<Rightarrow> perm \<Rightarrow> uuid set \<Rightarrow> uuid \<Rightarrow> uuid \<Rightarrow> (perm, 's) call" where
  "channelOverrides P S base roleIDs userID channelID s =
     (case GetChannelInfo S channelID s of
        (Inl e, s1) \<Rightarrow> (Inl (Wrap ''get channel info'' e), s1)
      | (Inr chanInfo, s1) \<Rightarrow>
          (case (case ci_CategoryID chanInfo of
                   None \<Rightarrow> (Inr base, s1)
                 | Some cat \<Rightarrow>
                     (case Overrides S TargetCategory cat s1 of
                        (Inl e, s2) \<Rightarrow> (Inl (Wrap ''get category overrides'' e), s2)
                      | (Inr catOverrides, s2) \<Rightarrow>
                          (Inr (applyOverrides P base catOverrides roleIDs userID), s2))) of
             (Inl e, s2) \<Rightarrow> (Inl e, s2)
           | (Inr base1, s2) \<Rightarrow>
               (case Overrides S TargetChannel channelID s2 of
                  (Inl e, s3) \<Rightarrow> (Inl (Wrap ''get channel overrides'' e), s3)
                | (Inr chanOverrides, s3) \<Rightarrow>
                    (Inr (applyOverrides P base1 chanOverrides roleIDs userID), s3))))"

definition compute :: "perm_lib \<Rightarrow> 's Store \<Rightarrow> uuid \<Rightarrow> uuid \<Rightarrow> (perm, 's) call" where
  "compute P S userID channelID s =
     (case basePermissions P S userID s of
        (Inl e, s1) \<Rightarrow> (Inl e, s1)
      | (Inr br, s1) \<Rightarrow>
          (if br_admin br then (Inr (br_perm br), s1)
           else channelOverrides P S (br_perm br) (br_roleIDs br) userID channelID s1))"

section \<open>Cached entry points\<close>

text \<open>An error of the cache is logged and otherwise ignored.\<close>

definition Resolve :: "perm_lib \<Rightarrow> 's Store \<Rightarrow> 's Cache \<Rightarrow> uuid \<Rightarrow> uuid \<Rightarrow> (perm, 's) call" where
  "Resolve P S C userID channelID s =
     (case cGet C userID channelID s of
        (Inr (Some p), s1) \<Rightarrow> (Inr p, s1)
      | (_, s1) \<Rightarrow>
          (case compute P S userID channelID s1 of
             (Inl e, s2) \<Rightarrow> (Inl e, s2)
           | (Inr p, s2) \<Rightarrow> (Inr p, snd (cSet C userID channelID p s2))))"

definition HasPermission :: "perm_lib \<Rightarrow> 's Store \<Rightarrow> 's Cache \<Rightarrow> uuid \<Rightarrow> uuid \<Rightarrow> perm \<Rightarrow> (bool, 's) call" where
  "HasPermission P S C userID channelID p s =
     (case Resolve P S C userID channelID s of
        (Inl e, s1) \<Rightarrow> (Inl e, s1)
      | (Inr eff, s1) \<Rightarrow> (Inr (pHas P eff p), s1))"

definition serverPermKey :: uuid where
  "serverPermKey = uuid_Nil"

definition ResolveServer :: "perm_lib \<Rightarrow> 's Store \<Rightarrow> 's Cache \<Rightarrow> uuid \<Rightarrow> (perm, 's) call" where
  "ResolveServer P S C userID s =
     (case cGet C userID serverPermKey s of
        (Inr (Some p), s1) \<Rightarrow> (Inr p, s1)
      | (_, s1) \<Rightarrow>
          (case basePermissions P S userID s1 of
             (Inl e, s2) \<Rightarrow> (Inl e, s2)
           | (Inr br, s2) \<Rightarrow> (Inr (br_perm br), snd (cSet C userID serverPermKey (br_perm br) s2))))"

definition HasServerPermission :: "perm_lib \<Rightarrow> 's Store \<Rightarrow> 's Cache \<Rightarrow> uuid \<Rightarrow> perm \<Rightarrow> (bool, 's) call" where
  "HasServerPermission P S C userID p s =
     (case ResolveServer P S C userID s of
        (Inl e, s1) \<Rightarrow> (Inl e, s1)
      | (Inr eff, s1) \<Rightarrow> (Inr (pHas P eff p), s1))"

text \<open>The loops of the bulk filters: results in order, and the values to cache.\<close>

fun filter_channels ::
  "perm_lib \<Rightarrow> 's Store \<Rightarrow> baseResult \<Rightarrow> uuid \<Rightarrow> (uuid \<Rightarrow> perm option) \<Rightarrow> perm \<Rightarrow> uuid list \<Rightarrow> (uuid \<times> perm) list
     \<Rightarrow> (bool list \<times> (uuid \<times> perm) list, 's) call" where
  "filter_channels P S br userID cached p [] toCache s = (Inr ([], toCache), s)"
| "filter_channels P S br userID cached p (chID # chs) toCache s =
     (case cached chID of
        Some eff \<Rightarrow>
          (case filter_channels P S br userID cached p chs toCache s of
             (Inl e, s1) \<Rightarrow> (Inl e, s1)
           | (Inr (bs, tc), s1) \<Rightarrow> (Inr (pHas P eff p # bs, tc), s1))
      | None \<Rightarrow>
          (case channelOverrides P S (br_perm br) (br_roleIDs br) userID chID s of
             (Inl e, s1) \<Rightarrow> (Inl e, s1)
           | (Inr eff, s1) \<Rightarrow>
               (case filter_channels P S br userID cached p chs (AList.update chID eff toCache) s1 of
                  (Inl e, s2) \<Rightarrow> (Inl e, s2)
                | (Inr (bs, tc), s2) \<Rightarrow> (Inr (pHas P eff p # bs, tc), s2))))"

definition FilterPermitted ::
  "perm_lib \<Rightarrow> 's Store \<Rightarrow> 's Cache \<Rightarrow> uuid \<Rightarrow> uuid list \<Rightarrow> perm \<Rightarrow> (bool list, 's) call" where
  "FilterPermitted P S C userID channelIDs p s =
     (case basePermissions P S userID s of
        (Inl e, s1) \<Rightarrow> (Inl e, s1)
      | (Inr br, s1) \<Rightarrow>
          (if br_admin br then (Inr (map (\<lambda>_. True) channelIDs), s1)
           else case cGetMany C userID channelIDs s1 of
             (r, s2) \<Rightarrow>
               (let cached = (case r of Inl _ \<Rightarrow> Map.empty | Inr m \<Rightarrow> m)
                in case filter_channels P S br userID cached p channelIDs [] s2 of
                     (Inl e, s3) \<Rightarrow> (Inl e, s3)
                   | (Inr (result, toCache), s3) \<Rightarrow>
                       (Inr result, if toCache \<noteq> [] then snd (cSetMany C userID toCache s3) else s3))))"

fun filter_users ::
  "perm_lib \<Rightarrow> 's Store \<Rightarrow> uuid \<Rightarrow> (uuid \<Rightarrow> perm option) \<Rightarrow> perm \<Rightarrow> uuid list \<Rightarrow> (uuid \<times> perm) list
     \<Rightarrow> (bool list \<times> (uuid \<times> perm) list, 's) call" where
  "filter_users P S channelID cached p [] toCache s = (Inr ([], toCache), s)"
| "filter_users P S channelID cached p (uid # us) toCache s =
     (case cached uid of
        Some eff \<Rightarrow>
          (case filter_users P S channelID cached p us toCache s of
             (Inl e, s1) \<Rightarrow> (Inl e, s1)
           | (Inr (bs, tc), s1) \<Rightarrow> (Inr (pHas P eff p # bs, tc), s1))
      | None \<Rightarrow>
          (case compute P S uid channelID s of
             (Inl e, s1) \<Rightarrow> (Inl e, s1)
           | (Inr eff, s1) \<Rightarrow>
               (case filter_users P S channelID cached p us (AList.update uid eff toCache) s1 of
                  (Inl e, s2) \<Rightarrow> (Inl e, s2)
                | (Inr (bs, tc), s2) \<Rightarrow> (Inr (pHas P eff p # bs, tc), s2))))"

definition FilterUsersPermitted ::
  "perm_lib \<Rightarrow> 's Store \<Rightarrow> 's Cache \<Rightarrow> uuid list \<Rightarrow> uuid \<Rightarrow> perm \<Rightarrow> (bool list, 's) call" where
  "FilterUsersPermitted P S C userIDs channelID p s =
     (case cGetManyUsers C userIDs channelID s of
        (r, s1) \<Rightarrow>
          (let cached = (case r of Inl _ \<Rightarrow> Map.empty | Inr m \<Rightarrow> m)
           in case filter_users P S channelID cached p userIDs [] s1 of
                (Inl e, s2) \<Rightarrow> (Inl e, s2)
              | (Inr (result, toCache), s2) \<Rightarrow>
                  (Inr result, if toCache \<noteq> [] then snd (cSetManyUsers C channelID toCache s2) else s2)))"

section \<open>Which permissions a user has\<close>

definition role_hits :: "Override list \<Rightarrow> uuid set \<Rightarrow> Override set" where
  "role_hits os R = {ov \<in> set os. ov_PrincipalType ov = PrincipalRole \<and> ov_PrincipalID ov \<in> R}"

definition user_hit :: "Override list \<Rightarrow> uuid \<Rightarrow> Override option" where
  "user_hit os u = find (\<lambda>ov. ov_PrincipalType ov = PrincipalUser \<and> ov_PrincipalID ov = u) (rev os)"

text \<open>
  The effect of the overrides of one level on one bit: what the user's roles allow is
  added, what any of them denies is removed, and the user's own override comes last.
\<close>

definition level_bit :: "Override list \<Rightarrow> uuid set \<Rightarrow> uuid \<Rightarrow> nat \<Rightarrow> bool \<Rightarrow> bool" where
  "level_bit os R u n b =
     (let b1 = ((b \<or> (\<exists>ov \<in> role_hits os R. bit (ov_Allow ov) n)) \<and> \<not> (\<exists>ov \<in> role_hits os R. bit (ov_Deny ov) n))
      in case user_hit os u of
           None \<Rightarrow> b1
         | Some ov \<Rightarrow> (b1 \<or> bit (ov_Allow ov) n) \<and> \<not> bit (ov_Deny ov) n)"

definition role_bit :: "perm_data \<Rightarrow> uuid \<Rightarrow> nat \<Rightarrow> bool" where
  "role_bit D u n \<longleftrightarrow> (\<exists>e \<in> set (pd_roles D u). bit (rp_Permissions e) n)"

definition user_roles :: "perm_data \<Rightarrow> uuid \<Rightarrow> uuid set" where
  "user_roles D u = rp_RoleID ` set (pd_roles D u)"

definition is_admin :: "perm_lib \<Rightarrow> perm_data \<Rightarrow> uuid \<Rightarrow> bool" where
  "is_admin P D u \<longleftrightarrow> pd_owner D u \<or> (\<forall>n. bit (ManageServer P) n \<longrightarrow> role_bit D u n)"

definition server_effective :: "perm_lib \<Rightarrow> perm_data \<Rightarrow> uuid \<Rightarrow> perm \<Rightarrow> bool" where
  "server_effective P D u p \<longleftrightarrow>
     (if is_admin P D u then p = AllPermissions P else \<forall>n. bit p n \<longleftrightarrow> role_bit D u n)"

definition channel_bit :: "perm_data \<Rightarrow> uuid \<Rightarrow> uuid \<Rightarrow> ChannelInfo \<Rightarrow> nat \<Rightarrow> bool" where
  "channel_bit D u c ci n =
     level_bit (pd_overrides D TargetChannel c) (user_roles D u) u n
       (case ci_CategoryID ci of
          None \<Rightarrow> role_bit D u n
        | Some cat \<Rightarrow> level_bit (pd_overrides D TargetCategory cat) (user_roles D u) u n (role_bit D u n))"

definition effective :: "perm_lib \<Rightarrow> perm_data \<Rightarrow> uuid \<Rightarrow> uuid \<Rightarrow> perm \<Rightarrow> bool" where
  "effective P D u c p \<longleftrightarrow>
     (if is_admin P D u then p = AllPermissions P
      else case pd_channel D c of
             None \<Rightarrow> False
           | Some ci \<Rightarrow> (\<forall>n. bit p n \<longleftrightarrow> channel_bit D u c ci n))"

lemma effective_unique: "effective P D u c p \<Longrightarrow> effective P D u c q \<Longrightarrow> p = q"
  by (auto simp: effective_def split: if_splits option.splits intro: bit_eqI)

text \<open>A right answer for one channel: the effective permissions, tested for the permission asked for.\<close>

definition answers :: "perm_lib \<Rightarrow> perm_data \<Rightarrow> perm \<Rightarrow> uuid \<Rightarrow> uuid \<Rightarrow> bool \<Rightarrow> bool" where
  "answers P D p u c b \<longleftrightarrow> (\<exists>q. effective P D u c q \<and> b = pHas P q p)"

lemma answersI: "effective P D u c q \<Longrightarrow> answers P D p u c (pHas P q p)"
  by (auto simp: answers_def)

text \<open>
  A cache is coherent with the data when every cached value is the right one: under the
  nil identifier the server-level permissions, elsewhere those of the channel.
\<close>

definition coherent :: "perm_lib \<Rightarrow> perm_data \<Rightarrow> (uuid \<Rightarrow> uuid \<Rightarrow> perm option) \<Rightarrow> bool" where
  "coherent P D view \<longleftrightarrow>
     (\<forall>u c p. view u c = Some p \<longrightarrow>
        (if c = serverPermKey then server_effective P D u p else effective P D u c p))"

lemma coherentD:
  "coherent P D view \<Longrightarrow> view u c = Some p \<Longrightarrow> c \<noteq> serverPermKey \<Longrightarrow> effective P D u c p"
  "coherent P D view \<Longrightarrow> view u serverPermKey = Some p \<Longrightarrow> server_effective P D u p"
  by (auto simp: coherent_def)

lemma coherentI_step:
  assumes "coherent P D view"
    and "\<And>u c. view' u c = view u c \<or>
      (\<exists>p. view' u c = Some p \<and> (if c = serverPermKey then server_effective P D u p else effective P D u c p))"
  shows "coherent P D view'"
  using assms unfolding coherent_def by (metis option.inject)

section \<open>The override loop\<close>

text \<open>With one override for a principal, the effect of a level depends on the set of rows only.\<close>

lemma user_hit_set:
  assumes "distinct (map (\<lambda>ov. (ov_PrincipalType ov, ov_PrincipalID ov)) os)" and "set os = set os'"
    and "distinct (map (\<lambda>ov. (ov_PrincipalType ov, ov_PrincipalID ov)) os')"
  shows "user_hit os u = user_hit os' u"
proof (cases "user_hit os u")
  case None
  moreover have "user_hit os' u = None" using None assms(2) by (auto simp: user_hit_def find_None_iff)
  ultimately show ?thesis by simp
next
  case (Some ov)
  then have ov: "ov \<in> set os'" "ov_PrincipalType ov = PrincipalUser" "ov_PrincipalID ov = u"
    using assms(2) find_Some_member [OF Some [unfolded user_hit_def]] by auto
  have "user_hit os' u = Some ov"
    unfolding user_hit_def
    by (rule find_unique [where f = "\<lambda>ov. (ov_PrincipalType ov, ov_PrincipalID ov)" and k = "(PrincipalUser, u)"])
      (use assms(3) ov in \<open>auto simp: rev_map [symmetric]\<close>)
  with Some show ?thesis by simp
qed

lemma level_bit_order:
  assumes "mset os = mset os'" and "distinct (map (\<lambda>ov. (ov_PrincipalType ov, ov_PrincipalID ov)) os)"
  shows "level_bit os R u n b = level_bit os' R u n b"
proof -
  have s: "set os = set os'" using mset_eq_setD [OF assms(1)] .
  have "distinct (map (\<lambda>ov. (ov_PrincipalType ov, ov_PrincipalID ov)) os')"
    using assms by (metis mset_eq_imp_distinct_iff mset_map)
  with s user_hit_set [OF assms(2) s] show ?thesis by (simp add: level_bit_def role_hits_def)
qed

context perm_bits
begin

lemma override_loop:
  assumes "foldl (override_step P R u) (a, d, uo) os = (a', d', uo')"
  shows "bit a' n \<longleftrightarrow> bit a n \<or> (\<exists>ov \<in> role_hits os R. bit (ov_Allow ov) n)"
    and "bit d' n \<longleftrightarrow> bit d n \<or> (\<exists>ov \<in> role_hits os R. bit (ov_Deny ov) n)"
    and "uo' = (case user_hit os u of None \<Rightarrow> uo | Some ov \<Rightarrow> Some ov)"
proof -
  have "(bit a' n \<longleftrightarrow> bit a n \<or> (\<exists>ov \<in> role_hits os R. bit (ov_Allow ov) n)) \<and>
        (bit d' n \<longleftrightarrow> bit d n \<or> (\<exists>ov \<in> role_hits os R. bit (ov_Deny ov) n)) \<and>
        uo' = (case user_hit os u of None \<Rightarrow> uo | Some ov \<Rightarrow> Some ov)"
    using assms
  proof (induction os arbitrary: a d uo)
    case Nil
    then show ?case by (simp add: role_hits_def user_hit_def)
  next
    case (Cons ov os)
    obtain a1 d1 uo1 where st: "override_step P R u (a, d, uo) ov = (a1, d1, uo1)"
      by (cases "override_step P R u (a, d, uo) ov") auto
    with Cons.prems have "foldl (override_step P R u) (a1, d1, uo1) os = (a', d', uo')" by simp
    note IH = Cons.IH [OF this]
    have uh: "user_hit (ov # os) u = (case user_hit os u of
        None \<Rightarrow> if ov_PrincipalType ov = PrincipalUser \<and> ov_PrincipalID ov = u then Some ov else None
      | Some x \<Rightarrow> Some x)"
      by (simp add: user_hit_def find_snoc)
    have rh: "role_hits (ov # os) R =
        (if ov_PrincipalType ov = PrincipalRole \<and> ov_PrincipalID ov \<in> R then insert ov (role_hits os R)
         else role_hits os R)"
      by (auto simp: role_hits_def)
    show ?case using IH st by (auto simp: uh rh split: if_splits option.splits)
  qed
  then show "bit a' n \<longleftrightarrow> bit a n \<or> (\<exists>ov \<in> role_hits os R. bit (ov_Allow ov) n)"
    and "bit d' n \<longleftrightarrow> bit d n \<or> (\<exists>ov \<in> role_hits os R. bit (ov_Deny ov) n)"
    and "uo' = (case user_hit os u of None \<Rightarrow> uo | Some ov \<Rightarrow> Some ov)" by blast+
qed

lemma applyOverrides_bit:
  "bit (applyOverrides P base os R u) n \<longleftrightarrow> level_bit os R u n (bit base n)"
proof -
  obtain a d uo where l: "foldl (override_step P R u) (0, 0, None) os = (a, d, uo)"
    by (cases "foldl (override_step P R u) (0, 0, None) os") auto
  from override_loop(1,2) [OF l, of n] override_loop(3) [OF l] show ?thesis
    by (auto simp: applyOverrides_def l level_bit_def Let_def split: option.splits)
qed

lemma fold_add_bit:
  "bit (foldl (\<lambda>b e. pAdd P b (f e)) b0 es) n \<longleftrightarrow> bit b0 n \<or> (\<exists>e \<in> set es. bit (f e) n)"
  by (induction es arbitrary: b0) auto

end

lemma fold_insert_ids: "foldl (\<lambda>ids e. insert (f e) ids) I es = I \<union> f ` set es"
  by (induction es arbitrary: I) auto

lemma update_members: "(k, v) \<in> set (AList.update k' v' al) \<Longrightarrow> (k, v) = (k', v') \<or> (k, v) \<in> set al"
  by (induction al) (auto split: if_splits)

section \<open>The resolver computes the effective permissions\<close>

locale resolver = perm_bits P + perm_store S data + perm_cache C cview
  for P :: perm_lib and S :: "'s Store" and data :: "'s \<Rightarrow> perm_data"
    and C :: "'s Cache" and cview :: "'s \<Rightarrow> uuid \<Rightarrow> uuid \<Rightarrow> perm option" +
  assumes owner_frame: "IsOwner S u s = (x1, s') \<Longrightarrow> cview s' = cview s"
    and roles_frame: "RolePermissions S u s = (x2, s') \<Longrightarrow> cview s' = cview s"
    and channel_frame: "GetChannelInfo S c s = (x3, s') \<Longrightarrow> cview s' = cview s"
    and overrides_frame: "Overrides S t i s = (x4, s') \<Longrightarrow> cview s' = cview s"
    and get_frame: "cGet C u c s = (x5, s') \<Longrightarrow> data s' = data s"
    and set_frame: "cSet C u c p s = (x6, s') \<Longrightarrow> data s' = data s"
    and get_many_frame: "cGetMany C u cs s = (x7, s') \<Longrightarrow> data s' = data s"
    and set_many_frame: "cSetMany C u ps s = (x6, s') \<Longrightarrow> data s' = data s"
    and get_users_frame: "cGetManyUsers C us c s = (x7, s') \<Longrightarrow> data s' = data s"
    and set_users_frame: "cSetManyUsers C c ps s = (x6, s') \<Longrightarrow> data s' = data s"
begin

abbreviation same :: "'s \<Rightarrow> 's \<Rightarrow> bool" where
  "same s s' \<equiv> data s' = data s \<and> cview s' = cview s"

lemma store_same:
  "IsOwner S u s = (x1, s') \<Longrightarrow> same s s'"
  "RolePermissions S u s = (x2, s') \<Longrightarrow> same s s'"
  "GetChannelInfo S c s = (x3, s') \<Longrightarrow> same s s'"
  "Overrides S t i s = (x4, s') \<Longrightarrow> same s s'"
  by (blast dest: owner_reads owner_frame roles_reads roles_frame channel_reads channel_frame
      overrides_reads overrides_frame)+

lemma basePermissions_same: "basePermissions P S u s = (x, s') \<Longrightarrow> same s s'"
  by (auto simp: basePermissions_def Let_def split: prod.splits sum.splits if_splits
      dest!: store_same)

lemma basePermissions_ok:
  assumes "basePermissions P S u s = (Inr br, s')"
  shows "br_admin br \<longleftrightarrow> is_admin P (data s) u"
    and "br_admin br \<Longrightarrow> br_perm br = AllPermissions P"
    and "\<not> br_admin br \<Longrightarrow> bit (br_perm br) n \<longleftrightarrow> role_bit (data s) u n"
    and "\<not> br_admin br \<Longrightarrow> br_roleIDs br = user_roles (data s) u"
proof -
  obtain x s1 where o: "IsOwner S u s = (x, s1)" by fastforce
  with assms obtain b where x: "x = Inr b" by (cases x) (auto simp: basePermissions_def)
  note ob = owner_ok [OF o [unfolded x]] owner_reads [OF o]
  have "(br_admin br \<longleftrightarrow> is_admin P (data s) u) \<and> (br_admin br \<longrightarrow> br_perm br = AllPermissions P) \<and>
    (\<not> br_admin br \<longrightarrow> (\<forall>n. bit (br_perm br) n \<longleftrightarrow> role_bit (data s) u n) \<and> br_roleIDs br = user_roles (data s) u)"
  proof (cases b)
    case True
    with assms o x ob show ?thesis by (auto simp: basePermissions_def is_admin_def)
  next
    case False
    with assms o x obtain es s2 where r: "RolePermissions S u s1 = (Inr es, s2)"
      by (auto simp: basePermissions_def split: prod.splits sum.splits)
    have "es = pd_roles (data s) u" using roles_ok [OF r] ob by simp
    with assms o x r False ob show ?thesis
      by (auto simp: basePermissions_def Let_def is_admin_def has_iff_bits fold_add_bit role_bit_def
          fold_insert_ids user_roles_def split: if_splits)
  qed
  then show "br_admin br \<longleftrightarrow> is_admin P (data s) u" "br_admin br \<Longrightarrow> br_perm br = AllPermissions P"
    "\<not> br_admin br \<Longrightarrow> bit (br_perm br) n \<longleftrightarrow> role_bit (data s) u n"
    "\<not> br_admin br \<Longrightarrow> br_roleIDs br = user_roles (data s) u" by blast+
qed

lemma channelOverrides_same: "channelOverrides P S b R u c s = (x, s') \<Longrightarrow> same s s'"
  by (auto simp: channelOverrides_def split: prod.splits sum.splits option.splits
      dest!: store_same)

lemma channelOverrides_ok:
  assumes "channelOverrides P S b R u c s = (Inr p, s')"
  obtains ci where "pd_channel (data s) c = Some ci"
    and "\<And>n. bit p n \<longleftrightarrow> level_bit (pd_overrides (data s) TargetChannel c) R u n
           (case ci_CategoryID ci of
              None \<Rightarrow> bit b n
            | Some cat \<Rightarrow> level_bit (pd_overrides (data s) TargetCategory cat) R u n (bit b n))"
proof -
  from assms obtain ci s1 where ci: "GetChannelInfo S c s = (Inr ci, s1)"
    by (auto simp: channelOverrides_def split: prod.splits sum.splits)
  have d1: "data s1 = data s" using channel_reads [OF ci] .
  have "\<forall>n. bit p n \<longleftrightarrow> level_bit (pd_overrides (data s) TargetChannel c) R u n
           (case ci_CategoryID ci of
              None \<Rightarrow> bit b n
            | Some cat \<Rightarrow> level_bit (pd_overrides (data s) TargetCategory cat) R u n (bit b n))"
  proof (cases "ci_CategoryID ci")
    case None
    with assms ci obtain os s2 where "Overrides S TargetChannel c s1 = (Inr os, s2)"
      and "p = applyOverrides P b os R u"
      by (auto simp: channelOverrides_def split: prod.splits sum.splits)
    then show ?thesis using None d1 by (auto simp: applyOverrides_bit dest: overrides_ok)
  next
    case (Some cat)
    with assms ci obtain os1 s2 os2 s3 where o: "Overrides S TargetCategory cat s1 = (Inr os1, s2)"
      "Overrides S TargetChannel c s2 = (Inr os2, s3)"
      and "p = applyOverrides P (applyOverrides P b os1 R u) os2 R u"
      by (auto simp: channelOverrides_def split: prod.splits sum.splits)
    then show ?thesis
      using Some d1 overrides_reads [OF o(1)] overrides_ok [OF o(1)] overrides_ok [OF o(2)]
      by (simp add: applyOverrides_bit)
  qed
  then show thesis using that [of ci] channel_ok [OF ci] by blast
qed

lemma channelOverrides_effective:
  assumes "basePermissions P S u s0 = (Inr br, s1)" and "\<not> br_admin br" and "data s = data s0"
    and "channelOverrides P S (br_perm br) (br_roleIDs br) u c s = (Inr p, s')"
  shows "effective P (data s) u c p"
proof -
  note b = basePermissions_ok [OF assms(1)]
  from channelOverrides_ok [OF assms(4)] obtain ci where ci: "pd_channel (data s) c = Some ci"
    and bits: "\<And>n. bit p n \<longleftrightarrow> level_bit (pd_overrides (data s) TargetChannel c) (br_roleIDs br) u n
           (case ci_CategoryID ci of
              None \<Rightarrow> bit (br_perm br) n
            | Some cat \<Rightarrow> level_bit (pd_overrides (data s) TargetCategory cat) (br_roleIDs br) u n (bit (br_perm br) n))"
    by blast
  show ?thesis
    using ci bits b(1) b(3,4) [OF assms(2)] assms(2,3)
    by (auto simp: effective_def channel_bit_def split: option.splits)
qed

lemma compute_same: "compute P S u c s = (x, s') \<Longrightarrow> same s s'"
  by (auto simp: compute_def split: prod.splits sum.splits if_splits
      dest!: basePermissions_same channelOverrides_same)

lemma compute_ok:
  assumes "compute P S u c s = (Inr p, s')"
  shows "effective P (data s) u c p"
proof -
  from assms obtain br s1 where b: "basePermissions P S u s = (Inr br, s1)"
    by (auto simp: compute_def split: prod.splits sum.splits)
  have d: "data s1 = data s" using basePermissions_same [OF b] by simp
  show ?thesis
  proof (cases "br_admin br")
    case True
    with assms b basePermissions_ok(1,2) [OF b] show ?thesis by (simp add: compute_def effective_def)
  next
    case False
    with assms b have "channelOverrides P S (br_perm br) (br_roleIDs br) u c s1 = (Inr p, s')"
      by (simp add: compute_def)
    with channelOverrides_effective [OF b False d] d show ?thesis by simp
  qed
qed

text \<open>Caching one right value keeps the cache coherent.\<close>

lemma cSet_coherent:
  assumes "cSet C u c p s = (x, s')" and "coherent P (data s) (cview s)"
    and "if c = serverPermKey then server_effective P (data s) u p else effective P (data s) u c p"
  shows "data s' = data s" and "coherent P (data s') (cview s')"
proof -
  show d: "data s' = data s" using set_frame [OF assms(1)] .
  show "coherent P (data s') (cview s')"
    unfolding d using set_view [OF assms(1)] assms(3)
    by (intro coherentI_step [OF assms(2)]) metis
qed

lemma Resolve_correct:
  assumes "coherent P (data s) (cview s)" and "c \<noteq> serverPermKey"
    and "Resolve P S C u c s = (Inr p, s')"
  shows "effective P (data s) u c p \<and> data s' = data s \<and> coherent P (data s') (cview s')"
proof -
  obtain g s1 where g: "cGet C u c s = (g, s1)" by fastforce
  have s1: "data s1 = data s" "cview s1 = cview s" using get_frame [OF g] get_view [OF g] by auto
  show ?thesis
  proof (cases "\<exists>q. g = Inr (Some q)")
    case True
    then obtain q where q: "g = Inr (Some q)" by blast
    with assms(3) g have "p = q" "s' = s1" by (auto simp: Resolve_def)
    with get_ok [OF g [unfolded q]] coherentD(1) [OF assms(1)] assms(1,2) s1 show ?thesis by simp
  next
    case False
    with assms(3) g have "\<exists>s2. compute P S u c s1 = (Inr p, s2) \<and> s' = snd (cSet C u c p s2)"
      by (auto simp: Resolve_def split: sum.splits option.splits prod.splits)
    then obtain s2 where c: "compute P S u c s1 = (Inr p, s2)" and s': "s' = snd (cSet C u c p s2)" by blast
    obtain x where set: "cSet C u c p s2 = (x, s')" using s' by (cases "cSet C u c p s2") auto
    have e: "effective P (data s) u c p" using compute_ok [OF c] s1 by simp
    have s2: "data s2 = data s" "cview s2 = cview s" using compute_same [OF c] s1 by auto
    show ?thesis using cSet_coherent [OF set] assms(1,2) e s2 by simp
  qed
qed

lemma ResolveServer_correct:
  assumes "coherent P (data s) (cview s)" and "ResolveServer P S C u s = (Inr p, s')"
  shows "server_effective P (data s) u p \<and> data s' = data s \<and> coherent P (data s') (cview s')"
proof -
  obtain g s1 where g: "cGet C u serverPermKey s = (g, s1)" by fastforce
  have s1: "data s1 = data s" "cview s1 = cview s" using get_frame [OF g] get_view [OF g] by auto
  show ?thesis
  proof (cases "\<exists>q. g = Inr (Some q)")
    case True
    then obtain q where q: "g = Inr (Some q)" by blast
    with assms(2) g have "p = q" "s' = s1" by (auto simp: ResolveServer_def)
    with get_ok [OF g [unfolded q]] coherentD(2) [OF assms(1)] assms(1) s1 show ?thesis by simp
  next
    case False
    with assms(2) g have "\<exists>br s2. basePermissions P S u s1 = (Inr br, s2) \<and> p = br_perm br
        \<and> s' = snd (cSet C u serverPermKey (br_perm br) s2)"
      by (auto simp: ResolveServer_def split: sum.splits option.splits prod.splits)
    then obtain br s2 where c: "basePermissions P S u s1 = (Inr br, s2)" and p: "p = br_perm br"
      and s': "s' = snd (cSet C u serverPermKey p s2)" by blast
    obtain x where set: "cSet C u serverPermKey p s2 = (x, s')"
      using s' by (cases "cSet C u serverPermKey p s2") auto
    have e: "server_effective P (data s) u p"
      using basePermissions_ok [OF c] s1 p by (auto simp: server_effective_def)
    have s2: "data s2 = data s" "cview s2 = cview s" using basePermissions_same [OF c] s1 by auto
    show ?thesis using cSet_coherent [OF set] assms(1) e s2 by simp
  qed
qed

lemma filter_channels_ok:
  assumes "basePermissions P S u s0 = (Inr br, s1)" and "\<not> br_admin br" and "data s = data s0"
    and "\<And>c q. c \<in> set chs \<Longrightarrow> cached c = Some q \<Longrightarrow> effective P (data s) u c q"
    and "filter_channels P S br u cached p chs toCache s = (Inr (bs, tc), s')"
  shows "same s s' \<and> list_all2 (answers P (data s) p u) chs bs
    \<and> (\<forall>(c, q) \<in> set tc. (c, q) \<in> set toCache \<or> c \<in> set chs \<and> effective P (data s) u c q)"
  using assms(3-)
proof (induction chs arbitrary: toCache s bs)
  case (Cons c chs)
  show ?case
  proof (cases "cached c")
    case (Some q)
    with Cons.prems obtain bs' where r: "filter_channels P S br u cached p chs toCache s = (Inr (bs', tc), s')"
      and bs: "bs = pHas P q p # bs'" by (auto split: prod.splits sum.splits)
    have "effective P (data s) u c q" using Cons.prems(2) Some by simp
    with Cons.IH [OF Cons.prems(1) _ r] Cons.prems(2) bs show ?thesis
      by (auto intro: answersI)
  next
    case None
    with Cons.prems obtain q s2 bs' where o: "channelOverrides P S (br_perm br) (br_roleIDs br) u c s = (Inr q, s2)"
      and r: "filter_channels P S br u cached p chs (AList.update c q toCache) s2 = (Inr (bs', tc), s')"
      and bs: "bs = pHas P q p # bs'" by (auto split: prod.splits sum.splits)
    have e: "effective P (data s) u c q"
      using channelOverrides_effective [OF assms(1,2) Cons.prems(1) o] .
    have s2: "same s s2" using channelOverrides_same [OF o] .
    with Cons.IH [OF _ _ r] Cons.prems(1,2) have IH: "same s s'" "list_all2 (answers P (data s) p u) chs bs'"
      "\<forall>(c', q') \<in> set tc. (c', q') \<in> set (AList.update c q toCache) \<or> c' \<in> set chs \<and> effective P (data s) u c' q'"
      by auto
    then show ?thesis using e bs by (auto intro: answersI dest!: update_members)
  qed
qed simp

lemma FilterPermitted_correct:
  assumes "coherent P (data s) (cview s)" and "serverPermKey \<notin> set cs" and "pHas P (AllPermissions P) p"
    and "FilterPermitted P S C u cs p s = (Inr bs, s')"
  shows "list_all2 (answers P (data s) p u) cs bs \<and> data s' = data s \<and> coherent P (data s') (cview s')"
proof -
  from assms(4) obtain br s1 where b: "basePermissions P S u s = (Inr br, s1)"
    by (auto simp: FilterPermitted_def split: prod.splits sum.splits)
  have s1: "same s s1" using basePermissions_same [OF b] .
  show ?thesis
  proof (cases "br_admin br")
    case True
    with assms(4) b have "bs = map (\<lambda>_. True) cs" "s' = s1" by (auto simp: FilterPermitted_def)
    moreover have "answers P (data s) p u c True" for c
      using basePermissions_ok(1) [OF b] True assms(3) by (auto simp: answers_def effective_def)
    ultimately show ?thesis using s1 assms(1) by (simp add: list_all2_conv_all_nth)
  next
    case False
    obtain r s2 where g: "cGetMany C u cs s1 = (r, s2)" by fastforce
    define cached where "cached = (case r of Inl _ \<Rightarrow> Map.empty | Inr m \<Rightarrow> m)"
    from assms(4) b False g obtain tc s3 where
      f: "filter_channels P S br u cached p cs [] s2 = (Inr (bs, tc), s3)"
      and s': "s' = (if tc \<noteq> [] then snd (cSetMany C u tc s3) else s3)"
      by (auto simp: FilterPermitted_def cached_def Let_def split: prod.splits sum.splits)
    have s2: "data s2 = data s" "cview s2 = cview s"
      using get_many_frame [OF g] get_many_view [OF g] s1 by auto
    have "effective P (data s2) u c q" if "c \<in> set cs" "cached c = Some q" for c q
    proof -
      from that obtain m where m: "r = Inr m" "m c = Some q" by (auto simp: cached_def split: sum.splits)
      with get_many_ok [OF g [unfolded m(1)], of c] that s1 have "cview s u c = Some q" by simp
      with coherentD(1) [OF assms(1)] that(1) assms(2) s2 show ?thesis by force
    qed
    from filter_channels_ok [OF b False s2(1) this f] s2
    have ok: "same s s3" "list_all2 (answers P (data s) p u) cs bs"
      and tc: "\<forall>(c, q) \<in> set tc. c \<in> set cs \<and> effective P (data s) u c q" by auto
    show ?thesis
    proof (cases "tc = []")
      case True
      with ok s' assms(1) show ?thesis by simp
    next
      case False
      obtain x where set: "cSetMany C u tc s3 = (x, s')" using s' False by (cases "cSetMany C u tc s3") auto
      have "coherent P (data s) (cview s')"
        using set_many_view [OF set] tc assms(2) ok(1)
        by (intro coherentI_step [OF assms(1)]) (metis (no_types, lifting) case_prodD)
      with set_many_frame [OF set] ok show ?thesis by simp
    qed
  qed
qed

lemma filter_users_ok:
  assumes "\<And>u q. u \<in> set us \<Longrightarrow> cached u = Some q \<Longrightarrow> effective P (data s) u c q"
    and "filter_users P S c cached p us toCache s = (Inr (bs, tc), s')"
  shows "same s s' \<and> list_all2 (\<lambda>u. answers P (data s) p u c) us bs
    \<and> (\<forall>(u, q) \<in> set tc. (u, q) \<in> set toCache \<or> u \<in> set us \<and> effective P (data s) u c q)"
  using assms
proof (induction us arbitrary: toCache s bs)
  case (Cons u us)
  show ?case
  proof (cases "cached u")
    case (Some q)
    with Cons.prems obtain bs' where r: "filter_users P S c cached p us toCache s = (Inr (bs', tc), s')"
      and bs: "bs = pHas P q p # bs'" by (auto split: prod.splits sum.splits)
    have "effective P (data s) u c q" using Cons.prems(1) Some by simp
    with Cons.IH [OF _ r] Cons.prems(1) bs show ?thesis by (auto intro: answersI)
  next
    case None
    with Cons.prems obtain q s2 bs' where o: "compute P S u c s = (Inr q, s2)"
      and r: "filter_users P S c cached p us (AList.update u q toCache) s2 = (Inr (bs', tc), s')"
      and bs: "bs = pHas P q p # bs'" by (auto split: prod.splits sum.splits)
    have e: "effective P (data s) u c q" using compute_ok [OF o] .
    have s2: "same s s2" using compute_same [OF o] .
    with Cons.IH [OF _ r] Cons.prems(1) have IH: "same s s'" "list_all2 (\<lambda>u. answers P (data s) p u c) us bs'"
      "\<forall>(u', q') \<in> set tc. (u', q') \<in> set (AList.update u q toCache) \<or> u' \<in> set us \<and> effective P (data s) u' c q'"
      by auto
    then show ?thesis using e bs by (auto intro: answersI dest!: update_members)
  qed
qed simp

lemma FilterUsersPermitted_correct:
  assumes "coherent P (data s) (cview s)" and "c \<noteq> serverPermKey"
    and "FilterUsersPermitted P S C us c p s = (Inr bs, s')"
  shows "list_all2 (\<lambda>u. answers P (data s) p u c) us bs \<and> data s' = data s \<and> coherent P (data s') (cview s')"
proof -
  obtain r s2 where g: "cGetManyUsers C us c s = (r, s2)" by fastforce
  define cached where "cached = (case r of Inl _ \<Rightarrow> Map.empty | Inr m \<Rightarrow> m)"
  from assms(3) g obtain tc s3 where
    f: "filter_users P S c cached p us [] s2 = (Inr (bs, tc), s3)"
    and s': "s' = (if tc \<noteq> [] then snd (cSetManyUsers C c tc s3) else s3)"
    by (auto simp: FilterUsersPermitted_def cached_def Let_def split: prod.splits sum.splits)
  have s2: "data s2 = data s" "cview s2 = cview s"
    using get_users_frame [OF g] get_users_view [OF g] by auto
  have "effective P (data s2) u c q" if "u \<in> set us" "cached u = Some q" for u q
  proof -
    from that obtain m where m: "r = Inr m" "m u = Some q" by (auto simp: cached_def split: sum.splits)
    with get_users_ok [OF g [unfolded m(1)], of u] that have "cview s u c = Some q" by simp
    with coherentD(1) [OF assms(1)] assms(2) s2 show ?thesis by simp
  qed
  from filter_users_ok [OF this f] s2
  have ok: "same s s3" "list_all2 (\<lambda>u. answers P (data s) p u c) us bs"
    and tc: "\<forall>(u, q) \<in> set tc. u \<in> set us \<and> effective P (data s) u c q" by auto
  show ?thesis
  proof (cases "tc = []")
    case True
    with ok s' assms(1) show ?thesis by simp
  next
    case False
    obtain x where set: "cSetManyUsers C c tc s3 = (x, s')" using s' False by (cases "cSetManyUsers C c tc s3") auto
    have "coherent P (data s) (cview s')"
      using set_users_view [OF set] tc assms(2) ok(1)
      by (intro coherentI_step [OF assms(1)]) (metis (no_types, lifting) case_prodD)
    with set_users_frame [OF set] ok show ?thesis by simp
  qed
qed

end

section \<open>The server's resolver\<close>

text \<open>\<open>cmd/uncord/main.go\<close> builds the resolver from the PostgreSQL store and the Valkey cache.\<close>

locale world_resolver = perm_bits P + valkey_cache U V
  for P :: perm_lib and U :: uuid_lib and V :: "'r valkey"

sublocale world_resolver \<subseteq> res: resolver P PGStore "\<lambda>w. db_perm_data (w_db w)"
    "ValkeyCache U V" "\<lambda>w. cache_view U V (w_vk w)"
  by unfold_locales (auto simp: PGStore_def ValkeyCache_def dest!: on_dbD on_vkD)

context world_resolver
begin

lemmas world_Resolve = res.Resolve_correct
lemmas world_ResolveServer = res.ResolveServer_correct
lemmas world_FilterPermitted = res.FilterPermitted_correct
lemmas world_FilterUsersPermitted = res.FilterUsersPermitted_correct

end

interpretation mem_resolver: world_resolver ref_perm ref_uuid mem_valkey
  by unfold_locales

definition world_coherent :: "perm_lib \<Rightarrow> uuid_lib \<Rightarrow> 'r valkey \<Rightarrow> 'r world \<Rightarrow> bool" where
  "world_coherent P U V w \<longleftrightarrow> coherent P (db_perm_data (w_db w)) (cache_view U V (w_vk w))"


text \<open>The algorithm only reads the tables.\<close>

lemma PGStore_tables:
  "IsOwner PGStore u w = (x1, w') \<Longrightarrow> tables (w_db w') = tables (w_db w)"
  "RolePermissions PGStore u w = (x2, w') \<Longrightarrow> tables (w_db w') = tables (w_db w)"
  "GetChannelInfo PGStore c w = (x3, w') \<Longrightarrow> tables (w_db w') = tables (w_db w)"
  "Overrides PGStore t i w = (x4, w') \<Longrightarrow> tables (w_db w') = tables (w_db w)"
  by (auto simp: PGStore_def pg_IsOwner_def pg_RolePermissions_def pg_ChannelInfo_def pg_Overrides_def
      split: prod.splits sum.splits option.splits dest!: on_dbD pg_query_tables)

lemma compute_tables: "compute P PGStore u c w = (x, w') \<Longrightarrow> tables (w_db w') = tables (w_db w)"
  by (auto simp: compute_def basePermissions_def channelOverrides_def Let_def
      split: prod.splits sum.splits option.splits if_splits dest!: PGStore_tables)

text \<open>With a database that answers, the algorithm returns, whatever the cache does.\<close>

lemma PGStore_answers:
  assumes "pg_outcomes (w_db w) = []"
  shows "IsOwner PGStore u w = (Inr (pd_owner (db_perm_data (w_db w)) u), w)"
    and "RolePermissions PGStore u w = (Inr (pd_roles (db_perm_data (w_db w)) u), w)"
    and "GetChannelInfo PGStore c w =
      (case pd_channel (db_perm_data (w_db w)) c of None \<Rightarrow> Inl ErrChannelNotFound | Some ci \<Rightarrow> Inr ci, w)"
    and "Overrides PGStore t i w = (Inr (pd_overrides (db_perm_data (w_db w)) t i), w)"
  using assms
  by (simp_all add: PGStore_def on_db_def pg_IsOwner_def pg_RolePermissions_def pg_ChannelInfo_def
      pg_Overrides_def db_perm_data_def split: option.splits)

lemma basePermissions_returns:
  "pg_outcomes (w_db w) = [] \<Longrightarrow> \<exists>br. basePermissions P PGStore u w = (Inr br, w)"
  by (simp add: basePermissions_def PGStore_answers Let_def)

lemma compute_returns:
  assumes "pg_outcomes (w_db w) = []" and "pd_channel (db_perm_data (w_db w)) c \<noteq> None"
  shows "\<exists>p. compute P PGStore u c w = (Inr p, w)"
proof -
  obtain br where "basePermissions P PGStore u w = (Inr br, w)"
    using basePermissions_returns [OF assms(1)] by blast
  with assms show ?thesis
    by (auto simp: compute_def channelOverrides_def PGStore_answers split: option.splits)
qed

lemma cGet_db: "w_db (snd (cGet (ValkeyCache U V) u c w)) = w_db w"
  by (auto simp: ValkeyCache_def on_vk_def split: prod.splits)

lemma sample_coherent: "world_coherent P U mem_valkey sample_world"
  by (simp add: world_coherent_def coherent_def cache_view_def sample_world_def mem_valkey_def)

lemma mem_Get_vempty [simp]: "cache_Get U mem_valkey u c vempty = (Inr None, vempty)"
  by (simp add: cache_Get_def redis_Get_def mem_valkey_def redis_Nil_def)

section \<open>Properties\<close>

text \<open>
  C1. A permission set that \<open>Resolve\<close> returns for a user in a channel is the one the roles and
  overrides in the database give, bit by bit, whether it came from the cache or was
  computed; the call changes no table and leaves the cache holding only right values.
\<close>

theorem Resolve_effective:
  assumes "world_resolver P U V" and "world_coherent P U V w" and "c \<noteq> serverPermKey"
    and "Resolve P PGStore (ValkeyCache U V) u c w = (Inr p, w')"
  shows "effective P (db_perm_data (w_db w)) u c p \<and> db_perm_data (w_db w') = db_perm_data (w_db w)
    \<and> world_coherent P U V w'"
  using world_resolver.world_Resolve [OF assms(1) _ assms(3,4)] assms(2)
  by (auto simp: world_coherent_def)

lemma sample_Resolve:
  "fst (Resolve ref_perm PGStore (ValkeyCache ref_uuid mem_valkey) 2 10 sample_world) = Inr 25"
  by (simp add: Resolve_def sample_world_def ValkeyCache_def compute_def basePermissions_def PGStore_answers
      db_perm_data_def sample_defs role_permission_rows_def channelOverrides_def channel_info_row_def
      override_rows_def applyOverrides_def ref_perm_def Let_def)

theorem Resolve_effective_witness:
  "effective ref_perm (db_perm_data sample_db) 2 10 25"
  using Resolve_effective [OF mem_resolver.world_resolver_axioms sample_coherent, of 10 2 25
      "snd (Resolve ref_perm PGStore (ValkeyCache ref_uuid mem_valkey) 2 10 sample_world)"] sample_Resolve
  by (simp add: prod_eq_iff serverPermKey_def uuid_Nil_def sample_world_def)

text \<open>
  An outage of the cache is not an outage of the resolver: while the database answers and
  the channel exists, \<open>Resolve\<close> returns a permission set whatever the Valkey server replies.
\<close>

theorem Resolve_available:
  assumes "pg_outcomes (w_db w) = []" and "pd_channel (db_perm_data (w_db w)) c \<noteq> None"
  shows "\<exists>p w'. Resolve P PGStore (ValkeyCache U V) u c w = (Inr p, w')"
proof -
  obtain g w1 where g: "cGet (ValkeyCache U V) u c w = (g, w1)" by fastforce
  then have w1: "w_db w1 = w_db w" using cGet_db [of U V u c w] by simp
  obtain p where "compute P PGStore u c w1 = (Inr p, w1)"
    using compute_returns [of w1 c P u] assms w1 by auto
  then show ?thesis by (auto simp: Resolve_def g split: sum.splits option.splits)
qed

definition dead_valkey :: "unit valkey" where
  "dead_valkey = \<lparr>vk_exec = (\<lambda>_ r. (Inl (Ext ''connection refused''), r)), vk_store = (\<lambda>_. vempty)\<rparr>"

theorem Resolve_available_witness:
  "\<exists>p w'. Resolve ref_perm PGStore (ValkeyCache ref_uuid dead_valkey) 2 10
     \<lparr>w_db = sample_db, w_vk = (), w_pub = NewPublisher 4 1024, w_audit = []\<rparr> = (Inr p, w')"
  by (rule Resolve_available)
    (simp_all add: db_perm_data_def sample_defs channel_info_row_def)

text \<open>
  The permission set returned for the server as a whole is that of the user's roles, or
  all permissions for an owner or a holder of \<open>ManageServer\<close>.
\<close>

theorem ResolveServer_effective:
  assumes "world_resolver P U V" and "world_coherent P U V w"
    and "ResolveServer P PGStore (ValkeyCache U V) u w = (Inr p, w')"
  shows "server_effective P (db_perm_data (w_db w)) u p \<and> world_coherent P U V w'"
  using world_resolver.world_ResolveServer [OF assms(1) _ assms(3)] assms(2)
  by (auto simp: world_coherent_def)

lemma sample_ResolveServer:
  "fst (ResolveServer ref_perm PGStore (ValkeyCache ref_uuid mem_valkey) 2 sample_world) = Inr 5"
  by (simp add: ResolveServer_def sample_world_def ValkeyCache_def basePermissions_def PGStore_answers
      db_perm_data_def sample_defs role_permission_rows_def ref_perm_def Let_def)

theorem ResolveServer_effective_witness:
  "server_effective ref_perm (db_perm_data sample_db) 2 5"
  using ResolveServer_effective [OF mem_resolver.world_resolver_axioms sample_coherent, of 2 5
      "snd (ResolveServer ref_perm PGStore (ValkeyCache ref_uuid mem_valkey) 2 sample_world)"]
    sample_ResolveServer
  by (simp add: prod_eq_iff sample_world_def)

text \<open>
  \<open>FilterPermitted\<close> answers for each channel, in order, what the permissions of the user in
  that channel say, and leaves the cache holding only right values.
\<close>

theorem FilterPermitted_answers:
  assumes "world_resolver P U V" and "world_coherent P U V w" and "serverPermKey \<notin> set cs"
    and "pHas P (AllPermissions P) p"
    and "FilterPermitted P PGStore (ValkeyCache U V) u cs p w = (Inr bs, w')"
  shows "list_all2 (answers P (db_perm_data (w_db w)) p u) cs bs \<and> world_coherent P U V w'"
  using world_resolver.world_FilterPermitted [OF assms(1) _ assms(3-5)] assms(2)
  by (auto simp: world_coherent_def)

lemma mem_MGet_vempty: "redis_MGet mem_valkey ks vempty = (Inr (map (\<lambda>_. None) ks), vempty)"
  by (simp add: redis_MGet_def mem_valkey_def)

lemma mem_GetMany_vempty [simp]:
  "cache_GetMany U mem_valkey u cs vempty = (Inr Map.empty, vempty)"
  "cache_GetManyUsers U mem_valkey us c vempty = (Inr Map.empty, vempty)"
  using collect_cached_zip [of _ "\<lambda>_. None"]
  by (auto simp: cache_GetMany_def cache_GetManyUsers_def mem_MGet_vempty comp_def fun_eq_iff)

lemma sample_FilterPermitted:
  "fst (FilterPermitted ref_perm PGStore (ValkeyCache ref_uuid mem_valkey) 3 [10, 11] 8 sample_world)
     = Inr [True, False]"
  by (simp add: FilterPermitted_def sample_world_def ValkeyCache_def basePermissions_def PGStore_answers
      db_perm_data_def sample_defs role_permission_rows_def channelOverrides_def channel_info_row_def
      override_rows_def applyOverrides_def ref_perm_def Let_def)

theorem FilterPermitted_answers_witness:
  "list_all2 (answers ref_perm (db_perm_data sample_db) 8 3) [10, 11] [True, False]"
  using FilterPermitted_answers [OF mem_resolver.world_resolver_axioms sample_coherent, of "[10, 11]" 8 3
      "[True, False]"
      "snd (FilterPermitted ref_perm PGStore (ValkeyCache ref_uuid mem_valkey) 3 [10, 11] 8 sample_world)"]
    sample_FilterPermitted
  by (simp add: prod_eq_iff serverPermKey_def uuid_Nil_def sample_world_def ref_perm_def)

text \<open>
  \<open>FilterUsersPermitted\<close>, which decides who receives a channel's events, answers for each
  user, in order, what the permissions of that user in the channel say.
\<close>

theorem FilterUsersPermitted_answers:
  assumes "world_resolver P U V" and "world_coherent P U V w" and "c \<noteq> serverPermKey"
    and "FilterUsersPermitted P PGStore (ValkeyCache U V) us c p w = (Inr bs, w')"
  shows "list_all2 (\<lambda>u. answers P (db_perm_data (w_db w)) p u c) us bs \<and> world_coherent P U V w'"
  using world_resolver.world_FilterUsersPermitted [OF assms(1) _ assms(3,4)] assms(2)
  by (auto simp: world_coherent_def)

lemma sample_FilterUsersPermitted:
  "fst (FilterUsersPermitted ref_perm PGStore (ValkeyCache ref_uuid mem_valkey) [1, 2, 3] 10 16 sample_world)
     = Inr [True, True, False]"
  by (simp add: FilterUsersPermitted_def compute_def sample_world_def ValkeyCache_def basePermissions_def
      PGStore_answers db_perm_data_def sample_defs role_permission_rows_def channelOverrides_def
      channel_info_row_def override_rows_def applyOverrides_def ref_perm_def Let_def)

theorem FilterUsersPermitted_answers_witness:
  "list_all2 (\<lambda>u. answers ref_perm (db_perm_data sample_db) 16 u 10) [1, 2, 3] [True, True, False]"
  using FilterUsersPermitted_answers [OF mem_resolver.world_resolver_axioms sample_coherent, of 10 "[1, 2, 3]" 16
      "[True, True, False]"
      "snd (FilterUsersPermitted ref_perm PGStore (ValkeyCache ref_uuid mem_valkey) [1, 2, 3] 10 16 sample_world)"]
    sample_FilterUsersPermitted
  by (simp add: prod_eq_iff serverPermKey_def uuid_Nil_def sample_world_def)

text \<open>
  The order in which the database returns the overrides of a target does not matter: the
  unique index admits one override for a principal, and then any permutation of the rows
  gives the same permissions.
\<close>

theorem applyOverrides_order:
  assumes "perm_bits P" and "mset os = mset os'"
    and "distinct (map (\<lambda>ov. (ov_PrincipalType ov, ov_PrincipalID ov)) os)"
  shows "applyOverrides P base os R u = applyOverrides P base os' R u"
  by (rule bit_eqI)
    (simp add: perm_bits.applyOverrides_bit [OF assms(1)] level_bit_order [OF assms(2,3)])

theorem applyOverrides_order_witness:
  "applyOverrides ref_perm 1
     [\<lparr>ov_PrincipalType = PrincipalUser, ov_PrincipalID = 2, ov_Allow = 1, ov_Deny = 4\<rparr>,
      \<lparr>ov_PrincipalType = PrincipalRole, ov_PrincipalID = 31, ov_Allow = 16, ov_Deny = 1\<rparr>] {31} 2
   = applyOverrides ref_perm 1
     [\<lparr>ov_PrincipalType = PrincipalRole, ov_PrincipalID = 31, ov_Allow = 16, ov_Deny = 1\<rparr>,
      \<lparr>ov_PrincipalType = PrincipalUser, ov_PrincipalID = 2, ov_Allow = 1, ov_Deny = 4\<rparr>] {31} 2"
  by (rule applyOverrides_order [OF ref_bits.perm_bits_axioms]) simp_all

end
