(* ===== verification/Gateway_Hub.thy ===== *)
theory Gateway_Hub
  imports Gateway_Client Gateway_Session Presence Auth_Tokens Auth_Jwt Permission_Resolver
begin

text \<open>
  \<open>internal/gateway/hub.go\<close> and the frame handlers of \<open>client.go\<close>: the registry of connections,
  authentication, Identify and Resume, presence, the distribution of events and shutdown.
  Connections are numbered; the registry maps a user to the connections of that user. Go
  iterates over the map in an unspecified order: the association list may be in any order,
  and the theorems hold for all of them. Repositories are the functions of \<open>HubDeps\<close>, as in
  the source.
\<close>

section \<open>State\<close>

record gw_config =
  cfg_GatewayMaxConnections :: nat
  cfg_GatewayReadyMemberLimit :: int
  cfg_RateLimitWSCount :: int
  cfg_RateLimitWSWindowSeconds :: int
  cfg_JWTSecret :: string
  cfg_ServerURL :: string

text \<open>
  The repository methods \<open>assembleReady\<close> calls, with their results in model form; an optional
  dependency that is nil is \<open>None\<close>.
\<close>

record 'r HubDeps =
  hd_Users_GetByID :: "uuid \<Rightarrow> (json, 'r world) call"
  hd_Server_Get :: "(json, 'r world) call"
  hd_Channels_List :: "(json list, 'r world) call"
  hd_Roles_List :: "(json list, 'r world) call"
  hd_Members_List :: "int \<Rightarrow> ((uuid \<times> json) list, 'r world) call"
  hd_ReadStates_ListByUser :: "(uuid \<Rightarrow> (json list, 'r world) call) option"
  hd_Onboarding_Get :: "((json, 'r world) call) option"
  hd_Sessions :: SessionStore
  hd_Presence :: bool
  hd_Publisher :: bool
  hd_Resolver :: bool
  hd_Cfg :: gw_config

text \<open>The packages the hub calls, and the clock readings and fresh identifier of one call.\<close>

record 'r libs =
  l_P :: perm_lib
  l_U :: uuid_lib
  l_V :: "'r valkey"
  l_M :: proto
  l_J :: jwt_lib

record moment =
  mo_now :: time
  mo_unix :: int64
  mo_nano :: nat
  mo_new :: uuid

record 'r hub =
  hb_clients :: "(uuid \<times> nat list) list"
  hb_conn :: "nat \<Rightarrow> client"
  hb_next :: nat
  hb_offline :: "uuid list"
  hb_world :: "'r world"

definition upd :: "nat \<Rightarrow> (client \<Rightarrow> client) \<Rightarrow> 'r hub \<Rightarrow> 'r hub" where
  "upd i f h = h\<lparr>hb_conn := (hb_conn h)(i := f (hb_conn h i))\<rparr>"

definition clients_of :: "'r hub \<Rightarrow> uuid \<Rightarrow> nat list" where
  "clients_of h u = (case map_of (hb_clients h) u of None \<Rightarrow> [] | Some cs \<Rightarrow> cs)"

text \<open>Running a call on the world inside the hub.\<close>

definition on_world :: "('a, 'r world) call \<Rightarrow> 'r hub \<Rightarrow> 'a result \<times> 'r hub" where
  "on_world f h = (case f (hb_world h) of (x, w) \<Rightarrow> (x, h\<lparr>hb_world := w\<rparr>))"

section \<open>Registry\<close>

definition totalClientsLocked :: "'r hub \<Rightarrow> nat" where
  "totalClientsLocked h = foldl (\<lambda>n (u, cs). n + length cs) 0 (hb_clients h)"

definition register :: "gw_config \<Rightarrow> nat \<Rightarrow> 'r hub \<Rightarrow> unit result \<times> 'r hub" where
  "register cfg i h =
     (if totalClientsLocked h \<ge> cfg_GatewayMaxConnections cfg then (Inl ErrMaxConnections, h)
      else let userID = cl_userID (hb_conn h i)
           in (Inr (), h\<lparr>hb_clients := AList.update userID (clients_of h userID @ [i]) (hb_clients h)\<rparr>))"

fun index_of :: "'a \<Rightarrow> 'a list \<Rightarrow> nat option" where
  "index_of x [] = None"
| "index_of x (y # ys) = (if y = x then Some 0 else map_option Suc (index_of x ys))"

text \<open>\<open>cs[idx] = cs[last]; cs = cs[:last]\<close>\<close>

definition swap_remove :: "nat \<Rightarrow> 'a list \<Rightarrow> 'a list" where
  "swap_remove idx cs = butlast (cs[idx := last cs])"

definition publishPresence :: "'r libs \<Rightarrow> 'r HubDeps \<Rightarrow> uuid \<Rightarrow> string \<Rightarrow> 'r hub \<Rightarrow> 'r hub" where
  "publishPresence L d userID status h =
     (if \<not> hd_Publisher d then h
      else snd (on_world (on_vk (Publish (l_U L) (l_V L) (ev (l_M L) EvPresenceUpdate)
             (js_PresenceUpdate (l_M L) \<lparr>ps_UserID = uuid_String (l_U L) userID, ps_Status = status\<rparr>))) h))"

definition unregister :: "'r libs \<Rightarrow> 'r HubDeps \<Rightarrow> moment \<Rightarrow> nat \<Rightarrow> 'r hub \<Rightarrow> 'r hub" where
  "unregister L d mo i h =
     (let userID = cl_userID (hb_conn h i);
          cs = clients_of h userID
      in case index_of i cs of
           None \<Rightarrow> h
         | Some idx \<Rightarrow>
             (let cs' = swap_remove idx cs;
                  h1 = h\<lparr>hb_clients := (if cs' = [] then AList.delete userID (hb_clients h)
                                        else AList.update userID cs' (hb_clients h))\<rparr>;
                  identified = cl_identified (hb_conn h i);
                  h2 = upd i closeSend h1
              in if identified
                 then let h3 = snd (on_world (on_vk (session_Save (l_U L) (l_V L) (hd_Sessions d) (mo_unix mo)
                                 (cl_sessionID (hb_conn h i)) userID (cl_seq (hb_conn h i)))) h2)
                      in if hd_Presence d \<and> cs' = [] then h3\<lparr>hb_offline := hb_offline h3 @ [userID]\<rparr> else h3
                 else h2))"

text \<open>What a \<open>delayedOffline\<close> goroutine does after its delay.\<close>

definition delayedOffline :: "'r libs \<Rightarrow> 'r HubDeps \<Rightarrow> uuid \<Rightarrow> 'r hub \<Rightarrow> 'r hub" where
  "delayedOffline L d userID h =
     (if clients_of h userID \<noteq> [] then h
      else publishPresence L d userID StatusOffline
             (snd (on_world (on_vk (presence_Delete (l_U L) (l_V L) userID)) h)))"

section \<open>Identify and Resume\<close>

definition authenticateToken :: "'r libs \<Rightarrow> gw_config \<Rightarrow> time \<Rightarrow> string \<Rightarrow> (uuid, 'r) call" where
  "authenticateToken L cfg now token r =
     (case ConsumeGatewayTicket (l_U L) (l_V L) token r of
        (Inr userID, r1) \<Rightarrow> (Inr userID, r1)
      | (Inl _, r1) \<Rightarrow>
          (case ValidateAccessToken (l_J L) now token (cfg_JWTSecret cfg) (cfg_ServerURL cfg) of
             Inl e \<Rightarrow> (Inl e, r1)
           | Inr claims \<Rightarrow>
               (case uuid_Parse (l_U L) (ac_Subject claims) of
                  None \<Rightarrow> (Inl (Ext ''uuid''), r1)
                | Some userID \<Rightarrow> (Inr userID, r1))))"

text \<open>
  The queries of \<open>assembleReady\<close> run concurrently and only read, so their order does not matter;
  any error is the error of the whole.
\<close>

definition assembleReady :: "'r libs \<Rightarrow> 'r HubDeps \<Rightarrow> uuid \<Rightarrow> (ReadyData, 'r world) call" where
  "assembleReady L d userID w0 =
     (case hd_Users_GetByID d userID w0 of
        (Inl e, w1) \<Rightarrow> (Inl (Wrap ''get user'' e), w1) | (Inr u, w1) \<Rightarrow>
     (case hd_Server_Get d w1 of
        (Inl e, w2) \<Rightarrow> (Inl (Wrap ''get server config'' e), w2) | (Inr srv, w2) \<Rightarrow>
     (case hd_Channels_List d w2 of
        (Inl e, w3) \<Rightarrow> (Inl (Wrap ''list channels'' e), w3) | (Inr chs, w3) \<Rightarrow>
     (case hd_Roles_List d w3 of
        (Inl e, w4) \<Rightarrow> (Inl (Wrap ''list roles'' e), w4) | (Inr rs, w4) \<Rightarrow>
     (case hd_Members_List d (cfg_GatewayReadyMemberLimit (hd_Cfg d)) w4 of
        (Inl e, w5) \<Rightarrow> (Inl (Wrap ''list members'' e), w5) | (Inr ms, w5) \<Rightarrow>
     (case (case hd_ReadStates_ListByUser d of None \<Rightarrow> (Inr [], w5) | Some f \<Rightarrow> f userID w5) of
        (Inl e, w6) \<Rightarrow> (Inl (Wrap ''list read states'' e), w6) | (Inr states, w6) \<Rightarrow>
     (case (if hd_Presence d then on_vk (presence_GetMany (l_U L) (l_V L) (map fst ms)) w6 else (Inr [], w6)) of
        (Inl e, w7) \<Rightarrow> (Inl (Wrap ''get presences'' e), w7) | (Inr presences, w7) \<Rightarrow>
     (case (case hd_Onboarding_Get d of None \<Rightarrow> (Inr None, w7)
            | Some f \<Rightarrow> (case f w7 of (Inl _, w8) \<Rightarrow> (Inr None, w8) | (Inr cfg, w8) \<Rightarrow> (Inr (Some cfg), w8))) of
        (Inl e, w8) \<Rightarrow> (Inl e, w8) | (Inr onboarding, w8) \<Rightarrow>
          (Inr \<lparr>rd_User = u, rd_Server = srv, rd_Channels = chs, rd_Roles = rs, rd_Members = map snd ms,
                rd_Presences = presences, rd_ReadStates = states, rd_Onboarding = onboarding,
                rd_SessionID = []\<rparr>, w8)))))))))"

definition set_session :: "uuid \<Rightarrow> string \<Rightarrow> client \<Rightarrow> client" where
  "set_session userID sessionID c =
     c\<lparr>cl_userID := userID, cl_sessionID := sessionID, cl_identified := True\<rparr>"

text \<open>A dispatch frame with the client's next sequence number, sent to that client.\<close>

definition send_next :: "proto \<Rightarrow> string \<Rightarrow> json \<Rightarrow> nat \<Rightarrow> 'r hub \<Rightarrow> 'r hub" where
  "send_next M eventType data i h =
     (case nextSeq (hb_conn h i) of
        (seq, c) \<Rightarrow> upd i (\<lambda>_. client_enqueue (Json (NewDispatchFrame M seq eventType data)) c) h)"

definition hub_handleIdentify :: "'r libs \<Rightarrow> 'r HubDeps \<Rightarrow> moment \<Rightarrow> nat \<Rightarrow> string \<Rightarrow> 'r hub \<Rightarrow> 'r hub" where
  "hub_handleIdentify L d mo i token h =
     (case on_world (on_vk (authenticateToken L (hd_Cfg d) (mo_now mo) token)) h of
        (Inl _, h1) \<Rightarrow> upd i (closeWithCode CloseAuthFailed ''invalid token'') h1
      | (Inr userID, h1) \<Rightarrow>
          (let h2 = (if hd_Presence d
                     then snd (on_world (on_vk (presence_Set (l_U L) (l_V L) userID StatusOnline)) h1) else h1)
           in case on_world (assembleReady L d userID) h2 of
                (Inl _, h3) \<Rightarrow> upd i (closeWithCode CloseUnknownError ''internal error'') h3
              | (Inr readyData, h3) \<Rightarrow>
                  (let sessionID = NewSessionID (l_U L) (mo_nano mo) (mo_new mo);
                       h4 = upd i (set_session userID sessionID) h3
                   in case register (hd_Cfg d) i h4 of
                        (Inl _, h5) \<Rightarrow> upd i (closeWithCode CloseUnknownError ''registration failed'') h5
                      | (Inr _, h5) \<Rightarrow>
                          (let h6 = send_next (l_M L) (ev (l_M L) EvReady)
                                      (js_Ready (l_M L) (readyData\<lparr>rd_SessionID := sessionID\<rparr>)) i h5
                           in if hd_Presence d then publishPresence L d userID StatusOnline h6 else h6))))"

definition invalid_session :: "proto \<Rightarrow> nat \<Rightarrow> 'r hub \<Rightarrow> 'r hub" where
  "invalid_session M i h = upd i (client_enqueue (Json (NewInvalidSessionFrame M False))) h"

definition resume_presence :: "'r libs \<Rightarrow> 'r HubDeps \<Rightarrow> uuid \<Rightarrow> 'r hub \<Rightarrow> 'r hub" where
  "resume_presence L d userID h =
     (if \<not> hd_Presence d then h
      else case on_world (on_vk (presence_Get (l_U L) (l_V L) userID)) h of
             (g, h1) \<Rightarrow>
               (if g = Inr StatusOffline
                then case on_world (on_vk (presence_Set (l_U L) (l_V L) userID StatusOnline)) h1 of
                       (Inl _, h2) \<Rightarrow> h2
                     | (Inr _, h2) \<Rightarrow> publishPresence L d userID StatusOnline h2
                else snd (on_world (on_vk (presence_Refresh (l_U L) (l_V L) userID)) h1)))"

definition hub_handleResume :: "'r libs \<Rightarrow> 'r HubDeps \<Rightarrow> moment \<Rightarrow> nat \<Rightarrow> ResumeData \<Rightarrow> 'r hub \<Rightarrow> 'r hub" where
  "hub_handleResume L d mo i data h =
     (case on_world (on_vk (authenticateToken L (hd_Cfg d) (mo_now mo) (rs_Token data))) h of
        (Inl _, h1) \<Rightarrow> upd i (closeWithCode CloseAuthFailed ''invalid token'') h1
      | (Inr tokenUserID, h1) \<Rightarrow>
          (case on_world (on_vk (session_Load (l_U L) (l_V L) (rs_SessionID data))) h1 of
             (Inl _, h2) \<Rightarrow> invalid_session (l_M L) i h2
           | (Inr session, h2) \<Rightarrow>
               (if ls_UserID session \<noteq> tokenUserID then invalid_session (l_M L) i h2
                else if sint (rs_Seq data) > sint (ls_LastSeq session) then invalid_session (l_M L) i h2
                else case on_world (on_vk (Replay (l_V L) (rs_SessionID data) (rs_Seq data))) h2 of
                  (Inl _, h3) \<Rightarrow> invalid_session (l_M L) i h3
                | (Inr missed, h3) \<Rightarrow>
                    (let h4 = upd i (\<lambda>c. (set_session tokenUserID (rs_SessionID data) c)
                                         \<lparr>cl_seq := ls_LastSeq session\<rparr>) h3
                     in case register (hd_Cfg d) i h4 of
                          (Inl _, h5) \<Rightarrow> upd i (closeWithCode CloseUnknownError ''registration failed'') h5
                        | (Inr _, h5) \<Rightarrow>
                            (let h6 = snd (on_world (on_vk (session_Delete (l_V L) (rs_SessionID data))) h5);
                                 h7 = upd i (\<lambda>c. foldl (\<lambda>c p. client_enqueue p c) c missed) h6;
                                 h8 = send_next (l_M L) (ev (l_M L) EvResumed) (JObj []) i h7
                             in resume_presence L d tokenUserID h8)))))"

definition hub_handlePresenceUpdate :: "'r libs \<Rightarrow> 'r HubDeps \<Rightarrow> nat \<Rightarrow> string \<Rightarrow> 'r hub \<Rightarrow> 'r hub" where
  "hub_handlePresenceUpdate L d i status h =
     (if \<not> hd_Presence d then h
      else let userID = cl_userID (hb_conn h i)
           in case on_world (on_vk (presence_Set (l_U L) (l_V L) userID status)) h of
                (Inl _, h1) \<Rightarrow> h1
              | (Inr _, h1) \<Rightarrow>
                  publishPresence L d userID (if status = StatusInvisible then StatusOffline else status) h1)"

definition refreshPresence :: "'r libs \<Rightarrow> 'r HubDeps \<Rightarrow> uuid \<Rightarrow> 'r hub \<Rightarrow> 'r hub" where
  "refreshPresence L d userID h =
     (if \<not> hd_Presence d then h else snd (on_world (on_vk (presence_Refresh (l_U L) (l_V L) userID)) h))"

section \<open>Frames from a client\<close>

definition ServeWebSocket :: "proto \<Rightarrow> int \<Rightarrow> 'r hub \<Rightarrow> 'r hub" where
  "ServeWebSocket M heartbeatIntervalMS h =
     h\<lparr>hb_conn := (hb_conn h)(hb_next h :=
          conn_write (Message (Json (NewHelloFrame M heartbeatIntervalMS))) newClient),
       hb_next := Suc (hb_next h)\<rparr>"

definition handleHeartbeat :: "'r libs \<Rightarrow> 'r HubDeps \<Rightarrow> nat \<Rightarrow> 'r hub \<Rightarrow> 'r hub" where
  "handleHeartbeat L d i h =
     (let h1 = upd i (client_enqueue (Json (NewHeartbeatACKFrame (l_M L)))) h
      in if cl_identified (hb_conn h1 i) then refreshPresence L d (cl_userID (hb_conn h1 i)) h1 else h1)"

definition handleIdentify :: "'r libs \<Rightarrow> 'r HubDeps \<Rightarrow> moment \<Rightarrow> nat \<Rightarrow> json option \<Rightarrow> 'r hub \<Rightarrow> 'r hub" where
  "handleIdentify L d mo i data h =
     (if cl_identified (hb_conn h i) then upd i (closeWithCode CloseAlreadyAuthenticated ''already identified'') h
      else case un_Identify (l_M L) data of
             None \<Rightarrow> upd i (closeWithCode CloseDecodeError ''invalid identify payload'') h
           | Some q \<Rightarrow>
               (if id_Token q = [] then upd i (closeWithCode CloseAuthFailed ''token required'') h
                else hub_handleIdentify L d mo i (id_Token q) h))"

definition handleResume :: "'r libs \<Rightarrow> 'r HubDeps \<Rightarrow> moment \<Rightarrow> nat \<Rightarrow> json option \<Rightarrow> 'r hub \<Rightarrow> 'r hub" where
  "handleResume L d mo i data h =
     (if cl_identified (hb_conn h i) then upd i (closeWithCode CloseAlreadyAuthenticated ''already identified'') h
      else case un_Resume (l_M L) data of
             None \<Rightarrow> upd i (closeWithCode CloseDecodeError ''invalid resume payload'') h
           | Some q \<Rightarrow>
               (if rs_Token q = [] \<or> rs_SessionID q = []
                then upd i (closeWithCode CloseAuthFailed ''token and session_id required'') h
                else hub_handleResume L d mo i q h))"

definition handlePresenceUpdate :: "'r libs \<Rightarrow> 'r HubDeps \<Rightarrow> nat \<Rightarrow> json option \<Rightarrow> 'r hub \<Rightarrow> 'r hub" where
  "handlePresenceUpdate L d i data h =
     (if \<not> cl_identified (hb_conn h i) then upd i (closeWithCode CloseNotAuthenticated ''not identified'') h
      else case un_PresenceUpdate (l_M L) data of
             None \<Rightarrow> upd i (closeWithCode CloseDecodeError ''invalid presence payload'') h
           | Some status \<Rightarrow>
               (if \<not> ValidStatus status then upd i (closeWithCode CloseDecodeError ''invalid status value'') h
                else hub_handlePresenceUpdate L d i status h))"

text \<open>
  One turn of the read loop on a message, and whether the loop goes on. An opcode the
  \<open>switch\<close> does not list is ignored.
\<close>

definition read_message :: "'r libs \<Rightarrow> 'r HubDeps \<Rightarrow> moment \<Rightarrow> nat \<Rightarrow> bytes \<Rightarrow> 'r hub \<Rightarrow> bool \<times> 'r hub" where
  "read_message L d mo i message h =
     (case rateLimited (cfg_RateLimitWSCount (hd_Cfg d)) (cfg_RateLimitWSWindowSeconds (hd_Cfg d)) (mo_now mo) (hb_conn h i) of
        (limited, c) \<Rightarrow>
          (let h1 = upd i (\<lambda>_. c) h
           in if limited then (False, upd i (closeWithCode CloseRateLimited ''rate limit exceeded'') h1)
              else case un_Frame (l_M L) message of
                     None \<Rightarrow> (False, upd i (closeWithCode CloseDecodeError ''invalid JSON'') h1)
                   | Some frame \<Rightarrow>
                       (let oc = fr_Op frame; M = l_M L
                        in if oc = opc M OpcodeHeartbeat then (True, handleHeartbeat L d i h1)
                           else if oc = opc M OpcodeIdentify then (True, handleIdentify L d mo i (fr_Data frame) h1)
                           else if oc = opc M OpcodePresenceUpdate
                                then (True, handlePresenceUpdate L d i (fr_Data frame) h1)
                           else if oc = opc M OpcodeResume then (True, handleResume L d mo i (fr_Data frame) h1)
                           else if oc \<in> opc M ` {OpcodeDispatch, OpcodeReconnect, OpcodeInvalidSession,
                                                  OpcodeHello, OpcodeHeartbeatACK}
                                then (False, upd i (closeWithCode CloseUnknownOpcode ''unknown opcode'') h1)
                           else (True, h1))))"

text \<open>The deferred calls of \<open>readPump\<close>: unregister, then close the connection.\<close>

definition read_exit :: "'r libs \<Rightarrow> 'r HubDeps \<Rightarrow> moment \<Rightarrow> nat \<Rightarrow> 'r hub \<Rightarrow> 'r hub" where
  "read_exit L d mo i h = upd i (\<lambda>c. (conn_Close c)\<lparr>cl_reader := False\<rparr>) (unregister L d mo i h)"

definition readPump :: "'r libs \<Rightarrow> 'r HubDeps \<Rightarrow> moment \<Rightarrow> nat \<Rightarrow> bytes \<Rightarrow> 'r hub \<Rightarrow> 'r hub" where
  "readPump L d mo i message h =
     (case read_message L d mo i message h of
        (continue, h1) \<Rightarrow> if continue then h1 else read_exit L d mo i h1)"

definition identify_timeout :: "nat \<Rightarrow> 'r hub \<Rightarrow> 'r hub" where
  "identify_timeout i h =
     (if \<not> cl_identified (hb_conn h i) then upd i (closeWithCode CloseNotAuthenticated ''identify timeout'') h else h)"

section \<open>Distribution of events\<close>

definition ephemeralEvent :: "proto \<Rightarrow> string \<Rightarrow> bool" where
  "ephemeralEvent M t \<longleftrightarrow> t = ev M EvTypingStart \<or> t = ev M EvTypingStop"

record envelope =
  env_Type :: string
  env_Data :: json
  env_Targets :: "uuid list"

fun json_uuids :: "uuid_lib \<Rightarrow> json \<Rightarrow> uuid list option" where
  "json_uuids U (JArr js) =
     those (map (\<lambda>j. if j = JNull then Some uuid_Nil else Option.bind (json_string j) (uuid_Parse U)) js)"
| "json_uuids U _ = None"

text \<open>
  Decoding into \<open>any\<close> and encoding again: integers pass through a float64, the keys of an object
  come out sorted, and of equal keys the last wins.
\<close>

fun bitlen :: "nat \<Rightarrow> nat" where
  "bitlen n = (if n = 0 then 0 else Suc (bitlen (n div 2)))"

declare bitlen.simps [simp del]

definition f64_nat :: "nat \<Rightarrow> nat" where
  "f64_nat n =
     (if n < 2 ^ 53 then n
      else let e = bitlen n - 53; q = n div 2 ^ e; r = n mod 2 ^ e; half = 2 ^ (e - 1)
           in (if r > half \<or> (r = half \<and> odd q) then q + 1 else q) * 2 ^ e)"

definition f64 :: "int \<Rightarrow> int" where
  "f64 n = (if n < 0 then - int (f64_nat (nat (- n))) else int (f64_nat (nat n)))"

fun as_any :: "json \<Rightarrow> json" where
  "as_any (JNum n) = JNum (f64 n)"
| "as_any (JArr js) = JArr (map as_any js)"
| "as_any (JObj kvs) =
     (let m = map_of (rev (map (\<lambda>(k, v). (k, as_any v)) kvs))
      in JObj (map (\<lambda>k. (k, the (m k))) (sorted_list_of_set (set (map fst kvs)))))"
| "as_any j = j"

definition unmarshal_envelope :: "uuid_lib \<Rightarrow> bytes \<Rightarrow> envelope option" where
  "unmarshal_envelope U b =
     Option.bind (json_object b) (\<lambda>kvs.
     Option.bind (json_read ''t'' [] json_string kvs) (\<lambda>t.
     Option.bind (json_read ''targets'' [] (json_uuids U) kvs) (\<lambda>ts.
       Some \<lparr>env_Type = t, env_Data = (case json_field ''d'' kvs of None \<Rightarrow> JNull | Some j \<Rightarrow> as_any j),
             env_Targets = ts\<rparr>)))"

text \<open>\<open>channelScoped\<close>: errors of the decoder are ignored and leave the empty string.\<close>

fun scoped_ChannelID :: "json \<Rightarrow> string" where
  "scoped_ChannelID (JObj kvs) = (case json_field ''channel_id'' kvs of Some (JStr s) \<Rightarrow> s | _ \<Rightarrow> [])"
| "scoped_ChannelID _ = []"

definition channel_scope :: "uuid_lib \<Rightarrow> json \<Rightarrow> uuid option" where
  "channel_scope U rawData =
     (let s = scoped_ChannelID rawData in if s \<noteq> [] then uuid_Parse U s else None)"

definition event_targets :: "uuid list \<Rightarrow> 'r hub \<Rightarrow> nat list" where
  "event_targets targets h =
     concat (map (\<lambda>(uid, cs). if targets \<noteq> [] \<and> uid \<notin> set targets then []
                              else filter (\<lambda>i. cl_identified (hb_conn h i)) cs) (hb_clients h))"

text \<open>The permission filter: one resolver call for each user, errors skip the client.\<close>

fun permitted_clients ::
  "perm_lib \<Rightarrow> 's Store \<Rightarrow> 's Cache \<Rightarrow> (nat \<Rightarrow> client) \<Rightarrow> uuid \<Rightarrow> (uuid \<times> bool) list \<Rightarrow> nat list \<Rightarrow> 's \<Rightarrow> nat list \<times> 's" where
  "permitted_clients P S C conn channelID permCache [] s = ([], s)"
| "permitted_clients P S C conn channelID permCache (i # targets) s =
     (let uid = cl_userID (conn i)
      in case map_of permCache uid of
           Some allowed \<Rightarrow>
             (case permitted_clients P S C conn channelID permCache targets s of
                (ps, s1) \<Rightarrow> (if allowed then i # ps else ps, s1))
         | None \<Rightarrow>
             (case HasPermission P S C uid channelID (ViewChannels P) s of
                (Inl _, s1) \<Rightarrow> permitted_clients P S C conn channelID permCache targets s1
              | (Inr allowed, s1) \<Rightarrow>
                  (case permitted_clients P S C conn channelID ((uid, allowed) # permCache) targets s1 of
                     (ps, s2) \<Rightarrow> (if allowed then i # ps else ps, s2))))"

definition dispatch_one :: "'r libs \<Rightarrow> 'r HubDeps \<Rightarrow> string \<Rightarrow> json \<Rightarrow> nat \<Rightarrow> 'r hub \<Rightarrow> 'r hub" where
  "dispatch_one L d eventType rawData i h =
     (case nextSeq (hb_conn h i) of
        (seq, c) \<Rightarrow>
          (let frame = NewDispatchFrame (l_M L) seq eventType rawData;
               h1 = upd i (\<lambda>_. client_enqueue (Json frame) c) h;
               sid = cl_sessionID c
           in if sid \<noteq> [] then snd (on_world (on_vk (AppendReplay (l_V L) (hd_Sessions d) sid seq frame)) h1) else h1))"

definition handlePubSubEvent :: "'r libs \<Rightarrow> 'r HubDeps \<Rightarrow> bytes \<Rightarrow> 'r hub \<Rightarrow> 'r hub" where
  "handlePubSubEvent L d payload h =
     (case unmarshal_envelope (l_U L) payload of
        None \<Rightarrow> h
      | Some e \<Rightarrow>
          (let rawData = env_Data e;
               scope = channel_scope (l_U L) rawData;
               targets = event_targets (env_Targets e) h
           in if targets = [] then h
              else
                let (targets', h1) =
                      (case scope of
                         Some channelID \<Rightarrow>
                           (if hd_Resolver d \<and> env_Targets e = []
                            then case permitted_clients (l_P L) PGStore (ValkeyCache (l_U L) (l_V L)) (hb_conn h)
                                        channelID [] targets (hb_world h) of
                                   (ps, w) \<Rightarrow> (ps, h\<lparr>hb_world := w\<rparr>)
                            else (targets, h))
                       | None \<Rightarrow> (targets, h))
                in if ephemeralEvent (l_M L) (env_Type e)
                   then foldl (\<lambda>h i. upd i (client_enqueue
                          (Json (NewEphemeralDispatchFrame (l_M L) (env_Type e) rawData))) h) h1 targets'
                   else foldl (\<lambda>h i. dispatch_one L d (env_Type e) rawData i h) h1 targets'))"

section \<open>Shutdown\<close>

definition shutdown_client :: "proto \<Rightarrow> client \<Rightarrow> client" where
  "shutdown_client M c =
     conn_Close (conn_write (CloseMessage CloseGoingAway ''server shutting down'')
       (closeSend (client_enqueue (Json (NewReconnectFrame M)) c)))"

definition Shutdown :: "'r libs \<Rightarrow> 'r HubDeps \<Rightarrow> 'r hub \<Rightarrow> 'r hub" where
  "Shutdown L d h =
     (let h1 = (if hd_Presence d
                then foldl (\<lambda>h (u, _). snd (on_world (on_vk (presence_Delete (l_U L) (l_V L) u)) h)) h (hb_clients h)
                else h);
          h2 = foldl (\<lambda>h (_, cs). foldl (\<lambda>h i. upd i (shutdown_client (l_M L)) h) h cs) h1 (hb_clients h)
      in h2\<lparr>hb_clients := []\<rparr>)"

definition ClientCount :: "'r hub \<Rightarrow> nat" where
  "ClientCount h = totalClientsLocked h"

end
