(* ===== verification/Gateway_Registry.thy ===== *)
theory Gateway_Registry
  imports Gateway_Hub
begin

text \<open>
  The registry invariant of the gateway hub over every interleaving of connections, frames,
  events, timers and shutdown: connections are registered once, under their own user, after
  authentication, and never more than the configured number. Each handler runs as one step.
\<close>

section \<open>Steps\<close>

inductive gw_step :: "'r libs \<Rightarrow> 'r HubDeps \<Rightarrow> 'r hub \<Rightarrow> 'r hub \<Rightarrow> bool" for L d where
  connect: "gw_step L d h (ServeWebSocket (l_M L) hb h)"
| receive: "i < hb_next h \<Longrightarrow> cl_reader (hb_conn h i) \<Longrightarrow> gw_step L d h (readPump L d mo i message h)"
| read_error: "i < hb_next h \<Longrightarrow> cl_reader (hb_conn h i) \<Longrightarrow> gw_step L d h (read_exit L d mo i h)"
| timeout: "i < hb_next h \<Longrightarrow> gw_step L d h (identify_timeout i h)"
| event: "gw_step L d h (handlePubSubEvent L d payload h)"
| offline: "u \<in> set (hb_offline h) \<Longrightarrow>
    gw_step L d h ((delayedOffline L d u h)\<lparr>hb_offline := remove1 u (hb_offline h)\<rparr>)"
| pump: "writePump (hb_conn h i) c \<Longrightarrow> gw_step L d h (upd i (\<lambda>_. c) h)"
| shut: "gw_step L d h (Shutdown L d h)"

definition gw_init :: "'r world \<Rightarrow> 'r hub" where
  "gw_init w = \<lparr>hb_clients = [], hb_conn = (\<lambda>_. newClient), hb_next = 0, hb_offline = [], hb_world = w\<rparr>"

definition gw_reach :: "'r libs \<Rightarrow> 'r HubDeps \<Rightarrow> 'r world \<Rightarrow> 'r hub \<Rightarrow> bool" where
  "gw_reach L d w h \<longleftrightarrow> (gw_step L d)\<^sup>*\<^sup>* (gw_init w) h"

section \<open>The invariant\<close>

definition all_registered :: "'r hub \<Rightarrow> nat list" where
  "all_registered h = concat (map snd (hb_clients h))"

definition slot_ok :: "'r hub \<Rightarrow> uuid \<Rightarrow> nat list \<Rightarrow> bool" where
  "slot_ok h u cs \<longleftrightarrow> cs \<noteq> [] \<and>
     (\<forall>i \<in> set cs. i < hb_next h \<and> cl_identified (hb_conn h i) \<and> cl_userID (hb_conn h i) = u
        \<and> cl_reader (hb_conn h i))"

definition reg_ok :: "gw_config \<Rightarrow> 'r hub \<Rightarrow> bool" where
  "reg_ok cfg h \<longleftrightarrow>
     distinct (map fst (hb_clients h)) \<and> distinct (all_registered h)
     \<and> length (all_registered h) \<le> cfg_GatewayMaxConnections cfg
     \<and> (\<forall>u cs. map_of (hb_clients h) u = Some cs \<longrightarrow> slot_ok h u cs)"

lemma reg_okI:
  assumes "distinct (map fst (hb_clients h))" "distinct (all_registered h)"
    "length (all_registered h) \<le> cfg_GatewayMaxConnections cfg"
    "\<And>u cs. map_of (hb_clients h) u = Some cs \<Longrightarrow> slot_ok h u cs"
  shows "reg_ok cfg h"
  using assms by (simp add: reg_ok_def)

lemma reg_ok_slot: "reg_ok cfg h \<Longrightarrow> map_of (hb_clients h) u = Some cs \<Longrightarrow> slot_ok h u cs"
  unfolding reg_ok_def by blast

text \<open>What of a hub the invariant depends on.\<close>

definition core :: "'r hub \<Rightarrow> (uuid \<times> nat list) list \<times> nat \<times> (nat \<Rightarrow> bool \<times> uuid \<times> bool)" where
  "core h = (hb_clients h, hb_next h,
     \<lambda>i. (cl_identified (hb_conn h i), cl_userID (hb_conn h i), cl_reader (hb_conn h i)))"

lemma reg_ok_core: "core h' = core h \<Longrightarrow> reg_ok cfg h \<Longrightarrow> reg_ok cfg h'"
  by (auto simp: core_def reg_ok_def slot_ok_def all_registered_def fun_eq_iff)

lemma total_all: "totalClientsLocked h = length (all_registered h)"
proof -
  have "foldl (\<lambda>n (u :: uuid, cs). n + length cs) m xs = m + length (concat (map snd xs))" for m and xs :: "(uuid \<times> nat list) list"
    by (induction xs arbitrary: m) auto
  then show ?thesis by (simp add: totalClientsLocked_def all_registered_def)
qed

definition keeps :: "(client \<Rightarrow> client) \<Rightarrow> bool" where
  "keeps f \<longleftrightarrow> (\<forall>c. cl_identified (f c) = cl_identified c \<and> cl_userID (f c) = cl_userID c \<and> cl_reader (f c) = cl_reader c)"

lemma core_upd: "keeps f \<Longrightarrow> core (upd i f h) = core h"
  by (auto simp: core_def upd_def keeps_def fun_eq_iff)

lemma core_on_world [simp]: "core (snd (on_world f h)) = core h"
  by (auto simp: core_def on_world_def split: prod.splits)

lemma core_world: "on_world f h = (x, h') \<Longrightarrow> core h' = core h"
  using core_on_world [of f h] by simp

lemma conn_on_world: "on_world f h = (x, h') \<Longrightarrow> hb_conn h' = hb_conn h"
  by (auto simp: on_world_def split: prod.splits)

lemma keeps_simps [simp]:
  "keeps (client_enqueue m)" "keeps (closeWithCode n r)" "keeps closeSend" "keeps (shutdown_client M)"
  by (simp_all add: keeps_def shutdown_client_def conn_Close_def conn_write_def)

lemma keeps_fold: "keeps (\<lambda>c. foldl (\<lambda>c p. client_enqueue p c) c ps)"
proof -
  have "cl_identified (foldl (\<lambda>c p. client_enqueue p c) c ps) = cl_identified c
      \<and> cl_userID (foldl (\<lambda>c p. client_enqueue p c) c ps) = cl_userID c
      \<and> cl_reader (foldl (\<lambda>c p. client_enqueue p c) c ps) = cl_reader c" for c
    by (induction ps arbitrary: c) auto
  then show ?thesis by (simp add: keeps_def)
qed

lemma core_publishPresence [simp]: "core (publishPresence L d u s h) = core h"
  by (simp add: publishPresence_def)

lemma core_set: "cl_identified c = cl_identified (hb_conn h i) \<Longrightarrow> cl_userID c = cl_userID (hb_conn h i) \<Longrightarrow>
    cl_reader c = cl_reader (hb_conn h i) \<Longrightarrow> core (upd i (\<lambda>_. c) h) = core h"
  by (auto simp: core_def upd_def fun_eq_iff)

lemma core_send_next [simp]: "core (send_next M t j i h) = core h"
  by (simp add: send_next_def nextSeq_def core_set)

lemma core_dispatch_one [simp]: "core (dispatch_one L d t j i h) = core h"
  by (simp add: dispatch_one_def nextSeq_def core_set Let_def)

lemma core_foldl: "(\<And>h x. core (f h x) = core h) \<Longrightarrow> core (foldl f h xs) = core h"
  by (induction xs arbitrary: h) auto

lemma core_resume_presence [simp]: "core (resume_presence L d u h) = core h"
  by (auto simp: resume_presence_def split: prod.splits sum.splits dest!: core_world)

lemma core_refreshPresence [simp]: "core (refreshPresence L d u h) = core h"
  by (simp add: refreshPresence_def)

text \<open>The distribution of an event, in two parts: whom it is for, and the deliveries.\<close>

definition recipients :: "'r libs \<Rightarrow> 'r HubDeps \<Rightarrow> envelope \<Rightarrow> 'r hub \<Rightarrow> nat list \<times> 'r hub" where
  "recipients L d e h =
     (case channel_scope (l_U L) (env_Data e) of
        Some channelID \<Rightarrow>
          (if hd_Resolver d \<and> env_Targets e = []
           then case permitted_clients (l_P L) PGStore (ValkeyCache (l_U L) (l_V L)) (hb_conn h)
                       channelID [] (event_targets (env_Targets e) h) (hb_world h) of
                  (ps, w) \<Rightarrow> (ps, h\<lparr>hb_world := w\<rparr>)
           else (event_targets (env_Targets e) h, h))
      | None \<Rightarrow> (event_targets (env_Targets e) h, h))"

definition deliver :: "'r libs \<Rightarrow> 'r HubDeps \<Rightarrow> envelope \<Rightarrow> 'r hub \<Rightarrow> nat \<Rightarrow> 'r hub" where
  "deliver L d e h i =
     (if ephemeralEvent (l_M L) (env_Type e)
      then upd i (client_enqueue (Json (NewEphemeralDispatchFrame (l_M L) (env_Type e) (env_Data e)))) h
      else dispatch_one L d (env_Type e) (env_Data e) i h)"

lemma handlePubSubEvent_eq:
  "handlePubSubEvent L d payload h =
     (case unmarshal_envelope (l_U L) payload of
        None \<Rightarrow> h
      | Some e \<Rightarrow> (if event_targets (env_Targets e) h = [] then h
                  else case recipients L d e h of (ts, h1) \<Rightarrow> foldl (deliver L d e) h1 ts))"
  by (simp add: handlePubSubEvent_def recipients_def deliver_def [abs_def] Let_def cong: if_cong
        split: option.split prod.split)

lemma core_deliver [simp]: "core (deliver L d e h i) = core h"
  by (simp add: deliver_def core_upd)

lemma core_recipients: "recipients L d e h = (ts, h') \<Longrightarrow> core h' = core h"
  by (auto simp: recipients_def core_def split: option.splits if_splits prod.splits)

lemma core_event: "core (handlePubSubEvent L d payload h) = core h"
  by (auto simp: handlePubSubEvent_eq core_foldl dest: core_recipients split: option.split prod.split)

section \<open>Registration\<close>

abbreviation slot :: "(uuid \<times> nat list) list \<Rightarrow> uuid \<Rightarrow> nat list" where
  "slot al u \<equiv> (case map_of al u of None \<Rightarrow> [] | Some cs \<Rightarrow> cs)"

lemma mset_slot_update:
  "distinct (map fst al) \<Longrightarrow>
     mset (concat (map snd (AList.update u cs al))) + mset (slot al u) = mset (concat (map snd al)) + mset cs"
  by (induction al) (auto simp: ac_simps)

lemma mset_slot_delete:
  "distinct (map fst al) \<Longrightarrow>
     mset (concat (map snd (AList.delete u al))) + mset (slot al u) = mset (concat (map snd al))"
proof (induction al)
  case (Cons x al)
  have "u \<notin> fst ` set al \<Longrightarrow> AList.delete u al = al" by (simp add: AList.delete_id)
  moreover have "u \<notin> fst ` set al \<Longrightarrow> map_of al u = None" by (simp add: map_of_eq_None_iff)
  ultimately show ?case using Cons by (cases x) (auto simp: ac_simps)
qed simp

lemma index_of_Some: "index_of x xs = Some n \<Longrightarrow> n < length xs \<and> xs ! n = x"
  by (induction xs arbitrary: n) (auto split: if_splits)

lemma index_of_None: "index_of x xs = None \<longleftrightarrow> x \<notin> set xs"
  by (induction xs) auto

lemma mset_swap_remove:
  assumes "n < length cs"
  shows "mset cs = add_mset (cs ! n) (mset (swap_remove n cs))"
proof -
  obtain ys y where cs: "cs = ys @ [y]" using assms by (metis length_0_conv not_less_zero rev_exhaust)
  show ?thesis
  proof (cases "n = length ys")
    case True
    then show ?thesis by (simp add: cs swap_remove_def)
  next
    case False
    then have n: "n < length ys" using assms cs by simp
    then have "mset (ys[n := y]) = add_mset y (mset ys - {# ys ! n #})" by (simp add: mset_update)
    with n show ?thesis
      by (simp add: cs swap_remove_def nth_append list_update_append butlast_append mset_update)
  qed
qed

lemma registered_iff:
  "distinct (map fst (hb_clients h)) \<Longrightarrow>
     i \<in> set (all_registered h) \<longleftrightarrow> (\<exists>u cs. map_of (hb_clients h) u = Some cs \<and> i \<in> set cs)"
  by (force simp: all_registered_def)

lemma not_registered:
  "reg_ok cfg h \<Longrightarrow> \<not> cl_identified (hb_conn h i) \<Longrightarrow> i \<notin> set (all_registered h)"
  by (auto simp: reg_ok_def registered_iff slot_ok_def)

lemma reg_ok_unreg: "reg_ok cfg h \<Longrightarrow> i \<notin> set (all_registered h) \<Longrightarrow> reg_ok cfg (upd i f h)"
  by (auto simp: reg_ok_def upd_def all_registered_def registered_iff slot_ok_def)

lemma reg_ok_add:
  assumes ok: "reg_ok cfg h" and i: "i \<notin> set (all_registered h)" "i < hb_next h"
    and c: "cl_identified (hb_conn h i)" "cl_userID (hb_conn h i) = u" "cl_reader (hb_conn h i)"
    and room: "length (all_registered h) < cfg_GatewayMaxConnections cfg"
  shows "reg_ok cfg (h\<lparr>hb_clients := AList.update u (clients_of h u @ [i]) (hb_clients h)\<rparr>)" (is "reg_ok cfg ?h")
proof -
  have d: "distinct (map fst (hb_clients h))" using ok by (simp add: reg_ok_def)
  have m: "mset (all_registered ?h) = add_mset i (mset (all_registered h))"
    using mset_slot_update [OF d, of u "clients_of h u @ [i]"] by (simp add: all_registered_def clients_of_def)
  then have m': "mset (all_registered ?h) = mset (i # all_registered h)" by simp
  have "distinct (all_registered ?h)" "length (all_registered ?h) = Suc (length (all_registered h))"
    using mset_eq_imp_distinct_iff [OF m'] mset_eq_length [OF m'] ok i(1) by (simp_all add: reg_ok_def)
  moreover have "slot_ok ?h v cs" if "map_of (hb_clients ?h) v = Some cs" for v cs
    using that reg_ok_slot [OF ok, of v] i c
    by (auto simp: AList.update_conv' clients_of_def slot_ok_def split: if_splits option.splits)
  moreover have "distinct (map fst (hb_clients ?h))" using d by (simp add: AList.distinct_update)
  ultimately show ?thesis using room by (intro reg_okI) simp_all
qed

lemma reg_ok_register:
  assumes "register cfg i h = (x, h')" "reg_ok cfg h" "i \<notin> set (all_registered h)" "i < hb_next h"
    "cl_identified (hb_conn h i)" "cl_reader (hb_conn h i)"
  shows "reg_ok cfg h'"
  using assms reg_ok_add [of cfg h i "cl_userID (hb_conn h i)"]
  by (auto simp: register_def total_all Let_def not_le split: if_splits)

lemma reg_ok_remove:
  assumes ok: "reg_ok cfg h" and i: "index_of i (clients_of h u) = Some n"
  defines "cs' \<equiv> swap_remove n (clients_of h u)"
  defines "h' \<equiv> h\<lparr>hb_clients := (if cs' = [] then AList.delete u (hb_clients h) else AList.update u cs' (hb_clients h))\<rparr>"
  shows "reg_ok cfg h' \<and> i \<notin> set (all_registered h')"
proof -
  have d: "distinct (map fst (hb_clients h))" using ok by (simp add: reg_ok_def)
  have cs: "mset (clients_of h u) = add_mset i (mset cs')"
    using mset_swap_remove index_of_Some [OF i] by (auto simp: cs'_def)
  have m: "mset (all_registered h) = mset (i # all_registered h')"
    using mset_slot_update [OF d, of u cs'] mset_slot_delete [OF d, of u] cs
    by (auto simp: h'_def all_registered_def clients_of_def split: if_splits)
  have di: "distinct (i # all_registered h')" "length (all_registered h) = Suc (length (all_registered h'))"
    using mset_eq_imp_distinct_iff [OF m] mset_eq_length [OF m] ok by (simp_all add: reg_ok_def)
  obtain cs0 where cs0: "map_of (hb_clients h) u = Some cs0"
    using i by (cases "map_of (hb_clients h) u") (auto simp: clients_of_def)
  have sub: "set cs' \<subseteq> set cs0"
    using cs by (metis cs0 clients_of_def option.simps(5) set_mset_add_mset_insert set_mset_mset subset_insertI)
  have "slot_ok h' v cs" if "map_of (hb_clients h') v = Some cs" for v cs
    using that reg_ok_slot [OF ok, of v] reg_ok_slot [OF ok cs0] sub
    by (auto simp: h'_def AList.update_conv' AList.delete_conv' slot_ok_def split: if_splits)
  moreover have "distinct (map fst (hb_clients h'))" using d by (simp add: h'_def AList.distinct_update AList.distinct_delete)
  ultimately show ?thesis using ok di by (auto simp: reg_ok_def)
qed

lemma reg_ok_unregister:
  assumes "reg_ok cfg h"
  shows "reg_ok cfg (unregister L d mo i h) \<and> i \<notin> set (all_registered (unregister L d mo i h))"
proof (cases "index_of i (clients_of h (cl_userID (hb_conn h i)))")
  case None
  then have "i \<notin> set (all_registered h)"
    using assms by (auto simp: index_of_None clients_of_def reg_ok_def registered_iff slot_ok_def)
  then show ?thesis using assms None by (simp add: unregister_def Let_def)
next
  case (Some n)
  define u where "u = cl_userID (hb_conn h i)"
  define cs' where "cs' = swap_remove n (clients_of h u)"
  define h' where "h' = h\<lparr>hb_clients := (if cs' = [] then AList.delete u (hb_clients h) else AList.update u cs' (hb_clients h))\<rparr>"
  have ok: "reg_ok cfg h' \<and> i \<notin> set (all_registered h')"
    unfolding h'_def cs'_def by (rule reg_ok_remove [OF assms]) (simp add: Some u_def)
  have reg: "core g = core h' \<Longrightarrow> reg_ok cfg g \<and> i \<notin> set (all_registered g)" for g :: "'a hub"
    using ok reg_ok_core by (auto simp: core_def all_registered_def)
  have off: "core (g\<lparr>hb_offline := q\<rparr>) = core g" for g :: "'a hub" and q by (simp add: core_def)
  have "core (unregister L d mo i h) = core h'"
    using Some by (simp add: unregister_def Let_def u_def [symmetric] cs'_def [symmetric] h'_def [symmetric]
      core_upd off)
  then show ?thesis by (rule reg)
qed

lemma reg_ok_exit: "reg_ok cfg h \<Longrightarrow> reg_ok cfg (read_exit L d mo i h)"
  unfolding read_exit_def using reg_ok_unregister by (intro reg_ok_unreg) blast+

section \<open>Every handler keeps the invariant\<close>

lemma core_registered: "core h' = core h \<Longrightarrow> all_registered h' = all_registered h"
  by (simp add: core_def all_registered_def)

lemma core_fields:
  "core h' = core h \<Longrightarrow> hb_next h' = hb_next h \<and> cl_identified (hb_conn h' i) = cl_identified (hb_conn h i)
     \<and> cl_reader (hb_conn h' i) = cl_reader (hb_conn h i)"
  by (auto simp: core_def fun_eq_iff)

lemma upd_conn [simp]: "hb_conn (upd i f h) i = f (hb_conn h i)" "hb_next (upd i f h) = hb_next h"
    "all_registered (upd i f h) = all_registered h" "core (h\<lparr>hb_offline := q\<rparr>) = core h"
  by (simp_all add: upd_def all_registered_def core_def)

text \<open>The session of an unregistered client is set, then the client is registered.\<close>

lemma reg_ok_join:
  assumes "register cfg i (upd i f h) = (x, h')" "reg_ok cfg h" "i \<notin> set (all_registered h)" "i < hb_next h"
    "cl_reader (hb_conn h i)" "\<And>c. cl_identified (f c)" "\<And>c. cl_reader (f c) = cl_reader c"
  shows "reg_ok cfg h'"
  using assms by (intro reg_ok_register [OF assms(1)] reg_ok_unreg) simp_all

definition joins :: "gw_config \<Rightarrow> nat \<Rightarrow> 'r hub \<Rightarrow> bool" where
  "joins cfg i h \<longleftrightarrow> reg_ok cfg h \<and> i \<notin> set (all_registered h) \<and> i < hb_next h \<and> cl_reader (hb_conn h i)"

lemma joins_core: "core h' = core h \<Longrightarrow> joins cfg i h \<Longrightarrow> joins cfg i h'"
  unfolding joins_def using reg_ok_core core_registered core_fields by metis

lemma joins_world: "on_world f h = (x, h') \<Longrightarrow> joins cfg i h \<Longrightarrow> joins cfg i h'"
  using core_world joins_core by blast

lemma joins_snd: "joins cfg i h \<Longrightarrow> joins cfg i (snd (on_world f h))"
  by (rule joins_core [OF core_on_world])

lemma joins_reg: "joins cfg i h \<Longrightarrow> core h' = core h \<Longrightarrow> reg_ok cfg h'"
  using reg_ok_core by (auto simp: joins_def)

lemma joins_register:
  "register cfg i (upd i f h) = (x, h') \<Longrightarrow> joins cfg i h \<Longrightarrow> (\<And>c. cl_identified (f c)) \<Longrightarrow>
     (\<And>c. cl_reader (f c) = cl_reader c) \<Longrightarrow> reg_ok cfg h'"
  using reg_ok_join by (fastforce simp: joins_def)

lemma reg_ok_hub_identify:
  assumes "joins (hd_Cfg d) i h"
  shows "reg_ok (hd_Cfg d) (hub_handleIdentify L d mo i token h)"
proof (cases "on_world (on_vk (authenticateToken L (hd_Cfg d) (mo_now mo) token)) h")
  case (Pair a h1)
  have j1: "joins (hd_Cfg d) i h1" by (rule joins_world [OF Pair assms])
  show ?thesis
  proof (cases a)
    case (Inl e)
    then show ?thesis using Pair j1 by (simp add: hub_handleIdentify_def joins_reg core_upd)
  next
    case (Inr u)
    define h2 where "h2 = (if hd_Presence d
        then snd (on_world (on_vk (presence_Set (l_U L) (l_V L) u StatusOnline)) h1) else h1)"
    obtain r h3 where r: "on_world (assembleReady L d u) h2 = (r, h3)" by fastforce
    have "joins (hd_Cfg d) i h2" using j1 by (simp add: h2_def joins_snd)
    then have j3: "joins (hd_Cfg d) i h3" by (rule joins_world [OF r])
    define f where "f = set_session u (NewSessionID (l_U L) (mo_nano mo) (mo_new mo))"
    obtain x h5 where x: "register (hd_Cfg d) i (upd i f h3) = (x, h5)" by fastforce
    have "reg_ok (hd_Cfg d) h5" by (rule joins_register [OF x j3]) (simp_all add: f_def set_session_def)
    then show ?thesis
      using Pair Inr j3 x
      by (auto simp: hub_handleIdentify_def Let_def h2_def [symmetric] r f_def [symmetric] joins_reg core_upd
            elim!: reg_ok_core [rotated] split: sum.split)
  qed
qed

lemma reg_ok_hub_resume:
  assumes "joins (hd_Cfg d) i h"
  shows "reg_ok (hd_Cfg d) (hub_handleResume L d mo i q h)"
proof -
  have inv: "joins (hd_Cfg d) i g \<Longrightarrow> reg_ok (hd_Cfg d) (invalid_session M i g)" for M and g :: "'a hub"
    by (simp add: invalid_session_def joins_reg core_upd)
  obtain a h1 where a: "on_world (on_vk (authenticateToken L (hd_Cfg d) (mo_now mo) (rs_Token q))) h = (a, h1)" by fastforce
  obtain b h2 where b: "on_world (on_vk (session_Load (l_U L) (l_V L) (rs_SessionID q))) h1 = (b, h2)" by fastforce
  obtain m h3 where m: "on_world (on_vk (Replay (l_V L) (rs_SessionID q) (rs_Seq q))) h2 = (m, h3)" by fastforce
  have j1: "joins (hd_Cfg d) i h1" by (rule joins_world [OF a assms])
  have j2: "joins (hd_Cfg d) i h2" by (rule joins_world [OF b j1])
  have j3: "joins (hd_Cfg d) i h3" by (rule joins_world [OF m j2])
  have reg: "reg_ok (hd_Cfg d) h5"
    if "register (hd_Cfg d) i (upd i (\<lambda>c. (set_session u s c)\<lparr>cl_seq := n\<rparr>) h3) = (x, h5)" for u s n x h5
    by (rule joins_register [OF that j3]) (simp_all add: set_session_def)
  show ?thesis
    by (auto simp: hub_handleResume_def Let_def a b m inv j1 j2 j3 joins_reg [OF j1] joins_reg [OF j3] core_upd keeps_fold
          split: sum.split prod.split dest!: reg elim!: reg_ok_core [rotated])
qed

lemma keeps_rate: "rateLimited a b c k = (x, k') \<Longrightarrow> cl_identified k' = cl_identified k \<and> cl_userID k' = cl_userID k
    \<and> cl_reader k' = cl_reader k"
  by (auto simp: rateLimited_def Let_def split: if_splits)

lemma joins_new:
  "reg_ok cfg h \<Longrightarrow> i < hb_next h \<Longrightarrow> cl_reader (hb_conn h i) \<Longrightarrow> \<not> cl_identified (hb_conn h i) \<Longrightarrow> joins cfg i h"
  by (simp add: joins_def not_registered)

lemma core_heartbeat [simp]: "core (handleHeartbeat L d i h) = core h"
  by (simp add: handleHeartbeat_def Let_def core_upd)

lemma core_presence [simp]: "core (handlePresenceUpdate L d i data h) = core h"
  by (auto simp: handlePresenceUpdate_def hub_handlePresenceUpdate_def Let_def core_upd dest: core_world
        split: option.split prod.split sum.split)

lemma reg_ok_identify:
  "reg_ok (hd_Cfg d) h \<Longrightarrow> i < hb_next h \<Longrightarrow> cl_reader (hb_conn h i) \<Longrightarrow> reg_ok (hd_Cfg d) (handleIdentify L d mo i data h)"
  by (auto simp: handleIdentify_def core_upd reg_ok_hub_identify joins_new elim!: reg_ok_core [rotated] split: option.split)

lemma reg_ok_resume:
  "reg_ok (hd_Cfg d) h \<Longrightarrow> i < hb_next h \<Longrightarrow> cl_reader (hb_conn h i) \<Longrightarrow> reg_ok (hd_Cfg d) (handleResume L d mo i data h)"
  by (auto simp: handleResume_def core_upd reg_ok_hub_resume joins_new elim!: reg_ok_core [rotated] split: option.split)

lemma reg_ok_read:
  assumes "reg_ok (hd_Cfg d) h" "i < hb_next h" "cl_reader (hb_conn h i)"
  shows "reg_ok (hd_Cfg d) (readPump L d mo i message h)"
proof -
  obtain x c where r: "rateLimited (cfg_RateLimitWSCount (hd_Cfg d)) (cfg_RateLimitWSWindowSeconds (hd_Cfg d)) (mo_now mo)
      (hb_conn h i) = (x, c)" by fastforce
  let ?h = "upd i (\<lambda>_. c) h"
  have c: "core ?h = core h" using keeps_rate [OF r] by (simp add: core_set)
  have h: "reg_ok (hd_Cfg d) ?h" "i < hb_next ?h" "cl_reader (hb_conn ?h i)"
    using reg_ok_core [OF c] assms keeps_rate [OF r] by simp_all
  have k: "core g = core ?h \<Longrightarrow> reg_ok (hd_Cfg d) g" for g :: "'a hub" by (rule reg_ok_core [OF _ h(1)])
  have "reg_ok (hd_Cfg d) (snd (read_message L d mo i message h))"
    unfolding read_message_def r
    by (simp add: Let_def k core_upd reg_ok_identify [OF h] reg_ok_resume [OF h] split: option.split)
  then show ?thesis by (auto simp: readPump_def reg_ok_exit split: prod.split)
qed

lemma reg_ok_step:
  assumes "gw_step L d h h'" "reg_ok (hd_Cfg d) h"
  shows "reg_ok (hd_Cfg d) h'"
  using assms(1)
proof cases
  case (connect hb)
  show ?thesis
    unfolding connect
    using assms(2) by (fastforce simp: reg_ok_def slot_ok_def ServeWebSocket_def all_registered_def) 
next
  case (receive i mo message)
  then show ?thesis using assms(2) by (simp add: reg_ok_read)
next
  case (read_error i mo)
  then show ?thesis using assms(2) by (simp add: reg_ok_exit)
next
  case (timeout i)
  then show ?thesis using assms(2) by (auto simp: identify_timeout_def core_upd elim: reg_ok_core [rotated])
next
  case (event payload)
  then show ?thesis using assms(2) reg_ok_core [OF core_event] by simp
next
  case (offline u)
  have "core h' = core h" by (simp add: offline delayedOffline_def)
  then show ?thesis by (rule reg_ok_core [OF _ assms(2)])
next
  case (pump i c)
  have "core h' = core h" using pump(2) unfolding pump(1) by (intro core_set) (auto elim!: writePumpE simp: conn_write_def conn_Close_def)
  then show ?thesis by (rule reg_ok_core [OF _ assms(2)])
next
  case shut
  then show ?thesis by (simp add: Shutdown_def Let_def reg_ok_def all_registered_def)
qed

lemma gw_reach_ok: "(gw_step L d)\<^sup>*\<^sup>* h h' \<Longrightarrow> reg_ok (hd_Cfg d) h \<Longrightarrow> reg_ok (hd_Cfg d) h'"
  by (induction rule: rtranclp_induct) (blast dest: reg_ok_step)+

lemma reg_ok_init: "reg_ok cfg (gw_init w)"
  by (simp add: reg_ok_def gw_init_def all_registered_def)

section \<open>A connection is touched by its own goroutines and, once registered, by events\<close>

lemma conn_snd_on_world [simp]: "hb_conn (snd (on_world f h)) = hb_conn h"
  by (auto simp: on_world_def split: prod.split)

lemma conn_upd_other [simp]: "j \<noteq> i \<Longrightarrow> hb_conn (upd j f h) i = hb_conn h i"
  by (simp add: upd_def)

lemma conn_publishPresence [simp]: "hb_conn (publishPresence L d u s h) = hb_conn h"
  by (simp add: publishPresence_def)

lemma conn_send_next [simp]: "j \<noteq> i \<Longrightarrow> hb_conn (send_next M t x j h) i = hb_conn h i"
  by (simp add: send_next_def nextSeq_def)

lemma conn_resume_presence [simp]: "hb_conn (resume_presence L d u h) = hb_conn h"
  by (auto simp: resume_presence_def split: prod.splits sum.splits dest!: conn_on_world)

lemma conn_register: "register cfg j h = (x, h') \<Longrightarrow> hb_conn h' = hb_conn h"
  by (auto simp: register_def Let_def split: if_splits)

lemma conn_identify [simp]: "j \<noteq> i \<Longrightarrow> hb_conn (handleIdentify L d mo j data h) i = hb_conn h i"
  by (auto simp: handleIdentify_def hub_handleIdentify_def Let_def
      dest!: conn_on_world conn_register split: option.split prod.split sum.split)

lemma conn_resume [simp]: "j \<noteq> i \<Longrightarrow> hb_conn (handleResume L d mo j data h) i = hb_conn h i"
  by (auto simp: handleResume_def hub_handleResume_def invalid_session_def Let_def
      dest!: conn_on_world conn_register split: option.split prod.split sum.split)

lemma conn_heartbeat [simp]: "j \<noteq> i \<Longrightarrow> hb_conn (handleHeartbeat L d j h) i = hb_conn h i"
  by (simp add: handleHeartbeat_def Let_def refreshPresence_def)

lemma conn_presence [simp]: "j \<noteq> i \<Longrightarrow> hb_conn (handlePresenceUpdate L d j data h) i = hb_conn h i"
  by (auto simp: handlePresenceUpdate_def hub_handlePresenceUpdate_def Let_def
      dest!: conn_on_world split: option.split prod.split sum.split)

lemma conn_exit [simp]: "j \<noteq> i \<Longrightarrow> hb_conn (read_exit L d mo j h) i = hb_conn h i"
  by (simp add: read_exit_def unregister_def Let_def split: option.split)

lemma conn_read [simp]: "j \<noteq> i \<Longrightarrow> hb_conn (readPump L d mo j message h) i = hb_conn h i"
proof -
  assume "j \<noteq> i"
  then have "hb_conn (snd (read_message L d mo j message h)) i = hb_conn h i"
    by (simp add: read_message_def Let_def split: prod.split option.split)
  with \<open>j \<noteq> i\<close> show ?thesis by (auto simp: readPump_def split: prod.split)
qed

lemma conn_deliver [simp]: "j \<noteq> i \<Longrightarrow> hb_conn (deliver L d e h j) i = hb_conn h i"
  by (simp add: deliver_def dispatch_one_def nextSeq_def Let_def)

lemma conn_foldl: "(\<And>h j. j \<in> set js \<Longrightarrow> hb_conn (f h j) i = hb_conn h i) \<Longrightarrow> hb_conn (foldl f h js) i = hb_conn h i"
  by (induction js arbitrary: h) auto

lemma permitted_sub: "permitted_clients P S C conn c pc ts s = (ps, s') \<Longrightarrow> set ps \<subseteq> set ts"
proof (induction ts arbitrary: pc s ps)
  case (Cons t ts)
  have "\<exists>pc' s1 ps'. permitted_clients P S C conn c pc' ts s1 = (ps', s') \<and> (ps = t # ps' \<or> ps = ps')"
    using Cons.prems by (auto simp: Let_def split: option.splits prod.splits sum.splits if_splits)
  with Cons.IH show ?case by fastforce
qed simp

lemma recipients_sub:
  assumes "recipients L d e h = (ts, h')"
  shows "hb_conn h' = hb_conn h" and "set ts \<subseteq> set (event_targets (env_Targets e) h)"
  using assms by (auto simp: recipients_def split: option.splits if_splits prod.splits dest!: permitted_sub)

lemma targets_registered: "set (event_targets us h) \<subseteq> set (all_registered h)"
  by (auto simp: event_targets_def all_registered_def split: if_splits)

lemma conn_event:
  assumes "i \<notin> set (all_registered h)"
  shows "hb_conn (handlePubSubEvent L d payload h) i = hb_conn h i"
proof (cases "unmarshal_envelope (l_U L) payload")
  case (Some e)
  obtain ts h1 where r: "recipients L d e h = (ts, h1)" by fastforce
  have "i \<notin> set ts" using recipients_sub(2) [OF r] targets_registered assms by blast
  then have "hb_conn (foldl (deliver L d e) h1 ts) i = hb_conn h1 i" by (intro conn_foldl conn_deliver) blast
  then show ?thesis using Some r recipients_sub(1) [OF r] by (simp add: handlePubSubEvent_eq)
qed (simp add: handlePubSubEvent_eq)

lemma conn_Shutdown:
  assumes "i \<notin> set (all_registered h)"
  shows "hb_conn (Shutdown L d h) i = hb_conn h i"
proof -
  have a: "hb_conn (foldl (\<lambda>h (u, _). snd (on_world (f u) h)) g xs) i = hb_conn g i"
    for f and g :: "'a hub" and xs :: "(uuid \<times> nat list) list"
    by (rule conn_foldl) auto
  have "hb_conn (foldl (\<lambda>h (_, cs). foldl (\<lambda>h i. upd i f h) h cs) g xs) i = hb_conn g i"
    if "i \<notin> set (concat (map snd xs))" for f and g :: "'a hub" and xs :: "(uuid \<times> nat list) list"
    using that by (intro conn_foldl) (auto intro!: conn_foldl conn_upd_other)
  then show ?thesis using assms by (simp add: Shutdown_def Let_def all_registered_def a)
qed

text \<open>A connection whose reader has gone without ever being registered.\<close>

definition abandoned :: "nat \<Rightarrow> 'r hub \<Rightarrow> bool" where
  "abandoned i h \<longleftrightarrow> i < hb_next h \<and> \<not> cl_identified (hb_conn h i) \<and> \<not> cl_reader (hb_conn h i)
     \<and> cl_writer (hb_conn h i) \<and> \<not> cl_done (hb_conn h i) \<and> cl_send (hb_conn h i) = []"

lemma abandoned_conn: "hb_conn h' i = hb_conn h i \<Longrightarrow> hb_next h' \<ge> hb_next h \<Longrightarrow> abandoned i h \<Longrightarrow> abandoned i h'"
  by (simp add: abandoned_def)

lemma next_core: "core h' = core h \<Longrightarrow> hb_next h' = hb_next h" by (simp add: core_def)

lemma abandoned_unregistered: "abandoned i h \<Longrightarrow> reg_ok cfg h \<Longrightarrow> i \<notin> set (all_registered h)"
  by (simp add: abandoned_def not_registered)

lemma next_offline [simp]: "hb_next (delayedOffline L d u h) = hb_next h" "hb_conn (delayedOffline L d u h) = hb_conn h"
  by (simp_all add: delayedOffline_def publishPresence_def on_world_def split: prod.split)

lemma next_on_world: "on_world f h = (x, h') \<Longrightarrow> hb_next h' = hb_next h"
  by (auto simp: on_world_def split: prod.splits)

lemma next_register: "register cfg j h = (x, h') \<Longrightarrow> hb_next h' = hb_next h"
  by (auto simp: register_def Let_def split: if_splits)

lemmas next_simps [simp] =
  next_core [OF core_on_world] next_core [OF core_publishPresence] next_core [OF core_send_next]
  next_core [OF core_resume_presence] next_core [OF core_heartbeat] next_core [OF core_presence]
  next_core [OF core_event]

lemma next_unregister [simp]: "hb_next (unregister L d mo j h) = hb_next h"
  by (simp add: unregister_def Let_def split: option.split)

lemma next_read: "hb_next (readPump L d mo j message h) = hb_next h"
proof -
  have i: "hb_next (handleIdentify L d mo j data g) = hb_next g" for data and g :: "'a hub"
    by (auto simp: handleIdentify_def hub_handleIdentify_def Let_def
      dest!: next_on_world next_register split: option.split prod.split sum.split)
  have r: "hb_next (handleResume L d mo j data g) = hb_next g" for data and g :: "'a hub"
    by (auto simp: handleResume_def hub_handleResume_def invalid_session_def Let_def
      dest!: next_on_world next_register split: option.split prod.split sum.split)
  have "hb_next (snd (read_message L d mo j message h)) = hb_next h"
    by (simp add: read_message_def Let_def i r split: prod.split option.split)
  then show ?thesis by (auto simp: readPump_def read_exit_def split: prod.split)
qed

lemma next_foldl: "(\<And>g x. hb_next (f g x) = hb_next g) \<Longrightarrow> hb_next (foldl f g xs) = hb_next g"
  by (induction xs arbitrary: g) auto

lemma abandoned_step:
  assumes "gw_step L d h h'" "reg_ok (hd_Cfg d) h" "abandoned i h"
  shows "abandoned i h'"
  using assms(1)
proof cases
  case (connect hb)
  then show ?thesis using assms(3) by (auto simp: abandoned_def ServeWebSocket_def)
next
  case (receive j mo message)
  then have "j \<noteq> i" using assms(3) by (auto simp: abandoned_def)
  then show ?thesis using receive by (intro abandoned_conn [OF _ _ assms(3)]) (simp_all add: next_read)
next
  case (read_error j mo)
  then have "j \<noteq> i" using assms(3) by (auto simp: abandoned_def)
  then show ?thesis using read_error by (intro abandoned_conn [OF _ _ assms(3)]) (simp_all, simp add: read_exit_def)
next
  case (timeout j)
  then show ?thesis using assms(3)
    by (cases "j = i") (auto simp: abandoned_def identify_timeout_def upd_def closeWithCode_def conn_write_def conn_Close_def)
next
  case (event payload)
  then show ?thesis using conn_event [OF abandoned_unregistered [OF assms(3,2)]]
    by (intro abandoned_conn [OF _ _ assms(3)]) simp_all
next
  case (offline u)
  then show ?thesis by (intro abandoned_conn [OF _ _ assms(3)]) simp_all
next
  case (pump j c)
  have "j \<noteq> i" using pump(2) assms(3) by (auto simp: abandoned_def elim: writePumpE)
  then show ?thesis using pump(1) by (intro abandoned_conn [OF _ _ assms(3)]) simp_all
next
  case shut
  have "hb_next (Shutdown L d h) = hb_next h"
    by (simp add: Shutdown_def Let_def split_def next_foldl)
  then show ?thesis using shut conn_Shutdown [OF abandoned_unregistered [OF assms(3,2)]]
    by (intro abandoned_conn [OF _ _ assms(3)]) simp_all
qed

lemma abandoned_forever:
  assumes "(gw_step L d)\<^sup>*\<^sup>* h h'" "reg_ok (hd_Cfg d) h" "abandoned i h"
  shows "abandoned i h'"
  using assms(1)
proof (induction rule: rtranclp_induct)
  case (step g g')
  have "reg_ok (hd_Cfg d) g" by (rule gw_reach_ok [OF step(1) assms(2)])
  then show ?case using abandoned_step [OF step(2)] step(3) by blast
qed (rule assms(3))

section \<open>Properties\<close>

definition sample_libs :: "vstore libs" where
  "sample_libs = \<lparr>l_P = ref_perm, l_U = ref_uuid, l_V = mem_valkey, l_M = ref_proto, l_J = ref_jwt\<rparr>"

definition sample_deps :: "vstore HubDeps" where
  "sample_deps =
     \<lparr>hd_Users_GetByID = (\<lambda>_ w. (Inr JNull, w)), hd_Server_Get = (\<lambda>w. (Inr JNull, w)),
      hd_Channels_List = (\<lambda>w. (Inr [], w)), hd_Roles_List = (\<lambda>w. (Inr [], w)), hd_Members_List = (\<lambda>_ w. (Inr [], w)),
      hd_ReadStates_ListByUser = None, hd_Onboarding_Get = None,
      hd_Sessions = \<lparr>ss_ttl = 1000, ss_maxReplay = 4\<rparr>, hd_Presence = False, hd_Publisher = False, hd_Resolver = True,
      hd_Cfg = \<lparr>cfg_GatewayMaxConnections = 2, cfg_GatewayReadyMemberLimit = 10, cfg_RateLimitWSCount = 100,
        cfg_RateLimitWSWindowSeconds = 60, cfg_JWTSecret = ''secret'', cfg_ServerURL = ''https://home''\<rparr>\<rparr>"

text \<open>
  C4. In every state the hub can reach, whatever the order of connections, frames, events,
  timers and shutdown: a connection is in the registry at most once, under the user it
  authenticated as, only while its read loop runs, and there are never more of them than
  \<open>GatewayMaxConnections\<close>.
\<close>

theorem registry_invariant:
  assumes "gw_reach L d w h"
  shows "reg_ok (hd_Cfg d) h \<and> ClientCount h \<le> cfg_GatewayMaxConnections (hd_Cfg d)"
  using gw_reach_ok [OF assms [unfolded gw_reach_def] reg_ok_init]
  by (simp add: reg_ok_def ClientCount_def total_all)

definition sample_moment :: moment where
  "sample_moment = \<lparr>mo_now = 6000, mo_unix = 6, mo_nano = 6, mo_new = 77\<rparr>"

definition sample_token :: string where
  "sample_token = ref_token \<lparr>ac_Subject = uuid_String ref_uuid 2, ac_Issuer = ''https://home'', ac_IssuedAt = Some 5000,
     ac_ExpiresAt = Some 9000, ac_EmailVerified = True\<rparr> ''secret''"

definition identify_frame :: bytes where
  "identify_frame = Json (JArr [JNum 2, JStr sample_token])"

definition sample_run :: "vstore hub" where
  "sample_run = readPump sample_libs sample_deps sample_moment 0 identify_frame
     (ServeWebSocket (l_M sample_libs) 45000 (gw_init sample_world))"

lemma sample_run_reach: "gw_reach sample_libs sample_deps sample_world sample_run"
proof -
  let ?h = "ServeWebSocket (l_M sample_libs) 45000 (gw_init sample_world)"
  have "gw_step sample_libs sample_deps (gw_init sample_world) ?h" by (rule gw_step.connect)
  moreover have "gw_step sample_libs sample_deps ?h sample_run"
    unfolding sample_run_def
    by (rule gw_step.receive) (simp_all add: ServeWebSocket_def gw_init_def newClient_def conn_write_def)
  ultimately show ?thesis by (simp add: gw_reach_def)
qed

lemma sample_token_ne: "sample_token \<noteq> []"
  by (simp add: sample_token_def ref_token_def enc_str_def enc_nat_def)

lemma sample_auth:
  "authenticateToken sample_libs (hd_Cfg sample_deps) 6000 sample_token vempty = (Inr 2, vempty)"
  by (simp add: authenticateToken_def sample_libs_def sample_deps_def ConsumeGatewayTicket_def redis_GetDel_def
      redis_Nil_def mem_valkey_def ValidateAccessToken_def ref_jwt_def sample_token_def)

lemma sample_frame:
  "un_Frame (l_M sample_libs) identify_frame = Some \<lparr>fr_Op = 2, fr_Seq = None, fr_Type = None, fr_Data = Some (JStr sample_token)\<rparr>"
  "un_Identify (l_M sample_libs) (Some (JStr sample_token)) = Some \<lparr>id_Token = sample_token\<rparr>"
  "opc (l_M sample_libs) OpcodeIdentify = 2" "opc (l_M sample_libs) OpcodeHeartbeat = 1"
  by (simp_all add: sample_libs_def ref_proto_def identify_frame_def)

lemma sample_deps_simps [simp]:
  "hd_Presence sample_deps = False" "cfg_RateLimitWSCount (hd_Cfg sample_deps) = 100"
  "cfg_GatewayMaxConnections (hd_Cfg sample_deps) = 2" "hd_Resolver sample_deps"
  by (simp_all add: sample_deps_def)

lemma sample_ready: "\<exists>r. assembleReady sample_libs sample_deps u w = (Inr r, w)"
  by (simp add: assembleReady_def sample_deps_def)

lemma sample_run_clients: "hb_clients sample_run = [(2, [0])]"
proof -
  obtain r where r: "assembleReady sample_libs sample_deps 2 sample_world = (Inr r, sample_world)"
    using sample_ready by blast
  have w: "sample_world\<lparr>w_vk := vempty\<rparr> = sample_world" by (simp add: sample_world_def)
  have vk: "w_vk sample_world = vempty" by (simp add: sample_world_def)
  show ?thesis
    by (simp add: sample_run_def readPump_def read_message_def sample_frame ServeWebSocket_def gw_init_def newClient_def
        conn_write_def rateLimited_def sample_moment_def Let_def upd_def handleIdentify_def sample_token_ne
        hub_handleIdentify_def on_world_def on_vk_def sample_auth r vk w set_session_def register_def
        totalClientsLocked_def clients_of_def send_next_def nextSeq_def)
qed

theorem registry_invariant_witness:
  "hb_clients sample_run = [(2, [0])] \<and> reg_ok (hd_Cfg sample_deps) sample_run \<and> ClientCount sample_run \<le> 2"
  using registry_invariant [OF sample_run_reach] sample_run_clients by simp

text \<open>
  A connection whose read loop ends before it was registered keeps its write goroutine for
  ever: \<open>unregister\<close> returns early and leaves \<open>done\<close> open, and no later step of the server
  closes it or ends the goroutine.
\<close>

theorem unregistered_writer_leaks:
  assumes "gw_reach L d w h" and "i < hb_next h" and "\<not> cl_identified (hb_conn h i)"
    and "cl_writer (hb_conn h i)" and "\<not> cl_done (hb_conn h i)" and "cl_send (hb_conn h i) = []"
    and "(gw_step L d)\<^sup>*\<^sup>* (read_exit L d mo i h) h'"
  shows "cl_writer (hb_conn h' i) \<and> \<not> cl_done (hb_conn h' i) \<and> (\<forall>c. \<not> writePump (hb_conn h' i) c)"
proof -
  have ok: "reg_ok (hd_Cfg d) h" using gw_reach_ok [OF assms(1) [unfolded gw_reach_def] reg_ok_init] .
  have "i \<notin> set (all_registered h)" by (rule not_registered [OF ok assms(3)])
  then have "index_of i (clients_of h (cl_userID (hb_conn h i))) = None"
    using ok by (auto simp: index_of_None clients_of_def reg_ok_def registered_iff split: option.splits)
  then have "abandoned i (read_exit L d mo i h)"
    using assms(2-6) by (simp add: abandoned_def read_exit_def unregister_def Let_def conn_Close_def)
  from abandoned_forever [OF assms(7) reg_ok_exit [OF ok] this]
  show ?thesis by (auto simp: abandoned_def elim: writePumpE)
qed

theorem unregistered_writer_leaks_witness:
  "cl_writer (hb_conn (Shutdown sample_libs sample_deps (read_exit sample_libs sample_deps sample_moment 0
     (ServeWebSocket (l_M sample_libs) 45000 (gw_init sample_world)))) 0)"
proof -
  let ?h = "ServeWebSocket (l_M sample_libs) 45000 (gw_init sample_world)"
  have r: "gw_reach sample_libs sample_deps sample_world ?h" by (auto simp: gw_reach_def intro: gw_step.connect)
  have s: "(gw_step sample_libs sample_deps)\<^sup>*\<^sup>* (read_exit sample_libs sample_deps sample_moment 0 ?h)
      (Shutdown sample_libs sample_deps (read_exit sample_libs sample_deps sample_moment 0 ?h))"
    by (rule r_into_rtranclp) (rule gw_step.shut)
  show ?thesis
    using unregistered_writer_leaks [OF r _ _ _ _ _ s]
    by (simp add: ServeWebSocket_def gw_init_def newClient_def conn_write_def)
qed

end
