(* ===== verification/Gateway_Dispatch.thy ===== *)
theory Gateway_Dispatch
  imports Gateway_Registry
begin

text \<open>
  Who receives an event. The permission filter of \<open>handlePubSubEvent\<close> is related to the
  permissions the database gives, through the contract of the resolver, and the deliveries
  to the connections of the registry.
\<close>

section \<open>The filter\<close>

context resolver
begin

lemma Resolve_error: "Resolve P S C u c s = (Inl e, s') \<Longrightarrow> same s s'"
proof -
  assume r: "Resolve P S C u c s = (Inl e, s')"
  obtain g s1 where g: "cGet C u c s = (g, s1)" by fastforce
  with r have "compute P S u c s1 = (Inl e, s')"
    by (auto simp: Resolve_def split: sum.splits option.splits prod.splits)
  then show ?thesis using compute_same get_frame [OF g] get_view [OF g] by fastforce
qed

lemma HasPermission_step:
  assumes "coherent P (data s) (cview s)" and "c \<noteq> serverPermKey" and "HasPermission P S C u c p s = (x, s')"
  shows "data s' = data s \<and> coherent P (data s') (cview s') \<and> (\<forall>b. x = Inr b \<longrightarrow> answers P (data s) p u c b)"
proof -
  obtain r where r: "Resolve P S C u c s = (r, s')"
    and x: "x = map_sum id (\<lambda>q. pHas P q p) r"
    using assms(3) by (auto simp: HasPermission_def split: prod.splits sum.splits)
  show ?thesis
  proof (cases r)
    case (Inl e)
    then show ?thesis using Resolve_error r x assms(1) by auto
  next
    case (Inr q)
    then show ?thesis using Resolve_correct [OF assms(1,2) r [unfolded Inr]] x by (auto intro: answersI)
  qed
qed

text \<open>A client that passes may view the channel; one that is left out may not, or its check failed.\<close>

lemma permitted_clients_ok:
  assumes "coherent P (data s) (cview s)" and "c \<noteq> serverPermKey"
    and "\<forall>(u, b) \<in> set pc. answers P (data s) (ViewChannels P) u c b"
    and "permitted_clients P S C conn c pc ts s = (ps, s')"
  shows "set ps \<subseteq> {i \<in> set ts. answers P (data s) (ViewChannels P) (cl_userID (conn i)) c True}
    \<and> (distinct ts \<longrightarrow> distinct ps)"
  using assms
proof (induction ts arbitrary: s pc ps)
  case (Cons i ts)
  let ?u = "cl_userID (conn i)"
  show ?case
  proof (cases "map_of pc ?u")
    case (Some b)
    then obtain ps' where r: "permitted_clients P S C conn c pc ts s = (ps', s')" and ps: "ps = (if b then i # ps' else ps')"
      using Cons.prems(4) by (auto simp: Let_def split: prod.splits)
    have "answers P (data s) (ViewChannels P) ?u c b" using Cons.prems(3) map_of_SomeD [OF Some] by auto
    then show ?thesis using Cons.IH [OF Cons.prems(1-3) r] ps by auto
  next
    case None
    obtain x s1 where x: "HasPermission P S C ?u c (ViewChannels P) s = (x, s1)" by fastforce
    note h = HasPermission_step [OF Cons.prems(1,2) x]
    show ?thesis
    proof (cases x)
      case (Inl e)
      then have "permitted_clients P S C conn c pc ts s1 = (ps, s')" using Cons.prems(4) None x by (simp add: Let_def)
      then show ?thesis using Cons.IH [of s1 pc ps] Cons.prems h by auto
    next
      case (Inr b)
      then obtain ps' where r: "permitted_clients P S C conn c ((?u, b) # pc) ts s1 = (ps', s')"
        and ps: "ps = (if b then i # ps' else ps')"
        using Cons.prems(4) None x by (auto simp: Let_def split: prod.splits)
      then show ?thesis using Cons.IH [of s1 "(?u, b) # pc" ps'] Cons.prems h Inr by auto
    qed
  qed
qed simp

text \<open>When every check succeeds, exactly the permitted clients pass, in order.\<close>

lemma permitted_clients_all:
  assumes "coherent P (data s) (cview s)" and "c \<noteq> serverPermKey" and "I s"
    and "\<And>u s. I s \<Longrightarrow> \<exists>b s'. HasPermission P S C u c (ViewChannels P) s = (Inr b, s') \<and> I s'"
    and "\<forall>(u, b) \<in> set pc. answers P (data s) (ViewChannels P) u c b"
  shows "fst (permitted_clients P S C conn c pc ts s)
    = filter (\<lambda>i. answers P (data s) (ViewChannels P) (cl_userID (conn i)) c True) ts"
  using assms(1,3,5)
proof (induction ts arbitrary: s pc)
  case (Cons i ts)
  let ?u = "cl_userID (conn i)"
  have uniq: "answers P (data s) (ViewChannels P) ?u c b \<Longrightarrow> answers P (data s) (ViewChannels P) ?u c True = b" for b
    by (auto simp: answers_def dest: effective_unique)
  show ?case
  proof (cases "map_of pc ?u")
    case (Some b)
    then have "answers P (data s) (ViewChannels P) ?u c b" using Cons.prems(3) map_of_SomeD [OF Some] by auto
    then show ?thesis using Cons.IH [OF Cons.prems] Some uniq by (auto simp: Let_def split: prod.split)
  next
    case None
    obtain b s1 where x: "HasPermission P S C ?u c (ViewChannels P) s = (Inr b, s1)" "I s1"
      using assms(4) [OF Cons.prems(2)] by blast
    note h = HasPermission_step [OF Cons.prems(1) assms(2) x(1)]
    then show ?thesis using Cons.IH [of s1 "(?u, b) # pc"] Cons.prems x None uniq by (auto simp: Let_def split: prod.split)
  qed
qed simp

end

context world_resolver
begin

lemmas world_permitted = res.permitted_clients_ok
lemmas world_permitted_all = res.permitted_clients_all

end

section \<open>The deliveries\<close>

text \<open>What a delivery does to the connection it is for.\<close>

definition stamped :: "proto \<Rightarrow> envelope \<Rightarrow> client \<Rightarrow> client" where
  "stamped M e c =
     (if ephemeralEvent M (env_Type e)
      then client_enqueue (Json (NewEphemeralDispatchFrame M (env_Type e) (env_Data e))) c
      else client_enqueue (Json (NewDispatchFrame M (cl_seq c + 1) (env_Type e) (env_Data e))) (c\<lparr>cl_seq := cl_seq c + 1\<rparr>))"

lemma deliver_conn: "hb_conn (deliver L d e h i) = (hb_conn h)(i := stamped (l_M L) e (hb_conn h i))"
  by (simp add: deliver_def stamped_def dispatch_one_def nextSeq_def upd_def Let_def)

lemma foldl_deliver:
  "distinct ts \<Longrightarrow> hb_conn (foldl (deliver L d e) h ts) i =
     (if i \<in> set ts then stamped (l_M L) e (hb_conn h i) else hb_conn h i)"
proof (induction ts arbitrary: h)
  case (Cons t ts)
  then have "hb_conn (foldl (deliver L d e) (deliver L d e h t) ts) i =
      (if i \<in> set ts then stamped (l_M L) e (hb_conn (deliver L d e h t) i) else hb_conn (deliver L d e h t) i)" by simp
  then show ?case using Cons.prems by (auto simp: deliver_conn)
qed simp

lemma event_conn:
  assumes "unmarshal_envelope (l_U L) payload = Some e" and "recipients L d e h = (ts, h1)" and "distinct ts"
    and "set ts \<subseteq> set (event_targets (env_Targets e) h)"
  shows "hb_conn (handlePubSubEvent L d payload h) i = (if i \<in> set ts then stamped (l_M L) e (hb_conn h i) else hb_conn h i)"
  using assms by (auto simp: handlePubSubEvent_eq foldl_deliver recipients_sub(1))

lemma event_targets_sub:
  assumes "reg_ok cfg h"
  shows "distinct (event_targets us h)"
    and "set (event_targets us h) = {i \<in> set (all_registered h). us = [] \<or> cl_userID (hb_conn h i) \<in> set us}"
proof -
  have d: "distinct (concat (map snd al)) \<Longrightarrow> distinct (concat (map (\<lambda>(u, cs). if Q u then [] else filter R cs) al))"
    for al :: "(uuid \<times> nat list) list" and Q R by (induction al) (fastforce split: if_splits)+
  show "distinct (event_targets us h)" unfolding event_targets_def using assms d by (simp add: reg_ok_def all_registered_def)
  have "slot_ok h u cs" if "(u, cs) \<in> set (hb_clients h)" for u cs
    using that assms reg_ok_slot by (simp add: reg_ok_def)
  then have s: "(u, cs) \<in> set (hb_clients h) \<Longrightarrow> i \<in> set cs \<Longrightarrow> cl_identified (hb_conn h i) \<and> cl_userID (hb_conn h i) = u"
    for u cs i by (auto simp: slot_ok_def)
  show "set (event_targets us h) = {i \<in> set (all_registered h). us = [] \<or> cl_userID (hb_conn h i) \<in> set us}"
    (is "?A = ?B")
  proof (intro set_eqI iffI)
    fix i
    show "i \<in> ?A \<Longrightarrow> i \<in> ?B"
      by (auto simp: event_targets_def all_registered_def split: if_splits dest: s intro: bexI [rotated])
    show "i \<in> ?B \<Longrightarrow> i \<in> ?A"
      using s by (fastforce simp: event_targets_def all_registered_def)
  qed
qed

lemma HasPermission_returns:
  assumes "pg_outcomes (w_db w) = []" and "pd_channel (db_perm_data (w_db w)) c \<noteq> None"
  shows "\<exists>b w'. HasPermission P PGStore (ValkeyCache U V) u c p w = (Inr b, w') \<and> w_db w' = w_db w"
proof -
  obtain g w1 where g: "cGet (ValkeyCache U V) u c w = (g, w1)" by fastforce
  then have w1: "w_db w1 = w_db w" using cGet_db [of U V u c w] by simp
  obtain q where q: "compute P PGStore u c w1 = (Inr q, w1)" using compute_returns [of w1 c P u] assms w1 by auto
  have "w_db (snd (cSet (ValkeyCache U V) u c q w1)) = w_db w"
    using w1 by (auto simp: ValkeyCache_def on_vk_def split: prod.split)
  then show ?thesis using g w1 q by (auto simp: HasPermission_def Resolve_def split: sum.splits option.splits)
qed

lemma scoped_event_conn:
  assumes "world_resolver (l_P L) (l_U L) (l_V L)" and "world_coherent (l_P L) (l_U L) (l_V L) (hb_world h)"
    and "reg_ok cfg h" and "hd_Resolver d" and "unmarshal_envelope (l_U L) payload = Some e" and "env_Targets e = []"
    and "channel_scope (l_U L) (env_Data e) = Some ch" and "ch \<noteq> serverPermKey"
    and "pg_outcomes (w_db (hb_world h)) = []" and "pd_channel (db_perm_data (w_db (hb_world h))) ch \<noteq> None"
  shows "hb_conn (handlePubSubEvent L d payload h) i =
    (if i \<in> set (all_registered h) \<and> answers (l_P L) (db_perm_data (w_db (hb_world h))) (ViewChannels (l_P L))
           (cl_userID (hb_conn h i)) ch True
     then stamped (l_M L) e (hb_conn h i) else hb_conn h i)"
proof -
  obtain ts w where p: "permitted_clients (l_P L) PGStore (ValkeyCache (l_U L) (l_V L)) (hb_conn h) ch []
      (event_targets [] h) (hb_world h) = (ts, w)" by fastforce
  have r: "recipients L d e h = (ts, h\<lparr>hb_world := w\<rparr>)" using assms(4,6,7) p by (simp add: recipients_def)
  have ret: "\<exists>b w2. HasPermission (l_P L) PGStore (ValkeyCache (l_U L) (l_V L)) u ch (ViewChannels (l_P L)) w1 = (Inr b, w2)
      \<and> w_db w2 = w_db (hb_world h)" if "w_db w1 = w_db (hb_world h)" for u w1
    using HasPermission_returns [of w1 ch "l_P L" "l_U L" "l_V L" u "ViewChannels (l_P L)"] that assms(9,10) by simp
  have "fst (permitted_clients (l_P L) PGStore (ValkeyCache (l_U L) (l_V L)) (hb_conn h) ch [] (event_targets [] h) (hb_world h))
    = filter (\<lambda>i. answers (l_P L) (db_perm_data (w_db (hb_world h))) (ViewChannels (l_P L)) (cl_userID (hb_conn h i)) ch True)
        (event_targets [] h)"
    by (rule world_resolver.world_permitted_all [OF assms(1) _ assms(8), where I = "\<lambda>w. w_db w = w_db (hb_world h)"])
      (use assms(2) ret in \<open>simp_all add: world_coherent_def\<close>)
  then have ts: "ts = filter (\<lambda>i. answers (l_P L) (db_perm_data (w_db (hb_world h))) (ViewChannels (l_P L))
      (cl_userID (hb_conn h i)) ch True) (event_targets [] h)" using p by simp
  have "distinct ts" "set ts \<subseteq> set (event_targets (env_Targets e) h)"
    using event_targets_sub(1) [OF assms(3)] assms(6) by (auto simp: ts)
  from event_conn [OF assms(5) r this, of i] show ?thesis
    using event_targets_sub(2) [OF assms(3), of "[]"] by (simp add: ts)
qed

section \<open>Properties\<close>

text \<open>
  C3. Confidentiality of channel events: if an event names a channel and no target users, then
  every connection it changes belongs to a registered user whose permissions in that
  channel, as the database gives them, include \<open>ViewChannels\<close>. This holds whether the
  resolver answers from the cache, computes or fails.
\<close>

theorem event_viewers_only:
  assumes "world_resolver (l_P L) (l_U L) (l_V L)" and "world_coherent (l_P L) (l_U L) (l_V L) (hb_world h)"
    and "reg_ok cfg h" and "hd_Resolver d" and "unmarshal_envelope (l_U L) payload = Some e" and "env_Targets e = []"
    and "channel_scope (l_U L) (env_Data e) = Some ch" and "ch \<noteq> serverPermKey"
    and "hb_conn (handlePubSubEvent L d payload h) i \<noteq> hb_conn h i"
  shows "i \<in> set (all_registered h) \<and> answers (l_P L) (db_perm_data (w_db (hb_world h))) (ViewChannels (l_P L))
           (cl_userID (hb_conn h i)) ch True"
proof -
  obtain ts w where p: "permitted_clients (l_P L) PGStore (ValkeyCache (l_U L) (l_V L)) (hb_conn h) ch []
      (event_targets [] h) (hb_world h) = (ts, w)" by fastforce
  have r: "recipients L d e h = (ts, h\<lparr>hb_world := w\<rparr>)" using assms(4,6,7) p by (simp add: recipients_def)
  have ok: "set ts \<subseteq> {i \<in> set (event_targets [] h). answers (l_P L) (db_perm_data (w_db (hb_world h)))
      (ViewChannels (l_P L)) (cl_userID (hb_conn h i)) ch True}" "distinct ts"
    using world_resolver.world_permitted [OF assms(1) _ assms(8) _ p] assms(2) event_targets_sub(1) [OF assms(3)]
    by (simp_all add: world_coherent_def)
  have "set ts \<subseteq> set (event_targets (env_Targets e) h)" using ok(1) assms(6) by auto
  then have "i \<in> set ts" using event_conn [OF assms(5) r ok(2), of i] assms(9) by (auto split: if_splits)
  then show ?thesis using ok(1) targets_registered by blast
qed

definition sample_hub :: "vstore hub" where
  "sample_hub = \<lparr>hb_clients = [(2, [0, 2]), (3, [1])],
     hb_conn = (\<lambda>i. newClient\<lparr>cl_userID := (if i = 1 then 3 else 2), cl_identified := True\<rparr>),
     hb_next = 3, hb_offline = [], hb_world = sample_world\<rparr>"

lemma sample_hub_ok: "reg_ok \<lparr>cfg_GatewayMaxConnections = 4, cfg_GatewayReadyMemberLimit = 10, cfg_RateLimitWSCount = 100,
    cfg_RateLimitWSWindowSeconds = 60, cfg_JWTSecret = [], cfg_ServerURL = []\<rparr> sample_hub"
  by (simp add: reg_ok_def slot_ok_def all_registered_def sample_hub_def newClient_def)

definition sample_event :: "uuid list \<Rightarrow> bytes" where
  "sample_event us = Json (JObj [(''t'', JStr ''MESSAGE_CREATE''), (''d'', JObj [(''channel_id'', JStr (uuid_String ref_uuid 10))]),
     (''targets'', JArr (map (\<lambda>u. JStr (uuid_String ref_uuid u)) us))])"

definition sample_envelope :: "uuid list \<Rightarrow> envelope" where
  "sample_envelope us = \<lparr>env_Type = ''MESSAGE_CREATE'', env_Data = JObj [(''channel_id'', JStr (uuid_String ref_uuid 10))],
     env_Targets = us\<rparr>"

lemma sample_unmarshal: "unmarshal_envelope ref_uuid (sample_event us) = Some (sample_envelope us)"
proof -
  have "those (map (\<lambda>j. if j = JNull then Some uuid_Nil else Option.bind (json_string j) (uuid_Parse ref_uuid))
      (map (\<lambda>u. JStr (uuid_String ref_uuid u)) us)) = Some us"
    by (induction us) simp_all
  then show ?thesis
    by (simp add: unmarshal_envelope_def sample_event_def sample_envelope_def json_read_def json_field_def ascii_lower_def comp_def)
qed

lemma sample_scope: "channel_scope ref_uuid (env_Data (sample_envelope us)) = Some 10"
  by (simp add: channel_scope_def sample_envelope_def json_field_def ascii_lower_def)

lemma sample_parts [simp]: "l_P sample_libs = ref_perm" "l_U sample_libs = ref_uuid" "l_V sample_libs = mem_valkey"
    "hb_world sample_hub = sample_world" "env_Targets (sample_envelope us) = us"
  by (simp_all add: sample_libs_def sample_hub_def sample_envelope_def)

text \<open>
  C7. Delivery of channel events: while the database answers, an event that names an existing
  channel and no targets reaches every registered connection whose user may view the
  channel, exactly once, numbered one above the last number of that connection, and
  leaves all other connections as they were.
\<close>

theorem event_delivered_exactly:
  assumes "world_resolver (l_P L) (l_U L) (l_V L)" and "world_coherent (l_P L) (l_U L) (l_V L) (hb_world h)"
    and "reg_ok cfg h" and "hd_Resolver d" and "unmarshal_envelope (l_U L) payload = Some e" and "env_Targets e = []"
    and "channel_scope (l_U L) (env_Data e) = Some ch" and "ch \<noteq> serverPermKey"
    and "pg_outcomes (w_db (hb_world h)) = []" and "pd_channel (db_perm_data (w_db (hb_world h))) ch \<noteq> None"
  shows "hb_conn (handlePubSubEvent L d payload h) i =
    (if i \<in> set (all_registered h) \<and> answers (l_P L) (db_perm_data (w_db (hb_world h))) (ViewChannels (l_P L))
           (cl_userID (hb_conn h i)) ch True
     then stamped (l_M L) e (hb_conn h i) else hb_conn h i)"
  by (rule scoped_event_conn [OF assms])

text \<open>
  An event with target users reaches exactly the registered connections of those users.
\<close>

theorem event_targets_exactly:
  assumes "reg_ok cfg h" and "unmarshal_envelope (l_U L) payload = Some e" and "env_Targets e \<noteq> []"
  shows "hb_conn (handlePubSubEvent L d payload h) i =
    (if i \<in> set (all_registered h) \<and> cl_userID (hb_conn h i) \<in> set (env_Targets e)
     then stamped (l_M L) e (hb_conn h i) else hb_conn h i)"
proof -
  have r: "recipients L d e h = (event_targets (env_Targets e) h, h)"
    using assms(3) by (simp add: recipients_def split: option.split)
  show ?thesis
    using event_conn [OF assms(2) r event_targets_sub(1) [OF assms(1)], of i] event_targets_sub(2) [OF assms(1)] assms(3) by simp
qed

theorem event_targets_exactly_witness:
  "hb_conn (handlePubSubEvent sample_libs sample_deps (sample_event [3]) sample_hub) 1
     = stamped ref_proto (sample_envelope [3]) (hb_conn sample_hub 1)
   \<and> hb_conn (handlePubSubEvent sample_libs sample_deps (sample_event [3]) sample_hub) 0 = hb_conn sample_hub 0"
proof -
  have u: "unmarshal_envelope (l_U sample_libs) (sample_event [3]) = Some (sample_envelope [3])" by (simp add: sample_unmarshal)
  show ?thesis
    using event_targets_exactly [OF sample_hub_ok u, of sample_deps 0] event_targets_exactly [OF sample_hub_ok u, of sample_deps 1]
    by (simp add: all_registered_def sample_hub_def newClient_def sample_libs_def)
qed

lemma sample_view: "answers ref_perm (db_perm_data sample_db) 1 2 10 True"
proof -
  obtain w' where R: "Resolve ref_perm PGStore (ValkeyCache ref_uuid mem_valkey) 2 10 sample_world = (Inr 25, w')"
    using sample_Resolve by (metis prod.collapse)
  have "effective ref_perm (db_perm_data sample_db) 2 10 25"
    using mem_resolver.world_Resolve [OF _ _ R] sample_coherent
    by (simp add: world_coherent_def sample_world_def serverPermKey_def uuid_Nil_def)
  from answersI [OF this, of 1] show ?thesis by (simp add: ref_perm_def)
qed

lemma sample_conn_0:
  "hb_conn (handlePubSubEvent sample_libs sample_deps (sample_event []) sample_hub) 0
     = stamped ref_proto (sample_envelope []) (hb_conn sample_hub 0)"
proof -
  have u: "unmarshal_envelope (l_U sample_libs) (sample_event []) = Some (sample_envelope [])" by (simp add: sample_unmarshal)
  have s: "channel_scope (l_U sample_libs) (env_Data (sample_envelope [])) = Some 10" by (simp add: sample_scope)
  have "answers ref_perm (db_perm_data (w_db sample_world)) (ViewChannels ref_perm) (cl_userID (hb_conn sample_hub 0)) 10 True"
    using sample_view by (simp add: ref_perm_def sample_world_def sample_hub_def)
  then show ?thesis
    using scoped_event_conn [OF _ _ sample_hub_ok _ u _ s, of sample_deps 0] mem_resolver.world_resolver_axioms
      sample_coherent
    by (simp add: serverPermKey_def uuid_Nil_def sample_world_def db_perm_data_def sample_db_def sample_channel_def channel_info_row_def
        all_registered_def) (simp add: sample_hub_def sample_libs_def)
qed

theorem event_delivered_exactly_witness:
  "hb_conn (handlePubSubEvent sample_libs sample_deps (sample_event []) sample_hub) 0
     = stamped ref_proto (sample_envelope []) (hb_conn sample_hub 0)"
proof -
  have u: "unmarshal_envelope (l_U sample_libs) (sample_event []) = Some (sample_envelope [])" by (simp add: sample_unmarshal)
  have s: "channel_scope (l_U sample_libs) (env_Data (sample_envelope [])) = Some 10" by (simp add: sample_scope)
  have "answers ref_perm (db_perm_data (w_db sample_world)) (ViewChannels ref_perm) (cl_userID (hb_conn sample_hub 0)) 10 True"
    using sample_view by (simp add: ref_perm_def sample_world_def sample_hub_def)
  then show ?thesis
    using event_delivered_exactly [OF _ _ sample_hub_ok _ u _ s, of sample_deps 0] mem_resolver.world_resolver_axioms
      sample_coherent
    by (simp add: serverPermKey_def uuid_Nil_def sample_world_def db_perm_data_def sample_db_def sample_channel_def channel_info_row_def
        all_registered_def) (simp add: sample_hub_def sample_libs_def)
qed

theorem event_viewers_only_witness:
  "0 \<in> set (all_registered sample_hub) \<and> answers ref_perm (db_perm_data sample_db) (ViewChannels ref_perm) 2 10 True"
proof -
  have u: "unmarshal_envelope (l_U sample_libs) (sample_event []) = Some (sample_envelope [])" by (simp add: sample_unmarshal)
  have s: "channel_scope (l_U sample_libs) (env_Data (sample_envelope [])) = Some 10" by (simp add: sample_scope)
  have "hb_conn (handlePubSubEvent sample_libs sample_deps (sample_event []) sample_hub) 0 \<noteq> hb_conn sample_hub 0"
    (is "?c \<noteq> _")
  proof -
    have "cl_seq ?c = 1"
      unfolding sample_conn_0
      by (simp add: stamped_def sample_envelope_def ephemeralEvent_def ref_proto_def sample_hub_def newClient_def)
    then show ?thesis by (auto simp: sample_hub_def newClient_def)
  qed
  from event_viewers_only [OF _ _ sample_hub_ok _ u _ s _ this] mem_resolver.world_resolver_axioms sample_coherent
  show ?thesis by (simp add: serverPermKey_def uuid_Nil_def) (simp add: sample_world_def sample_hub_def)
qed

end
