(* ===== verification/Go_Strings.thy ===== *)
theory Go_Strings
  imports Prelude
begin

text \<open>
  What the validators of the server use of Go's \<open>unicode/utf8\<close> and \<open>strings\<close> packages. A string is a
  list of bytes; a rune that is not well-formed UTF-8 decodes to one replacement rune of one
  byte, as the packages document.
\<close>

section \<open>Runes\<close>

definition byte :: "char \<Rightarrow> nat" where
  "byte c = of_char c"

definition RuneError :: nat where
  "RuneError = 65533"

definition cont :: "nat \<Rightarrow> nat \<Rightarrow> nat \<Rightarrow> bool" where
  "cont lo hi b \<longleftrightarrow> lo \<le> b \<and> b \<le> hi"

text \<open>The accepted range of the second byte after a given first byte.\<close>

definition second_range :: "nat \<Rightarrow> nat \<times> nat" where
  "second_range b =
     (if b = 224 then (160, 191) else if b = 237 then (128, 159)
      else if b = 240 then (144, 191) else if b = 244 then (128, 143) else (128, 191))"

definition rune_size :: "nat \<Rightarrow> nat" where
  "rune_size b =
     (if b < 128 then 1 else if 194 \<le> b \<and> b \<le> 223 then 2 else if 224 \<le> b \<and> b \<le> 239 then 3
      else if 240 \<le> b \<and> b \<le> 244 then 4 else 0)"

text \<open>\<open>utf8.DecodeRune\<close>: the rune and its width; \<open>(RuneError, 0)\<close> on the empty string.\<close>

definition DecodeRune :: "string \<Rightarrow> nat \<times> nat" where
  "DecodeRune s =
     (case map byte (take 4 s) of
        [] \<Rightarrow> (RuneError, 0)
      | b0 # bs \<Rightarrow>
          (let n = rune_size b0; (lo, hi) = second_range b0
           in if n = 1 then (b0, 1)
              else if n = 0 \<or> length bs < n - 1 \<or> \<not> cont lo hi (bs ! 0) \<or> (\<exists>b \<in> set (take (n - 2) (tl bs)). \<not> cont 128 191 b)
              then (RuneError, 1)
              else if n = 2 then ((b0 - 192) * 64 + (bs ! 0 - 128), 2)
              else if n = 3 then (((b0 - 224) * 64 + (bs ! 0 - 128)) * 64 + (bs ! 1 - 128), 3)
              else ((((b0 - 240) * 64 + (bs ! 0 - 128)) * 64 + (bs ! 1 - 128)) * 64 + (bs ! 2 - 128), 4)))"

lemma DecodeRune_Nil [simp]: "DecodeRune [] = (RuneError, 0)"
  by (simp add: DecodeRune_def)

lemma DecodeRune_width:
  assumes "s \<noteq> []"
  shows "1 \<le> snd (DecodeRune s)" and "snd (DecodeRune s) \<le> min 4 (length s)"
proof -
  obtain c t where s: "s = c # t" using assms by (cases s) auto
  have "rune_size (byte c) \<in> {0, 1, 2, 3, 4}" by (simp add: rune_size_def)
  then show "1 \<le> snd (DecodeRune s)" "snd (DecodeRune s) \<le> min 4 (length s)"
    by (auto simp: DecodeRune_def s Let_def split_def min_def not_less split: if_splits)
qed

text \<open>An ASCII byte is a rune of its own.\<close>

lemma DecodeRune_ascii: "byte c < 128 \<Longrightarrow> DecodeRune (c # s) = (byte c, 1)"
  by (simp add: DecodeRune_def rune_size_def split: prod.split)

text \<open>\<open>utf8.RuneCountInString\<close>\<close>

function RuneCount :: "string \<Rightarrow> nat" where
  "RuneCount s = (if s = [] then 0 else Suc (RuneCount (drop (snd (DecodeRune s)) s)))"
  by auto
termination
  by (relation "measure length") (use DecodeRune_width in \<open>fastforce simp: Suc_le_eq\<close>)+

declare RuneCount.simps [simp del]

lemma RuneCount_Nil [simp]: "RuneCount [] = 0"
  by (simp add: RuneCount.simps)

lemma RuneCount_0 [simp]: "RuneCount s = 0 \<longleftrightarrow> s = []"
  by (simp add: RuneCount.simps [of s])

lemma RuneCount_bounds: "RuneCount s \<le> length s \<and> length s \<le> 4 * RuneCount s"
proof (induction s rule: RuneCount.induct)
  case (1 s)
  show ?case
  proof (cases "s = []")
    case False
    then show ?thesis using "1.IH" DecodeRune_width [OF False] by (auto simp: RuneCount.simps [of s])
  qed simp
qed

lemma RuneCount_ascii: "\<forall>c \<in> set s. byte c < 128 \<Longrightarrow> RuneCount s = length s"
proof (induction s)
  case (Cons c s)
  then show ?case by (simp add: RuneCount.simps [of "c # s"] DecodeRune_ascii)
qed simp

section \<open>TrimSpace\<close>

text \<open>\<open>unicode.IsSpace\<close>\<close>

definition IsSpace :: "nat \<Rightarrow> bool" where
  "IsSpace r \<longleftrightarrow> r \<in> {9, 10, 11, 12, 13, 32, 133, 160, 5760, 8232, 8233, 8239, 8287, 12288} \<or> (8192 \<le> r \<and> r \<le> 8202)"

function TrimLeft :: "string \<Rightarrow> string" where
  "TrimLeft s = (if s \<noteq> [] \<and> IsSpace (fst (DecodeRune s)) then TrimLeft (drop (snd (DecodeRune s)) s) else s)"
  by auto
termination
  by (relation "measure length") (use DecodeRune_width in \<open>fastforce simp: Suc_le_eq\<close>)+

declare TrimLeft.simps [simp del]

text \<open>
  \<open>utf8.DecodeLastRune\<close>: looks back at most four bytes for one that can start a rune, and accepts
  the rune decoded there if it ends where the string ends.
\<close>

definition RuneStart :: "char \<Rightarrow> bool" where
  "RuneStart c \<longleftrightarrow> \<not> (128 \<le> byte c \<and> byte c \<le> 191)"

definition last_start :: "string \<Rightarrow> nat" where
  "last_start s =
     (let lim = length s - 4;
          cand = filter (\<lambda>i. RuneStart (s ! i)) (rev [lim..<length s - 1])
      in case cand of i # _ \<Rightarrow> i | [] \<Rightarrow> lim - 1)"

definition DecodeLastRune :: "string \<Rightarrow> nat \<times> nat" where
  "DecodeLastRune s =
     (if s = [] then (RuneError, 0)
      else if byte (last s) < 128 then (byte (last s), 1)
      else let start = last_start s; (r, size) = DecodeRune (drop start s)
           in if start + size \<noteq> length s then (RuneError, 1) else (r, size))"

lemma DecodeLastRune_width:
  assumes "s \<noteq> []"
  shows "1 \<le> snd (DecodeLastRune s)" and "snd (DecodeLastRune s) \<le> length s"
proof -
  have st: "last_start s < length s"
  proof -
    have "i < length s" if "filter (\<lambda>i. RuneStart (s ! i)) (rev [length s - 4..<length s - 1]) = i # is" for i "is"
    proof -
      have "i \<in> set (filter (\<lambda>i. RuneStart (s ! i)) (rev [length s - 4..<length s - 1]))" unfolding that by simp
      then show ?thesis by auto
    qed
    then show ?thesis using assms by (auto simp: last_start_def Let_def split: list.split)
  qed
  then have "1 \<le> snd (DecodeRune (drop (last_start s) s))" by (intro DecodeRune_width(1)) simp
  then show "1 \<le> snd (DecodeLastRune s)" "snd (DecodeLastRune s) \<le> length s"
    using assms st by (auto simp: DecodeLastRune_def Let_def Suc_le_eq split: prod.split)
qed

function TrimRight :: "string \<Rightarrow> string" where
  "TrimRight s =
     (if s \<noteq> [] \<and> IsSpace (fst (DecodeLastRune s)) then TrimRight (take (length s - snd (DecodeLastRune s)) s) else s)"
  by auto
termination
  by (relation "measure length") (use DecodeLastRune_width in \<open>fastforce simp: Suc_le_eq\<close>)+

declare TrimRight.simps [simp del]

definition TrimSpace :: "string \<Rightarrow> string" where
  "TrimSpace s = TrimRight (TrimLeft s)"

lemma TrimRight_length: "length (TrimRight s) \<le> length s"
  by (induction s rule: TrimRight.induct) (subst TrimRight.simps, auto)

lemma TrimLeft_length: "length (TrimLeft s) \<le> length s"
  by (induction s rule: TrimLeft.induct) (subst TrimLeft.simps, auto)

lemma TrimSpace_length: "length (TrimSpace s) \<le> length s"
  using TrimRight_length [of "TrimLeft s"] TrimLeft_length [of s] by (simp add: TrimSpace_def)

text \<open>What is left does not end in white space.\<close>

lemma TrimRight_end: "TrimRight s \<noteq> [] \<Longrightarrow> \<not> IsSpace (fst (DecodeLastRune (TrimRight s)))"
proof (induction s rule: TrimRight.induct)
  case (1 s)
  show ?case
  proof (cases "s \<noteq> [] \<and> IsSpace (fst (DecodeLastRune s))")
    case True
    then show ?thesis using "1.IH" "1.prems" by (simp add: TrimRight.simps [of s])
  next
    case False
    then have "TrimRight s = s" by (auto simp: TrimRight.simps [of s])
    then show ?thesis using False "1.prems" by auto
  qed
qed

end
