(* ===== verification/Http.thy ===== *)
theory Http
  imports Extern
begin

text \<open>
  \<open>internal/httputil/response.go\<close>: responses, parsing of route and query parameters, the
  authenticated user. A request holds what the handlers read of the framework's context;
  a parameter that is absent reads as the empty string. Error codes are the constants of
  the protocol package, by name; those of a single group of endpoints are \<open>Coded\<close> with the
  name of the constant.
\<close>

datatype Code =
    ValidationError | InvalidBody | InternalError | MissingPermissions
  | MissingChannelID | InvalidChannelID | UnknownOverride
  | UnknownRole | RoleHierarchy | MaxRolesReached | AlreadyExists
  | UnknownMember | UnknownBan | AlreadyMember | ServerOwner | MembershipRequired
  | Coded string

text \<open>The payload of a successful response is a protocol model; \<open>'p\<close> is its type.\<close>

datatype 'p body = Empty | SuccessResponse 'p | ErrorResponse Code string

record 'p response =
  rs_status :: nat
  rs_body :: "'p body"

record request =
  rq_params :: "string \<Rightarrow> string"
  rq_query :: "string \<Rightarrow> string"
  rq_userID :: "uuid option"

text \<open>
  What a handler returns to the framework: a response it wrote, an error value that the
  framework's error handler renders, or the request passed on to the next handler.
\<close>

datatype 'p reaction = Respond "'p response" | Raise nat string | Next

definition Success :: "'p \<Rightarrow> 'p reaction" where
  "Success data = Respond \<lparr>rs_status = 200, rs_body = SuccessResponse data\<rparr>"

definition SuccessStatus :: "nat \<Rightarrow> 'p \<Rightarrow> 'p reaction" where
  "SuccessStatus status data = Respond \<lparr>rs_status = status, rs_body = SuccessResponse data\<rparr>"

definition Fail :: "nat \<Rightarrow> Code \<Rightarrow> string \<Rightarrow> 'p reaction" where
  "Fail status code message = Respond \<lparr>rs_status = status, rs_body = ErrorResponse code message\<rparr>"

definition SendStatus :: "nat \<Rightarrow> 'p reaction" where
  "SendStatus status = Respond \<lparr>rs_status = status, rs_body = Empty\<rparr>"

text \<open>\<open>strings.TrimSuffix(param, "ID")\<close>\<close>

definition TrimSuffix :: "string \<Rightarrow> string \<Rightarrow> string" where
  "TrimSuffix s suf =
     (if length suf \<le> length s \<and> drop (length s - length suf) s = suf then take (length s - length suf) s else s)"

definition ParseUUIDParam :: "uuid_lib \<Rightarrow> request \<Rightarrow> string \<Rightarrow> Code \<Rightarrow> 'p reaction + uuid" where
  "ParseUUIDParam U c param code =
     (case uuid_Parse U (rq_params c param) of
        None \<Rightarrow> Inl (Fail 400 code (''Invalid '' @ TrimSuffix param ''ID'' @ '' ID'' @ '' format''))
      | Some i \<Rightarrow> Inr i)"

text \<open>\<open>strconv.Atoi\<close> on a 64-bit platform accepts what \<open>ParseInt(s, 10, 64)\<close> accepts.\<close>

definition ParseIntQuery :: "request \<Rightarrow> string \<Rightarrow> 'p reaction + int" where
  "ParseIntQuery c param =
     (let raw = rq_query c param
      in if raw = [] then Inr 0
         else case ParseInt64 raw of
                None \<Rightarrow> Inl (Fail 400 ValidationError (''Invalid '' @ param @ '' parameter''))
              | Some v \<Rightarrow> Inr v)"

definition UserID :: "request \<Rightarrow> 'p reaction + uuid" where
  "UserID c =
     (case rq_userID c of
        None \<Rightarrow> Inl (Raise 401 ''Missing user identity'')
      | Some i \<Rightarrow> Inr i)"

fun ok_reaction :: "'p reaction \<Rightarrow> bool" where
  "ok_reaction (Respond r) = (rs_status r < 300)"
| "ok_reaction (Raise _ _) = False"
| "ok_reaction Next = True"

lemma ok_reaction_simps [simp]:
  "ok_reaction (Success j)" "ok_reaction (Fail n code m) \<longleftrightarrow> n < 300"
  "ok_reaction (SuccessStatus n j) \<longleftrightarrow> n < 300" "ok_reaction (SendStatus n) \<longleftrightarrow> n < 300"
  by (simp_all add: Success_def Fail_def SuccessStatus_def SendStatus_def)

lemma reaction_distinct [simp]:
  "Success j \<noteq> Next" "Fail n code m \<noteq> Next" "SuccessStatus n j \<noteq> Next" "SendStatus n \<noteq> Next"
  by (simp_all add: Success_def Fail_def SuccessStatus_def SendStatus_def)

lemma ParseUUIDParam_ok: "ParseUUIDParam U c param code = Inr i \<longleftrightarrow> uuid_Parse U (rq_params c param) = Some i"
  by (auto simp: ParseUUIDParam_def split: option.splits)

lemma ParseUUIDParam_fail: "ParseUUIDParam U c param code = Inl rx \<Longrightarrow> \<not> ok_reaction rx"
  by (auto simp: ParseUUIDParam_def split: option.splits)

lemma UserID_ok: "UserID c = Inr i \<longleftrightarrow> rq_userID c = Some i"
  by (auto simp: UserID_def split: option.splits)

lemma UserID_fail: "UserID c = Inl rx \<Longrightarrow> \<not> ok_reaction rx"
  by (auto simp: UserID_def split: option.splits)

lemma ParseUUIDParam_Respond:
  "ParseUUIDParam U c param code = Inl (Respond resp) \<Longrightarrow> rs_status resp = 400"
  by (auto simp: ParseUUIDParam_def Fail_def split: option.splits)

lemma UserID_Respond: "UserID c \<noteq> Inl (Respond resp)"
  by (auto simp: UserID_def split: option.splits)

lemmas reaction_defs = Success_def SuccessStatus_def Fail_def SendStatus_def

end
