(* ===== verification/Member.thy ===== *)
theory Member
  imports Go_Strings World Protocol Http
begin

text \<open>
  \<open>internal/member\<close>: nickname validation, the repository over \<open>members\<close>, \<open>bans\<close> and \<open>member_roles\<close>, and the
  membership middleware. The status of a member is the text the check constraint of the
  table admits. A member row joined with its user and its roles is \<open>WithProfile\<close>.
\<close>

section \<open>Types and validation\<close>

definition member_ErrNotFound :: error where "member_ErrNotFound = Sentinel ''member.ErrNotFound''"
definition ErrBanNotFound :: error where "ErrBanNotFound = Sentinel ''member.ErrBanNotFound''"
definition ErrNicknameLength :: error where "ErrNicknameLength = Sentinel ''member.ErrNicknameLength''"
definition ErrAlreadyMember :: error where "ErrAlreadyMember = Sentinel ''member.ErrAlreadyMember''"
definition ErrAlreadyBanned :: error where "ErrAlreadyBanned = Sentinel ''member.ErrAlreadyBanned''"
definition ErrEveryoneRole :: error where "ErrEveryoneRole = Sentinel ''member.ErrEveryoneRole''"
definition ErrTimeoutInPast :: error where "ErrTimeoutInPast = Sentinel ''member.ErrTimeoutInPast''"
definition ErrNotPending :: error where "ErrNotPending = Sentinel ''member.ErrNotPending''"

lemmas member_errors = member_ErrNotFound_def ErrBanNotFound_def ErrNicknameLength_def ErrAlreadyMember_def
  ErrAlreadyBanned_def ErrEveryoneRole_def ErrTimeoutInPast_def ErrNotPending_def

fun status_text :: "member_status \<Rightarrow> string" where
  "status_text Pending = ''pending''"
| "status_text Active = ''active''"
| "status_text TimedOut = ''timed_out''"

record WithProfile =
  wp_UserID :: uuid
  wp_Username :: string
  wp_DisplayName :: "string option"
  wp_AvatarKey :: "string option"
  wp_Nickname :: "string option"
  wp_Status :: member_status
  wp_TimeoutUntil :: "time option"
  wp_JoinedAt :: time
  wp_RoleIDs :: "uuid list"

definition member_ToModel :: "uuid_lib \<Rightarrow> (time \<Rightarrow> string) \<Rightarrow> WithProfile \<Rightarrow> MemberModel" where
  "member_ToModel U Z m =
     \<lparr>mm_User = \<lparr>mu_ID = uuid_String U (wp_UserID m), mu_Username = wp_Username m, mu_DisplayName = wp_DisplayName m,
                 mu_AvatarKey = wp_AvatarKey m\<rparr>,
      mm_Nickname = wp_Nickname m, mm_JoinedAt = Z (wp_JoinedAt m), mm_Roles = map (uuid_String U) (wp_RoleIDs m),
      mm_Status = status_text (wp_Status m), mm_TimeoutUntil = map_option Z (wp_TimeoutUntil m)\<rparr>"

record BanRecord =
  br_UserID :: uuid
  br_Username :: string
  br_DisplayName :: "string option"
  br_AvatarKey :: "string option"
  br_Reason :: "string option"
  br_BannedBy :: "uuid option"
  br_ExpiresAt :: "time option"
  br_CreatedAt :: time

definition ValidateNickname :: "string option \<Rightarrow> string option result" where
  "ValidateNickname nickname =
     (case nickname of
        None \<Rightarrow> Inr None
      | Some s \<Rightarrow>
          (let trimmed = TrimSpace s
           in if RuneCount trimmed < 1 \<or> RuneCount trimmed > 32 then Inl ErrNicknameLength else Inr (Some trimmed)))"

definition member_DefaultLimit :: int where "member_DefaultLimit = 50"
definition member_MaxLimit :: int where "member_MaxLimit = 100"

definition member_ClampLimit :: "int \<Rightarrow> int" where
  "member_ClampLimit limit =
     (if limit \<le> 0 then member_DefaultLimit else if limit > member_MaxLimit then member_MaxLimit else limit)"

section \<open>Queries\<close>

text \<open>The join of a member with its user and its roles.\<close>

definition profile :: "db \<Rightarrow> member_row \<Rightarrow> WithProfile option" where
  "profile d m =
     map_option (\<lambda>u. \<lparr>wp_UserID = m_user_id m, wp_Username = u_username u, wp_DisplayName = u_display_name u,
        wp_AvatarKey = u_avatar_key u, wp_Nickname = m_nickname m, wp_Status = m_status m,
        wp_TimeoutUntil = m_timeout_until m, wp_JoinedAt = m_joined_at m,
        wp_RoleIDs = map mr_role_id (filter (\<lambda>mr. mr_user_id mr = m_user_id m) (t_member_roles d))\<rparr>)
       (find (\<lambda>u. u_id u = m_user_id m) (t_users d))"

definition member_key :: "member_row \<Rightarrow> time \<times> int" where
  "member_key m = (m_joined_at m, uint (m_user_id m))"

text \<open>\<open>(joined_at, user_id) > (SELECT ...)\<close>: an unknown cursor compares to nothing.\<close>

definition after_member :: "uuid option \<Rightarrow> db \<Rightarrow> member_row \<Rightarrow> bool" where
  "after_member after d m =
     (case after of
        None \<Rightarrow> True
      | Some a \<Rightarrow>
          (case find (\<lambda>x. m_user_id x = a) (t_members d) of
             None \<Rightarrow> False
           | Some x \<Rightarrow> key_less (member_key x) (member_key m)))"

definition member_rows :: "uuid option \<Rightarrow> int \<Rightarrow> db \<Rightarrow> WithProfile list" where
  "member_rows after limit d =
     take (nat limit) (List.map_filter (profile d)
       (sort_by member_key (filter (\<lambda>m. m_status m \<noteq> Pending \<and> after_member after d m) (t_members d))))"

definition member_List :: "uuid option \<Rightarrow> int \<Rightarrow> (WithProfile list, db) call" where
  "member_List after limit d =
     (case pg_query (member_rows after limit) d of
        (Inl e, d') \<Rightarrow> (Inl (Wrap ''query members'' e), d')
      | (Inr ms, d') \<Rightarrow> (Inr ms, d'))"

definition find_member :: "uuid \<Rightarrow> db \<Rightarrow> member_row option" where
  "find_member u d = find (\<lambda>m. m_user_id m = u) (t_members d)"

definition member_row_query :: "bool \<Rightarrow> uuid \<Rightarrow> db \<Rightarrow> WithProfile option" where
  "member_row_query anyStatus u d =
     (case find_member u d of
        None \<Rightarrow> None
      | Some m \<Rightarrow> if anyStatus \<or> m_status m \<noteq> Pending then profile d m else None)"

definition scanWithProfile :: "(WithProfile option, db) call \<Rightarrow> (WithProfile, db) call" where
  "scanWithProfile q d =
     (case q d of
        (Inl e, d') \<Rightarrow> (Inl (Wrap ''scan member'' e), d')
      | (Inr None, d') \<Rightarrow> (Inl (Wrap ''scan member'' pgx_ErrNoRows), d')
      | (Inr (Some m), d') \<Rightarrow> (Inr m, d'))"

definition GetByUserID :: "uuid \<Rightarrow> (WithProfile, db) call" where
  "GetByUserID userID d =
     (case scanWithProfile (pg_query (member_row_query False userID)) d of
        (Inl e, d') \<Rightarrow>
          (if errors_Is e pgx_ErrNoRows then (Inl member_ErrNotFound, d')
           else (Inl (Wrap ''query member by user id'' e), d'))
      | (Inr m, d') \<Rightarrow> (Inr m, d'))"

definition GetByUserIDAnyStatus :: "uuid \<Rightarrow> (WithProfile, db) call" where
  "GetByUserIDAnyStatus userID d =
     (case scanWithProfile (pg_query (member_row_query True userID)) d of
        (Inl e, d') \<Rightarrow>
          (if errors_Is e pgx_ErrNoRows then (Inl member_ErrNotFound, d')
           else (Inl (Wrap ''query member by user id (any status)'' e), d'))
      | (Inr m, d') \<Rightarrow> (Inr m, d'))"

definition GetStatus :: "uuid \<Rightarrow> (member_status, db) call" where
  "GetStatus userID d =
     (case pg_query (\<lambda>d. map_option m_status (find_member userID d)) d of
        (Inl e, d') \<Rightarrow> (Inl (Wrap ''query member status'' e), d')
      | (Inr None, d') \<Rightarrow> (Inl member_ErrNotFound, d')
      | (Inr (Some s), d') \<Rightarrow> (Inr s, d'))"

section \<open>Updates\<close>

text \<open>\<open>UPDATE members SET ... WHERE ...\<close> with the number of rows affected.\<close>

definition update_members :: "(member_row \<Rightarrow> bool) \<Rightarrow> (member_row \<Rightarrow> member_row) \<Rightarrow> (nat, db) call" where
  "update_members hit f d =
     (Inr (length (filter hit (t_members d))), d\<lparr>t_members := map (\<lambda>m. if hit m then f m else m) (t_members d)\<rparr>)"

definition delete_members :: "uuid \<Rightarrow> (nat, db) call" where
  "delete_members u d =
     (Inr (length (filter (\<lambda>m. m_user_id m = u) (t_members d))),
      d\<lparr>t_members := filter (\<lambda>m. m_user_id m \<noteq> u) (t_members d)\<rparr>)"

definition UpdateNickname :: "uuid \<Rightarrow> string option \<Rightarrow> (WithProfile, db) call" where
  "UpdateNickname userID nickname d =
     (case pg_stmt (update_members (\<lambda>m. m_user_id m = userID) (\<lambda>m. m\<lparr>m_nickname := nickname\<rparr>)) d of
        (Inl e, d1) \<Rightarrow> (Inl (Wrap ''update nickname'' e), d1)
      | (Inr n, d1) \<Rightarrow> (if n = 0 then (Inl member_ErrNotFound, d1) else GetByUserID userID d1))"

definition member_Delete :: "uuid \<Rightarrow> (unit, db) call" where
  "member_Delete userID d =
     (case pg_stmt (delete_members userID) d of
        (Inl e, d1) \<Rightarrow> (Inl (Wrap ''delete member'' e), d1)
      | (Inr n, d1) \<Rightarrow> (if n = 0 then (Inl member_ErrNotFound, d1) else (Inr (), d1)))"

definition repo_SetTimeout :: "time \<Rightarrow> uuid \<Rightarrow> time \<Rightarrow> (WithProfile, db) call" where
  "repo_SetTimeout now userID ends d =
     (if \<not> ends > now then (Inl ErrTimeoutInPast, d)
      else case pg_stmt (update_members (\<lambda>m. m_user_id m = userID)
                  (\<lambda>m. m\<lparr>m_status := TimedOut, m_timeout_until := Some ends\<rparr>)) d of
             (Inl e, d1) \<Rightarrow> (Inl (Wrap ''set timeout'' e), d1)
           | (Inr n, d1) \<Rightarrow> (if n = 0 then (Inl member_ErrNotFound, d1) else GetByUserID userID d1))"

definition repo_ClearTimeout :: "uuid \<Rightarrow> (WithProfile, db) call" where
  "repo_ClearTimeout userID d =
     (case pg_stmt (update_members (\<lambda>m. m_user_id m = userID)
             (\<lambda>m. m\<lparr>m_status := Active, m_timeout_until := None\<rparr>)) d of
        (Inl e, d1) \<Rightarrow> (Inl (Wrap ''clear timeout'' e), d1)
      | (Inr n, d1) \<Rightarrow> (if n = 0 then (Inl member_ErrNotFound, d1) else GetByUserID userID d1))"

section \<open>Bans\<close>

definition user_exists :: "uuid \<Rightarrow> db \<Rightarrow> bool" where
  "user_exists u d \<longleftrightarrow> u \<in> set (map u_id (t_users d))"

definition insert_ban :: "time \<Rightarrow> uuid \<Rightarrow> uuid \<Rightarrow> string option \<Rightarrow> time option \<Rightarrow> (unit, db) call" where
  "insert_ban now userID bannedBy reason expiresAt d =
     (if userID \<in> set (map b_user_id (t_bans d)) then (Inl unique_violation, d)
      else if \<not> user_exists userID d \<or> \<not> user_exists bannedBy d then (Inl foreign_key_violation, d)
      else (Inr (), d\<lparr>t_bans := t_bans d @ [\<lparr>b_user_id = userID, b_reason = reason, b_banned_by = Some bannedBy,
                         b_expires_at = expiresAt, b_created_at = now\<rparr>]\<rparr>))"

definition ban_tx :: "time \<Rightarrow> uuid \<Rightarrow> uuid \<Rightarrow> string option \<Rightarrow> time option \<Rightarrow> (unit, db) call" where
  "ban_tx now userID bannedBy reason expiresAt d =
     (case pg_stmt (insert_ban now userID bannedBy reason expiresAt) d of
        (Inl e, d1) \<Rightarrow> (if IsUniqueViolation e then (Inl ErrAlreadyBanned, d1) else (Inl (Wrap ''insert ban'' e), d1))
      | (Inr _, d1) \<Rightarrow>
          (case pg_stmt (delete_members userID) d1 of
             (Inl e, d2) \<Rightarrow> (Inl (Wrap ''remove member on ban'' e), d2)
           | (Inr _, d2) \<Rightarrow> (Inr (), d2)))"

definition Ban :: "time \<Rightarrow> uuid \<Rightarrow> uuid \<Rightarrow> string option \<Rightarrow> time option \<Rightarrow> (unit, db) call" where
  "Ban now userID bannedBy reason expiresAt = WithTx (ban_tx now userID bannedBy reason expiresAt)"

definition delete_ban :: "uuid \<Rightarrow> (nat, db) call" where
  "delete_ban u d =
     (Inr (length (filter (\<lambda>b. b_user_id b = u) (t_bans d))), d\<lparr>t_bans := filter (\<lambda>b. b_user_id b \<noteq> u) (t_bans d)\<rparr>)"

definition Unban :: "uuid \<Rightarrow> (unit, db) call" where
  "Unban userID d =
     (case pg_stmt (delete_ban userID) d of
        (Inl e, d1) \<Rightarrow> (Inl (Wrap ''delete ban'' e), d1)
      | (Inr n, d1) \<Rightarrow> (if n = 0 then (Inl ErrBanNotFound, d1) else (Inr (), d1)))"

text \<open>
  \<open>ORDER BY created_at DESC, user_id\<close>, and after a cursor the rows with
  \<open>(created_at, user_id) < (SELECT ...)\<close>.
\<close>

definition ban_order :: "ban_row \<Rightarrow> time \<times> int" where
  "ban_order b = (- b_created_at b, uint (b_user_id b))"

definition ban_tuple :: "ban_row \<Rightarrow> time \<times> int" where
  "ban_tuple b = (b_created_at b, uint (b_user_id b))"

definition after_ban :: "uuid option \<Rightarrow> db \<Rightarrow> ban_row \<Rightarrow> bool" where
  "after_ban after d b =
     (case after of
        None \<Rightarrow> True
      | Some a \<Rightarrow>
          (case find (\<lambda>x. b_user_id x = a) (t_bans d) of
             None \<Rightarrow> False
           | Some x \<Rightarrow> key_less (ban_tuple b) (ban_tuple x)))"

definition ban_record :: "db \<Rightarrow> ban_row \<Rightarrow> BanRecord option" where
  "ban_record d b =
     map_option (\<lambda>u. \<lparr>br_UserID = b_user_id b, br_Username = u_username u, br_DisplayName = u_display_name u,
        br_AvatarKey = u_avatar_key u, br_Reason = b_reason b, br_BannedBy = b_banned_by b,
        br_ExpiresAt = b_expires_at b, br_CreatedAt = b_created_at b\<rparr>)
       (find (\<lambda>u. u_id u = b_user_id b) (t_users d))"

definition ban_rows :: "uuid option \<Rightarrow> int \<Rightarrow> db \<Rightarrow> BanRecord list" where
  "ban_rows after limit d =
     take (nat limit) (List.map_filter (ban_record d) (sort_by ban_order (filter (after_ban after d) (t_bans d))))"

definition repo_ListBans :: "uuid option \<Rightarrow> int \<Rightarrow> (BanRecord list, db) call" where
  "repo_ListBans after limit d =
     (case pg_query (ban_rows after limit) d of
        (Inl e, d') \<Rightarrow> (Inl (Wrap ''query bans'' e), d')
      | (Inr bs, d') \<Rightarrow> (Inr bs, d'))"

definition IsBanned :: "uuid \<Rightarrow> (bool, db) call" where
  "IsBanned userID d =
     (case pg_query (\<lambda>d. userID \<in> set (map b_user_id (t_bans d))) d of
        (Inl e, d') \<Rightarrow> (Inl (Wrap ''check ban'' e), d')
      | (Inr b, d') \<Rightarrow> (Inr b, d'))"

section \<open>Roles and onboarding\<close>

definition insert_member_role :: "uuid \<Rightarrow> uuid \<Rightarrow> (unit, db) call" where
  "insert_member_role u r d =
     (let row = \<lparr>mr_user_id = u, mr_role_id = r\<rparr>
      in if row \<in> set (t_member_roles d) then (Inl unique_violation, d)
         else if \<not> user_exists u d \<or> r \<notin> set (map r_id (t_roles d)) then (Inl foreign_key_violation, d)
         else (Inr (), d\<lparr>t_member_roles := t_member_roles d @ [row]\<rparr>))"

definition repo_AssignRole :: "uuid \<Rightarrow> uuid \<Rightarrow> (unit, db) call" where
  "repo_AssignRole userID roleID d =
     (case pg_stmt (insert_member_role userID roleID) d of
        (Inl e, d') \<Rightarrow> (if IsUniqueViolation e then (Inl ErrAlreadyMember, d') else (Inl (Wrap ''assign role'' e), d'))
      | (Inr _, d') \<Rightarrow> (Inr (), d'))"

definition delete_member_role :: "uuid \<Rightarrow> uuid \<Rightarrow> (nat, db) call" where
  "delete_member_role u r d =
     (let row = \<lparr>mr_user_id = u, mr_role_id = r\<rparr>
      in (Inr (length (filter (\<lambda>x. x = row) (t_member_roles d))),
          d\<lparr>t_member_roles := filter (\<lambda>x. x \<noteq> row) (t_member_roles d)\<rparr>))"

definition repo_RemoveRole :: "uuid \<Rightarrow> uuid \<Rightarrow> (unit, db) call" where
  "repo_RemoveRole userID roleID d =
     (case pg_stmt (delete_member_role userID roleID) d of
        (Inl e, d') \<Rightarrow> (Inl (Wrap ''remove role'' e), d')
      | (Inr n, d') \<Rightarrow> (if n = 0 then (Inl member_ErrNotFound, d') else (Inr (), d')))"

definition insert_pending :: "time \<Rightarrow> uuid \<Rightarrow> (unit, db) call" where
  "insert_pending now userID d =
     (if userID \<in> set (map m_user_id (t_members d)) then (Inl unique_violation, d)
      else if \<not> user_exists userID d then (Inl foreign_key_violation, d)
      else (Inr (), d\<lparr>t_members := t_members d @ [\<lparr>m_user_id = userID, m_nickname = None, m_status = Pending,
                         m_timeout_until = None, m_joined_at = now, m_onboarded_at = None\<rparr>]\<rparr>))"

text \<open>\<open>INSERT INTO member_roles SELECT $1, id FROM roles WHERE is_everyone = true\<close>\<close>

definition insert_everyone :: "uuid \<Rightarrow> (unit, db) call" where
  "insert_everyone userID d =
     (let rows = map (\<lambda>r. \<lparr>mr_user_id = userID, mr_role_id = r_id r\<rparr>) (filter r_is_everyone (t_roles d))
      in if set rows \<inter> set (t_member_roles d) \<noteq> {} then (Inl unique_violation, d)
         else if rows \<noteq> [] \<and> \<not> user_exists userID d then (Inl foreign_key_violation, d)
         else (Inr (), d\<lparr>t_member_roles := t_member_roles d @ rows\<rparr>))"

definition create_pending_tx :: "time \<Rightarrow> uuid \<Rightarrow> (unit, db) call" where
  "create_pending_tx now userID d =
     (case pg_stmt (insert_pending now userID) d of
        (Inl e, d1) \<Rightarrow> (if IsUniqueViolation e then (Inl ErrAlreadyMember, d1) else (Inl (Wrap ''insert pending member'' e), d1))
      | (Inr _, d1) \<Rightarrow>
          (case pg_stmt (insert_everyone userID) d1 of
             (Inl e, d2) \<Rightarrow> (Inl (Wrap ''assign everyone role'' e), d2)
           | (Inr _, d2) \<Rightarrow> (Inr (), d2)))"

definition CreatePending :: "time \<Rightarrow> uuid \<Rightarrow> (WithProfile, db) call" where
  "CreatePending now userID d =
     (case WithTx (create_pending_tx now userID) d of
        (Inl e, d1) \<Rightarrow> (Inl e, d1)
      | (Inr _, d1) \<Rightarrow> GetByUserIDAnyStatus userID d1)"

text \<open>\<open>INSERT ... ON CONFLICT DO NOTHING\<close>\<close>

definition add_member_role :: "uuid \<Rightarrow> uuid \<Rightarrow> (unit, db) call" where
  "add_member_role u r d =
     (let row = \<lparr>mr_user_id = u, mr_role_id = r\<rparr>
      in if row \<in> set (t_member_roles d) then (Inr (), d)
         else if \<not> user_exists u d \<or> r \<notin> set (map r_id (t_roles d)) then (Inl foreign_key_violation, d)
         else (Inr (), d\<lparr>t_member_roles := t_member_roles d @ [row]\<rparr>))"

fun add_auto_roles :: "uuid \<Rightarrow> uuid list \<Rightarrow> (unit, db) call" where
  "add_auto_roles u [] d = (Inr (), d)"
| "add_auto_roles u (r # rs) d =
     (case pg_stmt (add_member_role u r) d of
        (Inl e, d1) \<Rightarrow> (Inl (Wrap ''assign auto-role'' e), d1)
      | (Inr _, d1) \<Rightarrow> add_auto_roles u rs d1)"

definition activate_tx :: "time \<Rightarrow> uuid \<Rightarrow> uuid list \<Rightarrow> (unit, db) call" where
  "activate_tx now userID autoRoles d =
     (case pg_stmt (update_members (\<lambda>m. m_user_id m = userID \<and> m_status m = Pending)
             (\<lambda>m. m\<lparr>m_status := Active, m_onboarded_at := Some now\<rparr>)) d of
        (Inl e, d1) \<Rightarrow> (Inl (Wrap ''activate member'' e), d1)
      | (Inr n, d1) \<Rightarrow> (if n = 0 then (Inl ErrNotPending, d1) else add_auto_roles userID autoRoles d1))"

definition Activate :: "time \<Rightarrow> uuid \<Rightarrow> uuid list \<Rightarrow> (WithProfile, db) call" where
  "Activate now userID autoRoles d =
     (case WithTx (activate_tx now userID autoRoles) d of
        (Inl e, d1) \<Rightarrow> (Inl e, d1)
      | (Inr _, d1) \<Rightarrow> GetByUserIDAnyStatus userID d1)"

section \<open>Middleware\<close>

definition RequireActiveMember :: "request \<Rightarrow> 'r world \<Rightarrow> 'p reaction \<times> 'r world" where
  "RequireActiveMember c w =
     (case UserID c of Inl rx \<Rightarrow> (rx, w) | Inr userID \<Rightarrow>
     (case on_db (GetStatus userID) w of
        (Inl e, w1) \<Rightarrow>
          (if errors_Is e member_ErrNotFound then (Fail 403 MembershipRequired ''Server membership is required'', w1)
           else (Fail 500 InternalError ''An internal error occurred'', w1))
      | (Inr status, w1) \<Rightarrow>
          (if status = Pending then (Fail 403 MembershipRequired ''Onboarding must be completed first'', w1)
           else (Next, w1))))"

end
