(* ===== verification/Permission_Invalidate.thy ===== *)
theory Permission_Invalidate
  imports Permission_Resolver
begin

text \<open>
  \<open>internal/permission/invalidate.go\<close>: the messages that announce permission changes, their
  publisher and the subscriber that removes cached entries. The pub/sub connection is the
  Valkey server's; \<open>handleMessage\<close> is called once for each payload that arrives.
\<close>

section \<open>Messages\<close>

record InvalidationMessage =
  im_Version :: int
  im_UserID :: "uuid option"
  im_ChannelID :: "uuid option"
  im_All :: bool

definition invalidationVersion :: int where
  "invalidationVersion = 1"

definition InvalidateChannelName :: string where
  "InvalidateChannelName = ''uncord.cache.invalidate''"

text \<open>The JSON form; \<open>omitempty\<close> drops nil pointers and \<open>false\<close>.\<close>

definition marshal_invalidation :: "uuid_lib \<Rightarrow> InvalidationMessage \<Rightarrow> bytes" where
  "marshal_invalidation U m = Json (JObj
     ([(''v'', JNum (im_Version m))]
      @ (case im_UserID m of None \<Rightarrow> [] | Some u \<Rightarrow> [(''user_id'', JStr (uuid_String U u))])
      @ (case im_ChannelID m of None \<Rightarrow> [] | Some c \<Rightarrow> [(''channel_id'', JStr (uuid_String U c))])
      @ (if im_All m then [(''all'', JBool True)] else [])))"

definition json_uuid :: "uuid_lib \<Rightarrow> json \<Rightarrow> uuid option option" where
  "json_uuid U j = Option.bind (json_string j) (\<lambda>s. map_option Some (uuid_Parse U s))"

definition unmarshal_invalidation :: "uuid_lib \<Rightarrow> bytes \<Rightarrow> InvalidationMessage option" where
  "unmarshal_invalidation U b =
     Option.bind (json_object b) (\<lambda>kvs.
     Option.bind (json_read ''v'' 0 json_int64 kvs) (\<lambda>v.
     Option.bind (json_read ''user_id'' None (json_uuid U) kvs) (\<lambda>u.
     Option.bind (json_read ''channel_id'' None (json_uuid U) kvs) (\<lambda>c.
     Option.bind (json_read ''all'' False json_bool kvs) (\<lambda>a.
       Some \<lparr>im_Version = v, im_UserID = u, im_ChannelID = c, im_All = a\<rparr>)))))"

section \<open>Publisher\<close>

definition publish :: "uuid_lib \<Rightarrow> 'r valkey \<Rightarrow> InvalidationMessage \<Rightarrow> (unit, 'r) call" where
  "publish U V msg r =
     redis_Do V (PUBLISH InvalidateChannelName (marshal_invalidation U (msg\<lparr>im_Version := invalidationVersion\<rparr>))) r"

definition no_message :: InvalidationMessage where
  "no_message = \<lparr>im_Version = 0, im_UserID = None, im_ChannelID = None, im_All = False\<rparr>"

definition InvalidateUser :: "uuid_lib \<Rightarrow> 'r valkey \<Rightarrow> uuid \<Rightarrow> (unit, 'r) call" where
  "InvalidateUser U V userID = publish U V (no_message\<lparr>im_UserID := Some userID\<rparr>)"

definition InvalidateChannel :: "uuid_lib \<Rightarrow> 'r valkey \<Rightarrow> uuid \<Rightarrow> (unit, 'r) call" where
  "InvalidateChannel U V channelID = publish U V (no_message\<lparr>im_ChannelID := Some channelID\<rparr>)"

definition InvalidateUserChannel :: "uuid_lib \<Rightarrow> 'r valkey \<Rightarrow> uuid \<Rightarrow> uuid \<Rightarrow> (unit, 'r) call" where
  "InvalidateUserChannel U V userID channelID =
     publish U V (no_message\<lparr>im_UserID := Some userID, im_ChannelID := Some channelID\<rparr>)"

definition InvalidateAll :: "uuid_lib \<Rightarrow> 'r valkey \<Rightarrow> (unit, 'r) call" where
  "InvalidateAll U V = publish U V (no_message\<lparr>im_All := True\<rparr>)"

text \<open>What a server state has published on the channel of invalidations since an earlier one.\<close>

definition published :: "'r valkey \<Rightarrow> 'r \<Rightarrow> 'r \<Rightarrow> bytes list" where
  "published V r r' =
     map snd (filter (\<lambda>(ch, _). ch = InvalidateChannelName)
       (drop (length (vlog (vk_store V r))) (vlog (vk_store V r'))))"

section \<open>Subscriber\<close>

text \<open>
  \<open>handleMessage\<close> returns the warning it logs, if any; the outer \<open>None\<close> is a scan that never
  returns.
\<close>

definition logged :: "unit result \<Rightarrow> string option" where
  "logged x = (case x of Inl _ \<Rightarrow> Some ''Cache invalidation failed'' | Inr _ \<Rightarrow> None)"

definition handleMessage :: "uuid_lib \<Rightarrow> 'r valkey \<Rightarrow> bytes \<Rightarrow> 'r \<Rightarrow> (string option \<times> 'r) option" where
  "handleMessage U V payload r =
     (case unmarshal_invalidation U payload of
        None \<Rightarrow> Some (Some ''Invalid invalidation message'', r)
      | Some msg \<Rightarrow>
          (if im_Version msg \<noteq> invalidationVersion
           then Some (Some ''Skipping invalidation message with incompatible version'', r)
           else if im_All msg then map_option (map_prod logged id) (cache_DeleteAll V r)
           else case (im_UserID msg, im_ChannelID msg) of
                  (Some u, Some c) \<Rightarrow> Some (map_prod logged id (cache_DeleteExact U V u c r))
                | (Some u, None) \<Rightarrow> map_option (map_prod logged id) (cache_DeleteByUser U V u r)
                | (None, Some c) \<Rightarrow> map_option (map_prod logged id) (cache_DeleteByChannel U V c r)
                | (None, None) \<Rightarrow> Some (None, r)))"

text \<open>The loop of \<open>Run\<close>: payloads are handled one after the other, in order.\<close>

fun Run :: "uuid_lib \<Rightarrow> 'r valkey \<Rightarrow> bytes list \<Rightarrow> 'r \<Rightarrow> (string option list \<times> 'r) option" where
  "Run U V [] r = Some ([], r)"
| "Run U V (b # bs) r =
     (case handleMessage U V b r of
        None \<Rightarrow> None
      | Some (l, r1) \<Rightarrow> map_option (map_prod (Cons l) id) (Run U V bs r1))"

section \<open>What a message covers\<close>

definition covers :: "InvalidationMessage \<Rightarrow> uuid \<Rightarrow> uuid \<Rightarrow> bool" where
  "covers m u c \<longleftrightarrow>
     im_All m \<or> ((im_UserID m \<noteq> None \<or> im_ChannelID m \<noteq> None)
       \<and> (\<forall>u'. im_UserID m = Some u' \<longrightarrow> u = u') \<and> (\<forall>c'. im_ChannelID m = Some c' \<longrightarrow> c = c'))"

context uuid_text
begin

lemma json_uuid_String [simp]: "json_uuid U (JStr (uuid_String U u)) = Some (Some u)"
  by (simp add: json_uuid_def)

lemma unmarshal_marshal:
  assumes "- (2 ^ 63) \<le> im_Version m" and "im_Version m < 2 ^ 63"
  shows "unmarshal_invalidation U (marshal_invalidation U m) = Some m"
  using assms
  by (cases m) (auto simp: unmarshal_invalidation_def marshal_invalidation_def json_read_def json_field_def
      ascii_lower_def split: option.splits)

end

context valkey_cache
begin

lemma returns:
  "\<exists>x r'. cache_DeleteAll V r = Some (x, r')"
  "\<exists>x r'. cache_DeleteByUser U V u r = Some (x, r')"
  "\<exists>x r'. cache_DeleteByChannel U V c r = Some (x, r')"
  using scanAndDelete_returns
  unfolding cache_DeleteAll_def cache_DeleteByUser_def cache_DeleteByChannel_def by (metis surj_pair)+

lemma handleMessage_returns: "\<exists>l r'. handleMessage U V b r = Some (l, r')"
  using returns
  by (auto simp: handleMessage_def split: option.splits prod.splits)
    (metis option.map(2) surj_pair)+

lemma logged_None [simp]: "logged x = None \<longleftrightarrow> x = Inr ()"
  by (auto simp: logged_def split: sum.splits)

lemma handleMessage_ok:
  assumes "handleMessage U V (marshal_invalidation U (m\<lparr>im_Version := invalidationVersion\<rparr>)) r = Some (None, r')"
  shows "cache_view U V r' u c = (if covers m u c then None else cache_view U V r u c)"
proof -
  have "unmarshal_invalidation U (marshal_invalidation U (m\<lparr>im_Version := invalidationVersion\<rparr>))
      = Some (m\<lparr>im_Version := invalidationVersion\<rparr>)"
    by (rule unmarshal_marshal) (simp_all add: invalidationVersion_def)
  with assms have h: "(if im_All m then map_option (map_prod logged id) (cache_DeleteAll V r)
     else case (im_UserID m, im_ChannelID m) of
       (Some u, Some c) \<Rightarrow> Some (map_prod logged id (cache_DeleteExact U V u c r))
     | (Some u, None) \<Rightarrow> map_option (map_prod logged id) (cache_DeleteByUser U V u r)
     | (None, Some c) \<Rightarrow> map_option (map_prod logged id) (cache_DeleteByChannel U V c r)
     | (None, None) \<Rightarrow> Some (None, r)) = Some (None, r')"
    by (cases m; cases "im_UserID m"; cases "im_ChannelID m") (auto simp: handleMessage_def)
  show ?thesis
  proof (cases "im_All m")
    case True
    with h have "cache_DeleteAll V r = Some (Inr (), r')" by (auto simp: map_prod_def split: prod.splits)
    with True show ?thesis by (simp add: covers_def cache_DeleteAll_ok)
  next
    case False
    with h show ?thesis
      by (cases "im_UserID m"; cases "im_ChannelID m")
        (auto simp: covers_def map_prod_def prod_eq_iff cache_DeleteByUser_ok cache_DeleteByChannel_ok
          cache_DeleteExact_ok split: prod.splits)
  qed
qed

text \<open>
  If a change of the data leaves the permissions outside what a message covers as they
  were, then handling the message makes a cache coherent with the old data coherent with
  the new.
\<close>

lemma coherent_after:
  assumes "coherent P D (cache_view U V r)"
    and "\<And>u c p. \<not> covers m u c \<Longrightarrow> c \<noteq> serverPermKey \<Longrightarrow> effective P D u c p \<Longrightarrow> effective P D' u c p"
    and "\<And>u p. \<not> covers m u serverPermKey \<Longrightarrow> server_effective P D u p \<Longrightarrow> server_effective P D' u p"
    and "handleMessage U V (marshal_invalidation U (m\<lparr>im_Version := invalidationVersion\<rparr>)) r = Some (None, r')"
  shows "coherent P D' (cache_view U V r')"
  using assms(1-3) handleMessage_ok [OF assms(4)]
  unfolding coherent_def by (metis option.distinct(1))

text \<open>An acknowledged publication is one message on the channel.\<close>

lemma publish_published:
  assumes "publish U V m r = (Inr (), r')"
  shows "published V r r' = [marshal_invalidation U (m\<lparr>im_Version := invalidationVersion\<rparr>)]"
  using assms by (auto simp: publish_def published_def dest!: redis_Do_ok)

text \<open>Publishing a message, however it ends, does not touch the cache.\<close>

lemma publish_view: "publish U V m r = (x, r') \<Longrightarrow> cache_view U V r' = cache_view U V r"
  by (cases x) (auto simp: publish_def cache_view_def fun_eq_iff dest!: redis_Do_ok redis_Do_err)

end

section \<open>Properties\<close>

text \<open>
  A message the publisher sends is handled by the subscriber: the handler returns, and
  unless it logs a failure, exactly the cached entries the message covers are gone.
\<close>

theorem invalidation_exact:
  assumes "valkey_cache U V"
  shows "\<exists>l r'. handleMessage U V (marshal_invalidation U (m\<lparr>im_Version := invalidationVersion\<rparr>)) r = Some (l, r')
    \<and> (l = None \<longrightarrow> (\<forall>u c. cache_view U V r' u c = (if covers m u c then None else cache_view U V r u c)))"
proof -
  obtain l r' where h: "handleMessage U V (marshal_invalidation U (m\<lparr>im_Version := invalidationVersion\<rparr>)) r = Some (l, r')"
    using valkey_cache.handleMessage_returns [OF assms] by blast
  have "\<forall>u c. cache_view U V r' u c = (if covers m u c then None else cache_view U V r u c)" if "l = None"
    using valkey_cache.handleMessage_ok [OF assms h [unfolded that]] by blast
  with h show ?thesis by blast
qed

theorem invalidation_exact_witness:
  "\<exists>r'. handleMessage ref_uuid mem_valkey
       (marshal_invalidation ref_uuid (no_message\<lparr>im_UserID := Some 2, im_Version := invalidationVersion\<rparr>)) sample_cache
     = Some (None, r') \<and> cache_view ref_uuid mem_valkey r' 2 10 = None \<and> cache_view ref_uuid mem_valkey r' 3 10 = Some 5"
proof -
  let ?m = "no_message\<lparr>im_UserID := Some 2\<rparr>"
  obtain r' where "cache_DeleteByUser ref_uuid mem_valkey 2 sample_cache = Some (Inr (), r')"
    using mem_scanAndDelete by (fastforce simp: cache_DeleteByUser_def)
  then have "handleMessage ref_uuid mem_valkey (marshal_invalidation ref_uuid (?m\<lparr>im_Version := invalidationVersion\<rparr>)) sample_cache
      = Some (None, r')"
    using ref_text.unmarshal_marshal [of "?m\<lparr>im_Version := invalidationVersion\<rparr>"]
    by (simp add: handleMessage_def invalidationVersion_def logged_def no_message_def)
  with invalidation_exact [OF mem_cache.valkey_cache_axioms, of ?m sample_cache] show ?thesis
    by (auto simp: covers_def no_message_def sample_cache_view)
qed

text \<open>
  Coherence is restored: if a change of the data leaves the permissions outside what a
  message covers as they were, then once the message is handled without a logged failure
  the cache again holds only right values.
\<close>

theorem invalidation_restores:
  assumes "valkey_cache U V" and "coherent P D (cache_view U V r)"
    and "\<And>u c p. \<not> covers m u c \<Longrightarrow> c \<noteq> serverPermKey \<Longrightarrow> effective P D u c p \<Longrightarrow> effective P D' u c p"
    and "\<And>u p. \<not> covers m u serverPermKey \<Longrightarrow> server_effective P D u p \<Longrightarrow> server_effective P D' u p"
    and "handleMessage U V (marshal_invalidation U (m\<lparr>im_Version := invalidationVersion\<rparr>)) r = Some (None, r')"
  shows "coherent P D' (cache_view U V r')"
  by (rule valkey_cache.coherent_after [OF assms])

lemma mem_scan_none: "vkeys st = fmempty \<Longrightarrow> scanAndDelete mem_valkey p 0 st = Some (Inr (), st)"
proof -
  assume "vkeys st = fmempty"
  then have "live st k = None" for k by (simp add: live_def)
  then have "mem_scan p st = []" unfolding mem_scan_def filter_empty_conv by simp
  then show ?thesis by (simp add: scanAndDelete.simps mem_valkey_def)
qed

lemma mem_handle_none:
  assumes "vkeys st = fmempty" and "im_All m \<or> im_UserID m = None \<or> im_ChannelID m = None"
  shows "handleMessage ref_uuid mem_valkey
    (marshal_invalidation ref_uuid (m\<lparr>im_Version := invalidationVersion\<rparr>)) st = Some (None, st)"
  using assms ref_text.unmarshal_marshal [of "m\<lparr>im_Version := invalidationVersion\<rparr>"]
  by (auto simp: handleMessage_def invalidationVersion_def cache_DeleteAll_def cache_DeleteByUser_def
      cache_DeleteByChannel_def mem_scan_none logged_def split: option.splits)

theorem invalidation_restores_witness:
  "coherent ref_perm (db_perm_data sample_db) (cache_view ref_uuid mem_valkey vempty)"
proof (rule invalidation_restores [OF mem_cache.valkey_cache_axioms, where D = "db_perm_data sample_db"
      and m = "no_message\<lparr>im_All := True\<rparr>" and r = vempty])
  show "coherent ref_perm (db_perm_data sample_db) (cache_view ref_uuid mem_valkey vempty)"
    using sample_coherent by (simp add: world_coherent_def sample_world_def)
  show "handleMessage ref_uuid mem_valkey (marshal_invalidation ref_uuid
      (no_message\<lparr>im_All := True, im_Version := invalidationVersion\<rparr>)) vempty = Some (None, vempty)"
    using mem_handle_none [of vempty "no_message\<lparr>im_All := True\<rparr>"] by (simp add: vempty_def)
qed (simp_all add: covers_def)

end
