(* ===== verification/Permission_Http.thy ===== *)
theory Permission_Http
  imports Permission_Invalidate Http Protocol
begin

text \<open>
  \<open>internal/permission/middleware.go\<close> and \<open>internal/api/permission.go\<close>: the middleware that
  guards routes with a permission, and the endpoints that set, delete and read overrides.
  \<open>Z\<close> formats a time in the process's zone; the decoded request body is an argument, \<open>None\<close>
  when decoding fails.
\<close>

section \<open>Middleware\<close>

definition RequirePermission ::
  "perm_lib \<Rightarrow> uuid_lib \<Rightarrow> 's Store \<Rightarrow> 's Cache \<Rightarrow> perm \<Rightarrow> request \<Rightarrow> 's \<Rightarrow> 'p reaction \<times> 's" where
  "RequirePermission P U S C p c s =
     (case UserID c of
        Inl rx \<Rightarrow> (rx, s)
      | Inr userID \<Rightarrow>
          (let channelIDStr = rq_params c ''channelID''
           in if channelIDStr = [] then (Fail 400 MissingChannelID ''Channel ID is required'', s)
              else case uuid_Parse U channelIDStr of
                     None \<Rightarrow> (Fail 400 InvalidChannelID ''Invalid channel ID format'', s)
                   | Some channelID \<Rightarrow>
                       (case HasPermission P S C userID channelID p s of
                          (Inl e, s1) \<Rightarrow> (Fail 500 InternalError ''Failed to check permissions'', s1)
                        | (Inr allowed, s1) \<Rightarrow>
                            (if \<not> allowed
                             then (Fail 403 MissingPermissions ''You do not have the required permissions'', s1)
                             else (Next, s1)))))"

definition RequireServerPermission ::
  "perm_lib \<Rightarrow> 's Store \<Rightarrow> 's Cache \<Rightarrow> perm \<Rightarrow> request \<Rightarrow> 's \<Rightarrow> 'p reaction \<times> 's" where
  "RequireServerPermission P S C p c s =
     (case UserID c of
        Inl rx \<Rightarrow> (rx, s)
      | Inr userID \<Rightarrow>
          (case HasServerPermission P S C userID p s of
             (Inl e, s1) \<Rightarrow> (Fail 500 InternalError ''Failed to check permissions'', s1)
           | (Inr allowed, s1) \<Rightarrow>
               (if \<not> allowed
                then (Fail 403 MissingPermissions ''You do not have the required permissions'', s1)
                else (Next, s1))))"

section \<open>Override endpoints\<close>

record SetOverrideRequest =
  so_Type :: string
  so_Allow :: int64
  so_Deny :: int64

fun principal_text :: "PrincipalType \<Rightarrow> string" where
  "principal_text PrincipalRole = ''role''"
| "principal_text PrincipalUser = ''user''"

definition parsePrincipalType :: "string \<Rightarrow> string + PrincipalType" where
  "parsePrincipalType s =
     (if s = principal_text PrincipalRole then Inr PrincipalRole
      else if s = principal_text PrincipalUser then Inr PrincipalUser
      else Inl ''type must be \"role\" or \"user\"'')"

definition validateOverrideBits :: "perm_lib \<Rightarrow> int64 \<Rightarrow> int64 \<Rightarrow> string option" where
  "validateOverrideBits P allow deny =
     (let mask = AllPermissions P
      in if allow AND NOT mask \<noteq> 0 then Some ''allow contains invalid permission bits''
         else if deny AND NOT mask \<noteq> 0 then Some ''deny contains invalid permission bits''
         else None)"

definition mapOverrideError :: "error \<Rightarrow> 'p reaction" where
  "mapOverrideError e =
     (if errors_Is e ErrOverrideNotFound then Fail 404 UnknownOverride ''Permission override not found''
      else Fail 500 InternalError ''An internal error occurred'')"

definition toOverrideModel :: "uuid_lib \<Rightarrow> (time \<Rightarrow> string) \<Rightarrow> OverrideRow \<Rightarrow> PermissionOverrideModel" where
  "toOverrideModel U Z row =
     \<lparr>po_ID = uuid_String U (or_ID row), po_Type = principal_text (or_PrincipalType row),
      po_TargetID = uuid_String U (or_PrincipalID row), po_Allow = sint (or_Allow row),
      po_Deny = sint (or_Deny row), po_CreatedAt = Z (or_CreatedAt row), po_UpdatedAt = Z (or_UpdatedAt row)\<rparr>"

definition invalidate_channel :: "uuid_lib \<Rightarrow> 'r valkey \<Rightarrow> handler \<Rightarrow> uuid \<Rightarrow> 'r world \<Rightarrow> 'r world" where
  "invalidate_channel U V h channelID w =
     (if h_perms h then snd (on_vk (InvalidateChannel U V channelID) w) else w)"

definition SetOverride ::
  "perm_lib \<Rightarrow> uuid_lib \<Rightarrow> 'r valkey \<Rightarrow> (time \<Rightarrow> string) \<Rightarrow> handler \<Rightarrow> uuid \<Rightarrow> time \<Rightarrow> request
     \<Rightarrow> SetOverrideRequest option \<Rightarrow> 'r world \<Rightarrow> PermissionOverrideModel reaction \<times> 'r world" where
  "SetOverride P U V Z h newID now c body w =
     (case UserID c of Inl rx \<Rightarrow> (rx, w) | Inr userID \<Rightarrow>
     (case ParseUUIDParam U c ''channelID'' InvalidChannelID of Inl rx \<Rightarrow> (rx, w) | Inr channelID \<Rightarrow>
     (case ParseUUIDParam U c ''targetID'' ValidationError of Inl rx \<Rightarrow> (rx, w) | Inr targetID \<Rightarrow>
     (case body of None \<Rightarrow> (Fail 400 InvalidBody ''Invalid request body'', w) | Some b \<Rightarrow>
     (case parsePrincipalType (so_Type b) of
        Inl msg \<Rightarrow> (Fail 400 ValidationError msg, w)
      | Inr principalType \<Rightarrow>
     (case validateOverrideBits P (so_Allow b) (so_Deny b) of
        Some msg \<Rightarrow> (Fail 400 ValidationError msg, w)
      | None \<Rightarrow>
     (case on_db (pg_SetOverride newID now TargetChannel channelID principalType targetID
                    (so_Allow b) (so_Deny b)) w of
        (Inl e, w1) \<Rightarrow> (mapOverrideError e, w1)
      | (Inr row, w1) \<Rightarrow>
          (let w2 = go_Record h ((audit_entry userID ''override.set'' ''channel'' channelID)
                      \<lparr>en_Changes := Some (JObj [(''allow'', JNum (sint (so_Allow b))), (''deny'', JNum (sint (so_Deny b))),
                         (''target_id'', JStr (uuid_String U targetID)),
                         (''type'', JStr (principal_text principalType))])\<rparr>) w1;
               w3 = invalidate_channel U V h channelID w2
           in (Success (toOverrideModel U Z row), w3)))))))))"

definition DeleteOverride ::
  "uuid_lib \<Rightarrow> 'r valkey \<Rightarrow> handler \<Rightarrow> request \<Rightarrow> 'r world \<Rightarrow> PermissionOverrideModel reaction \<times> 'r world" where
  "DeleteOverride U V h c w =
     (case UserID c of Inl rx \<Rightarrow> (rx, w) | Inr userID \<Rightarrow>
     (case ParseUUIDParam U c ''channelID'' InvalidChannelID of Inl rx \<Rightarrow> (rx, w) | Inr channelID \<Rightarrow>
     (case ParseUUIDParam U c ''targetID'' ValidationError of Inl rx \<Rightarrow> (rx, w) | Inr targetID \<Rightarrow>
     (case parsePrincipalType (rq_query c ''type'') of
        Inl msg \<Rightarrow> (Fail 400 ValidationError msg, w)
      | Inr principalType \<Rightarrow>
     (case on_db (pg_DeleteOverride TargetChannel channelID principalType targetID) w of
        (Inl e, w1) \<Rightarrow> (mapOverrideError e, w1)
      | (Inr _, w1) \<Rightarrow>
          (let w2 = go_Record h ((audit_entry userID ''override.delete'' ''channel'' channelID)
                      \<lparr>en_Changes := Some (JObj [(''target_id'', JStr (uuid_String U targetID)),
                         (''type'', JStr (principal_text principalType))])\<rparr>) w1;
               w3 = invalidate_channel U V h channelID w2
           in (SendStatus 204, w3)))))))"

definition GetMyPermissions ::
  "perm_lib \<Rightarrow> uuid_lib \<Rightarrow> 's Store \<Rightarrow> 's Cache \<Rightarrow> request \<Rightarrow> 's \<Rightarrow> int reaction \<times> 's" where
  "GetMyPermissions P U S C c s =
     (case ParseUUIDParam U c ''channelID'' InvalidChannelID of Inl rx \<Rightarrow> (rx, s) | Inr channelID \<Rightarrow>
     (case UserID c of Inl rx \<Rightarrow> (rx, s) | Inr userID \<Rightarrow>
     (case Resolve P S C userID channelID s of
        (Inl e, s1) \<Rightarrow> (Fail 500 InternalError ''An internal error occurred'', s1)
      | (Inr p, s1) \<Rightarrow> (Success (sint p), s1))))"

section \<open>Guards\<close>

lemma HasPermission_ok:
  "HasPermission P S C u c p s = (Inr b, s') \<Longrightarrow> \<exists>q. Resolve P S C u c s = (Inr q, s') \<and> b = pHas P q p"
  by (auto simp: HasPermission_def split: prod.splits sum.splits)

lemma RequirePermission_Next:
  assumes "RequirePermission P U S C p c s = (Next, s')"
  shows "\<exists>u ch q. rq_userID c = Some u \<and> uuid_Parse U (rq_params c ''channelID'') = Some ch
    \<and> Resolve P S C u ch s = (Inr q, s') \<and> pHas P q p"
proof -
  from assms obtain u where u: "rq_userID c = Some u"
    by (auto simp: RequirePermission_def UserID_def split: option.splits)
  from assms u obtain ch where ch: "uuid_Parse U (rq_params c ''channelID'') = Some ch"
    by (auto simp: RequirePermission_def UserID_def Let_def split: if_splits option.splits)
  from assms u ch have "HasPermission P S C u ch p s = (Inr True, s')"
    by (auto simp: RequirePermission_def UserID_def Let_def split: if_splits prod.splits sum.splits)
  with u ch show ?thesis by (auto dest!: HasPermission_ok)
qed

lemma RequireServerPermission_Next:
  assumes "RequireServerPermission P S C p c s = (Next, s')"
  shows "\<exists>u q. rq_userID c = Some u \<and> ResolveServer P S C u s = (Inr q, s') \<and> pHas P q p"
proof -
  from assms obtain u where u: "rq_userID c = Some u"
    by (auto simp: RequireServerPermission_def UserID_def split: option.splits)
  with assms have "HasServerPermission P S C u p s = (Inr True, s')"
    by (auto simp: RequireServerPermission_def UserID_def split: prod.splits sum.splits if_splits)
  with u show ?thesis by (auto simp: HasServerPermission_def split: prod.splits sum.splits)
qed

section \<open>What an override changes\<close>

text \<open>Data that differ in the overrides of one channel only give the same permissions elsewhere.\<close>

definition same_but :: "uuid \<Rightarrow> perm_data \<Rightarrow> perm_data \<Rightarrow> bool" where
  "same_but ch D D' \<longleftrightarrow>
     pd_owner D' = pd_owner D \<and> pd_roles D' = pd_roles D \<and> pd_channel D' = pd_channel D
     \<and> (\<forall>t i. (t, i) \<noteq> (TargetChannel, ch) \<longrightarrow> pd_overrides D' t i = pd_overrides D t i)"

lemma same_but_effective:
  assumes "same_but ch D D'"
  shows "c \<noteq> ch \<Longrightarrow> effective P D' u c p \<longleftrightarrow> effective P D u c p"
    and "server_effective P D' u p \<longleftrightarrow> server_effective P D u p"
proof -
  have eq: "is_admin P D' u \<longleftrightarrow> is_admin P D u" "role_bit D' u = role_bit D u" "user_roles D' u = user_roles D u"
    using assms by (auto simp: same_but_def is_admin_def role_bit_def user_roles_def fun_eq_iff)
  show "server_effective P D' u p \<longleftrightarrow> server_effective P D u p"
    by (simp add: server_effective_def eq)
  assume c: "c \<noteq> ch"
  have ov: "pd_overrides D' TargetChannel c = pd_overrides D TargetChannel c"
    "\<And>i. pd_overrides D' TargetCategory i = pd_overrides D TargetCategory i"
    "pd_channel D' c = pd_channel D c"
    using assms c by (auto simp: same_but_def)
  show "effective P D' u c p \<longleftrightarrow> effective P D u c p"
    by (simp add: effective_def channel_bit_def eq ov cong: option.case_cong)
qed

lemma upsert_same_but:
  assumes "upsert_override n t TargetChannel ch pt pid a b d = (x, d')"
  shows "same_but ch (db_perm_data d) (db_perm_data d')"
proof -
  have rows: "override_rows t' i d' = override_rows t' i d" if "(t', i) \<noteq> (TargetChannel, ch)" for t' i
  proof -
    let ?k = "override_key TargetChannel ch pt pid"
    have k: "\<not> (or_TargetType r = t' \<and> or_TargetID r = i)" if "?k r" for r
      using that \<open>(t', i) \<noteq> (TargetChannel, ch)\<close> by (auto simp: override_key_def)
    have rep: "filter (\<lambda>r. or_TargetType r = t' \<and> or_TargetID r = i) (map (\<lambda>r. if ?k r then row else r) rs)
        = filter (\<lambda>r. or_TargetType r = t' \<and> or_TargetID r = i) rs" if "?k row" for row rs
      using k that by (induction rs) auto
    have "?k old" if "find ?k (t_overrides d) = Some old" for old using find_Some_member [OF that] by simp
    with assms rep \<open>(t', i) \<noteq> (TargetChannel, ch)\<close> show ?thesis
      by (auto simp: upsert_override_def override_rows_def Let_def split: option.splits if_splits)
  qed
  from assms have "t_server_config d' = t_server_config d" "t_roles d' = t_roles d"
    "t_member_roles d' = t_member_roles d" "t_channels d' = t_channels d"
    by (auto simp: upsert_override_def Let_def split: option.splits if_splits)
  with rows show ?thesis
    by (simp add: same_but_def db_perm_data_def role_permission_rows_def channel_info_row_def)
qed

lemma delete_same_but:
  assumes "delete_override TargetChannel ch pt pid d = (x, d')"
  shows "same_but ch (db_perm_data d) (db_perm_data d')"
proof -
  have "filter (\<lambda>r. (or_TargetType r = t' \<and> or_TargetID r = i) \<and> \<not> override_key TargetChannel ch pt pid r) rs
      = filter (\<lambda>r. or_TargetType r = t' \<and> or_TargetID r = i) rs"
    if "(t', i) \<noteq> (TargetChannel, ch)" for t' i rs
    using that by (intro filter_cong) (auto simp: override_key_def)
  then show ?thesis
    using assms
    by (auto simp: delete_override_def same_but_def db_perm_data_def role_permission_rows_def
        channel_info_row_def override_rows_def conj_commute)
qed

section \<open>The endpoints\<close>

lemma SetOverride_200:
  assumes "SetOverride P U V Z h newID now c body w = (Respond resp, w')" and "rs_status resp = 200"
  shows "\<exists>ch pt tid b row w1 e. uuid_Parse U (rq_params c ''channelID'') = Some ch \<and> body = Some b
    \<and> validateOverrideBits P (so_Allow b) (so_Deny b) = None
    \<and> parsePrincipalType (so_Type b) = Inr pt \<and> uuid_Parse U (rq_params c ''targetID'') = Some tid
    \<and> on_db (pg_SetOverride newID now TargetChannel ch pt tid (so_Allow b) (so_Deny b)) w = (Inr row, w1)
    \<and> w' = invalidate_channel U V h ch (go_Record h e w1)"
  using assms
  by (auto simp: SetOverride_def reaction_defs mapOverrideError_def Let_def ParseUUIDParam_ok UserID_Respond
      split: sum.splits option.splits prod.splits if_splits dest!: ParseUUIDParam_Respond)

lemma DeleteOverride_204:
  assumes "DeleteOverride U V h c w = (Respond resp, w')" and "rs_status resp = 204"
  shows "\<exists>ch pt tid w1 e. uuid_Parse U (rq_params c ''channelID'') = Some ch
    \<and> on_db (pg_DeleteOverride TargetChannel ch pt tid) w = (Inr (), w1)
    \<and> w' = invalidate_channel U V h ch (go_Record h e w1)"
  using assms
  by (auto simp: DeleteOverride_def reaction_defs mapOverrideError_def Let_def ParseUUIDParam_ok UserID_Respond
      split: sum.splits option.splits prod.splits if_splits dest!: ParseUUIDParam_Respond)

text \<open>The data after an acknowledged statement differ in the overrides of one channel only.\<close>

lemma SetOverride_same_but:
  assumes "pg_SetOverride n t TargetChannel ch pt pid a b d = (Inr row, d')"
  shows "same_but ch (db_perm_data d) (db_perm_data d')"
proof -
  from assms have "pg_stmt (upsert_override n t TargetChannel ch pt pid a b) d = (Inr row, d')"
    by (auto simp: pg_SetOverride_def split: prod.splits sum.splits)
  from pg_stmt_ok [OF this] obtain os
    where "upsert_override n t TargetChannel ch pt pid a b (d\<lparr>pg_outcomes := os\<rparr>) = (Inr row, d')" ..
  from upsert_same_but [OF this] show ?thesis by simp
qed

lemma DeleteOverride_same_but:
  assumes "pg_DeleteOverride TargetChannel ch pt pid d = (Inr (), d')"
  shows "same_but ch (db_perm_data d) (db_perm_data d')"
proof -
  from assms obtain n where "pg_stmt (delete_override TargetChannel ch pt pid) d = (Inr n, d')"
    by (auto simp: pg_DeleteOverride_def split: prod.splits sum.splits if_splits)
  from pg_stmt_ok [OF this] obtain os
    where "delete_override TargetChannel ch pt pid (d\<lparr>pg_outcomes := os\<rparr>) = (Inr n, d')" ..
  from delete_same_but [OF this] show ?thesis by simp
qed

definition channel_message :: "uuid_lib \<Rightarrow> uuid \<Rightarrow> bytes" where
  "channel_message U ch =
     marshal_invalidation U (no_message\<lparr>im_ChannelID := Some ch, im_Version := invalidationVersion\<rparr>)"

context world_resolver
begin

lemma override_change_coherent:
  assumes "coherent P (db_perm_data (w_db w)) (cache_view U V (w_vk w))"
    and "same_but ch (db_perm_data (w_db w)) (db_perm_data (w_db w1))" and "w_vk w1 = w_vk w"
    and "w' = invalidate_channel U V h ch (go_Record h e w1)"
    and "handleMessage U V (channel_message U ch) (w_vk w') = Some (None, r')"
  shows "coherent P (db_perm_data (w_db w')) (cache_view U V r')"
proof -
  have db: "w_db w' = w_db w1"
    using assms(4) by (auto simp: invalidate_channel_def on_vk_def split: prod.splits)
  have "cache_view U V (w_vk w') = cache_view U V (w_vk w)"
    using assms(3,4) publish_view
    by (auto simp: invalidate_channel_def on_vk_def InvalidateChannel_def split: prod.splits)
  then have co: "coherent P (db_perm_data (w_db w)) (cache_view U V (w_vk w'))" using assms(1) by simp
  show ?thesis
    unfolding db
    by (rule coherent_after [OF co, where m = "no_message\<lparr>im_ChannelID := Some ch\<rparr>"])
      (use assms(5) same_but_effective [OF assms(2)] in
        \<open>auto simp: channel_message_def covers_def no_message_def\<close>)
qed

text \<open>
  The endpoint publishes one message, and the subscriber's loop over what was published
  returns; unless it logs a failure the cache is coherent with the changed data and holds no
  entry of the channel.
\<close>

lemma override_change_published:
  assumes "coherent P (db_perm_data (w_db w)) (cache_view U V (w_vk w))"
    and "same_but ch (db_perm_data (w_db w)) (db_perm_data (w_db w1))" and "w_vk w1 = w_vk w"
    and "w' = invalidate_channel U V h ch (go_Record h e w1)"
    and "h_perms h" and "fst (InvalidateChannel U V ch (w_vk w)) = Inr ()"
  shows "\<exists>l r'. published V (w_vk w) (w_vk w') = [channel_message U ch]
    \<and> Run U V (published V (w_vk w) (w_vk w')) (w_vk w') = Some ([l], r')
    \<and> (l = None \<longrightarrow> coherent P (db_perm_data (w_db w')) (cache_view U V r')
         \<and> (\<forall>u. cache_view U V r' u ch = None))"
proof -
  have "publish U V (no_message\<lparr>im_ChannelID := Some ch\<rparr>) (w_vk w) = (Inr (), w_vk w')"
    using assms(3-6) by (auto simp: invalidate_channel_def on_vk_def InvalidateChannel_def prod_eq_iff split: prod.splits)
  from publish_published [OF this] have pub: "published V (w_vk w) (w_vk w') = [channel_message U ch]"
    by (simp add: channel_message_def)
  obtain l r' where h: "handleMessage U V (channel_message U ch) (w_vk w') = Some (l, r')"
    using handleMessage_returns by blast
  have "coherent P (db_perm_data (w_db w')) (cache_view U V r') \<and> (\<forall>u. cache_view U V r' u ch = None)" if "l = None"
    using override_change_coherent [OF assms(1-4) h [unfolded that]]
      handleMessage_ok [of "no_message\<lparr>im_ChannelID := Some ch\<rparr>" "w_vk w'" r'] h that
    by (simp add: channel_message_def covers_def no_message_def)
  with pub h show ?thesis by auto
qed

end

section \<open>Properties\<close>


definition sample_request :: request where
  "sample_request =
     \<lparr>rq_params = (\<lambda>k. if k = ''channelID'' then uuid_String ref_uuid 10 else uuid_String ref_uuid 2),
      rq_query = (\<lambda>_. []), rq_userID = Some 2\<rparr>"

lemma sample_request_simps [simp]:
  "rq_params sample_request ''channelID'' = uuid_String ref_uuid 10"
  "rq_params sample_request ''targetID'' = uuid_String ref_uuid 2"
  "rq_userID sample_request = Some 2"
  by (simp_all add: sample_request_def)


lemma pg_SetOverride_finds:
  assumes "pg_SetOverride n t tt ch pt pid a b d = (Inr row, d')"
  shows "find_override tt ch pt pid d' = Some row \<and> or_Allow row = a \<and> or_Deny row = b"
proof -
  from assms have "pg_stmt (upsert_override n t tt ch pt pid a b) d = (Inr row, d')"
    by (auto simp: pg_SetOverride_def split: prod.splits sum.splits)
  from pg_stmt_ok [OF this] obtain os where "upsert_override n t tt ch pt pid a b (d\<lparr>pg_outcomes := os\<rparr>) = (Inr row, d')" ..
  from upsert_override_finds [OF this] show ?thesis by simp
qed

text \<open>
  C2. \<open>SetOverride\<close> and the invalidation it causes: when it has answered 200 and the server has
  acknowledged its publication, then the database holds the override asked for, exactly one
  message was published, and the subscriber's loop over what was published returns; unless it
  logs a failure the permission cache is then coherent with the changed database and no
  entry of that channel is left.
\<close>

theorem SetOverride_coherent:
  assumes "world_resolver P U V" and "world_coherent P U V w"
    and "SetOverride P U V Z h newID now c body w = (Respond resp, w')" and "rs_status resp = 200"
    and "uuid_Parse U (rq_params c ''channelID'') = Some ch"
    and "h_perms h" and "fst (InvalidateChannel U V ch (w_vk w)) = Inr ()"
  shows "(\<exists>b pt tid row. body = Some b \<and> parsePrincipalType (so_Type b) = Inr pt
      \<and> uuid_Parse U (rq_params c ''targetID'') = Some tid
      \<and> find_override TargetChannel ch pt tid (w_db w') = Some row
      \<and> or_Allow row = so_Allow b \<and> or_Deny row = so_Deny b)
    \<and> length (published V (w_vk w) (w_vk w')) = 1
    \<and> (\<exists>l r'. Run U V (published V (w_vk w) (w_vk w')) (w_vk w') = Some ([l], r')
         \<and> (l = None \<longrightarrow> world_coherent P U V (w'\<lparr>w_vk := r'\<rparr>) \<and> (\<forall>u. cache_view U V r' u ch = None)))"
proof -
  from SetOverride_200 [OF assms(3,4)] assms(5) obtain pt tid row w1 e and b :: SetOverrideRequest where
    body: "body = Some b" "parsePrincipalType (so_Type b) = Inr pt" "uuid_Parse U (rq_params c ''targetID'') = Some tid"
      and set: "on_db (pg_SetOverride newID now TargetChannel ch pt tid (so_Allow b) (so_Deny b)) w = (Inr row, w1)"
      and w': "w' = invalidate_channel U V h ch (go_Record h e w1)" by auto
  have pg: "pg_SetOverride newID now TargetChannel ch pt tid (so_Allow b) (so_Deny b) (w_db w) = (Inr row, w_db w1)"
    and vk: "w_vk w1 = w_vk w" using on_dbD [OF set] by auto
  have "w_db w' = w_db w1" using w' by (auto simp: invalidate_channel_def on_vk_def split: prod.splits)
  with pg_SetOverride_finds [OF pg] have "find_override TargetChannel ch pt tid (w_db w') = Some row"
    "or_Allow row = so_Allow b" "or_Deny row = so_Deny b" by simp_all
  with world_resolver.override_change_published [OF assms(1) _ SetOverride_same_but [OF pg] vk w' assms(6,7)]
    assms(2) body show ?thesis by (fastforce simp: world_coherent_def)
qed

text \<open>A cache with an entry for the channel: user 2 has permissions 25 there.\<close>

definition warm_cache :: vstore where
  "warm_cache = snd (cache_Set ref_uuid mem_valkey 2 10 25 vempty)"

definition warm_world :: "vstore world" where
  "warm_world = sample_world\<lparr>w_vk := warm_cache\<rparr>"

lemma warm_view: "cache_view ref_uuid mem_valkey warm_cache 2 10 = Some 25"
  unfolding warm_cache_def by (rule mem_cache.cache_Set_ok [OF mem_Set])

lemma warm_coherent: "world_coherent ref_perm ref_uuid mem_valkey warm_world"
proof -
  obtain w' where "Resolve ref_perm PGStore (ValkeyCache ref_uuid mem_valkey) 2 10 sample_world = (Inr 25, w')"
    using sample_Resolve by (metis prod.collapse)
  from mem_resolver.world_Resolve [OF _ _ this] sample_coherent [of ref_perm ref_uuid]
  have "effective ref_perm (db_perm_data sample_db) 2 10 25"
    by (simp add: world_coherent_def serverPermKey_def uuid_Nil_def sample_world_def)
  then have e: "if (10::uuid) = serverPermKey then server_effective ref_perm (db_perm_data sample_db) 2 25
      else effective ref_perm (db_perm_data sample_db) 2 10 25" by (simp add: serverPermKey_def uuid_Nil_def)
  have "coherent ref_perm (db_perm_data sample_db) (cache_view ref_uuid mem_valkey vempty)"
    using sample_coherent by (simp add: world_coherent_def sample_world_def)
  then have "coherent ref_perm (db_perm_data sample_db) (cache_view ref_uuid mem_valkey warm_cache)"
  proof (rule coherentI_step)
    fix u c
    show "cache_view ref_uuid mem_valkey warm_cache u c = cache_view ref_uuid mem_valkey vempty u c \<or>
      (\<exists>p. cache_view ref_uuid mem_valkey warm_cache u c = Some p \<and>
        (if c = serverPermKey then server_effective ref_perm (db_perm_data sample_db) u p
         else effective ref_perm (db_perm_data sample_db) u c p))"
      using mem_cache.cache_Set_view [OF mem_Set [of ref_uuid 2 10 25 vempty], of u c] e
      unfolding warm_cache_def by blast
  qed
  then show ?thesis by (simp add: world_coherent_def warm_world_def sample_world_def)
qed

lemma mem_InvalidateChannel: "fst (InvalidateChannel ref_uuid mem_valkey ch r) = Inr ()"
  by (simp add: InvalidateChannel_def publish_def redis_Do_def mem_valkey_def)

lemma mem_channel_message:
  "\<exists>r'. handleMessage ref_uuid mem_valkey (channel_message ref_uuid ch) r = Some (None, r')"
proof -
  obtain r' where "cache_DeleteByChannel ref_uuid mem_valkey ch r = Some (Inr (), r')"
    using mem_scanAndDelete by (fastforce simp: cache_DeleteByChannel_def)
  then show ?thesis
    using ref_text.unmarshal_marshal [of "no_message\<lparr>im_ChannelID := Some ch, im_Version := invalidationVersion\<rparr>"]
    by (simp add: channel_message_def handleMessage_def invalidationVersion_def logged_def no_message_def)
qed

definition sample_body :: SetOverrideRequest where
  "sample_body = \<lparr>so_Type = ''user'', so_Allow = 9, so_Deny = 2\<rparr>"

abbreviation sample_handler :: handler where
  "sample_handler \<equiv> \<lparr>h_auditLogger = True, h_perms = True, h_gateway = True\<rparr>"

lemma sample_SetOverride:
  "\<exists>resp w'. SetOverride ref_perm ref_uuid mem_valkey Z sample_handler 43 5 sample_request (Some sample_body)
       warm_world = (Respond resp, w') \<and> rs_status resp = 200
     \<and> w_vk w' = warm_cache\<lparr>vlog := vlog warm_cache @ [(InvalidateChannelName, channel_message ref_uuid 10)]\<rparr>"
  by (simp add: SetOverride_def UserID_def ParseUUIDParam_def parsePrincipalType_def validateOverrideBits_def
      ref_perm_def on_db_def pg_SetOverride_def upsert_override_def sample_defs warm_world_def sample_body_def
      override_key_def Let_def invalidate_channel_def on_vk_def go_Record_def InvalidateChannel_def publish_def
      redis_Do_def mem_valkey_def Success_def channel_message_def no_message_def)

text \<open>The stale entry is there before the request and gone once the message is handled.\<close>

theorem SetOverride_coherent_witness:
  "cache_view ref_uuid mem_valkey (w_vk warm_world) 2 10 = Some 25
   \<and> (\<exists>resp w' r'. SetOverride ref_perm ref_uuid mem_valkey (\<lambda>_. []) sample_handler 43 5 sample_request
        (Some sample_body) warm_world = (Respond resp, w')
      \<and> cache_view ref_uuid mem_valkey (w_vk w') 2 10 = Some 25
      \<and> Run ref_uuid mem_valkey (published mem_valkey (w_vk warm_world) (w_vk w')) (w_vk w') = Some ([None], r')
      \<and> cache_view ref_uuid mem_valkey r' 2 10 = None
      \<and> world_coherent ref_perm ref_uuid mem_valkey (w'\<lparr>w_vk := r'\<rparr>))"
proof -
  from sample_SetOverride [of "\<lambda>_. []"] obtain resp w' where s: "SetOverride ref_perm ref_uuid mem_valkey (\<lambda>_. [])
      sample_handler 43 5 sample_request (Some sample_body) warm_world = (Respond resp, w')" "rs_status resp = 200"
    "w_vk w' = warm_cache\<lparr>vlog := vlog warm_cache @ [(InvalidateChannelName, channel_message ref_uuid 10)]\<rparr>" by blast
  have pub: "published mem_valkey (w_vk warm_world) (w_vk w') = [channel_message ref_uuid 10]"
    using s(3) by (simp add: published_def warm_world_def mem_valkey_def)
  obtain r' where r': "handleMessage ref_uuid mem_valkey (channel_message ref_uuid 10) (w_vk w') = Some (None, r')"
    using mem_channel_message by blast
  have "cache_view ref_uuid mem_valkey (w_vk w') 2 10 = Some 25"
    using warm_view s(3) by (simp add: cache_view_def mem_valkey_def)
  with SetOverride_coherent [OF mem_resolver.world_resolver_axioms warm_coherent s(1,2) _ _ mem_InvalidateChannel]
    s(1) warm_view pub r' show ?thesis by (force simp: warm_world_def)
qed

text \<open>
  \<open>DeleteOverride\<close>: after the answer 204 and the acknowledged publication, handling what was
  published makes the cache coherent with the database without the override.
\<close>

theorem DeleteOverride_coherent:
  assumes "world_resolver P U V" and "world_coherent P U V w"
    and "DeleteOverride U V h c w = (Respond resp, w')" and "rs_status resp = 204"
    and "uuid_Parse U (rq_params c ''channelID'') = Some ch"
    and "h_perms h" and "fst (InvalidateChannel U V ch (w_vk w)) = Inr ()"
  shows "\<exists>l r'. Run U V (published V (w_vk w) (w_vk w')) (w_vk w') = Some ([l], r')
    \<and> (l = None \<longrightarrow> world_coherent P U V (w'\<lparr>w_vk := r'\<rparr>) \<and> (\<forall>u. cache_view U V r' u ch = None))"
proof -
  from DeleteOverride_204 [OF assms(3,4)] assms(5) obtain pt tid w1 e where
    del: "on_db (pg_DeleteOverride TargetChannel ch pt tid) w = (Inr (), w1)"
      and w': "w' = invalidate_channel U V h ch (go_Record h e w1)" by auto
  have pg: "pg_DeleteOverride TargetChannel ch pt tid (w_db w) = (Inr (), w_db w1)"
    and vk: "w_vk w1 = w_vk w" using on_dbD [OF del] by auto
  from world_resolver.override_change_published [OF assms(1) _ DeleteOverride_same_but [OF pg] vk w' assms(6,7)]
    assms(2) show ?thesis by (fastforce simp: world_coherent_def)
qed

lemma sample_DeleteOverride:
  "\<exists>resp w'. DeleteOverride ref_uuid mem_valkey sample_handler
       (sample_request\<lparr>rq_query := (\<lambda>_. ''user'')\<rparr>) warm_world = (Respond resp, w') \<and> rs_status resp = 204
     \<and> w_vk w' = warm_cache\<lparr>vlog := vlog warm_cache @ [(InvalidateChannelName, channel_message ref_uuid 10)]\<rparr>"
  by (simp add: DeleteOverride_def UserID_def ParseUUIDParam_def parsePrincipalType_def warm_world_def
      on_db_def pg_DeleteOverride_def delete_override_def sample_defs override_key_def Let_def
      invalidate_channel_def on_vk_def go_Record_def InvalidateChannel_def publish_def redis_Do_def mem_valkey_def
      SendStatus_def channel_message_def no_message_def)

theorem DeleteOverride_coherent_witness:
  "\<exists>resp w' r'. DeleteOverride ref_uuid mem_valkey sample_handler
       (sample_request\<lparr>rq_query := (\<lambda>_. ''user'')\<rparr>) warm_world = (Respond resp, w')
     \<and> Run ref_uuid mem_valkey (published mem_valkey (w_vk warm_world) (w_vk w')) (w_vk w') = Some ([None], r')
     \<and> world_coherent ref_perm ref_uuid mem_valkey (w'\<lparr>w_vk := r'\<rparr>)"
proof -
  from sample_DeleteOverride obtain resp w' where s: "DeleteOverride ref_uuid mem_valkey sample_handler
      (sample_request\<lparr>rq_query := (\<lambda>_. ''user'')\<rparr>) warm_world = (Respond resp, w')" "rs_status resp = 204"
    "w_vk w' = warm_cache\<lparr>vlog := vlog warm_cache @ [(InvalidateChannelName, channel_message ref_uuid 10)]\<rparr>" by blast
  have pub: "published mem_valkey (w_vk warm_world) (w_vk w') = [channel_message ref_uuid 10]"
    using s(3) by (simp add: published_def warm_world_def mem_valkey_def)
  obtain r' where "handleMessage ref_uuid mem_valkey (channel_message ref_uuid 10) (w_vk w') = Some (None, r')"
    using mem_channel_message by blast
  with DeleteOverride_coherent [OF mem_resolver.world_resolver_axioms warm_coherent s(1,2) _ _ mem_InvalidateChannel]
    s(1) pub show ?thesis by force
qed

end
