(* ===== verification/Role.thy ===== *)
theory Role
  imports Go_Strings Protocol Permission_Http
begin

text \<open>
  \<open>internal/role\<close> and \<open>internal/api/role.go\<close>: validation, the repository over the \<open>roles\<close> table and the
  role endpoints with the hierarchy check. A role row is the Go struct \<open>Role\<close>. The columns
  \<open>position\<close> and \<open>colour\<close> are 32-bit integers in the database and \<open>int\<close> in Go.
\<close>

section \<open>Validation\<close>

definition role_ErrNotFound :: error where "role_ErrNotFound = Sentinel ''role.ErrNotFound''"
definition role_ErrAlreadyExists :: error where "role_ErrAlreadyExists = Sentinel ''role.ErrAlreadyExists''"
definition role_ErrNameLength :: error where "role_ErrNameLength = Sentinel ''role.ErrNameLength''"
definition role_ErrInvalidPosition :: error where "role_ErrInvalidPosition = Sentinel ''role.ErrInvalidPosition''"
definition role_ErrInvalidPermissions :: error where "role_ErrInvalidPermissions = Sentinel ''role.ErrInvalidPermissions''"
definition role_ErrInvalidColour :: error where "role_ErrInvalidColour = Sentinel ''role.ErrInvalidColour''"
definition role_ErrMaxRolesReached :: error where "role_ErrMaxRolesReached = Sentinel ''role.ErrMaxRolesReached''"
definition role_ErrEveryoneImmutable :: error where "role_ErrEveryoneImmutable = Sentinel ''role.ErrEveryoneImmutable''"

lemmas role_errors = role_ErrNotFound_def role_ErrAlreadyExists_def role_ErrNameLength_def role_ErrInvalidPosition_def
  role_ErrInvalidPermissions_def role_ErrInvalidColour_def role_ErrMaxRolesReached_def role_ErrEveryoneImmutable_def

definition role_ToModel :: "uuid_lib \<Rightarrow> (time \<Rightarrow> string) \<Rightarrow> role_row \<Rightarrow> RoleModel" where
  "role_ToModel U Z r =
     \<lparr>rm_ID = uuid_String U (r_id r), rm_Name = r_name r, rm_Colour = r_colour r, rm_Position = r_position r,
      rm_Hoist = r_hoist r, rm_Permissions = sint (r_permissions r), rm_IsEveryone = r_is_everyone r,
      rm_CreatedAt = Z (r_created_at r), rm_UpdatedAt = Z (r_updated_at r)\<rparr>"

record role_CreateParams =
  cp_Name :: string
  cp_Colour :: int
  cp_Permissions :: int64
  cp_Hoist :: bool

record role_UpdateParams =
  up_Name :: "string option"
  up_Colour :: "int option"
  up_Position :: "int option"
  up_Permissions :: "int64 option"
  up_Hoist :: "bool option"

definition role_ValidateNameRequired :: "string \<Rightarrow> string result" where
  "role_ValidateNameRequired name =
     (let trimmed = TrimSpace name
      in if RuneCount trimmed < 1 \<or> RuneCount trimmed > 100 then Inl role_ErrNameLength else Inr trimmed)"

text \<open>The validators of optional fields; \<open>ValidateName\<close> replaces the value it points to.\<close>

definition role_ValidateName :: "string option \<Rightarrow> string option result" where
  "role_ValidateName name =
     (case name of
        None \<Rightarrow> Inr None
      | Some s \<Rightarrow>
          (let trimmed = TrimSpace s
           in if RuneCount trimmed < 1 \<or> RuneCount trimmed > 100 then Inl role_ErrNameLength else Inr (Some trimmed)))"

definition role_ValidatePosition :: "int option \<Rightarrow> unit result" where
  "role_ValidatePosition pos =
     (case pos of None \<Rightarrow> Inr () | Some p \<Rightarrow> if p < 0 then Inl role_ErrInvalidPosition else Inr ())"

definition role_ValidatePermissions :: "perm_lib \<Rightarrow> int64 option \<Rightarrow> unit result" where
  "role_ValidatePermissions P perms =
     (case perms of
        None \<Rightarrow> Inr ()
      | Some p \<Rightarrow> if sint p < 0 \<or> p AND NOT (AllPermissions P) \<noteq> 0 then Inl role_ErrInvalidPermissions else Inr ())"

definition role_ValidateColour :: "int option \<Rightarrow> unit result" where
  "role_ValidateColour colour =
     (case colour of None \<Rightarrow> Inr () | Some x \<Rightarrow> if x < 0 \<or> x > 16777215 then Inl role_ErrInvalidColour else Inr ())"

section \<open>Repository\<close>

definition role_List :: "(role_row list, db) call" where
  "role_List d =
     (case pg_query (\<lambda>d. sort_key r_position (t_roles d)) d of
        (Inl e, d') \<Rightarrow> (Inl (Wrap ''query roles'' e), d')
      | (Inr rows, d') \<Rightarrow> (Inr rows, d'))"

definition find_role :: "uuid \<Rightarrow> db \<Rightarrow> role_row option" where
  "find_role i d = find (\<lambda>r. r_id r = i) (t_roles d)"

text \<open>A query for one row, scanned by \<open>scanRole\<close>: no row is \<open>pgx.ErrNoRows\<close>.\<close>

definition scanRole :: "(role_row option, db) call \<Rightarrow> (role_row, db) call" where
  "scanRole q d =
     (case q d of
        (Inl e, d') \<Rightarrow> (Inl (Wrap ''scan role'' e), d')
      | (Inr None, d') \<Rightarrow> (Inl (Wrap ''scan role'' pgx_ErrNoRows), d')
      | (Inr (Some r), d') \<Rightarrow> (Inr r, d'))"

definition role_GetByID :: "uuid \<Rightarrow> (role_row, db) call" where
  "role_GetByID i d =
     (case scanRole (pg_query (find_role i)) d of
        (Inl e, d') \<Rightarrow>
          (if errors_Is e pgx_ErrNoRows then (Inl role_ErrNotFound, d') else (Inl (Wrap ''query role by id'' e), d'))
      | (Inr r, d') \<Rightarrow> (Inr r, d'))"

definition max_int4 :: int where
  "max_int4 = 2147483647"

definition numeric_out_of_range :: error where
  "numeric_out_of_range = PgError ''22003''"

text \<open>\<open>INSERT ... COALESCE((SELECT MAX(position) FROM roles), -1) + 1\<close>\<close>

definition next_position :: "db \<Rightarrow> int" where
  "next_position d = (if t_roles d = [] then -1 else Max (set (map r_position (t_roles d)))) + 1"

definition insert_role :: "uuid \<Rightarrow> time \<Rightarrow> role_CreateParams \<Rightarrow> (role_row option, db) call" where
  "insert_role newID now params d =
     (let pos = next_position d;
          row = \<lparr>r_id = newID, r_name = cp_Name params, r_colour = cp_Colour params, r_position = pos,
                 r_hoist = cp_Hoist params, r_permissions = cp_Permissions params, r_is_everyone = False,
                 r_created_at = now, r_updated_at = now\<rparr>
      in if pos > max_int4 then (Inl numeric_out_of_range, d)
         else if newID \<in> set (map r_id (t_roles d)) \<or> cp_Name params \<in> set (map r_name (t_roles d))
         then (Inl unique_violation, d)
         else (Inr (Some row), d\<lparr>t_roles := t_roles d @ [row]\<rparr>))"

definition role_create_tx :: "uuid \<Rightarrow> time \<Rightarrow> role_CreateParams \<Rightarrow> int \<Rightarrow> (role_row, db) call" where
  "role_create_tx newID now params maxRoles d =
     (case pg_query (\<lambda>d. int (length (t_roles d))) d of
        (Inl e, d1) \<Rightarrow> (Inl (Wrap ''count roles'' e), d1)
      | (Inr n, d1) \<Rightarrow>
          (if n \<ge> maxRoles then (Inl role_ErrMaxRolesReached, d1)
           else case scanRole (pg_stmt (insert_role newID now params)) d1 of
                  (Inl e, d2) \<Rightarrow>
                    (if IsUniqueViolation e then (Inl role_ErrAlreadyExists, d2) else (Inl (Wrap ''insert role'' e), d2))
                | (Inr r, d2) \<Rightarrow> (Inr r, d2)))"

definition role_Create :: "uuid \<Rightarrow> time \<Rightarrow> role_CreateParams \<Rightarrow> int \<Rightarrow> (role_row, db) call" where
  "role_Create newID now params maxRoles = WithTx (role_create_tx newID now params maxRoles)"

definition updated_role :: "time \<Rightarrow> role_UpdateParams \<Rightarrow> role_row \<Rightarrow> role_row" where
  "updated_role now p r =
     r\<lparr>r_name := (case up_Name p of None \<Rightarrow> r_name r | Some x \<Rightarrow> x),
       r_colour := (case up_Colour p of None \<Rightarrow> r_colour r | Some x \<Rightarrow> x),
       r_position := (case up_Position p of None \<Rightarrow> r_position r | Some x \<Rightarrow> x),
       r_permissions := (case up_Permissions p of None \<Rightarrow> r_permissions r | Some x \<Rightarrow> x),
       r_hoist := (case up_Hoist p of None \<Rightarrow> r_hoist r | Some x \<Rightarrow> x),
       r_updated_at := now\<rparr>"

text \<open>
  The \<open>UPDATE\<close>: a position that does not fit the column cannot be encoded; another role with the
  same name or position is a unique violation, the latter found when the statement commits.
\<close>

definition fits_int4 :: "int option \<Rightarrow> bool" where
  "fits_int4 x = (case x of None \<Rightarrow> True | Some n \<Rightarrow> - max_int4 - 1 \<le> n \<and> n \<le> max_int4)"

definition update_role :: "uuid \<Rightarrow> time \<Rightarrow> role_UpdateParams \<Rightarrow> (role_row option, db) call" where
  "update_role i now p d =
     (if \<not> fits_int4 (up_Position p) \<or> \<not> fits_int4 (up_Colour p) then (Inl (Ext ''cannot encode into int4''), d)
      else case find_role i d of
             None \<Rightarrow> (Inr None, d)
           | Some r \<Rightarrow>
               (let r' = updated_role now p r; others = filter (\<lambda>x. r_id x \<noteq> i) (t_roles d)
                in if r_name r' \<in> set (map r_name others) \<or> r_position r' \<in> set (map r_position others)
                   then (Inl unique_violation, d)
                   else (Inr (Some r'), d\<lparr>t_roles := map (\<lambda>x. if r_id x = i then r' else x) (t_roles d)\<rparr>)))"

definition role_Update :: "uuid \<Rightarrow> time \<Rightarrow> role_UpdateParams \<Rightarrow> (role_row, db) call" where
  "role_Update i now p d =
     (if up_Name p = None \<and> up_Colour p = None \<and> up_Position p = None \<and> up_Permissions p = None \<and> up_Hoist p = None
      then role_GetByID i d
      else case scanRole (pg_stmt (update_role i now p)) d of
             (Inl e, d') \<Rightarrow>
               (if errors_Is e pgx_ErrNoRows then (Inl role_ErrNotFound, d')
                else if IsUniqueViolation e then (Inl role_ErrAlreadyExists, d')
                else (Inl (Wrap ''update role'' e), d'))
           | (Inr r, d') \<Rightarrow> (Inr r, d'))"

text \<open>
  Deleting a role cascades to \<open>member_roles\<close>, and a trigger removes the overrides of the role.
  The result is the number of rows deleted.
\<close>

definition delete_role :: "uuid \<Rightarrow> (nat, db) call" where
  "delete_role i d =
     (let hit = (\<lambda>r. r_id r = i \<and> \<not> r_is_everyone r); n = length (filter hit (t_roles d))
      in if n = 0 then (Inr 0, d)
         else (Inr n, d\<lparr>t_roles := filter (\<lambda>r. \<not> hit r) (t_roles d),
                        t_member_roles := filter (\<lambda>mr. mr_role_id mr \<noteq> i) (t_member_roles d),
                        t_overrides := filter (\<lambda>v. \<not> (or_PrincipalType v = PrincipalRole \<and> or_PrincipalID v = i)) (t_overrides d)\<rparr>))"

definition role_Delete :: "uuid \<Rightarrow> (unit, db) call" where
  "role_Delete i d =
     (case pg_stmt (delete_role i) d of
        (Inl e, d1) \<Rightarrow> (Inl (Wrap ''delete role'' e), d1)
      | (Inr n, d1) \<Rightarrow>
          (if n = 0
           then case pg_query (find_role i) d1 of
                  (Inl e, d2) \<Rightarrow> (Inl (Wrap ''check role existence'' e), d2)
                | (Inr None, d2) \<Rightarrow> (Inl role_ErrNotFound, d2)
                | (Inr (Some _), d2) \<Rightarrow> (Inl role_ErrEveryoneImmutable, d2)
           else (Inr (), d1)))"

definition MaxInt :: int where
  "MaxInt = 9223372036854775807"

text \<open>\<open>SELECT MIN(r.position)\<close> over the roles assigned to the user, without the everyone role.\<close>

definition explicit_positions :: "uuid \<Rightarrow> db \<Rightarrow> int list" where
  "explicit_positions userID d =
     map r_position (filter (\<lambda>r. \<not> r_is_everyone r \<and>
        (\<exists>mr \<in> set (t_member_roles d). mr_role_id mr = r_id r \<and> mr_user_id mr = userID)) (t_roles d))"

definition highest_position :: "uuid \<Rightarrow> db \<Rightarrow> int" where
  "highest_position userID d =
     (let ps = explicit_positions userID d in if ps = [] then MaxInt else Min (set ps))"

definition HighestPosition :: "uuid \<Rightarrow> (int, db) call" where
  "HighestPosition userID d =
     (case pg_query (highest_position userID) d of
        (Inl e, d') \<Rightarrow> (Inl (Wrap ''query highest role position'' e), d')
      | (Inr p, d') \<Rightarrow> (Inr p, d'))"

section \<open>Endpoints\<close>

record CreateRoleRequest =
  cr_Name :: string
  cr_Colour :: "int option"
  cr_Permissions :: "int64 option"
  cr_Hoist :: "bool option"

definition mapRoleError :: "error \<Rightarrow> 'p reaction" where
  "mapRoleError e =
     (if errors_Is e role_ErrNotFound then Fail 404 UnknownRole ''Role not found''
      else if errors_Is e role_ErrNameLength then Fail 400 ValidationError ''role name must be between 1 and 100 characters''
      else if errors_Is e role_ErrInvalidPosition then Fail 400 ValidationError ''position must be non-negative''
      else if errors_Is e role_ErrInvalidPermissions
           then Fail 400 ValidationError ''permissions bitfield contains invalid bits''
      else if errors_Is e role_ErrInvalidColour then Fail 400 ValidationError ''colour must be between 0 and 16777215''
      else if errors_Is e role_ErrAlreadyExists then Fail 409 AlreadyExists ''role name or position already taken''
      else if errors_Is e role_ErrMaxRolesReached then Fail 400 MaxRolesReached ''maximum number of roles reached''
      else if errors_Is e role_ErrEveryoneImmutable then Fail 403 ValidationError ''the @everyone role cannot be deleted''
      else Fail 500 InternalError ''An internal error occurred'')"

definition internal_error :: "'p reaction" where
  "internal_error = Fail 500 InternalError ''An internal error occurred''"

definition invalidate_all :: "uuid_lib \<Rightarrow> 'r valkey \<Rightarrow> handler \<Rightarrow> 'r world \<Rightarrow> 'r world" where
  "invalidate_all U V h w = (if h_perms h then snd (on_vk (InvalidateAll U V) w) else w)"

definition ListRoles :: "uuid_lib \<Rightarrow> (time \<Rightarrow> string) \<Rightarrow> 'r world \<Rightarrow> RoleModel list reaction \<times> 'r world" where
  "ListRoles U Z w =
     (case on_db role_List w of
        (Inl _, w1) \<Rightarrow> (internal_error, w1)
      | (Inr rows, w1) \<Rightarrow> (Success (map (role_ToModel U Z) rows), w1))"

definition CreateRole ::
  "perm_lib \<Rightarrow> uuid_lib \<Rightarrow> 'r valkey \<Rightarrow> proto \<Rightarrow> (time \<Rightarrow> string) \<Rightarrow> handler \<Rightarrow> int \<Rightarrow> uuid \<Rightarrow> time \<Rightarrow> request
     \<Rightarrow> CreateRoleRequest option \<Rightarrow> 'r world \<Rightarrow> RoleModel reaction \<times> 'r world" where
  "CreateRole P U V M Z h maxRoles newID now c body w =
     (case UserID c of Inl rx \<Rightarrow> (rx, w) | Inr userID \<Rightarrow>
     (case body of None \<Rightarrow> (Fail 400 InvalidBody ''Invalid request body'', w) | Some b \<Rightarrow>
     (case role_ValidateNameRequired (cr_Name b) of Inl e \<Rightarrow> (mapRoleError e, w) | Inr name \<Rightarrow>
     (case role_ValidateColour (cr_Colour b) of Inl e \<Rightarrow> (mapRoleError e, w) | Inr _ \<Rightarrow>
     (case role_ValidatePermissions P (cr_Permissions b) of Inl e \<Rightarrow> (mapRoleError e, w) | Inr _ \<Rightarrow>
     (let params = \<lparr>cp_Name = name, cp_Colour = (case cr_Colour b of None \<Rightarrow> 0 | Some x \<Rightarrow> x),
                    cp_Permissions = (case cr_Permissions b of None \<Rightarrow> 0 | Some x \<Rightarrow> x),
                    cp_Hoist = (case cr_Hoist b of None \<Rightarrow> False | Some x \<Rightarrow> x)\<rparr>
      in case on_db (role_Create newID now params maxRoles) w of
           (Inl e, w1) \<Rightarrow> (mapRoleError e, w1)
         | (Inr created, w1) \<Rightarrow>
             (let w2 = go_Record h (audit_entry userID ''role.create'' ''role'' (r_id created)) w1;
                  result = role_ToModel U Z created;
                  w3 = Enqueue h (ev M EvRoleCreate) (js_Role M result) w2
              in (SuccessStatus 201 result, invalidate_all U V h w3))))))))"

definition UpdateRole ::
  "perm_lib \<Rightarrow> uuid_lib \<Rightarrow> 'r valkey \<Rightarrow> proto \<Rightarrow> (time \<Rightarrow> string) \<Rightarrow> handler \<Rightarrow> time \<Rightarrow> request
     \<Rightarrow> role_UpdateParams option \<Rightarrow> 'r world \<Rightarrow> RoleModel reaction \<times> 'r world" where
  "UpdateRole P U V M Z h now c body w =
     (case UserID c of Inl rx \<Rightarrow> (rx, w) | Inr userID \<Rightarrow>
     (case ParseUUIDParam U c ''roleID'' ValidationError of Inl rx \<Rightarrow> (rx, w) | Inr i \<Rightarrow>
     (case body of None \<Rightarrow> (Fail 400 InvalidBody ''Invalid request body'', w) | Some b \<Rightarrow>
     (case role_ValidateName (up_Name b) of Inl e \<Rightarrow> (mapRoleError e, w) | Inr name \<Rightarrow>
     (case role_ValidatePosition (up_Position b) of Inl e \<Rightarrow> (mapRoleError e, w) | Inr _ \<Rightarrow>
     (case role_ValidateColour (up_Colour b) of Inl e \<Rightarrow> (mapRoleError e, w) | Inr _ \<Rightarrow>
     (case role_ValidatePermissions P (up_Permissions b) of Inl e \<Rightarrow> (mapRoleError e, w) | Inr _ \<Rightarrow>
     (case on_db (role_GetByID i) w of (Inl e, w1) \<Rightarrow> (mapRoleError e, w1) | (Inr target, w1) \<Rightarrow>
     (case on_db (HighestPosition userID) w1 of (Inl _, w2) \<Rightarrow> (internal_error, w2) | (Inr callerPos, w2) \<Rightarrow>
     (if r_position target \<le> callerPos
      then (Fail 403 RoleHierarchy ''Cannot modify roles at or above your highest role'', w2)
      else if (case up_Position b of None \<Rightarrow> False | Some x \<Rightarrow> x \<le> callerPos)
      then (Fail 403 RoleHierarchy ''Cannot move a role to a position at or above your highest role'', w2)
      else if r_is_everyone target \<and> name \<noteq> None
      then (Fail 403 ValidationError ''The @everyone role cannot be renamed'', w2)
      else case on_db (role_Update i now (b\<lparr>up_Name := name\<rparr>)) w2 of
             (Inl e, w3) \<Rightarrow> (mapRoleError e, w3)
           | (Inr updated, w3) \<Rightarrow>
               (let w4 = go_Record h (audit_entry userID ''role.update'' ''role'' i) w3;
                    result = role_ToModel U Z updated;
                    w5 = Enqueue h (ev M EvRoleUpdate) (js_Role M result) w4
                in (Success result, invalidate_all U V h w5))))))))))))"

definition DeleteRole ::
  "uuid_lib \<Rightarrow> 'r valkey \<Rightarrow> proto \<Rightarrow> handler \<Rightarrow> request \<Rightarrow> 'r world \<Rightarrow> RoleModel reaction \<times> 'r world" where
  "DeleteRole U V M h c w =
     (case UserID c of Inl rx \<Rightarrow> (rx, w) | Inr userID \<Rightarrow>
     (case ParseUUIDParam U c ''roleID'' ValidationError of Inl rx \<Rightarrow> (rx, w) | Inr i \<Rightarrow>
     (case on_db (role_GetByID i) w of (Inl e, w1) \<Rightarrow> (mapRoleError e, w1) | (Inr target, w1) \<Rightarrow>
     (case on_db (HighestPosition userID) w1 of (Inl _, w2) \<Rightarrow> (internal_error, w2) | (Inr callerPos, w2) \<Rightarrow>
     (if r_position target \<le> callerPos
      then (Fail 403 RoleHierarchy ''Cannot delete roles at or above your highest role'', w2)
      else case on_db (role_Delete i) w2 of
             (Inl e, w3) \<Rightarrow> (mapRoleError e, w3)
           | (Inr _, w3) \<Rightarrow>
               (let w4 = go_Record h (audit_entry userID ''role.delete'' ''role'' i) w3;
                    w5 = Enqueue h (ev M EvRoleDelete) (js_RoleDelete M (uuid_String U i)) w4
                in (SendStatus 204, invalidate_all U V h w5)))))))"

end
