(* ===== verification/Member_Http.thy ===== *)
theory Member_Http
  imports Member Role
begin

text \<open>
  \<open>internal/api/member.go\<close>: the member and ban endpoints, with the guards that keep moderators
  from acting on the owner and on members of equal or higher rank. \<open>T\<close> parses an RFC 3339
  timestamp and \<open>Z\<close> formats one; a request body is \<open>None\<close> when it cannot be decoded. Slices are
  lists, so that a nil slice and an empty one are the same.
\<close>

section \<open>Guards and errors\<close>

definition errOutranked :: error where "errOutranked = Sentinel ''api.errOutranked''"
definition errTargetIsOwner :: error where "errTargetIsOwner = Sentinel ''api.errTargetIsOwner''"

definition checkHierarchy :: "uuid \<Rightarrow> uuid \<Rightarrow> (unit, 'r world) call" where
  "checkHierarchy callerID targetID w =
     (case on_db (HighestPosition callerID) w of
        (Inl e, w1) \<Rightarrow> (Inl (Wrap ''get caller role position'' e), w1)
      | (Inr callerPos, w1) \<Rightarrow>
          (case on_db (HighestPosition targetID) w1 of
             (Inl e, w2) \<Rightarrow> (Inl (Wrap ''get target role position'' e), w2)
           | (Inr targetPos, w2) \<Rightarrow> (if targetPos \<le> callerPos then (Inl errOutranked, w2) else (Inr (), w2))))"

definition checkNotOwner :: "uuid \<Rightarrow> (unit, 'r world) call" where
  "checkNotOwner userID w =
     (case on_db (pg_IsOwner userID) w of
        (Inl e, w1) \<Rightarrow> (Inl (Wrap ''check ownership'' e), w1)
      | (Inr isOwner, w1) \<Rightarrow> (if isOwner then (Inl errTargetIsOwner, w1) else (Inr (), w1)))"

definition mapGuardError :: "error \<Rightarrow> 'p reaction" where
  "mapGuardError e =
     (if errors_Is e errOutranked
      then Fail 403 RoleHierarchy ''Cannot perform this action on a member with an equal or higher role''
      else if errors_Is e errTargetIsOwner
      then Fail 403 ServerOwner ''The server owner cannot be targeted by this action''
      else Fail 500 InternalError ''An internal error occurred'')"

definition mapMemberError :: "error \<Rightarrow> 'p reaction" where
  "mapMemberError e =
     (if errors_Is e member_ErrNotFound then Fail 404 UnknownMember ''Member not found''
      else if errors_Is e ErrBanNotFound then Fail 404 UnknownBan ''Ban not found''
      else if errors_Is e ErrNicknameLength then Fail 400 ValidationError ''nickname must be between 1 and 32 characters''
      else if errors_Is e ErrAlreadyMember then Fail 409 AlreadyMember ''user is already a member''
      else if errors_Is e ErrAlreadyBanned then Fail 409 AlreadyExists ''user is already banned''
      else if errors_Is e ErrEveryoneRole
           then Fail 400 ValidationError ''the @everyone role cannot be manually assigned or removed''
      else if errors_Is e ErrTimeoutInPast then Fail 400 ValidationError ''timeout must be in the future''
      else Fail 500 InternalError ''An internal error occurred'')"

definition publishMemberUpdate :: "proto \<Rightarrow> handler \<Rightarrow> MemberModel \<Rightarrow> 'r world \<Rightarrow> 'r world" where
  "publishMemberUpdate M h m w = Enqueue h (ev M EvMemberUpdate) (js_Member M m) w"

definition publishMemberRemove :: "proto \<Rightarrow> handler \<Rightarrow> string \<Rightarrow> 'r world \<Rightarrow> 'r world" where
  "publishMemberRemove M h userID w = Enqueue h (ev M EvMemberRemove) (js_MemberRemove M userID) w"

definition invalidateUser :: "uuid_lib \<Rightarrow> 'r valkey \<Rightarrow> handler \<Rightarrow> uuid \<Rightarrow> 'r world \<Rightarrow> 'r world" where
  "invalidateUser U V h userID w = (if h_perms h then snd (on_vk (InvalidateUser U V userID) w) else w)"

definition toBanModel :: "uuid_lib \<Rightarrow> (time \<Rightarrow> string) \<Rightarrow> BanRecord \<Rightarrow> BanModel" where
  "toBanModel U Z b =
     \<lparr>bm_User = \<lparr>mu_ID = uuid_String U (br_UserID b), mu_Username = br_Username b, mu_DisplayName = br_DisplayName b,
                 mu_AvatarKey = br_AvatarKey b\<rparr>,
      bm_Reason = br_Reason b, bm_BannedBy = map_option (uuid_String U) (br_BannedBy b),
      bm_ExpiresAt = map_option Z (br_ExpiresAt b), bm_CreatedAt = Z (br_CreatedAt b)\<rparr>"

section \<open>Listing\<close>

text \<open>The optional cursor parameter \<open>after\<close>.\<close>

definition after_query :: "uuid_lib \<Rightarrow> request \<Rightarrow> 'p reaction + uuid option" where
  "after_query U c =
     (let raw = rq_query c ''after''
      in if raw = [] then Inr None
         else case uuid_Parse U raw of
                None \<Rightarrow> Inl (Fail 400 ValidationError ''Invalid after parameter'')
              | Some i \<Rightarrow> Inr (Some i))"

definition ListMembers ::
  "uuid_lib \<Rightarrow> (time \<Rightarrow> string) \<Rightarrow> request \<Rightarrow> 'r world \<Rightarrow> MemberModel list reaction \<times> 'r world" where
  "ListMembers U Z c w =
     (case after_query U c of Inl rx \<Rightarrow> (rx, w) | Inr after \<Rightarrow>
     (case ParseIntQuery c ''limit'' of Inl rx \<Rightarrow> (rx, w) | Inr rawLimit \<Rightarrow>
     (case on_db (member_List after (member_ClampLimit rawLimit)) w of
        (Inl _, w1) \<Rightarrow> (internal_error, w1)
      | (Inr members, w1) \<Rightarrow> (Success (map (member_ToModel U Z) members), w1))))"

text \<open>The inner loop of \<open>ListChannelMembers\<close>: append the permitted members of a batch up to the limit.\<close>

fun append_permitted :: "int \<Rightarrow> (WithProfile \<times> bool) list \<Rightarrow> WithProfile list \<Rightarrow> WithProfile list" where
  "append_permitted limit [] result = result"
| "append_permitted limit ((m, permitted) # batch) result =
     (if permitted
      then if int (length (result @ [m])) \<ge> limit then result @ [m] else append_permitted limit batch (result @ [m])
      else append_permitted limit batch result)"

text \<open>
  The outer loop; \<open>result\<close> holds the members whose models were appended. \<open>None\<close> would be a
  loop that does not end.
\<close>

partial_function (option) channel_members_loop ::
  "perm_lib \<Rightarrow> uuid_lib \<Rightarrow> 'r valkey \<Rightarrow> (time \<Rightarrow> string) \<Rightarrow> uuid \<Rightarrow> int \<Rightarrow> uuid option \<Rightarrow> WithProfile list \<Rightarrow> 'r world
     \<Rightarrow> (MemberModel list reaction \<times> 'r world) option" where
  "channel_members_loop P U V Z channelID limit cursor result w =
     (if \<not> int (length result) < limit then Some (Success (map (member_ToModel U Z) result), w)
      else case on_db (member_List cursor (limit * 2)) w of
             (Inl _, w1) \<Rightarrow> Some (internal_error, w1)
           | (Inr batch, w1) \<Rightarrow>
               (case FilterUsersPermitted P PGStore (ValkeyCache U V) (map wp_UserID batch) channelID (ViewChannels P) w1 of
                  (Inl _, w2) \<Rightarrow> Some (internal_error, w2)
                | (Inr permitted, w2) \<Rightarrow>
                    (let result' = append_permitted limit (zip batch permitted) result
                     in if int (length batch) < limit * 2 then Some (Success (map (member_ToModel U Z) result'), w2)
                        else channel_members_loop P U V Z channelID limit (Some (wp_UserID (last batch))) result' w2)))"

definition ListChannelMembers ::
  "perm_lib \<Rightarrow> uuid_lib \<Rightarrow> 'r valkey \<Rightarrow> (time \<Rightarrow> string) \<Rightarrow> request \<Rightarrow> 'r world
     \<Rightarrow> (MemberModel list reaction \<times> 'r world) option" where
  "ListChannelMembers P U V Z c w =
     (case ParseUUIDParam U c ''channelID'' ValidationError of Inl rx \<Rightarrow> Some (rx, w) | Inr channelID \<Rightarrow>
     (case after_query U c of Inl rx \<Rightarrow> Some (rx, w) | Inr after \<Rightarrow>
     (case ParseIntQuery c ''limit'' of Inl rx \<Rightarrow> Some (rx, w) | Inr rawLimit \<Rightarrow>
        channel_members_loop P U V Z channelID (member_ClampLimit rawLimit) after [] w)))"

definition ListBans ::
  "uuid_lib \<Rightarrow> (time \<Rightarrow> string) \<Rightarrow> request \<Rightarrow> 'r world \<Rightarrow> BanModel list reaction \<times> 'r world" where
  "ListBans U Z c w =
     (case after_query U c of Inl rx \<Rightarrow> (rx, w) | Inr after \<Rightarrow>
     (case ParseIntQuery c ''limit'' of Inl rx \<Rightarrow> (rx, w) | Inr rawLimit \<Rightarrow>
     (case on_db (repo_ListBans after (member_ClampLimit rawLimit)) w of
        (Inl _, w1) \<Rightarrow> (internal_error, w1)
      | (Inr bans, w1) \<Rightarrow> (Success (map (toBanModel U Z) bans), w1))))"

section \<open>One's own membership\<close>

definition GetSelf ::
  "uuid_lib \<Rightarrow> (time \<Rightarrow> string) \<Rightarrow> request \<Rightarrow> 'r world \<Rightarrow> MemberModel reaction \<times> 'r world" where
  "GetSelf U Z c w =
     (case UserID c of Inl rx \<Rightarrow> (rx, w) | Inr userID \<Rightarrow>
     (case on_db (GetByUserIDAnyStatus userID) w of
        (Inl e, w1) \<Rightarrow> (mapMemberError e, w1)
      | (Inr m, w1) \<Rightarrow> (Success (member_ToModel U Z m), w1)))"

definition UpdateSelf ::
  "uuid_lib \<Rightarrow> proto \<Rightarrow> (time \<Rightarrow> string) \<Rightarrow> handler \<Rightarrow> request \<Rightarrow> string option option \<Rightarrow> 'r world
     \<Rightarrow> MemberModel reaction \<times> 'r world" where
  "UpdateSelf U M Z h c body w =
     (case UserID c of Inl rx \<Rightarrow> (rx, w) | Inr userID \<Rightarrow>
     (case body of None \<Rightarrow> (Fail 400 InvalidBody ''Invalid request body'', w) | Some nick \<Rightarrow>
     (case ValidateNickname nick of Inl e \<Rightarrow> (mapMemberError e, w) | Inr nickname \<Rightarrow>
     (case on_db (UpdateNickname userID nickname) w of
        (Inl e, w1) \<Rightarrow> (mapMemberError e, w1)
      | (Inr updated, w1) \<Rightarrow>
          (let result = member_ToModel U Z updated in (Success result, publishMemberUpdate M h result w1))))))"

definition Leave ::
  "uuid_lib \<Rightarrow> 'r valkey \<Rightarrow> proto \<Rightarrow> handler \<Rightarrow> request \<Rightarrow> 'r world \<Rightarrow> MemberModel reaction \<times> 'r world" where
  "Leave U V M h c w =
     (case UserID c of Inl rx \<Rightarrow> (rx, w) | Inr userID \<Rightarrow>
     (case checkNotOwner userID w of (Inl e, w1) \<Rightarrow> (mapGuardError e, w1) | (Inr _, w1) \<Rightarrow>
     (case on_db (member_Delete userID) w1 of
        (Inl e, w2) \<Rightarrow> (mapMemberError e, w2)
      | (Inr _, w2) \<Rightarrow>
          (let w3 = publishMemberRemove M h (uuid_String U userID) w2
           in (SendStatus 204, invalidateUser U V h userID w3)))))"

section \<open>Moderation\<close>

definition GetMember ::
  "uuid_lib \<Rightarrow> (time \<Rightarrow> string) \<Rightarrow> request \<Rightarrow> 'r world \<Rightarrow> MemberModel reaction \<times> 'r world" where
  "GetMember U Z c w =
     (case ParseUUIDParam U c ''userID'' ValidationError of Inl rx \<Rightarrow> (rx, w) | Inr targetID \<Rightarrow>
     (case on_db (GetByUserID targetID) w of
        (Inl e, w1) \<Rightarrow> (mapMemberError e, w1)
      | (Inr m, w1) \<Rightarrow> (Success (member_ToModel U Z m), w1)))"

definition UpdateMember ::
  "uuid_lib \<Rightarrow> proto \<Rightarrow> (time \<Rightarrow> string) \<Rightarrow> handler \<Rightarrow> request \<Rightarrow> string option option \<Rightarrow> 'r world
     \<Rightarrow> MemberModel reaction \<times> 'r world" where
  "UpdateMember U M Z h c body w =
     (case UserID c of Inl rx \<Rightarrow> (rx, w) | Inr userID \<Rightarrow>
     (case ParseUUIDParam U c ''userID'' ValidationError of Inl rx \<Rightarrow> (rx, w) | Inr targetID \<Rightarrow>
     (case body of None \<Rightarrow> (Fail 400 InvalidBody ''Invalid request body'', w) | Some nick \<Rightarrow>
     (case ValidateNickname nick of Inl e \<Rightarrow> (mapMemberError e, w) | Inr nickname \<Rightarrow>
     (case checkHierarchy userID targetID w of (Inl e, w1) \<Rightarrow> (mapGuardError e, w1) | (Inr _, w1) \<Rightarrow>
     (case on_db (UpdateNickname targetID nickname) w1 of
        (Inl e, w2) \<Rightarrow> (mapMemberError e, w2)
      | (Inr updated, w2) \<Rightarrow>
          (let result = member_ToModel U Z updated in (Success result, publishMemberUpdate M h result w2))))))))"

definition KickMember ::
  "uuid_lib \<Rightarrow> 'r valkey \<Rightarrow> proto \<Rightarrow> handler \<Rightarrow> request \<Rightarrow> 'r world \<Rightarrow> MemberModel reaction \<times> 'r world" where
  "KickMember U V M h c w =
     (case UserID c of Inl rx \<Rightarrow> (rx, w) | Inr userID \<Rightarrow>
     (case ParseUUIDParam U c ''userID'' ValidationError of Inl rx \<Rightarrow> (rx, w) | Inr targetID \<Rightarrow>
     (case checkNotOwner targetID w of (Inl e, w1) \<Rightarrow> (mapGuardError e, w1) | (Inr _, w1) \<Rightarrow>
     (case checkHierarchy userID targetID w1 of (Inl e, w2) \<Rightarrow> (mapGuardError e, w2) | (Inr _, w2) \<Rightarrow>
     (case on_db (member_Delete targetID) w2 of
        (Inl e, w3) \<Rightarrow> (mapMemberError e, w3)
      | (Inr _, w3) \<Rightarrow>
          (let w4 = go_Record h (audit_entry userID ''member.kick'' ''user'' targetID) w3;
               w5 = publishMemberRemove M h (uuid_String U targetID) w4
           in (SendStatus 204, invalidateUser U V h targetID w5)))))))"

text \<open>\<open>time.Now\<close> is read by the handler (\<open>now1\<close>) and again by the repository (\<open>now2\<close>).\<close>

definition SetTimeout ::
  "uuid_lib \<Rightarrow> 'r valkey \<Rightarrow> proto \<Rightarrow> (time \<Rightarrow> string) \<Rightarrow> (string \<Rightarrow> time option) \<Rightarrow> handler \<Rightarrow> time \<Rightarrow> time \<Rightarrow> request
     \<Rightarrow> string option \<Rightarrow> 'r world \<Rightarrow> MemberModel reaction \<times> 'r world" where
  "SetTimeout U V M Z T h now1 now2 c body w =
     (case UserID c of Inl rx \<Rightarrow> (rx, w) | Inr userID \<Rightarrow>
     (case ParseUUIDParam U c ''userID'' ValidationError of Inl rx \<Rightarrow> (rx, w) | Inr targetID \<Rightarrow>
     (case body of None \<Rightarrow> (Fail 400 InvalidBody ''Invalid request body'', w) | Some untilText \<Rightarrow>
     (case T untilText of
        None \<Rightarrow> (Fail 400 ValidationError ''Invalid timestamp format, expected RFC3339'', w)
      | Some ends \<Rightarrow>
     (if \<not> ends > now1 then (mapMemberError ErrTimeoutInPast, w)
      else
     (case checkNotOwner targetID w of (Inl e, w1) \<Rightarrow> (mapGuardError e, w1) | (Inr _, w1) \<Rightarrow>
     (case checkHierarchy userID targetID w1 of (Inl e, w2) \<Rightarrow> (mapGuardError e, w2) | (Inr _, w2) \<Rightarrow>
     (case on_db (repo_SetTimeout now2 targetID ends) w2 of
        (Inl e, w3) \<Rightarrow> (mapMemberError e, w3)
      | (Inr updated, w3) \<Rightarrow>
          (let w4 = go_Record h (audit_entry userID ''member.timeout'' ''user'' targetID) w3;
               result = member_ToModel U Z updated;
               w5 = publishMemberUpdate M h result w4
           in (Success result, invalidateUser U V h targetID w5))))))))))"

definition ClearTimeout ::
  "uuid_lib \<Rightarrow> 'r valkey \<Rightarrow> proto \<Rightarrow> (time \<Rightarrow> string) \<Rightarrow> handler \<Rightarrow> request \<Rightarrow> 'r world \<Rightarrow> MemberModel reaction \<times> 'r world" where
  "ClearTimeout U V M Z h c w =
     (case UserID c of Inl rx \<Rightarrow> (rx, w) | Inr userID \<Rightarrow>
     (case ParseUUIDParam U c ''userID'' ValidationError of Inl rx \<Rightarrow> (rx, w) | Inr targetID \<Rightarrow>
     (case on_db (repo_ClearTimeout targetID) w of
        (Inl e, w1) \<Rightarrow> (mapMemberError e, w1)
      | (Inr updated, w1) \<Rightarrow>
          (let w2 = go_Record h (audit_entry userID ''member.timeout_clear'' ''user'' targetID) w1;
               result = member_ToModel U Z updated;
               w3 = publishMemberUpdate M h result w2
           in (Success result, invalidateUser U V h targetID w3)))))"

record BanMemberRequest =
  bq_Reason :: "string option"
  bq_ExpiresAt :: "string option"

definition BanMember ::
  "uuid_lib \<Rightarrow> 'r valkey \<Rightarrow> proto \<Rightarrow> (string \<Rightarrow> time option) \<Rightarrow> handler \<Rightarrow> time \<Rightarrow> request
     \<Rightarrow> BanMemberRequest option \<Rightarrow> 'r world \<Rightarrow> MemberModel reaction \<times> 'r world" where
  "BanMember U V M T h now c body w =
     (case UserID c of Inl rx \<Rightarrow> (rx, w) | Inr userID \<Rightarrow>
     (case ParseUUIDParam U c ''userID'' ValidationError of Inl rx \<Rightarrow> (rx, w) | Inr targetID \<Rightarrow>
     (case body of None \<Rightarrow> (Fail 400 InvalidBody ''Invalid request body'', w) | Some b \<Rightarrow>
     (case (case bq_ExpiresAt b of
              None \<Rightarrow> Inr None
            | Some s \<Rightarrow> (case T s of
                None \<Rightarrow> Inl (Fail 400 ValidationError ''Invalid expires_at format, expected RFC3339'')
              | Some t \<Rightarrow> Inr (Some t))) of
        Inl rx \<Rightarrow> (rx, w)
      | Inr expiresAt \<Rightarrow>
     (case checkNotOwner targetID w of (Inl e, w1) \<Rightarrow> (mapGuardError e, w1) | (Inr _, w1) \<Rightarrow>
     (case checkHierarchy userID targetID w1 of (Inl e, w2) \<Rightarrow> (mapGuardError e, w2) | (Inr _, w2) \<Rightarrow>
     (case on_db (Ban now targetID userID (bq_Reason b) expiresAt) w2 of
        (Inl e, w3) \<Rightarrow> (mapMemberError e, w3)
      | (Inr _, w3) \<Rightarrow>
          (let w4 = go_Record h ((audit_entry userID ''member.ban'' ''user'' targetID)\<lparr>en_Reason := bq_Reason b\<rparr>) w3;
               w5 = publishMemberRemove M h (uuid_String U targetID) w4
           in (SendStatus 204, invalidateUser U V h targetID w5)))))))))"

definition UnbanMember ::
  "uuid_lib \<Rightarrow> handler \<Rightarrow> request \<Rightarrow> 'r world \<Rightarrow> MemberModel reaction \<times> 'r world" where
  "UnbanMember U h c w =
     (case UserID c of Inl rx \<Rightarrow> (rx, w) | Inr userID \<Rightarrow>
     (case ParseUUIDParam U c ''userID'' ValidationError of Inl rx \<Rightarrow> (rx, w) | Inr targetID \<Rightarrow>
     (case on_db (Unban targetID) w of
        (Inl e, w1) \<Rightarrow> (mapMemberError e, w1)
      | (Inr _, w1) \<Rightarrow>
          (SendStatus 204, go_Record h (audit_entry userID ''member.unban'' ''user'' targetID) w1))))"

section \<open>Role assignment\<close>

definition role_lookup_error :: "error \<Rightarrow> 'p reaction" where
  "role_lookup_error e =
     (if errors_Is e role_ErrNotFound then Fail 404 UnknownRole ''Role not found'' else internal_error)"

definition role_change :: "uuid_lib \<Rightarrow> uuid \<Rightarrow> string \<Rightarrow> uuid \<Rightarrow> uuid \<Rightarrow> Entry" where
  "role_change U userID action targetID roleID =
     (audit_entry userID action ''user'' targetID)
       \<lparr>en_Changes := Some (JObj [(''role_id'', JStr (uuid_String U roleID))])\<rparr>"

definition AssignRole ::
  "uuid_lib \<Rightarrow> 'r valkey \<Rightarrow> proto \<Rightarrow> (time \<Rightarrow> string) \<Rightarrow> handler \<Rightarrow> request \<Rightarrow> 'r world \<Rightarrow> MemberModel reaction \<times> 'r world" where
  "AssignRole U V M Z h c w =
     (case UserID c of Inl rx \<Rightarrow> (rx, w) | Inr userID \<Rightarrow>
     (case ParseUUIDParam U c ''userID'' ValidationError of Inl rx \<Rightarrow> (rx, w) | Inr targetID \<Rightarrow>
     (case ParseUUIDParam U c ''roleID'' ValidationError of Inl rx \<Rightarrow> (rx, w) | Inr roleID \<Rightarrow>
     (case on_db (role_GetByID roleID) w of (Inl e, w1) \<Rightarrow> (role_lookup_error e, w1) | (Inr r, w1) \<Rightarrow>
     (if r_is_everyone r then (mapMemberError ErrEveryoneRole, w1)
      else
     (case on_db (HighestPosition userID) w1 of (Inl _, w2) \<Rightarrow> (internal_error, w2) | (Inr callerPos, w2) \<Rightarrow>
     (if r_position r \<le> callerPos
      then (Fail 403 RoleHierarchy ''Cannot assign a role at or above your highest role'', w2)
      else
     (case on_db (GetByUserID targetID) w2 of (Inl e, w3) \<Rightarrow> (mapMemberError e, w3) | (Inr _, w3) \<Rightarrow>
     (case on_db (repo_AssignRole targetID roleID) w3 of
        (Inl e, w4) \<Rightarrow> (mapMemberError e, w4)
      | (Inr _, w4) \<Rightarrow>
          (let w5 = go_Record h (role_change U userID ''member.role_assign'' targetID roleID) w4;
               w6 = invalidateUser U V h targetID w5
           in case on_db (GetByUserID targetID) w6 of
                (Inl e, w7) \<Rightarrow> (mapMemberError e, w7)
              | (Inr updated, w7) \<Rightarrow>
                  (let result = member_ToModel U Z updated
                   in (Success result, publishMemberUpdate M h result w7))))))))))))"

definition RemoveRole ::
  "uuid_lib \<Rightarrow> 'r valkey \<Rightarrow> proto \<Rightarrow> (time \<Rightarrow> string) \<Rightarrow> handler \<Rightarrow> request \<Rightarrow> 'r world \<Rightarrow> MemberModel reaction \<times> 'r world" where
  "RemoveRole U V M Z h c w =
     (case UserID c of Inl rx \<Rightarrow> (rx, w) | Inr userID \<Rightarrow>
     (case ParseUUIDParam U c ''userID'' ValidationError of Inl rx \<Rightarrow> (rx, w) | Inr targetID \<Rightarrow>
     (case ParseUUIDParam U c ''roleID'' ValidationError of Inl rx \<Rightarrow> (rx, w) | Inr roleID \<Rightarrow>
     (case on_db (role_GetByID roleID) w of (Inl e, w1) \<Rightarrow> (role_lookup_error e, w1) | (Inr r, w1) \<Rightarrow>
     (if r_is_everyone r then (mapMemberError ErrEveryoneRole, w1)
      else
     (case on_db (HighestPosition userID) w1 of (Inl _, w2) \<Rightarrow> (internal_error, w2) | (Inr callerPos, w2) \<Rightarrow>
     (if r_position r \<le> callerPos
      then (Fail 403 RoleHierarchy ''Cannot remove a role at or above your highest role'', w2)
      else
     (case on_db (repo_RemoveRole targetID roleID) w2 of
        (Inl e, w3) \<Rightarrow> (mapMemberError e, w3)
      | (Inr _, w3) \<Rightarrow>
          (let w4 = go_Record h (role_change U userID ''member.role_remove'' targetID roleID) w3;
               w5 = (if h_gateway h
                     then case on_db (GetByUserID targetID) w4 of
                            (Inl _, w5) \<Rightarrow> w5
                          | (Inr updated, w5) \<Rightarrow> publishMemberUpdate M h (member_ToModel U Z updated) w5
                     else w4)
           in (SendStatus 204, invalidateUser U V h targetID w5))))))))))"

end
