(* ===== verification/Member_Laws.thy ===== *)
theory Member_Laws
  imports Member Sample
begin

text \<open>
  What the member repository guarantees: paging, the atomicity of a ban, the invariant of the
  \<open>members\<close> and \<open>bans\<close> tables over all its operations; and where the code falls short of what its
  comments say.
\<close>

section \<open>Effects on the tables\<close>

lemma find_member_outcomes [simp]: "find_member u (d\<lparr>pg_outcomes := os\<rparr>) = find_member u d"
  by (simp add: find_member_def)

lemma pure_member [simp]:
  "pure_stmt (update_members hit f)" "pure_stmt (delete_members u)" "pure_stmt (insert_ban t u b r e)"
  "pure_stmt (delete_ban u)" "pure_stmt (insert_member_role u i)" "pure_stmt (delete_member_role u i)"
  "pure_stmt (insert_pending t u)" "pure_stmt (insert_everyone u)" "pure_stmt (add_member_role u i)"
  by (auto simp: pure_stmt_def update_members_def delete_members_def insert_ban_def delete_ban_def insert_member_role_def
      delete_member_role_def insert_pending_def insert_everyone_def add_member_role_def user_exists_def Let_def)

lemmas table_fun_member [simp] = pure_member [THEN pure_table_fun]

lemma GetByUserID_tables: "GetByUserID u d = (x, d') \<Longrightarrow> tables d' = tables d"
  by (auto simp: GetByUserID_def scanWithProfile_def split: prod.splits sum.splits option.splits if_splits
      dest: pg_query_tables)

lemma GetByUserIDAnyStatus_tables: "GetByUserIDAnyStatus u d = (x, d') \<Longrightarrow> tables d' = tables d"
  by (auto simp: GetByUserIDAnyStatus_def scanWithProfile_def split: prod.splits sum.splits option.splits if_splits
      dest: pg_query_tables)

text \<open>The operations that run one statement and then only read.\<close>

lemma UpdateNickname_effect:
  assumes "UpdateNickname u n d = (x, d')"
  shows "tables d' = tables d
    \<or> tables d' = tables (snd (update_members (\<lambda>m. m_user_id m = u) (\<lambda>m. m\<lparr>m_nickname := n\<rparr>) d))"
proof -
  obtain y d1 where y: "pg_stmt (update_members (\<lambda>m. m_user_id m = u) (\<lambda>m. m\<lparr>m_nickname := n\<rparr>)) d = (y, d1)" by fastforce
  have "tables d' = tables d1"
    using assms y by (auto simp: UpdateNickname_def split: sum.splits if_splits dest: GetByUserID_tables)
  then show ?thesis using pg_stmt_effect [OF y] by simp
qed

lemma SetTimeout_effect:
  assumes "repo_SetTimeout now u e d = (x, d')"
  shows "tables d' = tables d \<or> tables d' = tables (snd (update_members (\<lambda>m. m_user_id m = u)
      (\<lambda>m. m\<lparr>m_status := TimedOut, m_timeout_until := Some e\<rparr>) d))"
proof (cases "e > now")
  case True
  obtain y d1 where y: "pg_stmt (update_members (\<lambda>m. m_user_id m = u)
      (\<lambda>m. m\<lparr>m_status := TimedOut, m_timeout_until := Some e\<rparr>)) d = (y, d1)" by fastforce
  have "tables d' = tables d1"
    using assms y True by (auto simp: repo_SetTimeout_def split: sum.splits if_splits dest: GetByUserID_tables)
  then show ?thesis using pg_stmt_effect [OF y] by simp
next
  case False
  then show ?thesis using assms by (simp add: repo_SetTimeout_def)
qed

lemma ClearTimeout_effect:
  assumes "repo_ClearTimeout u d = (x, d')"
  shows "tables d' = tables d \<or> tables d' = tables (snd (update_members (\<lambda>m. m_user_id m = u)
      (\<lambda>m. m\<lparr>m_status := Active, m_timeout_until := None\<rparr>) d))"
proof -
  obtain y d1 where y: "pg_stmt (update_members (\<lambda>m. m_user_id m = u)
      (\<lambda>m. m\<lparr>m_status := Active, m_timeout_until := None\<rparr>)) d = (y, d1)" by fastforce
  have "tables d' = tables d1"
    using assms y by (auto simp: repo_ClearTimeout_def split: sum.splits if_splits dest: GetByUserID_tables)
  then show ?thesis using pg_stmt_effect [OF y] by simp
qed

lemma member_Delete_effect:
  assumes "member_Delete u d = (x, d')"
  shows "tables d' = tables d \<or> tables d' = tables (snd (delete_members u d))"
proof -
  obtain y d1 where y: "pg_stmt (delete_members u) d = (y, d1)" by fastforce
  have "d' = d1" using assms y by (auto simp: member_Delete_def split: sum.splits if_splits)
  then show ?thesis using pg_stmt_effect [OF y] by simp
qed

lemma Unban_effect:
  assumes "Unban u d = (x, d')"
  shows "tables d' = tables d \<or> tables d' = tables (snd (delete_ban u d))"
proof -
  obtain y d1 where y: "pg_stmt (delete_ban u) d = (y, d1)" by fastforce
  have "d' = d1" using assms y by (auto simp: Unban_def split: sum.splits if_splits)
  then show ?thesis using pg_stmt_effect [OF y] by simp
qed

lemma AssignRole_effect:
  assumes "repo_AssignRole u r d = (x, d')"
  shows "tables d' = tables d \<or> tables d' = tables (snd (insert_member_role u r d))"
proof -
  obtain y d1 where y: "pg_stmt (insert_member_role u r) d = (y, d1)" by fastforce
  have "d' = d1" using assms y by (auto simp: repo_AssignRole_def split: sum.splits if_splits)
  then show ?thesis using pg_stmt_effect [OF y] by simp
qed

lemma RemoveRole_effect:
  assumes "repo_RemoveRole u r d = (x, d')"
  shows "tables d' = tables d \<or> tables d' = tables (snd (delete_member_role u r d))"
proof -
  obtain y d1 where y: "pg_stmt (delete_member_role u r) d = (y, d1)" by fastforce
  have "d' = d1" using assms y by (auto simp: repo_RemoveRole_def split: sum.splits if_splits)
  then show ?thesis using pg_stmt_effect [OF y] by simp
qed

section \<open>Transactions\<close>

definition banned :: "time \<Rightarrow> uuid \<Rightarrow> uuid \<Rightarrow> string option \<Rightarrow> time option \<Rightarrow> db \<Rightarrow> db" where
  "banned now u by reason e d = snd (delete_members u (snd (insert_ban now u by reason e d)))"

lemma Ban_effect:
  assumes "Ban now u by reason e d = (x, d')"
  shows "(tables d' = tables d \<and> (\<exists>err. x = Inl err))
    \<or> (tables d' = tables (banned now u by reason e d) \<and> fst (insert_ban now u by reason e d) = Inr ()
        \<and> (x = Inr () \<or> x = Inl (Wrap ''commit transaction'' pg_conn)))"
  using assms [unfolded Ban_def]
proof (cases rule: WithTx_cases)
  case (committed d1 y d2)
  obtain d3 v where s1: "pg_stmt (insert_ban now u by reason e) d1 = (Inr (), d3)" and s2: "pg_stmt (delete_members u) d3 = (Inr v, d2)"
    using committed(2) by (auto simp: ban_tx_def split: prod.splits sum.splits if_splits)
  have i: "fst (insert_ban now u by reason e d) = Inr ()" "tables d3 = tables (snd (insert_ban now u by reason e d))"
    using pg_stmt_success_at [OF s1 _ committed(1)] by simp_all
  have "tables d2 = tables (banned now u by reason e d)"
    using pg_stmt_success_at [OF s2 _ i(2)] by (simp add: banned_def)
  then show ?thesis using committed i by auto
qed auto

definition joined :: "time \<Rightarrow> uuid \<Rightarrow> db \<Rightarrow> db" where
  "joined now u d = snd (insert_everyone u (snd (insert_pending now u d)))"

lemma CreatePending_effect:
  assumes "CreatePending now u d = (x, d')"
  shows "tables d' = tables d \<or> (tables d' = tables (joined now u d) \<and> fst (insert_pending now u d) = Inr ()
    \<and> fst (insert_everyone u (snd (insert_pending now u d))) = Inr ())"
proof -
  obtain z d0 where z: "WithTx (create_pending_tx now u) d = (z, d0)" by fastforce
  have t: "tables d' = tables d0"
    using assms z by (auto simp: CreatePending_def split: sum.splits dest: GetByUserIDAnyStatus_tables)
  show ?thesis
    using z
  proof (cases rule: WithTx_cases)
    case (committed d1 y d2)
    obtain d3 where s1: "pg_stmt (insert_pending now u) d1 = (Inr (), d3)" and s2: "pg_stmt (insert_everyone u) d3 = (Inr (), d2)"
      using committed(2) by (auto simp: create_pending_tx_def split: prod.splits sum.splits if_splits)
    have i: "fst (insert_pending now u d) = Inr ()" "tables d3 = tables (snd (insert_pending now u d))"
      using pg_stmt_success_at [OF s1 _ committed(1)] by simp_all
    have "tables d2 = tables (joined now u d)" "fst (insert_everyone u (snd (insert_pending now u d))) = Inr ()"
      using pg_stmt_success_at [OF s2 _ i(2)] by (simp_all add: joined_def)
    then show ?thesis using committed i t by auto
  qed (use t in auto)
qed

lemma add_auto_roles_effect:
  "add_auto_roles u rs d = (x, d') \<Longrightarrow>
     \<exists>new. tables d' = tables (d\<lparr>t_member_roles := t_member_roles d @ new\<rparr>) \<and> distinct new
       \<and> set new \<inter> set (t_member_roles d) = {}
       \<and> (\<forall>mr \<in> set new. mr_user_id mr = u \<and> user_exists u d \<and> mr_role_id mr \<in> r_id ` set (t_roles d))"
proof (induction rs arbitrary: d)
  case Nil
  then show ?case by (intro exI [of _ "[]"]) simp
next
  case (Cons r rs)
  obtain y d1 where y: "pg_stmt (add_member_role u r) d = (y, d1)" by fastforce
  let ?row = "\<lparr>mr_user_id = u, mr_role_id = r\<rparr>"
  have d1: "tables d1 = tables d \<or> (tables d1 = tables (d\<lparr>t_member_roles := t_member_roles d @ [?row]\<rparr>)
      \<and> ?row \<notin> set (t_member_roles d) \<and> user_exists u d \<and> r \<in> r_id ` set (t_roles d))"
    using pg_stmt_effect [OF y] by (auto simp: add_member_role_def Let_def split: if_splits)
  then obtain new1 where n1: "tables d1 = tables (d\<lparr>t_member_roles := t_member_roles d @ new1\<rparr>)" "distinct new1"
    "set new1 \<inter> set (t_member_roles d) = {}"
    "\<forall>mr \<in> set new1. mr_user_id mr = u \<and> user_exists u d \<and> mr_role_id mr \<in> r_id ` set (t_roles d)"
  proof (elim disjE conjE)
    assume "tables d1 = tables d"
    then show thesis by (intro that [of "[]"]) simp_all
  next
    assume "tables d1 = tables (d\<lparr>t_member_roles := t_member_roles d @ [?row]\<rparr>)"
      "?row \<notin> set (t_member_roles d)" "user_exists u d" "r \<in> r_id ` set (t_roles d)"
    then show thesis by (intro that [of "[?row]"]) simp_all
  qed
  show ?case
  proof (cases y)
    case (Inl e)
    then show ?thesis using Cons.prems y n1 by (intro exI [of _ new1]) simp
  next
    case (Inr v)
    from Cons.IH [of d1] Cons.prems y Inr obtain new2 where n2: "tables d' = tables (d1\<lparr>t_member_roles := t_member_roles d1 @ new2\<rparr>)"
      "distinct new2" "set new2 \<inter> set (t_member_roles d1) = {}"
      "\<forall>mr \<in> set new2. mr_user_id mr = u \<and> user_exists u d1 \<and> mr_role_id mr \<in> r_id ` set (t_roles d1)" by auto
    have f: "t_member_roles d1 = t_member_roles d @ new1" "t_roles d1 = t_roles d" "t_users d1 = t_users d"
      using tables_fields [OF n1(1)] by simp_all
    obtain os where "d1 = d\<lparr>t_member_roles := t_member_roles d @ new1, pg_outcomes := os\<rparr>"
      using tables_eqD [OF n1(1)] by auto
    then have "tables d' = tables (d\<lparr>t_member_roles := t_member_roles d @ (new1 @ new2)\<rparr>)"
      using n2(1) by (simp add: tables_def)
    then show ?thesis using n1 n2 f by (intro exI [of _ "new1 @ new2"]) (auto simp: user_exists_def)
  qed
qed

definition activated :: "time \<Rightarrow> uuid \<Rightarrow> db \<Rightarrow> db" where
  "activated now u d = snd (update_members (\<lambda>m. m_user_id m = u \<and> m_status m = Pending)
     (\<lambda>m. m\<lparr>m_status := Active, m_onboarded_at := Some now\<rparr>) d)"

lemma Activate_effect:
  assumes "Activate now u rs d = (x, d')"
  shows "tables d' = tables d \<or>
    (\<exists>new. tables d' = tables ((activated now u d)\<lparr>t_member_roles := t_member_roles d @ new\<rparr>) \<and> distinct new
       \<and> set new \<inter> set (t_member_roles d) = {}
       \<and> (\<forall>mr \<in> set new. mr_user_id mr = u \<and> user_exists u d \<and> mr_role_id mr \<in> r_id ` set (t_roles d)))"
proof -
  obtain z d0 where z: "WithTx (activate_tx now u rs) d = (z, d0)" by fastforce
  have t: "tables d' = tables d0"
    using assms z by (auto simp: Activate_def split: sum.splits dest: GetByUserIDAnyStatus_tables)
  show ?thesis
    using z
  proof (cases rule: WithTx_cases)
    case (committed d1 y d2)
    obtain d3 n where s1: "pg_stmt (update_members (\<lambda>m. m_user_id m = u \<and> m_status m = Pending)
        (\<lambda>m. m\<lparr>m_status := Active, m_onboarded_at := Some now\<rparr>)) d1 = (Inr n, d3)" and s2: "add_auto_roles u rs d3 = (Inr y, d2)"
      using committed(2) by (auto simp: activate_tx_def split: prod.splits sum.splits if_splits)
    have t3: "tables d3 = tables (activated now u d)"
      using pg_stmt_success_at(2) [OF s1 _ committed(1)] by (simp add: activated_def)
    have f: "t_member_roles d3 = t_member_roles d" "t_users d3 = t_users d" "t_roles d3 = t_roles d"
      using tables_fields [OF t3] by (simp_all add: activated_def update_members_def)
    from add_auto_roles_effect [OF s2] obtain new where n: "tables d2 = tables (d3\<lparr>t_member_roles := t_member_roles d3 @ new\<rparr>)"
      "distinct new" "set new \<inter> set (t_member_roles d3) = {}"
      "\<forall>mr \<in> set new. mr_user_id mr = u \<and> user_exists u d3 \<and> mr_role_id mr \<in> r_id ` set (t_roles d3)" by blast
    obtain os where "d3 = (activated now u d)\<lparr>pg_outcomes := os\<rparr>" using tables_eqD [OF t3] by auto
    then have "tables d2 = tables ((activated now u d)\<lparr>t_member_roles := t_member_roles d @ new\<rparr>)"
      using n(1) f(1) by (simp add: tables_def)
    then show ?thesis using n f t committed(3) by (auto simp: user_exists_def)
  qed (use t in auto)
qed

section \<open>The members and bans tables\<close>

text \<open>
  A user is a member at most once, banned at most once, and holds a role at most once; members
  and role holders are users; a member has an end of timeout exactly when timed out.
\<close>

definition members_ok :: "db \<Rightarrow> bool" where
  "members_ok d \<longleftrightarrow>
     distinct (map m_user_id (t_members d)) \<and> distinct (map b_user_id (t_bans d)) \<and> distinct (t_member_roles d)
     \<and> (\<forall>m \<in> set (t_members d). user_exists (m_user_id m) d \<and> (m_status m = TimedOut \<longleftrightarrow> m_timeout_until m \<noteq> None))
     \<and> (\<forall>b \<in> set (t_bans d). user_exists (b_user_id b) d)
     \<and> (\<forall>mr \<in> set (t_member_roles d). user_exists (mr_user_id mr) d)"

lemma members_ok_tables: "tables d = tables d' \<Longrightarrow> members_ok d = members_ok d'"
  by (simp add: members_ok_def user_exists_def tables_fields [of d d'])

lemma members_ok_update:
  assumes "members_ok d" and "\<And>m. m_user_id (f m) = m_user_id m"
    and "\<And>m. m \<in> set (t_members d) \<Longrightarrow> hit m \<Longrightarrow> m_status (f m) = TimedOut \<longleftrightarrow> m_timeout_until (f m) \<noteq> None"
  shows "members_ok (snd (update_members hit f d))"
proof -
  have "map m_user_id (map (\<lambda>m. if hit m then f m else m) (t_members d)) = map m_user_id (t_members d)"
    using assms(2) by simp
  then show ?thesis
    using assms by (auto simp: members_ok_def update_members_def user_exists_def simp del: map_map)
qed

lemma members_ok_delete: "members_ok d \<Longrightarrow> members_ok (snd (delete_members u d))"
  by (auto simp: members_ok_def delete_members_def user_exists_def distinct_map_filter)

lemma members_ok_statements:
  assumes "members_ok d"
  shows "members_ok (snd (insert_ban now u by r e d))" "members_ok (snd (delete_ban u d))"
    "members_ok (snd (insert_member_role u i d))" "members_ok (snd (delete_member_role u i d))"
    "members_ok (snd (insert_pending now u d))"
  using assms by (auto simp: members_ok_def insert_ban_def delete_ban_def insert_member_role_def delete_member_role_def
      insert_pending_def user_exists_def Let_def distinct_map_filter)

lemma members_ok_everyone:
  assumes "members_ok d" and "distinct (map r_id (t_roles d))"
  shows "members_ok (snd (insert_everyone u d))"
proof -
  have "distinct (map (\<lambda>r. \<lparr>mr_user_id = u, mr_role_id = r_id r\<rparr>) (filter r_is_everyone (t_roles d)))"
    using assms(2) by (auto simp: distinct_map inj_on_def intro: distinct_filter)
  then show ?thesis using assms(1) by (auto simp: members_ok_def insert_everyone_def user_exists_def Let_def filter_empty_conv)
qed

lemma update_tables_roles: "t_roles (snd (update_members hit f d)) = t_roles d"
  by (simp add: update_members_def)

text \<open>The calls of the repository that write, in any order, each ending in any way.\<close>

inductive member_call :: "db \<Rightarrow> db \<Rightarrow> bool" where
  call_nickname: "UpdateNickname u n d = (x, d') \<Longrightarrow> member_call d d'"
| call_delete: "member_Delete u d = (y, d') \<Longrightarrow> member_call d d'"
| call_timeout: "repo_SetTimeout now u e d = (x, d') \<Longrightarrow> member_call d d'"
| call_clear: "repo_ClearTimeout u d = (x, d') \<Longrightarrow> member_call d d'"
| call_ban: "Ban now u by r ex d = (y, d') \<Longrightarrow> member_call d d'"
| call_unban: "Unban u d = (y, d') \<Longrightarrow> member_call d d'"
| call_assign: "repo_AssignRole u i d = (y, d') \<Longrightarrow> member_call d d'"
| call_remove: "repo_RemoveRole u i d = (y, d') \<Longrightarrow> member_call d d'"
| call_pending: "CreatePending now u d = (x, d') \<Longrightarrow> member_call d d'"
| call_activate: "Activate now u rs d = (x, d') \<Longrightarrow> member_call d d'"

definition members_inv :: "db \<Rightarrow> bool" where
  "members_inv d \<longleftrightarrow> members_ok d \<and> distinct (map r_id (t_roles d))"

lemma members_inv_tables: "tables d' = tables d \<Longrightarrow> members_inv d \<Longrightarrow> members_inv d'"
  using members_ok_tables [of d' d] tables_fields(5) [of d' d] by (simp add: members_inv_def)

lemma members_inv_banned: "members_inv d \<Longrightarrow> members_inv (banned now u by r e d)"
proof -
  assume i: "members_inv d"
  have "t_roles (banned now u by r e d) = t_roles d"
    by (simp add: banned_def delete_members_def insert_ban_def)
  then show ?thesis using i members_ok_delete [OF members_ok_statements(1)]
    by (simp add: members_inv_def banned_def)
qed

lemma members_inv_joined: "members_inv d \<Longrightarrow> members_inv (joined now u d)"
proof -
  assume i: "members_inv d"
  have r: "t_roles (snd (insert_pending now u d)) = t_roles d" "t_roles (joined now u d) = t_roles d"
    by (simp_all add: joined_def insert_pending_def insert_everyone_def Let_def)
  show ?thesis using i members_ok_everyone [OF members_ok_statements(5)] r
    by (simp add: members_inv_def joined_def)
qed

lemma members_inv_statements:
  assumes "members_inv d"
  shows "members_inv (snd (delete_members u d))" "members_inv (snd (delete_ban u d))"
    "members_inv (snd (insert_member_role u i d))" "members_inv (snd (delete_member_role u i d))"
  using assms members_ok_delete members_ok_statements
  by (auto simp: members_inv_def) (auto simp: delete_members_def delete_ban_def insert_member_role_def delete_member_role_def Let_def)

lemma members_inv_update:
  assumes "members_inv d" and "\<And>m. m_user_id (f m) = m_user_id m"
    and "\<And>m. m \<in> set (t_members d) \<Longrightarrow> hit m \<Longrightarrow> m_status (f m) = TimedOut \<longleftrightarrow> m_timeout_until (f m) \<noteq> None"
  shows "members_inv (snd (update_members hit f d))"
  using assms members_ok_update [of d f hit] by (simp add: members_inv_def update_tables_roles)

lemma members_inv_activated:
  assumes "members_inv d" and "distinct new" and "set new \<inter> set (t_member_roles d) = {}"
    and "\<forall>mr \<in> set new. mr_user_id mr = u \<and> user_exists u d \<and> mr_role_id mr \<in> r_id ` set (t_roles d)"
  shows "members_inv ((activated now u d)\<lparr>t_member_roles := t_member_roles d @ new\<rparr>)"
proof -
  have a: "members_inv (activated now u d)"
    unfolding activated_def
    by (rule members_inv_update [OF assms(1)]) (use assms(1) in \<open>auto simp: members_inv_def members_ok_def\<close>)
  have "t_member_roles (activated now u d) = t_member_roles d" "t_users (activated now u d) = t_users d"
    by (simp_all add: activated_def update_members_def)
  with a assms(2-4) show ?thesis
    by (auto simp: members_inv_def members_ok_def user_exists_def)
qed

lemma member_call_inv:
  assumes "member_call d d'" and "members_inv d"
  shows "members_inv d'"
  using assms(1)
proof cases
  case (call_nickname u n x)
  have "members_inv (snd (update_members (\<lambda>m. m_user_id m = u) (\<lambda>m. m\<lparr>m_nickname := n\<rparr>) d))"
    by (rule members_inv_update [OF assms(2)]) (use assms(2) in \<open>auto simp: members_inv_def members_ok_def\<close>)
  then show ?thesis using UpdateNickname_effect [OF call_nickname] assms(2) members_inv_tables by blast
next
  case (call_delete u y)
  then show ?thesis using member_Delete_effect members_inv_statements(1) assms(2) members_inv_tables by blast
next
  case (call_timeout now u e x)
  have "members_inv (snd (update_members (\<lambda>m. m_user_id m = u) (\<lambda>m. m\<lparr>m_status := TimedOut, m_timeout_until := Some e\<rparr>) d))"
    by (rule members_inv_update [OF assms(2)]) auto
  then show ?thesis using SetTimeout_effect [OF call_timeout] assms(2) members_inv_tables by blast
next
  case (call_clear u x)
  have "members_inv (snd (update_members (\<lambda>m. m_user_id m = u) (\<lambda>m. m\<lparr>m_status := Active, m_timeout_until := None\<rparr>) d))"
    by (rule members_inv_update [OF assms(2)]) auto
  then show ?thesis using ClearTimeout_effect [OF call_clear] assms(2) members_inv_tables by blast
next
  case (call_ban now u "by" r ex y)
  then show ?thesis using Ban_effect [OF call_ban] members_inv_banned assms(2) members_inv_tables by blast
next
  case (call_unban u y)
  then show ?thesis using Unban_effect members_inv_statements(2) assms(2) members_inv_tables by blast
next
  case (call_assign u i y)
  then show ?thesis using AssignRole_effect members_inv_statements(3) assms(2) members_inv_tables by blast
next
  case (call_remove u i y)
  then show ?thesis using RemoveRole_effect members_inv_statements(4) assms(2) members_inv_tables by blast
next
  case (call_pending now u x)
  then show ?thesis using CreatePending_effect members_inv_joined assms(2) members_inv_tables by blast
next
  case (call_activate now u rs x)
  then show ?thesis using Activate_effect members_inv_activated [OF assms(2)] assms(2) members_inv_tables by blast
qed

lemma member_calls_inv: "member_call\<^sup>*\<^sup>* d d' \<Longrightarrow> members_inv d \<Longrightarrow> members_inv d'"
  by (induction rule: rtranclp_induct) (auto dest: member_call_inv)

section \<open>Paging\<close>

definition all_members :: "db \<Rightarrow> member_row list" where
  "all_members d = sort_by member_key (filter (\<lambda>m. m_status m \<noteq> Pending) (t_members d))"

lemma member_key_distinct: "distinct (map m_user_id ms) \<Longrightarrow> distinct (map member_key ms)"
  by (induction ms) (auto simp: member_key_def word_uint_eq_iff [symmetric])

lemma member_rows_outcomes [simp]: "member_rows a n (d\<lparr>pg_outcomes := os\<rparr>) = member_rows a n d"
proof -
  have "profile (d\<lparr>pg_outcomes := os\<rparr>) = profile d" "after_member a (d\<lparr>pg_outcomes := os\<rparr>) = after_member a d"
    by (simp_all add: profile_def after_member_def fun_eq_iff split: option.split)
  then show ?thesis by (simp add: member_rows_def)
qed

lemma member_rows_pages:
  assumes "distinct (map m_user_id (t_members d))"
  shows "member_rows None n d = take (nat n) (List.map_filter (profile d) (all_members d))"
    and "i < length (all_members d) \<Longrightarrow>
      member_rows (Some (m_user_id (all_members d ! i))) n d = take (nat n) (List.map_filter (profile d) (drop (Suc i) (all_members d)))"
proof -
  show "member_rows None n d = take (nat n) (List.map_filter (profile d) (all_members d))"
    by (simp add: member_rows_def all_members_def after_member_def)
  assume i: "i < length (all_members d)"
  have "all_members d ! i \<in> set (t_members d)" using nth_mem [OF i] by (auto simp: all_members_def)
  then have "find (\<lambda>x. m_user_id x = m_user_id (all_members d ! i)) (t_members d) = Some (all_members d ! i)"
    by (rule find_unique [OF assms, where k = "m_user_id (all_members d ! i)"]) simp_all
  then have "filter (\<lambda>m. m_status m \<noteq> Pending \<and> after_member (Some (m_user_id (all_members d ! i))) d m) (t_members d)
    = filter (\<lambda>m. m_status m \<noteq> Pending \<and> key_less (member_key (all_members d ! i)) (member_key m)) (t_members d)"
    by (simp add: after_member_def)
  then show "member_rows (Some (m_user_id (all_members d ! i))) n d
      = take (nat n) (List.map_filter (profile d) (drop (Suc i) (all_members d)))"
    using keyset_page [OF member_key_distinct [OF assms], of i "\<lambda>m. m_status m \<noteq> Pending"] i
    by (simp add: member_rows_def all_members_def)
qed

section \<open>Properties\<close>

text \<open>
  The member tables stay well formed over every sequence of repository calls, whatever
  statement or commit fails: nobody is a member, banned or assigned a role twice, members,
  bans and assignments belong to users, and a member has an end of timeout exactly when
  the status is timed out.
\<close>

theorem members_table_invariant:
  assumes "member_call\<^sup>*\<^sup>* d d'" and "members_inv d"
  shows "members_inv d'"
  by (rule member_calls_inv [OF assms])

lemma sample_members_inv: "members_inv sample_db"
  by (simp add: members_inv_def members_ok_def user_exists_def sample_defs)

theorem members_table_invariant_witness:
  "members_inv (snd (repo_SetTimeout 5 2 9 (snd (Ban 4 3 1 None None sample_db))))
   \<and> find_member 3 (snd (Ban 4 3 1 None None sample_db)) = None"
proof -
  have "member_call sample_db (snd (Ban 4 3 1 None None sample_db))"
    by (rule member_call.call_ban [where y = "fst (Ban 4 3 1 None None sample_db)"]) simp
  moreover have "member_call (snd (Ban 4 3 1 None None sample_db)) (snd (repo_SetTimeout 5 2 9 (snd (Ban 4 3 1 None None sample_db))))"
    by (rule member_call.call_timeout [where x = "fst (repo_SetTimeout 5 2 9 (snd (Ban 4 3 1 None None sample_db)))"]) simp
  ultimately have "member_call\<^sup>*\<^sup>* sample_db (snd (repo_SetTimeout 5 2 9 (snd (Ban 4 3 1 None None sample_db))))" by simp
  from members_table_invariant [OF this sample_members_inv] show ?thesis
    by (simp add: Ban_def WithTx_def ban_tx_def insert_ban_def delete_members_def user_exists_def sample_defs find_member_def)
qed

text \<open>
  C12. A ban is atomic: the call either fails and leaves every table as it was, or the user is
  banned and no longer a member; an error after that is only the lost acknowledgement of the
  commit. Nobody else's membership or ban changes.
\<close>

theorem Ban_atomic:
  assumes "Ban now u by reason e d = (x, d')"
  shows "(tables d' = tables d \<and> (\<exists>err. x = Inl err))
    \<or> (u \<in> set (map b_user_id (t_bans d')) \<and> find_member u d' = None \<and> u \<notin> set (map b_user_id (t_bans d))
       \<and> (\<forall>v. v \<noteq> u \<longrightarrow> find_member v d' = find_member v d \<and> (v \<in> set (map b_user_id (t_bans d')) \<longleftrightarrow> v \<in> set (map b_user_id (t_bans d))))
       \<and> (x = Inr () \<or> x = Inl (Wrap ''commit transaction'' pg_conn)))"
proof (cases "tables d' = tables d \<and> (\<exists>err. x = Inl err)")
  case False
  with Ban_effect [OF assms] have t: "tables d' = tables (banned now u by reason e d)"
    and i: "fst (insert_ban now u by reason e d) = Inr ()"
    and x: "x = Inr () \<or> x = Inl (Wrap ''commit transaction'' pg_conn)" by auto
  have new: "u \<notin> set (map b_user_id (t_bans d))" using i by (auto simp: insert_ban_def split: if_splits)
  have f: "t_members d' = filter (\<lambda>m. m_user_id m \<noteq> u) (t_members d)"
    "map b_user_id (t_bans d') = map b_user_id (t_bans d) @ [u]"
    using tables_fields [OF t] i by (auto simp: banned_def delete_members_def insert_ban_def split: if_splits)
  have n: "find_member u d' = None" by (auto simp: find_member_def f find_None_iff)
  have "find_member v d' = find_member v d" if "v \<noteq> u" for v
    unfolding find_member_def f by (rule find_filter_other) (use that in auto)
  with n show ?thesis using new x f(2) by auto
qed auto

theorem Ban_atomic_witness:
  "find_member 3 (snd (Ban 4 3 1 None None sample_db)) = None
   \<and> find_member 2 (snd (Ban 4 3 1 None None sample_db)) = find_member 2 sample_db"
proof -
  have "fst (Ban 4 3 1 None None sample_db) = Inr ()"
    by (simp add: Ban_def WithTx_def ban_tx_def insert_ban_def delete_members_def user_exists_def sample_defs)
  then show ?thesis
    using Ban_atomic [of 4 3 1 None None sample_db "Inr ()" "snd (Ban 4 3 1 None None sample_db)"] by (simp add: prod_eq_iff)
qed

text \<open>
  Paging through the members: without a cursor the list starts at the first member, and
  after the member at place \<open>i\<close> of the order by joining time it continues with the next,
  also among members who joined at the same time. Pending members are not listed.
\<close>

theorem member_List_pages:
  assumes "members_inv d" and "pg_outcomes d = []" and "i < length (all_members d)"
  shows "member_List None n d = (Inr (take (nat n) (List.map_filter (profile d) (all_members d))), d)
    \<and> member_List (Some (m_user_id (all_members d ! i))) n d
        = (Inr (take (nat n) (List.map_filter (profile d) (drop (Suc i) (all_members d)))), d)"
  using assms member_rows_pages [of d] by (simp add: member_List_def members_inv_def members_ok_def)

theorem member_List_pages_witness:
  "map wp_UserID (projr (fst (member_List (Some 1) 5 sample_db))) = [2, 3]"
proof -
  have a: "all_members sample_db = t_members sample_db"
    by (simp add: all_members_def sample_defs sort_by_def member_key_def key_less_def)
  have "m_user_id (all_members sample_db ! 0) = 1" "0 < length (all_members sample_db)" unfolding a by (simp_all add: sample_defs)
  with member_List_pages [OF sample_members_inv, of 0 5] show ?thesis
    unfolding a by (simp add: List.map_filter_def profile_def) (simp add: sample_defs profile_def)
qed

text \<open>
  A member who left cannot join again: deleting the member row keeps the rows of
  \<open>member_roles\<close>, which refer to the user and not to the member, so joining fails on
  assigning the everyone role a second time, and the tables stay as they were.
\<close>

theorem rejoin_fails:
  assumes "pg_outcomes d = []" and "find_member u d = Some m" and "user_exists u d"
    and "r \<in> set (t_roles d)" and "r_is_everyone r" and "\<lparr>mr_user_id = u, mr_role_id = r_id r\<rparr> \<in> set (t_member_roles d)"
  shows "\<exists>d1. member_Delete u d = (Inr (), d1) \<and> find_member u d1 = None
    \<and> CreatePending now u d1 = (Inl (Wrap ''assign everyone role'' unique_violation), d1)"
proof -
  let ?d1 = "snd (delete_members u d)"
  have "m \<in> set (t_members d)" "m_user_id m = u" using find_Some_member [OF assms(2) [unfolded find_member_def]] by simp_all
  then have del: "member_Delete u d = (Inr (), ?d1)"
    using assms(1) by (auto simp: member_Delete_def delete_members_def filter_empty_conv)
  have gone: "u \<notin> set (map m_user_id (t_members ?d1))" by (auto simp: delete_members_def)
  obtain d2 where pen: "insert_pending now u ?d1 = (Inr (), d2)" and d2: "t_roles d2 = t_roles d"
      "t_member_roles d2 = t_member_roles d" "pg_outcomes d2 = []"
    using gone assms(1,3) by (simp add: insert_pending_def user_exists_def delete_members_def)
  have dup: "\<lparr>mr_user_id = u, mr_role_id = r_id r\<rparr>
      \<in> set (map (\<lambda>r. \<lparr>mr_user_id = u, mr_role_id = r_id r\<rparr>) (filter r_is_everyone (t_roles d))) \<inter> set (t_member_roles d)"
    using assms(4-6) by simp
  have "insert_everyone u d2 = (Inl unique_violation, d2)"
    using dup by (auto simp: insert_everyone_def d2 Let_def disjoint_iff)
  moreover have "pg_outcomes ?d1 = []" using assms(1) by (simp add: delete_members_def)
  ultimately have "CreatePending now u ?d1 = (Inl (Wrap ''assign everyone role'' unique_violation), ?d1)"
    using pen d2(3) by (simp add: CreatePending_def WithTx_def create_pending_tx_def rollback_def)
  moreover have "find_member u ?d1 = None" by (auto simp: find_member_def find_None_iff delete_members_def)
  ultimately show ?thesis using del by blast
qed

definition joined_db :: db where
  "joined_db = sample_db\<lparr>t_member_roles := [\<lparr>mr_user_id = 2, mr_role_id = 30\<rparr>]\<rparr>"

theorem rejoin_fails_witness:
  "fst (CreatePending 7 2 (snd (member_Delete 2 joined_db))) = Inl (Wrap ''assign everyone role'' unique_violation)"
proof -
  have "find_member 2 joined_db = Some (sample_member 2 Active)" "user_exists 2 joined_db"
    by (simp_all add: joined_db_def find_member_def user_exists_def sample_defs)
  from rejoin_fails [OF _ this, of "sample_role 30 ''everyone'' 0 1 True" 7] show ?thesis
    by (auto simp: joined_db_def sample_role_def) (auto simp: sample_db_def sample_role_def)
qed

text \<open>
  Paging through the bans loses rows: of two users banned at the same time the list shows
  the one with the smaller identifier first, yet the page after that one never shows the
  other, because the rows are compared with the cursor in another order than they are sorted.
\<close>

theorem ban_pages_skip:
  assumes "distinct (map b_user_id (t_bans d))" and "x \<in> set (t_bans d)" and "y \<in> set (t_bans d)"
    and "b_created_at x = b_created_at y" and "uint (b_user_id x) < uint (b_user_id y)"
    and "pg_outcomes d = []" and "repo_ListBans (Some (b_user_id x)) n d = (Inr page, d')"
  shows "key_less (ban_order x) (ban_order y) \<and> b_user_id y \<notin> br_UserID ` set page"
proof -
  have fx: "find (\<lambda>b. b_user_id b = b_user_id x) (t_bans d) = Some x"
    by (rule find_unique [OF assms(1,2)]) auto
  have page: "page = ban_rows (Some (b_user_id x)) n d" using assms(6,7) by (auto simp: repo_ListBans_def)
  have ids: "br_UserID br = b_user_id b" if "ban_record d b = Some br" for b br
    using that by (auto simp: ban_record_def)
  have "after_ban (Some (b_user_id x)) d b" if "br \<in> set page" "ban_record d b = Some br" "b \<in> set (t_bans d)" for b br
  proof -
    from that(1) obtain b' where b': "b' \<in> set (t_bans d)" "after_ban (Some (b_user_id x)) d b'" "ban_record d b' = Some br"
      by (auto simp: page ban_rows_def List.map_filter_def dest!: in_set_takeD)
    have "b_user_id b' = b_user_id b" using ids [OF b'(3)] ids [OF that(2)] by simp
    then have "b' = b" using assms(1) b'(1) that(3) by (meson distinct_map inj_onD)
    then show ?thesis using b'(2) by simp
  qed
  moreover have "\<exists>b \<in> set (t_bans d). ban_record d b = Some br" if "br \<in> set page" for br
    using that by (auto simp: page ban_rows_def List.map_filter_def dest!: in_set_takeD) blast
  moreover have "b = y" if "b \<in> set (t_bans d)" "b_user_id b = b_user_id y" for b
    using that assms(1,3) by (meson distinct_map inj_onD)
  moreover have "\<not> after_ban (Some (b_user_id x)) d y"
    using assms(4,5) by (simp add: after_ban_def fx ban_tuple_def key_less_def)
  moreover have "key_less (ban_order x) (ban_order y)" using assms(4,5) by (simp add: ban_order_def key_less_def)
  ultimately show ?thesis using ids by (metis (no_types, lifting) imageE)
qed

definition two_bans :: db where
  "two_bans = sample_db\<lparr>t_bans := [\<lparr>b_user_id = 2, b_reason = None, b_banned_by = Some 1, b_expires_at = None, b_created_at = 5\<rparr>,
     \<lparr>b_user_id = 3, b_reason = None, b_banned_by = Some 1, b_expires_at = None, b_created_at = 5\<rparr>]\<rparr>"

theorem ban_pages_skip_witness:
  "map br_UserID (projr (fst (repo_ListBans None 1 two_bans))) = [2]
   \<and> 3 \<notin> br_UserID ` set (projr (fst (repo_ListBans (Some 2) 1 two_bans)))"
proof -
  let ?x = "\<lparr>b_user_id = 2, b_reason = None, b_banned_by = Some 1, b_expires_at = None, b_created_at = 5\<rparr>"
  let ?y = "\<lparr>b_user_id = 3, b_reason = None, b_banned_by = Some 1, b_expires_at = None, b_created_at = 5\<rparr>"
  have o: "pg_outcomes two_bans = []" by (simp add: two_bans_def)
  from ban_pages_skip [of two_bans ?x ?y 1 "ban_rows (Some 2) 1 two_bans" two_bans]
  have "3 \<notin> br_UserID ` set (ban_rows (Some 2) 1 two_bans)" using o by (simp add: repo_ListBans_def) (simp add: two_bans_def)
  moreover have "map br_UserID (ban_rows None 1 two_bans) = [2]"
    by (simp add: two_bans_def ban_rows_def after_ban_def sort_by_def ban_order_def key_less_def List.map_filter_def
        ban_record_def sample_defs)
  ultimately show ?thesis using o by (simp add: repo_ListBans_def)
qed

text \<open>
  A timeout lets a pending member in: the membership check refuses a member who has not
  completed onboarding, but a timeout replaces the pending status, and then the check
  passes, without any onboarding.
\<close>

theorem pending_timeout_escapes:
  assumes "pg_outcomes (w_db w) = []" and "find_member u (w_db w) = Some m" and "m_status m = Pending" and "now < ends"
    and "rq_userID c = Some u"
  shows "RequireActiveMember c w = (Fail 403 MembershipRequired ''Onboarding must be completed first'', w)
    \<and> fst (RequireActiveMember c (w\<lparr>w_db := snd (repo_SetTimeout now u ends (w_db w))\<rparr>)) = Next"
proof -
  let ?f = "\<lambda>m. m\<lparr>m_status := TimedOut, m_timeout_until := Some ends\<rparr>"
  let ?d1 = "snd (update_members (\<lambda>m. m_user_id m = u) ?f (w_db w))"
  have m: "m \<in> set (t_members (w_db w))" "m_user_id m = u"
    using find_Some_member [OF assms(2) [unfolded find_member_def]] by simp_all
  have before: "RequireActiveMember c w = (Fail 403 MembershipRequired ''Onboarding must be completed first'', w)"
    using assms by (simp add: RequireActiveMember_def UserID_def on_db_def GetStatus_def)
  have o: "pg_outcomes ?d1 = []" using assms(1) by (simp add: update_members_def)
  have d: "snd (repo_SetTimeout now u ends (w_db w)) = ?d1"
    using assms(1,4) o m
    by (auto simp: repo_SetTimeout_def update_members_def GetByUserID_def scanWithProfile_def filter_empty_conv split: option.split)
  have "find_member u ?d1 = Some (?f m)"
    using assms(2) unfolding find_member_def update_members_def snd_conv
    by (simp add: find_map_update)
  with o have "fst (RequireActiveMember c (w\<lparr>w_db := snd (repo_SetTimeout now u ends (w_db w))\<rparr>)) = Next"
    using assms(5) by (simp add: d RequireActiveMember_def UserID_def on_db_def GetStatus_def)
  with before show ?thesis ..
qed

definition pending_world :: "vstore world" where
  "pending_world = sample_world\<lparr>w_db := sample_db\<lparr>t_members := [sample_member 3 Pending]\<rparr>\<rparr>"

definition from_user :: "uuid \<Rightarrow> request" where
  "from_user u = \<lparr>rq_params = (\<lambda>_. []), rq_query = (\<lambda>_. []), rq_userID = Some u\<rparr>"

theorem pending_timeout_escapes_witness:
  "fst (RequireActiveMember (from_user 3) pending_world) \<noteq> Next
   \<and> fst (RequireActiveMember (from_user 3) (pending_world\<lparr>w_db := snd (repo_SetTimeout 5 3 9 (w_db pending_world))\<rparr>)) = Next"
proof -
  have w: "pg_outcomes (w_db pending_world) = []" "find_member 3 (w_db pending_world) = Some (sample_member 3 Pending)"
    "m_status (sample_member 3 Pending) = Pending" "(5::time) < 9" "rq_userID (from_user 3) = Some 3"
    by (simp_all add: pending_world_def find_member_def sample_member_def from_user_def)
  show ?thesis by (simp add: pending_timeout_escapes [OF w] Fail_def)
qed

end
