(* ===== verification/Role_Laws.thy ===== *)
theory Role_Laws
  imports Role
begin

text \<open>
  What the role endpoints guarantee: the \<open>roles\<close> table stays well formed over any sequence of
  requests and database failures; nobody changes a role at or above their own highest one;
  and after the published invalidation is handled the permission cache is coherent again.
\<close>

section \<open>What a repository call does to the tables\<close>

lemma find_role_outcomes [simp]: "find_role i (d\<lparr>pg_outcomes := os\<rparr>) = find_role i d"
  by (simp add: find_role_def)

lemma highest_position_outcomes [simp]: "highest_position u (d\<lparr>pg_outcomes := os\<rparr>) = highest_position u d"
  by (simp add: highest_position_def explicit_positions_def)

lemma table_fun_role [simp]:
  "table_fun (insert_role n t p)" "table_fun (update_role i t q)" "table_fun (delete_role i)"
  by (auto simp: table_fun_def insert_role_def update_role_def delete_role_def next_position_def tables_def Let_def
      split: option.splits)

lemma scanRole_tables:
  "scanRole q d = (x, d') \<Longrightarrow> \<exists>y. q d = (y, d') \<and> (\<forall>r. x = Inr r \<longleftrightarrow> y = Inr (Some r))"
  by (auto simp: scanRole_def split: prod.splits sum.splits option.splits)

lemma role_GetByID_effect:
  assumes "role_GetByID i d = (x, d')"
  shows "tables d' = tables d" and "x = Inr r \<Longrightarrow> find_role i d = Some r"
proof -
  obtain y where y: "scanRole (pg_query (find_role i)) d = (y, d')" and x: "x = Inr r \<Longrightarrow> y = Inr r"
    using assms by (auto simp: role_GetByID_def split: prod.splits sum.splits if_splits)
  obtain z where z: "pg_query (find_role i) d = (z, d')" "\<And>r. y = Inr r \<longleftrightarrow> z = Inr (Some r)"
    using scanRole_tables [OF y] by blast
  show "tables d' = tables d" by (rule pg_query_tables [OF z(1)])
  show "x = Inr r \<Longrightarrow> find_role i d = Some r" using x z pg_query_ok [of "find_role i" d "Some r" d'] by auto
qed

lemma HighestPosition_effect:
  assumes "HighestPosition u d = (x, d')"
  shows "tables d' = tables d" and "x = Inr p \<Longrightarrow> p = highest_position u d"
proof -
  obtain y where y: "pg_query (highest_position u) d = (y, d')" and x: "x = Inr p \<Longrightarrow> y = Inr p"
    using assms by (auto simp: HighestPosition_def split: prod.splits sum.splits)
  show "tables d' = tables d" by (rule pg_query_tables [OF y])
  show "x = Inr p \<Longrightarrow> p = highest_position u d" using x y pg_query_ok [of "highest_position u" d p d'] by auto
qed

lemma role_Create_effect:
  assumes "role_Create n t p m d = (x, d')"
  shows "tables d' = tables d \<or> (tables d' = tables (snd (insert_role n t p d)) \<and> int (length (t_roles d)) < m)"
  using assms unfolding role_Create_def
proof (rule WithTx_effect)
  fix d1 y d2
  assume t: "tables d1 = tables d" and y: "role_create_tx n t p m d1 = (y, d2)"
  obtain k d3 where k: "pg_query (\<lambda>d. int (length (t_roles d))) d1 = (k, d3)" by fastforce
  have t3: "tables d3 = tables d" using pg_query_tables [OF k] t by simp
  have len: "k = Inr c \<Longrightarrow> c = int (length (t_roles d))" for c
    using pg_query_ok [of "\<lambda>d. int (length (t_roles d))" d1 c d3] k tables_fields(5) [OF t] by auto
  consider "d2 = d3" | z where "int (length (t_roles d)) < m" "scanRole (pg_stmt (insert_role n t p)) d3 = (z, d2)"
    using y k len by (auto simp: role_create_tx_def split: sum.splits if_splits prod.splits)
  then show "tables d2 = tables d \<or> (tables d2 = tables (snd (insert_role n t p d)) \<and> int (length (t_roles d)) < m)"
  proof cases
    case 2
    from scanRole_tables [OF 2(2)] obtain q where "pg_stmt (insert_role n t p) d3 = (q, d2)" by blast
    from pg_stmt_effect [OF this] show ?thesis using t3 table_fun_eq [OF table_fun_role(1) t3] 2(1) by simp
  qed (simp add: t3)
qed

lemma role_Update_effect:
  assumes "role_Update i t p d = (x, d')"
  shows "tables d' = tables d \<or> tables d' = tables (snd (update_role i t p d))"
proof -
  consider y where "role_GetByID i d = (y, d')" | z where "scanRole (pg_stmt (update_role i t p)) d = (z, d')"
    using assms by (auto simp: role_Update_def split: sum.splits if_splits prod.splits)
  then show ?thesis
  proof cases
    case 1
    then show ?thesis using role_GetByID_effect(1) by blast
  next
    case 2
    from scanRole_tables [OF 2] obtain q where "pg_stmt (update_role i t p) d = (q, d')" by blast
    from pg_stmt_effect [OF this] show ?thesis by simp
  qed
qed

lemma role_Delete_effect:
  assumes "role_Delete i d = (x, d')"
  shows "tables d' = tables d \<or> tables d' = tables (snd (delete_role i d))"
proof -
  obtain y d1 where y: "pg_stmt (delete_role i) d = (y, d1)" by fastforce
  have "tables d' = tables d1"
    using assms y pg_query_tables
    by (fastforce simp: role_Delete_def split: sum.splits if_splits prod.splits option.splits)
  then show ?thesis using pg_stmt_effect [OF y] by simp
qed

section \<open>The roles table\<close>

definition role_valid :: "perm_lib \<Rightarrow> role_row \<Rightarrow> bool" where
  "role_valid P r \<longleftrightarrow> 1 \<le> RuneCount (r_name r) \<and> RuneCount (r_name r) \<le> 100
     \<and> 0 \<le> r_colour r \<and> r_colour r \<le> 16777215 \<and> 0 \<le> r_position r \<and> r_position r \<le> max_int4
     \<and> 0 \<le> sint (r_permissions r) \<and> r_permissions r AND NOT (AllPermissions P) = 0"

definition roles_ok :: "perm_lib \<Rightarrow> db \<Rightarrow> bool" where
  "roles_ok P d \<longleftrightarrow>
     distinct (map r_id (t_roles d)) \<and> distinct (map r_name (t_roles d)) \<and> distinct (map r_position (t_roles d))
     \<and> length (filter r_is_everyone (t_roles d)) = 1
     \<and> (\<forall>r \<in> set (t_roles d). role_valid P r)
     \<and> (\<forall>mr \<in> set (t_member_roles d). mr_role_id mr \<in> r_id ` set (t_roles d))"

lemma roles_ok_tables: "tables d = tables d' \<Longrightarrow> roles_ok P d = roles_ok P d'"
  by (simp add: roles_ok_def tables_fields [of d d'])

lemma next_position_fresh:
  assumes "\<forall>r \<in> set (t_roles d). 0 \<le> r_position r"
  shows "0 \<le> next_position d" and "next_position d \<notin> r_position ` set (t_roles d)"
proof -
  have le: "r \<in> set (t_roles d) \<Longrightarrow> r_position r < next_position d" for r
    using Max_ge [of "set (map r_position (t_roles d))" "r_position r"] by (auto simp: next_position_def)
  show "next_position d \<notin> r_position ` set (t_roles d)" using le by fastforce
  show "0 \<le> next_position d"
  proof (cases "t_roles d")
    case (Cons r rs)
    then show ?thesis using le [of r] assms by force
  qed (simp add: next_position_def)
qed

lemma roles_ok_insert:
  assumes "roles_ok P d" and "1 \<le> RuneCount (cp_Name p)" "RuneCount (cp_Name p) \<le> 100"
    and "0 \<le> cp_Colour p" "cp_Colour p \<le> 16777215" and "0 \<le> sint (cp_Permissions p)"
    and "cp_Permissions p AND NOT (AllPermissions P) = 0"
  shows "roles_ok P (snd (insert_role n t p d))"
proof -
  have "\<forall>r \<in> set (t_roles d). 0 \<le> r_position r" using assms(1) by (auto simp: roles_ok_def role_valid_def)
  note pos = next_position_fresh [OF this]
  show ?thesis
    using assms pos by (auto simp: insert_role_def Let_def roles_ok_def role_valid_def)
qed

lemma find_role_Some: "find_role i d = Some r \<Longrightarrow> r \<in> set (t_roles d) \<and> r_id r = i"
  unfolding find_role_def by (rule find_Some_member)

lemma roles_ok_update:
  assumes ok: "roles_ok P d" and r: "find_role i d = Some r" and v: "role_valid P (updated_role t p r)"
  shows "roles_ok P (snd (update_role i t p d))"
proof -
  define r' where "r' = updated_role t p r"
  define g where "g = (\<lambda>x. if r_id x = i then r' else x)"
  have r': "r_id r' = i" "r_is_everyone r' = r_is_everyone r"
    using find_role_Some [OF r] by (simp_all add: r'_def updated_role_def)
  have only: "x \<in> set (t_roles d) \<Longrightarrow> r_id x = i \<Longrightarrow> x = r" for x
    using ok find_role_Some [OF r] by (auto simp: roles_ok_def distinct_map inj_on_def)
  have ids: "map r_id (map g (t_roles d)) = map r_id (t_roles d)" by (simp add: g_def r')
  have "map r_is_everyone (map g (t_roles d)) = map r_is_everyone (t_roles d)"
    using only r' by (auto simp: g_def)
  then have "filter (r_is_everyone \<circ> g) (t_roles d) = filter r_is_everyone (t_roles d)" by (auto intro: filter_cong)
  then have ev: "length (filter r_is_everyone (map g (t_roles d))) = length (filter r_is_everyone (t_roles d))"
    by (simp add: filter_map)
  have dst: "distinct (map f (map g (t_roles d)))"
    if "distinct (map f (t_roles d))" "f r' \<notin> f ` {x \<in> set (t_roles d). r_id x \<noteq> i}" for f :: "role_row \<Rightarrow> 'b"
    unfolding g_def using that ok by (intro distinct_replace) (simp_all add: roles_ok_def)
  have img: "r_id ` set (map g (t_roles d)) = r_id ` set (t_roles d)"
    using arg_cong [OF ids, of set] by (simp del: map_map)
  show ?thesis
  proof (cases "snd (update_role i t p d) = d")
    case False
    then have u: "snd (update_role i t p d) = d\<lparr>t_roles := map g (t_roles d)\<rparr>"
      and n: "r_name r' \<notin> r_name ` {x \<in> set (t_roles d). r_id x \<noteq> i}"
        "r_position r' \<notin> r_position ` {x \<in> set (t_roles d). r_id x \<noteq> i}"
      using r by (auto simp: update_role_def Let_def g_def r'_def split: if_splits)
    have "\<forall>x \<in> set (map g (t_roles d)). role_valid P x"
      using ok v by (auto simp: g_def r'_def roles_ok_def)
    then show ?thesis
      unfolding u roles_ok_def using ok dst [OF _ n(1)] dst [OF _ n(2)] ev ids img
      by (simp add: roles_ok_def del: map_map)
  qed (use ok in simp)
qed

lemma roles_ok_delete:
  assumes ok: "roles_ok P d"
  shows "roles_ok P (snd (delete_role i d))"
proof -
  let ?rs = "filter (\<lambda>r. \<not> (r_id r = i \<and> \<not> r_is_everyone r)) (t_roles d)"
  have "filter r_is_everyone ?rs = filter r_is_everyone (t_roles d)" by (auto simp: intro!: filter_cong)
  then have "length (filter r_is_everyone ?rs) = 1" using ok by (simp add: roles_ok_def del: filter_filter)
  moreover have "mr_role_id mr \<in> r_id ` set ?rs" if "mr \<in> set (t_member_roles d)" "mr_role_id mr \<noteq> i" for mr
    using that ok by (fastforce simp: roles_ok_def)
  ultimately show ?thesis
    using ok by (auto simp: delete_role_def Let_def roles_ok_def distinct_map_filter simp del: filter_filter)
qed

section \<open>Endpoints\<close>

lemma invalidate_all_db [simp]: "w_db (invalidate_all U V h w) = w_db w"
  by (auto simp: invalidate_all_def on_vk_def split: prod.split)

lemma ValidateNameRequired_ok:
  "role_ValidateNameRequired s = Inr n \<Longrightarrow> n = TrimSpace s \<and> 1 \<le> RuneCount n \<and> RuneCount n \<le> 100"
  by (auto simp: role_ValidateNameRequired_def Let_def simp del: RuneCount_0 split: if_splits)

lemma ValidateName_ok:
  "role_ValidateName x = Inr (Some n) \<Longrightarrow> 1 \<le> RuneCount n \<and> RuneCount n \<le> 100"
  by (auto simp: role_ValidateName_def Let_def simp del: RuneCount_0 split: if_splits option.splits)

lemma CreateRole_effect:
  assumes "CreateRole P U V M Z h m n t c body w = (rx, w')"
  shows "tables (w_db w') = tables (w_db w) \<or>
    (\<exists>p. tables (w_db w') = tables (snd (insert_role n t p (w_db w))) \<and> int (length (t_roles (w_db w))) < m
       \<and> 1 \<le> RuneCount (cp_Name p) \<and> RuneCount (cp_Name p) \<le> 100 \<and> 0 \<le> cp_Colour p \<and> cp_Colour p \<le> 16777215
       \<and> 0 \<le> sint (cp_Permissions p) \<and> cp_Permissions p AND NOT (AllPermissions P) = 0)"
proof (cases "\<exists>b name u. body = Some b \<and> role_ValidateNameRequired (cr_Name b) = Inr name \<and> role_ValidateColour (cr_Colour b) = Inr ()
    \<and> role_ValidatePermissions P (cr_Permissions b) = Inr () \<and> UserID c = (Inr u :: RoleModel reaction + uuid)")
  case True
  then obtain b name u where b: "body = Some b" "role_ValidateNameRequired (cr_Name b) = Inr name"
    "role_ValidateColour (cr_Colour b) = Inr ()" "role_ValidatePermissions P (cr_Permissions b) = Inr ()"
    "UserID c = (Inr u :: RoleModel reaction + uuid)" by blast
  define p where "p = \<lparr>cp_Name = name, cp_Colour = (case cr_Colour b of None \<Rightarrow> 0 | Some x \<Rightarrow> x),
     cp_Permissions = (case cr_Permissions b of None \<Rightarrow> 0 | Some x \<Rightarrow> x),
     cp_Hoist = (case cr_Hoist b of None \<Rightarrow> False | Some x \<Rightarrow> x)\<rparr>"
  obtain x w1 where x: "on_db (role_Create n t p m) w = (x, w1)" by fastforce
  have "w_db w' = w_db w1"
    using assms b x by (auto simp: CreateRole_def Let_def p_def [symmetric] split: sum.splits)
  then have "tables (w_db w') = tables (w_db w) \<or>
      (tables (w_db w') = tables (snd (insert_role n t p (w_db w))) \<and> int (length (t_roles (w_db w))) < m)"
    using role_Create_effect on_dbD [OF x] by metis
  moreover have "1 \<le> RuneCount (cp_Name p) \<and> RuneCount (cp_Name p) \<le> 100 \<and> 0 \<le> cp_Colour p \<and> cp_Colour p \<le> 16777215
       \<and> 0 \<le> sint (cp_Permissions p) \<and> cp_Permissions p AND NOT (AllPermissions P) = 0"
    using ValidateNameRequired_ok [OF b(2)] b(3,4)
    by (auto simp: p_def role_ValidateColour_def role_ValidatePermissions_def split: option.splits if_splits)
  ultimately show ?thesis by blast
next
  case False
  then have "w' = w" using assms by (auto simp: CreateRole_def split: sum.splits option.splits)
  then show ?thesis by simp
qed

lemma UpdateRole_effect:
  assumes "UpdateRole P U V M Z h t c body w = (rx, w')"
  shows "tables (w_db w') = tables (w_db w) \<or>
    (\<exists>u i r p. rq_userID c = Some u \<and> uuid_Parse U (rq_params c ''roleID'') = Some i \<and> find_role i (w_db w) = Some r
       \<and> tables (w_db w') = tables (snd (update_role i t p (w_db w)))
       \<and> highest_position u (w_db w) < r_position r \<and> highest_position u (w_db w) < r_position (updated_role t p r)
       \<and> (r_is_everyone r \<longrightarrow> up_Name p = None)
       \<and> (role_valid P r \<and> fits_int4 (up_Position p) \<longrightarrow> role_valid P (updated_role t p r)))"
proof (cases "\<exists>b name u i. body = Some b \<and> role_ValidateName (up_Name b) = Inr name \<and> role_ValidatePosition (up_Position b) = Inr ()
    \<and> role_ValidateColour (up_Colour b) = Inr () \<and> role_ValidatePermissions P (up_Permissions b) = Inr ()
    \<and> UserID c = (Inr u :: RoleModel reaction + uuid) \<and> ParseUUIDParam U c ''roleID'' ValidationError = (Inr i :: RoleModel reaction + uuid)")
  case True
  then obtain b name u i where b: "body = Some b" "role_ValidateName (up_Name b) = Inr name"
    "role_ValidatePosition (up_Position b) = Inr ()" "role_ValidateColour (up_Colour b) = Inr ()"
    "role_ValidatePermissions P (up_Permissions b) = Inr ()"
    "UserID c = (Inr u :: RoleModel reaction + uuid)"
    "ParseUUIDParam U c ''roleID'' ValidationError = (Inr i :: RoleModel reaction + uuid)" by blast
  define p where "p = b\<lparr>up_Name := name\<rparr>"
  obtain x w1 where x: "on_db (role_GetByID i) w = (x, w1)" by fastforce
  obtain y w2 where y: "on_db (HighestPosition u) w1 = (y, w2)" by fastforce
  obtain z w3 where z: "on_db (role_Update i t p) w2 = (z, w3)" by fastforce
  have t1: "tables (w_db w1) = tables (w_db w)" using role_GetByID_effect(1) on_dbD [OF x] by blast
  have t2: "tables (w_db w2) = tables (w_db w)" using HighestPosition_effect(1) on_dbD [OF y] t1 by metis
  consider "w' = w1" | "w' = w2" | r pos where "x = Inr r" "y = Inr pos" "pos < r_position r"
      "\<forall>q. up_Position b = Some q \<longrightarrow> pos < q" "r_is_everyone r \<longrightarrow> name = None" "w_db w' = w_db w3"
    using assms b x y z
    by (auto simp: UpdateRole_def Let_def p_def [symmetric] split: sum.splits if_splits option.splits) 
  then show ?thesis
  proof cases
    case (3 r pos)
    have r: "find_role i (w_db w) = Some r" using role_GetByID_effect(2) on_dbD [OF x] 3(1) by blast
    have "pos = highest_position u (w_db w1)" using HighestPosition_effect(2) on_dbD [OF y] 3(2) by blast
    then have pos: "pos = highest_position u (w_db w)" by (metis highest_position_outcomes t1 tables_eqD)
    have "tables (w_db w3) = tables (w_db w) \<or> tables (w_db w3) = tables (snd (update_role i t p (w_db w)))"
      using role_Update_effect [of i t p] on_dbD [OF z] t2 table_fun_eq [OF table_fun_role(2) t2] by metis
    moreover have "role_valid P r \<and> fits_int4 (up_Position p) \<longrightarrow> role_valid P (updated_role t p r)"
      using b(2-5) ValidateName_ok [of "up_Name b"]
      by (auto simp: p_def updated_role_def role_valid_def role_ValidatePosition_def role_ValidateColour_def fits_int4_def
          role_ValidatePermissions_def split: option.splits if_splits)
    moreover have "pos < r_position (updated_role t p r)"
      using 3(3,4) by (auto simp: updated_role_def p_def split: option.splits)
    ultimately show ?thesis
      using 3 r pos b(6,7) by (auto simp: UserID_ok ParseUUIDParam_ok p_def)
  qed (use t1 t2 in auto)
next
  case False
  then have "w' = w" using assms by (auto simp: UpdateRole_def split: sum.splits option.splits)
  then show ?thesis by simp
qed

lemma DeleteRole_effect:
  assumes "DeleteRole U V M h c w = (rx, w')"
  shows "tables (w_db w') = tables (w_db w) \<or>
    (\<exists>u i r. rq_userID c = Some u \<and> uuid_Parse U (rq_params c ''roleID'') = Some i \<and> find_role i (w_db w) = Some r
       \<and> tables (w_db w') = tables (snd (delete_role i (w_db w))) \<and> highest_position u (w_db w) < r_position r)"
proof (cases "\<exists>u i. UserID c = (Inr u :: RoleModel reaction + uuid)
    \<and> ParseUUIDParam U c ''roleID'' ValidationError = (Inr i :: RoleModel reaction + uuid)")
  case True
  then obtain u i where b: "UserID c = (Inr u :: RoleModel reaction + uuid)"
    "ParseUUIDParam U c ''roleID'' ValidationError = (Inr i :: RoleModel reaction + uuid)" by blast
  obtain x w1 where x: "on_db (role_GetByID i) w = (x, w1)" by fastforce
  obtain y w2 where y: "on_db (HighestPosition u) w1 = (y, w2)" by fastforce
  obtain z w3 where z: "on_db (role_Delete i) w2 = (z, w3)" by fastforce
  have t1: "tables (w_db w1) = tables (w_db w)" using role_GetByID_effect(1) on_dbD [OF x] by blast
  have t2: "tables (w_db w2) = tables (w_db w)" using HighestPosition_effect(1) on_dbD [OF y] t1 by metis
  consider "w' = w1" | "w' = w2" | r pos where "x = Inr r" "y = Inr pos" "pos < r_position r" "w_db w' = w_db w3"
    using assms b x y z by (auto simp: DeleteRole_def Let_def split: sum.splits if_splits) 
  then show ?thesis
  proof cases
    case (3 r pos)
    have r: "find_role i (w_db w) = Some r" using role_GetByID_effect(2) on_dbD [OF x] 3(1) by blast
    have "pos = highest_position u (w_db w1)" using HighestPosition_effect(2) on_dbD [OF y] 3(2) by blast
    then have "pos = highest_position u (w_db w)" by (metis highest_position_outcomes t1 tables_eqD)
    moreover have "tables (w_db w3) = tables (w_db w) \<or> tables (w_db w3) = tables (snd (delete_role i (w_db w)))"
      using role_Delete_effect [of i] on_dbD [OF z] t2 table_fun_eq [OF table_fun_role(3) t2] by metis
    ultimately show ?thesis using 3 r b by (auto simp: UserID_ok ParseUUIDParam_ok)
  qed (use t1 t2 in auto)
next
  case False
  then have "w' = w" using assms by (auto simp: DeleteRole_def split: sum.splits option.splits)
  then show ?thesis by simp
qed

text \<open>The role requests a server handles, one after the other.\<close>

inductive role_request :: "perm_lib \<Rightarrow> uuid_lib \<Rightarrow> 'r valkey \<Rightarrow> proto \<Rightarrow> int \<Rightarrow> 'r world \<Rightarrow> 'r world \<Rightarrow> bool"
  for P U V M m where
  create: "CreateRole P U V M Z h m n t c body w = (rx, w') \<Longrightarrow> role_request P U V M m w w'"
| update: "UpdateRole P U V M Z h t c ubody w = (rx, w') \<Longrightarrow> role_request P U V M m w w'"
| delete: "DeleteRole U V M h c w = (rx, w') \<Longrightarrow> role_request P U V M m w w'"

lemma delete_role_le: "length (t_roles (snd (delete_role i d))) \<le> length (t_roles d)"
  by (simp add: delete_role_def Let_def)

lemma update_role_length: "length (t_roles (snd (update_role i t p d))) = length (t_roles d)"
  by (simp add: update_role_def Let_def split: option.split)

lemma role_request_ok:
  assumes "role_request P U V M m w w'" and "roles_ok P (w_db w)" and "int (length (t_roles (w_db w))) \<le> m"
  shows "roles_ok P (w_db w') \<and> int (length (t_roles (w_db w'))) \<le> m"
  using assms(1)
proof cases
  case (create Z h n t c body rx)
  from CreateRole_effect [OF create] show ?thesis
  proof (elim disjE exE conjE)
    assume t: "tables (w_db w') = tables (w_db w)"
    then show ?thesis using assms(2,3) roles_ok_tables [OF t] tables_fields(5) [OF t] by simp
  next
    fix p assume t: "tables (w_db w') = tables (snd (insert_role n t p (w_db w)))"
      and l: "int (length (t_roles (w_db w))) < m"
      and p: "1 \<le> RuneCount (cp_Name p)" "RuneCount (cp_Name p) \<le> 100" "0 \<le> cp_Colour p" "cp_Colour p \<le> 16777215"
        "0 \<le> sint (cp_Permissions p)" "cp_Permissions p AND NOT (AllPermissions P) = 0"
    have "roles_ok P (snd (insert_role n t p (w_db w)))" by (rule roles_ok_insert [OF assms(2) p])
    then show ?thesis using roles_ok_tables [OF t] tables_fields(5) [OF t] l assms(3)
      by (auto simp: insert_role_def Let_def)
  qed
next
  case (update Z h t c ubody rx)
  from UpdateRole_effect [OF update] show ?thesis
  proof (elim disjE exE conjE)
    assume t: "tables (w_db w') = tables (w_db w)"
    then show ?thesis using assms(2,3) roles_ok_tables [OF t] tables_fields(5) [OF t] by simp
  next
    fix u i r p assume r: "find_role i (w_db w) = Some r" and t: "tables (w_db w') = tables (snd (update_role i t p (w_db w)))"
      and v: "role_valid P r \<and> fits_int4 (up_Position p) \<longrightarrow> role_valid P (updated_role t p r)"
    have "role_valid P r" using assms(2) find_role_Some [OF r] by (simp add: roles_ok_def)
    then have "roles_ok P (snd (update_role i t p (w_db w)))"
    proof (cases "fits_int4 (up_Position p)")
      case True
      then show ?thesis using roles_ok_update [OF assms(2) r] v \<open>role_valid P r\<close> by blast
    next
      case False
      then show ?thesis using assms(2) by (simp add: update_role_def)
    qed
    then show ?thesis using roles_ok_tables [OF t] tables_fields(5) [OF t] assms(3) update_role_length [of i t p "w_db w"] by simp
  qed
next
  case (delete h c rx)
  from DeleteRole_effect [OF delete] show ?thesis
  proof (elim disjE exE conjE)
    assume t: "tables (w_db w') = tables (w_db w)"
    then show ?thesis using assms(2,3) roles_ok_tables [OF t] tables_fields(5) [OF t] by simp
  next
    fix u i r assume t: "tables (w_db w') = tables (snd (delete_role i (w_db w)))"
    show ?thesis using roles_ok_delete [OF assms(2)] roles_ok_tables [OF t] tables_fields(5) [OF t] assms(3)
        delete_role_le [of i "w_db w"] by simp
  qed
qed

lemma role_requests_ok:
  assumes "(role_request P U V M m)\<^sup>*\<^sup>* w w'" and "roles_ok P (w_db w)" and "int (length (t_roles (w_db w))) \<le> m"
  shows "roles_ok P (w_db w') \<and> int (length (t_roles (w_db w'))) \<le> m"
  using assms(1)
proof (induction rule: rtranclp_induct)
  case (step v v')
  then show ?case using role_request_ok by blast
qed (use assms(2,3) in simp)

lemma no_explicit_roles: "explicit_positions u d = [] \<Longrightarrow> highest_position u d = MaxInt"
  by (simp add: highest_position_def)

section \<open>Properties\<close>

text \<open>
  C10. The roles table stays well formed over every sequence of create, update and delete
  requests, whatever statement fails or loses its reply: identifiers, names and positions
  are unique, exactly one role is the everyone role, every name, colour, position and
  permission set is valid, every assignment refers to an existing role, and there are
  never more roles than configured.
\<close>

theorem roles_table_invariant:
  assumes "(role_request P U V M m)\<^sup>*\<^sup>* w w'" and "roles_ok P (w_db w)" and "int (length (t_roles (w_db w))) \<le> m"
  shows "roles_ok P (w_db w') \<and> int (length (t_roles (w_db w'))) \<le> m"
  by (rule role_requests_ok [OF assms])

lemma sample_roles_ok: "roles_ok ref_perm sample_db"
  by (simp add: roles_ok_def role_valid_def sample_defs ref_perm_def max_int4_def RuneCount_ascii byte_def)

theorem roles_table_invariant_witness:
  "\<exists>rx w'. CreateRole ref_perm ref_uuid mem_valkey ref_proto (\<lambda>_. []) \<lparr>h_auditLogger = True, h_perms = True, h_gateway = True\<rparr>
       4 50 9 sample_request (Some \<lparr>cr_Name = '' helper '', cr_Colour = Some 255, cr_Permissions = Some 5, cr_Hoist = None\<rparr>) sample_world
     = (rx, w') \<and> roles_ok ref_perm (w_db w') \<and> length (t_roles (w_db w')) \<le> 4"
proof -
  obtain rx w' where r: "CreateRole ref_perm ref_uuid mem_valkey ref_proto (\<lambda>_. [])
      \<lparr>h_auditLogger = True, h_perms = True, h_gateway = True\<rparr> 4 50 9 sample_request
      (Some \<lparr>cr_Name = '' helper '', cr_Colour = Some 255, cr_Permissions = Some 5, cr_Hoist = None\<rparr>) sample_world = (rx, w')"
    by fastforce
  have "(role_request ref_perm ref_uuid mem_valkey ref_proto 4)\<^sup>*\<^sup>* sample_world w'"
    by (rule r_into_rtranclp) (rule role_request.create [OF r])
  from roles_table_invariant [OF this] sample_roles_ok r show ?thesis by (simp add: sample_world_def sample_db_def)
qed

text \<open>
  C11. The role hierarchy: a request that changes a role or deletes one comes from an
  authenticated user whose highest role ranks strictly above that role, and an updated
  role still ranks below it afterwards. No other role changes.
\<close>

theorem role_hierarchy:
  assumes "UpdateRole P U V M Z h t c body w = (rx, w1)" and "DeleteRole U V M h c w = (ry, w2)"
  shows "(t_roles (w_db w1) = t_roles (w_db w) \<or>
      (\<exists>u i r r'. rq_userID c = Some u \<and> uuid_Parse U (rq_params c ''roleID'') = Some i \<and> find_role i (w_db w) = Some r
         \<and> highest_position u (w_db w) < r_position r \<and> highest_position u (w_db w) < r_position r'
         \<and> t_roles (w_db w1) = map (\<lambda>x. if r_id x = i then r' else x) (t_roles (w_db w))))
    \<and> (t_roles (w_db w2) = t_roles (w_db w) \<or>
      (\<exists>u i r. rq_userID c = Some u \<and> uuid_Parse U (rq_params c ''roleID'') = Some i \<and> find_role i (w_db w) = Some r
         \<and> highest_position u (w_db w) < r_position r
         \<and> t_roles (w_db w2) = filter (\<lambda>x. \<not> (r_id x = i \<and> \<not> r_is_everyone x)) (t_roles (w_db w))))"
proof
  have upd: "t_roles (snd (update_role i t p d)) = t_roles d \<or>
      t_roles (snd (update_role i t p d)) = map (\<lambda>x. if r_id x = i then updated_role t p r else x) (t_roles d)"
    if "find_role i d = Some r" for i p d r
    using that by (auto simp: update_role_def Let_def)
  show "t_roles (w_db w1) = t_roles (w_db w) \<or>
      (\<exists>u i r r'. rq_userID c = Some u \<and> uuid_Parse U (rq_params c ''roleID'') = Some i \<and> find_role i (w_db w) = Some r
         \<and> highest_position u (w_db w) < r_position r \<and> highest_position u (w_db w) < r_position r'
         \<and> t_roles (w_db w1) = map (\<lambda>x. if r_id x = i then r' else x) (t_roles (w_db w)))"
    using UpdateRole_effect [OF assms(1)]
  proof (elim disjE exE conjE)
    fix u i r p
    assume u: "rq_userID c = Some u" "uuid_Parse U (rq_params c ''roleID'') = Some i" and r: "find_role i (w_db w) = Some r"
      and t: "tables (w_db w1) = tables (snd (update_role i t p (w_db w)))"
      and pos: "highest_position u (w_db w) < r_position r" "highest_position u (w_db w) < r_position (updated_role t p r)"
    from upd [OF r, of p] tables_fields(5) [OF t] show ?thesis using u r pos by auto
  qed (rule disjI1, erule tables_fields(5))
  have del: "t_roles (snd (delete_role i d)) = t_roles d \<or>
      t_roles (snd (delete_role i d)) = filter (\<lambda>x. \<not> (r_id x = i \<and> \<not> r_is_everyone x)) (t_roles d)" for i d
    by (auto simp: delete_role_def Let_def)
  show "t_roles (w_db w2) = t_roles (w_db w) \<or>
      (\<exists>u i r. rq_userID c = Some u \<and> uuid_Parse U (rq_params c ''roleID'') = Some i \<and> find_role i (w_db w) = Some r
         \<and> highest_position u (w_db w) < r_position r
         \<and> t_roles (w_db w2) = filter (\<lambda>x. \<not> (r_id x = i \<and> \<not> r_is_everyone x)) (t_roles (w_db w)))"
    using DeleteRole_effect [OF assms(2)]
  proof (elim disjE exE conjE)
    fix u i r
    assume u: "rq_userID c = Some u" "uuid_Parse U (rq_params c ''roleID'') = Some i" "find_role i (w_db w) = Some r"
      "highest_position u (w_db w) < r_position r" and t: "tables (w_db w2) = tables (snd (delete_role i (w_db w)))"
    from del [of i "w_db w"] tables_fields(5) [OF t] show ?thesis using u by auto
  qed (rule disjI1, erule tables_fields(5))
qed

definition role_31 :: "uuid \<Rightarrow> request" where
  "role_31 u = sample_request\<lparr>rq_params := (\<lambda>_. uuid_String ref_uuid 31), rq_userID := Some u\<rparr>"

definition all_on :: handler where
  "all_on = \<lparr>h_auditLogger = True, h_perms = True, h_gateway = True\<rparr>"

text \<open>A table with a role at position 1 and the other below it at position 2.\<close>

definition ranked_world :: "vstore world" where
  "ranked_world = sample_world\<lparr>w_db := sample_db\<lparr>t_roles := [sample_role 30 ''everyone'' 0 1 True,
     sample_role 31 ''mod'' 2 4 False, sample_role 32 ''admin'' 1 4 False],
     t_member_roles := [\<lparr>mr_user_id = 2, mr_role_id = 32\<rparr>]\<rparr>\<rparr>"

lemma ranked_delete:
  "t_roles (w_db (snd (DeleteRole ref_uuid mem_valkey ref_proto all_on (role_31 2) ranked_world)))
     = [sample_role 30 ''everyone'' 0 1 True, sample_role 32 ''admin'' 1 4 False]"
  by (simp add: DeleteRole_def UserID_def ParseUUIDParam_def role_31_def ranked_world_def sample_world_def on_db_def
      role_GetByID_def scanRole_def find_role_def HighestPosition_def highest_position_def explicit_positions_def sample_role_def
      role_Delete_def delete_role_def Let_def)

theorem role_hierarchy_witness:
  "\<exists>r. find_role 31 (w_db ranked_world) = Some r \<and> highest_position 2 (w_db ranked_world) < r_position r"
proof -
  have "t_roles (w_db (snd (DeleteRole ref_uuid mem_valkey ref_proto all_on (role_31 2) ranked_world)))
      \<noteq> t_roles (w_db ranked_world)"
    unfolding ranked_delete by (simp add: ranked_world_def)
  with role_hierarchy [where c = "role_31 2" and w = ranked_world and U = ref_uuid and V = mem_valkey and M = ref_proto
      and h = all_on and P = ref_perm and Z = "\<lambda>_. []" and t = 9 and body = None
      and ?w1.0 = "snd (UpdateRole ref_perm ref_uuid mem_valkey ref_proto (\<lambda>_. []) all_on 9 (role_31 2) None ranked_world)"
      and ?w2.0 = "snd (DeleteRole ref_uuid mem_valkey ref_proto all_on (role_31 2) ranked_world)"
      and rx = "fst (UpdateRole ref_perm ref_uuid mem_valkey ref_proto (\<lambda>_. []) all_on 9 (role_31 2) None ranked_world)"
      and ry = "fst (DeleteRole ref_uuid mem_valkey ref_proto all_on (role_31 2) ranked_world)"]
  show ?thesis by (auto simp: role_31_def)
qed

text \<open>
  The owner is not exempt: a user without explicitly assigned roles, such as the owner the
  bootstrap creates with the everyone role only, can neither change nor delete any role of
  a well-formed table, whatever permissions the user has.
\<close>

theorem owner_cannot_manage_roles:
  assumes "roles_ok P (w_db w)" and "rq_userID c = Some u" and "explicit_positions u (w_db w) = []"
    and "UpdateRole P U V M Z h t c body w = (rx, w1)" and "DeleteRole U V M h c w = (ry, w2)"
  shows "t_roles (w_db w1) = t_roles (w_db w) \<and> t_roles (w_db w2) = t_roles (w_db w)"
proof -
  have "\<not> highest_position u (w_db w) < r_position r" if "find_role i (w_db w) = Some r" for i r
    using assms(1) find_role_Some [OF that] no_explicit_roles [OF assms(3)]
    by (auto simp: roles_ok_def role_valid_def max_int4_def MaxInt_def)
  then show ?thesis
    using UpdateRole_effect [OF assms(4)] DeleteRole_effect [OF assms(5)] assms(2)
    by (auto dest: tables_fields(5))
qed

theorem owner_cannot_manage_roles_witness:
  "c_owner_id (hd (t_server_config sample_db)) = 1
   \<and> t_roles (w_db (snd (DeleteRole ref_uuid mem_valkey ref_proto all_on (role_31 1) sample_world))) = t_roles sample_db"
proof -
  have "explicit_positions 1 (w_db sample_world) = []" by (simp add: explicit_positions_def sample_defs)
  from owner_cannot_manage_roles [OF _ _ this, where P = ref_perm and c = "role_31 1" and U = ref_uuid and V = mem_valkey
      and M = ref_proto and Z = "\<lambda>_. []" and h = all_on and t = 9 and body = None
      and ?w1.0 = "snd (UpdateRole ref_perm ref_uuid mem_valkey ref_proto (\<lambda>_. []) all_on 9 (role_31 1) None sample_world)"
      and ?w2.0 = "snd (DeleteRole ref_uuid mem_valkey ref_proto all_on (role_31 1) sample_world)"
      and rx = "fst (UpdateRole ref_perm ref_uuid mem_valkey ref_proto (\<lambda>_. []) all_on 9 (role_31 1) None sample_world)"
      and ry = "fst (DeleteRole ref_uuid mem_valkey ref_proto all_on (role_31 1) sample_world)"]
  have "t_roles (w_db (snd (DeleteRole ref_uuid mem_valkey ref_proto all_on (role_31 1) sample_world))) = t_roles (w_db sample_world)"
    using sample_roles_ok by (simp add: role_31_def) (simp add: sample_world_def)
  then show ?thesis by (simp add: sample_world_def) (simp add: sample_db_def)
qed

end
