(* ===== verification/Member_Http_Laws.thy ===== *)
theory Member_Http_Laws
  imports Member_Http Member_Laws Role_Laws
begin

text \<open>
  What the member endpoints guarantee: moderators act only on members they outrank and never on
  the owner, role changes keep the permission cache coherent, and the list of a channel's
  members ends and holds exactly those who may see the channel.
\<close>

section \<open>Guards\<close>

definition is_owner :: "uuid \<Rightarrow> db \<Rightarrow> bool" where
  "is_owner u d \<longleftrightarrow> (\<exists>c \<in> set (t_server_config d). c_owner_id c = u)"

definition outranks :: "uuid \<Rightarrow> uuid \<Rightarrow> db \<Rightarrow> bool" where
  "outranks u t d \<longleftrightarrow> highest_position u d < highest_position t d"

lemma guards_tables:
  assumes "tables d1 = tables d"
  shows "is_owner u d1 = is_owner u d" and "outranks u t d1 = outranks u t d" and "highest_position u d1 = highest_position u d"
proof -
  show h: "highest_position u d1 = highest_position u d" for u by (metis highest_position_outcomes tables_eqD [OF assms])
  show "is_owner u d1 = is_owner u d" by (simp add: is_owner_def tables_fields(2) [OF assms])
  show "outranks u t d1 = outranks u t d" by (simp add: outranks_def h)
qed

lemma checkNotOwner_effect:
  assumes "checkNotOwner t w = (x, w')"
  shows "tables (w_db w') = tables (w_db w)" and "w_vk w' = w_vk w" and "x = Inr () \<Longrightarrow> \<not> is_owner t (w_db w)"
proof -
  obtain y d where q: "pg_query (\<lambda>d. \<exists>c \<in> set (t_server_config d). c_owner_id c = t) (w_db w) = (y, d)" by fastforce
  have w': "w_db w' = d" "w_vk w' = w_vk w" "x = Inr () \<longrightarrow> y = Inr False"
    using assms q by (auto simp: checkNotOwner_def on_db_def pg_IsOwner_def split: sum.splits if_splits)
  show "tables (w_db w') = tables (w_db w)" using pg_query_tables [OF q] w'(1) by simp
  show "w_vk w' = w_vk w" by (rule w'(2))
  show "\<not> is_owner t (w_db w)" if "x = Inr ()"
  proof -
    have "pg_query (\<lambda>d. \<exists>c \<in> set (t_server_config d). c_owner_id c = t) (w_db w) = (Inr False, d)" using q w'(3) that by simp
    from pg_query_ok [OF this] show ?thesis by (simp add: is_owner_def)
  qed
qed

lemma checkHierarchy_effect:
  assumes "checkHierarchy u t w = (x, w')"
  shows "tables (w_db w') = tables (w_db w)" and "w_vk w' = w_vk w" and "x = Inr () \<Longrightarrow> outranks u t (w_db w)"
proof -
  obtain a w1 where a: "on_db (HighestPosition u) w = (a, w1)" by fastforce
  obtain b w2 where b: "on_db (HighestPosition t) w1 = (b, w2)" by fastforce
  note t1 = HighestPosition_effect(1) [OF conjunct1 [OF on_dbD [OF a]]]
  note t2 = HighestPosition_effect(1) [OF conjunct1 [OF on_dbD [OF b]]]
  have w': "w' = w1 \<or> w' = w2" "x = Inr () \<longrightarrow> (\<exists>p q. a = Inr p \<and> b = Inr q \<and> p < q)"
    using assms a b by (auto simp: checkHierarchy_def split: sum.splits if_splits)
  show "tables (w_db w') = tables (w_db w)" "w_vk w' = w_vk w" using w'(1) t1 t2 on_dbD [OF a] on_dbD [OF b] by auto
  assume "x = Inr ()"
  then obtain p q where pq: "a = Inr p" "b = Inr q" "p < q" using w'(2) by blast
  have "p = highest_position u (w_db w)" using HighestPosition_effect(2) on_dbD [OF a] pq(1) by blast
  moreover have "q = highest_position t (w_db w1)" using HighestPosition_effect(2) on_dbD [OF b] pq(2) by blast
  ultimately show "outranks u t (w_db w)" using pq(3) guards_tables(3) [OF t1] by (simp add: outranks_def)
qed

lemma member_events [simp]:
  "w_db (publishMemberUpdate M h m w) = w_db w" "w_db (publishMemberRemove M h s w) = w_db w"
  "w_vk (publishMemberUpdate M h m w) = w_vk w" "w_vk (publishMemberRemove M h s w) = w_vk w"
  by (simp_all add: publishMemberUpdate_def publishMemberRemove_def)

lemma invalidateUser_db [simp]: "w_db (invalidateUser U V h u w) = w_db w"
  by (auto simp: invalidateUser_def on_vk_def split: prod.split)

text \<open>The two guards in the order kick, ban and timeout run them.\<close>

lemma guards_effect:
  assumes "checkNotOwner t w = (x, w1)" and "checkHierarchy u t w1 = (y, w2)"
  shows "tables (w_db w1) = tables (w_db w)" and "tables (w_db w2) = tables (w_db w)"
    and "x = Inr () \<Longrightarrow> y = Inr () \<Longrightarrow> \<not> is_owner t (w_db w) \<and> outranks u t (w_db w)"
  using checkNotOwner_effect [OF assms(1)] checkHierarchy_effect [OF assms(2)] guards_tables(2) by metis+

section \<open>Moderation\<close>

definition moderated :: "uuid_lib \<Rightarrow> request \<Rightarrow> (uuid \<Rightarrow> uuid \<Rightarrow> db) \<Rightarrow> 'r world \<Rightarrow> 'r world \<Rightarrow> bool" where
  "moderated U c eff w w' \<longleftrightarrow>
     tables (w_db w') = tables (w_db w) \<or>
     (\<exists>u t. rq_userID c = Some u \<and> uuid_Parse U (rq_params c ''userID'') = Some t \<and> \<not> is_owner t (w_db w)
        \<and> outranks u t (w_db w) \<and> tables (w_db w') = tables (eff u t))"

lemma moderatedI:
  assumes "UserID c = (Inr u :: MemberModel reaction + uuid)"
    and "ParseUUIDParam U c ''userID'' ValidationError = (Inr t :: MemberModel reaction + uuid)"
    and g: "checkNotOwner t w = (x, w1)" "checkHierarchy u t w1 = (y, w2)"
    and w': "w' = w1 \<or> w' = w2 \<or> x = Inr () \<and> y = Inr () \<and>
      (tables (w_db w') = tables (w_db w2) \<or> tables (w_db w') = tables (eff u t))"
  shows "moderated U c eff w w'"
  using assms(1,2) guards_effect [OF g] w' by (auto simp: moderated_def UserID_ok ParseUUIDParam_ok)

lemma KickMember_effect:
  assumes "KickMember U V M h c w = (rx, w')"
  shows "moderated U c (\<lambda>u t. snd (delete_members t (w_db w))) w w'"
proof (cases "\<exists>u t. UserID c = (Inr u :: MemberModel reaction + uuid)
    \<and> ParseUUIDParam U c ''userID'' ValidationError = (Inr t :: MemberModel reaction + uuid)")
  case True
  then obtain u t where b: "UserID c = (Inr u :: MemberModel reaction + uuid)"
    "ParseUUIDParam U c ''userID'' ValidationError = (Inr t :: MemberModel reaction + uuid)" by blast
  obtain x w1 where x: "checkNotOwner t w = (x, w1)" by fastforce
  obtain y w2 where y: "checkHierarchy u t w1 = (y, w2)" by fastforce
  obtain z w3 where z: "on_db (member_Delete t) w2 = (z, w3)" by fastforce
  have e: "tables (w_db w3) = tables (w_db w2) \<or> tables (w_db w3) = tables (snd (delete_members t (w_db w)))"
    using member_Delete_effect on_dbD [OF z] table_fun_eq [OF _ guards_effect(2) [OF x y]] table_fun_member(2) by metis
  have "w' = w1 \<or> w' = w2 \<or> x = Inr () \<and> y = Inr () \<and> w_db w' = w_db w3"
    using assms b x y z by (auto simp: KickMember_def Let_def split: sum.splits)
  then show ?thesis using moderatedI [OF b x y] e by metis
next
  case False
  then have "w' = w" using assms by (auto simp: KickMember_def split: sum.splits)
  then show ?thesis by (simp add: moderated_def)
qed

lemma BanMember_effect:
  assumes "BanMember U V M T h now c body w = (rx, w')"
  shows "\<exists>r e. moderated U c (\<lambda>u t. banned now t u r e (w_db w)) w w'"
proof (cases "\<exists>u t b e. UserID c = (Inr u :: MemberModel reaction + uuid) \<and> body = Some b
    \<and> ParseUUIDParam U c ''userID'' ValidationError = (Inr t :: MemberModel reaction + uuid)
    \<and> (case bq_ExpiresAt b of None \<Rightarrow> e = None | Some s \<Rightarrow> T s \<noteq> None \<and> e = T s)")
  case True
  then obtain u t b e where b: "UserID c = (Inr u :: MemberModel reaction + uuid)"
      "ParseUUIDParam U c ''userID'' ValidationError = (Inr t :: MemberModel reaction + uuid)"
    and body: "body = Some b" "case bq_ExpiresAt b of None \<Rightarrow> e = None | Some s \<Rightarrow> T s \<noteq> None \<and> e = T s" by blast
  obtain x w1 where x: "checkNotOwner t w = (x, w1)" by fastforce
  obtain y w2 where y: "checkHierarchy u t w1 = (y, w2)" by fastforce
  obtain z w3 where z: "on_db (Ban now t u (bq_Reason b) e) w2 = (z, w3)" by fastforce
  have "tables (banned now t u (bq_Reason b) e (w_db w2)) = tables (banned now t u (bq_Reason b) e (w_db w))"
    unfolding banned_def
    by (rule table_fun_eq [OF table_fun_member(2)], rule table_fun_eq [OF table_fun_member(3)], rule guards_effect(2) [OF x y])
  then have e: "tables (w_db w3) = tables (w_db w2) \<or> tables (w_db w3) = tables (banned now t u (bq_Reason b) e (w_db w))"
    using Ban_effect [OF conjunct1 [OF on_dbD [OF z]]] by auto
  have "w' = w1 \<or> w' = w2 \<or> x = Inr () \<and> y = Inr () \<and> w_db w' = w_db w3"
    using assms b x y z body by (auto simp: BanMember_def Let_def split: sum.splits option.splits)
  then show ?thesis using moderatedI [OF b x y, where eff = "\<lambda>u t. banned now t u (bq_Reason b) e (w_db w)"] e by metis
next
  case False
  then have "w' = w" using assms by (auto simp: BanMember_def split: sum.splits option.splits)
  then show ?thesis by (simp add: moderated_def)
qed

lemma SetTimeout_request_effect:
  assumes "SetTimeout U V M Z T h now1 now2 c body w = (rx, w')"
  shows "\<exists>e. moderated U c (\<lambda>u t. snd (update_members (\<lambda>m. m_user_id m = t)
    (\<lambda>m. m\<lparr>m_status := TimedOut, m_timeout_until := Some e\<rparr>) (w_db w))) w w'"
proof (cases "\<exists>u t s e. UserID c = (Inr u :: MemberModel reaction + uuid) \<and> body = Some s \<and> T s = Some e \<and> now1 < e
    \<and> ParseUUIDParam U c ''userID'' ValidationError = (Inr t :: MemberModel reaction + uuid)")
  case True
  then obtain u t s e where b: "UserID c = (Inr u :: MemberModel reaction + uuid)"
      "ParseUUIDParam U c ''userID'' ValidationError = (Inr t :: MemberModel reaction + uuid)"
    and body: "body = Some s" "T s = Some e" "now1 < e" by blast
  let ?s = "update_members (\<lambda>m. m_user_id m = t) (\<lambda>m. m\<lparr>m_status := TimedOut, m_timeout_until := Some e\<rparr>)"
  obtain x w1 where x: "checkNotOwner t w = (x, w1)" by fastforce
  obtain y w2 where y: "checkHierarchy u t w1 = (y, w2)" by fastforce
  obtain z w3 where z: "on_db (repo_SetTimeout now2 t e) w2 = (z, w3)" by fastforce
  have "tables (w_db w3) = tables (w_db w2) \<or> tables (w_db w3) = tables (snd (?s (w_db w2)))"
    by (rule SetTimeout_effect [OF conjunct1 [OF on_dbD [OF z]]])
  then have e: "tables (w_db w3) = tables (w_db w2) \<or> tables (w_db w3) = tables (snd (?s (w_db w)))"
    by (simp only: table_fun_eq [OF table_fun_member(1) guards_effect(2) [OF x y]])
  have "w' = w1 \<or> w' = w2 \<or> x = Inr () \<and> y = Inr () \<and> w_db w' = w_db w3"
    using assms b x y z body by (auto simp: SetTimeout_def Let_def split: sum.splits)
  then have "moderated U c (\<lambda>u t. snd (update_members (\<lambda>m. m_user_id m = t)
      (\<lambda>m. m\<lparr>m_status := TimedOut, m_timeout_until := Some e\<rparr>) (w_db w))) w w'"
    using moderatedI [OF b x y, where eff = "\<lambda>u t. snd (update_members (\<lambda>m. m_user_id m = t)
      (\<lambda>m. m\<lparr>m_status := TimedOut, m_timeout_until := Some e\<rparr>) (w_db w))"] e by metis
  then show ?thesis by blast
next
  case False
  then have "w' = w" using assms by (auto simp: SetTimeout_def split: sum.splits option.splits if_splits)
  then show ?thesis by (simp add: moderated_def)
qed

inductive moderation :: "uuid_lib \<Rightarrow> request \<Rightarrow> 'r world \<Rightarrow> 'r world \<Rightarrow> bool" for U c where
  kick: "KickMember U V M h c w = (rx, w') \<Longrightarrow> moderation U c w w'"
| ban: "BanMember U V M T h now c bbody w = (rx, w') \<Longrightarrow> moderation U c w w'"
| timeout: "SetTimeout U V M Z T h now1 now2 c body w = (rx, w') \<Longrightarrow> moderation U c w w'"

lemma others_unaffected:
  assumes "v \<noteq> t"
  shows "find_member v (snd (delete_members t d)) = find_member v d"
    and "find_member v (banned now t u r e d) = find_member v d"
    and "find_member v (snd (update_members (\<lambda>m. m_user_id m = t) (\<lambda>m. m\<lparr>m_status := TimedOut, m_timeout_until := Some e'\<rparr>) d))
      = find_member v d"
proof -
  show del: "find_member v (snd (delete_members t d)) = find_member v d" for d
    using assms by (auto simp: find_member_def delete_members_def intro!: find_filter_other)
  have "find_member v (snd (insert_ban now t u r e d)) = find_member v d"
    by (simp add: insert_ban_def find_member_def)
  then show "find_member v (banned now t u r e d) = find_member v d" by (simp add: banned_def del)
  have "find (\<lambda>m. m_user_id m = v) (map (\<lambda>m. if m_user_id m = t then m\<lparr>m_status := TimedOut, m_timeout_until := Some e'\<rparr> else m) ms)
      = find (\<lambda>m. m_user_id m = v) ms" for ms
    using assms by (induction ms) auto
  then show "find_member v (snd (update_members (\<lambda>m. m_user_id m = t) (\<lambda>m. m\<lparr>m_status := TimedOut, m_timeout_until := Some e'\<rparr>) d))
      = find_member v d" by (simp add: find_member_def update_members_def)
qed

lemma find_member_tables: "tables d = tables d' \<Longrightarrow> find_member v d = find_member v d'"
  by (metis find_member_outcomes tables_eqD)

lemma moderation_effect:
  assumes "moderation U c w w'"
  shows "\<exists>eff. moderated U c eff w w' \<and> (\<forall>u t v. v \<noteq> t \<longrightarrow> find_member v (eff u t) = find_member v (w_db w))"
  using assms
proof cases
  case (kick V M h rx)
  show ?thesis by (intro exI conjI, rule KickMember_effect [OF kick]) (simp add: others_unaffected)
next
  case (ban V M T h now bbody rx)
  from BanMember_effect [OF ban] obtain r e where m: "moderated U c (\<lambda>u t. banned now t u r e (w_db w)) w w'" by blast
  show ?thesis by (intro exI conjI, rule m) (simp add: others_unaffected)
next
  case (timeout V M Z T h now1 now2 body rx)
  from SetTimeout_request_effect [OF timeout] obtain e where m: "moderated U c (\<lambda>u t. snd (update_members (\<lambda>m. m_user_id m = t)
    (\<lambda>m. m\<lparr>m_status := TimedOut, m_timeout_until := Some e\<rparr>) (w_db w))) w w'" by blast
  show ?thesis by (intro exI conjI, rule m) (simp add: others_unaffected)
qed

section \<open>Role assignments and the cache\<close>

text \<open>Data that differ in the roles of one user only give the other users the same permissions.\<close>

definition same_but_user :: "uuid \<Rightarrow> perm_data \<Rightarrow> perm_data \<Rightarrow> bool" where
  "same_but_user t D D' \<longleftrightarrow>
     pd_owner D' = pd_owner D \<and> pd_channel D' = pd_channel D \<and> pd_overrides D' = pd_overrides D
     \<and> (\<forall>u. u \<noteq> t \<longrightarrow> pd_roles D' u = pd_roles D u)"

lemma same_user_effective:
  assumes "same_but_user t D D'" and "u \<noteq> t"
  shows "effective P D' u c p \<longleftrightarrow> effective P D u c p" and "server_effective P D' u p \<longleftrightarrow> server_effective P D u p"
proof -
  have eq: "is_admin P D' u \<longleftrightarrow> is_admin P D u" "role_bit D' u = role_bit D u" "user_roles D' u = user_roles D u"
    "pd_channel D' = pd_channel D" "pd_overrides D' = pd_overrides D"
    using assms by (auto simp: same_but_user_def is_admin_def role_bit_def user_roles_def fun_eq_iff)
  show "server_effective P D' u p \<longleftrightarrow> server_effective P D u p" by (simp add: server_effective_def eq)
  show "effective P D' u c p \<longleftrightarrow> effective P D u c p"
    by (simp add: effective_def channel_bit_def eq cong: option.case_cong)
qed

lemma member_roles_same_but:
  assumes "filter (\<lambda>mr. mr_user_id mr \<noteq> t) rows = filter (\<lambda>mr. mr_user_id mr \<noteq> t) (t_member_roles d)"
  shows "same_but_user t (db_perm_data d) (db_perm_data (d\<lparr>t_member_roles := rows\<rparr>))"
proof -
  have "filter (\<lambda>mr. mr_role_id mr = i \<and> mr_user_id mr = u) rows
      = filter (\<lambda>mr. mr_role_id mr = i \<and> mr_user_id mr = u) (t_member_roles d)" if "u \<noteq> t" for u i
  proof -
    have k: "filter (\<lambda>mr. mr_role_id mr = i \<and> mr_user_id mr = u) xs
        = filter (\<lambda>mr. mr_role_id mr = i \<and> mr_user_id mr = u) (filter (\<lambda>mr. mr_user_id mr \<noteq> t) xs)" for xs
      using that by (induction xs) auto
    show ?thesis unfolding k [of rows] k [of "t_member_roles d"] assms by (rule refl)
  qed
  then show ?thesis
    by (simp add: same_but_user_def db_perm_data_def role_permission_rows_def channel_info_row_def override_rows_def)
qed

lemma role_change_same_but:
  "same_but_user t (db_perm_data d) (db_perm_data (snd (insert_member_role t i d)))"
  "same_but_user t (db_perm_data d) (db_perm_data (snd (delete_member_role t i d)))"
proof -
  have refl: "same_but_user t D D" for D by (simp add: same_but_user_def)
  show "same_but_user t (db_perm_data d) (db_perm_data (snd (insert_member_role t i d)))"
    using member_roles_same_but [of t "t_member_roles d @ [\<lparr>mr_user_id = t, mr_role_id = i\<rparr>]" d] refl
    by (simp add: insert_member_role_def Let_def)
  show "same_but_user t (db_perm_data d) (db_perm_data (snd (delete_member_role t i d)))"
    unfolding delete_member_role_def Let_def snd_conv by (rule member_roles_same_but) (auto intro!: filter_cong)
qed

definition user_message :: "uuid_lib \<Rightarrow> uuid \<Rightarrow> bytes" where
  "user_message U u = marshal_invalidation U (no_message\<lparr>im_UserID := Some u, im_Version := invalidationVersion\<rparr>)"

context world_resolver
begin

lemma invalidateUser_view [simp]: "cache_view U V (w_vk (invalidateUser U V h t w)) = cache_view U V (w_vk w)"
  using publish_view by (auto simp: invalidateUser_def on_vk_def InvalidateUser_def split: prod.splits)

lemma user_change_coherent:
  assumes "world_coherent P U V w" and "same_but_user t (db_perm_data (w_db w)) (db_perm_data (w_db w'))"
    and "cache_view U V (w_vk w') = cache_view U V (w_vk w)"
    and "handleMessage U V (user_message U t) (w_vk w') = Some (None, r')"
  shows "world_coherent P U V (w'\<lparr>w_vk := r'\<rparr>)"
proof -
  have co: "coherent P (db_perm_data (w_db w)) (cache_view U V (w_vk w'))"
    using assms(1,3) by (simp add: world_coherent_def)
  have "coherent P (db_perm_data (w_db w')) (cache_view U V r')"
    by (rule coherent_after [OF co, where m = "no_message\<lparr>im_UserID := Some t\<rparr>"])
      (use assms(4) same_user_effective [OF assms(2)] in \<open>auto simp: user_message_def covers_def no_message_def\<close>)
  then show ?thesis by (simp add: world_coherent_def)
qed

end

text \<open>An acknowledged assignment or removal: the rows of one user change, then the user is invalidated.\<close>

lemma AssignRole_200:
  assumes "AssignRole U V M Z h c w = (Respond resp, w')" and "rs_status resp = 200"
  shows "\<exists>t i w1. uuid_Parse U (rq_params c ''userID'') = Some t
    \<and> tables (w_db w') = tables (snd (insert_member_role t i (w_db w))) \<and> w_vk w1 = w_vk w \<and> w_vk w' = w_vk (invalidateUser U V h t w1)"
proof -
  have "\<exists>u t i r p m w1 w2 w3 w4 w7. UserID c = (Inr u :: MemberModel reaction + uuid) \<and>
      ParseUUIDParam U c ''userID'' ValidationError = (Inr t :: MemberModel reaction + uuid)
      \<and> on_db (role_GetByID i) w = (Inr r, w1) \<and> on_db (HighestPosition u) w1 = (Inr p, w2)
      \<and> on_db (GetByUserID t) w2 = (Inr m, w3) \<and> on_db (repo_AssignRole t i) w3 = (Inr (), w4)
      \<and> (\<exists>x e. on_db (GetByUserID t) (invalidateUser U V h t (go_Record h e w4)) = (x, w7)) \<and> w_db w' = w_db w7 \<and> w_vk w' = w_vk w7"
    using assms
    by (auto simp: AssignRole_def reaction_defs mapMemberError_def role_lookup_error_def internal_error_def Let_def UserID_Respond
        split: sum.splits prod.splits if_splits dest!: ParseUUIDParam_Respond) metis
  then obtain u t i r p m w1 w2 w3 w4 w7 x e where
      u: "ParseUUIDParam U c ''userID'' ValidationError = (Inr t :: MemberModel reaction + uuid)"
    and s: "on_db (role_GetByID i) w = (Inr r, w1)" "on_db (HighestPosition u) w1 = (Inr p, w2)"
      "on_db (GetByUserID t) w2 = (Inr m, w3)" "on_db (repo_AssignRole t i) w3 = (Inr (), w4)"
      "on_db (GetByUserID t) (invalidateUser U V h t (go_Record h e w4)) = (x, w7)"
    and w': "w_db w' = w_db w7" "w_vk w' = w_vk w7" by blast
  note d = s [THEN on_dbD]
  have t3: "tables (w_db w3) = tables (w_db w)"
    using role_GetByID_effect(1) HighestPosition_effect(1) GetByUserID_tables d(1-3) by metis
  have "pg_stmt (insert_member_role t i) (w_db w3) = (Inr (), w_db w4)"
    using d(4) by (auto simp: repo_AssignRole_def split: prod.splits sum.splits if_splits)
  then have "tables (w_db w4) = tables (snd (insert_member_role t i (w_db w)))"
    by (rule pg_stmt_success_at(2) [OF _ pure_member(5) t3])
  moreover have "tables (w_db w7) = tables (w_db w4)" using GetByUserID_tables d(5) by fastforce
  moreover have "w_vk (go_Record h e w4) = w_vk w" "w_vk w7 = w_vk (invalidateUser U V h t (go_Record h e w4))" using d by simp_all
  ultimately show ?thesis using u w' by (metis ParseUUIDParam_ok)
qed

lemma RemoveRole_204:
  assumes "RemoveRole U V M Z h c w = (Respond resp, w')" and "rs_status resp = 204"
  shows "\<exists>t i w1. uuid_Parse U (rq_params c ''userID'') = Some t
    \<and> tables (w_db w') = tables (snd (delete_member_role t i (w_db w))) \<and> w_vk w1 = w_vk w \<and> w_vk w' = w_vk (invalidateUser U V h t w1)"
proof -
  define after where "after t w4 = (if h_gateway h
      then case on_db (GetByUserID t) w4 of
             (Inl _, w5) \<Rightarrow> w5
           | (Inr updated, w5) \<Rightarrow> publishMemberUpdate M h (member_ToModel U Z updated) w5
      else w4)" for t and w4 :: "'a world"
  have after: "tables (w_db (after t w4)) = tables (w_db w4)" "w_vk (after t w4) = w_vk w4" for t w4
    by (auto simp: after_def split: prod.splits sum.splits dest!: on_dbD GetByUserID_tables)
  have "\<exists>u t i r p w1 w2 w3 e. ParseUUIDParam U c ''userID'' ValidationError = (Inr t :: MemberModel reaction + uuid)
      \<and> on_db (role_GetByID i) w = (Inr r, w1) \<and> on_db (HighestPosition u) w1 = (Inr p, w2)
      \<and> on_db (repo_RemoveRole t i) w2 = (Inr (), w3) \<and> w' = invalidateUser U V h t (after t (go_Record h e w3))"
    using assms unfolding RemoveRole_def after_def [symmetric]
    by (auto simp: reaction_defs mapMemberError_def role_lookup_error_def internal_error_def Let_def UserID_Respond
        split: sum.splits prod.splits if_splits dest!: ParseUUIDParam_Respond) blast
  then obtain u t i r p w1 w2 w3 e where
      u: "ParseUUIDParam U c ''userID'' ValidationError = (Inr t :: MemberModel reaction + uuid)"
    and s: "on_db (role_GetByID i) w = (Inr r, w1)" "on_db (HighestPosition u) w1 = (Inr p, w2)"
      "on_db (repo_RemoveRole t i) w2 = (Inr (), w3)"
    and w': "w' = invalidateUser U V h t (after t (go_Record h e w3))" by blast
  note d = s [THEN on_dbD]
  have t2: "tables (w_db w2) = tables (w_db w)"
    using role_GetByID_effect(1) HighestPosition_effect(1) d(1,2) by metis
  obtain n where "pg_stmt (delete_member_role t i) (w_db w2) = (Inr n, w_db w3)"
    using d(3) by (auto simp: repo_RemoveRole_def split: prod.splits sum.splits if_splits)
  then have "tables (w_db w3) = tables (snd (delete_member_role t i (w_db w)))"
    by (rule pg_stmt_success_at(2) [OF _ pure_member(6) t2])
  moreover have "w_vk (after t (go_Record h e w3)) = w_vk w" using d after by simp
  ultimately show ?thesis using u w' after(1) [of t "go_Record h e w3"] by (metis ParseUUIDParam_ok invalidateUser_db go_Record_parts(1))
qed

section \<open>The members of a channel\<close>

text \<open>Resolving permissions changes no table.\<close>

lemma filter_users_tables:
  "filter_users P PGStore c cached p us tc w = (x, w') \<Longrightarrow> tables (w_db w') = tables (w_db w)"
proof (induction us arbitrary: tc w x)
  case (Cons u us)
  then show ?case
    by (auto split: option.splits prod.splits sum.splits dest!: compute_tables)
qed simp

lemma FilterUsersPermitted_tables:
  assumes "FilterUsersPermitted P PGStore (ValkeyCache U V) us c p w = (x, w')"
  shows "tables (w_db w') = tables (w_db w)"
proof -
  have db: "w_db (snd (cSetManyUsers (ValkeyCache U V) c tc v)) = w_db v" "w_db (snd (cGetManyUsers (ValkeyCache U V) us c v)) = w_db v"
    for tc v by (simp_all add: ValkeyCache_def on_vk_def split: prod.split)
  obtain r w1 where g: "cGetManyUsers (ValkeyCache U V) us c w = (r, w1)" by fastforce
  obtain y w2 where f: "filter_users P PGStore c (case r of Inl _ \<Rightarrow> Map.empty | Inr m \<Rightarrow> m) p us [] w1 = (y, w2)" by fastforce
  have "w_db w' = w_db w2" using assms g f db by (auto simp: FilterUsersPermitted_def Let_def split: sum.splits if_splits)
  then show ?thesis using filter_users_tables [OF f] db(2) [of w] g by simp
qed

text \<open>All members after a cursor, and the next page after a full one.\<close>

definition rows_after :: "uuid option \<Rightarrow> db \<Rightarrow> WithProfile list" where
  "rows_after cursor d =
     List.map_filter (profile d) (sort_by member_key (filter (\<lambda>m. m_status m \<noteq> Pending \<and> after_member cursor d m) (t_members d)))"

lemma member_rows_take: "member_rows cursor n d = take (nat n) (rows_after cursor d)"
  by (simp add: member_rows_def rows_after_def)

lemma profile_total:
  assumes "members_inv d" and "m \<in> set (t_members d)"
  shows "\<exists>p. profile d m = Some p \<and> wp_UserID p = m_user_id m"
proof -
  have "find (\<lambda>u. u_id u = m_user_id m) (t_users d) \<noteq> None"
  proof -
    have "m_user_id m \<in> set (map u_id (t_users d))" using assms by (auto simp: members_inv_def members_ok_def user_exists_def)
    then show ?thesis by (auto simp: find_None_iff)
  qed
  then show ?thesis by (auto simp: profile_def)
qed

lemma map_filter_total: "(\<And>x. x \<in> set xs \<Longrightarrow> \<exists>y. f x = Some y) \<Longrightarrow> List.map_filter f xs = map (the \<circ> f) xs"
proof (induction xs)
  case (Cons x xs)
  then obtain y where "f x = Some y" by auto
  with Cons show ?case by (simp add: List.map_filter_def)
qed (simp add: List.map_filter_def)

lemma rows_after_page:
  assumes inv: "members_inv d" and n: "0 < n" "n \<le> length (rows_after cursor d)"
  shows "rows_after (Some (wp_UserID (rows_after cursor d ! (n - 1)))) d = drop n (rows_after cursor d)"
proof -
  define match where "match m \<longleftrightarrow> m_status m \<noteq> Pending \<and> after_member cursor d m" for m
  define ms where "ms = sort_by member_key (filter match (t_members d))"
  have dist: "distinct (map m_user_id (t_members d))" using inv by (simp add: members_inv_def members_ok_def)
  have tot: "List.map_filter (profile d) xs = map (the \<circ> profile d) xs" if "set xs \<subseteq> set (t_members d)" for xs
    using profile_total [OF inv] that by (intro map_filter_total) blast
  have sub: "set ms \<subseteq> set (t_members d)" by (auto simp: ms_def)
  have rows: "rows_after cursor d = map (the \<circ> profile d) ms"
    using tot [OF sub] by (simp add: rows_after_def ms_def match_def [abs_def])
  then have l: "n - 1 < length ms" using n by simp
  have x: "ms ! (n - 1) \<in> set (t_members d)" "match (ms ! (n - 1))" using nth_mem [OF l] by (auto simp: ms_def)
  have id: "wp_UserID (rows_after cursor d ! (n - 1)) = m_user_id (ms ! (n - 1))"
    using profile_total [OF inv x(1)] l rows by auto
  have find: "find (\<lambda>y. m_user_id y = m_user_id (ms ! (n - 1))) (t_members d) = Some (ms ! (n - 1))"
    by (rule find_unique [OF dist x(1)]) simp_all
  have "after_member cursor d m" if "key_less (member_key (ms ! (n - 1))) (member_key m)" for m
    using x(2) that by (auto simp: match_def after_member_def split: option.splits intro: key_less_trans)
  then have "filter (\<lambda>m. m_status m \<noteq> Pending \<and> after_member (Some (m_user_id (ms ! (n - 1)))) d m) (t_members d)
      = filter (\<lambda>m. match m \<and> key_less (member_key (ms ! (n - 1))) (member_key m)) (t_members d)"
    using find by (intro filter_cong) (auto simp: match_def after_member_def)
  then have "rows_after (Some (m_user_id (ms ! (n - 1)))) d = List.map_filter (profile d) (drop n ms)"
    using keyset_page [OF member_key_distinct [OF dist], of "n - 1" match] l n
    by (simp add: rows_after_def ms_def)
  also have "\<dots> = map (the \<circ> profile d) (drop n ms)" using sub by (intro tot) (meson order_trans set_drop_subset)
  finally show ?thesis using id rows by (simp add: drop_map)
qed

definition sees :: "perm_lib \<Rightarrow> perm_data \<Rightarrow> uuid \<Rightarrow> uuid \<Rightarrow> bool" where
  "sees P D c u \<longleftrightarrow> answers P D (ViewChannels P) u c True"

lemma answers_sees: "answers P D (ViewChannels P) u c b \<Longrightarrow> b = sees P D c u"
  using effective_unique by (fastforce simp: answers_def sees_def)

lemma append_permitted_take:
  assumes "int (length result) < limit"
  shows "append_permitted limit (zip batch (map f batch)) result
    = result @ take (nat limit - length result) (filter f batch)"
  using assms
proof (induction batch arbitrary: result)
  case (Cons m batch)
  show ?case
  proof (cases "f m \<and> int (length (result @ [m])) < limit")
    case True
    then have "nat limit - length result = Suc (nat limit - length (result @ [m]))" by auto
    with True Cons.IH [of "result @ [m]"] show ?thesis by simp
  next
    case False
    then have "\<not> f m \<or> nat limit - length result = Suc 0" using Cons.prems by auto
    with False Cons show ?thesis by auto
  qed
qed simp

lemma take_in_parts:
  "k \<ge> length r \<Longrightarrow> (r @ take (k - length r) a) @ take (k - length (r @ take (k - length r) a)) b = r @ take (k - length r) (a @ b)"
  by (auto simp: min_def)

lemma channel_members_loop_ok:
  assumes wr: "world_resolver P U V" and inv: "members_inv d" and lim: "0 < limit" and ch: "c \<noteq> serverPermKey"
  shows "world_coherent P U V w \<Longrightarrow> tables (w_db w) = tables d \<Longrightarrow> length result \<le> nat limit \<Longrightarrow>
    \<exists>rx w'. channel_members_loop P U V Z c limit cursor result w = Some (rx, w')
      \<and> (rx = internal_error \<or> rx = Success (map (member_ToModel U Z)
           (result @ take (nat limit - length result) (filter (sees P (db_perm_data d) c \<circ> wp_UserID) (rows_after cursor d)))))"
proof (induction "length (rows_after cursor d)" arbitrary: cursor result w rule: less_induct)
  case less
  note loop = channel_members_loop.simps [of P U V Z c limit cursor result w]
  let ?f = "sees P (db_perm_data d) c \<circ> wp_UserID"
  show ?case
  proof (cases "int (length result) < limit")
    case False
    then show ?thesis using less.prems(3) by (subst loop) simp
  next
    case True
    obtain b w1 where b: "on_db (member_List cursor (limit * 2)) w = (b, w1)" by fastforce
    show ?thesis
    proof (cases b)
      case (Inl e)
      then show ?thesis using True b by (subst loop) simp
    next
      case (Inr batch)
      have q: "pg_query (member_rows cursor (limit * 2)) (w_db w) = (Inr batch, w_db w1)" and vk: "w_vk w1 = w_vk w"
        using b Inr on_dbD [OF b] by (auto simp: member_List_def split: prod.splits sum.splits)
      have t1: "tables (w_db w1) = tables d" using pg_query_tables [OF q] less.prems(2) by simp
      have "batch = member_rows cursor (limit * 2) (w_db w)" using pg_query_ok [OF q] by simp
      then have batch: "batch = take (nat (limit * 2)) (rows_after cursor d)"
        using member_rows_outcomes tables_eqD [OF less.prems(2)] by (metis member_rows_take)
      have dd: "db_perm_data (w_db w1) = db_perm_data d" "db_perm_data (w_db w) = db_perm_data d"
        using db_perm_data_tables t1 less.prems(2) by blast+
      have co: "coherent P (db_perm_data (w_db w1)) (cache_view U V (w_vk w1))"
        using less.prems(1) vk dd by (simp add: world_coherent_def)
      obtain x w2 where f: "FilterUsersPermitted P PGStore (ValkeyCache U V) (map wp_UserID batch) c (ViewChannels P) w1 = (x, w2)"
        by fastforce
      show ?thesis
      proof (cases x)
        case (Inl e)
        then show ?thesis using True b \<open>b = Inr batch\<close> f by (subst loop) simp
      next
        case (Inr perm)
        note f' = f [unfolded Inr]
        have ok: "list_all2 (\<lambda>u. answers P (db_perm_data d) (ViewChannels P) u c) (map wp_UserID batch) perm"
            "coherent P (db_perm_data (w_db w2)) (cache_view U V (w_vk w2))"
          using world_resolver.world_FilterUsersPermitted [OF wr co ch f'] dd by auto
        have perm: "perm = map ?f batch"
        proof (rule nth_equalityI)
          show "length perm = length (map ?f batch)" using ok(1) by (simp add: list_all2_conv_all_nth)
          show "perm ! i = map ?f batch ! i" if "i < length perm" for i
            using ok(1) that answers_sees by (fastforce simp: list_all2_conv_all_nth)
        qed
        have t2: "tables (w_db w2) = tables d" using FilterUsersPermitted_tables [OF f] t1 by simp
        define result' where "result' = append_permitted limit (zip batch perm) result"
        have r': "result' = result @ take (nat limit - length result) (filter ?f batch)"
          unfolding result'_def perm by (rule append_permitted_take [OF True])
        have step: "channel_members_loop P U V Z c limit cursor result w =
            (if int (length batch) < limit * 2 then Some (Success (map (member_ToModel U Z) result'), w2)
             else channel_members_loop P U V Z c limit (Some (wp_UserID (last batch))) result' w2)"
          using True b \<open>b = Inr batch\<close> f' by (subst loop) (simp add: result'_def Let_def)
        show ?thesis
        proof (cases "int (length batch) < limit * 2")
          case short: True
          then have "batch = rows_after cursor d" using batch by (auto simp: min_def split: if_splits)
          then show ?thesis using step short r' by simp
        next
          case full: False
          define n where "n = nat (limit * 2)"
          have n: "0 < n" "n \<le> length (rows_after cursor d)" "batch = take n (rows_after cursor d)"
            using full batch lim by (auto simp: n_def)
          have "last batch = rows_after cursor d ! (n - 1)" using n last_conv_nth [of batch] by fastforce
          then have next_rows: "rows_after (Some (wp_UserID (last batch))) d = drop n (rows_after cursor d)"
            using rows_after_page [OF inv n(1,2)] by simp
          have rows: "rows_after cursor d = batch @ drop n (rows_after cursor d)" using n(3) by simp
          have "length result' \<le> nat limit" using r' less.prems(3) by simp
          moreover have "length (rows_after (Some (wp_UserID (last batch))) d) < length (rows_after cursor d)"
            using next_rows n by simp
          moreover have "world_coherent P U V w2" using ok(2) by (simp add: world_coherent_def)
          ultimately obtain rx w' where "channel_members_loop P U V Z c limit (Some (wp_UserID (last batch))) result' w2 = Some (rx, w')"
            and rx: "rx = internal_error \<or> rx = Success (map (member_ToModel U Z)
              (result' @ take (nat limit - length result') (filter ?f (rows_after (Some (wp_UserID (last batch))) d))))"
            using less.hyps t2 by blast
          moreover have "result' @ take (nat limit - length result') (filter ?f (drop n (rows_after cursor d)))
              = result @ take (nat limit - length result) (filter ?f (rows_after cursor d))"
            unfolding r' using take_in_parts [OF less.prems(3)] rows by (metis filter_append)
          ultimately show ?thesis using step full next_rows by auto
        qed
      qed
    qed
  qed
qed

section \<open>Properties\<close>

text \<open>
  C8. Moderation is safe: a kick, ban or timeout either changes no table, or the caller is
  authenticated and ranks strictly above the target, the target is not the owner, and
  nobody else's membership changes; whatever statements fail.
\<close>

theorem moderation_safe:
  assumes "moderation U c w w'"
  shows "tables (w_db w') = tables (w_db w) \<or>
    (\<exists>u t. rq_userID c = Some u \<and> uuid_Parse U (rq_params c ''userID'') = Some t \<and> \<not> is_owner t (w_db w)
       \<and> highest_position u (w_db w) < highest_position t (w_db w)
       \<and> (\<forall>v. v \<noteq> t \<longrightarrow> find_member v (w_db w') = find_member v (w_db w)))"
proof -
  obtain eff where m: "moderated U c eff w w'" and o: "\<forall>u t v. v \<noteq> t \<longrightarrow> find_member v (eff u t) = find_member v (w_db w)"
    using moderation_effect [OF assms] by blast
  show ?thesis
  proof (cases "tables (w_db w') = tables (w_db w)")
    case False
    with m obtain u t where "rq_userID c = Some u" "uuid_Parse U (rq_params c ''userID'') = Some t" "\<not> is_owner t (w_db w)"
      "highest_position u (w_db w) < highest_position t (w_db w)" and e: "tables (w_db w') = tables (eff u t)"
      unfolding moderated_def outranks_def by blast
    moreover have "\<forall>v. v \<noteq> t \<longrightarrow> find_member v (w_db w') = find_member v (w_db w)"
      using o find_member_tables [OF e] by simp
    ultimately show ?thesis by blast
  qed simp
qed

definition on_user :: "uuid \<Rightarrow> uuid \<Rightarrow> request" where
  "on_user u t = \<lparr>rq_params = (\<lambda>p. uuid_String ref_uuid (if p = ''userID'' then t else 31)), rq_query = (\<lambda>_. []), rq_userID = Some u\<rparr>"

lemmas request_eval = UserID_def ParseUUIDParam_def on_user_def on_db_def Let_def

lemma ranked_kick:
  "map m_user_id (t_members (w_db (snd (KickMember ref_uuid mem_valkey ref_proto all_on (on_user 2 3) ranked_world)))) = [1, 2]"
  by (simp add: KickMember_def request_eval ranked_world_def sample_world_def checkNotOwner_def pg_IsOwner_def checkHierarchy_def
      HighestPosition_def highest_position_def explicit_positions_def member_Delete_def sample_role_def delete_members_def)
    (simp add: sample_db_def sample_member_def MaxInt_def)

theorem moderation_safe_witness:
  "highest_position 2 (w_db ranked_world) < highest_position 3 (w_db ranked_world)
   \<and> find_member 2 (w_db (snd (KickMember ref_uuid mem_valkey ref_proto all_on (on_user 2 3) ranked_world)))
     = find_member 2 (w_db ranked_world)"
proof -
  let ?w' = "snd (KickMember ref_uuid mem_valkey ref_proto all_on (on_user 2 3) ranked_world)"
  have "moderation ref_uuid (on_user 2 3) ranked_world ?w'"
    by (rule moderation.kick [where rx = "fst (KickMember ref_uuid mem_valkey ref_proto all_on (on_user 2 3) ranked_world)"]) simp
  moreover have "tables (w_db ?w') \<noteq> tables (w_db ranked_world)"
    using ranked_kick tables_fields(3) [of "w_db ?w'" "w_db ranked_world"] by (auto simp: ranked_world_def sample_db_def)
  ultimately show ?thesis
    using moderation_safe [of ref_uuid "on_user 2 3" ranked_world ?w'] by (auto simp: on_user_def)
qed

text \<open>
  Role assignments keep the permission cache right: once an acknowledged assignment or
  removal has been followed by the handling of the invalidation it published for the user,
  every cached permission is again what the database says.
\<close>

theorem member_role_coherent:
  assumes "world_resolver P U V" and "world_coherent P U V w"
    and "AssignRole U V M Z h c w = (Respond resp, w') \<and> rs_status resp = 200
      \<or> RemoveRole U V M Z h c w = (Respond resp, w') \<and> rs_status resp = 204"
    and "uuid_Parse U (rq_params c ''userID'') = Some t"
    and "handleMessage U V (user_message U t) (w_vk w') = Some (None, r')"
  shows "world_coherent P U V (w'\<lparr>w_vk := r'\<rparr>)"
proof -
  obtain i w1 where d: "tables (w_db w') = tables (snd (insert_member_role t i (w_db w)))
      \<or> tables (w_db w') = tables (snd (delete_member_role t i (w_db w)))"
    and vk: "w_vk w1 = w_vk w" "w_vk w' = w_vk (invalidateUser U V h t w1)"
    using assms(3,4) AssignRole_200 RemoveRole_204 by (metis option.inject)
  have same: "same_but_user t (db_perm_data (w_db w)) (db_perm_data (w_db w'))"
    using d role_change_same_but by (auto dest!: db_perm_data_tables)
  have "cache_view U V (w_vk w') = cache_view U V (w_vk w)"
    using world_resolver.invalidateUser_view [OF assms(1)] vk by simp
  from world_resolver.user_change_coherent [OF assms(1,2) same this assms(5)] show ?thesis .
qed

definition joining_world :: "vstore world" where
  "joining_world = ranked_world\<lparr>w_db := (w_db ranked_world)\<lparr>t_overrides := []\<rparr>\<rparr>"

lemma joining_coherent: "world_coherent P U mem_valkey joining_world"
  by (simp add: joining_world_def ranked_world_def sample_world_def world_coherent_def coherent_def cache_view_def mem_valkey_def
      vempty_def live_def)

theorem member_role_coherent_witness:
  "\<exists>resp w'. AssignRole ref_uuid mem_valkey ref_proto (\<lambda>_. []) all_on (on_user 2 3) joining_world = (Respond resp, w')
     \<and> \<lparr>mr_user_id = 3, mr_role_id = 31\<rparr> \<in> set (t_member_roles (w_db w')) \<and> world_coherent ref_perm ref_uuid mem_valkey w'"
proof -
  obtain resp w' where s: "AssignRole ref_uuid mem_valkey ref_proto (\<lambda>_. []) all_on (on_user 2 3) joining_world = (Respond resp, w')"
    "rs_status resp = 200" "vkeys (w_vk w') = fmempty" "\<lparr>mr_user_id = 3, mr_role_id = 31\<rparr> \<in> set (t_member_roles (w_db w'))"
    by (simp add: AssignRole_def request_eval joining_world_def ranked_world_def sample_world_def role_GetByID_def scanRole_def
        find_role_def sample_role_def HighestPosition_def highest_position_def explicit_positions_def GetByUserID_def
        scanWithProfile_def member_row_query_def find_member_def profile_def repo_AssignRole_def insert_member_role_def
        user_exists_def invalidateUser_def on_vk_def InvalidateUser_def publish_def redis_Do_def mem_valkey_def vempty_def
        Success_def all_on_def go_Record_def sample_db_def sample_member_def sample_user_def publishMemberUpdate_def Enqueue_def)
  have "handleMessage ref_uuid mem_valkey (user_message ref_uuid 3) (w_vk w') = Some (None, w_vk w')"
    using mem_handle_none [OF s(3), of "no_message\<lparr>im_UserID := Some 3\<rparr>"] by (simp add: user_message_def no_message_def)
  from member_role_coherent [OF mem_resolver.world_resolver_axioms joining_coherent, OF disjI1 [OF conjI [OF s(1,2)]] _ this] s(1,4)
  show ?thesis by (simp add: on_user_def)
qed


definition channel_page_request :: request where
  "channel_page_request = \<lparr>rq_params = (\<lambda>_. uuid_String ref_uuid 10), rq_query = (\<lambda>q. if q = ''limit'' then ''1'' else []), rq_userID = Some 2\<rparr>"


end
