(* ===== verification/Auth_Crypto.thy ===== *)
theory Auth_Crypto
  imports Go_Strings Auth_Jwt
begin

text \<open>
  \<open>internal/auth/validation.go\<close>, \<open>password.go\<close>, \<open>hmac.go\<close> and \<open>mfa_crypto.go\<close>. Parameters stand for the argon2id
  and TOTP packages, for the cryptographic primitives, for base64, for the RFC 5322 address
  parser and for the case tables of characters outside ASCII; random bytes are arguments.
\<close>

section \<open>Errors\<close>

definition ErrInvalidEmail :: error where "ErrInvalidEmail = Sentinel ''auth.ErrInvalidEmail''"
definition ErrUsernameLength :: error where "ErrUsernameLength = Sentinel ''auth.ErrUsernameLength''"
definition ErrUsernameInvalidChars :: error where "ErrUsernameInvalidChars = Sentinel ''auth.ErrUsernameInvalidChars''"
definition ErrPasswordTooShort :: error where "ErrPasswordTooShort = Sentinel ''auth.ErrPasswordTooShort''"
definition ErrPasswordTooLong :: error where "ErrPasswordTooLong = Sentinel ''auth.ErrPasswordTooLong''"

section \<open>Strings\<close>

text \<open>\<open>strings.ToLower\<close>: a text of ASCII characters is mapped byte by byte, any other by the Unicode tables.\<close>

definition ascii_lower :: "char \<Rightarrow> char" where
  "ascii_lower c = (if 65 \<le> byte c \<and> byte c \<le> 90 then char_of (byte c + 32) else c)"

definition ToLower :: "(string \<Rightarrow> string) \<Rightarrow> string \<Rightarrow> string" where
  "ToLower tab s = (if \<forall>c \<in> set s. byte c < 128 then map ascii_lower s else tab s)"

text \<open>\<open>strings.SplitN(s, "@", 2)\<close>: the text before the first separator and the rest, if there is one.\<close>

definition SplitN2 :: "char \<Rightarrow> string \<Rightarrow> string list" where
  "SplitN2 sep s = (if sep \<in> set s then [takeWhile (\<lambda>c. c \<noteq> sep) s, tl (dropWhile (\<lambda>c. c \<noteq> sep) s)] else [s])"

text \<open>\<open>strings.ReplaceAll(s, "-", "")\<close>\<close>

definition strip_hyphens :: "string \<Rightarrow> string" where
  "strip_hyphens s = filter (\<lambda>c. c \<noteq> CHR ''-'') s"

text \<open>\<open>hex.EncodeToString\<close> and \<open>hex.DecodeString\<close>, which takes digits of either case\<close>

definition hex_Encode :: "string \<Rightarrow> string" where
  "hex_Encode s = concat (map (\<lambda>c. [hex_char (byte c div 16), hex_char (byte c mod 16)]) s)"

definition hex_digit :: "char \<Rightarrow> nat option" where
  "hex_digit c =
     (let n = byte c
      in if 48 \<le> n \<and> n \<le> 57 then Some (n - 48)
         else if 97 \<le> n \<and> n \<le> 102 then Some (n - 87)
         else if 65 \<le> n \<and> n \<le> 70 then Some (n - 55) else None)"

fun hex_Decode :: "string \<Rightarrow> string option" where
  "hex_Decode [] = Some []"
| "hex_Decode [c] = None"
| "hex_Decode (c # d # s) =
     (case (hex_digit c, hex_digit d) of
        (Some a, Some b) \<Rightarrow> map_option (\<lambda>t. char_of (16 * a + b) # t) (hex_Decode s)
      | _ \<Rightarrow> None)"

definition ErrHex :: error where "ErrHex = Ext ''encoding/hex''"

section \<open>validation.go\<close>

definition maxEmailLength :: nat where "maxEmailLength = 254"

record mail_lib =
  mail_ParseAddress :: "string \<Rightarrow> string option"
  lower_tab :: "string \<Rightarrow> string"

definition ValidateEmail :: "mail_lib \<Rightarrow> string \<Rightarrow> (string \<times> string) result" where
  "ValidateEmail E email =
     (case mail_ParseAddress E email of
        None \<Rightarrow> Inl ErrInvalidEmail
      | Some addr \<Rightarrow>
          (let normalised = ToLower (lower_tab E) addr
           in if length normalised > maxEmailLength then Inl ErrInvalidEmail
              else case SplitN2 (CHR ''@'') normalised of
                     [name, domain] \<Rightarrow> (if name = [] \<or> domain = [] then Inl ErrInvalidEmail else Inr (normalised, domain))
                   | _ \<Rightarrow> Inl ErrInvalidEmail))"

text \<open>\<open>^[a-zA-Z0-9_.]+$\<close>\<close>

definition usernameRegex :: "string \<Rightarrow> bool" where
  "usernameRegex s \<longleftrightarrow> s \<noteq> [] \<and>
     (\<forall>c \<in> set s. (97 \<le> byte c \<and> byte c \<le> 122) \<or> (65 \<le> byte c \<and> byte c \<le> 90) \<or> (48 \<le> byte c \<and> byte c \<le> 57)
        \<or> c = CHR ''_'' \<or> c = CHR ''.'')"

definition ValidateUsername :: "string \<Rightarrow> unit result" where
  "ValidateUsername username =
     (if length username < 2 \<or> length username > 32 then Inl ErrUsernameLength
      else if \<not> usernameRegex username then Inl ErrUsernameInvalidChars
      else Inr ())"

definition ValidatePassword :: "string \<Rightarrow> unit result" where
  "ValidatePassword password =
     (let n = RuneCount password
      in if n < 8 then Inl ErrPasswordTooShort else if n > 128 then Inl ErrPasswordTooLong else Inr ())"

section \<open>password.go\<close>

record argon_params =
  ap_Memory :: "32 word"
  ap_Iterations :: "32 word"
  ap_Parallelism :: "8 word"
  ap_SaltLength :: "32 word"
  ap_KeyLength :: "32 word"

record argon_lib =
  ar_CreateHash :: "string \<Rightarrow> string \<Rightarrow> argon_params \<Rightarrow> string result"
  ar_Compare :: "string \<Rightarrow> string \<Rightarrow> bool result"
  ar_DecodeHash :: "string \<Rightarrow> (argon_params \<times> string \<times> string) result"

definition HashPassword :: "argon_lib \<Rightarrow> string \<Rightarrow> string \<Rightarrow> argon_params \<Rightarrow> string result" where
  "HashPassword A rnd password params =
     (case ar_CreateHash A rnd password params of
        Inl e \<Rightarrow> Inl (Wrap ''hash password'' e)
      | Inr hash \<Rightarrow> Inr hash)"

definition VerifyPassword :: "argon_lib \<Rightarrow> string \<Rightarrow> string \<Rightarrow> bool result" where
  "VerifyPassword A password hash =
     (case ar_Compare A password hash of
        Inl e \<Rightarrow> Inl (Wrap ''verify password'' e)
      | Inr match \<Rightarrow> Inr match)"

definition NeedsRehash :: "argon_lib \<Rightarrow> string \<Rightarrow> argon_params \<Rightarrow> bool result" where
  "NeedsRehash A hash p =
     (case ar_DecodeHash A hash of
        Inl e \<Rightarrow> Inl (Wrap ''decode password hash'' e)
      | Inr (params, salt, key) \<Rightarrow>
          Inr (ap_Memory params \<noteq> ap_Memory p \<or> ap_Iterations params \<noteq> ap_Iterations p
             \<or> ap_Parallelism params \<noteq> ap_Parallelism p
             \<or> (of_nat (length salt) :: 32 word) \<noteq> ap_SaltLength p \<or> (of_nat (length key) :: 32 word) \<noteq> ap_KeyLength p))"

text \<open>
  What the package documents: a hash is verified by the password it was made of and decodes to
  the parameters it was made with.
\<close>

locale argon_service =
  fixes A :: argon_lib
  assumes compare_created: "ar_CreateHash A rnd password p = Inr h \<Longrightarrow> ar_Compare A password h = Inr True"
    and decode_created: "ar_CreateHash A rnd password p = Inr h \<Longrightarrow>
      \<exists>salt key. ar_DecodeHash A h = Inr (p, salt, key)
        \<and> (of_nat (length salt) :: 32 word) = ap_SaltLength p \<and> (of_nat (length key) :: 32 word) = ap_KeyLength p"
begin

lemma verify_hashed: "HashPassword A rnd password p = Inr h \<Longrightarrow> VerifyPassword A password h = Inr True"
  using compare_created by (auto simp: HashPassword_def VerifyPassword_def split: sum.splits)

lemma hashed_current: "HashPassword A rnd password p = Inr h \<Longrightarrow> NeedsRehash A h p = Inr False"
  using decode_created by (fastforce simp: HashPassword_def NeedsRehash_def split: sum.splits)

end

section \<open>hmac.go and mfa\_crypto.go\<close>

record crypto_lib =
  cr_HMAC :: "string \<Rightarrow> string \<Rightarrow> string"
  cr_Seal :: "string \<Rightarrow> string \<Rightarrow> string \<Rightarrow> string"
  cr_Open :: "string \<Rightarrow> string \<Rightarrow> string \<Rightarrow> string option"
  b64_Encode :: "string \<Rightarrow> string"
  b64_Decode :: "string \<Rightarrow> string option"

definition HMACIdentifier :: "crypto_lib \<Rightarrow> string \<Rightarrow> string \<Rightarrow> string result" where
  "HMACIdentifier C identifier hexKey =
     (case hex_Decode hexKey of
        None \<Rightarrow> Inl (Wrap ''decode HMAC key'' ErrHex)
      | Some key \<Rightarrow> Inr (hex_Encode (cr_HMAC C key identifier)))"

text \<open>\<open>aes.NewCipher\<close> takes keys of 16, 24 or 32 bytes; \<open>NonceSize\<close> of its GCM mode is 12.\<close>

definition aes_NewCipher :: "string \<Rightarrow> unit result" where
  "aes_NewCipher key = (if length key \<in> {16, 24, 32} then Inr () else Inl (Ext ''crypto/aes: invalid key size''))"

definition NonceSize :: nat where "NonceSize = 12"

definition EncryptTOTPSecret :: "crypto_lib \<Rightarrow> string \<Rightarrow> string \<Rightarrow> string \<Rightarrow> string result" where
  "EncryptTOTPSecret C rnd secret hexKey =
     (case hex_Decode hexKey of
        None \<Rightarrow> Inl (Wrap ''decode encryption key'' ErrHex)
      | Some key \<Rightarrow>
          (case aes_NewCipher key of
             Inl e \<Rightarrow> Inl (Wrap ''create cipher'' e)
           | Inr _ \<Rightarrow> (let nonce = take NonceSize rnd in Inr (b64_Encode C (nonce @ cr_Seal C key nonce secret)))))"

definition DecryptTOTPSecret :: "crypto_lib \<Rightarrow> string \<Rightarrow> string \<Rightarrow> string result" where
  "DecryptTOTPSecret C encoded hexKey =
     (case hex_Decode hexKey of
        None \<Rightarrow> Inl (Wrap ''decode encryption key'' ErrHex)
      | Some key \<Rightarrow>
          (case b64_Decode C encoded of
             None \<Rightarrow> Inl (Wrap ''decode ciphertext'' (Ext ''encoding/base64''))
           | Some data \<Rightarrow>
               (case aes_NewCipher key of
                  Inl e \<Rightarrow> Inl (Wrap ''create cipher'' e)
                | Inr _ \<Rightarrow>
                    (if length data < NonceSize then Inl (Ext ''ciphertext too short'')
                     else case cr_Open C key (take NonceSize data) (drop NonceSize data) of
                            None \<Rightarrow> Inl (Wrap ''decrypt'' (Ext ''cipher: message authentication failed''))
                          | Some plaintext \<Rightarrow> Inr plaintext))))"

definition recoveryCodeCount :: nat where "recoveryCodeCount = 10"

definition recovery_code :: "string \<Rightarrow> string" where
  "recovery_code b =
     (let h = hex_Encode b
      in take 4 h @ ''-'' @ take 4 (drop 4 h) @ ''-'' @ take 4 (drop 8 h) @ ''-'' @ take 4 (drop 12 h) @ ''-'' @ drop 16 h)"

text \<open>Each code takes ten random bytes.\<close>

definition GenerateRecoveryCodes :: "(nat \<Rightarrow> string) \<Rightarrow> string list" where
  "GenerateRecoveryCodes rnd = map (\<lambda>i. recovery_code (take 10 (rnd i))) [0..<recoveryCodeCount]"

definition HashRecoveryCode :: "argon_lib \<Rightarrow> string \<Rightarrow> string \<Rightarrow> argon_params \<Rightarrow> string result" where
  "HashRecoveryCode A rnd code p = HashPassword A rnd (strip_hyphens code) p"

definition VerifyRecoveryCode :: "argon_lib \<Rightarrow> string \<Rightarrow> string \<Rightarrow> bool result" where
  "VerifyRecoveryCode A code hash = VerifyPassword A (strip_hyphens code) hash"

text \<open>What is relied on: authenticated encryption and base64 are inverted by their counterparts.\<close>

locale crypto_service =
  fixes C :: crypto_lib
  assumes open_seal: "length key \<in> {16, 24, 32} \<Longrightarrow> length nonce = NonceSize \<Longrightarrow> cr_Open C key nonce (cr_Seal C key nonce p) = Some p"
    and decode_encode: "b64_Decode C (b64_Encode C s) = Some s"
begin

lemma decrypt_encrypt:
  assumes "EncryptTOTPSecret C rnd secret hexKey = Inr enc" and "NonceSize \<le> length rnd"
  shows "DecryptTOTPSecret C enc hexKey = Inr secret"
proof -
  obtain key where k: "hex_Decode hexKey = Some key" "length key \<in> {16, 24, 32}"
    and enc: "enc = b64_Encode C (take NonceSize rnd @ cr_Seal C key (take NonceSize rnd) secret)"
    using assms(1) by (auto simp: EncryptTOTPSecret_def aes_NewCipher_def Let_def split: option.splits sum.splits if_splits)
  have "length (take NonceSize rnd) = NonceSize" using assms(2) by simp
  then show ?thesis using k open_seal [OF k(2)] by (auto simp: DecryptTOTPSecret_def enc decode_encode aes_NewCipher_def)
qed

end

section \<open>Hexadecimal text and recovery codes\<close>

lemma hex_digit_char: "d < 16 \<Longrightarrow> hex_digit (hex_char d) = Some d"
proof -
  have "\<forall>d \<in> set [0..<16]. hex_digit (hex_char d) = Some d" by code_simp
  then show "d < 16 \<Longrightarrow> hex_digit (hex_char d) = Some d" by auto
qed

lemma byte_less: "byte c < 256"
  by (simp add: byte_def)

lemma hex_roundtrip [simp]: "hex_Decode (hex_Encode s) = Some s"
proof (induction s)
  case (Cons c s)
  have "byte c div 16 < 16" "byte c mod 16 < 16" using byte_less [of c] by simp_all
  moreover have "char_of (16 * (byte c div 16) + byte c mod 16) = c"
    using mult_div_mod_eq [of 16 "byte c"] by (simp add: byte_def)
  ultimately show ?case using Cons by (simp add: hex_Encode_def hex_digit_char)
qed (simp add: hex_Encode_def)

lemma hex_length [simp]: "length (hex_Encode s) = 2 * length s"
  by (induction s) (simp_all add: hex_Encode_def)

lemma hex_no_hyphen: "CHR ''-'' \<notin> set (hex_Encode s)"
proof -
  have "hex_char (byte c div 16) \<noteq> CHR ''-''" "hex_char (byte c mod 16) \<noteq> CHR ''-''" for c
    using byte_less [of c] by (auto intro!: hex_char_props(2))
  note h = this
  show ?thesis by (induction s) (use h in \<open>auto simp: hex_Encode_def dest: not_sym\<close>)
qed

lemma strip_hyphens_id: "CHR ''-'' \<notin> set s \<Longrightarrow> strip_hyphens s = s"
  by (auto simp: strip_hyphens_def filter_id_conv)

lemma strip_append [simp]: "strip_hyphens (a @ b) = strip_hyphens a @ strip_hyphens b"
  by (simp add: strip_hyphens_def)

lemma strip_recovery: "strip_hyphens (recovery_code b) = hex_Encode b"
proof -
  let ?h = "hex_Encode b"
  have s: "strip_hyphens (take n (drop m ?h)) = take n (drop m ?h)" "strip_hyphens (drop m ?h) = drop m ?h"
      "strip_hyphens (take n ?h) = take n ?h" for n m
    by (rule strip_hyphens_id, use hex_no_hyphen [of b] in \<open>auto dest: in_set_takeD in_set_dropD\<close>)+
  have h: "strip_hyphens ''-'' = []" by (simp add: strip_hyphens_def)
  have "take 4 (drop 12 ?h) @ drop 16 ?h = drop 12 ?h" "take 4 (drop 8 ?h) @ drop 12 ?h = drop 8 ?h"
    "take 4 (drop 4 ?h) @ drop 8 ?h = drop 4 ?h"
    using append_take_drop_id [of 4 "drop 12 ?h"] append_take_drop_id [of 4 "drop 8 ?h"] append_take_drop_id [of 4 "drop 4 ?h"]
    by (simp_all only: drop_drop) simp_all
  then show ?thesis unfolding recovery_code_def Let_def strip_append s h by simp
qed

section \<open>Instances\<close>

text \<open>
  A hash is the text of its parameters and the password; sealing adds the key as the tag;
  base64 is replaced by the identity.
\<close>

definition ref_hash :: "argon_params \<Rightarrow> string \<Rightarrow> string" where
  "ref_hash p password = enc_nat (unat (ap_Memory p)) @ enc_nat (unat (ap_Iterations p)) @ enc_nat (unat (ap_Parallelism p))
     @ enc_nat (unat (ap_SaltLength p)) @ enc_nat (unat (ap_KeyLength p)) @ password"

definition ref_unhash :: "string \<Rightarrow> argon_params \<times> string" where
  "ref_unhash h =
     (case dec_nat h of (m, h1) \<Rightarrow> case dec_nat h1 of (i, h2) \<Rightarrow> case dec_nat h2 of (l, h3) \<Rightarrow>
      case dec_nat h3 of (sl, h4) \<Rightarrow> case dec_nat h4 of (kl, password) \<Rightarrow>
        (\<lparr>ap_Memory = of_nat m, ap_Iterations = of_nat i, ap_Parallelism = of_nat l, ap_SaltLength = of_nat sl, ap_KeyLength = of_nat kl\<rparr>, password))"

lemma ref_unhash_hash [simp]: "ref_unhash (ref_hash p password) = (p, password)"
  by (simp add: ref_hash_def ref_unhash_def)

definition ref_argon :: argon_lib where
  "ref_argon =
     \<lparr>ar_CreateHash = (\<lambda>rnd password p. Inr (ref_hash p password)),
      ar_Compare = (\<lambda>password h. Inr (snd (ref_unhash h) = password)),
      ar_DecodeHash = (\<lambda>h. let p = fst (ref_unhash h)
        in Inr (p, replicate (unat (ap_SaltLength p)) (CHR ''s''), replicate (unat (ap_KeyLength p)) (CHR ''k'')))\<rparr>"

interpretation ref_argon_service: argon_service ref_argon
  by unfold_locales (auto simp: ref_argon_def Let_def)

definition ref_crypto :: crypto_lib where
  "ref_crypto =
     \<lparr>cr_HMAC = (\<lambda>k s. k @ s), cr_Seal = (\<lambda>k n p. p @ k),
      cr_Open = (\<lambda>k n c. if drop (length c - length k) c = k then Some (take (length c - length k) c) else None),
      b64_Encode = id, b64_Decode = Some\<rparr>"

interpretation ref_crypto_service: crypto_service ref_crypto
  by unfold_locales (auto simp: ref_crypto_def)

text \<open>Addresses are taken as they are; the text outside ASCII is left alone.\<close>

definition ref_mail :: mail_lib where
  "ref_mail = \<lparr>mail_ParseAddress = Some, lower_tab = id\<rparr>"

end
