(* ===== verification/Calls.thy ===== *)
theory Calls
  imports World
begin

text \<open>
  Composition of calls for the components that thread their state through many steps:
  sequencing with an early return on an error, renaming and ignoring errors, and the rules by
  which a property of the state is kept by a composition when its parts keep it.
\<close>

section \<open>Combinators\<close>

definition ret :: "'a \<Rightarrow> ('a, 's) call" where
  "ret x s = (Inr x, s)"

definition fail :: "error \<Rightarrow> ('a, 's) call" where
  "fail e s = (Inl e, s)"

text \<open>The result of a pure function.\<close>

definition lift :: "'a result \<Rightarrow> ('a, 's) call" where
  "lift r s = (r, s)"

text \<open>\<open>x, err := m(); if err != nil { return err }; g(x)\<close>\<close>

definition bindc :: "('a, 's) call \<Rightarrow> ('a \<Rightarrow> ('b, 's) call) \<Rightarrow> ('b, 's) call" where
  "bindc m g s = (case m s of (Inl e, s') \<Rightarrow> (Inl e, s') | (Inr x, s') \<Rightarrow> g x s')"

text \<open>The error is replaced: \<open>if err != nil { return h(err) }\<close>.\<close>

definition maperr :: "(error \<Rightarrow> error) \<Rightarrow> ('a, 's) call \<Rightarrow> ('a, 's) call" where
  "maperr h m s = (case m s of (Inl e, s') \<Rightarrow> (Inl (h e), s') | (Inr x, s') \<Rightarrow> (Inr x, s'))"

text \<open>An error goes to a branch of its own, a value to the rest.\<close>

definition catchc :: "('a, 's) call \<Rightarrow> (error \<Rightarrow> ('b, 's) call) \<Rightarrow> ('a \<Rightarrow> ('b, 's) call) \<Rightarrow> ('b, 's) call" where
  "catchc m h g s = (case m s of (Inl e, s') \<Rightarrow> h e s' | (Inr x, s') \<Rightarrow> g x s')"

text \<open>An error is only logged: the value \<open>x\<close> stands in for the result.\<close>

definition recover :: "'a \<Rightarrow> ('a, 's) call \<Rightarrow> ('a, 's) call" where
  "recover x m s = (case m s of (Inl e, s') \<Rightarrow> (Inr x, s') | (Inr y, s') \<Rightarrow> (Inr y, s'))"

definition quiet :: "('a, 's) call \<Rightarrow> (unit, 's) call" where
  "quiet m s = (Inr (), snd (m s))"

definition modifyc :: "('s \<Rightarrow> 's) \<Rightarrow> (unit, 's) call" where
  "modifyc f s = (Inr (), f s)"

section \<open>Results of a composition\<close>

lemma ret_eq [simp]: "ret x s = (y, s') \<longleftrightarrow> y = Inr x \<and> s' = s"
  by (auto simp: ret_def)

lemma fail_eq [simp]: "fail e s = (y, s') \<longleftrightarrow> y = Inl e \<and> s' = s"
  by (auto simp: fail_def)

lemma lift_eq [simp]: "lift r s = (y, s') \<longleftrightarrow> r = y \<and> s' = s"
  by (auto simp: lift_def)

lemma quiet_eq [simp]: "quiet m s = (y, s') \<longleftrightarrow> y = Inr () \<and> s' = snd (m s)"
  by (auto simp: quiet_def)

lemma modifyc_eq [simp]: "modifyc f s = (y, s') \<longleftrightarrow> y = Inr () \<and> s' = f s"
  by (auto simp: modifyc_def)

lemma bindc_Inr [simp]: "m s = (Inr x, s1) \<Longrightarrow> bindc m g s = g x s1"
  by (simp add: bindc_def)

lemma bindc_Inl [simp]: "m s = (Inl e, s1) \<Longrightarrow> bindc m g s = (Inl e, s1)"
  by (simp add: bindc_def)

lemma bindc_ok:
  assumes "bindc m g s = (Inr y, s')"
  obtains x s1 where "m s = (Inr x, s1)" "g x s1 = (Inr y, s')"
  using assms by (auto simp: bindc_def split: prod.splits sum.splits)

lemma bindc_cases:
  assumes "bindc m g s = (r, s')"
  obtains e where "m s = (Inl e, s')" "r = Inl e" | x s1 where "m s = (Inr x, s1)" "g x s1 = (r, s')"
  using assms by (auto simp: bindc_def split: prod.splits sum.splits)

lemma maperr_ok [simp]: "maperr h m s = (Inr y, s') \<longleftrightarrow> m s = (Inr y, s')"
  by (auto simp: maperr_def split: prod.splits sum.splits)

lemma maperr_Inl: "maperr h m s = (Inl e, s') \<longleftrightarrow> (\<exists>e'. m s = (Inl e', s') \<and> e = h e')"
  by (auto simp: maperr_def split: prod.splits sum.splits)

lemma catchc_cases:
  assumes "catchc m h g s = (r, s')"
  obtains e s1 where "m s = (Inl e, s1)" "h e s1 = (r, s')" | x s1 where "m s = (Inr x, s1)" "g x s1 = (r, s')"
  using assms by (auto simp: catchc_def split: prod.splits sum.splits)

lemma catchc_Inr [simp]: "m s = (Inr x, s1) \<Longrightarrow> catchc m h g s = g x s1"
  by (simp add: catchc_def)

lemma catchc_Inl [simp]: "m s = (Inl e, s1) \<Longrightarrow> catchc m h g s = h e s1"
  by (simp add: catchc_def)

lemma recover_ok:
  assumes "recover x m s = (r, s')"
  obtains y where "r = Inr y" "m s = (Inr y, s') \<or> (\<exists>e. m s = (Inl e, s') \<and> y = x)"
  using assms by (auto simp: recover_def split: prod.splits sum.splits)

lemma recover_Inr [simp]: "m s = (Inr y, s1) \<Longrightarrow> recover x m s = (Inr y, s1)"
  by (simp add: recover_def)

lemma recover_Inl [simp]: "m s = (Inl e, s1) \<Longrightarrow> recover x m s = (Inr x, s1)"
  by (simp add: recover_def)

section \<open>Properties that are kept\<close>

definition keeps :: "('s \<Rightarrow> bool) \<Rightarrow> ('a, 's) call \<Rightarrow> bool" where
  "keeps I m \<longleftrightarrow> (\<forall>s. I s \<longrightarrow> I (snd (m s)))"

named_theorems keeping

lemma keepsI: "(\<And>s x s'. m s = (x, s') \<Longrightarrow> I s \<Longrightarrow> I s') \<Longrightarrow> keeps I m"
  unfolding keeps_def by (metis prod.collapse)

lemma keepsD: "keeps I m \<Longrightarrow> m s = (x, s') \<Longrightarrow> I s \<Longrightarrow> I s'"
  unfolding keeps_def by (metis snd_conv)

lemma keeps_ret [keeping]: "keeps I (ret x)" and keeps_fail [keeping]: "keeps I (fail e)" and keeps_lift [keeping]: "keeps I (lift r)"
  by (simp_all add: keeps_def ret_def fail_def lift_def)

lemma keeps_bindc [keeping]: "keeps I m \<Longrightarrow> (\<And>x. keeps I (g x)) \<Longrightarrow> keeps I (bindc m g)"
  by (rule keepsI) (auto elim!: bindc_cases dest: keepsD)

lemma keeps_maperr [keeping]: "keeps I m \<Longrightarrow> keeps I (maperr h m)"
  by (rule keepsI) (auto simp: maperr_def split: prod.splits sum.splits dest: keepsD)

lemma keeps_catchc [keeping]: "keeps I m \<Longrightarrow> (\<And>e. keeps I (h e)) \<Longrightarrow> (\<And>x. keeps I (g x)) \<Longrightarrow> keeps I (catchc m h g)"
  by (rule keepsI) (erule catchc_cases; blast dest: keepsD)

lemma keeps_recover [keeping]: "keeps I m \<Longrightarrow> keeps I (recover x m)"
  by (rule keepsI) (auto simp: recover_def split: prod.splits sum.splits dest: keepsD)

lemma keeps_quiet [keeping]: "keeps I m \<Longrightarrow> keeps I (quiet m)"
  by (simp add: keeps_def quiet_def)

lemma keeps_if [keeping]: "keeps I m \<Longrightarrow> keeps I m' \<Longrightarrow> keeps I (if b then m else m')"
  by simp

lemma keeps_option [keeping]: "keeps I m \<Longrightarrow> (\<And>x. keeps I (g x)) \<Longrightarrow> keeps I (case y of None \<Rightarrow> m | Some x \<Rightarrow> g x)"
  by (cases y) simp_all

lemma keeps_sum [keeping]: "(\<And>x. keeps I (f x)) \<Longrightarrow> (\<And>x. keeps I (g x)) \<Longrightarrow> keeps I (case y of Inl x \<Rightarrow> f x | Inr x \<Rightarrow> g x)"
  by (cases y) simp_all

lemma keeps_prod [keeping]: "(\<And>x y. keeps I (f x y)) \<Longrightarrow> keeps I (case p of (x, y) \<Rightarrow> f x y)"
  by (cases p) simp

lemma keeps_bool [keeping]: "keeps I m \<Longrightarrow> keeps I m' \<Longrightarrow> keeps I (case b of True \<Rightarrow> m | False \<Rightarrow> m')"
  by (cases b) simp_all

lemma keeps_modifyc: "(\<And>s. I s \<Longrightarrow> I (f s)) \<Longrightarrow> keeps I (modifyc f)"
  by (simp add: keeps_def modifyc_def)

text \<open>On the world, the database calls keep what speaks of the database, the Valkey calls everything else.\<close>

lemma keeps_on_db: "keeps I f \<Longrightarrow> keeps (\<lambda>w. I (w_db w)) (on_db f)"
  by (rule keepsI) (auto dest!: on_dbD keepsD)

lemma keeps_on_vk: "keeps (\<lambda>w. I (w_db w)) (on_vk f)"
  by (rule keepsI) (auto dest!: on_vkD)

end
