(* ===== verification/Blocklist.thy ===== *)
theory Blocklist
  imports Auth_Crypto Calls
begin

text \<open>
  \<open>internal/disposable/blocklist.go\<close>: the list of disposable email domains, fetched over HTTP and kept
  for the life of the process. \<open>fetch\<close> is what the upstream server answers to a request made now:
  an error, or a status and a body. The lock makes each operation one step.
\<close>

record Blocklist =
  bl_enabled :: bool
  bl_domains :: "string set"
  bl_loaded :: bool

definition NewBlocklist :: "bool \<Rightarrow> Blocklist" where
  "NewBlocklist enabled = \<lparr>bl_enabled = enabled, bl_domains = {}, bl_loaded = False\<rparr>"

text \<open>
  \<open>bufio.Scanner\<close> with its default split function: lines without their end, a final line without
  an end unless it is empty, and a trailing carriage return removed. A line that fills the buffer
  of 64 KiB is an error.
\<close>

definition maxBodySize :: nat where "maxBodySize = 25 * 2 ^ 20"
definition MaxScanTokenSize :: nat where "MaxScanTokenSize = 64 * 1024"

fun split_lines :: "string \<Rightarrow> string \<Rightarrow> string list" where
  "split_lines acc [] = (if acc = [] then [] else [rev acc])"
| "split_lines acc (c # cs) = (if c = CHR 0x0A then rev acc # split_lines [] cs else split_lines (c # acc) cs)"

definition drop_cr :: "string \<Rightarrow> string" where
  "drop_cr l = (if l \<noteq> [] \<and> last l = CHR 0x0D then butlast l else l)"

definition scan_lines :: "string \<Rightarrow> string list result" where
  "scan_lines body =
     (let ls = split_lines [] body
      in if \<exists>l \<in> set ls. length l \<ge> MaxScanTokenSize then Inl (Ext ''bufio.Scanner: token too long'') else Inr (map drop_cr ls))"

definition domain_lines :: "(string \<Rightarrow> string) \<Rightarrow> string list \<Rightarrow> string set" where
  "domain_lines tab ls =
     set (map (ToLower tab) (filter (\<lambda>l. \<not> (l = [] \<or> take 1 l = ''#'')) (map TrimSpace ls)))"

definition fetchDomains :: "(string \<Rightarrow> string) \<Rightarrow> (nat \<times> string) result \<Rightarrow> string set result" where
  "fetchDomains tab fetch =
     (case fetch of
        Inl e \<Rightarrow> Inl (Wrap ''fetch blocklist'' e)
      | Inr (status, body) \<Rightarrow>
          (if status \<noteq> 200 then Inl (Ext ''blocklist returned status'')
           else case scan_lines (take maxBodySize body) of
                  Inl e \<Rightarrow> Inl (Wrap ''read blocklist'' e)
                | Inr ls \<Rightarrow> Inr (domain_lines tab ls)))"

definition Prefetch :: "(string \<Rightarrow> string) \<Rightarrow> (nat \<times> string) result \<Rightarrow> Blocklist \<Rightarrow> Blocklist" where
  "Prefetch tab fetch b =
     (if \<not> bl_enabled b then b
      else case fetchDomains tab fetch of
             Inl _ \<Rightarrow> b
           | Inr domains \<Rightarrow> b\<lparr>bl_domains := domains, bl_loaded := True\<rparr>)"

text \<open>One tick of the loop of \<open>Run\<close>.\<close>

definition refresh_tick :: "(string \<Rightarrow> string) \<Rightarrow> (nat \<times> string) result \<Rightarrow> Blocklist \<Rightarrow> Blocklist" where
  "refresh_tick tab fetch b =
     (case fetchDomains tab fetch of
        Inl _ \<Rightarrow> b
      | Inr domains \<Rightarrow> b\<lparr>bl_domains := domains, bl_loaded := True\<rparr>)"

text \<open>The first steps of \<open>Run\<close> and the ticks until its context is cancelled.\<close>

definition Run_blocklist :: "(string \<Rightarrow> string) \<Rightarrow> (nat \<times> string) result \<Rightarrow> (nat \<times> string) result list \<Rightarrow> Blocklist \<Rightarrow> Blocklist" where
  "Run_blocklist tab first ticks b =
     (if \<not> bl_enabled b then b
      else fold (refresh_tick tab) ticks (if bl_loaded b then b else Prefetch tab first b))"

definition IsBlocked :: "(string \<Rightarrow> string) \<Rightarrow> (nat \<times> string) result \<Rightarrow> string \<Rightarrow> (bool, Blocklist) call" where
  "IsBlocked tab fetch domain b =
     (if \<not> bl_enabled b then (Inr False, b)
      else if bl_loaded b then (Inr (ToLower tab domain \<in> bl_domains b), b)
      else case fetchDomains tab fetch of
             Inl e \<Rightarrow> (Inl (Wrap ''load disposable email blocklist'' e), b)
           | Inr domains \<Rightarrow> (Inr (ToLower tab domain \<in> domains), b\<lparr>bl_domains := domains, bl_loaded := True\<rparr>))"

section \<open>Facts\<close>

text \<open>A refresh that fails keeps the list; a list that was loaded stays loaded.\<close>

lemma refresh_keeps_loaded: "bl_loaded b \<Longrightarrow> bl_loaded (Run_blocklist tab first ticks b)"
proof -
  have tick: "bl_loaded b \<Longrightarrow> bl_loaded (refresh_tick tab f b)" for f b by (simp add: refresh_tick_def split: sum.splits)
  have "bl_loaded b \<Longrightarrow> bl_loaded (fold (refresh_tick tab) fs b)" for fs b
    by (induction fs arbitrary: b) (simp_all add: tick)
  then show "bl_loaded b \<Longrightarrow> bl_loaded (Run_blocklist tab first ticks b)" by (simp add: Run_blocklist_def)
qed

text \<open>The parts of the text are the lines: joining them with line ends gives the text back.\<close>

lemma split_lines_join: "concat (map (\<lambda>l. l @ [CHR 0x0A]) (split_lines acc s)) =
   (if acc = [] \<and> (s = [] \<or> last s = CHR 0x0A) \<or> s \<noteq> [] \<and> last s = CHR 0x0A then rev acc @ s else rev acc @ s @ [CHR 0x0A])"
  by (induction acc s rule: split_lines.induct) auto

lemma split_lines_no_end: "CHR 0x0A \<notin> set acc \<Longrightarrow> l \<in> set (split_lines acc s) \<Longrightarrow> CHR 0x0A \<notin> set l"
  by (induction acc s rule: split_lines.induct) (auto split: if_splits)

text \<open>A domain that holds a character which occurs in no line of the list is never blocked.\<close>

lemma IsBlocked_listed:
  assumes "IsBlocked tab fetch domain b = (Inr True, b')" and "\<not> bl_loaded b \<or> bl_domains b \<subseteq> D"
    and "\<And>ds. fetchDomains tab fetch = Inr ds \<Longrightarrow> ds \<subseteq> D"
  shows "ToLower tab domain \<in> D"
  using assms by (auto simp: IsBlocked_def split: if_splits sum.splits)

end
