(* ===== verification/Server_Config.thy ===== *)
theory Server_Config
  imports Calls Go_Strings Protocol Http
begin

text \<open>
  \<open>internal/server\<close> and \<open>internal/api/server.go\<close>: the configuration row of the server and its endpoints.
  \<open>Z\<close> formats a time as RFC 3339 and \<open>js\<close> encodes the payload of the gateway event.
\<close>

definition server_ErrNotFound :: error where "server_ErrNotFound = Sentinel ''server.ErrNotFound''"
definition server_ErrNameLength :: error where "server_ErrNameLength = Sentinel ''server.ErrNameLength''"
definition server_ErrDescriptionLength :: error where "server_ErrDescriptionLength = Sentinel ''server.ErrDescriptionLength''"

record ServerConfigModel =
  sm_ID :: string
  sm_Name :: string
  sm_Description :: string
  sm_IconKey :: "string option"
  sm_BannerKey :: "string option"
  sm_OwnerID :: string
  sm_CreatedAt :: string
  sm_UpdatedAt :: string

definition server_ToModel :: "uuid_lib \<Rightarrow> (time \<Rightarrow> string) \<Rightarrow> config_row \<Rightarrow> ServerConfigModel" where
  "server_ToModel U Z c =
     \<lparr>sm_ID = uuid_String U (c_id c), sm_Name = c_name c, sm_Description = c_description c, sm_IconKey = c_icon_key c,
      sm_BannerKey = c_banner_key c, sm_OwnerID = uuid_String U (c_owner_id c), sm_CreatedAt = Z (c_created_at c),
      sm_UpdatedAt = Z (c_updated_at c)\<rparr>"

record server_UpdateParams =
  sp_Name :: "string option"
  sp_Description :: "string option"

text \<open>The trimmed name replaces the one the pointer refers to.\<close>

definition server_ValidateName :: "string option \<Rightarrow> string option result" where
  "server_ValidateName name =
     (case name of
        None \<Rightarrow> Inr None
      | Some n \<Rightarrow>
          (let trimmed = TrimSpace n
           in if RuneCount trimmed < 1 \<or> RuneCount trimmed > 100 then Inl server_ErrNameLength else Inr (Some trimmed)))"

definition server_ValidateDescription :: "string option \<Rightarrow> unit result" where
  "server_ValidateDescription desc =
     (case desc of
        None \<Rightarrow> Inr ()
      | Some s \<Rightarrow> (if RuneCount s > 1024 then Inl server_ErrDescriptionLength else Inr ()))"

section \<open>Repository\<close>

definition scanConfig :: "(config_row option, db) call \<Rightarrow> (config_row, db) call" where
  "scanConfig q d =
     (case q d of
        (Inl e, d') \<Rightarrow> (Inl (Wrap ''scan server config'' e), d')
      | (Inr None, d') \<Rightarrow> (Inl (Wrap ''scan server config'' pgx_ErrNoRows), d')
      | (Inr (Some c), d') \<Rightarrow> (Inr c, d'))"

definition scanned_or :: "string \<Rightarrow> (config_row option, db) call \<Rightarrow> (config_row, db) call" where
  "scanned_or msg q = maperr (\<lambda>e. if errors_Is e pgx_ErrNoRows then server_ErrNotFound else Wrap msg e) (scanConfig q)"

text \<open>\<open>ORDER BY created_at LIMIT 1\<close>\<close>

fun earliest_config :: "config_row list \<Rightarrow> config_row option" where
  "earliest_config [] = None"
| "earliest_config (c # cs) =
     (case earliest_config cs of
        None \<Rightarrow> Some c
      | Some b \<Rightarrow> (if c_created_at b < c_created_at c then Some b else Some c))"

definition server_Get :: "(config_row, db) call" where
  "server_Get = scanned_or ''query server config'' (pg_query (\<lambda>d. earliest_config (t_server_config d)))"

text \<open>
  \<open>UPDATE server_config SET ... RETURNING ...\<close>: every row is updated, a trigger sets
  \<open>updated_at\<close>, and the first row returned is read.
\<close>

definition update_config :: "time \<Rightarrow> (config_row \<Rightarrow> config_row) \<Rightarrow> (config_row option, db) call" where
  "update_config now f d =
     (let rows = map (\<lambda>c. (f c)\<lparr>c_updated_at := now\<rparr>) (t_server_config d)
      in (Inr (case rows of [] \<Rightarrow> None | c # _ \<Rightarrow> Some c), d\<lparr>t_server_config := rows\<rparr>))"

definition server_Update :: "time \<Rightarrow> server_UpdateParams \<Rightarrow> (config_row, db) call" where
  "server_Update now p =
     (if sp_Name p = None \<and> sp_Description p = None then server_Get
      else scanned_or ''update server config'' (pg_stmt (update_config now
             (\<lambda>c. c\<lparr>c_name := (case sp_Name p of None \<Rightarrow> c_name c | Some n \<Rightarrow> n),
                    c_description := (case sp_Description p of None \<Rightarrow> c_description c | Some s \<Rightarrow> s)\<rparr>))))"

definition SetIconKey :: "time \<Rightarrow> string \<Rightarrow> (config_row, db) call" where
  "SetIconKey now key = scanned_or ''set icon key'' (pg_stmt (update_config now (\<lambda>c. c\<lparr>c_icon_key := Some key\<rparr>)))"

definition ClearIconKey :: "time \<Rightarrow> (config_row, db) call" where
  "ClearIconKey now = scanned_or ''clear icon key'' (pg_stmt (update_config now (\<lambda>c. c\<lparr>c_icon_key := None\<rparr>)))"

definition server_SetBannerKey :: "time \<Rightarrow> string \<Rightarrow> (config_row, db) call" where
  "server_SetBannerKey now key = scanned_or ''set banner key'' (pg_stmt (update_config now (\<lambda>c. c\<lparr>c_banner_key := Some key\<rparr>)))"

definition server_ClearBannerKey :: "time \<Rightarrow> (config_row, db) call" where
  "server_ClearBannerKey now = scanned_or ''clear banner key'' (pg_stmt (update_config now (\<lambda>c. c\<lparr>c_banner_key := None\<rparr>)))"

section \<open>Endpoints\<close>

datatype ServerPayload = PServer ServerConfigModel | PPublicInfo string string "string option"

definition mapServerError :: "error \<Rightarrow> 'p reaction" where
  "mapServerError e =
     (if errors_Is e server_ErrNotFound then Fail 404 (Coded ''NotFound'') ''Server config not found''
      else if errors_Is e server_ErrNameLength then Fail 400 ValidationError ''name must be between 1 and 100 characters''
      else if errors_Is e server_ErrDescriptionLength then Fail 400 ValidationError ''description must be 1024 characters or fewer''
      else Fail 500 InternalError ''An internal error occurred'')"

definition GetServer :: "uuid_lib \<Rightarrow> (time \<Rightarrow> string) \<Rightarrow> 'r world \<Rightarrow> ServerPayload reaction \<times> 'r world" where
  "GetServer U Z w =
     (case on_db server_Get w of
        (Inl e, w1) \<Rightarrow> (mapServerError e, w1)
      | (Inr cfg, w1) \<Rightarrow> (Success (PServer (server_ToModel U Z cfg)), w1))"

definition GetPublicInfo :: "'r world \<Rightarrow> ServerPayload reaction \<times> 'r world" where
  "GetPublicInfo w =
     (case on_db server_Get w of
        (Inl e, w1) \<Rightarrow> (mapServerError e, w1)
      | (Inr cfg, w1) \<Rightarrow> (Success (PPublicInfo (c_name cfg) (c_description cfg) (c_icon_key cfg)), w1))"

definition UpdateServer ::
  "uuid_lib \<Rightarrow> proto \<Rightarrow> (ServerConfigModel \<Rightarrow> json) \<Rightarrow> (time \<Rightarrow> string) \<Rightarrow> handler \<Rightarrow> time \<Rightarrow> request
     \<Rightarrow> server_UpdateParams option \<Rightarrow> 'r world \<Rightarrow> ServerPayload reaction \<times> 'r world" where
  "UpdateServer U M js Z h now c body w =
     (case UserID c of Inl rx \<Rightarrow> (rx, w) | Inr userID \<Rightarrow>
     (case body of None \<Rightarrow> (Fail 400 InvalidBody ''Invalid request body'', w) | Some b \<Rightarrow>
     (case server_ValidateName (sp_Name b) of Inl e \<Rightarrow> (mapServerError e, w) | Inr name \<Rightarrow>
     (case server_ValidateDescription (sp_Description b) of Inl e \<Rightarrow> (mapServerError e, w) | Inr _ \<Rightarrow>
     (case on_db (server_Update now \<lparr>sp_Name = name, sp_Description = sp_Description b\<rparr>) w of
        (Inl e, w1) \<Rightarrow> (mapServerError e, w1)
      | (Inr cfg, w1) \<Rightarrow>
          (let w2 = go_Record h ((audit_entry userID ''server.update'' ''server'' uuid_Nil)\<lparr>en_TargetID := None\<rparr>) w1;
               result = server_ToModel U Z cfg
           in (Success (PServer result), Enqueue h (ev M EvServerUpdate) (js result) w2)))))))"

section \<open>Queries and updates\<close>

lemma scanned_ok: "scanned_or msg q d = (Inr c, d') \<longleftrightarrow> q d = (Inr (Some c), d')"
  by (auto simp: scanned_or_def scanConfig_def split: prod.splits sum.splits option.splits)

lemma earliest_config_None [simp]: "earliest_config cs = None \<longleftrightarrow> cs = []"
  by (cases cs) (auto split: option.splits)

lemma earliest_config_Some:
  "earliest_config cs = Some c \<Longrightarrow> c \<in> set cs \<and> (\<forall>b \<in> set cs. c_created_at c \<le> c_created_at b)"
proof (induction cs arbitrary: c)
  case (Cons a cs)
  show ?case
  proof (cases "earliest_config cs")
    case (Some b)
    then show ?thesis using Cons.prems Cons.IH [OF Some] by (auto split: if_splits intro: order_trans)
  qed (use Cons.prems in simp)
qed simp

lemma server_Get_ok:
  assumes "server_Get d = (Inr c, d')"
  shows "c \<in> set (t_server_config d) \<and> tables d' = tables d \<and> (\<forall>b \<in> set (t_server_config d). c_created_at c \<le> c_created_at b)"
proof -
  from assms have q: "pg_query (\<lambda>d. earliest_config (t_server_config d)) d = (Inr (Some c), d')"
    by (simp add: server_Get_def scanned_ok)
  have e: "earliest_config (t_server_config d) = Some c"
    using pg_query_ok [OF q] by simp
  show ?thesis using earliest_config_Some [OF e] pg_query_tables [OF q] by blast
qed

lemma server_Get_tables: "server_Get d = (x, d') \<Longrightarrow> tables d' = tables d"
  by (auto simp: server_Get_def scanned_or_def maperr_def scanConfig_def split: prod.splits sum.splits option.splits if_splits
      dest: pg_query_tables)

end
