(* ===== verification/Users.thy ===== *)
theory Users
  imports Go_Strings World Protocol
begin

text \<open>
  \<open>internal/user\<close>: accounts, their validation, and the repository over \<open>users\<close>, \<open>email_verifications\<close>,
  \<open>login_attempts\<close>, \<open>mfa_recovery_codes\<close> and \<open>deletion_tombstones\<close>. Identifiers the database draws
  (\<open>gen_random_uuid()\<close>) and the time \<open>NOW()\<close> are arguments of the operations; a drawn identifier that
  is already taken violates the primary key.
\<close>

section \<open>Types\<close>

definition user_ErrNotFound :: error where "user_ErrNotFound = Sentinel ''user.ErrNotFound''"
definition user_ErrAlreadyExists :: error where "user_ErrAlreadyExists = Sentinel ''user.ErrAlreadyExists''"
definition user_ErrInvalidToken :: error where "user_ErrInvalidToken = Sentinel ''user.ErrInvalidToken''"
definition ErrDisplayNameLength :: error where "ErrDisplayNameLength = Sentinel ''user.ErrDisplayNameLength''"
definition ErrPronounsLength :: error where "ErrPronounsLength = Sentinel ''user.ErrPronounsLength''"
definition ErrAboutLength :: error where "ErrAboutLength = Sentinel ''user.ErrAboutLength''"
definition ErrThemeColourRange :: error where "ErrThemeColourRange = Sentinel ''user.ErrThemeColourRange''"
definition user_ErrVerificationCooldown :: error where
  "user_ErrVerificationCooldown = Sentinel ''user.ErrVerificationCooldown''"

lemmas user_errors = user_ErrNotFound_def user_ErrAlreadyExists_def user_ErrInvalidToken_def ErrDisplayNameLength_def
  ErrPronounsLength_def ErrAboutLength_def ErrThemeColourRange_def user_ErrVerificationCooldown_def

record User =
  us_ID :: uuid
  us_Email :: string
  us_Username :: string
  us_DisplayName :: "string option"
  us_AvatarKey :: "string option"
  us_Pronouns :: "string option"
  us_BannerKey :: "string option"
  us_About :: "string option"
  us_ThemeColourPrimary :: "int option"
  us_ThemeColourSecondary :: "int option"
  us_MFAEnabled :: bool
  us_EmailVerified :: bool
  us_CreatedAt :: time

text \<open>\<open>Credentials\<close> embeds \<open>User\<close>.\<close>

record Credentials = User +
  cd_PasswordHash :: string
  cd_MFASecret :: "string option"

record MFARecoveryCode =
  rec_ID :: uuid
  rec_CodeHash :: string

record user_CreateParams =
  uc_Email :: string
  uc_Username :: string
  uc_PasswordHash :: string
  uc_VerifyToken :: string
  uc_VerifyExpiry :: time

record user_UpdateParams =
  uu_DisplayName :: "string option"
  uu_Pronouns :: "string option"
  uu_About :: "string option"
  uu_ThemeColourPrimary :: "int option"
  uu_ThemeColourSecondary :: "int option"

record Tombstone =
  tb_IdentifierType :: TombstoneType
  tb_HMACHash :: string

definition user_ToModel :: "uuid_lib \<Rightarrow> 'z User_scheme \<Rightarrow> UserModel" where
  "user_ToModel U u =
     \<lparr>um_ID = uuid_String U (us_ID u), um_Email = us_Email u, um_Username = us_Username u, um_DisplayName = us_DisplayName u,
      um_AvatarKey = us_AvatarKey u, um_Pronouns = us_Pronouns u, um_BannerKey = us_BannerKey u, um_About = us_About u,
      um_ThemeColourPrimary = us_ThemeColourPrimary u, um_ThemeColourSecondary = us_ThemeColourSecondary u,
      um_MFAEnabled = us_MFAEnabled u, um_EmailVerified = us_EmailVerified u\<rparr>"

definition ToProfileModel :: "uuid_lib \<Rightarrow> 'z User_scheme \<Rightarrow> UserProfileModel" where
  "ToProfileModel U u =
     \<lparr>up_ID = uuid_String U (us_ID u), up_Username = us_Username u, up_DisplayName = us_DisplayName u,
      up_AvatarKey = us_AvatarKey u, up_Pronouns = us_Pronouns u, up_BannerKey = us_BannerKey u, up_About = us_About u,
      up_ThemeColourPrimary = us_ThemeColourPrimary u, up_ThemeColourSecondary = us_ThemeColourSecondary u\<rparr>"

section \<open>Validation\<close>

text \<open>The normalisers replace the value a pointer refers to.\<close>

definition NormalizeDisplayName :: "string option \<Rightarrow> string option" where
  "NormalizeDisplayName name = map_option TrimSpace name"

definition ValidateDisplayName :: "string option \<Rightarrow> unit result" where
  "ValidateDisplayName name =
     (case name of None \<Rightarrow> Inr ()
      | Some s \<Rightarrow> if RuneCount s < 1 \<or> RuneCount s > 32 then Inl ErrDisplayNameLength else Inr ())"

definition NormalizePronouns :: "string option \<Rightarrow> string option" where
  "NormalizePronouns p = map_option TrimSpace p"

definition ValidatePronouns :: "string option \<Rightarrow> unit result" where
  "ValidatePronouns p =
     (case p of None \<Rightarrow> Inr ()
      | Some s \<Rightarrow> if RuneCount s < 1 \<or> RuneCount s > 40 then Inl ErrPronounsLength else Inr ())"

definition NormalizeAbout :: "string option \<Rightarrow> string option" where
  "NormalizeAbout a = map_option TrimSpace a"

definition ValidateAbout :: "string option \<Rightarrow> unit result" where
  "ValidateAbout a =
     (case a of None \<Rightarrow> Inr ()
      | Some s \<Rightarrow> if RuneCount s < 1 \<or> RuneCount s > 190 then Inl ErrAboutLength else Inr ())"

definition ValidateThemeColour :: "int option \<Rightarrow> unit result" where
  "ValidateThemeColour colour =
     (case colour of None \<Rightarrow> Inr () | Some x \<Rightarrow> if x < 0 \<or> x > 16777215 then Inl ErrThemeColourRange else Inr ())"

section \<open>Reading accounts\<close>

definition to_User :: "user_row \<Rightarrow> User" where
  "to_User u =
     \<lparr>us_ID = u_id u, us_Email = u_email u, us_Username = u_username u, us_DisplayName = u_display_name u,
      us_AvatarKey = u_avatar_key u, us_Pronouns = u_pronouns u, us_BannerKey = u_banner_key u, us_About = u_about u,
      us_ThemeColourPrimary = u_theme_colour_primary u, us_ThemeColourSecondary = u_theme_colour_secondary u,
      us_MFAEnabled = u_mfa_enabled u, us_EmailVerified = u_email_verified u, us_CreatedAt = u_created_at u\<rparr>"

text \<open>The columns of credentials do not include \<open>created_at\<close>, which stays the zero time.\<close>

definition to_Credentials :: "user_row \<Rightarrow> Credentials" where
  "to_Credentials u =
     User.extend ((to_User u)\<lparr>us_CreatedAt := 0\<rparr>) (Credentials.fields (u_password_hash u) (u_mfa_secret u))"

definition find_user :: "uuid \<Rightarrow> db \<Rightarrow> user_row option" where
  "find_user i d = find (\<lambda>u. u_id u = i) (t_users d)"

text \<open>A query for one row whose columns \<open>f\<close> reads: no row is \<open>pgx.ErrNoRows\<close>.\<close>

definition scan_row :: "string \<Rightarrow> (user_row \<Rightarrow> 'a) \<Rightarrow> (user_row option, db) call \<Rightarrow> ('a, db) call" where
  "scan_row msg f q d =
     (case q d of
        (Inl e, d') \<Rightarrow> (Inl (Wrap msg e), d')
      | (Inr None, d') \<Rightarrow> (Inl (Wrap msg pgx_ErrNoRows), d')
      | (Inr (Some u), d') \<Rightarrow> (Inr (f u), d'))"

definition scanUser :: "(user_row option, db) call \<Rightarrow> (User, db) call" where
  "scanUser = scan_row ''scan user'' to_User"

definition scanCredentials :: "(user_row option, db) call \<Rightarrow> (Credentials, db) call" where
  "scanCredentials = scan_row ''scan credentials'' to_Credentials"

definition user_GetByID :: "uuid \<Rightarrow> (User, db) call" where
  "user_GetByID i d =
     (case scanUser (pg_query (find_user i)) d of
        (Inl e, d') \<Rightarrow>
          (if errors_Is e pgx_ErrNoRows then (Inl user_ErrNotFound, d') else (Inl (Wrap ''query user by id'' e), d'))
      | (Inr u, d') \<Rightarrow> (Inr u, d'))"

definition GetByEmail :: "string \<Rightarrow> (Credentials, db) call" where
  "GetByEmail email d =
     (case scanCredentials (pg_query (\<lambda>d. find (\<lambda>u. u_email u = email) (t_users d))) d of
        (Inl e, d') \<Rightarrow>
          (if errors_Is e pgx_ErrNoRows then (Inl user_ErrNotFound, d') else (Inl (Wrap ''query user by email'' e), d'))
      | (Inr c, d') \<Rightarrow> (Inr c, d'))"

definition GetCredentialsByID :: "uuid \<Rightarrow> (Credentials, db) call" where
  "GetCredentialsByID i d =
     (case scanCredentials (pg_query (find_user i)) d of
        (Inl e, d') \<Rightarrow>
          (if errors_Is e pgx_ErrNoRows then (Inl user_ErrNotFound, d') else (Inl (Wrap ''query credentials by id'' e), d'))
      | (Inr c, d') \<Rightarrow> (Inr c, d'))"

section \<open>Registration and verification\<close>

definition insert_user :: "uuid \<Rightarrow> time \<Rightarrow> user_CreateParams \<Rightarrow> (uuid, db) call" where
  "insert_user new now p d =
     (if new \<in> set (map u_id (t_users d)) \<or> uc_Email p \<in> set (map u_email (t_users d))
         \<or> uc_Username p \<in> set (map u_username (t_users d))
      then (Inl unique_violation, d)
      else (Inr new, d\<lparr>t_users := t_users d @ [\<lparr>u_id = new, u_email = uc_Email p, u_username = uc_Username p,
              u_display_name = None, u_avatar_key = None, u_password_hash = uc_PasswordHash p, u_mfa_secret = None,
              u_mfa_enabled = False, u_email_verified = False, u_pronouns = None, u_banner_key = None, u_about = None,
              u_theme_colour_primary = None, u_theme_colour_secondary = None, u_created_at = now\<rparr>]\<rparr>))"

definition insert_verification :: "time \<Rightarrow> uuid \<Rightarrow> string \<Rightarrow> time \<Rightarrow> (unit, db) call" where
  "insert_verification now userID token expiresAt d =
     (if token \<in> set (map vf_token (t_email_verifications d)) then (Inl unique_violation, d)
      else if userID \<notin> set (map u_id (t_users d)) then (Inl foreign_key_violation, d)
      else (Inr (), d\<lparr>t_email_verifications := t_email_verifications d @ [\<lparr>vf_user_id = userID, vf_token = token,
              vf_expires_at = expiresAt, vf_consumed_at = None, vf_created_at = now\<rparr>]\<rparr>))"

definition user_create_tx :: "uuid \<Rightarrow> time \<Rightarrow> user_CreateParams \<Rightarrow> (uuid, db) call" where
  "user_create_tx new now p d =
     (case pg_stmt (insert_user new now p) d of
        (Inl e, d1) \<Rightarrow> (if IsUniqueViolation e then (Inl user_ErrAlreadyExists, d1) else (Inl (Wrap ''insert user'' e), d1))
      | (Inr userID, d1) \<Rightarrow>
          (if uc_VerifyToken p \<noteq> []
           then case pg_stmt (insert_verification now userID (uc_VerifyToken p) (uc_VerifyExpiry p)) d1 of
                  (Inl e, d2) \<Rightarrow> (Inl (Wrap ''insert email verification'' e), d2)
                | (Inr _, d2) \<Rightarrow> (Inr userID, d2)
           else (Inr userID, d1)))"

definition user_Create :: "uuid \<Rightarrow> time \<Rightarrow> user_CreateParams \<Rightarrow> (uuid, db) call" where
  "user_Create new now p = WithTx (user_create_tx new now p)"

text \<open>\<open>UPDATE users ... WHERE id = $1\<close>; \<open>RETURNING\<close> gives the new row.\<close>

definition update_user :: "uuid \<Rightarrow> (user_row \<Rightarrow> user_row) \<Rightarrow> (user_row option, db) call" where
  "update_user i f d =
     (Inr (map_option f (find_user i d)), d\<lparr>t_users := map (\<lambda>u. if u_id u = i then f u else u) (t_users d)\<rparr>)"

definition usable_verification :: "time \<Rightarrow> string \<Rightarrow> verification_row \<Rightarrow> bool" where
  "usable_verification now token v \<longleftrightarrow> vf_token v = token \<and> vf_consumed_at v = None \<and> vf_expires_at v > now"

definition consume_verification :: "time \<Rightarrow> string \<Rightarrow> (uuid option, db) call" where
  "consume_verification now token d =
     (Inr (map_option vf_user_id (find (usable_verification now token) (t_email_verifications d))),
      d\<lparr>t_email_verifications := map (\<lambda>v. if usable_verification now token v then v\<lparr>vf_consumed_at := Some now\<rparr> else v)
          (t_email_verifications d)\<rparr>)"

definition verify_email_tx :: "time \<Rightarrow> string \<Rightarrow> (uuid, db) call" where
  "verify_email_tx now token d =
     (case pg_stmt (consume_verification now token) d of
        (Inl e, d1) \<Rightarrow> (Inl (Wrap ''consume verification token'' e), d1)
      | (Inr None, d1) \<Rightarrow> (Inl user_ErrInvalidToken, d1)
      | (Inr (Some userID), d1) \<Rightarrow>
          (case pg_stmt (update_user userID (\<lambda>u. u\<lparr>u_email_verified := True\<rparr>)) d1 of
             (Inl e, d2) \<Rightarrow> (Inl (Wrap ''update email_verified'' e), d2)
           | (Inr _, d2) \<Rightarrow> (Inr userID, d2)))"

definition repo_VerifyEmail :: "time \<Rightarrow> string \<Rightarrow> (uuid, db) call" where
  "repo_VerifyEmail now token = WithTx (verify_email_tx now token)"

definition recent_verification :: "time \<Rightarrow> time \<Rightarrow> uuid \<Rightarrow> db \<Rightarrow> bool" where
  "recent_verification now cooldown userID d \<longleftrightarrow>
     (\<exists>v \<in> set (t_email_verifications d). vf_user_id v = userID \<and> vf_consumed_at v = None \<and> vf_created_at v > now - cooldown)"

definition invalidate_verifications :: "time \<Rightarrow> uuid \<Rightarrow> (unit, db) call" where
  "invalidate_verifications now userID d =
     (Inr (), d\<lparr>t_email_verifications := map (\<lambda>v. if vf_user_id v = userID \<and> vf_consumed_at v = None
          then v\<lparr>vf_consumed_at := Some now\<rparr> else v) (t_email_verifications d)\<rparr>)"

definition replace_verification_tx :: "time \<Rightarrow> uuid \<Rightarrow> string \<Rightarrow> time \<Rightarrow> time \<Rightarrow> (unit, db) call" where
  "replace_verification_tx now userID token expiresAt cooldown d =
     (case pg_query (recent_verification now cooldown userID) d of
        (Inl e, d1) \<Rightarrow> (Inl (Wrap ''check verification cooldown'' e), d1)
      | (Inr recentExists, d1) \<Rightarrow>
          (if recentExists then (Inl user_ErrVerificationCooldown, d1)
           else case pg_stmt (invalidate_verifications now userID) d1 of
                  (Inl e, d2) \<Rightarrow> (Inl (Wrap ''invalidate existing verification tokens'' e), d2)
                | (Inr _, d2) \<Rightarrow>
                    (case pg_stmt (insert_verification now userID token expiresAt) d2 of
                       (Inl e, d3) \<Rightarrow> (Inl (Wrap ''insert verification token'' e), d3)
                     | (Inr _, d3) \<Rightarrow> (Inr (), d3))))"

definition ReplaceVerificationToken :: "time \<Rightarrow> uuid \<Rightarrow> string \<Rightarrow> time \<Rightarrow> time \<Rightarrow> (unit, db) call" where
  "ReplaceVerificationToken now userID token expiresAt cooldown =
     WithTx (replace_verification_tx now userID token expiresAt cooldown)"

section \<open>Logins and profile\<close>

definition invalid_text_representation :: error where
  "invalid_text_representation = PgError ''22P02''"

text \<open>\<open>inet\<close> tells which texts PostgreSQL accepts as an address.\<close>

definition insert_login :: "(string \<Rightarrow> bool) \<Rightarrow> time \<Rightarrow> string \<Rightarrow> string \<Rightarrow> bool \<Rightarrow> (unit, db) call" where
  "insert_login inet now email ip success d =
     (if \<not> inet ip then (Inl invalid_text_representation, d)
      else (Inr (), d\<lparr>t_login_attempts := t_login_attempts d @ [\<lparr>la_email = email, la_ip_address = ip, la_success = success,
              la_created_at = now\<rparr>]\<rparr>))"

definition RecordLoginAttempt :: "(string \<Rightarrow> bool) \<Rightarrow> time \<Rightarrow> string \<Rightarrow> string \<Rightarrow> bool \<Rightarrow> (unit, db) call" where
  "RecordLoginAttempt inet now email ip success d =
     (case pg_stmt (insert_login inet now email ip success) d of
        (Inl e, d') \<Rightarrow> (Inl (Wrap ''record login attempt'' e), d')
      | (Inr _, d') \<Rightarrow> (Inr (), d'))"

definition UpdatePasswordHash :: "uuid \<Rightarrow> string \<Rightarrow> (unit, db) call" where
  "UpdatePasswordHash userID hash d =
     (case pg_stmt (update_user userID (\<lambda>u. u\<lparr>u_password_hash := hash\<rparr>)) d of
        (Inl e, d') \<Rightarrow> (Inl (Wrap ''update password hash'' e), d')
      | (Inr _, d') \<Rightarrow> (Inr (), d'))"

definition or_else :: "'a option \<Rightarrow> 'a option \<Rightarrow> 'a option" where
  "or_else x y = (case x of None \<Rightarrow> y | Some _ \<Rightarrow> x)"

definition updated_user :: "user_UpdateParams \<Rightarrow> user_row \<Rightarrow> user_row" where
  "updated_user p u =
     u\<lparr>u_display_name := or_else (uu_DisplayName p) (u_display_name u),
       u_pronouns := or_else (uu_Pronouns p) (u_pronouns u),
       u_about := or_else (uu_About p) (u_about u),
       u_theme_colour_primary := or_else (uu_ThemeColourPrimary p) (u_theme_colour_primary u),
       u_theme_colour_secondary := or_else (uu_ThemeColourSecondary p) (u_theme_colour_secondary u)\<rparr>"

text \<open>Statements that return the updated user differ in the message of an error only.\<close>

definition user_update_returning :: "string \<Rightarrow> uuid \<Rightarrow> (user_row \<Rightarrow> user_row) \<Rightarrow> (User, db) call" where
  "user_update_returning msg i f d =
     (case scanUser (pg_stmt (update_user i f)) d of
        (Inl e, d') \<Rightarrow> (if errors_Is e pgx_ErrNoRows then (Inl user_ErrNotFound, d') else (Inl (Wrap msg e), d'))
      | (Inr u, d') \<Rightarrow> (Inr u, d'))"

definition user_Update :: "uuid \<Rightarrow> user_UpdateParams \<Rightarrow> (User, db) call" where
  "user_Update i p d =
     (if uu_DisplayName p = None \<and> uu_Pronouns p = None \<and> uu_About p = None \<and> uu_ThemeColourPrimary p = None
         \<and> uu_ThemeColourSecondary p = None
      then user_GetByID i d
      else user_update_returning ''update user'' i (updated_user p) d)"

definition SetAvatarKey :: "uuid \<Rightarrow> string \<Rightarrow> (User, db) call" where
  "SetAvatarKey i key = user_update_returning ''set avatar key'' i (\<lambda>u. u\<lparr>u_avatar_key := Some key\<rparr>)"

definition ClearAvatarKey :: "uuid \<Rightarrow> (User, db) call" where
  "ClearAvatarKey i = user_update_returning ''clear avatar key'' i (\<lambda>u. u\<lparr>u_avatar_key := None\<rparr>)"

definition user_SetBannerKey :: "uuid \<Rightarrow> string \<Rightarrow> (User, db) call" where
  "user_SetBannerKey i key = user_update_returning ''set banner key'' i (\<lambda>u. u\<lparr>u_banner_key := Some key\<rparr>)"

definition user_ClearBannerKey :: "uuid \<Rightarrow> (User, db) call" where
  "user_ClearBannerKey i = user_update_returning ''clear banner key'' i (\<lambda>u. u\<lparr>u_banner_key := None\<rparr>)"

section \<open>Multi-factor authentication\<close>

text \<open>\<open>ids\<close> are the identifiers the database draws for the rows.\<close>

definition copy_codes :: "uuid list \<Rightarrow> uuid \<Rightarrow> string list \<Rightarrow> (unit, db) call" where
  "copy_codes ids userID hashes d =
     (let rows = map (\<lambda>(i, h). \<lparr>rc_id = i, rc_user_id = userID, rc_code_hash = h, rc_used_at = None\<rparr>) (zip ids hashes)
      in if \<not> distinct (map rc_id (t_recovery_codes d @ rows)) then (Inl unique_violation, d)
         else if rows \<noteq> [] \<and> userID \<notin> set (map u_id (t_users d)) then (Inl foreign_key_violation, d)
         else (Inr (), d\<lparr>t_recovery_codes := t_recovery_codes d @ rows\<rparr>))"

definition copyRecoveryCodes :: "uuid list \<Rightarrow> uuid \<Rightarrow> string list \<Rightarrow> (unit, db) call" where
  "copyRecoveryCodes ids userID codeHashes d =
     (case pg_stmt (copy_codes ids userID codeHashes) d of
        (Inl e, d') \<Rightarrow> (Inl (Wrap ''copy recovery codes'' e), d')
      | (Inr _, d') \<Rightarrow> (Inr (), d'))"

definition enable_mfa_tx :: "uuid list \<Rightarrow> uuid \<Rightarrow> string \<Rightarrow> string list \<Rightarrow> (unit, db) call" where
  "enable_mfa_tx ids userID encryptedSecret codeHashes d =
     (case pg_stmt (update_user userID (\<lambda>u. u\<lparr>u_mfa_secret := Some encryptedSecret, u_mfa_enabled := True\<rparr>)) d of
        (Inl e, d1) \<Rightarrow> (Inl (Wrap ''update MFA columns'' e), d1)
      | (Inr _, d1) \<Rightarrow> copyRecoveryCodes ids userID codeHashes d1)"

definition repo_EnableMFA :: "uuid list \<Rightarrow> uuid \<Rightarrow> string \<Rightarrow> string list \<Rightarrow> (unit, db) call" where
  "repo_EnableMFA ids userID encryptedSecret codeHashes = WithTx (enable_mfa_tx ids userID encryptedSecret codeHashes)"

definition delete_codes :: "uuid \<Rightarrow> (unit, db) call" where
  "delete_codes userID d = (Inr (), d\<lparr>t_recovery_codes := filter (\<lambda>c. rc_user_id c \<noteq> userID) (t_recovery_codes d)\<rparr>)"

definition disable_mfa_tx :: "uuid \<Rightarrow> (unit, db) call" where
  "disable_mfa_tx userID d =
     (case pg_stmt (update_user userID (\<lambda>u. u\<lparr>u_mfa_secret := None, u_mfa_enabled := False\<rparr>)) d of
        (Inl e, d1) \<Rightarrow> (Inl (Wrap ''clear MFA columns'' e), d1)
      | (Inr _, d1) \<Rightarrow>
          (case pg_stmt (delete_codes userID) d1 of
             (Inl e, d2) \<Rightarrow> (Inl (Wrap ''delete recovery codes'' e), d2)
           | (Inr _, d2) \<Rightarrow> (Inr (), d2)))"

definition repo_DisableMFA :: "uuid \<Rightarrow> (unit, db) call" where
  "repo_DisableMFA userID = WithTx (disable_mfa_tx userID)"

definition unused_codes :: "uuid \<Rightarrow> db \<Rightarrow> MFARecoveryCode list" where
  "unused_codes userID d =
     map (\<lambda>c. \<lparr>rec_ID = rc_id c, rec_CodeHash = rc_code_hash c\<rparr>)
       (filter (\<lambda>c. rc_user_id c = userID \<and> rc_used_at c = None) (t_recovery_codes d))"

definition GetUnusedRecoveryCodes :: "uuid \<Rightarrow> (MFARecoveryCode list, db) call" where
  "GetUnusedRecoveryCodes userID d =
     (case pg_query (unused_codes userID) d of
        (Inl e, d') \<Rightarrow> (Inl (Wrap ''query unused recovery codes'' e), d')
      | (Inr cs, d') \<Rightarrow> (Inr cs, d'))"

definition mark_code :: "time \<Rightarrow> uuid \<Rightarrow> (unit, db) call" where
  "mark_code now codeID d =
     (Inr (), d\<lparr>t_recovery_codes := map (\<lambda>c. if rc_id c = codeID then c\<lparr>rc_used_at := Some now\<rparr> else c) (t_recovery_codes d)\<rparr>)"

definition UseRecoveryCode :: "time \<Rightarrow> uuid \<Rightarrow> (unit, db) call" where
  "UseRecoveryCode now codeID d =
     (case pg_stmt (mark_code now codeID) d of
        (Inl e, d') \<Rightarrow> (Inl (Wrap ''mark recovery code used'' e), d')
      | (Inr _, d') \<Rightarrow> (Inr (), d'))"

definition replace_codes_tx :: "uuid list \<Rightarrow> uuid \<Rightarrow> string list \<Rightarrow> (unit, db) call" where
  "replace_codes_tx ids userID codeHashes d =
     (case pg_stmt (delete_codes userID) d of
        (Inl e, d1) \<Rightarrow> (Inl (Wrap ''delete old recovery codes'' e), d1)
      | (Inr _, d1) \<Rightarrow> copyRecoveryCodes ids userID codeHashes d1)"

definition ReplaceRecoveryCodes :: "uuid list \<Rightarrow> uuid \<Rightarrow> string list \<Rightarrow> (unit, db) call" where
  "ReplaceRecoveryCodes ids userID codeHashes = WithTx (replace_codes_tx ids userID codeHashes)"

section \<open>Deletion\<close>

definition insert_tombstone :: "time \<Rightarrow> Tombstone \<Rightarrow> (unit, db) call" where
  "insert_tombstone now t d =
     (if \<exists>r \<in> set (t_tombstones d). ts_identifier_type r = tb_IdentifierType t \<and> ts_hmac_hash r = tb_HMACHash t
      then (Inr (), d)
      else (Inr (), d\<lparr>t_tombstones := t_tombstones d @ [\<lparr>ts_identifier_type = tb_IdentifierType t, ts_hmac_hash = tb_HMACHash t,
              ts_created_at = now\<rparr>]\<rparr>))"

fun insert_tombstones :: "time \<Rightarrow> Tombstone list \<Rightarrow> (unit, db) call" where
  "insert_tombstones now [] d = (Inr (), d)"
| "insert_tombstones now (t # ts) d =
     (case pg_stmt (insert_tombstone now t) d of
        (Inl e, d1) \<Rightarrow> (Inl (Wrap ''insert tombstone'' e), d1)
      | (Inr _, d1) \<Rightarrow> insert_tombstones now ts d1)"

text \<open>
  \<open>DELETE FROM users\<close>: the owner of the server is referenced and cannot be deleted; rows of the
  other tables go with the user or lose the reference, and a trigger removes the user's
  permission overrides. The result is the number of users deleted.
\<close>

definition without_user :: "time \<Rightarrow> uuid \<Rightarrow> db \<Rightarrow> db" where
  "without_user now i d =
     (let d1 = d\<lparr>t_users := filter (\<lambda>u. u_id u \<noteq> i) (t_users d),
                 t_members := filter (\<lambda>m. m_user_id m \<noteq> i) (t_members d),
                 t_member_roles := filter (\<lambda>mr. mr_user_id mr \<noteq> i) (t_member_roles d),
                 t_overrides := filter (\<lambda>v. \<not> (or_PrincipalType v = PrincipalUser \<and> or_PrincipalID v = i)) (t_overrides d),
                 t_bans := map (\<lambda>b. if b_banned_by b = Some i then b\<lparr>b_banned_by := None\<rparr> else b)
                             (filter (\<lambda>b. b_user_id b \<noteq> i) (t_bans d)),
                 t_audit_log := map (\<lambda>a. if al_actor_id a = Some i then a\<lparr>al_actor_id := None\<rparr> else a) (t_audit_log d),
                 t_email_verifications := filter (\<lambda>v. vf_user_id v \<noteq> i) (t_email_verifications d),
                 t_recovery_codes := filter (\<lambda>c. rc_user_id c \<noteq> i) (t_recovery_codes d),
                 t_channels := map (\<lambda>c. if ch_created_by c = Some i then c\<lparr>ch_created_by := None, ch_updated_at := now\<rparr> else c) (t_channels d),
                 t_messages := map (\<lambda>m. if ms_deleted_by m = Some i then m\<lparr>ms_deleted_by := None, ms_updated_at := now\<rparr> else m) (t_messages d),
                 t_attachments := filter (\<lambda>a. mt_uploader_id a \<noteq> i) (t_attachments d),
                 t_reactions := filter (\<lambda>r. rx_user_id r \<noteq> i) (t_reactions d),
                 t_read_states := filter (\<lambda>r. rd_user_id r \<noteq> i) (t_read_states d),
                 t_invites := filter (\<lambda>v. iv_creator_id v \<noteq> i) (t_invites d),
                 t_acceptances := filter (\<lambda>a. da_user_id a \<noteq> i) (t_acceptances d),
                 t_direct := remove_person now i (t_direct d)\<rparr>
      in remove_emoji (\<lambda>e. em_uploader_id e = i) (remove_messages now (\<lambda>m. ms_author_id m = i) d1))"

definition delete_user :: "time \<Rightarrow> uuid \<Rightarrow> (nat, db) call" where
  "delete_user now i d =
     (if find_user i d = None then (Inr 0, d)
      else if \<exists>c \<in> set (t_server_config d). c_owner_id c = i then (Inl foreign_key_violation, d)
      else (Inr (length (filter (\<lambda>u. u_id u = i) (t_users d))), without_user now i d))"

definition delete_with_tombstones_tx :: "time \<Rightarrow> uuid \<Rightarrow> Tombstone list \<Rightarrow> (unit, db) call" where
  "delete_with_tombstones_tx now i tombstones d =
     (case insert_tombstones now tombstones d of
        (Inl e, d1) \<Rightarrow> (Inl e, d1)
      | (Inr _, d1) \<Rightarrow>
          (case pg_stmt (delete_user now i) d1 of
             (Inl e, d2) \<Rightarrow> (Inl (Wrap ''delete user'' e), d2)
           | (Inr n, d2) \<Rightarrow> (if n = 0 then (Inl user_ErrNotFound, d2) else (Inr (), d2))))"

definition DeleteWithTombstones :: "time \<Rightarrow> uuid \<Rightarrow> Tombstone list \<Rightarrow> (unit, db) call" where
  "DeleteWithTombstones now i tombstones = WithTx (delete_with_tombstones_tx now i tombstones)"

definition tombstone_exists :: "TombstoneType \<Rightarrow> string \<Rightarrow> db \<Rightarrow> bool" where
  "tombstone_exists t h d \<longleftrightarrow> (\<exists>r \<in> set (t_tombstones d). ts_identifier_type r = t \<and> ts_hmac_hash r = h)"

definition CheckTombstone :: "TombstoneType \<Rightarrow> string \<Rightarrow> (bool, db) call" where
  "CheckTombstone identifierType hmacHash d =
     (case pg_query (tombstone_exists identifierType hmacHash) d of
        (Inl e, d') \<Rightarrow> (Inl (Wrap ''check tombstone'' e), d')
      | (Inr b, d') \<Rightarrow> (Inr b, d'))"

section \<open>Purging\<close>

definition purgeBatchSize :: nat where "purgeBatchSize = 1000"

text \<open>Delete up to \<open>n\<close> of the rows that match.\<close>

fun remove_limited :: "('a \<Rightarrow> bool) \<Rightarrow> nat \<Rightarrow> 'a list \<Rightarrow> 'a list" where
  "remove_limited P n [] = []"
| "remove_limited P n (x # xs) =
     (if P x then case n of 0 \<Rightarrow> x # xs | Suc m \<Rightarrow> remove_limited P m xs else x # remove_limited P n xs)"

definition purge_logins :: "time \<Rightarrow> (nat, db) call" where
  "purge_logins olderThan d =
     (let old = (\<lambda>l. la_created_at l < olderThan); rest = remove_limited old purgeBatchSize (t_login_attempts d)
      in (Inr (length (t_login_attempts d) - length rest), d\<lparr>t_login_attempts := rest\<rparr>))"

definition purge_tombstones :: "time \<Rightarrow> (nat, db) call" where
  "purge_tombstones olderThan d =
     (let old = (\<lambda>t. ts_created_at t < olderThan); rest = remove_limited old purgeBatchSize (t_tombstones d)
      in (Inr (length (t_tombstones d) - length rest), d\<lparr>t_tombstones := rest\<rparr>))"

text \<open>
  The loop both purges share; Go returns the removed beside the error. \<open>None\<close> would be a loop
  that does not end.
\<close>

partial_function (option) purge_loop ::
  "(nat, db) call \<Rightarrow> string \<Rightarrow> nat \<Rightarrow> db \<Rightarrow> ((nat \<times> error option) \<times> db) option" where
  "purge_loop stmt msg removed d =
     (case pg_stmt stmt d of
        (Inl e, d') \<Rightarrow> Some ((removed, Some (Wrap msg e)), d')
      | (Inr affected, d') \<Rightarrow>
          (if affected < purgeBatchSize then Some ((removed + affected, None), d')
           else purge_loop stmt msg (removed + affected) d'))"

definition PurgeLoginAttempts :: "time \<Rightarrow> db \<Rightarrow> ((nat \<times> error option) \<times> db) option" where
  "PurgeLoginAttempts olderThan = purge_loop (purge_logins olderThan) ''purge login attempts'' 0"

definition PurgeTombstones :: "time \<Rightarrow> db \<Rightarrow> ((nat \<times> error option) \<times> db) option" where
  "PurgeTombstones olderThan = purge_loop (purge_tombstones olderThan) ''purge deletion tombstones'' 0"

end
