(* ===== verification/Auth_Service.thy ===== *)
theory Auth_Service
  imports Blocklist Server_Config Users Auth_Tokens Permission_Invalidate
begin

text \<open>
  \<open>internal/auth/service.go\<close>: registration, login, token refresh, email verification, multi-factor
  authentication and account deletion. A request runs at one instant \<open>now\<close>; new identifiers and
  random bytes are arguments. The state of the service is the server's world, the blocklist and
  the verification mails that were handed to the sender.
\<close>

section \<open>Errors\<close>

definition ErrInvalidCredentials :: error where "ErrInvalidCredentials = Sentinel ''auth.ErrInvalidCredentials''"
definition ErrDisposableEmail :: error where "ErrDisposableEmail = Sentinel ''auth.ErrDisposableEmail''"
definition ErrEmailAlreadyTaken :: error where "ErrEmailAlreadyTaken = Sentinel ''auth.ErrEmailAlreadyTaken''"
definition ErrInvalidMFACode :: error where "ErrInvalidMFACode = Sentinel ''auth.ErrInvalidMFACode''"
definition ErrMFANotEnabled :: error where "ErrMFANotEnabled = Sentinel ''auth.ErrMFANotEnabled''"
definition ErrMFAAlreadyEnabled :: error where "ErrMFAAlreadyEnabled = Sentinel ''auth.ErrMFAAlreadyEnabled''"
definition ErrMFANotConfigured :: error where "ErrMFANotConfigured = Sentinel ''auth.ErrMFANotConfigured''"
definition ErrServerOwner :: error where "ErrServerOwner = Sentinel ''auth.ErrServerOwner''"
definition ErrAccountTombstoned :: error where "ErrAccountTombstoned = Sentinel ''auth.ErrAccountTombstoned''"
definition ErrMFASetupLocked :: error where "ErrMFASetupLocked = Sentinel ''auth.ErrMFASetupLocked''"
definition ErrEmailAlreadyVerified :: error where "ErrEmailAlreadyVerified = Sentinel ''auth.ErrEmailAlreadyVerified''"
definition ErrVerificationCooldown :: error where "ErrVerificationCooldown = Sentinel ''auth.ErrVerificationCooldown''"

section \<open>The service\<close>

text \<open>The settings of \<open>config.Config\<close> that the service and the periodic clean-up read.\<close>

record auth_config =
  cfg_argon :: argon_params
  cfg_ServerSecret :: string
  cfg_JWTSecret :: string
  cfg_JWTAccessTTL :: time
  cfg_JWTRefreshTTL :: time
  cfg_ServerURL :: string
  cfg_ServerName :: string
  cfg_ServerEnv :: string
  cfg_MFAEncryptionKey :: string
  cfg_MFATicketTTL :: time
  cfg_DeletionTombstoneUsernames :: bool
  cfg_LoginAttemptRetention :: time
  cfg_DeletionTombstoneRetention :: time
  cfg_AttachmentOrphanTTL :: time

definition IsDevelopment :: "auth_config \<Rightarrow> bool" where
  "IsDevelopment cfg \<longleftrightarrow> cfg_ServerEnv cfg = ''development''"

definition MFAConfigured :: "auth_config \<Rightarrow> bool" where
  "MFAConfigured cfg \<longleftrightarrow> cfg_MFAEncryptionKey cfg \<noteq> []"

text \<open>The TOTP package: a code is checked against the secret at a time; a new key has a secret and a URL.\<close>

record totp_lib =
  totp_Validate :: "time \<Rightarrow> string \<Rightarrow> string \<Rightarrow> bool"
  totp_Generate :: "string \<Rightarrow> string \<Rightarrow> string \<Rightarrow> (string \<times> string) result"

text \<open>Everything outside the repository that the service calls.\<close>

record 'r service =
  sv_cfg :: auth_config
  sv_uuid :: uuid_lib
  sv_jwt :: jwt_lib
  sv_argon :: argon_lib
  sv_crypto :: crypto_lib
  sv_mail :: mail_lib
  sv_totp :: totp_lib
  sv_valkey :: "'r valkey"
  sv_inet :: "string \<Rightarrow> bool"

text \<open>A mail: recipient, token, server URL and server name.\<close>

record 'r site =
  si_world :: "'r world"
  si_blocklist :: Blocklist
  si_mails :: "(string \<times> string \<times> string \<times> string) list"

definition at_db :: "('a, db) call \<Rightarrow> ('a, 'r site) call" where
  "at_db f s = (case on_db f (si_world s) of (x, w) \<Rightarrow> (x, s\<lparr>si_world := w\<rparr>))"

definition at_vk :: "('a, 'r) call \<Rightarrow> ('a, 'r site) call" where
  "at_vk f s = (case on_vk f (si_world s) of (x, w) \<Rightarrow> (x, s\<lparr>si_world := w\<rparr>))"

definition at_list :: "('a, Blocklist) call \<Rightarrow> ('a, 'r site) call" where
  "at_list f s = (case f (si_blocklist s) of (x, b) \<Rightarrow> (x, s\<lparr>si_blocklist := b\<rparr>))"

definition SendVerification :: "auth_config \<Rightarrow> string \<Rightarrow> string \<Rightarrow> (unit, 'r site) call" where
  "SendVerification cfg email token =
     modifyc (\<lambda>s. s\<lparr>si_mails := si_mails s @ [(email, token, cfg_ServerURL cfg, cfg_ServerName cfg)]\<rparr>)"

text \<open>\<open>generateSecureToken\<close>: the hexadecimal text of \<open>n\<close> random bytes\<close>

definition verifyTokenBytes :: nat where "verifyTokenBytes = 32"

definition generateSecureToken :: "nat \<Rightarrow> string \<Rightarrow> string" where
  "generateSecureToken n rnd = hex_Encode (take n rnd)"

record RegisterRequest =
  rr_Email :: string
  rr_Username :: string
  rr_Password :: string

record LoginRequest =
  lr_Email :: string
  lr_Password :: string
  lr_IP :: string

record AuthResult =
  re_User :: UserModel
  re_AccessToken :: string
  re_RefreshToken :: string

datatype LoginResult = MFARequired string | LoggedIn AuthResult

record TokenPair =
  tp_AccessToken :: string
  tp_RefreshToken :: string

section \<open>Tokens\<close>

definition issueTokens :: "'r service \<Rightarrow> time \<Rightarrow> uuid \<Rightarrow> uuid \<Rightarrow> bool \<Rightarrow> (TokenPair, 'r site) call" where
  "issueTokens S now newTok userID emailVerified =
     bindc (maperr (Wrap ''create access token'')
       (lift (NewAccessToken (sv_uuid S) (sv_jwt S) now userID (cfg_JWTSecret (sv_cfg S)) (cfg_JWTAccessTTL (sv_cfg S))
          (cfg_ServerURL (sv_cfg S)) emailVerified))) (\<lambda>accessToken.
     bindc (maperr (Wrap ''create refresh token'')
       (at_vk (CreateRefreshToken (sv_uuid S) (sv_valkey S) newTok userID (cfg_JWTRefreshTTL (sv_cfg S))))) (\<lambda>refreshToken.
     ret \<lparr>tp_AccessToken = accessToken, tp_RefreshToken = refreshToken\<rparr>))"

definition result_of :: "UserModel \<Rightarrow> TokenPair \<Rightarrow> AuthResult" where
  "result_of u t = \<lparr>re_User = u, re_AccessToken = tp_AccessToken t, re_RefreshToken = tp_RefreshToken t\<rparr>"

definition recordLoginAttempt :: "'r service \<Rightarrow> time \<Rightarrow> string \<Rightarrow> string \<Rightarrow> bool \<Rightarrow> (unit, 'r site) call" where
  "recordLoginAttempt S now email ip success = quiet (at_db (RecordLoginAttempt (sv_inet S) now email ip success))"

definition RevokeAllUserTokens :: "'r service \<Rightarrow> uuid \<Rightarrow> (unit, 'r site) call" where
  "RevokeAllUserTokens S userID = at_vk (RevokeAllRefreshTokens (sv_uuid S) (sv_valkey S) userID)"

definition IssueGatewayTicket :: "'r service \<Rightarrow> uuid \<Rightarrow> uuid \<Rightarrow> (string, 'r site) call" where
  "IssueGatewayTicket S new userID = at_vk (CreateGatewayTicket (sv_uuid S) (sv_valkey S) new userID)"

section \<open>Registration and login\<close>

text \<open>\<open>NewService\<close> fails if the password parameters are unusable; a login of an unknown user is compared with the dummy hash.\<close>

definition NewService :: "'r service \<Rightarrow> string \<Rightarrow> string result" where
  "NewService S salt =
     (case HashPassword (sv_argon S) salt ''uncord-dummy-password'' (cfg_argon (sv_cfg S)) of
        Inl e \<Rightarrow> Inl (Wrap ''generate dummy hash'' e)
      | Inr dummy \<Rightarrow> Inr dummy)"

text \<open>The tombstone of an identifier refuses the registration.\<close>

definition check_tombstone :: "string \<Rightarrow> string \<Rightarrow> TombstoneType \<Rightarrow> string \<Rightarrow> 'r service \<Rightarrow> (unit, 'r site) call" where
  "check_tombstone msg1 msg2 kind identifier S =
     bindc (maperr (Wrap msg1) (lift (HMACIdentifier (sv_crypto S) identifier (cfg_ServerSecret (sv_cfg S))))) (\<lambda>h.
     bindc (maperr (Wrap msg2) (at_db (CheckTombstone kind h))) (\<lambda>tombstoned.
     if tombstoned then fail ErrAccountTombstoned else ret ()))"

definition Register ::
  "'r service \<Rightarrow> time \<Rightarrow> uuid \<Rightarrow> uuid \<Rightarrow> string \<Rightarrow> string \<Rightarrow> (nat \<times> string) result \<Rightarrow> RegisterRequest \<Rightarrow> (AuthResult, 'r site) call" where
  "Register S now newID newTok salt rnd fetch req =
     bindc (lift (ValidateEmail (sv_mail S) (rr_Email req))) (\<lambda>(email, domain).
     bindc (lift (ValidateUsername (rr_Username req))) (\<lambda>_.
     bindc (lift (ValidatePassword (rr_Password req))) (\<lambda>_.
     bindc (recover False (at_list (IsBlocked (lower_tab (sv_mail S)) fetch domain))) (\<lambda>blocked.
     if blocked then fail ErrDisposableEmail
     else bindc (check_tombstone ''compute email HMAC'' ''check email tombstone'' TombstoneEmail email S) (\<lambda>_.
     bindc (check_tombstone ''compute username HMAC'' ''check username tombstone'' TombstoneUsername
              (ToLower (lower_tab (sv_mail S)) (rr_Username req)) S) (\<lambda>_.
     bindc (maperr (Wrap ''hash password'') (lift (HashPassword (sv_argon S) salt (rr_Password req) (cfg_argon (sv_cfg S))))) (\<lambda>hash.
     let verifyToken = generateSecureToken verifyTokenBytes rnd
     in bindc (maperr (\<lambda>e. if errors_Is e user_ErrAlreadyExists then ErrEmailAlreadyTaken else Wrap ''create user'' e)
          (at_db (user_Create newID now \<lparr>uc_Email = email, uc_Username = rr_Username req, uc_PasswordHash = hash,
             uc_VerifyToken = verifyToken, uc_VerifyExpiry = now + 24 * 60 * 60 * 1000\<rparr>))) (\<lambda>userID.
     bindc (SendVerification (sv_cfg S) email verifyToken) (\<lambda>_.
     bindc (issueTokens S now newTok userID False) (\<lambda>tokens.
     ret (result_of \<lparr>um_ID = uuid_String (sv_uuid S) userID, um_Email = email, um_Username = rr_Username req,
            um_DisplayName = None, um_AvatarKey = None, um_Pronouns = None, um_BannerKey = None, um_About = None,
            um_ThemeColourPrimary = None, um_ThemeColourSecondary = None, um_MFAEnabled = False, um_EmailVerified = False\<rparr> tokens)
     ))))))))))"

text \<open>The lazy rotation of a password hash; its errors are only logged.\<close>

definition rotate_hash :: "'r service \<Rightarrow> string \<Rightarrow> Credentials \<Rightarrow> string \<Rightarrow> (unit, 'r site) call" where
  "rotate_hash S salt u password =
     (if NeedsRehash (sv_argon S) (cd_PasswordHash u) (cfg_argon (sv_cfg S)) = Inr True
      then case HashPassword (sv_argon S) salt password (cfg_argon (sv_cfg S)) of
             Inl _ \<Rightarrow> ret ()
           | Inr newHash \<Rightarrow> quiet (at_db (UpdatePasswordHash (us_ID u) newHash))
      else ret ())"

text \<open>The part of \<open>Login\<close> after the password was accepted.\<close>

definition finish_login ::
  "'r service \<Rightarrow> time \<Rightarrow> uuid \<Rightarrow> string \<Rightarrow> string \<Rightarrow> LoginRequest \<Rightarrow> Credentials \<Rightarrow> (LoginResult, 'r site) call" where
  "finish_login S now newTok salt email req u =
     (if us_MFAEnabled u
      then bindc (maperr (Wrap ''create MFA ticket'')
             (at_vk (CreateMFATicket (sv_uuid S) (sv_valkey S) newTok (us_ID u) (cfg_MFATicketTTL (sv_cfg S))))) (\<lambda>ticket.
           bindc (recordLoginAttempt S now email (lr_IP req) True) (\<lambda>_. ret (MFARequired ticket)))
      else bindc (rotate_hash S salt u (lr_Password req)) (\<lambda>_.
           bindc (recordLoginAttempt S now email (lr_IP req) True) (\<lambda>_.
           bindc (issueTokens S now newTok (us_ID u) (us_EmailVerified u)) (\<lambda>tokens.
           ret (LoggedIn (result_of (user_ToModel (sv_uuid S) u) tokens))))))"

definition Login ::
  "'r service \<Rightarrow> time \<Rightarrow> uuid \<Rightarrow> string \<Rightarrow> LoginRequest \<Rightarrow> (LoginResult, 'r site) call" where
  "Login S now newTok salt req =
     bindc (lift (ValidateEmail (sv_mail S) (lr_Email req))) (\<lambda>(email, _).
     catchc (at_db (GetByEmail email))
       (\<lambda>e. if errors_Is e user_ErrNotFound
            then bindc (recordLoginAttempt S now email (lr_IP req) False) (\<lambda>_. fail ErrInvalidCredentials)
            else fail (Wrap ''get user'' e)) (\<lambda>u.
     bindc (maperr (Wrap ''verify password'') (lift (VerifyPassword (sv_argon S) (lr_Password req) (cd_PasswordHash u)))) (\<lambda>match.
     if \<not> match then bindc (recordLoginAttempt S now email (lr_IP req) False) (\<lambda>_. fail ErrInvalidCredentials)
     else finish_login S now newTok salt email req u)))"

section \<open>Refresh and verification\<close>

text \<open>\<open>Refresh\<close> looks the token up before it rotates it, to know whose tokens to revoke.\<close>

definition rotate_refresh :: "'r service \<Rightarrow> time \<Rightarrow> uuid \<Rightarrow> string \<Rightarrow> uuid result \<Rightarrow> (TokenPair, 'r site) call" where
  "rotate_refresh S now newTok oldToken looked =
      catchc (at_vk (RotateRefreshToken (sv_uuid S) (sv_valkey S) newTok oldToken (cfg_JWTRefreshTTL (sv_cfg S))))
        (\<lambda>e. if errors_Is e ErrRefreshTokenReused
             then (case looked of
                     Inr lookedUp \<Rightarrow> bindc (quiet (at_vk (RevokeAllRefreshTokens (sv_uuid S) (sv_valkey S) lookedUp)))
                       (\<lambda>_. fail ErrRefreshTokenReused)
                   | Inl _ \<Rightarrow> fail ErrRefreshTokenReused)
             else if (case looked of Inl ve \<Rightarrow> errors_Is ve ErrRefreshTokenNotFound | Inr _ \<Rightarrow> False)
             then fail ErrRefreshTokenReused
             else fail e) (\<lambda>(newRefresh, userID).
      bindc (maperr (Wrap ''get user for refresh'') (at_db (user_GetByID userID))) (\<lambda>u.
      bindc (maperr (Wrap ''create access token'')
        (lift (NewAccessToken (sv_uuid S) (sv_jwt S) now userID (cfg_JWTSecret (sv_cfg S)) (cfg_JWTAccessTTL (sv_cfg S))
           (cfg_ServerURL (sv_cfg S)) (us_EmailVerified u)))) (\<lambda>accessToken.
      ret \<lparr>tp_AccessToken = accessToken, tp_RefreshToken = newRefresh\<rparr>)))"

definition Refresh :: "'r service \<Rightarrow> time \<Rightarrow> uuid \<Rightarrow> string \<Rightarrow> (TokenPair, 'r site) call" where
  "Refresh S now newTok oldToken s =
     (case at_vk (ValidateRefreshToken (sv_uuid S) (sv_valkey S) oldToken) s of
        (looked, s1) \<Rightarrow> rotate_refresh S now newTok oldToken looked s1)"

definition VerifyEmail :: "'r service \<Rightarrow> time \<Rightarrow> uuid \<Rightarrow> string \<Rightarrow> (AuthResult, 'r site) call" where
  "VerifyEmail S now newTok token =
     bindc (maperr (\<lambda>e. if errors_Is e user_ErrInvalidToken then ErrInvalidToken else Wrap ''verify email'' e)
       (at_db (repo_VerifyEmail now token))) (\<lambda>userID.
     bindc (maperr (Wrap ''get user after email verification'') (at_db (user_GetByID userID))) (\<lambda>u.
     bindc (issueTokens S now newTok userID True) (\<lambda>tokens.
     ret (result_of (user_ToModel (sv_uuid S) u) tokens))))"

definition ResendVerification :: "'r service \<Rightarrow> time \<Rightarrow> string \<Rightarrow> uuid \<Rightarrow> (unit, 'r site) call" where
  "ResendVerification S now rnd userID =
     bindc (maperr (Wrap ''get user for resend verification'') (at_db (user_GetByID userID))) (\<lambda>u.
     if us_EmailVerified u then fail ErrEmailAlreadyVerified
     else let verifyToken = generateSecureToken verifyTokenBytes rnd
     in bindc (maperr (\<lambda>e. if errors_Is e user_ErrVerificationCooldown then ErrVerificationCooldown
                           else Wrap ''replace verification token'' e)
          (at_db (ReplaceVerificationToken now userID verifyToken (now + 24 * 60 * 60 * 1000) (60 * 1000)))) (\<lambda>_.
     SendVerification (sv_cfg S) (us_Email u) verifyToken))"

section \<open>Multi-factor authentication\<close>

text \<open>Every code is checked, the first that matches is taken, errors of the check are skipped.\<close>

fun match_code :: "argon_lib \<Rightarrow> string \<Rightarrow> MFARecoveryCode option \<Rightarrow> MFARecoveryCode list \<Rightarrow> MFARecoveryCode option" where
  "match_code A code matched [] = matched"
| "match_code A code matched (rc # rcs) =
     (case VerifyRecoveryCode A code (rec_CodeHash rc) of
        Inl _ \<Rightarrow> match_code A code matched rcs
      | Inr match \<Rightarrow> match_code A code (if match \<and> matched = None then Some rc else matched) rcs)"

definition tryRecoveryCode :: "'r service \<Rightarrow> time \<Rightarrow> uuid \<Rightarrow> string \<Rightarrow> (unit, 'r site) call" where
  "tryRecoveryCode S now userID code =
     bindc (maperr (Wrap ''get recovery codes'') (at_db (GetUnusedRecoveryCodes userID))) (\<lambda>codes.
     case match_code (sv_argon S) code None codes of
       None \<Rightarrow> fail ErrInvalidMFACode
     | Some rc \<Rightarrow> maperr (Wrap ''mark recovery code used'') (at_db (UseRecoveryCode now (rec_ID rc))))"

definition completeMFALogin :: "'r service \<Rightarrow> time \<Rightarrow> uuid \<Rightarrow> Credentials \<Rightarrow> (AuthResult, 'r site) call" where
  "completeMFALogin S now newTok creds =
     bindc (issueTokens S now newTok (us_ID creds) (us_EmailVerified creds)) (\<lambda>tokens.
     ret (result_of (user_ToModel (sv_uuid S) creds) tokens))"

definition VerifyMFA :: "'r service \<Rightarrow> time \<Rightarrow> uuid \<Rightarrow> string \<Rightarrow> string \<Rightarrow> (AuthResult, 'r site) call" where
  "VerifyMFA S now newTok ticket code =
     bindc (at_vk (ConsumeMFATicket (sv_uuid S) (sv_valkey S) ticket)) (\<lambda>userID.
     bindc (maperr (Wrap ''get credentials for MFA verify'') (at_db (GetCredentialsByID userID))) (\<lambda>creds.
     case cd_MFASecret creds of
       None \<Rightarrow> fail ErrMFANotEnabled
     | Some enc \<Rightarrow>
         (if \<not> MFAConfigured (sv_cfg S) then fail ErrMFANotConfigured
          else bindc (maperr (Wrap ''decrypt MFA secret'') (lift (DecryptTOTPSecret (sv_crypto S) enc (cfg_MFAEncryptionKey (sv_cfg S))))) (\<lambda>secret.
          if totp_Validate (sv_totp S) now code secret then completeMFALogin S now newTok creds
          else bindc (maperr (\<lambda>e. if errors_Is e ErrInvalidMFACode then ErrInvalidMFACode
                                  else Wrap ''try recovery code during login'' e) (tryRecoveryCode S now userID code)) (\<lambda>_.
          completeMFALogin S now newTok creds)))))"

definition require_password :: "'r service \<Rightarrow> string \<Rightarrow> string \<Rightarrow> string \<Rightarrow> (unit, 'r site) call" where
  "require_password S msg password hash =
     bindc (maperr (Wrap msg) (lift (VerifyPassword (sv_argon S) password hash))) (\<lambda>match.
     if \<not> match then fail ErrInvalidCredentials else ret ())"

definition BeginMFASetup :: "'r service \<Rightarrow> string \<Rightarrow> string \<Rightarrow> uuid \<Rightarrow> string \<Rightarrow> (string \<times> string, 'r site) call" where
  "BeginMFASetup S rnd nonce userID password =
     (if \<not> MFAConfigured (sv_cfg S) then fail ErrMFANotConfigured
      else bindc (maperr (Wrap ''get credentials for MFA setup'') (at_db (GetCredentialsByID userID))) (\<lambda>creds.
      bindc (require_password S ''verify password for MFA setup'' password (cd_PasswordHash creds)) (\<lambda>_.
      if us_MFAEnabled creds then fail ErrMFAAlreadyEnabled
      else bindc (maperr (Wrap ''generate TOTP key'') (lift (totp_Generate (sv_totp S) rnd (cfg_ServerName (sv_cfg S)) (us_Email creds)))) (\<lambda>(secret, uri).
      bindc (maperr (Wrap ''encrypt TOTP secret'') (lift (EncryptTOTPSecret (sv_crypto S) nonce secret (cfg_MFAEncryptionKey (sv_cfg S))))) (\<lambda>encrypted.
      bindc (at_vk (StorePendingMFASecret (sv_uuid S) (sv_valkey S) userID encrypted)) (\<lambda>_.
      bindc (quiet (at_vk (ResetMFASetupAttempts (sv_uuid S) (sv_valkey S) userID))) (\<lambda>_.
      ret (secret, uri))))))))"

text \<open>The loop that hashes the codes stops at the first error.\<close>

fun hash_codes :: "argon_lib \<Rightarrow> argon_params \<Rightarrow> (nat \<Rightarrow> string) \<Rightarrow> nat \<Rightarrow> string list \<Rightarrow> string list result" where
  "hash_codes A p salts i [] = Inr []"
| "hash_codes A p salts i (c # cs) =
     (case HashRecoveryCode A (salts i) c p of
        Inl e \<Rightarrow> Inl (Wrap ''hash recovery code'' e)
      | Inr h \<Rightarrow> (case hash_codes A p salts (Suc i) cs of Inl e \<Rightarrow> Inl e | Inr hs \<Rightarrow> Inr (h # hs)))"

definition ConfirmMFASetup ::
  "'r service \<Rightarrow> time \<Rightarrow> uuid list \<Rightarrow> (nat \<Rightarrow> string) \<Rightarrow> (nat \<Rightarrow> string) \<Rightarrow> uuid \<Rightarrow> string \<Rightarrow> (string list, 'r site) call" where
  "ConfirmMFASetup S now ids rnd salts userID code =
     (if \<not> MFAConfigured (sv_cfg S) then fail ErrMFANotConfigured
      else bindc (at_vk (ConsumePendingMFASecret (sv_uuid S) (sv_valkey S) userID)) (\<lambda>encrypted.
      bindc (maperr (Wrap ''decrypt pending MFA secret'') (lift (DecryptTOTPSecret (sv_crypto S) encrypted (cfg_MFAEncryptionKey (sv_cfg S))))) (\<lambda>secret.
      if \<not> totp_Validate (sv_totp S) now code secret
      then bindc (recover 0 (at_vk (IncrementMFASetupAttempts (sv_uuid S) (sv_valkey S) userID))) (\<lambda>attempts.
           if attempts \<ge> maxMFASetupAttempts then fail ErrMFASetupLocked
           else bindc (quiet (at_vk (StorePendingMFASecret (sv_uuid S) (sv_valkey S) userID encrypted))) (\<lambda>_. fail ErrInvalidMFACode))
      else let codes = GenerateRecoveryCodes rnd
      in bindc (lift (hash_codes (sv_argon S) (cfg_argon (sv_cfg S)) salts 0 codes)) (\<lambda>hashes.
      bindc (maperr (Wrap ''enable MFA'') (at_db (repo_EnableMFA ids userID encrypted hashes))) (\<lambda>_.
      ret codes)))))"

definition DisableMFA :: "'r service \<Rightarrow> time \<Rightarrow> uuid \<Rightarrow> string \<Rightarrow> string \<Rightarrow> (unit, 'r site) call" where
  "DisableMFA S now userID password code =
     bindc (maperr (Wrap ''get credentials for MFA disable'') (at_db (GetCredentialsByID userID))) (\<lambda>creds.
     bindc (require_password S ''verify password for MFA disable'' password (cd_PasswordHash creds)) (\<lambda>_.
     case (us_MFAEnabled creds, cd_MFASecret creds) of
       (True, Some enc) \<Rightarrow>
         (if \<not> MFAConfigured (sv_cfg S) then fail ErrMFANotConfigured
          else bindc (maperr (Wrap ''decrypt MFA secret'') (lift (DecryptTOTPSecret (sv_crypto S) enc (cfg_MFAEncryptionKey (sv_cfg S))))) (\<lambda>secret.
          bindc (if totp_Validate (sv_totp S) now code secret then ret ()
                 else maperr (\<lambda>e. if errors_Is e ErrInvalidMFACode then ErrInvalidMFACode
                                  else Wrap ''try recovery code during MFA disable'' e) (tryRecoveryCode S now userID code)) (\<lambda>_.
          bindc (maperr (Wrap ''disable MFA'') (at_db (repo_DisableMFA userID))) (\<lambda>_.
          quiet (at_vk (RevokeAllRefreshTokens (sv_uuid S) (sv_valkey S) userID))))))
     | _ \<Rightarrow> fail ErrMFANotEnabled))"

definition RegenerateRecoveryCodes ::
  "'r service \<Rightarrow> uuid list \<Rightarrow> (nat \<Rightarrow> string) \<Rightarrow> (nat \<Rightarrow> string) \<Rightarrow> uuid \<Rightarrow> string \<Rightarrow> (string list, 'r site) call" where
  "RegenerateRecoveryCodes S ids rnd salts userID password =
     bindc (maperr (Wrap ''get credentials for recovery code regeneration'') (at_db (GetCredentialsByID userID))) (\<lambda>creds.
     bindc (require_password S ''verify password for recovery code regeneration'' password (cd_PasswordHash creds)) (\<lambda>_.
     if \<not> us_MFAEnabled creds then fail ErrMFANotEnabled
     else let codes = GenerateRecoveryCodes rnd
     in bindc (lift (hash_codes (sv_argon S) (cfg_argon (sv_cfg S)) salts 0 codes)) (\<lambda>hashes.
     bindc (maperr (Wrap ''replace recovery codes'') (at_db (ReplaceRecoveryCodes ids userID hashes))) (\<lambda>_.
     ret codes))))"

section \<open>Passwords and deletion\<close>

definition VerifyUserPassword :: "'r service \<Rightarrow> uuid \<Rightarrow> string \<Rightarrow> (unit, 'r site) call" where
  "VerifyUserPassword S userID password =
     bindc (maperr (Wrap ''get credentials for password verification'') (at_db (GetCredentialsByID userID))) (\<lambda>creds.
     require_password S ''verify password'' password (cd_PasswordHash creds))"

definition DeleteAccount :: "'r service \<Rightarrow> time \<Rightarrow> uuid \<Rightarrow> string \<Rightarrow> (unit, 'r site) call" where
  "DeleteAccount S now userID password =
     bindc (maperr (Wrap ''get credentials for account deletion'') (at_db (GetCredentialsByID userID))) (\<lambda>creds.
     bindc (require_password S ''verify password for account deletion'' password (cd_PasswordHash creds)) (\<lambda>_.
     bindc (maperr (Wrap ''get server config'') (at_db server_Get)) (\<lambda>serverCfg.
     if c_owner_id serverCfg = userID then fail ErrServerOwner
     else bindc (maperr (Wrap ''compute email HMAC'') (lift (HMACIdentifier (sv_crypto S) (us_Email creds) (cfg_ServerSecret (sv_cfg S))))) (\<lambda>emailHMAC.
     bindc (if cfg_DeletionTombstoneUsernames (sv_cfg S)
            then bindc (maperr (Wrap ''compute username HMAC'')
                   (lift (HMACIdentifier (sv_crypto S) (ToLower (lower_tab (sv_mail S)) (us_Username creds)) (cfg_ServerSecret (sv_cfg S))))) (\<lambda>usernameHMAC.
                 ret [\<lparr>tb_IdentifierType = TombstoneUsername, tb_HMACHash = usernameHMAC\<rparr>])
            else ret []) (\<lambda>more.
     bindc (maperr (Wrap ''delete user with tombstones'')
       (at_db (DeleteWithTombstones now userID (\<lparr>tb_IdentifierType = TombstoneEmail, tb_HMACHash = emailHMAC\<rparr> # more)))) (\<lambda>_.
     bindc (quiet (at_vk (RevokeAllRefreshTokens (sv_uuid S) (sv_valkey S) userID))) (\<lambda>_.
     quiet (at_vk (InvalidateUser (sv_uuid S) (sv_valkey S) userID)))))))))"

end
