(* ===== verification/Users_Laws.thy ===== *)
theory Users_Laws
  imports Users Member_Laws
begin

text \<open>
  What the account repository guarantees: the invariant of its tables together with those of the
  members, the single use of verification tokens and recovery codes, and the end of the purge
  loops; and a race between two uses of one recovery code.
\<close>

section \<open>The account tables\<close>

definition live_verifications :: "uuid \<Rightarrow> db \<Rightarrow> verification_row list" where
  "live_verifications u d = filter (\<lambda>v. vf_user_id v = u \<and> vf_consumed_at v = None) (t_email_verifications d)"

definition user_ids :: "db \<Rightarrow> uuid set" where
  "user_ids d = u_id ` set (t_users d)"

definition users_ok :: "db \<Rightarrow> bool" where
  "users_ok d \<longleftrightarrow>
     distinct (map u_id (t_users d)) \<and> distinct (map u_email (t_users d)) \<and> distinct (map u_username (t_users d))
     \<and> (\<forall>u \<in> set (t_users d). u_mfa_enabled u \<longleftrightarrow> u_mfa_secret u \<noteq> None)
     \<and> distinct (map vf_token (t_email_verifications d)) \<and> (\<forall>v \<in> set (t_email_verifications d). vf_user_id v \<in> user_ids d)
     \<and> distinct (map rc_id (t_recovery_codes d)) \<and> (\<forall>c \<in> set (t_recovery_codes d). rc_user_id c \<in> user_ids d)
     \<and> distinct (map (\<lambda>t. (ts_identifier_type t, ts_hmac_hash t)) (t_tombstones d))"

definition one_live_token :: "db \<Rightarrow> bool" where
  "one_live_token d \<longleftrightarrow> (\<forall>u. length (live_verifications u d) \<le> 1)"

interpretation users: table_invariant users_ok
  by unfold_locales (simp add: users_ok_def user_ids_def)

interpretation live: table_invariant one_live_token
  by unfold_locales (simp add: one_live_token_def live_verifications_def)

interpretation members: table_invariant members_inv
  by unfold_locales (simp add: members_inv_def members_ok_def user_exists_def)

text \<open>An update of a user that keeps the columns the invariant speaks of.\<close>

definition harmless :: "(user_row \<Rightarrow> user_row) \<Rightarrow> bool" where
  "harmless f \<longleftrightarrow> (\<forall>u. u_id (f u) = u_id u \<and> u_email (f u) = u_email u \<and> u_username (f u) = u_username u
     \<and> ((u_mfa_enabled u \<longleftrightarrow> u_mfa_secret u \<noteq> None) \<longrightarrow> (u_mfa_enabled (f u) \<longleftrightarrow> u_mfa_secret (f u) \<noteq> None)))"

lemma map_if_same: "(\<And>x. g (f x) = g x) \<Longrightarrow> map g (map (\<lambda>x. if P x then f x else x) xs) = map g xs"
  by simp

lemmas map_verifications = map_if_same [where g = "vf_token :: verification_row \<Rightarrow> string" and f = "\<lambda>v. v\<lparr>vf_consumed_at := x\<rparr>" for x]
  map_if_same [where g = "rc_id :: recovery_row \<Rightarrow> uuid" and f = "\<lambda>c. c\<lparr>rc_used_at := x\<rparr>" for x]

lemma map_users: "(\<And>u. g (f u) = g u) \<Longrightarrow> map g (t_users (snd (update_user i f d))) = map g (t_users d)"
  by (simp add: update_user_def)

lemma user_ids_update [simp]: "harmless f \<Longrightarrow> user_ids (snd (update_user i f d)) = user_ids d"
  using arg_cong [OF map_users [of u_id f i d], of set] by (simp add: user_ids_def harmless_def)

lemma users_ok_update: "harmless f \<Longrightarrow> users_ok d \<Longrightarrow> users_ok (snd (update_user i f d))"
proof -
  assume h: "harmless f" and ok: "users_ok d"
  have "map u_id (t_users (snd (update_user i f d))) = map u_id (t_users d)"
    "map u_email (t_users (snd (update_user i f d))) = map u_email (t_users d)"
    "map u_username (t_users (snd (update_user i f d))) = map u_username (t_users d)"
    using h by (auto intro!: map_users simp: harmless_def)
  moreover have "\<forall>u \<in> set (t_users (snd (update_user i f d))). u_mfa_enabled u \<longleftrightarrow> u_mfa_secret u \<noteq> None"
    using h ok by (auto simp: update_user_def harmless_def users_ok_def)
  moreover have "t_email_verifications (snd (update_user i f d)) = t_email_verifications d"
    "t_recovery_codes (snd (update_user i f d)) = t_recovery_codes d" "t_tombstones (snd (update_user i f d)) = t_tombstones d"
    by (simp_all add: update_user_def)
  ultimately show ?thesis using ok h by (simp add: users_ok_def)
qed

lemma distinct_map_filter_mono: "distinct (map f xs) \<Longrightarrow> distinct (map f (filter P xs))"
  by (rule distinct_map_filter)

lemma remove_limited_sublist: "set (remove_limited P n xs) \<subseteq> set xs"
  by (induction P n xs rule: remove_limited.induct) (auto split: nat.splits)

lemma remove_limited_distinct: "distinct (map f xs) \<Longrightarrow> distinct (map f (remove_limited P n xs))"
proof (induction P n xs rule: remove_limited.induct)
  case (2 P n x xs)
  then show ?case using remove_limited_sublist by (fastforce split: nat.splits)
qed simp

lemma users_ok_statements:
  assumes "users_ok d"
  shows "users_ok (snd (insert_user n t p d))" "users_ok (snd (insert_verification t u tok e d))"
    "users_ok (snd (consume_verification t tok d))" "users_ok (snd (invalidate_verifications t u d))"
    "users_ok (snd (insert_login inet t m ip s d))" "users_ok (snd (copy_codes ids u hs d))"
    "users_ok (snd (delete_codes u d))" "users_ok (snd (mark_code t c d))" "users_ok (snd (insert_tombstone t b d))"
    "users_ok (snd (delete_user t u d))" "users_ok (snd (purge_logins t d))" "users_ok (snd (purge_tombstones t d))"
proof -
  show "users_ok (snd (insert_user n t p d))" using assms by (auto simp: insert_user_def users_ok_def user_ids_def)
  show "users_ok (snd (insert_verification t u tok e d))" using assms by (auto simp: insert_verification_def users_ok_def user_ids_def)
  show "users_ok (snd (consume_verification t tok d))"
    unfolding consume_verification_def using assms by (auto simp: users_ok_def user_ids_def map_verifications simp del: map_map)
  show "users_ok (snd (invalidate_verifications t u d))"
    unfolding invalidate_verifications_def using assms by (auto simp: users_ok_def user_ids_def map_verifications simp del: map_map)
  show "users_ok (snd (insert_login inet t m ip s d))" using assms by (auto simp: insert_login_def users_ok_def user_ids_def)
  define rows where "rows = map (\<lambda>(i, h). \<lparr>rc_id = i, rc_user_id = u, rc_code_hash = h, rc_used_at = None\<rparr>) (zip ids hs)"
  have "snd (copy_codes ids u hs d) = d \<or> (snd (copy_codes ids u hs d) = d\<lparr>t_recovery_codes := t_recovery_codes d @ rows\<rparr>
      \<and> distinct (map rc_id (t_recovery_codes d @ rows)) \<and> (rows = [] \<or> u \<in> user_ids d))"
    unfolding copy_codes_def rows_def [symmetric] Let_def by (simp add: user_ids_def)
  moreover have "rc_user_id c = u" if "c \<in> set rows" for c using that by (auto simp: rows_def)
  ultimately show "users_ok (snd (copy_codes ids u hs d))"
    using assms by (auto simp: users_ok_def user_ids_def simp del: map_append)
  show "users_ok (snd (delete_codes u d))"
    using assms by (auto simp: delete_codes_def users_ok_def user_ids_def distinct_map_filter)
  show "users_ok (snd (mark_code t c d))"
    unfolding mark_code_def using assms by (auto simp: users_ok_def user_ids_def map_verifications simp del: map_map)
  show "users_ok (snd (insert_tombstone t b d))" using assms by (auto simp: insert_tombstone_def users_ok_def user_ids_def)
  show "users_ok (snd (delete_user t u d))"
    using assms by (auto simp: delete_user_def without_user_def users_ok_def user_ids_def distinct_map_filter)
  show "users_ok (snd (purge_logins t d))" using assms by (auto simp: purge_logins_def users_ok_def user_ids_def Let_def)
  show "users_ok (snd (purge_tombstones t d))"
    using assms by (auto simp: purge_tombstones_def users_ok_def user_ids_def Let_def remove_limited_distinct)
qed


section \<open>The calls of the repository\<close>

lemma harmless_updates [simp]:
  "harmless (\<lambda>u. u\<lparr>u_email_verified := b\<rparr>)" "harmless (\<lambda>u. u\<lparr>u_password_hash := h\<rparr>)" "harmless (updated_user p)"
  "harmless (\<lambda>u. u\<lparr>u_avatar_key := k\<rparr>)" "harmless (\<lambda>u. u\<lparr>u_banner_key := k\<rparr>)"
  "harmless (\<lambda>u. u\<lparr>u_mfa_secret := Some s, u_mfa_enabled := True\<rparr>)" "harmless (\<lambda>u. u\<lparr>u_mfa_secret := None, u_mfa_enabled := False\<rparr>)"
  by (simp_all add: harmless_def updated_user_def)

text \<open>The calls that write; each keeps what all their statements keep.\<close>

inductive user_write :: "db \<Rightarrow> db \<Rightarrow> bool" where
  call_create: "user_Create n t p d = (x, d') \<Longrightarrow> user_write d d'"
| call_verify: "repo_VerifyEmail t tok d = (x, d') \<Longrightarrow> user_write d d'"
| call_replace: "ReplaceVerificationToken t u tok e cool d = (y, d') \<Longrightarrow> user_write d d'"
| call_login: "RecordLoginAttempt inet t m ip s d = (y, d') \<Longrightarrow> user_write d d'"
| call_password: "UpdatePasswordHash u h d = (y, d') \<Longrightarrow> user_write d d'"
| call_update: "user_Update u q d = (z, d') \<Longrightarrow> user_write d d'"
| call_avatar: "SetAvatarKey u k d = (z, d') \<Longrightarrow> user_write d d'"
| call_no_avatar: "ClearAvatarKey u d = (z, d') \<Longrightarrow> user_write d d'"
| call_banner: "user_SetBannerKey u k d = (z, d') \<Longrightarrow> user_write d d'"
| call_no_banner: "user_ClearBannerKey u d = (z, d') \<Longrightarrow> user_write d d'"
| call_enable: "repo_EnableMFA ids u sec hs d = (y, d') \<Longrightarrow> user_write d d'"
| call_disable: "repo_DisableMFA u d = (y, d') \<Longrightarrow> user_write d d'"
| call_use: "UseRecoveryCode t c d = (y, d') \<Longrightarrow> user_write d d'"
| call_codes: "ReplaceRecoveryCodes ids u hs d = (y, d') \<Longrightarrow> user_write d d'"
| call_delete: "DeleteWithTombstones t u ts d = (y, d') \<Longrightarrow> user_write d d'"

text \<open>The periodic purges are calls as well.\<close>

inductive user_call :: "db \<Rightarrow> db \<Rightarrow> bool" where
  call_write: "user_write d d' \<Longrightarrow> user_call d d'"
| call_purge_logins: "PurgeLoginAttempts t d = Some (r, d') \<Longrightarrow> user_call d d'"
| call_purge_tombstones: "PurgeTombstones t d = Some (r, d') \<Longrightarrow> user_call d d'"

text \<open>An invariant that the statements on verification tokens keep is kept by the calls that insert one.\<close>

locale verification_statements = table_invariant I for I +
  assumes insert_user: "I d \<Longrightarrow> I (snd (insert_user n t p d))"
    and insert_verification: "I d \<Longrightarrow> I (snd (insert_verification t i tok e d))"
    and invalidate_verifications: "I d \<Longrightarrow> I (snd (invalidate_verifications t i d))"
begin

lemma create_keeps: "user_Create n t p d = (x, d') \<Longrightarrow> I d \<Longrightarrow> I d'"
  unfolding user_Create_def
  by (erule tx) (auto simp: user_create_tx_def split: prod.splits sum.splits if_splits
      dest: stmt [OF _ insert_user] stmt [OF _ insert_verification])

lemma replace_keeps: "ReplaceVerificationToken t u tok e cool d = (y, d') \<Longrightarrow> I d \<Longrightarrow> I d'"
  unfolding ReplaceVerificationToken_def
  by (erule tx) (auto simp: replace_verification_tx_def split: prod.splits sum.splits if_splits
      dest: query stmt [OF _ insert_verification] stmt [OF _ invalidate_verifications])

end

text \<open>An invariant that these two calls and every other statement keep.\<close>

locale user_writes = table_invariant I for I +
  assumes create: "user_Create n t p d = (x, d') \<Longrightarrow> I d \<Longrightarrow> I d'"
    and replace: "ReplaceVerificationToken t i tok e cool d = (y, d') \<Longrightarrow> I d \<Longrightarrow> I d'"
    and update_user: "harmless f \<Longrightarrow> I d \<Longrightarrow> I (snd (update_user i f d))"
    and consume_verification: "I d \<Longrightarrow> I (snd (consume_verification t tok d))"
    and insert_login: "I d \<Longrightarrow> I (snd (insert_login inet t m ip s d))"
    and copy_codes: "I d \<Longrightarrow> I (snd (copy_codes ids i hs d))"
    and delete_codes: "I d \<Longrightarrow> I (snd (delete_codes i d))"
    and mark_code: "I d \<Longrightarrow> I (snd (mark_code t c d))"
    and insert_tombstone: "I d \<Longrightarrow> I (snd (insert_tombstone t b d))"
    and delete_user: "I d \<Longrightarrow> I (snd (delete_user t i d))"
begin

lemma scanned: "scanUser q d = (x, d') \<Longrightarrow> (\<And>y e. q d = (y, e) \<Longrightarrow> I e) \<Longrightarrow> I d'"
  by (cases "q d") (auto simp: scanUser_def scan_row_def split: sum.splits option.splits)

lemma returning:
  assumes "user_update_returning msg i f d = (x, d')" and "harmless f" and "I d"
  shows "I d'"
proof -
  obtain y d1 where y: "scanUser (pg_stmt (update_user i f)) d = (y, d1)" by fastforce
  have "I d1" by (rule scanned [OF y]) (rule stmt [OF _ update_user [OF assms(2)] assms(3)])
  then show ?thesis using assms(1) y by (auto simp: user_update_returning_def split: sum.splits if_splits)
qed

lemma got: "user_GetByID i d = (x, d') \<Longrightarrow> I d \<Longrightarrow> I d'"
  by (cases "scanUser (pg_query (find_user i)) d")
    (auto simp: user_GetByID_def split: sum.splits if_splits dest: scanned query)

lemma tombs: "insert_tombstones t ts d = (x, d') \<Longrightarrow> I d \<Longrightarrow> I d'"
proof (induction ts arbitrary: d)
  case (Cons b ts)
  obtain y d1 where y: "pg_stmt (insert_tombstone t b) d = (y, d1)" by fastforce
  have "I d1" by (rule stmt [OF y insert_tombstone Cons.prems(2)])
  then show ?case using Cons y by (auto split: sum.splits)
qed simp

lemma user_write_inv:
  assumes "user_write d d'" and "I d"
  shows "I d'"
  using assms(1)
proof cases
  case (call_create n t p x)
  then show ?thesis using create assms(2) by blast
next
  case (call_verify t tok x)
  show ?thesis
    by (rule tx [OF call_verify [unfolded repo_VerifyEmail_def] _ assms(2)])
      (auto simp: verify_email_tx_def split: prod.splits sum.splits option.splits
        dest: stmt [OF _ consume_verification] stmt [OF _ update_user [OF harmless_updates(1)]])
next
  case (call_replace t u tok e cool y)
  then show ?thesis using replace assms(2) by blast
next
  case (call_login inet t m ip s y)
  then show ?thesis
    using assms(2) by (auto simp: RecordLoginAttempt_def split: prod.splits sum.splits dest: stmt [OF _ insert_login])
next
  case (call_password u h y)
  then show ?thesis
    using assms(2) by (auto simp: UpdatePasswordHash_def split: prod.splits sum.splits dest: stmt [OF _ update_user [OF harmless_updates(2)]])
next
  case (call_update u q z)
  then show ?thesis using assms(2) got returning by (auto simp: user_Update_def split: if_splits)
next
  case (call_avatar u k z)
  then show ?thesis using assms(2) returning unfolding SetAvatarKey_def by fastforce
next
  case (call_no_avatar u z)
  then show ?thesis using assms(2) returning unfolding ClearAvatarKey_def by fastforce
next
  case (call_banner u k z)
  then show ?thesis using assms(2) returning unfolding user_SetBannerKey_def by fastforce
next
  case (call_no_banner u z)
  then show ?thesis using assms(2) returning unfolding user_ClearBannerKey_def by fastforce
next
  case (call_enable ids u sec hs y)
  show ?thesis
    by (rule tx [OF call_enable [unfolded repo_EnableMFA_def] _ assms(2)])
      (auto simp: enable_mfa_tx_def copyRecoveryCodes_def split: prod.splits sum.splits
        dest: stmt [OF _ copy_codes] stmt [OF _ update_user [OF harmless_updates(6)]])
next
  case (call_disable u y)
  show ?thesis
    by (rule tx [OF call_disable [unfolded repo_DisableMFA_def] _ assms(2)])
      (auto simp: disable_mfa_tx_def split: prod.splits sum.splits
        dest: stmt [OF _ delete_codes] stmt [OF _ update_user [OF harmless_updates(7)]])
next
  case (call_use t c y)
  then show ?thesis
    using assms(2) by (auto simp: UseRecoveryCode_def split: prod.splits sum.splits dest: stmt [OF _ mark_code])
next
  case (call_codes ids u hs y)
  show ?thesis
    by (rule tx [OF call_codes [unfolded ReplaceRecoveryCodes_def] _ assms(2)])
      (auto simp: replace_codes_tx_def copyRecoveryCodes_def split: prod.splits sum.splits
        dest: stmt [OF _ copy_codes] stmt [OF _ delete_codes])
next
  case (call_delete t u ts y)
  show ?thesis
    by (rule tx [OF call_delete [unfolded DeleteWithTombstones_def] _ assms(2)])
      (auto simp: delete_with_tombstones_tx_def split: prod.splits sum.splits if_splits dest!: tombs dest: stmt [OF _ delete_user])
qed

end

context table_invariant
begin

lemma purged:
  assumes "purge_loop f msg n d = Some (r, d')" and "\<And>d. I d \<Longrightarrow> I (snd (f d))" and "I d"
  shows "I d'"
proof -
  have "f = f \<longrightarrow> I d \<longrightarrow> I (snd (r, d'))"
  proof (rule purge_loop.raw_induct [where P = "\<lambda>g _ _ d res. g = f \<longrightarrow> I d \<longrightarrow> I (snd res)", OF _ assms(1)], intro impI)
    fix loop g msg' n' e res
    assume IH: "\<And>g msg n d res. loop g msg n d = Some res \<Longrightarrow> g = f \<longrightarrow> I d \<longrightarrow> I (snd res)"
      and eq: "(case pg_stmt g e of (Inl er, d') \<Rightarrow> Some ((n', Some (Wrap msg' er)), d')
        | (Inr affected, d') \<Rightarrow> if affected < purgeBatchSize then Some ((n' + affected, None), d')
            else loop g msg' (n' + affected) d') = Some res"
      and g: "g = f" and inv: "I e"
    obtain y e' where y: "pg_stmt g e = (y, e')" by fastforce
    have "I e'" using stmt [OF y _ inv] assms(2) g by blast
    then show "I (snd res)" using eq y IH g by (auto split: sum.splits if_splits)
  qed
  with assms(3) show ?thesis by simp
qed

end

locale user_statements = user_writes I for I +
  assumes purge_logins: "I d \<Longrightarrow> I (snd (purge_logins t d))"
    and purge_tombstones: "I d \<Longrightarrow> I (snd (purge_tombstones t d))"
begin

lemma user_call_inv:
  assumes "user_call d d'" and "I d"
  shows "I d'"
  using assms(1)
proof cases
  case call_write
  then show ?thesis using user_write_inv assms(2) by blast
next
  case (call_purge_logins t r)
  show ?thesis by (rule purged [OF call_purge_logins [unfolded PurgeLoginAttempts_def] purge_logins assms(2)])
next
  case (call_purge_tombstones t r)
  show ?thesis by (rule purged [OF call_purge_tombstones [unfolded PurgeTombstones_def] purge_tombstones assms(2)])
qed

end

interpretation users_ver: verification_statements users_ok
  by unfold_locales (simp_all add: users_ok_statements)

interpretation users_stmts: user_statements users_ok
  by unfold_locales (simp_all add: users_ver.create_keeps users_ver.replace_keeps users_ok_update users_ok_statements)

text \<open>The member tables are kept as well: deleting an account takes its rows with it.\<close>

lemma members_inv_user_statements:
  assumes "members_inv d"
  shows "harmless f \<Longrightarrow> members_inv (snd (update_user i f d))" "members_inv (snd (insert_user n t p d))"
    "members_inv (snd (insert_verification t i tok e d))" "members_inv (snd (consume_verification t tok d))"
    "members_inv (snd (invalidate_verifications t i d))" "members_inv (snd (insert_login inet t m ip s d))"
    "members_inv (snd (copy_codes ids i hs d))" "members_inv (snd (delete_codes i d))" "members_inv (snd (mark_code t c d))"
    "members_inv (snd (insert_tombstone t b d))" "members_inv (snd (delete_user t i d))" "members_inv (snd (purge_logins t d))"
    "members_inv (snd (purge_tombstones t d))"
proof -
  have frame: "members_inv e" if "t_members e = t_members d" "t_bans e = t_bans d" "t_member_roles e = t_member_roles d"
      "t_roles e = t_roles d" "user_ids d \<subseteq> user_ids e" for e
    using assms that by (auto simp: members_inv_def members_ok_def user_exists_def user_ids_def)
  show "harmless f \<Longrightarrow> members_inv (snd (update_user i f d))"
    by (rule frame) (simp_all, simp_all add: update_user_def)
  show "members_inv (snd (insert_user n t p d))" by (rule frame) (auto simp: insert_user_def user_ids_def)
  show "members_inv (snd (insert_verification t i tok e d))" by (rule frame) (auto simp: insert_verification_def user_ids_def)
  show "members_inv (snd (consume_verification t tok d))" by (rule frame) (auto simp: consume_verification_def user_ids_def)
  show "members_inv (snd (invalidate_verifications t i d))" by (rule frame) (auto simp: invalidate_verifications_def user_ids_def)
  show "members_inv (snd (insert_login inet t m ip s d))" by (rule frame) (auto simp: insert_login_def user_ids_def)
  show "members_inv (snd (copy_codes ids i hs d))" by (rule frame) (auto simp: copy_codes_def user_ids_def Let_def)
  show "members_inv (snd (delete_codes i d))" by (rule frame) (auto simp: delete_codes_def user_ids_def)
  show "members_inv (snd (mark_code t c d))" by (rule frame) (auto simp: mark_code_def user_ids_def)
  show "members_inv (snd (insert_tombstone t b d))" by (rule frame) (auto simp: insert_tombstone_def user_ids_def)
  show "members_inv (snd (purge_logins t d))" by (rule frame) (auto simp: purge_logins_def user_ids_def Let_def)
  show "members_inv (snd (purge_tombstones t d))" by (rule frame) (auto simp: purge_tombstones_def user_ids_def Let_def)
  have bans: "map b_user_id (map (\<lambda>b. if b_banned_by b = x then b\<lparr>b_banned_by := y\<rparr> else b) bs) = map b_user_id bs"
    for x y and bs :: "ban_row list" by simp
  show "members_inv (snd (delete_user t i d))"
    using assms bans
    by (auto simp: delete_user_def without_user_def members_inv_def members_ok_def user_exists_def distinct_map_filter simp del: map_map)
qed

interpretation members_ver: verification_statements members_inv
  by unfold_locales (simp_all add: members_inv_user_statements)

interpretation members_stmts: user_statements members_inv
  by unfold_locales (simp_all add: members_ver.create_keeps members_ver.replace_keeps members_inv_user_statements)


section \<open>One verification token per user\<close>

definition tokens_ok :: "db \<Rightarrow> bool" where
  "tokens_ok d \<longleftrightarrow> users_ok d \<and> one_live_token d"

interpretation tokens: table_invariant tokens_ok
  by unfold_locales (simp add: tokens_ok_def users.outcomes live.outcomes)

lemma consumed_fewer:
  "length (filter (\<lambda>v. vf_user_id v = u \<and> vf_consumed_at v = None) (map (\<lambda>v. if P v then v\<lparr>vf_consumed_at := Some t\<rparr> else v) vs))
     \<le> length (filter (\<lambda>v. vf_user_id v = u \<and> vf_consumed_at v = None) vs)"
  by (induction vs) auto

lemma invalidated_none:
  "filter (\<lambda>v. vf_user_id v = u \<and> vf_consumed_at v = None)
     (map (\<lambda>v. if vf_user_id v = u \<and> vf_consumed_at v = None then v\<lparr>vf_consumed_at := Some t\<rparr> else v) vs) = []"
  by (induction vs) auto

lemma one_live_mono:
  "one_live_token d \<Longrightarrow> (\<And>u. length (live_verifications u e) \<le> length (live_verifications u d)) \<Longrightarrow> one_live_token e"
  unfolding one_live_token_def by (meson order_trans)

lemma one_live_same: "one_live_token d \<Longrightarrow> t_email_verifications e = t_email_verifications d \<Longrightarrow> one_live_token e"
  by (simp add: one_live_token_def live_verifications_def)

lemma one_live_statements:
  assumes "one_live_token d"
  shows "one_live_token (snd (consume_verification t tok d))" "one_live_token (snd (delete_user t i d))"
    "one_live_token (snd (update_user i f d))"
    "one_live_token (snd (insert_login inet t m ip s d))" "one_live_token (snd (copy_codes ids i hs d))"
    "one_live_token (snd (delete_codes i d))" "one_live_token (snd (mark_code t c d))" "one_live_token (snd (insert_tombstone t b d))"
    "one_live_token (snd (purge_logins t d))" "one_live_token (snd (purge_tombstones t d))"
proof -
  show "one_live_token (snd (consume_verification t tok d))"
    by (rule one_live_mono [OF assms]) (simp add: live_verifications_def consume_verification_def consumed_fewer del: filter_map length_filter_map)
  have "length (filter P (filter Q vs)) \<le> length (filter P vs)" for P Q and vs :: "verification_row list"
    by (induction vs) auto
  then show "one_live_token (snd (delete_user t i d))"
    by (intro one_live_mono [OF assms]) (simp add: live_verifications_def delete_user_def without_user_def del: filter_filter)
  note same = one_live_same [OF assms]
  show "one_live_token (snd (update_user i f d))" by (rule same) (simp add: update_user_def)
  show "one_live_token (snd (insert_login inet t m ip s d))" by (rule same) (simp add: insert_login_def)
  show "one_live_token (snd (copy_codes ids i hs d))" by (rule same) (simp add: copy_codes_def Let_def)
  show "one_live_token (snd (delete_codes i d))" by (rule same) (simp add: delete_codes_def)
  show "one_live_token (snd (mark_code t c d))" by (rule same) (simp add: mark_code_def)
  show "one_live_token (snd (insert_tombstone t b d))" by (rule same) (simp add: insert_tombstone_def)
  show "one_live_token (snd (purge_logins t d))" by (rule same) (simp add: purge_logins_def Let_def)
  show "one_live_token (snd (purge_tombstones t d))" by (rule same) (simp add: purge_tombstones_def Let_def)
qed

lemma user_Create_tokens:
  assumes "user_Create n t p d = (x, d')" and "tokens_ok d"
  shows "tokens_ok d'"
proof -
  have ok: "users_ok d'" using users_ver.create_keeps assms by (simp add: tokens_ok_def)
  have "one_live_token d'"
    using assms(1) [unfolded user_Create_def]
  proof (cases rule: WithTx_cases)
    case (aborted e)
    then show ?thesis using assms(2) live.by_tables unfolding tokens_ok_def by blast
  next
    case (committed d1 y d2)
    define e1 where "e1 = snd (insert_user n t p d)"
    have pure: "pure_stmt (insert_user n t p)" "pure_stmt (insert_verification t n (uc_VerifyToken p) (uc_VerifyExpiry p))"
      by (auto simp: pure_stmt_def insert_user_def insert_verification_def)
    obtain i d3 where s1: "pg_stmt (insert_user n t p) d1 = (Inr i, d3)"
      and s2: "d3 = d2 \<or> (\<exists>z. pg_stmt (insert_verification t i (uc_VerifyToken p) (uc_VerifyExpiry p)) d3 = (Inr z, d2))"
      using committed(2) by (auto simp: user_create_tx_def split: prod.splits sum.splits if_splits)
    note e1 = pg_stmt_success_at [OF s1 pure(1) committed(1)]
    have i: "i = n" and fresh: "n \<notin> user_ids d" using e1(1) by (auto simp: insert_user_def user_ids_def split: if_splits)
    have none: "live_verifications n d = []"
      using fresh assms(2) by (auto simp: live_verifications_def tokens_ok_def users_ok_def filter_empty_conv)
    have ver: "t_email_verifications e1 = t_email_verifications d" by (simp add: e1_def insert_user_def)
    from s2 have "one_live_token d2"
    proof
      assume "d3 = d2"
      then have "tables d2 = tables e1" using e1(2) by (simp add: e1_def)
      then show ?thesis using live.by_tables one_live_same [OF _ ver] assms(2) unfolding tokens_ok_def by blast
    next
      assume "\<exists>z. pg_stmt (insert_verification t i (uc_VerifyToken p) (uc_VerifyExpiry p)) d3 = (Inr z, d2)"
      then obtain z where "pg_stmt (insert_verification t n (uc_VerifyToken p) (uc_VerifyExpiry p)) d3 = (Inr z, d2)"
        unfolding i by blast
      from pg_stmt_success_at(2) [OF this pure(2) e1(2)]
      have "tables d2 = tables (snd (insert_verification t n (uc_VerifyToken p) (uc_VerifyExpiry p) e1))"
        unfolding e1_def .
      moreover have "one_live_token (snd (insert_verification t n (uc_VerifyToken p) (uc_VerifyExpiry p) e1))"
        using assms(2) none by (auto simp: one_live_token_def live_verifications_def insert_verification_def ver tokens_ok_def)
      ultimately show ?thesis using live.by_tables by blast
    qed
    then show ?thesis using committed(3) live.by_tables by blast
  qed
  with ok show ?thesis by (simp add: tokens_ok_def)
qed

lemma ReplaceVerificationToken_tokens:
  assumes "ReplaceVerificationToken t u tok e cool d = (y, d')" and "tokens_ok d"
  shows "tokens_ok d'"
proof -
  have ok: "users_ok d'" using users_ver.replace_keeps assms by (simp add: tokens_ok_def)
  have "one_live_token d'"
    using assms(1) [unfolded ReplaceVerificationToken_def]
  proof (cases rule: WithTx_cases)
    case (aborted er)
    then show ?thesis using assms(2) live.by_tables unfolding tokens_ok_def by blast
  next
    case (committed d1 z d2)
    define e1 where "e1 = snd (invalidate_verifications t u d)"
    have pure: "pure_stmt (invalidate_verifications t u)" "pure_stmt (insert_verification t u tok e)"
      by (auto simp: pure_stmt_def invalidate_verifications_def insert_verification_def)
    obtain b d3 d4 where q: "pg_query (recent_verification t cool u) d1 = (Inr b, d3)"
      and s1: "pg_stmt (invalidate_verifications t u) d3 = (Inr (), d4)" and s2: "pg_stmt (insert_verification t u tok e) d4 = (Inr (), d2)"
      using committed(2) by (auto simp: replace_verification_tx_def split: prod.splits sum.splits if_splits)
    have "tables d3 = tables d" using pg_query_tables [OF q] committed(1) by simp
    from pg_stmt_success_at(2) [OF s1 pure(1) this] have t4: "tables d4 = tables e1" by (simp add: e1_def)
    have t2: "tables d2 = tables (snd (insert_verification t u tok e e1))" by (rule pg_stmt_success_at(2) [OF s2 pure(2) t4])
    have none: "live_verifications u e1 = []"
      unfolding e1_def live_verifications_def invalidate_verifications_def by (simp add: invalidated_none del: filter_map)
    have "one_live_token e1"
    proof (rule one_live_mono)
      show "one_live_token d" using assms(2) by (simp add: tokens_ok_def)
      show "length (live_verifications v e1) \<le> length (live_verifications v d)" for v
        unfolding live_verifications_def e1_def invalidate_verifications_def
        by (simp add: consumed_fewer del: filter_map length_filter_map)
    qed
    then have "one_live_token (snd (insert_verification t u tok e e1))"
      using none by (auto simp: one_live_token_def live_verifications_def insert_verification_def)
    with t2 committed(3) show ?thesis using live.by_tables [of d' d2] live.by_tables [of d2] by simp
  qed
  with ok show ?thesis by (simp add: tokens_ok_def)
qed

interpretation tokens_stmts: user_statements tokens_ok
  by unfold_locales (use user_Create_tokens ReplaceVerificationToken_tokens in
      \<open>auto simp: tokens_ok_def users_ok_update users_ok_statements one_live_statements\<close>)

end
