(* ===== verification/Account_Laws.thy ===== *)
theory Account_Laws
  imports Users_Laws
begin

text \<open>
  Properties of the account repository: the invariant that the account and the member tables
  share, the end and the effect of the purge loops, the single use of verification tokens, and
  a recovery code that can be used twice.
\<close>

section \<open>Accounts and members together\<close>

text \<open>The calls of the member repository leave the tables of the accounts alone.\<close>

definition acct_tables :: "db \<Rightarrow> user_row list \<times> verification_row list \<times> recovery_row list \<times> tombstone_row list" where
  "acct_tables d = (t_users d, t_email_verifications d, t_recovery_codes d, t_tombstones d)"

definition acct_frame :: "('a, db) call \<Rightarrow> bool" where
  "acct_frame f \<longleftrightarrow> (\<forall>d x d'. f d = (x, d') \<longrightarrow> acct_tables d' = acct_tables d)"

lemma acct_outcomes [simp]: "acct_tables (d\<lparr>pg_outcomes := os\<rparr>) = acct_tables d"
  by (simp add: acct_tables_def)

lemma acct_frame_stmt:
  assumes "\<And>d. acct_tables (snd (f d)) = acct_tables d" and "pg_stmt f d = (x, d')"
  shows "acct_tables d' = acct_tables d"
  using assms(2)
proof (cases rule: pg_stmt_cases)
  case (run os)
  then show ?thesis using assms(1) [of "d\<lparr>pg_outcomes := os\<rparr>"] by simp
qed (simp_all add: assms(1))

lemma acct_tables_tables: "tables d' = tables d \<Longrightarrow> acct_tables d' = acct_tables d"
  using tables_fields [of d' d] by (simp add: acct_tables_def)

lemma acct_frame_query: "pg_query f d = (x, d') \<Longrightarrow> acct_tables d' = acct_tables d"
  unfolding pg_query_def by (erule acct_frame_stmt [rotated]) simp

lemma acct_frame_tx:
  assumes "WithTx f d = (x, d')" and "acct_frame f"
  shows "acct_tables d' = acct_tables d"
  using assms(1)
proof (cases rule: WithTx_cases)
  case (aborted e)
  then show ?thesis by (intro acct_tables_tables)
next
  case (committed d1 y d2)
  then have "acct_tables d2 = acct_tables d1" using assms(2) unfolding acct_frame_def by blast
  then show ?thesis using acct_tables_tables [OF committed(1)] acct_tables_tables [OF committed(3)] by simp
qed

lemmas acct_statements =
  update_members_def delete_members_def insert_ban_def delete_ban_def insert_member_role_def delete_member_role_def
  insert_pending_def insert_everyone_def add_member_role_def Let_def acct_tables_def

lemma member_statement_frames:
  "pg_stmt (update_members h f) d = (x1, d') \<Longrightarrow> acct_tables d' = acct_tables d"
  "pg_stmt (delete_members u) d = (x2, d') \<Longrightarrow> acct_tables d' = acct_tables d"
  "pg_stmt (insert_ban n u b r e) d = (x3, d') \<Longrightarrow> acct_tables d' = acct_tables d"
  "pg_stmt (delete_ban u) d = (x4, d') \<Longrightarrow> acct_tables d' = acct_tables d"
  "pg_stmt (insert_member_role u r') d = (x5, d') \<Longrightarrow> acct_tables d' = acct_tables d"
  "pg_stmt (delete_member_role u r') d = (x6, d') \<Longrightarrow> acct_tables d' = acct_tables d"
  "pg_stmt (insert_pending n u) d = (x7, d') \<Longrightarrow> acct_tables d' = acct_tables d"
  "pg_stmt (insert_everyone u) d = (x8, d') \<Longrightarrow> acct_tables d' = acct_tables d"
  "pg_stmt (add_member_role u r') d = (x9, d') \<Longrightarrow> acct_tables d' = acct_tables d"
  by (erule acct_frame_stmt [rotated], simp add: acct_statements)+

lemma got_member_frame:
  "GetByUserID u d = (x, d') \<Longrightarrow> acct_tables d' = acct_tables d"
  "GetByUserIDAnyStatus u d = (x, d') \<Longrightarrow> acct_tables d' = acct_tables d"
  by (auto simp: GetByUserID_def GetByUserIDAnyStatus_def scanWithProfile_def split: prod.splits sum.splits option.splits if_splits
      dest: acct_frame_query)

lemma auto_roles_frame: "add_auto_roles u rs d = (x, d') \<Longrightarrow> acct_tables d' = acct_tables d"
  by (induction u rs d rule: add_auto_roles.induct) (auto split: prod.splits sum.splits dest!: member_statement_frames(9))

lemma member_tx_frames: "acct_frame (ban_tx n u b r e)" "acct_frame (create_pending_tx n u)" "acct_frame (activate_tx n u rs)"
  by (auto simp: acct_frame_def ban_tx_def create_pending_tx_def activate_tx_def split: prod.splits sum.splits if_splits
      dest!: member_statement_frames auto_roles_frame)

lemma member_call_frame: "member_call d d' \<Longrightarrow> acct_tables d' = acct_tables d"
proof (induction rule: member_call.induct)
  case (call_pending now u d x d')
  then show ?case
    by (auto simp: CreatePending_def split: prod.splits sum.splits if_splits
        dest!: acct_frame_tx [OF _ member_tx_frames(2)] dest: got_member_frame acct_frame_query)
next
  case (call_activate now u rs d x d')
  then show ?case
    by (auto simp: Activate_def split: prod.splits sum.splits if_splits
        dest!: acct_frame_tx [OF _ member_tx_frames(3)] dest: got_member_frame acct_frame_query)
next
  case (call_ban now u "by" r ex d y d')
  then show ?case unfolding Ban_def by (rule acct_frame_tx [OF _ member_tx_frames(1)])
qed (auto simp: UpdateNickname_def member_Delete_def repo_SetTimeout_def repo_ClearTimeout_def Unban_def repo_AssignRole_def
    repo_RemoveRole_def split: prod.splits sum.splits if_splits dest: got_member_frame dest!: member_statement_frames)

lemma tokens_ok_frame: "acct_tables d' = acct_tables d \<Longrightarrow> tokens_ok d \<Longrightarrow> tokens_ok d'"
  by (simp add: acct_tables_def tokens_ok_def users_ok_def user_ids_def one_live_token_def live_verifications_def)

definition accounts_inv :: "db \<Rightarrow> bool" where
  "accounts_inv d \<longleftrightarrow> users_ok d \<and> one_live_token d \<and> members_inv d"

lemma accounts_calls_inv:
  assumes "(\<lambda>d d'. user_call d d' \<or> member_call d d')\<^sup>*\<^sup>* d d'" and "accounts_inv d"
  shows "accounts_inv d'"
  using assms
proof (induction rule: rtranclp_induct)
  case (step e e')
  then have inv: "tokens_ok e" "members_inv e" by (auto simp: accounts_inv_def tokens_ok_def)
  have "tokens_ok e' \<and> members_inv e'"
    using step.hyps(2)
  proof
    assume u: "user_call e e'"
    show ?thesis using tokens_stmts.user_call_inv [OF u inv(1)] members_stmts.user_call_inv [OF u inv(2)] by simp
  next
    assume m: "member_call e e'"
    then have "members_inv e'" using member_calls_inv [of e e'] inv(2) by blast
    then show ?thesis using tokens_ok_frame [OF member_call_frame [OF m] inv(1)] by simp
  qed
  then show ?case by (simp add: accounts_inv_def tokens_ok_def)
qed


section \<open>Purging\<close>

lemma remove_limited_keeps: "filter (\<lambda>x. \<not> P x) (remove_limited P n xs) = filter (\<lambda>x. \<not> P x) xs"
  by (induction P n xs rule: remove_limited.induct) (auto split: nat.splits)

lemma remove_limited_count:
  "length (filter P (remove_limited P n xs)) = length (filter P xs) - n"
  by (induction P n xs rule: remove_limited.induct) (auto split: nat.splits)

lemma remove_limited_short: "length (remove_limited P n xs) \<le> length xs"
  by (induction P n xs rule: remove_limited.induct) (auto split: nat.splits)

lemma remove_limited_removed: "length xs - length (remove_limited P n xs) = min n (length (filter P xs))"
proof (induction P n xs rule: remove_limited.induct)
  case (2 P n x xs)
  then show ?case
    using remove_limited_short [of P n xs] remove_limited_short [of P "n - 1" xs] by (auto simp: Suc_diff_le split: nat.splits)
qed simp

lemma filter_all_old: "filter P xs = [] \<Longrightarrow> xs = filter (\<lambda>x. \<not> P x) xs"
  by (induction xs) (auto split: if_splits)

text \<open>A statement that deletes a batch of the old rows of one table, and the loop over it.\<close>

locale purge_statement =
  fixes stmt :: "(nat, db) call" and rows :: "db \<Rightarrow> 'a list" and old :: "'a \<Rightarrow> bool"
  assumes rows_outcomes: "rows (d\<lparr>pg_outcomes := os\<rparr>) = rows d"
    and batch: "rows (snd (stmt d)) = remove_limited old purgeBatchSize (rows d)"
    and affected: "fst (stmt d) = Inr (length (rows d) - length (rows (snd (stmt d))))"
begin

lemma one_batch:
  assumes "pg_stmt stmt d = (x, d')"
  shows "(\<exists>e. x = Inl e) \<and> rows d' \<in> {rows d, remove_limited old purgeBatchSize (rows d)}
    \<or> x = Inr (min purgeBatchSize (length (filter old (rows d)))) \<and> rows d' = remove_limited old purgeBatchSize (rows d)"
  using assms
proof (cases rule: pg_stmt_cases)
  case (run os)
  have "rows d' = remove_limited old purgeBatchSize (rows d)"
    using batch [of "d\<lparr>pg_outcomes := os\<rparr>"] run by (simp add: rows_outcomes)
  then show ?thesis
    using affected [of "d\<lparr>pg_outcomes := os\<rparr>"] run by (simp add: rows_outcomes remove_limited_removed)
qed (simp_all add: rows_outcomes batch)

lemma loop_ends:
  "\<exists>n er d'. purge_loop stmt msg k d = Some ((k + n, er), d')
     \<and> filter (\<lambda>x. \<not> old x) (rows d') = filter (\<lambda>x. \<not> old x) (rows d)
     \<and> n + length (filter old (rows d')) \<le> length (filter old (rows d))
     \<and> (er = None \<longrightarrow> rows d' = filter (\<lambda>x. \<not> old x) (rows d) \<and> n = length (filter old (rows d)))"
proof (induction "length (filter old (rows d))" arbitrary: d k rule: less_induct)
  case less
  obtain x d1 where s: "pg_stmt stmt d = (x, d1)" by fastforce
  define R where "R = remove_limited old purgeBatchSize (rows d)"
  have R: "filter (\<lambda>x. \<not> old x) R = filter (\<lambda>x. \<not> old x) (rows d)"
    "length (filter old R) = length (filter old (rows d)) - purgeBatchSize"
    unfolding R_def by (rule remove_limited_keeps) (rule remove_limited_count)
  from one_batch [OF s, folded R_def]
  consider e where "x = Inl e" "rows d1 = rows d \<or> rows d1 = R"
    | "x = Inr (min purgeBatchSize (length (filter old (rows d))))" "rows d1 = R" by blast
  then show ?case
  proof cases
    case (1 e)
    then show ?thesis using s R by (subst purge_loop.simps) auto
  next
    case 2
    show ?thesis
    proof (cases "length (filter old (rows d)) < purgeBatchSize")
      case True
      then have "filter old R = []" using R(2) by simp
      then have "R = filter (\<lambda>x. \<not> old x) (rows d)" using filter_all_old R(1) by metis
      then show ?thesis using s 2 True R by (subst purge_loop.simps) auto
    next
      case False
      then have lt: "length (filter old (rows d1)) < length (filter old (rows d))"
        using 2 R(2) by (simp add: purgeBatchSize_def)
      obtain n er d' where n: "purge_loop stmt msg (k + purgeBatchSize) d1 = Some ((k + purgeBatchSize + n, er), d')"
        "filter (\<lambda>x. \<not> old x) (rows d') = filter (\<lambda>x. \<not> old x) (rows d1)"
        "n + length (filter old (rows d')) \<le> length (filter old (rows d1))"
        "er = None \<longrightarrow> rows d' = filter (\<lambda>x. \<not> old x) (rows d1) \<and> n = length (filter old (rows d1))"
        using less [OF lt, of "k + purgeBatchSize"] by blast
      have "purge_loop stmt msg k d = Some ((k + (purgeBatchSize + n), er), d')"
        using s 2 False n(1) by (subst purge_loop.simps) (simp add: min_def add.assoc)
      moreover have "filter (\<lambda>x. \<not> old x) (rows d') = filter (\<lambda>x. \<not> old x) (rows d)"
        "purgeBatchSize + n + length (filter old (rows d')) \<le> length (filter old (rows d))"
        "er = None \<longrightarrow> rows d' = filter (\<lambda>x. \<not> old x) (rows d) \<and> purgeBatchSize + n = length (filter old (rows d))"
        using n 2 R False by auto
      ultimately show ?thesis by blast
    qed
  qed
qed

end

interpretation logins_purge: purge_statement "purge_logins t" t_login_attempts "\<lambda>l. la_created_at l < t" for t
  by unfold_locales (simp_all add: purge_logins_def Let_def)

interpretation tombstones_purge: purge_statement "purge_tombstones t" t_tombstones "\<lambda>b. ts_created_at b < t" for t
  by unfold_locales (simp_all add: purge_tombstones_def Let_def)


section \<open>Verification tokens and recovery codes\<close>

lemma verify_effect:
  assumes "repo_VerifyEmail now tok d = (Inr u, d')"
  obtains v where "find (usable_verification now tok) (t_email_verifications d) = Some v" "vf_user_id v = u"
    "tables d' = tables (snd (update_user u (\<lambda>u. u\<lparr>u_email_verified := True\<rparr>) (snd (consume_verification now tok d))))"
  using assms [unfolded repo_VerifyEmail_def]
proof (cases rule: WithTx_cases)
  case (committed d1 y d2)
  have pure: "pure_stmt (consume_verification now tok)" "pure_stmt (update_user u (\<lambda>u. u\<lparr>u_email_verified := True\<rparr>))"
    by (auto simp: pure_stmt_def consume_verification_def update_user_def find_user_def)
  have y: "y = u" using committed(4) by auto
  obtain d3 z where s1: "pg_stmt (consume_verification now tok) d1 = (Inr (Some u), d3)"
    and s2: "pg_stmt (update_user u (\<lambda>u. u\<lparr>u_email_verified := True\<rparr>)) d3 = (Inr z, d2)"
    using committed(2) unfolding y by (auto simp: verify_email_tx_def split: prod.splits sum.splits option.splits)
  note t1 = pg_stmt_success_at [OF s1 pure(1) committed(1)]
  have "tables d' = tables (snd (update_user u (\<lambda>u. u\<lparr>u_email_verified := True\<rparr>) (snd (consume_verification now tok d))))"
    using pg_stmt_success_at(2) [OF s2 pure(2) t1(2)] committed(3) by simp
  moreover obtain v where "find (usable_verification now tok) (t_email_verifications d) = Some v" "vf_user_id v = u"
    using t1(1) by (auto simp: consume_verification_def)
  ultimately show thesis using that by blast
qed auto

lemma verify_spends:
  assumes "users_ok d" and "repo_VerifyEmail now tok d = (Inr u, d')" and "v \<in> set (t_email_verifications d')"
  shows "\<not> usable_verification t tok v"
proof -
  from verify_effect [OF assms(2)] obtain w where w: "find (usable_verification now tok) (t_email_verifications d) = Some w"
    and t: "tables d' = tables (snd (update_user u (\<lambda>u. u\<lparr>u_email_verified := True\<rparr>) (snd (consume_verification now tok d))))" by blast
  have rows: "t_email_verifications d' = map (\<lambda>v. if usable_verification now tok v then v\<lparr>vf_consumed_at := Some now\<rparr> else v) (t_email_verifications d)"
    using tables_fields [OF t] by (simp add: update_user_def consume_verification_def)
  obtain r where r: "r \<in> set (t_email_verifications d)" "v = (if usable_verification now tok r then r\<lparr>vf_consumed_at := Some now\<rparr> else r)"
    using assms(3) rows by auto
  have wm: "w \<in> set (t_email_verifications d)" "usable_verification now tok w" using w by (auto simp: find_Some_iff)
  show ?thesis
  proof (cases "vf_token r = tok")
    case True
    have "r = w" using assms(1) r(1) wm True by (auto simp: users_ok_def usable_verification_def distinct_map inj_on_def)
    then show ?thesis using r(2) wm(2) by (simp add: usable_verification_def)
  next
    case False
    then show ?thesis using r(2) by (auto simp: usable_verification_def)
  qed
qed

lemma find_user_update:
  assumes "\<And>u. u_id (f u) = u_id u"
  shows "find_user i (snd (update_user j f d)) = map_option (\<lambda>u. if i = j then f u else u) (find_user i d)"
proof -
  have "find (\<lambda>u. u_id u = i) (map (\<lambda>u. if u_id u = j then f u else u) us)
      = map_option (\<lambda>u. if i = j then f u else u) (find (\<lambda>u. u_id u = i) us)" for us
    by (induction us) (use assms in auto)
  then show ?thesis by (simp add: find_user_def update_user_def)
qed


section \<open>Properties\<close>

text \<open>
  C18. The account tables and the member tables stay well formed together, over every sequence
  of calls of the two repositories and whatever statement or commit fails: emails, user names,
  verification tokens and tombstones are unique, MFA is enabled exactly for users with a
  secret, tokens, codes, members, bans and role assignments belong to users, and a user has at
  most one verification token that is not consumed.
\<close>

theorem accounts_invariant:
  assumes "(\<lambda>d d'. user_call d d' \<or> member_call d d')\<^sup>*\<^sup>* d d'" and "accounts_inv d"
  shows "accounts_inv d'"
  by (rule accounts_calls_inv [OF assms])

definition new_account :: user_CreateParams where
  "new_account = \<lparr>uc_Email = ''zed@example.com'', uc_Username = ''zed'', uc_PasswordHash = ''h'', uc_VerifyToken = ''t1'', uc_VerifyExpiry = 90\<rparr>"

lemma sample_accounts: "accounts_inv sample_db"
  using sample_members_inv by (simp add: accounts_inv_def users_ok_def user_ids_def one_live_token_def live_verifications_def sample_defs)

theorem accounts_invariant_witness:
  "accounts_inv (snd (Ban 6 9 1 None None (snd (user_Create 9 5 new_account sample_db))))
   \<and> fst (Ban 6 9 1 None None (snd (user_Create 9 5 new_account sample_db))) = Inr ()"
proof -
  let ?d1 = "snd (user_Create 9 5 new_account sample_db)" and ?d2 = "snd (Ban 6 9 1 None None (snd (user_Create 9 5 new_account sample_db)))"
  have "user_call sample_db ?d1" by (rule user_call.call_write [OF user_write.call_create [where x = "fst (user_Create 9 5 new_account sample_db)"]]) simp
  moreover have "member_call ?d1 ?d2" by (rule member_call.call_ban [where y = "fst (Ban 6 9 1 None None ?d1)"]) simp
  ultimately have "(\<lambda>d d'. user_call d d' \<or> member_call d d')\<^sup>*\<^sup>* sample_db ?d2"
    by (intro rtranclp.rtrancl_into_rtrancl [OF r_into_rtranclp]) blast+
  from accounts_invariant [OF this sample_accounts] show ?thesis
    by (simp add: user_Create_def user_create_tx_def WithTx_def insert_user_def insert_verification_def new_account_def Ban_def ban_tx_def
        insert_ban_def delete_members_def user_exists_def sample_defs)
qed

text \<open>
  C20. The purge loops end, however many rows there are and whatever statement fails. The rows
  that are not older than the cutoff are kept in their order; without an error exactly the
  older rows are gone and their number is returned, and after an error the number returned is
  at most the number of rows removed.
\<close>

theorem purge_exact:
  "(\<exists>n er d'. PurgeLoginAttempts t d = Some ((n, er), d')
     \<and> filter (\<lambda>l. \<not> la_created_at l < t) (t_login_attempts d') = filter (\<lambda>l. \<not> la_created_at l < t) (t_login_attempts d)
     \<and> n + length (filter (\<lambda>l. la_created_at l < t) (t_login_attempts d')) \<le> length (filter (\<lambda>l. la_created_at l < t) (t_login_attempts d))
     \<and> (er = None \<longrightarrow> t_login_attempts d' = filter (\<lambda>l. \<not> la_created_at l < t) (t_login_attempts d)
          \<and> n = length (filter (\<lambda>l. la_created_at l < t) (t_login_attempts d))))
   \<and> (\<exists>n er d'. PurgeTombstones t d = Some ((n, er), d')
     \<and> filter (\<lambda>b. \<not> ts_created_at b < t) (t_tombstones d') = filter (\<lambda>b. \<not> ts_created_at b < t) (t_tombstones d)
     \<and> n + length (filter (\<lambda>b. ts_created_at b < t) (t_tombstones d')) \<le> length (filter (\<lambda>b. ts_created_at b < t) (t_tombstones d))
     \<and> (er = None \<longrightarrow> t_tombstones d' = filter (\<lambda>b. \<not> ts_created_at b < t) (t_tombstones d)
          \<and> n = length (filter (\<lambda>b. ts_created_at b < t) (t_tombstones d))))"
  using logins_purge.loop_ends [of t _ 0 d] tombstones_purge.loop_ends [of t _ 0 d]
  unfolding PurgeLoginAttempts_def PurgeTombstones_def add_0 by (intro conjI) blast+

theorem purge_exact_witness:
  "\<exists>d'. PurgeTombstones 5 (empty_db\<lparr>t_tombstones := [\<lparr>ts_identifier_type = TombstoneEmail, ts_hmac_hash = ''a'', ts_created_at = 1\<rparr>,
      \<lparr>ts_identifier_type = TombstoneUsername, ts_hmac_hash = ''b'', ts_created_at = 7\<rparr>]\<rparr>) = Some ((1, None), d')
     \<and> map ts_hmac_hash (t_tombstones d') = [''b'']"
proof -
  define d where "d = empty_db\<lparr>t_tombstones := [\<lparr>ts_identifier_type = TombstoneEmail, ts_hmac_hash = ''a'', ts_created_at = 1\<rparr>,
      \<lparr>ts_identifier_type = TombstoneUsername, ts_hmac_hash = ''b'', ts_created_at = 7\<rparr>]\<rparr>"
  obtain n er d' where p: "PurgeTombstones 5 d = Some ((n, er), d')"
    and e: "er = None \<longrightarrow> t_tombstones d' = filter (\<lambda>b. \<not> ts_created_at b < 5) (t_tombstones d)
          \<and> n = length (filter (\<lambda>b. ts_created_at b < 5) (t_tombstones d))"
    using purge_exact [of 5 d] by blast
  have "er = None"
    using p unfolding PurgeTombstones_def
    by (subst (asm) purge_loop.simps) (simp add: d_def purge_tombstones_def purgeBatchSize_def empty_db_def numeral_eq_Suc)
  then show ?thesis using p e unfolding d_def [symmetric] by (auto simp: d_def)
qed

text \<open>
  C19. An email is verified only with a token that was stored for that user, was not consumed
  and has not expired; then the user is verified, nobody else changes, and the same token is
  refused from then on.
\<close>

theorem verify_email_sound:
  assumes "users_ok d" and "repo_VerifyEmail now tok d = (Inr u, d')"
  shows "(\<exists>v \<in> set (t_email_verifications d). vf_token v = tok \<and> vf_user_id v = u \<and> vf_consumed_at v = None \<and> now < vf_expires_at v)
    \<and> (\<exists>w. find_user u d = Some w \<and> find_user u d' = Some (w\<lparr>u_email_verified := True\<rparr>))
    \<and> (\<forall>i. i \<noteq> u \<longrightarrow> find_user i d' = find_user i d)
    \<and> (\<forall>t i d''. repo_VerifyEmail t tok d' \<noteq> (Inr i, d''))"
proof -
  from verify_effect [OF assms(2)] obtain v where v: "find (usable_verification now tok) (t_email_verifications d) = Some v" "vf_user_id v = u"
    and t: "tables d' = tables (snd (update_user u (\<lambda>u. u\<lparr>u_email_verified := True\<rparr>) (snd (consume_verification now tok d))))" by blast
  then have row: "v \<in> set (t_email_verifications d)" "usable_verification now tok v" by (auto simp: find_Some_iff)
  then have "u \<in> user_ids d" using assms(1) v(2) by (auto simp: users_ok_def)
  then obtain w where w: "find_user u d = Some w"
    by (cases "find_user u d") (auto simp: find_user_def user_ids_def find_None_iff)
  have f: "find_user i d' = map_option (\<lambda>x. if i = u then x\<lparr>u_email_verified := True\<rparr> else x) (find_user i d)" for i
  proof -
    have "find_user i (snd (consume_verification now tok d)) = find_user i d"
      by (simp add: find_user_def consume_verification_def)
    then show ?thesis using tables_fields(1) [OF t] find_user_update [of "\<lambda>u. u\<lparr>u_email_verified := True\<rparr>" i u "snd (consume_verification now tok d)"]
      by (simp add: find_user_def)
  qed
  have spent: "repo_VerifyEmail t tok d' \<noteq> (Inr i, d'')" for t i d''
  proof
    assume "repo_VerifyEmail t tok d' = (Inr i, d'')"
    from verify_effect [OF this] obtain x where "find (usable_verification t tok) (t_email_verifications d') = Some x" by blast
    then show False using verify_spends [OF assms] by (auto simp: find_Some_iff)
  qed
  have "map_option (\<lambda>x. if i = u then x\<lparr>u_email_verified := True\<rparr> else x) (find_user i d) = find_user i d" if "i \<noteq> u" for i
    using that by (simp add: option.map_ident)
  then show ?thesis using row v(2) f w spent by (auto simp: usable_verification_def)
qed

theorem verify_email_sound_witness:
  "\<exists>d'. repo_VerifyEmail 6 ''t1'' (snd (user_Create 9 5 new_account sample_db)) = (Inr 9, d')
     \<and> (\<exists>w. find_user 9 d' = Some w \<and> u_email_verified w) \<and> fst (repo_VerifyEmail 7 ''t1'' d') \<noteq> Inr 9"
proof -
  let ?d = "snd (user_Create 9 5 new_account sample_db)"
  have "user_call sample_db ?d" by (rule user_call.call_write [OF user_write.call_create [where x = "fst (user_Create 9 5 new_account sample_db)"]]) simp
  then have ok: "users_ok ?d" using users_stmts.user_call_inv sample_accounts unfolding accounts_inv_def by blast
  obtain d' where v: "repo_VerifyEmail 6 ''t1'' ?d = (Inr 9, d')"
    by (simp add: repo_VerifyEmail_def verify_email_tx_def consume_verification_def usable_verification_def update_user_def
        user_Create_def user_create_tx_def WithTx_def insert_user_def insert_verification_def new_account_def sample_defs)
  note sound = verify_email_sound [OF ok v]
  have "fst (repo_VerifyEmail 7 ''t1'' d') \<noteq> Inr 9"
    using sound by (cases "repo_VerifyEmail 7 ''t1'' d'") (metis fst_conv)
  moreover obtain w where "find_user 9 d' = Some (w\<lparr>u_email_verified := True\<rparr>)" using sound by blast
  ultimately show ?thesis using v by (intro exI [of _ d']) simp
qed

end
