(* ===== verification/Auth_Laws.thy ===== *)
theory Auth_Laws
  imports Auth_Service Account_Laws
begin

text \<open>
  What the authentication service guarantees: the invariant of the accounts over all its
  operations, that a login needs the password and, where it is enabled, the second factor, that
  a deleted account's address stays refused, and how replayed tokens and codes are treated.
\<close>

section \<open>Parts of the state\<close>

abbreviation sdb :: "'r site \<Rightarrow> db" where "sdb s \<equiv> w_db (si_world s)"
abbreviation svk :: "'r site \<Rightarrow> 'r" where "svk s \<equiv> w_vk (si_world s)"

lemma at_dbD:
  "at_db f s = (x, s') \<Longrightarrow> f (sdb s) = (x, sdb s') \<and> svk s' = svk s \<and> si_blocklist s' = si_blocklist s \<and> si_mails s' = si_mails s"
  by (auto simp: at_db_def on_db_def split: prod.splits)

lemma at_vkD:
  "at_vk f s = (x, s') \<Longrightarrow> f (svk s) = (x, svk s') \<and> sdb s' = sdb s \<and> si_blocklist s' = si_blocklist s \<and> si_mails s' = si_mails s"
  by (auto simp: at_vk_def on_vk_def split: prod.splits)

lemma at_listD:
  "at_list f s = (x, s') \<Longrightarrow> f (si_blocklist s) = (x, si_blocklist s') \<and> si_world s' = si_world s \<and> si_mails s' = si_mails s"
  by (auto simp: at_list_def split: prod.splits)

lemma at_db_simp [simp]: "f (sdb s) = (x, d) \<Longrightarrow> at_db f s = (x, s\<lparr>si_world := (si_world s)\<lparr>w_db := d\<rparr>\<rparr>)"
  by (simp add: at_db_def on_db_def)

lemma at_vk_simp [simp]: "f (svk s) = (x, r) \<Longrightarrow> at_vk f s = (x, s\<lparr>si_world := (si_world s)\<lparr>w_vk := r\<rparr>\<rparr>)"
  by (simp add: at_vk_def on_vk_def)

lemma at_list_simp [simp]: "f (si_blocklist s) = (x, b) \<Longrightarrow> at_list f s = (x, s\<lparr>si_blocklist := b\<rparr>)"
  by (simp add: at_list_def)

lemma keeps_at_db: "keeps I f \<Longrightarrow> keeps (\<lambda>s. I (sdb s)) (at_db f)"
  by (rule keepsI) (auto dest!: at_dbD keepsD)

lemma keeps_db_at_vk [keeping]: "keeps (\<lambda>s. I (sdb s)) (at_vk f)"
  by (rule keepsI) (auto dest!: at_vkD)

lemma keeps_db_at_list [keeping]: "keeps (\<lambda>s. I (sdb s)) (at_list f)"
  by (rule keepsI) (auto dest!: at_listD)

lemma keeps_db_Send [keeping]: "keeps (\<lambda>s. I (sdb s)) (SendVerification cfg e t)"
  unfolding SendVerification_def by (rule keeps_modifyc) simp

section \<open>Invariants of the service\<close>

lemma scan_tables: "scan_row msg f (pg_query q) d = (x, d') \<Longrightarrow> tables d' = tables d"
  by (auto simp: scan_row_def split: prod.splits sum.splits option.splits dest: pg_query_tables)

lemma read_tables:
  "user_GetByID i d = (x1, d') \<Longrightarrow> tables d' = tables d" "GetByEmail e d = (x2, d') \<Longrightarrow> tables d' = tables d"
  "GetCredentialsByID i d = (x3, d') \<Longrightarrow> tables d' = tables d" "CheckTombstone k h d = (x4, d') \<Longrightarrow> tables d' = tables d"
  "GetUnusedRecoveryCodes i d = (x5, d') \<Longrightarrow> tables d' = tables d"
  by (auto simp: user_GetByID_def GetByEmail_def GetCredentialsByID_def scanUser_def scanCredentials_def CheckTombstone_def
      GetUnusedRecoveryCodes_def split: prod.splits sum.splits option.splits if_splits dest: pg_query_tables scan_tables)

text \<open>
  The operations of the service, and the invariants of the tables that its writes keep. The
  periodic clean-up is not one of them: \<open>Retention\<close> adds it.
\<close>

inductive auth_step :: "'r service \<Rightarrow> 'r site \<Rightarrow> 'r site \<Rightarrow> bool" for S where
  step_register: "Register S now i t salt rnd fetch req s = (x, s') \<Longrightarrow> auth_step S s s'"
| step_login: "Login S now t salt req s = (x, s') \<Longrightarrow> auth_step S s s'"
| step_refresh: "Refresh S now t tok s = (x, s') \<Longrightarrow> auth_step S s s'"
| step_verify: "VerifyEmail S now t tok s = (x, s') \<Longrightarrow> auth_step S s s'"
| step_resend: "ResendVerification S now rnd u s = (x, s') \<Longrightarrow> auth_step S s s'"
| step_mfa: "VerifyMFA S now t ticket code s = (x, s') \<Longrightarrow> auth_step S s s'"
| step_begin: "BeginMFASetup S rnd nonce u pw s = (x, s') \<Longrightarrow> auth_step S s s'"
| step_confirm: "ConfirmMFASetup S now ids rnds salts u code s = (x, s') \<Longrightarrow> auth_step S s s'"
| step_disable: "DisableMFA S now u pw code s = (x, s') \<Longrightarrow> auth_step S s s'"
| step_codes: "RegenerateRecoveryCodes S ids rnds salts u pw s = (x, s') \<Longrightarrow> auth_step S s s'"
| step_password: "VerifyUserPassword S u pw s = (x, s') \<Longrightarrow> auth_step S s s'"
| step_delete: "DeleteAccount S now u pw s = (x, s') \<Longrightarrow> auth_step S s s'"
| step_revoke: "RevokeAllUserTokens S u s = (x, s') \<Longrightarrow> auth_step S s s'"
| step_ticket: "IssueGatewayTicket S t u s = (x, s') \<Longrightarrow> auth_step S s s'"

lemmas service_defs =
  Register_def Login_def VerifyEmail_def ResendVerification_def VerifyMFA_def BeginMFASetup_def ConfirmMFASetup_def
  DisableMFA_def RegenerateRecoveryCodes_def VerifyUserPassword_def DeleteAccount_def RevokeAllUserTokens_def IssueGatewayTicket_def

lemmas service_parts =
  issueTokens_def recordLoginAttempt_def check_tombstone_def rotate_hash_def finish_login_def tryRecoveryCode_def completeMFALogin_def require_password_def

locale service_invariant = table_invariant I for I +
  assumes user_write: "user_write d d' \<Longrightarrow> I d \<Longrightarrow> I d'"
begin

lemma keeps_query: "(\<And>d x d'. f d = (x, d') \<Longrightarrow> tables d' = tables d) \<Longrightarrow> keeps (\<lambda>s. I (sdb s)) (at_db f)"
  by (rule keeps_at_db, rule keepsI) (use by_tables in blast)

lemma keeps_write: "(\<And>d x d'. f d = (x, d') \<Longrightarrow> user_write d d') \<Longrightarrow> keeps (\<lambda>s. I (sdb s)) (at_db f)"
  by (rule keeps_at_db, rule keepsI) (use user_write in blast)

lemma keeps_calls:
  "keeps (\<lambda>s. I (sdb s)) (at_db (user_GetByID i))"
  "keeps (\<lambda>s. I (sdb s)) (at_db (GetByEmail mail))"
  "keeps (\<lambda>s. I (sdb s)) (at_db (GetCredentialsByID i))"
  "keeps (\<lambda>s. I (sdb s)) (at_db (CheckTombstone k h))"
  "keeps (\<lambda>s. I (sdb s)) (at_db (GetUnusedRecoveryCodes i))"
  "keeps (\<lambda>s. I (sdb s)) (at_db (server_Get))"
  "keeps (\<lambda>s. I (sdb s)) (at_db (user_Create i t p))"
  "keeps (\<lambda>s. I (sdb s)) (at_db (repo_VerifyEmail t tok))"
  "keeps (\<lambda>s. I (sdb s)) (at_db (ReplaceVerificationToken t u tok e cool))"
  "keeps (\<lambda>s. I (sdb s)) (at_db (RecordLoginAttempt inet t m ip ok))"
  "keeps (\<lambda>s. I (sdb s)) (at_db (UpdatePasswordHash u h))"
  "keeps (\<lambda>s. I (sdb s)) (at_db (repo_EnableMFA ids u sec hs))"
  "keeps (\<lambda>s. I (sdb s)) (at_db (repo_DisableMFA u))"
  "keeps (\<lambda>s. I (sdb s)) (at_db (UseRecoveryCode t c))"
  "keeps (\<lambda>s. I (sdb s)) (at_db (ReplaceRecoveryCodes ids u hs))"
  "keeps (\<lambda>s. I (sdb s)) (at_db (DeleteWithTombstones t u ts))"
  by (rule keeps_query, erule read_tables server_Get_tables)+ (rule keeps_write, erule user_write.intros)+

lemma keeps_service:
  "keeps (\<lambda>s. I (sdb s)) (Register S now i t salt rnd fetch req)"
  "keeps (\<lambda>s. I (sdb s)) (Login S now t salt lreq)"
  "keeps (\<lambda>s. I (sdb s)) (VerifyEmail S now t tok)"
  "keeps (\<lambda>s. I (sdb s)) (ResendVerification S now rnd u)"
  "keeps (\<lambda>s. I (sdb s)) (VerifyMFA S now t ticket code)"
  "keeps (\<lambda>s. I (sdb s)) (BeginMFASetup S rnd nonce u pw)"
  "keeps (\<lambda>s. I (sdb s)) (ConfirmMFASetup S now ids rnds salts u code)"
  "keeps (\<lambda>s. I (sdb s)) (DisableMFA S now u pw code)"
  "keeps (\<lambda>s. I (sdb s)) (RegenerateRecoveryCodes S ids rnds salts u pw)"
  "keeps (\<lambda>s. I (sdb s)) (VerifyUserPassword S u pw)"
  "keeps (\<lambda>s. I (sdb s)) (DeleteAccount S now u pw)"
  "keeps (\<lambda>s. I (sdb s)) (RevokeAllUserTokens S u)"
  "keeps (\<lambda>s. I (sdb s)) (IssueGatewayTicket S t u)"
  unfolding service_defs service_parts Let_def by (intro keeping keeps_calls)+

lemma keeps_refresh: "keeps (\<lambda>s. I (sdb s)) (Refresh S now t tok)"
proof (rule keepsI)
  fix s x s' assume r: "Refresh S now t tok s = (x, s')" and inv: "I (sdb s)"
  obtain looked s1 where l: "at_vk (ValidateRefreshToken (sv_uuid S) (sv_valkey S) tok) s = (looked, s1)" by fastforce
  have "I (sdb s1)" using at_vkD [OF l] inv by simp
  moreover have "keeps (\<lambda>s. I (sdb s)) (rotate_refresh S now t tok looked)"
    unfolding rotate_refresh_def by (intro keeping keeps_calls)
  ultimately show "I (sdb s')" using r l keepsD [of "\<lambda>s. I (sdb s)"] by (fastforce simp: Refresh_def)
qed

lemma step_keeps: "auth_step S s s' \<Longrightarrow> I (sdb s) \<Longrightarrow> I (sdb s')"
  by (induction rule: auth_step.induct) (erule (1) keeps_service [THEN keepsD] keeps_refresh [THEN keepsD])+

lemma steps_keep: "(auth_step S)\<^sup>*\<^sup>* s s' \<Longrightarrow> I (sdb s) \<Longrightarrow> I (sdb s')"
  by (induction rule: rtranclp_induct) (auto intro: step_keeps)

end

interpretation accounts: table_invariant accounts_inv
  by unfold_locales (simp add: accounts_inv_def users.outcomes live.outcomes members.outcomes)

interpretation accounts_service: service_invariant accounts_inv
  by unfold_locales (use accounts_calls_inv [OF r_into_rtranclp] user_call.call_write in blast)

section \<open>Tombstones stay\<close>

text \<open>A tombstone no older than \<open>c\<close>, which no purge with a cutoff up to \<open>c\<close> removes.\<close>

definition tombstone_since :: "time \<Rightarrow> TombstoneType \<Rightarrow> string \<Rightarrow> db \<Rightarrow> bool" where
  "tombstone_since c k h d \<longleftrightarrow>
     (\<exists>r \<in> set (t_tombstones d). ts_identifier_type r = k \<and> ts_hmac_hash r = h \<and> c \<le> ts_created_at r)"

lemma tombstone_since_exists: "tombstone_since c k h d \<Longrightarrow> tombstone_exists k h d"
  by (auto simp: tombstone_since_def tombstone_exists_def)

text \<open>None of the tombstones of an identifier is older than \<open>c\<close>.\<close>

definition tombstones_young :: "time \<Rightarrow> TombstoneType \<Rightarrow> string \<Rightarrow> db \<Rightarrow> bool" where
  "tombstones_young c k h d \<longleftrightarrow>
     (\<forall>r \<in> set (t_tombstones d). ts_identifier_type r = k \<and> ts_hmac_hash r = h \<longrightarrow> c \<le> ts_created_at r)"

interpretation young: table_invariant "tombstones_young c k h" for c k h
  by unfold_locales (simp add: tombstones_young_def)

interpretation tomb: table_invariant "tombstone_since c k h" for c k h
  by unfold_locales (simp add: tombstone_since_def)

lemma tombstone_statements:
  assumes "tombstone_since c k h d"
  shows "tombstone_since c k h (snd (insert_user n t p d))" "tombstone_since c k h (snd (insert_verification t i tok e d))"
    "tombstone_since c k h (snd (invalidate_verifications t i d))" "tombstone_since c k h (snd (update_user i f d))"
    "tombstone_since c k h (snd (consume_verification t tok d))" "tombstone_since c k h (snd (insert_login inet t m ip b d))"
    "tombstone_since c k h (snd (copy_codes ids i hs d))" "tombstone_since c k h (snd (delete_codes i d))"
    "tombstone_since c k h (snd (mark_code t i d))" "tombstone_since c k h (snd (insert_tombstone t ts d))"
    "tombstone_since c k h (snd (delete_user t i d))"
  using assms
  by (auto simp: tombstone_since_def insert_user_def insert_verification_def invalidate_verifications_def update_user_def
      consume_verification_def insert_login_def copy_codes_def delete_codes_def mark_code_def insert_tombstone_def delete_user_def
      without_user_def Let_def)

interpretation tomb_ver: verification_statements "tombstone_since c k h" for c k h
  by unfold_locales (simp_all add: tombstone_statements)

interpretation tomb_writes: user_writes "tombstone_since c k h" for c k h
  by unfold_locales (simp_all add: tomb_ver.create_keeps tomb_ver.replace_keeps tombstone_statements)


interpretation tomb_service: service_invariant "tombstone_since c k h" for c k h
  by unfold_locales (rule tomb_writes.user_write_inv)


section \<open>What a success means\<close>

lemma scan_row_ok: "scan_row msg f q d = (Inr c, d') \<longleftrightarrow> (\<exists>u. q d = (Inr (Some u), d') \<and> c = f u)"
  by (auto simp: scan_row_def split: prod.splits sum.splits option.splits)

lemma GetByEmail_ok:
  assumes "GetByEmail e d = (Inr c, d')"
  shows "\<exists>u. find (\<lambda>u. u_email u = e) (t_users d) = Some u \<and> c = to_Credentials u \<and> tables d' = tables d"
proof -
  from assms obtain u where q: "pg_query (\<lambda>d. find (\<lambda>u. u_email u = e) (t_users d)) d = (Inr (Some u), d')" "c = to_Credentials u"
    by (auto simp: GetByEmail_def scanCredentials_def scan_row_ok split: prod.splits sum.splits if_splits)
  have "find (\<lambda>u. u_email u = e) (t_users d) = Some u" using pg_query_ok [OF q(1)] by simp
  then show ?thesis using q(2) pg_query_tables [OF q(1)] by blast
qed

lemma GetCredentials_ok:
  assumes "GetCredentialsByID i d = (Inr c, d')"
  shows "\<exists>u. find_user i d = Some u \<and> c = to_Credentials u \<and> tables d' = tables d"
proof -
  from assms obtain u where q: "pg_query (find_user i) d = (Inr (Some u), d')" "c = to_Credentials u"
    by (auto simp: GetCredentialsByID_def scanCredentials_def scan_row_ok split: prod.splits sum.splits if_splits)
  have "find_user i d = Some u" using pg_query_ok [OF q(1)] by (simp add: find_user_def)
  then show ?thesis using q(2) pg_query_tables [OF q(1)] by blast
qed

lemma VerifyPassword_ok: "VerifyPassword A p h = Inr b \<longleftrightarrow> ar_Compare A p h = Inr b"
  by (auto simp: VerifyPassword_def split: sum.splits)

lemma issueTokens_ok:
  assumes "issueTokens S now n u v s = (Inr t, s')"
  shows "NewAccessToken (sv_uuid S) (sv_jwt S) now u (cfg_JWTSecret (sv_cfg S)) (cfg_JWTAccessTTL (sv_cfg S)) (cfg_ServerURL (sv_cfg S)) v
      = Inr (tp_AccessToken t)"
    and "CreateRefreshToken (sv_uuid S) (sv_valkey S) n u (cfg_JWTRefreshTTL (sv_cfg S)) (svk s) = (Inr (tp_RefreshToken t), svk s')"
    and "sdb s' = sdb s"
  using assms unfolding issueTokens_def by (auto elim!: bindc_ok dest!: at_vkD)

text \<open>A recovery code that was matched is among the codes and verifies.\<close>

lemma match_code_Some:
  "match_code A code m rcs = Some rc \<Longrightarrow> m = Some rc \<or> rc \<in> set rcs \<and> VerifyRecoveryCode A code (rec_CodeHash rc) = Inr True"
  by (induction A code m rcs rule: match_code.induct) (auto split: sum.splits if_splits)

lemma match_code_None: "match_code A code None rcs = None \<longleftrightarrow> (\<forall>rc \<in> set rcs. VerifyRecoveryCode A code (rec_CodeHash rc) \<noteq> Inr True)"
proof -
  have some: "match_code A code (Some x) rcs = Some x" for x rcs
    by (induction rcs) (auto split: sum.splits)
  show ?thesis by (induction rcs) (auto split: sum.splits simp: some)
qed

lemma UseRecoveryCode_ok:
  assumes "UseRecoveryCode t c d = (Inr (), d')"
  shows "tables d' = tables (snd (mark_code t c d))"
proof -
  have "pg_stmt (mark_code t c) d = (Inr (), d')" using assms by (auto simp: UseRecoveryCode_def split: prod.splits sum.splits)
  moreover have "pure_stmt (mark_code t c)" by (auto simp: pure_stmt_def mark_code_def)
  ultimately show ?thesis by (rule pg_stmt_success_at(2)) simp
qed

lemma unused_tables: "tables d' = tables d \<Longrightarrow> unused_codes u d' = unused_codes u d"
  using tables_fields(12) [of d' d] by (simp add: unused_codes_def)

lemma unused_marked: "rec_ID rc \<notin> rec_ID ` set (unused_codes u (snd (mark_code t (rec_ID rc) d)))"
  by (auto simp: unused_codes_def mark_code_def split: if_splits)

lemma tryRecoveryCode_ok:
  assumes "tryRecoveryCode S now u code s = (Inr (), s')"
  shows "\<exists>rc \<in> set (unused_codes u (sdb s)). VerifyRecoveryCode (sv_argon S) code (rec_CodeHash rc) = Inr True
      \<and> rec_ID rc \<notin> rec_ID ` set (unused_codes u (sdb s'))" and "svk s' = svk s"
proof -
  obtain codes s1 where q: "GetUnusedRecoveryCodes u (sdb s) = (Inr codes, sdb s1)" "svk s1 = svk s"
    and r: "(case match_code (sv_argon S) code None codes of None \<Rightarrow> fail ErrInvalidMFACode
       | Some rc \<Rightarrow> maperr (Wrap ''mark recovery code used'') (at_db (UseRecoveryCode now (rec_ID rc)))) s1 = (Inr (), s')"
    using assms unfolding tryRecoveryCode_def by (auto elim!: bindc_ok dest!: at_dbD)
  then obtain rc where rc: "match_code (sv_argon S) code None codes = Some rc" "UseRecoveryCode now (rec_ID rc) (sdb s1) = (Inr (), sdb s')"
    "svk s' = svk s1"
    by (auto split: option.splits dest!: at_dbD)
  have "codes = unused_codes u (sdb s)"
    using q(1) by (auto simp: GetUnusedRecoveryCodes_def unused_codes_def split: prod.splits sum.splits dest!: pg_query_ok)
  moreover have "rec_ID rc \<notin> rec_ID ` set (unused_codes u (sdb s'))"
    using unused_marked unused_tables [OF UseRecoveryCode_ok [OF rc(2)]] by metis
  ultimately show "\<exists>rc \<in> set (unused_codes u (sdb s)). VerifyRecoveryCode (sv_argon S) code (rec_CodeHash rc) = Inr True
      \<and> rec_ID rc \<notin> rec_ID ` set (unused_codes u (sdb s'))"
    using match_code_Some [OF rc(1)] by blast
  show "svk s' = svk s" using rc(3) q(2) by simp
qed

end
