(* ===== verification/Auth_Http.thy ===== *)
theory Auth_Http
  imports Auth_Laws
begin

text \<open>
  \<open>internal/auth/middleware.go\<close>, \<open>csrf.go\<close>, \<open>cookie.go\<close> and the endpoints of \<open>api/auth.go\<close>, \<open>api/mfa.go\<close> and
  \<open>api/user.go\<close>. A request also holds its method, headers, cookies and address and what the
  middleware stored; a middleware answers or passes the request on. A body that does not
  parse is \<open>None\<close>.
\<close>

section \<open>Requests and cookies\<close>

record auth_request = request +
  rq_method :: string
  rq_header :: "string \<Rightarrow> string"
  rq_cookie :: "string \<Rightarrow> string"
  rq_ip :: string
  rq_emailVerified :: "bool option"
  rq_authSource :: "string option"

definition AuthSourceHeader :: string where "AuthSourceHeader = ''header''"
definition AuthSourceCookie :: string where "AuthSourceCookie = ''cookie''"

datatype same_site = Lax | Strict

record cookie =
  ck_Name :: string
  ck_Value :: string
  ck_Path :: string
  ck_MaxAge :: int
  ck_HTTPOnly :: bool
  ck_Secure :: bool
  ck_SameSite :: same_site

definition cookieName :: "auth_config \<Rightarrow> string \<Rightarrow> string" where
  "cookieName cfg suffix = (if IsDevelopment cfg then suffix else ''__Host-'' @ suffix)"

definition AccessCookieName :: "auth_config \<Rightarrow> string" where "AccessCookieName cfg = cookieName cfg ''access_token''"
definition RefreshCookieName :: "auth_config \<Rightarrow> string" where "RefreshCookieName cfg = cookieName cfg ''refresh_token''"
definition CSRFCookieName :: "auth_config \<Rightarrow> string" where "CSRFCookieName cfg = cookieName cfg ''csrf_token''"

definition csrfTokenBytes :: nat where "csrfTokenBytes = 32"

text \<open>\<open>int(cfg.JWTRefreshTTL / time.Second)\<close>: the quotient is truncated.\<close>

definition SetAuthCookies :: "auth_config \<Rightarrow> string \<Rightarrow> string \<Rightarrow> string \<Rightarrow> cookie list" where
  "SetAuthCookies cfg rnd accessToken refreshToken =
     (let secure = \<not> IsDevelopment cfg; cookieMaxAge = sgn (cfg_JWTRefreshTTL cfg) * (\<bar>cfg_JWTRefreshTTL cfg\<bar> div 1000)
      in [\<lparr>ck_Name = AccessCookieName cfg, ck_Value = accessToken, ck_Path = ''/api'', ck_MaxAge = cookieMaxAge,
           ck_HTTPOnly = True, ck_Secure = secure, ck_SameSite = Lax\<rparr>,
          \<lparr>ck_Name = RefreshCookieName cfg, ck_Value = refreshToken, ck_Path = ''/api/v1/auth/refresh'', ck_MaxAge = cookieMaxAge,
           ck_HTTPOnly = True, ck_Secure = secure, ck_SameSite = Strict\<rparr>,
          \<lparr>ck_Name = CSRFCookieName cfg, ck_Value = generateSecureToken csrfTokenBytes rnd, ck_Path = ''/'', ck_MaxAge = cookieMaxAge,
           ck_HTTPOnly = False, ck_Secure = secure, ck_SameSite = Lax\<rparr>])"

definition ClearAuthCookies :: "auth_config \<Rightarrow> cookie list" where
  "ClearAuthCookies cfg =
     (let secure = \<not> IsDevelopment cfg
      in [\<lparr>ck_Name = AccessCookieName cfg, ck_Value = [], ck_Path = ''/api'', ck_MaxAge = -1,
           ck_HTTPOnly = True, ck_Secure = secure, ck_SameSite = Lax\<rparr>,
          \<lparr>ck_Name = RefreshCookieName cfg, ck_Value = [], ck_Path = ''/api/v1/auth/refresh'', ck_MaxAge = -1,
           ck_HTTPOnly = True, ck_Secure = secure, ck_SameSite = Strict\<rparr>,
          \<lparr>ck_Name = CSRFCookieName cfg, ck_Value = [], ck_Path = ''/'', ck_MaxAge = -1,
           ck_HTTPOnly = False, ck_Secure = secure, ck_SameSite = Lax\<rparr>])"

section \<open>Middleware\<close>

definition jwt_ErrTokenExpired :: error where "jwt_ErrTokenExpired = Sentinel ''jwt.ErrTokenExpired''"

text \<open>
  \<open>strings.EqualFold\<close> with the prefix \<open>Bearer\<close> and a space: none of its letters has a case variant
  outside ASCII.
\<close>

definition bearer_token :: "string \<Rightarrow> string option" where
  "bearer_token header =
     (if length header \<le> 7 \<or> map ascii_lower (take 7 header) \<noteq> ''bearer '' then None else Some (drop 7 header))"

definition Unauthorised :: Code where "Unauthorised = Coded ''Unauthorised''"

definition credentials_of :: "auth_config \<Rightarrow> auth_request \<Rightarrow> 'p reaction + (string \<times> string)" where
  "credentials_of cfg c =
     (let header = rq_header c ''Authorization''; ck = rq_cookie c (AccessCookieName cfg)
      in if header \<noteq> []
         then (case bearer_token header of
                 None \<Rightarrow> Inl (Fail 401 Unauthorised ''Invalid authorization format'')
               | Some tok \<Rightarrow> Inr (tok, AuthSourceHeader))
         else if ck \<noteq> [] then Inr (ck, AuthSourceCookie)
         else Inl (Fail 401 Unauthorised ''Missing authentication credentials''))"

definition RequireAuth ::
  "uuid_lib \<Rightarrow> jwt_lib \<Rightarrow> time \<Rightarrow> string \<Rightarrow> string \<Rightarrow> auth_config \<Rightarrow> auth_request \<Rightarrow> 'p reaction + auth_request" where
  "RequireAuth U J now secret issuer cfg c =
     (case credentials_of cfg c of Inl rx \<Rightarrow> Inl rx | Inr (tokenStr, authSource) \<Rightarrow>
     (case ValidateAccessToken J now tokenStr secret issuer of
        Inl e \<Rightarrow> (if errors_Is e jwt_ErrTokenExpired then Inl (Fail 401 (Coded ''TokenExpired'') ''Token has expired'')
                  else Inl (Fail 401 Unauthorised ''Invalid token''))
      | Inr claims \<Rightarrow>
          (case uuid_Parse U (ac_Subject claims) of
             None \<Rightarrow> Inl (Fail 401 Unauthorised ''Invalid token subject'')
           | Some userID \<Rightarrow>
               Inr (c\<lparr>rq_userID := Some userID, rq_emailVerified := Some (ac_EmailVerified claims), rq_authSource := Some authSource\<rparr>))))"

definition RequireVerifiedEmail :: "auth_request \<Rightarrow> 'p reaction + auth_request" where
  "RequireVerifiedEmail c =
     (case rq_emailVerified c of
        None \<Rightarrow> Inl (Fail 401 Unauthorised ''Missing user identity'')
      | Some verified \<Rightarrow>
          (if \<not> verified then Inl (Fail 403 (Coded ''EmailNotVerified'') ''Email verification is required'') else Inr c))"

text \<open>\<open>subtle.ConstantTimeCompare\<close> gives 1 exactly for equal contents.\<close>

definition RequireCSRF :: "auth_config \<Rightarrow> auth_request \<Rightarrow> 'p reaction + auth_request" where
  "RequireCSRF cfg c =
     (if rq_method c \<in> {''GET'', ''HEAD'', ''OPTIONS''} then Inr c
      else if rq_authSource c \<noteq> Some AuthSourceCookie then Inr c
      else let cookieToken = rq_cookie c (CSRFCookieName cfg); headerToken = rq_header c ''X-CSRF-Token''
      in if cookieToken = [] \<or> headerToken = [] then Inl (Fail 403 (Coded ''CSRFTokenMissing'') ''CSRF token is required'')
         else if cookieToken \<noteq> headerToken then Inl (Fail 403 (Coded ''CSRFTokenInvalid'') ''CSRF token mismatch'')
         else Inr c)"

section \<open>Answers\<close>

datatype AuthPayload =
    PAuth UserModel string string
  | PMFARequired string
  | PTokens string string
  | PMessageText string
  | PTicket string
  | PMFASetup string string
  | PRecoveryCodes "string list"
  | PUser UserModel
  | PProfile UserProfileModel

definition toAuthResponse :: "AuthResult \<Rightarrow> AuthPayload" where
  "toAuthResponse r = PAuth (re_User r) (re_AccessToken r) (re_RefreshToken r)"

text \<open>The cases of \<open>mapAuthServiceError\<close> in their order: the errors, the status, the code, the message.\<close>

definition auth_error_table :: "(error \<times> nat \<times> Code \<times> string) list" where
  "auth_error_table =
    [(ErrInvalidEmail, 400, Coded ''InvalidEmail'', ''invalid email format''),
     (ErrUsernameLength, 400, Coded ''InvalidUsername'', ''username must be between 2 and 32 characters''),
     (ErrUsernameInvalidChars, 400, Coded ''InvalidUsername'', ''username may only contain letters, digits, underscores, and periods''),
     (ErrPasswordTooShort, 400, Coded ''InvalidPassword'', ''password must be at least 8 characters''),
     (ErrPasswordTooLong, 400, Coded ''InvalidPassword'', ''password must be at most 128 characters''),
     (ErrDisposableEmail, 400, Coded ''DisposableEmail'', ''disposable email addresses are not allowed''),
     (ErrEmailAlreadyTaken, 400, Coded ''InvalidEmail'', ''Unable to register with the provided email''),
     (ErrInvalidCredentials, 401, Coded ''InvalidCredentials'', ''invalid email or password''),
     (ErrInvalidMFACode, 401, Coded ''InvalidMFACode'', ''invalid MFA code''),
     (ErrMFANotEnabled, 400, Coded ''MFANotEnabled'', ''MFA is not enabled on this account''),
     (ErrMFAAlreadyEnabled, 409, Coded ''MFAAlreadyEnabled'', ''MFA is already enabled on this account''),
     (ErrMFASetupLocked, 429, Coded ''RateLimited'', ''too many failed MFA setup attempts''),
     (ErrMFANotConfigured, 503, Coded ''ServiceUnavailable'', ''MFA is not configured on this server''),
     (ErrRefreshTokenReused, 401, Coded ''TokenReused'', ''Refresh token has already been used''),
     (ErrRefreshTokenNotFound, 401, Coded ''InvalidToken'', ''refresh token not found''),
     (ErrInvalidToken, 400, Coded ''InvalidToken'', ''invalid or expired token''),
     (ErrServerOwner, 403, ServerOwner, ''the server owner cannot delete their account''),
     (ErrAccountTombstoned, 400, Coded ''AccountDeleted'', ''This email or username is not available''),
     (ErrEmailAlreadyVerified, 409, Coded ''EmailAlreadyVerified'', ''email is already verified''),
     (ErrVerificationCooldown, 429, Coded ''RateLimited'', ''please wait before requesting another verification email'')]"

definition mapAuthServiceError :: "error \<Rightarrow> 'p reaction" where
  "mapAuthServiceError e =
     (case find (\<lambda>row. errors_Is e (fst row)) auth_error_table of
        Some (_, status, code, message) \<Rightarrow> Fail status code message
      | None \<Rightarrow> Fail 500 InternalError ''An internal error occurred'')"

type_synonym answered = "AuthPayload reaction \<times> cookie list"

text \<open>The frame of the handlers: a call of the service, then the response with its cookies.\<close>

definition answer :: "('a, 's) call \<Rightarrow> ('a \<Rightarrow> answered) \<Rightarrow> 's \<Rightarrow> answered \<times> 's" where
  "answer m f s = (case m s of (Inl e, s') \<Rightarrow> ((mapAuthServiceError e, []), s') | (Inr x, s') \<Rightarrow> (f x, s'))"

definition plain :: "AuthPayload reaction \<Rightarrow> 's \<Rightarrow> answered \<times> 's" where
  "plain rx s = ((rx, []), s)"

definition bad_body :: "string \<Rightarrow> 's \<Rightarrow> answered \<times> 's" where
  "bad_body message = plain (Fail 400 InvalidBody message)"

definition with_user :: "auth_request \<Rightarrow> (uuid \<Rightarrow> 's \<Rightarrow> answered \<times> 's) \<Rightarrow> 's \<Rightarrow> answered \<times> 's" where
  "with_user c k = (case UserID (request.truncate c) of Inl rx \<Rightarrow> plain rx | Inr userID \<Rightarrow> k userID)"

definition with_body :: "'b option \<Rightarrow> ('b \<Rightarrow> 's \<Rightarrow> answered \<times> 's) \<Rightarrow> 's \<Rightarrow> answered \<times> 's" where
  "with_body body k = (case body of None \<Rightarrow> bad_body ''Invalid request body'' | Some b \<Rightarrow> k b)"

definition signed_in :: "auth_config \<Rightarrow> string \<Rightarrow> AuthResult \<Rightarrow> AuthPayload reaction \<Rightarrow> answered" where
  "signed_in cfg rnd r rx = (rx, SetAuthCookies cfg rnd (re_AccessToken r) (re_RefreshToken r))"

section \<open>api/auth.go\<close>

definition auth_Register ::
  "'r service \<Rightarrow> time \<Rightarrow> uuid \<Rightarrow> uuid \<Rightarrow> string \<Rightarrow> string \<Rightarrow> string \<Rightarrow> (nat \<times> string) result \<Rightarrow> RegisterRequest option
     \<Rightarrow> 'r site \<Rightarrow> answered \<times> 'r site" where
  "auth_Register S now newID newTok salt rnd csrf fetch body =
     with_body body (\<lambda>b.
       answer (Register S now newID newTok salt rnd fetch b)
         (\<lambda>r. signed_in (sv_cfg S) csrf r (SuccessStatus 201 (toAuthResponse r))))"

definition auth_Login ::
  "'r service \<Rightarrow> time \<Rightarrow> uuid \<Rightarrow> string \<Rightarrow> string \<Rightarrow> auth_request \<Rightarrow> (string \<times> string) option \<Rightarrow> 'r site \<Rightarrow> answered \<times> 'r site" where
  "auth_Login S now newTok salt csrf c body =
     with_body body (\<lambda>(email, password).
       answer (Login S now newTok salt \<lparr>lr_Email = email, lr_Password = password, lr_IP = rq_ip c\<rparr>)
         (\<lambda>r. case r of
                MFARequired ticket \<Rightarrow> (Success (PMFARequired ticket), [])
              | LoggedIn a \<Rightarrow> signed_in (sv_cfg S) csrf a (Success (toAuthResponse a))))"

definition auth_MFAVerify ::
  "'r service \<Rightarrow> time \<Rightarrow> uuid \<Rightarrow> string \<Rightarrow> (string \<times> string) option \<Rightarrow> 'r site \<Rightarrow> answered \<times> 'r site" where
  "auth_MFAVerify S now newTok csrf body =
     with_body body (\<lambda>(ticket, code).
       if ticket = [] \<or> code = [] then bad_body ''ticket and code are required''
       else answer (VerifyMFA S now newTok ticket code)
              (\<lambda>r. signed_in (sv_cfg S) csrf r (Success (toAuthResponse r))))"

definition auth_Refresh ::
  "'r service \<Rightarrow> time \<Rightarrow> uuid \<Rightarrow> string \<Rightarrow> auth_request \<Rightarrow> string option \<Rightarrow> 'r site \<Rightarrow> answered \<times> 'r site" where
  "auth_Refresh S now newTok csrf c body =
     with_body body (\<lambda>given.
       let refreshToken = (if given = [] then rq_cookie c (RefreshCookieName (sv_cfg S)) else given)
       in if refreshToken = [] then bad_body ''refresh_token is required''
          else answer (Refresh S now newTok refreshToken)
                 (\<lambda>t. (Success (PTokens (tp_AccessToken t) (tp_RefreshToken t)),
                       SetAuthCookies (sv_cfg S) csrf (tp_AccessToken t) (tp_RefreshToken t))))"

definition auth_VerifyEmail ::
  "'r service \<Rightarrow> time \<Rightarrow> uuid \<Rightarrow> string \<Rightarrow> string option \<Rightarrow> 'r site \<Rightarrow> answered \<times> 'r site" where
  "auth_VerifyEmail S now newTok csrf body =
     with_body body (\<lambda>token.
       if token = [] then bad_body ''token is required''
       else answer (VerifyEmail S now newTok token)
              (\<lambda>r. signed_in (sv_cfg S) csrf r (Success (toAuthResponse r))))"

definition auth_VerifyPassword :: "'r service \<Rightarrow> auth_request \<Rightarrow> string option \<Rightarrow> 'r site \<Rightarrow> answered \<times> 'r site" where
  "auth_VerifyPassword S c body =
     with_user c (\<lambda>userID. with_body body (\<lambda>password.
       if password = [] then bad_body ''password is required''
       else answer (VerifyUserPassword S userID password) (\<lambda>_. (SendStatus 204, []))))"

definition auth_ResendVerification :: "'r service \<Rightarrow> time \<Rightarrow> string \<Rightarrow> auth_request \<Rightarrow> 'r site \<Rightarrow> answered \<times> 'r site" where
  "auth_ResendVerification S now rnd c =
     with_user c (\<lambda>userID.
       answer (ResendVerification S now rnd userID) (\<lambda>_. (Success (PMessageText ''Verification email sent''), [])))"

definition auth_Logout :: "'r service \<Rightarrow> auth_request \<Rightarrow> 'r site \<Rightarrow> answered \<times> 'r site" where
  "auth_Logout S c =
     with_user c (\<lambda>userID.
       answer (quiet (RevokeAllUserTokens S userID)) (\<lambda>_. (SendStatus 204, ClearAuthCookies (sv_cfg S))))"

definition auth_GatewayTicket :: "'r service \<Rightarrow> uuid \<Rightarrow> auth_request \<Rightarrow> 'r site \<Rightarrow> answered \<times> 'r site" where
  "auth_GatewayTicket S new c =
     with_user c (\<lambda>userID s.
       case IssueGatewayTicket S new userID s of
         (Inl _, s') \<Rightarrow> plain (Fail 500 InternalError ''An internal error occurred'') s'
       | (Inr ticket, s') \<Rightarrow> plain (Success (PTicket ticket)) s')"

section \<open>api/mfa.go\<close>

definition MFAEnable :: "'r service \<Rightarrow> string \<Rightarrow> string \<Rightarrow> auth_request \<Rightarrow> string option \<Rightarrow> 'r site \<Rightarrow> answered \<times> 'r site" where
  "MFAEnable S rnd nonce c body =
     with_user c (\<lambda>userID. with_body body (\<lambda>password.
       if password = [] then bad_body ''password is required''
       else answer (BeginMFASetup S rnd nonce userID password) (\<lambda>(secret, uri). (Success (PMFASetup secret uri), []))))"

definition MFAConfirm ::
  "'r service \<Rightarrow> time \<Rightarrow> uuid list \<Rightarrow> (nat \<Rightarrow> string) \<Rightarrow> (nat \<Rightarrow> string) \<Rightarrow> auth_request \<Rightarrow> string option \<Rightarrow> 'r site \<Rightarrow> answered \<times> 'r site" where
  "MFAConfirm S now ids rnd salts c body =
     with_user c (\<lambda>userID. with_body body (\<lambda>code.
       if code = [] then bad_body ''code is required''
       else answer (ConfirmMFASetup S now ids rnd salts userID code) (\<lambda>codes. (Success (PRecoveryCodes codes), []))))"

definition MFADisable :: "'r service \<Rightarrow> time \<Rightarrow> auth_request \<Rightarrow> (string \<times> string) option \<Rightarrow> 'r site \<Rightarrow> answered \<times> 'r site" where
  "MFADisable S now c body =
     with_user c (\<lambda>userID. with_body body (\<lambda>(password, code).
       if password = [] \<or> code = [] then bad_body ''password and code are required''
       else answer (DisableMFA S now userID password code) (\<lambda>_. (Success (PMessageText ''MFA has been disabled''), []))))"

definition RegenerateCodes ::
  "'r service \<Rightarrow> uuid list \<Rightarrow> (nat \<Rightarrow> string) \<Rightarrow> (nat \<Rightarrow> string) \<Rightarrow> auth_request \<Rightarrow> string option \<Rightarrow> 'r site \<Rightarrow> answered \<times> 'r site" where
  "RegenerateCodes S ids rnd salts c body =
     with_user c (\<lambda>userID. with_body body (\<lambda>password.
       if password = [] then bad_body ''password is required''
       else answer (RegenerateRecoveryCodes S ids rnd salts userID password) (\<lambda>codes. (Success (PRecoveryCodes codes), []))))"

section \<open>api/user.go\<close>

definition mapUserError :: "error \<Rightarrow> 'p reaction" where
  "mapUserError e =
     (if errors_Is e user_ErrNotFound then Fail 404 (Coded ''UnknownUser'') ''User not found''
      else if errors_Is e ErrDisplayNameLength then Fail 400 ValidationError ''display name must be between 1 and 32 characters''
      else if errors_Is e ErrPronounsLength then Fail 400 ValidationError ''pronouns must be between 1 and 40 characters''
      else if errors_Is e ErrAboutLength then Fail 400 ValidationError ''about must be between 1 and 190 characters''
      else if errors_Is e ErrThemeColourRange then Fail 400 ValidationError ''theme colour must be between 0 and 16777215''
      else Fail 500 InternalError ''An internal error occurred'')"

definition answer_user :: "('a, 's) call \<Rightarrow> ('a \<Rightarrow> AuthPayload) \<Rightarrow> 's \<Rightarrow> answered \<times> 's" where
  "answer_user m f s = (case m s of (Inl e, s') \<Rightarrow> plain (mapUserError e) s' | (Inr x, s') \<Rightarrow> plain (Success (f x)) s')"

definition GetMe :: "uuid_lib \<Rightarrow> auth_request \<Rightarrow> 'r site \<Rightarrow> answered \<times> 'r site" where
  "GetMe U c = with_user c (\<lambda>userID. answer_user (at_db (user_GetByID userID)) (\<lambda>u. PUser (user_ToModel U u)))"

definition GetProfile :: "uuid_lib \<Rightarrow> auth_request \<Rightarrow> 'r site \<Rightarrow> answered \<times> 'r site" where
  "GetProfile U c =
     (case ParseUUIDParam U (request.truncate c) ''userID'' ValidationError of
        Inl rx \<Rightarrow> plain rx
      | Inr targetID \<Rightarrow> answer_user (at_db (user_GetByID targetID)) (\<lambda>u. PProfile (ToProfileModel U u)))"

definition UpdateMe :: "uuid_lib \<Rightarrow> auth_request \<Rightarrow> user_UpdateParams option \<Rightarrow> 'r site \<Rightarrow> answered \<times> 'r site" where
  "UpdateMe U c body =
     with_user c (\<lambda>userID. with_body body (\<lambda>b.
       let p = b\<lparr>uu_DisplayName := NormalizeDisplayName (uu_DisplayName b), uu_Pronouns := NormalizePronouns (uu_Pronouns b),
                 uu_About := NormalizeAbout (uu_About b)\<rparr>
       in answer_user
            (bindc (lift (ValidateDisplayName (uu_DisplayName p))) (\<lambda>_.
             bindc (lift (ValidatePronouns (uu_Pronouns p))) (\<lambda>_.
             bindc (lift (ValidateAbout (uu_About p))) (\<lambda>_.
             bindc (lift (ValidateThemeColour (uu_ThemeColourPrimary p))) (\<lambda>_.
             bindc (lift (ValidateThemeColour (uu_ThemeColourSecondary p))) (\<lambda>_.
             at_db (user_Update userID p)))))))
            (\<lambda>u. PUser (user_ToModel U u))))"

definition DeleteMe :: "'r service \<Rightarrow> time \<Rightarrow> auth_request \<Rightarrow> string option \<Rightarrow> 'r site \<Rightarrow> answered \<times> 'r site" where
  "DeleteMe S now c body =
     with_user c (\<lambda>userID. with_body body (\<lambda>password.
       if password = [] then bad_body ''password is required''
       else answer (DeleteAccount S now userID password) (\<lambda>_. (SendStatus 204, []))))"

end
