(* ===== verification/Queries.thy ===== *)
theory Queries
  imports Calls Database
begin

text \<open>The forms in which the repositories run a statement and read its result.\<close>

text \<open>One row, scanned by a function that wraps its errors with \<open>msg\<close>; no row is \<open>pgx.ErrNoRows\<close>.\<close>

definition scan_one :: "string \<Rightarrow> ('a option, db) call \<Rightarrow> ('a, db) call" where
  "scan_one msg q =
     bindc (maperr (Wrap msg) q) (\<lambda>r. case r of None \<Rightarrow> fail (Wrap msg pgx_ErrNoRows) | Some x \<Rightarrow> ret x)"

text \<open>The usual treatment of its error: no row is a sentinel error, anything else is wrapped.\<close>

definition or_missing :: "error \<Rightarrow> string \<Rightarrow> ('a, db) call \<Rightarrow> ('a, db) call" where
  "or_missing missing msg = maperr (\<lambda>e. if errors_Is e pgx_ErrNoRows then missing else Wrap msg e)"

definition rows_of :: "string \<Rightarrow> (db \<Rightarrow> 'a) \<Rightarrow> ('a, db) call" where
  "rows_of msg f = maperr (Wrap msg) (pg_query f)"

text \<open>A statement that must affect a row.\<close>

definition affecting :: "error \<Rightarrow> string \<Rightarrow> (nat, db) call \<Rightarrow> (unit, db) call" where
  "affecting missing msg f = bindc (maperr (Wrap msg) (pg_stmt f)) (\<lambda>n. if n = 0 then fail missing else ret ())"

text \<open>\<open>UPDATE ... WHERE P\<close> with the number of rows, and with the first updated row as the result.\<close>

definition updated_rows :: "('a \<Rightarrow> bool) \<Rightarrow> ('a \<Rightarrow> 'a) \<Rightarrow> 'a list \<Rightarrow> 'a list" where
  "updated_rows P f = map (\<lambda>x. if P x then f x else x)"

lemma scan_one_ok [simp]: "scan_one msg q d = (Inr x, d') \<longleftrightarrow> q d = (Inr (Some x), d')"
proof
  show "scan_one msg q d = (Inr x, d') \<Longrightarrow> q d = (Inr (Some x), d')"
    unfolding scan_one_def by (elim bindc_ok) (auto split: option.splits)
qed (simp add: scan_one_def maperr_def)

lemma or_missing_ok [simp]: "or_missing missing msg m d = (Inr x, d') \<longleftrightarrow> m d = (Inr x, d')"
  by (simp add: or_missing_def)

lemma rows_of_ok: "rows_of msg f d = (Inr x, d') \<Longrightarrow> (\<And>os. f (d\<lparr>pg_outcomes := os\<rparr>) = f d) \<Longrightarrow> x = f d \<and> tables d' = tables d"
  by (auto simp: rows_of_def dest: pg_query_tables intro: pg_query_ok)

lemma rows_of_tables: "rows_of msg f d = (x, d') \<Longrightarrow> tables d' = tables d"
  by (auto simp: rows_of_def maperr_def split: prod.splits sum.splits dest: pg_query_tables)

lemma affecting_ok: "affecting missing msg f d = (Inr (), d') \<longleftrightarrow> (\<exists>n. n \<noteq> 0 \<and> pg_stmt f d = (Inr n, d'))"
proof
  show "affecting missing msg f d = (Inr (), d') \<Longrightarrow> \<exists>n. n \<noteq> 0 \<and> pg_stmt f d = (Inr n, d')"
    unfolding affecting_def by (elim bindc_ok) (auto split: if_splits)
qed (auto simp: affecting_def maperr_def)

lemma scan_query_tables: "scan_one msg (pg_query f) d = (x, d') \<Longrightarrow> tables d' = tables d"
  unfolding scan_one_def
  by (erule bindc_cases) (auto simp: maperr_def split: prod.splits sum.splits option.splits dest: pg_query_tables)

lemma or_missing_tables:
  "(\<And>y d'. m d = (y, d') \<Longrightarrow> tables d' = tables d) \<Longrightarrow> or_missing missing msg m d = (x, d') \<Longrightarrow> tables d' = tables d"
  by (auto simp: or_missing_def maperr_def split: prod.splits sum.splits)

section \<open>Invariants\<close>

text \<open>A property of the tables is kept by a call of the repository: the forms above, one by one.\<close>

context table_invariant
begin

lemma keeps_stmt: "(\<And>d. I d \<Longrightarrow> I (snd (f d))) \<Longrightarrow> keeps I (pg_stmt f)"
  by (rule keepsI) (rule stmt)

lemma keeps_query [keeping]: "keeps I (pg_query f)"
  by (rule keepsI) (rule query)

lemma keeps_tx [keeping]: "keeps I f \<Longrightarrow> keeps I (WithTx f)"
  by (rule keepsI) (auto intro: tx dest: keepsD)

lemma keeps_forms [keeping]:
  "keeps I q \<Longrightarrow> keeps I (scan_one msg q)" "keeps I m \<Longrightarrow> keeps I (or_missing missing msg m)" "keeps I (rows_of msg g)"
  "keeps I (pg_stmt f) \<Longrightarrow> keeps I (affecting missing msg f)"
  unfolding scan_one_def or_missing_def rows_of_def affecting_def by (intro keeping | assumption)+

end

end
