(* ===== verification/Onboarding.thy ===== *)
theory Onboarding
  imports Queries Protocol Role
begin

text \<open>
  \<open>internal/onboarding\<close>: the configuration row, the recorded acceptances and the documents loaded
  from the file system at start. Slices are lists. The file system is the parameter \<open>fs\<close> and the
  decoder of the manifest the parameter \<open>unmarshal\<close>.
\<close>

section \<open>Configuration\<close>

definition onboarding_ErrNotFound :: error where "onboarding_ErrNotFound = Sentinel ''onboarding.ErrNotFound''"
definition ErrOpenJoinDisabled :: error where "ErrOpenJoinDisabled = Sentinel ''onboarding.ErrOpenJoinDisabled''"
definition ErrDocumentsIncomplete :: error where "ErrDocumentsIncomplete = Sentinel ''onboarding.ErrDocumentsIncomplete''"

lemmas onboarding_errors = onboarding_ErrNotFound_def ErrOpenJoinDisabled_def ErrDocumentsIncomplete_def

record onboarding_UpdateParams =
  ou_WelcomeChannelID :: "uuid option"
  ou_SetWelcomeChannelNull :: bool
  ou_RequireEmailVerification :: "bool option"
  ou_OpenJoin :: "bool option"
  ou_MinAccountAgeSeconds :: "int option"
  ou_AutoRoles :: "uuid list"
  ou_SetAutoRoles :: bool

definition onboarding_ToModel :: "uuid_lib \<Rightarrow> onboarding_row \<Rightarrow> OnboardingDocumentModel list \<Rightarrow> OnboardingConfigModel" where
  "onboarding_ToModel U cfg docs =
     \<lparr>oc_WelcomeChannelID = map_option (uuid_String U) (ob_welcome_channel_id cfg),
      oc_RequireEmailVerification = ob_require_email_verification cfg, oc_OpenJoin = ob_open_join cfg,
      oc_MinAccountAgeSeconds = ob_min_account_age_seconds cfg, oc_AutoRoles = map (uuid_String U) (ob_auto_roles cfg),
      oc_Documents = docs\<rparr>"

definition onboarding_scanConfig :: "(onboarding_row option, db) call \<Rightarrow> (onboarding_row, db) call" where
  "onboarding_scanConfig = scan_one ''scan onboarding config''"

definition first_row :: "'a list \<Rightarrow> 'a option" where
  "first_row xs = (case xs of [] \<Rightarrow> None | x # _ \<Rightarrow> Some x)"

definition onboarding_Get :: "(onboarding_row, db) call" where
  "onboarding_Get =
     or_missing onboarding_ErrNotFound ''query onboarding config''
       (onboarding_scanConfig (pg_query (\<lambda>d. first_row (t_onboarding d))))"

definition updated_onboarding :: "time \<Rightarrow> onboarding_UpdateParams \<Rightarrow> onboarding_row \<Rightarrow> onboarding_row" where
  "updated_onboarding now p c =
     c\<lparr>ob_welcome_channel_id := (if ou_SetWelcomeChannelNull p then None
                                 else case ou_WelcomeChannelID p of None \<Rightarrow> ob_welcome_channel_id c | Some i \<Rightarrow> Some i),
       ob_require_email_verification := (case ou_RequireEmailVerification p of None \<Rightarrow> ob_require_email_verification c | Some b \<Rightarrow> b),
       ob_open_join := (case ou_OpenJoin p of None \<Rightarrow> ob_open_join c | Some b \<Rightarrow> b),
       ob_min_account_age_seconds := (case ou_MinAccountAgeSeconds p of None \<Rightarrow> ob_min_account_age_seconds c | Some n \<Rightarrow> n),
       ob_auto_roles := (if ou_SetAutoRoles p then ou_AutoRoles p else ob_auto_roles c), ob_updated_at := now\<rparr>"

text \<open>The \<open>UPDATE\<close> has no \<open>WHERE\<close>: every row is updated, and the first row returned is read.\<close>

definition update_onboarding :: "time \<Rightarrow> onboarding_UpdateParams \<Rightarrow> (onboarding_row option, db) call" where
  "update_onboarding now p d =
     (let rows = map (updated_onboarding now p) (t_onboarding d)
      in if \<not> fits_int4 (ou_MinAccountAgeSeconds p) then (Inl (Ext ''cannot encode into int4''), d)
         else if t_onboarding d \<noteq> [] \<and> \<not> ou_SetWelcomeChannelNull p
                 \<and> (\<exists>i. ou_WelcomeChannelID p = Some i \<and> i \<notin> set (map ch_id (t_channels d)))
         then (Inl foreign_key_violation, d)
         else (Inr (first_row rows), d\<lparr>t_onboarding := rows\<rparr>))"

definition onboarding_Update :: "time \<Rightarrow> onboarding_UpdateParams \<Rightarrow> (onboarding_row, db) call" where
  "onboarding_Update now p =
     (if \<not> ou_SetWelcomeChannelNull p \<and> ou_WelcomeChannelID p = None \<and> ou_RequireEmailVerification p = None
         \<and> ou_OpenJoin p = None \<and> ou_MinAccountAgeSeconds p = None \<and> \<not> ou_SetAutoRoles p
      then onboarding_Get
      else or_missing onboarding_ErrNotFound ''update onboarding config''
             (onboarding_scanConfig (pg_stmt (update_onboarding now p))))"

section \<open>Acceptances\<close>

record Acceptance =
  ac_Slug :: string
  ac_AcceptedAt :: time

text \<open>\<open>INSERT ... ON CONFLICT DO NOTHING\<close>, with the rows of one batch: the server runs it as one transaction.\<close>

definition add_acceptance :: "time \<Rightarrow> uuid \<Rightarrow> acceptance_row list \<Rightarrow> string \<Rightarrow> acceptance_row list" where
  "add_acceptance now u rows slug =
     (if \<exists>a \<in> set rows. da_user_id a = u \<and> da_slug a = slug then rows
      else rows @ [\<lparr>da_user_id = u, da_slug = slug, da_accepted_at = now\<rparr>])"

definition insert_acceptances :: "time \<Rightarrow> uuid \<Rightarrow> string list \<Rightarrow> (unit, db) call" where
  "insert_acceptances now u slugs d =
     (let rows = foldl (add_acceptance now u) (t_acceptances d) slugs
      in if rows \<noteq> t_acceptances d \<and> u \<notin> set (map u_id (t_users d)) then (Inl foreign_key_violation, d)
         else (Inr (), d\<lparr>t_acceptances := rows\<rparr>))"

definition RecordAcceptances :: "time \<Rightarrow> uuid \<Rightarrow> string list \<Rightarrow> (unit, db) call" where
  "RecordAcceptances now u slugs =
     (if slugs = [] then ret ()
      else maperr (Wrap ''record document acceptance'') (pg_stmt (insert_acceptances now u slugs)))"

definition GetAcceptances :: "uuid \<Rightarrow> (Acceptance list, db) call" where
  "GetAcceptances u =
     rows_of ''query document acceptances'' (\<lambda>d. map (\<lambda>a. \<lparr>ac_Slug = da_slug a, ac_AcceptedAt = da_accepted_at a\<rparr>)
       (sort_key da_accepted_at (filter (\<lambda>a. da_user_id a = u) (t_acceptances d))))"

section \<open>Documents\<close>

definition ErrManifestInvalid :: error where "ErrManifestInvalid = Sentinel ''onboarding.ErrManifestInvalid''"
definition ErrDocumentNotFound :: error where "ErrDocumentNotFound = Sentinel ''onboarding.ErrDocumentNotFound''"
definition ErrDuplicateSlug :: error where "ErrDuplicateSlug = Sentinel ''onboarding.ErrDuplicateSlug''"
definition ErrInvalidSlug :: error where "ErrInvalidSlug = Sentinel ''onboarding.ErrInvalidSlug''"

record Document =
  dc_Slug :: string
  dc_Title :: string
  dc_Content :: string
  dc_Position :: int
  dc_Required :: bool

record manifestEntry =
  me_Slug :: string
  me_Title :: string
  me_File :: string
  me_Position :: int
  me_Required :: bool

record DocumentStore =
  ds_docs :: "Document list"
  ds_requiredSlugs :: "string list"

definition EmptyDocumentStore :: DocumentStore where
  "EmptyDocumentStore = \<lparr>ds_docs = [], ds_requiredSlugs = []\<rparr>"

text \<open>What opening a file and reading it to the end can give.\<close>

datatype file_read = Missing | Unreadable | Contents string

text \<open>
  \<open>manifest\<close> reads the manifest of the data directory, \<open>document\<close> a file below its \<open>documents\<close>
  directory through \<open>os.OpenInRoot\<close>, which does not leave that directory.
\<close>

record filesystem =
  fs_manifest :: file_read
  fs_document :: "string \<Rightarrow> file_read"

text \<open>\<open>regexp\<close> \<open>^[a-z0-9][a-z0-9-]*$\<close>\<close>

definition slug_first :: "char \<Rightarrow> bool" where
  "slug_first c \<longleftrightarrow> (97 \<le> byte c \<and> byte c \<le> 122) \<or> (48 \<le> byte c \<and> byte c \<le> 57)"

definition slugPattern :: "string \<Rightarrow> bool" where
  "slugPattern s = (case s of [] \<Rightarrow> False | c # cs \<Rightarrow> slug_first c \<and> list_all (\<lambda>x. slug_first x \<or> byte x = 45) cs)"

text \<open>
  \<open>filepath.IsLocal\<close> on Unix: a relative path that is not empty and whose elements, taken one by
  one, never lead above the directory they start in.
\<close>

fun path_elements :: "string \<Rightarrow> string \<Rightarrow> string list" where
  "path_elements acc [] = [rev acc]"
| "path_elements acc (c # cs) = (if byte c = 47 then rev acc # path_elements [] cs else path_elements (c # acc) cs)"

fun stays_below :: "nat \<Rightarrow> string list \<Rightarrow> bool" where
  "stays_below n [] = True"
| "stays_below n (p # ps) =
     (if p = [] \<or> p = ''.'' then stays_below n ps
      else if p = ''..'' then (case n of 0 \<Rightarrow> False | Suc m \<Rightarrow> stays_below m ps)
      else stays_below (Suc n) ps)"

definition IsLocal :: "string \<Rightarrow> bool" where
  "IsLocal path \<longleftrightarrow> path \<noteq> [] \<and> byte (hd path) \<noteq> 47 \<and> stays_below 0 (path_elements [] path)"

definition validateManifestEntry :: "manifestEntry \<Rightarrow> string list \<Rightarrow> unit result" where
  "validateManifestEntry e seen =
     (if \<not> slugPattern (me_Slug e) then Inl (Wrap (me_Slug e) ErrInvalidSlug)
      else if me_Slug e \<in> set seen then Inl (Wrap (me_Slug e) ErrDuplicateSlug)
      else if TrimSpace (me_Title e) = [] then Inl (Ext ''document has an empty title'')
      else if \<not> IsLocal (me_File e) then Inl (Ext ''document file path contains directory traversal'')
      else Inr ())"

fun load_entries :: "filesystem \<Rightarrow> manifestEntry list \<Rightarrow> string list \<Rightarrow> Document list \<Rightarrow> string list
     \<Rightarrow> (Document list \<times> string list) result" where
  "load_entries fs [] seen docs requiredSlugs = Inr (docs, requiredSlugs)"
| "load_entries fs (e # es) seen docs requiredSlugs =
     (case validateManifestEntry e seen of
        Inl err \<Rightarrow> Inl err
      | Inr _ \<Rightarrow>
          (case fs_document fs (me_File e) of
             Missing \<Rightarrow> Inl (Wrap (me_File e) ErrDocumentNotFound)
           | Unreadable \<Rightarrow> Inl (Wrap (''read document '' @ me_File e) (Ext ''read''))
           | Contents raw \<Rightarrow>
               load_entries fs es (seen @ [me_Slug e])
                 (docs @ [\<lparr>dc_Slug = me_Slug e, dc_Title = me_Title e, dc_Content = raw, dc_Position = me_Position e,
                           dc_Required = me_Required e\<rparr>])
                 (if me_Required e then requiredSlugs @ [me_Slug e] else requiredSlugs)))"

text \<open>
  \<open>sort.Slice\<close> is not stable, so how it arranges the documents is an argument \<open>arrange\<close>: its
  documentation only promises \<open>sorts_by\<close>, a permutation in ascending order.
\<close>

definition sorts_by :: "('a \<Rightarrow> int) \<Rightarrow> ('a list \<Rightarrow> 'a list) \<Rightarrow> bool" where
  "sorts_by key arrange \<longleftrightarrow> (\<forall>xs. mset (arrange xs) = mset xs \<and> sorted (map key (arrange xs)))"

definition LoadDocuments ::
  "(Document list \<Rightarrow> Document list) \<Rightarrow> (string \<Rightarrow> manifestEntry list option) \<Rightarrow> filesystem \<Rightarrow> DocumentStore result" where
  "LoadDocuments arrange unmarshal fs =
     (case fs_manifest fs of
        Missing \<Rightarrow> Inr EmptyDocumentStore
      | Unreadable \<Rightarrow> Inl (Wrap ''read manifest'' (Ext ''read''))
      | Contents data \<Rightarrow>
          (case unmarshal data of
             None \<Rightarrow> Inl (Wrap ''json'' ErrManifestInvalid)
           | Some entries \<Rightarrow>
               (case load_entries fs entries [] [] [] of
                  Inl err \<Rightarrow> Inl err
                | Inr (docs, requiredSlugs) \<Rightarrow>
                    Inr \<lparr>ds_docs = arrange docs, ds_requiredSlugs = requiredSlugs\<rparr>)))"

definition documents_ToModels :: "DocumentStore \<Rightarrow> OnboardingDocumentModel list" where
  "documents_ToModels s =
     map (\<lambda>d. \<lparr>od_Slug = dc_Slug d, od_Title = dc_Title d, od_Content = dc_Content d, od_Position = dc_Position d,
               od_Required = dc_Required d\<rparr>) (ds_docs s)"

section \<open>What is loaded\<close>

definition document_ok :: "filesystem \<Rightarrow> manifestEntry \<Rightarrow> Document \<Rightarrow> bool" where
  "document_ok fs e d \<longleftrightarrow>
     fs_document fs (me_File e) = Contents (dc_Content d) \<and> IsLocal (me_File e) \<and> slugPattern (dc_Slug d)
     \<and> dc_Slug d = me_Slug e \<and> dc_Title d = me_Title e \<and> dc_Position d = me_Position e \<and> dc_Required d = me_Required e
     \<and> TrimSpace (dc_Title d) \<noteq> []"

definition required_slugs :: "Document list \<Rightarrow> string list" where
  "required_slugs docs = map dc_Slug (filter dc_Required docs)"

lemma load_entries_ok:
  assumes "load_entries fs es seen docs req = Inr (docs', req')" and "seen = map dc_Slug docs" and "req = required_slugs docs"
    and "distinct seen"
  shows "\<exists>new. docs' = docs @ new \<and> list_all2 (document_ok fs) es new \<and> distinct (map dc_Slug docs') \<and> req' = required_slugs docs'"
  using assms
proof (induction es arbitrary: seen docs req)
  case (Cons e es)
  from Cons.prems(1) obtain raw where e: "validateManifestEntry e seen = Inr ()" "fs_document fs (me_File e) = Contents raw"
    by (auto split: sum.splits file_read.splits)
  let ?d = "\<lparr>dc_Slug = me_Slug e, dc_Title = me_Title e, dc_Content = raw, dc_Position = me_Position e, dc_Required = me_Required e\<rparr>"
  have d: "document_ok fs e ?d" "me_Slug e \<notin> set seen"
    using e by (auto simp: document_ok_def validateManifestEntry_def split: if_splits)
  have "load_entries fs es (seen @ [me_Slug e]) (docs @ [?d]) (if me_Required e then req @ [me_Slug e] else req) = Inr (docs', req')"
    using Cons.prems(1) e by simp
  moreover have "seen @ [me_Slug e] = map dc_Slug (docs @ [?d])" "distinct (seen @ [me_Slug e])"
      "(if me_Required e then req @ [me_Slug e] else req) = required_slugs (docs @ [?d])"
    using Cons.prems d(2) by (simp_all add: required_slugs_def)
  ultimately obtain new where "docs' = (docs @ [?d]) @ new" "list_all2 (document_ok fs) es new"
      "distinct (map dc_Slug docs')" "req' = required_slugs docs'"
    using Cons.IH by blast
  with d(1) have "docs' = docs @ (?d # new)" "list_all2 (document_ok fs) (e # es) (?d # new)" by auto
  with \<open>distinct (map dc_Slug docs')\<close> \<open>req' = required_slugs docs'\<close> show ?case by blast
qed (auto simp: required_slugs_def)

lemma LoadDocuments_ok:
  assumes "LoadDocuments arrange unmarshal fs = Inr s" and "fs_manifest fs = Contents data"
  shows "\<exists>es docs. unmarshal data = Some es \<and> list_all2 (document_ok fs) es docs \<and> distinct (map dc_Slug docs)
           \<and> ds_docs s = arrange docs \<and> ds_requiredSlugs s = required_slugs docs"
proof -
  from assms obtain es docs req where es: "unmarshal data = Some es" "load_entries fs es [] [] [] = Inr (docs, req)"
      "s = \<lparr>ds_docs = arrange docs, ds_requiredSlugs = req\<rparr>"
    by (auto simp: LoadDocuments_def split: option.splits sum.splits)
  from load_entries_ok [OF es(2)] obtain new where "docs = new" "list_all2 (document_ok fs) es new" "distinct (map dc_Slug docs)"
      "req = required_slugs docs"
    by (auto simp: required_slugs_def)
  with es show ?thesis by auto
qed

end
