(* ===== verification/Messages.thy ===== *)
theory Messages
  imports Queries Keyset Go_Strings Onboarding
begin

text \<open>
  \<open>internal/message\<close> and \<open>internal/attachment\<close>: validation and the repositories over \<open>messages\<close> and
  \<open>message_attachments\<close>. A message of a deleted channel stays, since the column \<open>channel_id\<close> has no
  foreign key. An attachment row is the Go struct.
\<close>

section \<open>Validation\<close>

definition message_ErrNotFound :: error where "message_ErrNotFound = Sentinel ''message.ErrNotFound''"
definition ErrContentTooLong :: error where "ErrContentTooLong = Sentinel ''message.ErrContentTooLong''"
definition ErrEmptyContent :: error where "ErrEmptyContent = Sentinel ''message.ErrEmptyContent''"
definition ErrReplyNotFound :: error where "ErrReplyNotFound = Sentinel ''message.ErrReplyNotFound''"
definition ErrNotAuthor :: error where "ErrNotAuthor = Sentinel ''message.ErrNotAuthor''"
definition ErrAlreadyPinned :: error where "ErrAlreadyPinned = Sentinel ''message.ErrAlreadyPinned''"
definition ErrNotPinned :: error where "ErrNotPinned = Sentinel ''message.ErrNotPinned''"

lemmas message_errors = message_ErrNotFound_def ErrContentTooLong_def ErrEmptyContent_def ErrReplyNotFound_def ErrNotAuthor_def
  ErrAlreadyPinned_def ErrNotPinned_def

definition ValidateContent :: "string \<Rightarrow> int \<Rightarrow> string result" where
  "ValidateContent content maxLength =
     (let trimmed = TrimSpace content
      in if trimmed = [] then Inl ErrEmptyContent
         else if int (RuneCount trimmed) > maxLength then Inl ErrContentTooLong
         else Inr trimmed)"

definition message_ClampLimit :: "int \<Rightarrow> int" where
  "message_ClampLimit limit = (if limit \<le> 0 then 50 else if limit > 100 then 100 else limit)"

section \<open>Messages\<close>

text \<open>The columns of a message and those joined from its author.\<close>

record Message = message_row +
  mj_AuthorUsername :: string
  mj_AuthorDisplayName :: "string option"
  mj_AuthorAvatarKey :: "string option"

record message_CreateParams =
  mc_ChannelID :: uuid
  mc_AuthorID :: uuid
  mc_Content :: string
  mc_ReplyToID :: "uuid option"
  mc_ThreadID :: "uuid option"
  mc_Encrypted :: bool

definition authored :: "message_row \<Rightarrow> user_row \<Rightarrow> Message" where
  "authored m u = message_row.extend m (Message.fields (u_username u) (u_display_name u) (u_avatar_key u))"

text \<open>\<open>FROM messages m JOIN users u ON u.id = m.author_id\<close>\<close>

definition with_author :: "db \<Rightarrow> message_row \<Rightarrow> Message option" where
  "with_author d m = map_option (authored m) (find (\<lambda>u. u_id u = ms_author_id m) (t_users d))"

definition scanMessage :: "(Message option, db) call \<Rightarrow> (Message, db) call" where
  "scanMessage = scan_one ''scan message''"

definition live_in :: "uuid \<Rightarrow> uuid \<Rightarrow> db \<Rightarrow> bool" where
  "live_in i ch d \<longleftrightarrow> (\<exists>m \<in> set (t_messages d). ms_id m = i \<and> ms_channel_id m = ch \<and> ms_deleted_at m = None)"

definition refers :: "uuid option \<Rightarrow> uuid list \<Rightarrow> bool" where
  "refers r ids = (case r of None \<Rightarrow> True | Some i \<Rightarrow> i \<in> set ids)"

definition insert_message :: "uuid \<Rightarrow> time \<Rightarrow> message_CreateParams \<Rightarrow> (message_row, db) call" where
  "insert_message newID now p d =
     (let row = \<lparr>ms_id = newID, ms_channel_id = mc_ChannelID p, ms_author_id = mc_AuthorID p, ms_content = mc_Content p,
                 ms_edited_at = None, ms_reply_to_id = mc_ReplyToID p, ms_thread_id = mc_ThreadID p, ms_pinned = False,
                 ms_deleted_at = None, ms_deleted_by = None, ms_encrypted = mc_Encrypted p, ms_created_at = now, ms_updated_at = now\<rparr>
      in if newID \<in> set (map ms_id (t_messages d)) then (Inl unique_violation, d)
         else if mc_AuthorID p \<notin> set (map u_id (t_users d)) \<or> \<not> refers (mc_ReplyToID p) (map ms_id (t_messages d))
                 \<or> \<not> refers (mc_ThreadID p) (map th_id (t_threads d))
         then (Inl foreign_key_violation, d)
         else (Inr row, d\<lparr>t_messages := t_messages d @ [row]\<rparr>))"

definition message_create_tx :: "uuid \<Rightarrow> time \<Rightarrow> message_CreateParams \<Rightarrow> (Message, db) call" where
  "message_create_tx newID now p =
     bindc (case mc_ReplyToID p of None \<Rightarrow> ret True | Some r \<Rightarrow> rows_of ''check reply target'' (live_in r (mc_ChannelID p))) (\<lambda>ok.
     if \<not> ok then fail ErrReplyNotFound
     else bindc (maperr (Wrap ''insert message'') (pg_stmt (insert_message newID now p))) (\<lambda>row.
          bindc (scan_one ''fetch author info'' (pg_query (\<lambda>d. find (\<lambda>u. u_id u = mc_AuthorID p) (t_users d)))) (\<lambda>u.
          ret (authored row u))))"

definition message_Create :: "uuid \<Rightarrow> time \<Rightarrow> message_CreateParams \<Rightarrow> (Message, db) call" where
  "message_Create newID now p = WithTx (message_create_tx newID now p)"

definition get_message :: "uuid \<Rightarrow> db \<Rightarrow> Message option" where
  "get_message i d =
     first_row (List.map_filter (with_author d) (filter (\<lambda>m. ms_id m = i \<and> ms_deleted_at m = None) (t_messages d)))"

definition message_GetByID :: "uuid \<Rightarrow> (Message, db) call" where
  "message_GetByID i = or_missing message_ErrNotFound ''query message by id'' (scanMessage (pg_query (get_message i)))"

text \<open>
  \<open>ORDER BY m.created_at DESC, m.id DESC\<close>; after a cursor the rows with \<open>(created_at, id) < (SELECT ...)\<close>,
  which are none when there is no such message.
\<close>

definition message_key :: "message_row \<Rightarrow> time \<times> int" where
  "message_key m = (- ms_created_at m, - uint (ms_id m))"

definition before_message :: "uuid option \<Rightarrow> db \<Rightarrow> message_row \<Rightarrow> bool" where
  "before_message before d m =
     (case before of
        None \<Rightarrow> True
      | Some b \<Rightarrow>
          (case find (\<lambda>x. ms_id x = b) (t_messages d) of
             None \<Rightarrow> False
           | Some x \<Rightarrow> key_less (message_key x) (message_key m)))"

definition message_page :: "(message_row \<Rightarrow> bool) \<Rightarrow> uuid option \<Rightarrow> int \<Rightarrow> db \<Rightarrow> Message list" where
  "message_page P before limit d =
     take (nat limit) (List.map_filter (with_author d)
       (sort_by message_key (filter (\<lambda>m. P m \<and> ms_deleted_at m = None \<and> before_message before d m) (t_messages d))))"

definition message_List :: "uuid \<Rightarrow> uuid option \<Rightarrow> int \<Rightarrow> (Message list, db) call" where
  "message_List channelID before limit =
     rows_of ''query messages'' (message_page (\<lambda>m. ms_channel_id m = channelID) before limit)"

definition ListByThread :: "uuid \<Rightarrow> uuid option \<Rightarrow> int \<Rightarrow> (Message list, db) call" where
  "ListByThread threadID before limit =
     rows_of ''query thread messages'' (message_page (\<lambda>m. ms_thread_id m = Some threadID) before limit)"

text \<open>Pinned messages of the same time come in any order.\<close>

definition ListPinned :: "uuid \<Rightarrow> (Message list, db) call" where
  "ListPinned channelID =
     rows_of ''query pinned messages'' (\<lambda>d. take 50 (List.map_filter (with_author d) (sort_key (\<lambda>m. - ms_created_at m)
       (filter (\<lambda>m. ms_channel_id m = channelID \<and> ms_pinned m \<and> ms_deleted_at m = None) (t_messages d)))))"

definition update_messages :: "time \<Rightarrow> (message_row \<Rightarrow> bool) \<Rightarrow> (message_row \<Rightarrow> message_row) \<Rightarrow> (nat, db) call" where
  "update_messages now P f d =
     (Inr (length (filter P (t_messages d))), d\<lparr>t_messages := updated_rows P (\<lambda>m. (f m)\<lparr>ms_updated_at := now\<rparr>) (t_messages d)\<rparr>)"

definition message_Update :: "time \<Rightarrow> uuid \<Rightarrow> string \<Rightarrow> (Message, db) call" where
  "message_Update now i content =
     bindc (affecting message_ErrNotFound ''update message''
              (update_messages now (\<lambda>m. ms_id m = i \<and> ms_deleted_at m = None)
                 (\<lambda>m. m\<lparr>ms_content := content, ms_edited_at := Some now\<rparr>)))
       (\<lambda>_. message_GetByID i)"

definition soft_delete :: "time \<Rightarrow> uuid \<Rightarrow> uuid \<Rightarrow> (nat, db) call" where
  "soft_delete now i deletedBy d =
     (if (\<exists>m \<in> set (t_messages d). ms_id m = i \<and> ms_deleted_at m = None) \<and> deletedBy \<notin> set (map u_id (t_users d))
      then (Inl foreign_key_violation, d)
      else update_messages now (\<lambda>m. ms_id m = i \<and> ms_deleted_at m = None)
             (\<lambda>m. m\<lparr>ms_deleted_at := Some now, ms_deleted_by := Some deletedBy\<rparr>) d)"

definition SoftDelete :: "time \<Rightarrow> uuid \<Rightarrow> uuid \<Rightarrow> (unit, db) call" where
  "SoftDelete now i deletedBy = affecting message_ErrNotFound ''soft delete message'' (soft_delete now i deletedBy)"

text \<open>\<open>Pin\<close> and \<open>Unpin\<close>: a guarded update, and when it hit nothing a look at why.\<close>

definition set_pinned :: "bool \<Rightarrow> error \<Rightarrow> string \<Rightarrow> time \<Rightarrow> uuid \<Rightarrow> (Message, db) call" where
  "set_pinned b already msg now i =
     bindc (maperr (Wrap msg) (pg_stmt (update_messages now
              (\<lambda>m. ms_id m = i \<and> ms_deleted_at m = None \<and> ms_pinned m = (\<not> b)) (\<lambda>m. m\<lparr>ms_pinned := b\<rparr>)))) (\<lambda>n.
     if n = 0
     then catchc (message_GetByID i) (\<lambda>_. fail message_ErrNotFound)
            (\<lambda>m. if ms_pinned m = b then fail already else fail message_ErrNotFound)
     else message_GetByID i)"

definition Pin :: "time \<Rightarrow> uuid \<Rightarrow> (Message, db) call" where
  "Pin = set_pinned True ErrAlreadyPinned ''pin message''"

definition Unpin :: "time \<Rightarrow> uuid \<Rightarrow> (Message, db) call" where
  "Unpin = set_pinned False ErrNotPinned ''unpin message''"

section \<open>Attachments\<close>

definition attachment_ErrNotFound :: error where "attachment_ErrNotFound = Sentinel ''attachment.ErrNotFound''"

record attachment_CreateParams =
  ap_ChannelID :: uuid
  ap_UploaderID :: uuid
  ap_Filename :: string
  ap_ContentType :: string
  ap_SizeBytes :: int
  ap_StorageKey :: string
  ap_Width :: "int option"
  ap_Height :: "int option"

definition scanAttachment :: "(attachment_row option, db) call \<Rightarrow> (attachment_row, db) call" where
  "scanAttachment = scan_one ''scan attachment''"

definition insert_attachment :: "uuid \<Rightarrow> time \<Rightarrow> attachment_CreateParams \<Rightarrow> (attachment_row option, db) call" where
  "insert_attachment newID now p d =
     (let row = \<lparr>mt_id = newID, mt_message_id = None, mt_channel_id = ap_ChannelID p, mt_uploader_id = ap_UploaderID p,
                 mt_filename = ap_Filename p, mt_content_type = ap_ContentType p, mt_size_bytes = ap_SizeBytes p,
                 mt_storage_key = ap_StorageKey p, mt_width = ap_Width p, mt_height = ap_Height p, mt_thumbnail_key = None,
                 mt_created_at = now\<rparr>
      in if \<not> fits_int4 (ap_Width p) \<or> \<not> fits_int4 (ap_Height p) then (Inl (Ext ''cannot encode into int4''), d)
         else if newID \<in> set (map mt_id (t_attachments d)) then (Inl unique_violation, d)
         else if ap_ChannelID p \<notin> set (map ch_id (t_channels d)) \<or> ap_UploaderID p \<notin> set (map u_id (t_users d))
         then (Inl foreign_key_violation, d)
         else (Inr (Some row), d\<lparr>t_attachments := t_attachments d @ [row]\<rparr>))"

definition attachment_Create :: "uuid \<Rightarrow> time \<Rightarrow> attachment_CreateParams \<Rightarrow> (attachment_row, db) call" where
  "attachment_Create newID now p = scanAttachment (pg_stmt (insert_attachment newID now p))"

definition attachment_GetByID :: "uuid \<Rightarrow> (attachment_row, db) call" where
  "attachment_GetByID i =
     or_missing attachment_ErrNotFound ''query attachment by id''
       (scanAttachment (pg_query (\<lambda>d. find (\<lambda>a. mt_id a = i) (t_attachments d))))"

text \<open>The rows the \<open>UPDATE\<close> of \<open>LinkToMessage\<close> selects.\<close>

definition linkable :: "uuid list \<Rightarrow> uuid \<Rightarrow> attachment_row \<Rightarrow> bool" where
  "linkable ids uploader a \<longleftrightarrow> mt_id a \<in> set ids \<and> mt_uploader_id a = uploader \<and> mt_message_id a = None"

definition link_attachments :: "uuid list \<Rightarrow> uuid \<Rightarrow> uuid \<Rightarrow> (attachment_row list, db) call" where
  "link_attachments ids msg uploader d =
     (let link = (\<lambda>a. a\<lparr>mt_message_id := Some msg\<rparr>); hit = filter (linkable ids uploader) (t_attachments d)
      in if hit \<noteq> [] \<and> msg \<notin> set (map ms_id (t_messages d)) then (Inl foreign_key_violation, d)
         else (Inr (map link hit), d\<lparr>t_attachments := updated_rows (linkable ids uploader) link (t_attachments d)\<rparr>))"

definition LinkToMessage :: "uuid list \<Rightarrow> uuid \<Rightarrow> uuid \<Rightarrow> (attachment_row list, db) call" where
  "LinkToMessage ids msg uploader =
     bindc (maperr (Wrap ''link attachments to message'') (pg_stmt (link_attachments ids msg uploader))) (\<lambda>result.
     if length result \<noteq> length ids then fail attachment_ErrNotFound else ret result)"

definition attachments_of :: "uuid \<Rightarrow> db \<Rightarrow> attachment_row list" where
  "attachments_of msg d = sort_key mt_created_at (filter (\<lambda>a. mt_message_id a = Some msg) (t_attachments d))"

definition attachment_ListByMessage :: "uuid \<Rightarrow> (attachment_row list, db) call" where
  "attachment_ListByMessage msg = rows_of ''query attachments by message'' (attachments_of msg)"

text \<open>The result is Go's map from message to slice; an absent key reads as the nil slice.\<close>

definition attachment_ListByMessages :: "uuid list \<Rightarrow> (uuid \<Rightarrow> attachment_row list, db) call" where
  "attachment_ListByMessages msgs =
     (if msgs = [] then ret (\<lambda>_. [])
      else rows_of ''query attachments by messages'' (\<lambda>d i. if i \<in> set msgs then attachments_of i d else []))"

definition SetThumbnailKey :: "uuid \<Rightarrow> string \<Rightarrow> (unit, db) call" where
  "SetThumbnailKey i key =
     affecting attachment_ErrNotFound ''set thumbnail key''
       (\<lambda>d. (Inr (length (filter (\<lambda>a. mt_id a = i) (t_attachments d))),
             d\<lparr>t_attachments := updated_rows (\<lambda>a. mt_id a = i) (\<lambda>a. a\<lparr>mt_thumbnail_key := Some key\<rparr>) (t_attachments d)\<rparr>))"

definition orphan :: "time \<Rightarrow> attachment_row \<Rightarrow> bool" where
  "orphan olderThan a \<longleftrightarrow> mt_message_id a = None \<and> mt_created_at a < olderThan"

definition storage_keys :: "attachment_row \<Rightarrow> string list" where
  "storage_keys a = mt_storage_key a # (case mt_thumbnail_key a of None \<Rightarrow> [] | Some k \<Rightarrow> [k])"

definition purge_orphans :: "time \<Rightarrow> (attachment_row list, db) call" where
  "purge_orphans olderThan d =
     (Inr (filter (orphan olderThan) (t_attachments d)), d\<lparr>t_attachments := filter (\<lambda>a. \<not> orphan olderThan a) (t_attachments d)\<rparr>)"

definition PurgeOrphans :: "time \<Rightarrow> (string list, db) call" where
  "PurgeOrphans olderThan =
     bindc (maperr (Wrap ''purge orphan attachments'') (pg_stmt (purge_orphans olderThan))) (\<lambda>rows. ret (concat (map storage_keys rows)))"

end
