(* ===== verification/Retention.thy ===== *)
theory Retention
  imports Auth_Laws Messages
begin

text \<open>
  The periodic clean-up of \<open>cmd/uncord/main.go\<close>: login attempts, deletion tombstones where
  their retention is limited, and attachments that were never linked to a message. Then which
  steps of the whole server keep a tombstone.
\<close>

section \<open>The clean-up\<close>

text \<open>
  The three calls read the clock one after the other. An error is logged and the next call
  runs; the result is the storage keys whose objects are deleted then. \<open>None\<close> would be a purge
  that does not return.
\<close>

definition purgeExpiredData :: "auth_config \<Rightarrow> time \<Rightarrow> time \<Rightarrow> time \<Rightarrow> db \<Rightarrow> (string list \<times> db) option" where
  "purgeExpiredData cfg t1 t2 t3 d =
     (case PurgeLoginAttempts (t1 - cfg_LoginAttemptRetention cfg) d of
        None \<Rightarrow> None
      | Some (_, d1) \<Rightarrow>
          (case (if 0 < cfg_DeletionTombstoneRetention cfg
                 then map_option snd (PurgeTombstones (t2 - cfg_DeletionTombstoneRetention cfg) d1)
                 else Some d1) of
             None \<Rightarrow> None
           | Some d2 \<Rightarrow>
               (case PurgeOrphans (t3 - cfg_AttachmentOrphanTTL cfg) d2 of
                  (Inl _, d3) \<Rightarrow> Some ([], d3)
                | (Inr keys, d3) \<Rightarrow> Some (keys, d3))))"

lemma purgeExpiredData_returns: "\<exists>keys d'. purgeExpiredData cfg t1 t2 t3 d = Some (keys, d')"
proof -
  obtain r1 d1 where d1: "PurgeLoginAttempts (t1 - cfg_LoginAttemptRetention cfg) d = Some (r1, d1)"
    using logins_purge.loop_ends unfolding PurgeLoginAttempts_def by blast
  obtain r2 d2 where "PurgeTombstones (t2 - cfg_DeletionTombstoneRetention cfg) d1 = Some (r2, d2)"
    using tombstones_purge.loop_ends unfolding PurgeTombstones_def by blast
  with d1 show ?thesis by (auto simp: purgeExpiredData_def split: prod.splits sum.splits)
qed

section \<open>A tombstone through the runs of the server\<close>

lemma remove_limited_member: "x \<in> set xs \<Longrightarrow> \<not> P x \<Longrightarrow> x \<in> set (remove_limited P n xs)"
  by (induction P n xs rule: remove_limited.induct) (auto split: nat.splits)

lemma tombstone_purges:
  assumes "tombstone_since c k h d"
  shows "tombstone_since c k h (snd (purge_logins t d))" and "t \<le> c \<Longrightarrow> tombstone_since c k h (snd (purge_tombstones t d))"
    and "tombstone_since c k h (snd (purge_orphans t d))"
  using assms remove_limited_member [of _ "t_tombstones d" "\<lambda>b. ts_created_at b < t" purgeBatchSize]
  by (fastforce simp: tombstone_since_def purge_logins_def purge_tombstones_def purge_orphans_def Let_def)+

lemma purgeExpiredData_tombstone:
  assumes "purgeExpiredData cfg t1 t2 t3 d = Some (keys, d')" and "tombstone_since c k h d"
    and "0 < cfg_DeletionTombstoneRetention cfg \<Longrightarrow> t2 - cfg_DeletionTombstoneRetention cfg \<le> c"
  shows "tombstone_since c k h d'"
proof -
  obtain r1 d1 d2 x where d1: "PurgeLoginAttempts (t1 - cfg_LoginAttemptRetention cfg) d = Some (r1, d1)"
    and d2: "(if 0 < cfg_DeletionTombstoneRetention cfg
        then map_option snd (PurgeTombstones (t2 - cfg_DeletionTombstoneRetention cfg) d1) else Some d1) = Some d2"
    and d3: "PurgeOrphans (t3 - cfg_AttachmentOrphanTTL cfg) d2 = (x, d')"
    using assms(1) by (auto simp: purgeExpiredData_def split: option.splits prod.splits sum.splits)
  have 1: "tombstone_since c k h d1"
    by (rule tomb.purged [OF d1 [unfolded PurgeLoginAttempts_def] tombstone_purges(1) assms(2)])
  have 2: "tombstone_since c k h d2"
  proof (cases "0 < cfg_DeletionTombstoneRetention cfg")
    case True
    with d2 obtain r2 where "PurgeTombstones (t2 - cfg_DeletionTombstoneRetention cfg) d1 = Some (r2, d2)" by auto
    from tomb.purged [OF this [unfolded PurgeTombstones_def] tombstone_purges(2) 1] assms(3) [OF True] show ?thesis by blast
  qed (use d2 1 in simp)
  from d3 obtain y where y: "pg_stmt (purge_orphans (t3 - cfg_AttachmentOrphanTTL cfg)) d2 = (y, d')"
    by (auto simp: PurgeOrphans_def bindc_def maperr_def ret_def split: prod.splits sum.splits)
  show ?thesis by (rule tomb.stmt [OF y tombstone_purges(3) 2])
qed

text \<open>
  The steps of the server as far as tombstones go: the operations of the authentication
  service, the clean-up, whose cutoff for tombstones is at most \<open>c\<close>, and anything else, which
  leaves that table alone.
\<close>

inductive site_step :: "'r service \<Rightarrow> time \<Rightarrow> 'r site \<Rightarrow> 'r site \<Rightarrow> bool" for S c where
  site_auth: "auth_step S s s' \<Longrightarrow> site_step S c s s'"
| site_purge: "purgeExpiredData (sv_cfg S) t1 t2 t3 (sdb s) = Some (keys, sdb s') \<Longrightarrow>
     0 < cfg_DeletionTombstoneRetention (sv_cfg S) \<longrightarrow> t2 - cfg_DeletionTombstoneRetention (sv_cfg S) \<le> c \<Longrightarrow>
     site_step S c s s'"
| site_other: "t_tombstones (sdb s') = t_tombstones (sdb s) \<Longrightarrow> site_step S c s s'"

lemma site_step_tombstone: "site_step S c s s' \<Longrightarrow> tombstone_since c k h (sdb s) \<Longrightarrow> tombstone_since c k h (sdb s')"
proof (induction rule: site_step.induct)
  case (site_auth s s')
  then show ?case by (rule tomb_service.step_keeps)
next
  case (site_purge t1 t2 t3 s keys s')
  then show ?case by (intro purgeExpiredData_tombstone [OF site_purge(1)]) simp_all
qed (simp add: tombstone_since_def)

lemma site_run_tombstone:
  "(site_step S c)\<^sup>*\<^sup>* s s' \<Longrightarrow> tombstone_since c k h (sdb s) \<Longrightarrow> tombstone_since c k h (sdb s')"
  by (induction rule: rtranclp_induct) (auto intro: site_step_tombstone)

end
