(* ===== verification/Auth_Props.thy ===== *)
theory Auth_Props
  imports Retention
begin

text \<open>
  Properties of the authentication service. Witnesses run on the small server of \<open>Sample\<close> with
  reference implementations of the packages the service calls.
\<close>

definition sample_config :: auth_config where
  "sample_config = \<lparr>cfg_argon = \<lparr>ap_Memory = 2, ap_Iterations = 1, ap_Parallelism = 1, ap_SaltLength = 1, ap_KeyLength = 1\<rparr>,
     cfg_ServerSecret = ''0a0b'', cfg_JWTSecret = ''secret'', cfg_JWTAccessTTL = 900000, cfg_JWTRefreshTTL = 604800000,
     cfg_ServerURL = ''https://home'', cfg_ServerName = ''home'', cfg_ServerEnv = ''production'',
     cfg_MFAEncryptionKey = ''00112233445566778899aabbccddeeff'', cfg_MFATicketTTL = 300000, cfg_DeletionTombstoneUsernames = True,
     cfg_LoginAttemptRetention = 7776000000, cfg_DeletionTombstoneRetention = 5000, cfg_AttachmentOrphanTTL = 3600000\<rparr>"

text \<open>A code is right when it equals the secret.\<close>

definition sample_service :: "vstore service" where
  "sample_service = \<lparr>sv_cfg = sample_config, sv_uuid = ref_uuid, sv_jwt = ref_jwt, sv_argon = ref_argon, sv_crypto = ref_crypto,
     sv_mail = ref_mail, sv_totp = \<lparr>totp_Validate = (\<lambda>_ code secret. code = secret), totp_Generate = (\<lambda>_ _ a. Inr (''otp'', a))\<rparr>,
     sv_valkey = mem_valkey, sv_inet = (\<lambda>_. True)\<rparr>"

text \<open>User 2 has a second factor, with the secret \<open>otp\<close>; everybody's password is \<open>correct horse\<close>.\<close>

definition sample_hash :: string where "sample_hash = ref_hash (cfg_argon sample_config) ''correct horse''"

definition sample_secret :: string where
  "sample_secret = replicate 12 (CHR ''n'') @ ''otp'' @ the (hex_Decode (cfg_MFAEncryptionKey sample_config))"

definition sample_account :: "uuid \<Rightarrow> string \<Rightarrow> user_row" where
  "sample_account i n =
     (sample_user i n)\<lparr>u_password_hash := sample_hash, u_mfa_enabled := (i = 2), u_mfa_secret := (if i = 2 then Some sample_secret else None)\<rparr>"

definition sample_site :: "vstore site" where
  "sample_site =
     \<lparr>si_world = sample_world\<lparr>w_db := sample_db\<lparr>t_users := [sample_account 1 ''ada'', sample_account 2 ''bob'', sample_account 3 ''eve'']\<rparr>\<rparr>,
      si_blocklist = NewBlocklist False, si_mails = []\<rparr>"

lemmas sample_service_defs = sample_config_def sample_service_def sample_site_def sample_account_def

lemma sample_db_parts [simp]:
  "t_users (sdb sample_site) = [sample_account 1 ''ada'', sample_account 2 ''bob'', sample_account 3 ''eve'']"
  "pg_outcomes (sdb sample_site) = []" "svk sample_site = vempty" "t_tombstones (sdb sample_site) = []" "t_email_verifications (sdb sample_site) = []"
  "t_server_config (sdb sample_site) = t_server_config sample_db" "si_blocklist sample_site = NewBlocklist False"
  by (simp_all add: sample_site_def sample_world_def sample_db_def empty_db_def)

lemma sample_account_parts [simp]:
  "u_id (sample_account i n) = i" "u_email (sample_account i n) = n @ ''@example.com'' " "u_username (sample_account i n) = n"
  "u_password_hash (sample_account i n) = sample_hash" "u_mfa_enabled (sample_account i n) \<longleftrightarrow> i = 2" "u_email_verified (sample_account i n)"
  "u_mfa_secret (sample_account i n) = (if i = 2 then Some sample_secret else None)"
  by (simp_all add: sample_account_def sample_user_def)

lemma sample_service_parts [simp]:
  "sv_cfg sample_service = sample_config" "sv_uuid sample_service = ref_uuid" "sv_jwt sample_service = ref_jwt"
  "sv_argon sample_service = ref_argon" "sv_crypto sample_service = ref_crypto" "sv_mail sample_service = ref_mail"
  "sv_valkey sample_service = mem_valkey" "totp_Validate (sv_totp sample_service) t a b \<longleftrightarrow> a = b" "sv_inet sample_service x"
  by (simp_all add: sample_service_def)

lemma sample_config_parts [simp]:
  "cfg_ServerSecret sample_config = ''0a0b''" "cfg_JWTSecret sample_config = ''secret''" "cfg_ServerName sample_config = ''home''" "cfg_JWTRefreshTTL sample_config = 604800000" "cfg_ServerURL sample_config = ''https://home''"
  "cfg_MFATicketTTL sample_config = 300000" "MFAConfigured sample_config" "cfg_DeletionTombstoneUsernames sample_config"
  "cfg_DeletionTombstoneRetention sample_config = 5000"
  by (simp_all add: sample_config_def MFAConfigured_def)

lemma sample_hash_parts [simp]:
  "ar_Compare ref_argon pw sample_hash = Inr (''correct horse'' = pw)" "VerifyPassword ref_argon pw sample_hash = Inr (''correct horse'' = pw)"
  "NeedsRehash ref_argon sample_hash (cfg_argon sample_config) = Inr False"
  by (simp_all add: sample_hash_def ref_argon_def VerifyPassword_def NeedsRehash_def Let_def)

lemma sample_decrypt [simp]: "DecryptTOTPSecret ref_crypto sample_secret (cfg_MFAEncryptionKey sample_config) = Inr ''otp''"
  by code_simp

lemma sample_issue:
  assumes "index_ok 604800000 (svk s)"
  shows "\<exists>t s'. issueTokens sample_service now n u v s = (Inr t, s') \<and> index_ok 604800000 (svk s')
     \<and> tp_RefreshToken t = uuid_String ref_uuid n \<and> live (svk s') (refreshKey (tp_RefreshToken t)) = Some (VStr (Text (uuid_String ref_uuid u)))"
proof -
  obtain tok where t: "NewAccessToken ref_uuid ref_jwt now u (cfg_JWTSecret sample_config) (cfg_JWTAccessTTL sample_config) ''https://home'' v = Inr tok"
    by (simp add: NewAccessToken_def ref_jwt_def)
  obtain x st' where "createScript (uuid_String ref_uuid u) (uuid_String ref_uuid n) 604800000 (svk s) = (Inr (RInt 1), st')"
      "index_ok 604800000 st'" "live st' (refreshKey (uuid_String ref_uuid n)) = Some (VStr (Text (uuid_String ref_uuid u)))"
    using createScript_run [OF assms, of "uuid_String ref_uuid u" "uuid_String ref_uuid n"] by auto
  then show ?thesis using t
    by (auto simp: issueTokens_def bindc_def maperr_def lift_def ret_def at_vk_def on_vk_def CreateRefreshToken_def whole_seconds_def
        redis_Eval_def mem_valkey_def Let_def)
qed

section \<open>Login\<close>

lemma Credentials_fields [simp]:
  "us_ID (to_Credentials u) = u_id u" "us_MFAEnabled (to_Credentials u) = u_mfa_enabled u" "us_EmailVerified (to_Credentials u) = u_email_verified u"
  "cd_PasswordHash (to_Credentials u) = u_password_hash u" "cd_MFASecret (to_Credentials u) = u_mfa_secret u" "us_Email (to_Credentials u) = u_email u"
  "us_Username (to_Credentials u) = u_username u"
  by (simp_all add: to_Credentials_def to_User_def User.defs Credentials.defs)

lemma recordLoginAttempt_parts:
  assumes "recordLoginAttempt S now e ip b s = (x, s')"
  shows "svk s' = svk s" "t_users (sdb s') = t_users (sdb s)"
proof -
  obtain y s1 where a: "at_db (RecordLoginAttempt (sv_inet S) now e ip b) s = (y, s1)" by fastforce
  then have s1: "s1 = s'" using assms by (simp add: recordLoginAttempt_def)
  from at_dbD [OF a] obtain z where p: "pg_stmt (insert_login (sv_inet S) now e ip b) (sdb s) = (z, sdb s')" "svk s' = svk s"
    unfolding s1 by (auto simp: RecordLoginAttempt_def split: prod.splits sum.splits)
  show "svk s' = svk s" by (rule p(2))
  show "t_users (sdb s') = t_users (sdb s)"
    by (rule table_invariant.stmt [where I = "\<lambda>d. t_users d = t_users (sdb s)", OF _ p(1)])
      (simp_all add: table_invariant_def insert_login_def)
qed

lemma rotate_hash_vk: "rotate_hash S salt c pw s = (x, s') \<Longrightarrow> svk s' = svk s"
  by (auto simp: rotate_hash_def split: if_splits sum.splits) (metis at_dbD prod.collapse)

lemma Login_ok:
  assumes "Login S now t salt req s = (Inr r, s')"
  obtains email dom u s1 where "ValidateEmail (sv_mail S) (lr_Email req) = Inr (email, dom)"
    "find (\<lambda>u. u_email u = email) (t_users (sdb s)) = Some u" "ar_Compare (sv_argon S) (lr_Password req) (u_password_hash u) = Inr True"
    "svk s1 = svk s" "finish_login S now t salt email req (to_Credentials u) s1 = (Inr r, s')"
proof -
  obtain email dom where v: "ValidateEmail (sv_mail S) (lr_Email req) = Inr (email, dom)"
    using assms unfolding Login_def by (auto elim!: bindc_ok)
  obtain c s1 b where q: "at_db (GetByEmail email) s = (Inr c, s1)"
    and b: "VerifyPassword (sv_argon S) (lr_Password req) (cd_PasswordHash c) = Inr b"
    and m: "(if \<not> b then bindc (recordLoginAttempt S now email (lr_IP req) False) (\<lambda>_. fail ErrInvalidCredentials)
         else finish_login S now t salt email req c) s1 = (Inr r, s')"
    using assms v unfolding Login_def by (auto elim!: bindc_ok catchc_cases split: if_splits)
  have "b" using m by (auto elim!: bindc_ok split: if_splits)
  obtain u where "find (\<lambda>u. u_email u = email) (t_users (sdb s)) = Some u" "c = to_Credentials u" "svk s1 = svk s"
    using GetByEmail_ok at_dbD [OF q] by blast
  then show thesis using that [OF v] m b \<open>b\<close> by (simp add: VerifyPassword_ok)
qed

lemma finish_login_ok:
  assumes "finish_login S now t salt email req c s = (Inr r, s')"
  shows "(us_MFAEnabled c \<and> (\<exists>ticket. r = MFARequired ticket
        \<and> CreateMFATicket (sv_uuid S) (sv_valkey S) t (us_ID c) (cfg_MFATicketTTL (sv_cfg S)) (svk s) = (Inr ticket, svk s')))
    \<or> (\<not> us_MFAEnabled c \<and> (\<exists>tokens s1. r = LoggedIn (result_of (user_ToModel (sv_uuid S) c) tokens) \<and> svk s1 = svk s
        \<and> issueTokens S now t (us_ID c) (us_EmailVerified c) s1 = (Inr tokens, s')))"
proof (cases "us_MFAEnabled c")
  case True
  then obtain ticket s1 y s2 where "at_vk (CreateMFATicket (sv_uuid S) (sv_valkey S) t (us_ID c) (cfg_MFATicketTTL (sv_cfg S))) s = (Inr ticket, s1)"
    "recordLoginAttempt S now email (lr_IP req) True s1 = (Inr y, s2)" "r = MFARequired ticket" "s' = s2"
    using assms unfolding finish_login_def by (auto elim!: bindc_ok)
  then show ?thesis using True at_vkD recordLoginAttempt_parts(1) by (metis (no_types, lifting))
next
  case False
  then obtain y1 s1 y2 s2 tokens where "rotate_hash S salt c (lr_Password req) s = (Inr y1, s1)"
    "recordLoginAttempt S now email (lr_IP req) True s1 = (Inr y2, s2)"
    "issueTokens S now t (us_ID c) (us_EmailVerified c) s2 = (Inr tokens, s')"
    "r = LoggedIn (result_of (user_ToModel (sv_uuid S) c) tokens)"
    using assms unfolding finish_login_def by (auto elim!: bindc_ok)
  then show ?thesis using False rotate_hash_vk recordLoginAttempt_parts(1) by (metis (no_types, lifting))
qed

lemma mfa_ticket_only:
  assumes "valkey_service V" and "CreateMFATicket U V n u ttl r = (x, r')"
  shows "live (vk_store V r') (refreshKey k) = live (vk_store V r) (refreshKey k)"
proof -
  obtain c where c: "c = SET (mfaTicketKey (uuid_String U n)) (Text (uuid_String U u)) (Some ttl)" by simp
  obtain z where z: "vk_exec V c r = (z, r')"
    using assms(2) by (auto simp: CreateMFATicket_def redis_Do_def c Let_def split: prod.splits sum.splits)
  have "vk_store V r' = vk_store V r \<or> vk_store V r' = snd (vk_doc c (vk_store V r))"
    using valkey_service.exec_err [OF assms(1), of c r] valkey_service.ok_store [OF assms(1), of c r] z by (cases z) (auto simp: c)
  moreover have "refreshKey k \<noteq> mfaTicketKey x" for x by (simp add: mfaTicketKey_def refreshKey_def)
  ultimately show ?thesis by (auto simp: c)
qed

text \<open>
  C13. A login succeeds only with the password of the account the address belongs to. An account
  without a second factor gets tokens for itself, with its own verification status; an account
  with one only gets a ticket, and no refresh token is created.
\<close>

theorem Login_sound:
  assumes "valkey_service (sv_valkey S)" and "Login S now t salt req s = (Inr r, s')"
  shows "\<exists>email dom u. ValidateEmail (sv_mail S) (lr_Email req) = Inr (email, dom)
    \<and> u \<in> set (t_users (sdb s)) \<and> u_email u = email \<and> ar_Compare (sv_argon S) (lr_Password req) (u_password_hash u) = Inr True
    \<and> (case r of
         LoggedIn a \<Rightarrow> \<not> u_mfa_enabled u \<and> um_ID (re_User a) = uuid_String (sv_uuid S) (u_id u)
           \<and> NewAccessToken (sv_uuid S) (sv_jwt S) now (u_id u) (cfg_JWTSecret (sv_cfg S)) (cfg_JWTAccessTTL (sv_cfg S))
               (cfg_ServerURL (sv_cfg S)) (u_email_verified u) = Inr (re_AccessToken a)
       | MFARequired ticket \<Rightarrow> u_mfa_enabled u
           \<and> (\<forall>tok. live (vk_store (sv_valkey S) (svk s')) (refreshKey tok) = live (vk_store (sv_valkey S) (svk s)) (refreshKey tok)))"
proof -
  obtain email dom u s1 where v: "ValidateEmail (sv_mail S) (lr_Email req) = Inr (email, dom)"
    and u: "find (\<lambda>u. u_email u = email) (t_users (sdb s)) = Some u" and p: "ar_Compare (sv_argon S) (lr_Password req) (u_password_hash u) = Inr True"
    and s1: "svk s1 = svk s" and f: "finish_login S now t salt email req (to_Credentials u) s1 = (Inr r, s')"
    by (rule Login_ok [OF assms(2)])
  have m: "u \<in> set (t_users (sdb s))" "u_email u = email" using u by (auto simp: find_Some_iff)
  from finish_login_ok [OF f] show ?thesis
  proof (elim disjE conjE exE)
    fix ticket assume mfa: "us_MFAEnabled (to_Credentials u)" and r: "r = MFARequired ticket"
      and c: "CreateMFATicket (sv_uuid S) (sv_valkey S) t (us_ID (to_Credentials u)) (cfg_MFATicketTTL (sv_cfg S)) (svk s1) = (Inr ticket, svk s')"
    show ?thesis using v m p mfa r mfa_ticket_only [OF assms(1) c] s1 by auto
  next
    fix tokens s2 assume mfa: "\<not> us_MFAEnabled (to_Credentials u)"
      and r: "r = LoggedIn (result_of (user_ToModel (sv_uuid S) (to_Credentials u)) tokens)"
      and i: "issueTokens S now t (us_ID (to_Credentials u)) (us_EmailVerified (to_Credentials u)) s2 = (Inr tokens, s')"
    show ?thesis using v m p mfa r issueTokens_ok(1) [OF i] by (auto simp: result_of_def user_ToModel_def)
  qed
qed


section \<open>The second factor\<close>

lemma completeMFALogin_ok:
  "completeMFALogin S now t c s = (Inr a, s') \<Longrightarrow>
     \<exists>tokens. a = result_of (user_ToModel (sv_uuid S) c) tokens \<and> issueTokens S now t (us_ID c) (us_EmailVerified c) s = (Inr tokens, s')"
  unfolding completeMFALogin_def by (auto elim!: bindc_ok)

lemma VerifyMFA_ok:
  assumes "VerifyMFA S now t ticket code s = (Inr a, s')"
  obtains uid s1 u s2 enc secret s3 where "ConsumeMFATicket (sv_uuid S) (sv_valkey S) ticket (svk s) = (Inr uid, svk s1)"
    "find_user uid (sdb s) = Some u" "u_mfa_secret u = Some enc"
    "DecryptTOTPSecret (sv_crypto S) enc (cfg_MFAEncryptionKey (sv_cfg S)) = Inr secret"
    "tables (sdb s2) = tables (sdb s)" "svk s2 = svk s1"
    "(totp_Validate (sv_totp S) now code secret \<and> s3 = s2) \<or> tryRecoveryCode S now uid code s2 = (Inr (), s3)"
    "completeMFALogin S now t (to_Credentials u) s3 = (Inr a, s')"
proof -
  obtain uid s1 c s2 where t: "at_vk (ConsumeMFATicket (sv_uuid S) (sv_valkey S) ticket) s = (Inr uid, s1)"
    and q: "at_db (GetCredentialsByID uid) s1 = (Inr c, s2)"
    and r: "(case cd_MFASecret c of
       None \<Rightarrow> fail ErrMFANotEnabled
     | Some enc \<Rightarrow>
         (if \<not> MFAConfigured (sv_cfg S) then fail ErrMFANotConfigured
          else bindc (maperr (Wrap ''decrypt MFA secret'') (lift (DecryptTOTPSecret (sv_crypto S) enc (cfg_MFAEncryptionKey (sv_cfg S))))) (\<lambda>secret.
          if totp_Validate (sv_totp S) now code secret then completeMFALogin S now t c
          else bindc (maperr (\<lambda>e. if errors_Is e ErrInvalidMFACode then ErrInvalidMFACode
                                  else Wrap ''try recovery code during login'' e) (tryRecoveryCode S now uid code)) (\<lambda>_.
          completeMFALogin S now t c)))) s2 = (Inr a, s')"
    using assms unfolding VerifyMFA_def by (auto elim!: bindc_ok)
  obtain u where u: "find_user uid (sdb s) = Some u" "c = to_Credentials u" and s2: "tables (sdb s2) = tables (sdb s)" "svk s2 = svk s1"
    using GetCredentials_ok at_dbD [OF q] at_vkD [OF t] by metis
  obtain enc secret where e: "u_mfa_secret u = Some enc" "DecryptTOTPSecret (sv_crypto S) enc (cfg_MFAEncryptionKey (sv_cfg S)) = Inr secret"
    and r': "(if totp_Validate (sv_totp S) now code secret then completeMFALogin S now t c
          else bindc (maperr (\<lambda>e. if errors_Is e ErrInvalidMFACode then ErrInvalidMFACode
                                  else Wrap ''try recovery code during login'' e) (tryRecoveryCode S now uid code)) (\<lambda>_.
          completeMFALogin S now t c)) s2 = (Inr a, s')"
    using r unfolding u(2) by (auto split: option.splits if_splits elim!: bindc_ok)
  then obtain s3 where "(totp_Validate (sv_totp S) now code secret \<and> s3 = s2) \<or> tryRecoveryCode S now uid code s2 = (Inr (), s3)"
    "completeMFALogin S now t c s3 = (Inr a, s')"
    by (cases "totp_Validate (sv_totp S) now code secret") (auto elim!: bindc_ok)
  then show thesis using that [OF _ u(1) e s2] at_vkD [OF t] u(2) by blast
qed

text \<open>
  C14. A login with a second factor succeeds only with a ticket that was issued and not used for a
  user who has a secret, and with a code that is valid for the secret now or is one of the
  user's unused recovery codes; such a recovery code is then no longer unused. The tokens are
  for the user of the ticket.
\<close>

theorem VerifyMFA_sound:
  assumes "token_store (sv_uuid S) (sv_valkey S)" and "VerifyMFA S now t ticket code s = (Inr a, s')"
  shows "\<exists>uid u enc secret b. live (vk_store (sv_valkey S) (svk s)) (mfaTicketKey ticket) = Some (VStr b)
      \<and> uuid_Parse (sv_uuid S) (text_of b) = Some uid
      \<and> find_user uid (sdb s) = Some u \<and> u_mfa_secret u = Some enc
      \<and> DecryptTOTPSecret (sv_crypto S) enc (cfg_MFAEncryptionKey (sv_cfg S)) = Inr secret
      \<and> (totp_Validate (sv_totp S) now code secret
         \<or> (\<exists>rc \<in> set (unused_codes uid (sdb s)). VerifyRecoveryCode (sv_argon S) code (rec_CodeHash rc) = Inr True
              \<and> rec_ID rc \<notin> rec_ID ` set (unused_codes uid (sdb s'))))
      \<and> um_ID (re_User a) = uuid_String (sv_uuid S) (u_id u)"
proof -
  obtain uid s1 u s2 enc secret s3 where c: "ConsumeMFATicket (sv_uuid S) (sv_valkey S) ticket (svk s) = (Inr uid, svk s1)"
    and u: "find_user uid (sdb s) = Some u" "u_mfa_secret u = Some enc"
    and d: "DecryptTOTPSecret (sv_crypto S) enc (cfg_MFAEncryptionKey (sv_cfg S)) = Inr secret"
    and s2: "tables (sdb s2) = tables (sdb s)"
    and f: "(totp_Validate (sv_totp S) now code secret \<and> s3 = s2) \<or> tryRecoveryCode S now uid code s2 = (Inr (), s3)"
    and l: "completeMFALogin S now t (to_Credentials u) s3 = (Inr a, s')"
    by (rule VerifyMFA_ok [OF assms(2)])
  obtain tokens where a: "a = result_of (user_ToModel (sv_uuid S) (to_Credentials u)) tokens" "sdb s' = sdb s3"
    using completeMFALogin_ok [OF l] issueTokens_ok(3) by blast
  have "totp_Validate (sv_totp S) now code secret
      \<or> (\<exists>rc \<in> set (unused_codes uid (sdb s)). VerifyRecoveryCode (sv_argon S) code (rec_CodeHash rc) = Inr True
           \<and> rec_ID rc \<notin> rec_ID ` set (unused_codes uid (sdb s')))"
    using f tryRecoveryCode_ok(1) [of S now uid code s2 s3] unused_tables [OF s2] a(2) by auto
  then show ?thesis using token_store.ConsumeMFA_ok [OF assms(1) c] u d a(1) by (auto simp: result_of_def user_ToModel_def)
qed


section \<open>Deletion\<close>

lemma insert_tombstone_since:
  assumes "tombstones_young c k h d" and "c \<le> t"
  shows "tombstones_young c k h (snd (insert_tombstone t b d))"
    and "tb_IdentifierType b = k \<Longrightarrow> tb_HMACHash b = h \<Longrightarrow> tombstone_since c k h (snd (insert_tombstone t b d))"
  using assms by (auto simp: tombstones_young_def tombstone_since_def insert_tombstone_def)

lemma insert_tombstones_hold:
  assumes "insert_tombstones t ts d = (Inr (), d')" and "tombstones_young c k h d" and "c \<le> t"
    and "\<lparr>tb_IdentifierType = k, tb_HMACHash = h\<rparr> \<in> set ts"
  shows "tombstone_since c k h d'"
  using assms(1,2,4)
proof (induction ts arbitrary: d)
  case (Cons b ts)
  obtain d1 where b: "pg_stmt (insert_tombstone t b) d = (Inr (), d1)" and r: "insert_tombstones t ts d1 = (Inr (), d')"
    using Cons.prems(1) by (auto split: prod.splits sum.splits)
  have "pure_stmt (insert_tombstone t b)" by (auto simp: pure_stmt_def insert_tombstone_def)
  from pg_stmt_success [OF b this]
  have d1: "tables d1 = tables (snd (insert_tombstone t b d))" by simp
  show ?case
  proof (cases "b = \<lparr>tb_IdentifierType = k, tb_HMACHash = h\<rparr>")
    case True
    then have "tombstone_since c k h (snd (insert_tombstone t b d))"
      using insert_tombstone_since(2) [OF Cons.prems(2) assms(3)] by simp
    then show ?thesis using tomb.by_tables [OF d1] tomb_writes.tombs [OF r] by blast
  next
    case False
    have "tombstones_young c k h d1"
      using insert_tombstone_since(1) [OF Cons.prems(2) assms(3)] young.by_tables [OF d1] by blast
    then show ?thesis using Cons.IH [OF r] Cons.prems(3) False by simp
  qed
qed simp

lemma DeleteWithTombstones_ok:
  assumes "DeleteWithTombstones t u ts d = (Inr (), d')" and "tombstones_young c k h d" and "c \<le> t"
    and "\<lparr>tb_IdentifierType = k, tb_HMACHash = h\<rparr> \<in> set ts"
  shows "tombstone_since c k h d'"
  using assms(1) [unfolded DeleteWithTombstones_def]
proof (cases rule: WithTx_cases)
  case (committed d1 y d2)
  then obtain d3 n where i: "insert_tombstones t ts d1 = (Inr (), d3)" and r: "pg_stmt (delete_user t u) d3 = (Inr n, d2)"
    by (auto simp: delete_with_tombstones_tx_def split: prod.splits sum.splits if_splits)
  have "tombstones_young c k h d1" using young.by_tables [OF committed(1)] assms(2) by blast
  then have "tombstone_since c k h d2"
    using insert_tombstones_hold [OF i _ assms(3,4)] tomb.stmt [OF r tombstone_statements(11)] by blast
  then show ?thesis using committed(3) tomb.by_tables by blast
qed simp

lemma username_tombstone_pure:
  "(if b then bindc (maperr m (lift x)) (\<lambda>h. ret [f h]) else ret []) s = (Inr ts, s') \<Longrightarrow> s' = s"
  by (auto simp: bindc_def maperr_def lift_def ret_def split: if_splits sum.splits)

lemma DeleteAccount_ok:
  assumes "DeleteAccount S now u pw s = (Inr (), s')"
  obtains x h where "find_user u (sdb s) = Some x" "ar_Compare (sv_argon S) pw (u_password_hash x) = Inr True"
    "HMACIdentifier (sv_crypto S) (u_email x) (cfg_ServerSecret (sv_cfg S)) = Inr h" "\<And>c. tombstones_young c TombstoneEmail h (sdb s) \<Longrightarrow> c \<le> now \<Longrightarrow> tombstone_since c TombstoneEmail h (sdb s')"
    "\<forall>c \<in> set (t_server_config (sdb s)). c_owner_id c = u \<longrightarrow> (\<exists>b \<in> set (t_server_config (sdb s)). c_owner_id b \<noteq> u \<and> c_created_at b \<le> c_created_at c)"
proof -
  obtain c s1 s2 cfg s3 h more s4 s5 y s6 where q: "at_db (GetCredentialsByID u) s = (Inr c, s1)"
    and p: "require_password S ''verify password for account deletion'' pw (cd_PasswordHash c) s1 = (Inr (), s2)"
    and g: "at_db server_Get s2 = (Inr cfg, s3)" and o: "c_owner_id cfg \<noteq> u"
    and h: "HMACIdentifier (sv_crypto S) (us_Email c) (cfg_ServerSecret (sv_cfg S)) = Inr h"
    and m: "(if cfg_DeletionTombstoneUsernames (sv_cfg S)
            then bindc (maperr (Wrap ''compute username HMAC'')
                   (lift (HMACIdentifier (sv_crypto S) (ToLower (lower_tab (sv_mail S)) (us_Username c)) (cfg_ServerSecret (sv_cfg S))))) (\<lambda>usernameHMAC.
                 ret [\<lparr>tb_IdentifierType = TombstoneUsername, tb_HMACHash = usernameHMAC\<rparr>])
            else ret []) s3 = (Inr more, s4)"
    and d: "at_db (DeleteWithTombstones now u (\<lparr>tb_IdentifierType = TombstoneEmail, tb_HMACHash = h\<rparr> # more)) s4 = (Inr (), s5)"
    and v: "quiet (at_vk (RevokeAllRefreshTokens (sv_uuid S) (sv_valkey S) u)) s5 = (Inr y, s6)"
    and i: "quiet (at_vk (InvalidateUser (sv_uuid S) (sv_valkey S) u)) s6 = (Inr (), s')"
    using assms unfolding DeleteAccount_def
    by (elim bindc_ok) (auto elim!: bindc_ok split: if_splits)
  obtain x where x: "find_user u (sdb s) = Some x" "c = to_Credentials x" and s1: "tables (sdb s1) = tables (sdb s)"
    using GetCredentials_ok at_dbD [OF q] by blast
  have "s2 = s1" "ar_Compare (sv_argon S) pw (u_password_hash x) = Inr True"
    using p by (auto simp: require_password_def x(2) VerifyPassword_ok split: if_splits elim!: bindc_ok)
  note p' = this
  have cfg: "cfg \<in> set (t_server_config (sdb s))" "\<forall>b \<in> set (t_server_config (sdb s)). c_created_at cfg \<le> c_created_at b"
    using server_Get_ok [OF at_dbD [OF g, THEN conjunct1]] tables_fields(2) [OF s1] p'(1) by auto
  have "sdb s6 = sdb s5" "sdb s' = sdb s6"
    using v i at_vkD by (metis prod.collapse quiet_eq)+
  moreover have "s4 = s3" using m by (rule username_tombstone_pure)
  then have "tables (sdb s4) = tables (sdb s)"
    using server_Get_tables [OF at_dbD [OF g, THEN conjunct1]] s1 p'(1) by simp
  then have "tombstones_young c TombstoneEmail h (sdb s4) = tombstones_young c TombstoneEmail h (sdb s)" for c
    by (rule young.by_tables)
  ultimately have "tombstone_since c TombstoneEmail h (sdb s')" if "tombstones_young c TombstoneEmail h (sdb s)" "c \<le> now" for c
    using DeleteWithTombstones_ok [OF at_dbD [OF d, THEN conjunct1], of c TombstoneEmail h] that by simp
  then show thesis using that [OF x(1) p'(2)] h o cfg by (auto simp: x(2))
qed

lemma check_tombstone_refuses:
  assumes "HMACIdentifier (sv_crypto S) i (cfg_ServerSecret (sv_cfg S)) = Inr h" and "tombstone_exists k h (sdb s)"
  shows "check_tombstone m1 m2 k i S s \<noteq> (Inr (), s')"
proof
  assume "check_tombstone m1 m2 k i S s = (Inr (), s')"
  then obtain b s1 where c: "at_db (CheckTombstone k h) s = (Inr b, s1)" "\<not> b"
    using assms(1) unfolding check_tombstone_def by (auto elim!: bindc_ok split: if_splits)
  have "b = tombstone_exists k h (sdb s)"
    using at_dbD [OF c(1)]
    by (auto simp: CheckTombstone_def tombstone_exists_def split: prod.splits sum.splits dest!: pg_query_ok)
  with c(2) assms(2) show False by simp
qed

text \<open>
  C15. Deleting an account needs its password, and afterwards its address is refused: a
  registration with an address that normalises to the deleted one fails, whatever its other
  arguments are, in every later state that the server reaches through the operations of the
  authentication service, any operation that leaves the tombstones alone, and the periodic
  clean-up. A configured retention ends that: the clean-ups of the run have a cutoff of at most
  \<open>c\<close>, where \<open>c\<close> is not after the deletion nor after an earlier tombstone of the address, which
  the deletion would leave in place. Without a configured retention clean-ups are not restricted.
\<close>

theorem deleted_account_refused:
  assumes "DeleteAccount S now u pw s = (Inr (), s1)" and "(site_step S c)\<^sup>*\<^sup>* s1 s2"
    and "find_user u (sdb s) = Some x" and "ValidateEmail (sv_mail S) (rr_Email req) = Inr (u_email x, domain)"
    and "HMACIdentifier (sv_crypto S) (u_email x) (cfg_ServerSecret (sv_cfg S)) = Inr h"
    and "c \<le> now" and "tombstones_young c TombstoneEmail h (sdb s)"
  shows "ar_Compare (sv_argon S) pw (u_password_hash x) = Inr True
    \<and> (\<exists>e. fst (Register S now' i t salt rnd fetch req s2) = Inl e)"
proof -
  from assms(3,5) have pw: "ar_Compare (sv_argon S) pw (u_password_hash x) = Inr True"
    and h: "tombstone_since c TombstoneEmail h (sdb s1)"
    using DeleteAccount_ok [OF assms(1)] assms(6,7) by (metis option.inject sum.inject(2))+
  have t2: "tombstone_exists TombstoneEmail h (sdb s2)"
    by (rule tombstone_since_exists [OF site_run_tombstone [OF assms(2) h]])
  have "Register S now' i t salt rnd fetch req s2 \<noteq> (Inr a, s3)" for a s3
  proof
    assume "Register S now' i t salt rnd fetch req s2 = (Inr a, s3)"
    then obtain b s4 s5 where l: "recover False (at_list (IsBlocked (lower_tab (sv_mail S)) fetch domain)) s2 = (Inr b, s4)"
      and c: "check_tombstone ''compute email HMAC'' ''check email tombstone'' TombstoneEmail (u_email x) S s4 = (Inr (), s5)"
      using assms(4) unfolding Register_def by (elim bindc_ok) (auto elim!: bindc_ok split: if_splits)
    have "sdb s4 = sdb s2" using l by (elim recover_ok) (auto dest!: at_listD)
    then show False using check_tombstone_refuses [OF assms(5)] t2 c by metis
  qed
  then have "\<exists>e. fst (Register S now' i t salt rnd fetch req s2) = Inl e"
    by (metis prod.collapse sum.exhaust)
  with pw show ?thesis by blast
qed


section \<open>Replayed refresh tokens\<close>

context token_store
begin

lemma Eval_unchanged: "f (vk_store V r) = (Inr rep, vk_store V r) \<Longrightarrow> redis_Eval V f r = (x, r') \<Longrightarrow> vk_store V r' = vk_store V r"
  by (cases "vk_exec V (EVAL f) r"; cases "fst (vk_exec V (EVAL f) r)")
    (auto simp: redis_Eval_def split: reply.splits dest: exec_ok [rotated] exec_err [rotated])

lemma Rotate_missing_store:
  assumes "live (vk_store V r) (refreshKey old) = None" and "RotateRefreshToken U V new old ttl r = (x, r')"
  shows "vk_store V r' = vk_store V r"
proof -
  obtain y where "redis_Eval V (rotateScript old (uuid_String U new) (whole_seconds ttl)) r = (y, r')"
    using assms(2) by (auto simp: RotateRefreshToken_def Let_def split: prod.splits sum.splits if_splits option.splits)
  then show ?thesis by (rule Eval_unchanged [rotated]) (rule rotateScript_missing [OF assms(1)])
qed

lemma Validate_store: "ValidateRefreshToken U V t r = (x, r') \<Longrightarrow> vk_store V r' = vk_store V r"
  by (auto simp: ValidateRefreshToken_def split: prod.splits sum.splits if_splits option.splits dest: redis_Get_store)

end

lemma Refresh_ok:
  assumes "Refresh S now n old s = (Inr p, s')"
  obtains s1 u s2 where "ValidateRefreshToken (sv_uuid S) (sv_valkey S) old (svk s) = (s1, svk s2)"
    "RotateRefreshToken (sv_uuid S) (sv_valkey S) n old (cfg_JWTRefreshTTL (sv_cfg S)) (svk s2) = (Inr (tp_RefreshToken p, u), svk s')"
proof -
  obtain looked s1 where l: "at_vk (ValidateRefreshToken (sv_uuid S) (sv_valkey S) old) s = (looked, s1)" by fastforce
  then have r: "rotate_refresh S now n old looked s1 = (Inr p, s')" using assms by (simp add: Refresh_def)
  obtain x s2 where m: "at_vk (RotateRefreshToken (sv_uuid S) (sv_valkey S) n old (cfg_JWTRefreshTTL (sv_cfg S))) s1 = (x, s2)" by fastforce
  have "\<exists>u. x = Inr (tp_RefreshToken p, u) \<and> svk s' = svk s2"
    using r m unfolding rotate_refresh_def
    by (auto elim!: catchc_cases bindc_ok split: if_splits sum.splits dest!: at_dbD)
  then show thesis using that at_vkD [OF l] at_vkD [OF m] by auto
qed

text \<open>A token that is not stored is refused, and nothing in the store changes.\<close>

lemma Refresh_missing:
  assumes "token_store (sv_uuid S) (sv_valkey S)" and "live (vk_store (sv_valkey S) (svk s)) (refreshKey old) = None"
    and "Refresh S now n old s = (x, s')"
  shows "(\<exists>e. x = Inl e) \<and> vk_store (sv_valkey S) (svk s') = vk_store (sv_valkey S) (svk s)"
proof -
  obtain looked s1 where l: "at_vk (ValidateRefreshToken (sv_uuid S) (sv_valkey S) old) s = (looked, s1)" by fastforce
  note v = at_vkD [OF l, THEN conjunct1]
  have st1: "vk_store (sv_valkey S) (svk s1) = vk_store (sv_valkey S) (svk s)" by (rule token_store.Validate_store [OF assms(1) v])
  obtain e where looked: "looked = Inl e" using token_store.Validate_ok [OF assms(1)] v assms(2) by (cases looked) fastforce+
  obtain y s2 where m: "at_vk (RotateRefreshToken (sv_uuid S) (sv_valkey S) n old (cfg_JWTRefreshTTL (sv_cfg S))) s1 = (y, s2)" by fastforce
  note rot = at_vkD [OF m, THEN conjunct1]
  have miss: "live (vk_store (sv_valkey S) (svk s1)) (refreshKey old) = None" using assms(2) st1 by simp
  have "fst (RotateRefreshToken (sv_uuid S) (sv_valkey S) n old (cfg_JWTRefreshTTL (sv_cfg S)) (svk s1)) \<noteq> Inr z" for z
    by (rule token_store.Rotate_missing [OF assms(1) miss])
  then obtain e' where y: "y = Inl e'" using rot by (cases y) auto
  have "vk_store (sv_valkey S) (svk s2) = vk_store (sv_valkey S) (svk s)"
    using token_store.Rotate_missing_store [OF assms(1) miss rot] st1 by simp
  moreover have "(\<exists>e. x = Inl e) \<and> s' = s2"
    using assms(3) l m unfolding Refresh_def looked y by (auto simp: rotate_refresh_def split: if_splits)
  ultimately show ?thesis by simp
qed

text \<open>
  C17. A refresh token that was used is refused when it is presented again, and the replay
  changes nothing: the token issued in exchange stays usable. The comment of \<open>Refresh\<close> says that a
  replay revokes all refresh tokens of the user.
\<close>

theorem refresh_replay:
  assumes "token_store (sv_uuid S) (sv_valkey S)" and "index_ok (whole_seconds (cfg_JWTRefreshTTL (sv_cfg S))) (vk_store (sv_valkey S) (svk s))"
    and "1000 \<le> cfg_JWTRefreshTTL (sv_cfg S)" and "old \<noteq> uuid_String (sv_uuid S) n"
    and "Refresh S now n old s = (Inr p, s1)" and "Refresh S now' n' old s1 = (x, s2)"
  shows "(\<exists>e. x = Inl e) \<and> vk_store (sv_valkey S) (svk s2) = vk_store (sv_valkey S) (svk s1)
    \<and> live (vk_store (sv_valkey S) (svk s2)) (refreshKey (tp_RefreshToken p)) \<noteq> None"
proof -
  obtain x1 u s3 where v: "ValidateRefreshToken (sv_uuid S) (sv_valkey S) old (svk s) = (x1, svk s3)"
    and r: "RotateRefreshToken (sv_uuid S) (sv_valkey S) n old (cfg_JWTRefreshTTL (sv_cfg S)) (svk s3) = (Inr (tp_RefreshToken p, u), svk s1)"
    by (rule Refresh_ok [OF assms(5)])
  have "index_ok (whole_seconds (cfg_JWTRefreshTTL (sv_cfg S))) (vk_store (sv_valkey S) (svk s3))"
    using assms(2) token_store.Validate_store [OF assms(1) v] by simp
  note sp = token_store.Rotate_spends [OF assms(1) this assms(3,4) r]
  show ?thesis using Refresh_missing [OF assms(1) sp(3) assms(6)] sp(4) by auto
qed

section \<open>Registration\<close>

lemma find_appended: "\<forall>x \<in> set xs. \<not> P x \<Longrightarrow> find P (xs @ [y]) = (if P y then Some y else None)"
  by (induction xs) auto

lemma user_Create_ok:
  assumes "user_Create n t p d = (Inr i, d')"
  shows "i = n \<and> uc_Email p \<notin> set (map u_email (t_users d)) \<and> t_users d' = t_users (snd (insert_user n t p d)) \<and> fst (insert_user n t p d) = Inr n"
  using assms [unfolded user_Create_def]
proof (cases rule: WithTx_cases)
  case (committed d1 y d2)
  then obtain j d3 where s1: "pg_stmt (insert_user n t p) d1 = (Inr j, d3)"
    and s2: "d3 = d2 \<or> (\<exists>z. pg_stmt (insert_verification t j (uc_VerifyToken p) (uc_VerifyExpiry p)) d3 = (Inr z, d2))" and j: "j = i"
    by (auto simp: user_create_tx_def split: prod.splits sum.splits if_splits)
  have "pure_stmt (insert_user n t p)" by (auto simp: pure_stmt_def insert_user_def)
  note e1 = pg_stmt_success_at [OF s1 this committed(1)]
  have "t_users d2 = t_users d3" if q: "pg_stmt (insert_verification t j (uc_VerifyToken p) (uc_VerifyExpiry p)) d3 = (Inr z, d2)" for z
    by (rule table_invariant.stmt [where I = "\<lambda>d. t_users d = t_users d3", OF _ q])
      (simp_all add: table_invariant_def insert_verification_def)
  then have "t_users d2 = t_users d3" using s2 by blast
  then show ?thesis using tables_fields(1) [OF e1(2)] tables_fields(1) [OF committed(3)] e1(1) j
    by (auto simp: insert_user_def split: if_splits)
qed simp

lemma issueTokens_result:
  "(\<exists>t s'. issueTokens S now n u v s = (Inr t, s')) \<or> (\<exists>e. fst (issueTokens S now n u v s) \<in> {Inl (Wrap ''create access token'' e), Inl (Wrap ''create refresh token'' e)})"
  unfolding issueTokens_def bindc_def maperr_def lift_def by (auto split: prod.splits sum.splits simp: ret_def)

lemma issueTokens_db: "issueTokens S now n u v s = (x, s') \<Longrightarrow> sdb s' = sdb s"
  unfolding issueTokens_def by (auto elim!: bindc_cases simp: maperr_def split: prod.splits sum.splits dest!: at_vkD)

lemma Register_ok:
  assumes "Register S now i t salt rnd fetch req s = (Inr a, s')"
  obtains email domain h row s1 where "ValidateEmail (sv_mail S) (rr_Email req) = Inr (email, domain)"
    "HashPassword (sv_argon S) salt (rr_Password req) (cfg_argon (sv_cfg S)) = Inr h"
    "find (\<lambda>u. u_email u = email) (t_users (sdb s')) = Some row" "u_id row = i" "u_password_hash row = h" "\<not> u_mfa_enabled row"
    "um_ID (re_User a) = uuid_String (sv_uuid S) i"
proof -
  obtain email domain where v: "ValidateEmail (sv_mail S) (rr_Email req) = Inr (email, domain)"
    using assms unfolding Register_def by (elim bindc_ok) auto
  obtain h where h: "HashPassword (sv_argon S) salt (rr_Password req) (cfg_argon (sv_cfg S)) = Inr h"
    using assms v unfolding Register_def by (elim bindc_ok) (auto elim!: bindc_ok split: if_splits)
  define p where "p = \<lparr>uc_Email = email, uc_Username = rr_Username req, uc_PasswordHash = h,
             uc_VerifyToken = generateSecureToken verifyTokenBytes rnd, uc_VerifyExpiry = now + 24 * 60 * 60 * 1000\<rparr>"
  obtain s1 j s2 s3 tokens where c: "at_db (user_Create i now p) s1 = (Inr j, s2)"
    and m: "SendVerification (sv_cfg S) email (generateSecureToken verifyTokenBytes rnd) s2 = (Inr (), s3)"
    and k: "issueTokens S now t j False s3 = (Inr tokens, s')" and a: "um_ID (re_User a) = uuid_String (sv_uuid S) j"
    using assms v h unfolding Register_def p_def
    by (elim bindc_ok) (auto elim!: bindc_ok split: if_splits simp: Let_def result_of_def)
  have "sdb s' = sdb s2" using issueTokens_ok(3) [OF k] m by (auto simp: SendVerification_def)
  then have u: "j = i" "email \<notin> set (map u_email (t_users (sdb s1)))"
      "t_users (sdb s') = t_users (snd (insert_user i now p (sdb s1)))" "fst (insert_user i now p (sdb s1)) = Inr i"
    using user_Create_ok [OF at_dbD [OF c, THEN conjunct1]] by (simp_all add: p_def)
  have f: "\<forall>x \<in> set (t_users (sdb s1)). \<not> u_email x = email" using u(2) by auto
  have "\<exists>row. find (\<lambda>u. u_email u = email) (t_users (sdb s')) = Some row \<and> u_id row = i \<and> u_password_hash row = h \<and> \<not> u_mfa_enabled row"
    using u(4) unfolding u(3) by (auto simp: insert_user_def p_def find_appended [OF f] split: if_splits)
  then show thesis using that [OF v h] a u(1) by blast
qed

text \<open>
  C16. Who registered can log in: with the same address and password, and while the database
  answers, the login is not refused; it gives tokens for the account that was created, unless
  signing or storing the new tokens fails.
\<close>

theorem register_then_login:
  assumes "argon_service (sv_argon S)" and "Register S now i t salt rnd fetch req s = (Inr a, s1)" and "pg_outcomes (sdb s1) = []"
    and "lr_Email lreq = rr_Email req" and "lr_Password lreq = rr_Password req"
  shows "(\<exists>b s2. Login S now' t' salt' lreq s1 = (Inr (LoggedIn b), s2) \<and> um_ID (re_User b) = um_ID (re_User a))
    \<or> (\<exists>e. fst (Login S now' t' salt' lreq s1) \<in> {Inl (Wrap ''create access token'' e), Inl (Wrap ''create refresh token'' e)})"
proof -
  obtain email domain h row where v: "ValidateEmail (sv_mail S) (rr_Email req) = Inr (email, domain)"
    and h: "HashPassword (sv_argon S) salt (rr_Password req) (cfg_argon (sv_cfg S)) = Inr h"
    and r: "find (\<lambda>u. u_email u = email) (t_users (sdb s1)) = Some row" "u_id row = i" "u_password_hash row = h" "\<not> u_mfa_enabled row"
    and a: "um_ID (re_User a) = uuid_String (sv_uuid S) i" by (rule Register_ok [OF assms(2)])
  have q: "at_db (GetByEmail email) s1 = (Inr (to_Credentials row), s1)"
    using r(1) assms(3) by (simp add: at_db_def on_db_def GetByEmail_def scanCredentials_def scan_row_def)
  have pw: "VerifyPassword (sv_argon S) (rr_Password req) h = Inr True" by (rule argon_service.verify_hashed [OF assms(1) h])
  have rot: "rotate_hash S salt' (to_Credentials row) (rr_Password req) s1 = (Inr (), s1)"
    using argon_service.hashed_current [OF assms(1) h] r(3) by (simp add: rotate_hash_def)
  obtain s2 where rec: "recordLoginAttempt S now' email (lr_IP lreq) True s1 = (Inr (), s2)" by (simp add: recordLoginAttempt_def)
  have "Login S now' t' salt' lreq s1 = bindc (issueTokens S now' t' i (u_email_verified row)) (\<lambda>tokens.
      ret (LoggedIn (result_of (user_ToModel (sv_uuid S) (to_Credentials row)) tokens))) s2"
    using v q pw rot rec r assms(4,5) by (simp add: Login_def bindc_def catchc_def lift_def maperr_def finish_login_def)
  then show ?thesis using issueTokens_result [of S now' t' i "u_email_verified row" s2] a r(2)
    by (auto simp: bindc_def ret_def result_of_def user_ToModel_def split: prod.splits sum.splits)
qed

section \<open>Witnesses\<close>

lemma sample_email: "ValidateEmail ref_mail ''ada@example.com'' = Inr (''ada@example.com'', ''example.com'')"
  "ValidateEmail ref_mail ''bob@example.com'' = Inr (''bob@example.com'', ''example.com'')"
  "ValidateEmail ref_mail ''zoe@example.com'' = Inr (''zoe@example.com'', ''example.com'')"
  by code_simp+

lemma sample_GetByEmail:
  "GetByEmail ''ada@example.com'' (sdb sample_site) = (Inr (to_Credentials (sample_account 1 ''ada'')), sdb sample_site)"
  by (simp add: GetByEmail_def scanCredentials_def scan_row_def)

lemma sample_login:
  "\<exists>a s'. Login sample_service 1000 77 [] \<lparr>lr_Email = ''ada@example.com'', lr_Password = ''correct horse'', lr_IP = ''::1''\<rparr> sample_site
     = (Inr (LoggedIn a), s')"
proof -
  obtain s2 where r: "recordLoginAttempt sample_service 1000 ''ada@example.com'' ''::1'' True sample_site = (Inr (), s2)"
    by (simp add: recordLoginAttempt_def)
  then have "index_ok 604800000 (svk s2)" using recordLoginAttempt_parts(1) [OF r] index_empty by simp
  from sample_issue [OF this, of 1000 77 1 True] obtain t s3 where "issueTokens sample_service 1000 77 1 True s2 = (Inr t, s3)" by blast
  then show ?thesis using r
    by (simp add: Login_def sample_email sample_GetByEmail finish_login_def rotate_hash_def bindc_def catchc_def lift_def maperr_def at_db_def
        on_db_def ret_def)
qed

theorem Login_sound_witness:
  "\<exists>a s'. Login sample_service 1000 77 [] \<lparr>lr_Email = ''ada@example.com'', lr_Password = ''correct horse'', lr_IP = ''::1''\<rparr> sample_site
     = (Inr (LoggedIn a), s') \<and> um_ID (re_User a) = uuid_String ref_uuid 1"
proof -
  obtain a s' where l: "Login sample_service 1000 77 [] \<lparr>lr_Email = ''ada@example.com'', lr_Password = ''correct horse'', lr_IP = ''::1''\<rparr>
      sample_site = (Inr (LoggedIn a), s')" using sample_login by blast
  have "valkey_service (sv_valkey sample_service)" by (simp add: mem.valkey_service_axioms)
  from Login_sound [OF this l] l show ?thesis by (auto simp: sample_email)
qed

definition with_ticket :: "vstore site" where
  "with_ticket = snd (at_vk (CreateMFATicket ref_uuid mem_valkey 88 2 300000) sample_site)"

lemma with_ticket_vk: "svk with_ticket = vput (mfaTicketKey (uuid_String ref_uuid 88)) (VStr (Text (uuid_String ref_uuid 2))) (Some 300000) vempty"
  by (simp add: with_ticket_def at_vk_def on_vk_def CreateMFATicket_def redis_Do_def mem_valkey_def Let_def until_def)

lemma with_ticket_db: "sdb with_ticket = sdb sample_site"
  by (simp add: with_ticket_def at_vk_def on_vk_def CreateMFATicket_def redis_Do_def mem_valkey_def Let_def)

lemma sample_mfa:
  "\<exists>a s'. VerifyMFA sample_service 1000 77 (uuid_String ref_uuid 88) ''otp'' with_ticket = (Inr a, s')"
proof -
  obtain s1 where c: "at_vk (ConsumeMFATicket ref_uuid mem_valkey (uuid_String ref_uuid 88)) with_ticket = (Inr 2, s1)"
      "svk s1 = vdrop (mfaTicketKey (uuid_String ref_uuid 88)) (svk with_ticket)" "sdb s1 = sdb sample_site"
    by (simp add: at_vk_def on_vk_def ConsumeMFATicket_def redis_GetDel_def with_ticket_vk with_ticket_db mem_valkey_def live_vput)
  have "index_ok 604800000 (svk s1)"
    by (simp add: c(2) with_ticket_vk index_ok_def set_key_def live_vput)
  from sample_issue [OF this, of 1000 77 2 True] obtain t s3 where "issueTokens sample_service 1000 77 2 True s1 = (Inr t, s3)" by blast
  moreover have "at_db (GetCredentialsByID 2) s1 = (Inr (to_Credentials (sample_account 2 ''bob'')), s1)"
    by (simp add: at_db_def on_db_def GetCredentialsByID_def scanCredentials_def scan_row_def c(3) find_user_def)
  ultimately show ?thesis using c(1)
    by (simp add: VerifyMFA_def bindc_def maperr_def lift_def completeMFALogin_def ret_def)
qed

theorem VerifyMFA_sound_witness:
  "\<exists>a s' b. VerifyMFA sample_service 1000 77 (uuid_String ref_uuid 88) ''otp'' with_ticket = (Inr a, s')
     \<and> live (svk with_ticket) (mfaTicketKey (uuid_String ref_uuid 88)) = Some (VStr b) \<and> um_ID (re_User a) = uuid_String ref_uuid 2"
proof -
  obtain a s' where v: "VerifyMFA sample_service 1000 77 (uuid_String ref_uuid 88) ''otp'' with_ticket = (Inr a, s')" using sample_mfa by blast
  have "token_store (sv_uuid sample_service) (sv_valkey sample_service)" by (simp add: mem_tokens.token_store_axioms)
  from VerifyMFA_sound [OF this v] obtain uid u b where
    w: "live (svk with_ticket) (mfaTicketKey (uuid_String ref_uuid 88)) = Some (VStr b)" "uuid_Parse ref_uuid (text_of b) = Some uid"
      "find_user uid (sdb with_ticket) = Some u" "um_ID (re_User a) = uuid_String ref_uuid (u_id u)" by (auto simp: mem_valkey_def)
  moreover have "u_id u = 2" using w by (auto simp: with_ticket_vk live_vput with_ticket_db find_user_def)
  ultimately show ?thesis using v by auto
qed

lemma sample_hmac: "\<exists>h. HMACIdentifier ref_crypto i ''0a0b'' = Inr h"
  by (simp add: HMACIdentifier_def hex_digit_def byte_def Let_def)

lemma sample_deletion: "\<exists>s1. DeleteAccount sample_service 1000 2 ''correct horse'' sample_site = (Inr (), s1)"
proof -
  have q: "at_db (GetCredentialsByID 2) sample_site = (Inr (to_Credentials (sample_account 2 ''bob'')), sample_site)"
    by (simp add: at_db_def on_db_def GetCredentialsByID_def scanCredentials_def scan_row_def find_user_def)
  obtain c where g: "at_db server_Get sample_site = (Inr c, sample_site)" "c_owner_id c = 1"
    by (simp add: at_db_def on_db_def server_Get_def scanned_or_def scanConfig_def maperr_def sample_db_def)
  have "\<exists>d'. DeleteWithTombstones 1000 2 [\<lparr>tb_IdentifierType = TombstoneEmail, tb_HMACHash = h1\<rparr>,
      \<lparr>tb_IdentifierType = TombstoneUsername, tb_HMACHash = h2\<rparr>] (sdb sample_site) = (Inr (), d')" for h1 h2
    by (simp add: DeleteWithTombstones_def WithTx_def delete_with_tombstones_tx_def insert_tombstone_def delete_user_def find_user_def without_user_def sample_db_def)
  then have del: "\<exists>s2. at_db (DeleteWithTombstones 1000 2 [\<lparr>tb_IdentifierType = TombstoneEmail, tb_HMACHash = h1\<rparr>,
      \<lparr>tb_IdentifierType = TombstoneUsername, tb_HMACHash = h2\<rparr>]) sample_site = (Inr (), s2)" for h1 h2
    by (metis at_db_simp)
  obtain h1 h2 where h: "HMACIdentifier ref_crypto ''bob@example.com'' ''0a0b'' = Inr h1"
      "HMACIdentifier ref_crypto (ToLower (lower_tab ref_mail) ''bob'') ''0a0b'' = Inr h2"
    using sample_hmac by blast
  obtain s2 where "at_db (DeleteWithTombstones 1000 2 [\<lparr>tb_IdentifierType = TombstoneEmail, tb_HMACHash = h1\<rparr>,
      \<lparr>tb_IdentifierType = TombstoneUsername, tb_HMACHash = h2\<rparr>]) sample_site = (Inr (), s2)" using del by blast
  then show ?thesis
    using q g h by (simp add: DeleteAccount_def bindc_def maperr_def require_password_def lift_def ret_def quiet_def)
qed

text \<open>
  With a retention of five seconds: account 2 is deleted at second 1, the clean-up runs at
  second 6, and the address is still refused.
\<close>

theorem deleted_account_refused_witness:
  "\<exists>s1 keys d2 e. DeleteAccount sample_service 1000 2 ''correct horse'' sample_site = (Inr (), s1)
     \<and> purgeExpiredData sample_config 6000 6000 6000 (sdb s1) = Some (keys, d2)
     \<and> fst (Register sample_service 6500 9 77 [] [] (Inl ErrHex)
         \<lparr>rr_Email = ''bob@example.com'', rr_Username = ''robert'', rr_Password = ''new password''\<rparr>
         (s1\<lparr>si_world := (si_world s1)\<lparr>w_db := d2\<rparr>\<rparr>)) = Inl e"
proof -
  obtain s1 where d: "DeleteAccount sample_service 1000 2 ''correct horse'' sample_site = (Inr (), s1)" using sample_deletion by blast
  have u: "find_user 2 (sdb sample_site) = Some (sample_account 2 ''bob'')" by (simp add: find_user_def)
  have v: "ValidateEmail (sv_mail sample_service) (rr_Email \<lparr>rr_Email = ''bob@example.com'', rr_Username = ''robert'', rr_Password = ''new password''\<rparr>)
      = Inr (u_email (sample_account 2 ''bob''), ''example.com'')" by (simp add: sample_email)
  obtain h where "HMACIdentifier ref_crypto (u_email (sample_account 2 ''bob'')) ''0a0b'' = Inr h" using sample_hmac by blast
  then have h: "HMACIdentifier (sv_crypto sample_service) (u_email (sample_account 2 ''bob'')) (cfg_ServerSecret (sv_cfg sample_service)) = Inr h"
    by simp
  obtain keys d2 where p: "purgeExpiredData sample_config 6000 6000 6000 (sdb s1) = Some (keys, d2)"
    using purgeExpiredData_returns by blast
  let ?s2 = "s1\<lparr>si_world := (si_world s1)\<lparr>w_db := d2\<rparr>\<rparr>"
  have "site_step sample_service 1000 s1 ?s2"
    by (rule site_step.site_purge [of _ 6000 6000 6000]) (use p in simp_all)
  then have run: "(site_step sample_service 1000)\<^sup>*\<^sup>* s1 ?s2" by blast
  have "tombstones_young 1000 TombstoneEmail h (sdb sample_site)" by (simp add: tombstones_young_def sample_db_def)
  from deleted_account_refused [OF d run u v h _ this] d p show ?thesis by blast
qed

lemma sample_register:
  "\<exists>a s1. Register sample_service 2000 9 77 [] ''seed'' (Inl ErrHex)
      \<lparr>rr_Email = ''zoe@example.com'', rr_Username = ''zoe'', rr_Password = ''new password''\<rparr> sample_site = (Inr a, s1) \<and> pg_outcomes (sdb s1) = []"
proof -
  define req where "req = \<lparr>rr_Email = ''zoe@example.com'', rr_Username = ''zoe'', rr_Password = ''new password''\<rparr>"
  define p where "p = \<lparr>uc_Email = ''zoe@example.com'', uc_Username = ''zoe'', uc_PasswordHash = ref_hash (cfg_argon sample_config) ''new password'',
             uc_VerifyToken = generateSecureToken verifyTokenBytes ''seed'', uc_VerifyExpiry = 2000 + 24 * 60 * 60 * 1000\<rparr>"
  have b: "at_list (IsBlocked (lower_tab ref_mail) (Inl ErrHex) ''example.com'') sample_site = (Inr False, sample_site)"
    by (simp add: at_list_def IsBlocked_def NewBlocklist_def sample_site_def)
  have t: "check_tombstone m1 m2 k i sample_service sample_site = (Inr (), sample_site)" for m1 m2 k i
  proof -
    obtain h where "HMACIdentifier ref_crypto i ''0a0b'' = Inr h" using sample_hmac by blast
    then show ?thesis
      by (simp add: check_tombstone_def bindc_def maperr_def lift_def at_db_def on_db_def CheckTombstone_def tombstone_exists_def ret_def)
  qed
  have tok: "generateSecureToken verifyTokenBytes ''seed'' \<noteq> []" by code_simp
  obtain s2 where c: "at_db (user_Create 9 2000 p) sample_site = (Inr 9, s2)" "pg_outcomes (sdb s2) = []" "svk s2 = vempty"
    by (simp add: at_db_def on_db_def user_Create_def user_create_tx_def WithTx_def insert_user_def insert_verification_def p_def tok)
  define s3 where "s3 = s2\<lparr>si_mails := si_mails s2 @ [(''zoe@example.com'', generateSecureToken verifyTokenBytes ''seed'', ''https://home'', ''home'')]\<rparr>"
  have m: "SendVerification sample_config ''zoe@example.com'' (generateSecureToken verifyTokenBytes ''seed'') s2 = (Inr (), s3)"
    by (simp add: SendVerification_def s3_def)
  have "index_ok 604800000 (svk s3)" using c(3) index_empty by (simp add: s3_def)
  from sample_issue [OF this, of 2000 77 9 False] obtain tk s4 where i: "issueTokens sample_service 2000 77 9 False s3 = (Inr tk, s4)" by blast
  have pw: "ValidatePassword ''new password'' = Inr ()" "ValidateUsername ''zoe'' = Inr ()" by code_simp+
  have hp: "HashPassword ref_argon [] ''new password'' (cfg_argon sample_config) = Inr (uc_PasswordHash p)"
    by (simp add: HashPassword_def ref_argon_def p_def)
  have "\<exists>a. Register sample_service 2000 9 77 [] ''seed'' (Inl ErrHex) req sample_site = (Inr a, s4)"
    using b t c(1) m i pw hp by (simp add: Register_def req_def p_def sample_email bindc_def maperr_def lift_def recover_def Let_def ret_def)
  then show ?thesis using issueTokens_db [OF i] c(2) by (auto simp: req_def s3_def)
qed

theorem register_then_login_witness:
  "\<exists>a s1 x. Register sample_service 2000 9 77 [] ''seed'' (Inl ErrHex)
      \<lparr>rr_Email = ''zoe@example.com'', rr_Username = ''zoe'', rr_Password = ''new password''\<rparr> sample_site = (Inr a, s1)
     \<and> fst (Login sample_service 3000 78 [] \<lparr>lr_Email = ''zoe@example.com'', lr_Password = ''new password'', lr_IP = ''::1''\<rparr> s1) = x
     \<and> x \<noteq> Inl ErrInvalidCredentials"
proof -
  obtain a s1 where r: "Register sample_service 2000 9 77 [] ''seed'' (Inl ErrHex)
      \<lparr>rr_Email = ''zoe@example.com'', rr_Username = ''zoe'', rr_Password = ''new password''\<rparr> sample_site = (Inr a, s1)"
    and o: "pg_outcomes (sdb s1) = []" using sample_register by blast
  have ar: "argon_service (sv_argon sample_service)" by (simp add: ref_argon_service.argon_service_axioms)
  have "fst (Login sample_service 3000 78 [] \<lparr>lr_Email = ''zoe@example.com'', lr_Password = ''new password'', lr_IP = ''::1''\<rparr> s1)
      \<noteq> Inl ErrInvalidCredentials"
    using register_then_login [OF ar r o, of "\<lparr>lr_Email = ''zoe@example.com'', lr_Password = ''new password'', lr_IP = ''::1''\<rparr>" 3000 78 "[]"]
    by (auto simp: ErrInvalidCredentials_def)
  with r show ?thesis by blast
qed

lemma sample_refresh:
  "\<exists>s s1 p. index_ok 604800000 (svk s) \<and> Refresh sample_service 1000 79 (uuid_String ref_uuid 77) s = (Inr p, s1)"
proof -
  obtain t s where t: "issueTokens sample_service 1000 77 1 True sample_site = (Inr t, s)" "index_ok 604800000 (svk s)"
      "live (svk s) (refreshKey (uuid_String ref_uuid 77)) = Some (VStr (Text (uuid_String ref_uuid 1)))"
    using sample_issue [of sample_site 1000 77 1 True] index_empty by auto
  have db: "sdb s = sdb sample_site" by (rule issueTokens_db [OF t(1)])
  have v: "at_vk (ValidateRefreshToken ref_uuid mem_valkey (uuid_String ref_uuid 77)) s = (Inr 1, s)"
    using t(3) by (simp add: at_vk_def on_vk_def ValidateRefreshToken_def redis_Get_def mem_valkey_def)
  have w: "whole_seconds 604800000 = 604800000" by (simp add: whole_seconds_def)
  obtain r1 where "RotateRefreshToken ref_uuid mem_valkey 79 (uuid_String ref_uuid 77) 604800000 (svk s) = (Inr (uuid_String ref_uuid 79, 1), r1)"
    using mem_Rotate [of 604800000 "svk s" "uuid_String ref_uuid 77" 1 79] t(2,3) w by auto
  then have rot: "at_vk (RotateRefreshToken ref_uuid mem_valkey 79 (uuid_String ref_uuid 77) 604800000) s
      = (Inr (uuid_String ref_uuid 79, 1), s\<lparr>si_world := (si_world s)\<lparr>w_vk := r1\<rparr>\<rparr>)" by simp
  obtain tok where "NewAccessToken ref_uuid ref_jwt 1000 1 ''secret'' (cfg_JWTAccessTTL sample_config) ''https://home'' True = Inr tok"
    by (simp add: NewAccessToken_def ref_jwt_def)
  then have "\<exists>p s1. Refresh sample_service 1000 79 (uuid_String ref_uuid 77) s = (Inr p, s1)"
    using v rot db
    by (simp add: Refresh_def rotate_refresh_def catchc_def bindc_def maperr_def lift_def ret_def at_db_def on_db_def user_GetByID_def scanUser_def
        scan_row_def find_user_def to_User_def)
  with t(2) show ?thesis by blast
qed

theorem refresh_replay_witness:
  "\<exists>s s1 s2 p e. Refresh sample_service 1000 79 (uuid_String ref_uuid 77) s = (Inr p, s1)
     \<and> Refresh sample_service 2000 80 (uuid_String ref_uuid 77) s1 = (Inl e, s2) \<and> svk s2 = svk s1"
proof -
  obtain s s1 p where i: "index_ok 604800000 (svk s)" and r: "Refresh sample_service 1000 79 (uuid_String ref_uuid 77) s = (Inr p, s1)"
    using sample_refresh by blast
  obtain x s2 where r2: "Refresh sample_service 2000 80 (uuid_String ref_uuid 77) s1 = (x, s2)" by fastforce
  have ne: "uuid_String ref_uuid 77 \<noteq> uuid_String ref_uuid 79" by simp
  have ts: "token_store (sv_uuid sample_service) (sv_valkey sample_service)" by (simp add: mem_tokens.token_store_axioms)
  have "(\<exists>e. x = Inl e) \<and> svk s2 = svk s1"
    using refresh_replay [OF ts _ _ _ r r2] i ne by (simp add: mem_valkey_def whole_seconds_def)
  with r r2 show ?thesis by blast
qed

end
