(* ===== verification/Auth_Http_Laws.thy ===== *)
theory Auth_Http_Laws
  imports Auth_Http Auth_Props
begin

text \<open>
  What the authentication middleware and endpoints guarantee: which requests pass, and that
  the tokens of a login pass.
\<close>

section \<open>Requests that pass\<close>

lemma credentials_of_ok:
  "credentials_of cfg c = Inr (tok, src) \<longleftrightarrow>
     (rq_header c ''Authorization'' \<noteq> [] \<and> bearer_token (rq_header c ''Authorization'') = Some tok \<and> src = AuthSourceHeader)
     \<or> (rq_header c ''Authorization'' = [] \<and> rq_cookie c (AccessCookieName cfg) = tok \<and> tok \<noteq> [] \<and> src = AuthSourceCookie)"
  by (auto simp: credentials_of_def Let_def split: option.splits)

lemma RequireAuth_ok:
  "RequireAuth U J now secret issuer cfg c = (Inr c' :: 'p reaction + auth_request) \<longleftrightarrow>
     (\<exists>tok src claims u. credentials_of cfg c = (Inr (tok, src) :: 'p reaction + (string \<times> string))
        \<and> ValidateAccessToken J now tok secret issuer = Inr claims \<and> uuid_Parse U (ac_Subject claims) = Some u
        \<and> c' = c\<lparr>rq_userID := Some u, rq_emailVerified := Some (ac_EmailVerified claims), rq_authSource := Some src\<rparr>)"
  unfolding RequireAuth_def by (auto split: sum.splits option.splits if_splits)

text \<open>
  C21. A request that passes the authentication, the CSRF check and the check of the verified
  email carries a token with a valid signature for this issuer that has not expired, belongs to
  the user the handlers then see, and whose user had a verified email. If the token came from
  the cookie and the method changes state, the request repeats the CSRF cookie in its header.
\<close>

theorem auth_chain_sound:
  assumes "jwt_service J hmac" and "RequireAuth U J now secret issuer cfg c = (Inr c1 :: AuthPayload reaction + auth_request)"
    and "RequireCSRF cfg c1 = (Inr c2 :: AuthPayload reaction + auth_request)"
    and "RequireVerifiedEmail c2 = (Inr c3 :: AuthPayload reaction + auth_request)"
  shows "\<exists>tok claims u. (if rq_header c ''Authorization'' = [] then tok = rq_cookie c (AccessCookieName cfg)
        else bearer_token (rq_header c ''Authorization'') = Some tok)
    \<and> ValidateAccessToken J now tok secret issuer = Inr claims \<and> hmac tok \<and> ac_Issuer claims = issuer
    \<and> (\<forall>e. ac_ExpiresAt claims = Some e \<longrightarrow> now < e) \<and> ac_EmailVerified claims
    \<and> uuid_Parse U (ac_Subject claims) = Some u \<and> UserID (request.truncate c3) = (Inr u :: AuthPayload reaction + uuid)
    \<and> (rq_header c ''Authorization'' = [] \<and> rq_method c \<notin> {''GET'', ''HEAD'', ''OPTIONS''} \<longrightarrow>
         rq_header c ''X-CSRF-Token'' \<noteq> [] \<and> rq_cookie c (CSRFCookieName cfg) = rq_header c ''X-CSRF-Token'')"
proof -
  from assms(2) obtain tok src claims u where
    cr: "credentials_of cfg c = (Inr (tok, src) :: AuthPayload reaction + (string \<times> string))" and v: "ValidateAccessToken J now tok secret issuer = Inr claims"
    and u: "uuid_Parse U (ac_Subject claims) = Some u"
    and c1: "c1 = c\<lparr>rq_userID := Some u, rq_emailVerified := Some (ac_EmailVerified claims), rq_authSource := Some src\<rparr>"
    by (auto simp: RequireAuth_ok)
  have c2: "c2 = c1" using assms(3) by (auto simp: RequireCSRF_def Let_def split: if_splits)
  have c3: "c3 = c2" "ac_EmailVerified claims" using assms(4) c2 c1 by (auto simp: RequireVerifiedEmail_def split: if_splits)
  have "rq_header c ''X-CSRF-Token'' \<noteq> [] \<and> rq_cookie c (CSRFCookieName cfg) = rq_header c ''X-CSRF-Token''"
    if "rq_header c ''Authorization'' = []" "rq_method c \<notin> {''GET'', ''HEAD'', ''OPTIONS''}"
    using assms(3) that cr by (auto simp: RequireCSRF_def c1 credentials_of_ok Let_def split: if_splits)
  moreover have "UserID (request.truncate c3) = (Inr u :: AuthPayload reaction + uuid)"
    by (simp add: c3 c2 c1 UserID_def request.truncate_def)
  ultimately show ?thesis
    using cr v u c3(2) jwt_service.validate_sound [OF assms(1) v] unfolding credentials_of_ok by (auto intro!: exI [of _ tok])
qed

section \<open>Tokens of a login\<close>

lemma bearer_of: "tok \<noteq> [] \<Longrightarrow> bearer_token (''Bearer '' @ tok) = Some tok"
proof -
  have "map ascii_lower ''Bearer '' = ''bearer ''" by code_simp
  then show "tok \<noteq> [] \<Longrightarrow> bearer_token (''Bearer '' @ tok) = Some tok" by (simp add: bearer_token_def)
qed

lemma Login_tokens:
  assumes "Login S now t salt req s = (Inr (LoggedIn a), s')"
  shows "\<exists>u domain. ValidateEmail (sv_mail S) (lr_Email req) = Inr (u_email u, domain)
    \<and> u \<in> set (t_users (sdb s)) \<and> ar_Compare (sv_argon S) (lr_Password req) (u_password_hash u) = Inr True \<and> \<not> u_mfa_enabled u
    \<and> um_ID (re_User a) = uuid_String (sv_uuid S) (u_id u)
    \<and> NewAccessToken (sv_uuid S) (sv_jwt S) now (u_id u) (cfg_JWTSecret (sv_cfg S)) (cfg_JWTAccessTTL (sv_cfg S))
        (cfg_ServerURL (sv_cfg S)) (u_email_verified u) = Inr (re_AccessToken a)"
proof -
  obtain email domain u s1 where e: "ValidateEmail (sv_mail S) (lr_Email req) = Inr (email, domain)" and u: "find (\<lambda>u. u_email u = email) (t_users (sdb s)) = Some u"
    and p: "ar_Compare (sv_argon S) (lr_Password req) (u_password_hash u) = Inr True"
    and f: "finish_login S now t salt email req (to_Credentials u) s1 = (Inr (LoggedIn a), s')"
    by (rule Login_ok [OF assms])
  have m: "u \<in> set (t_users (sdb s))" "u_email u = email" using u by (auto simp: find_Some_iff)
  from finish_login_ok [OF f] obtain tokens s2 where mfa: "\<not> u_mfa_enabled u"
    and r: "a = result_of (user_ToModel (sv_uuid S) (to_Credentials u)) tokens"
    and i: "issueTokens S now t (u_id u) (u_email_verified u) s2 = (Inr tokens, s')" by auto
  show ?thesis using e m p mfa issueTokens_ok(1) [OF i] r by (auto simp: result_of_def user_ToModel_def)
qed

text \<open>
  C22. The access token a login answers with authenticates the requests that carry it, as the
  user whose password was given, until one second before its lifetime is over.
\<close>

theorem login_authenticates:
  assumes "jwt_service (sv_jwt S) hmac" and "uuid_text (sv_uuid S)"
    and "auth_Login S now t salt csrf c (Some (email, password)) s = ((Success (PAuth um access refresh), cookies), s')"
    and "now' + 1000 \<le> now + cfg_JWTAccessTTL (sv_cfg S)" and "access \<noteq> []" and "rq_header d ''Authorization'' = ''Bearer '' @ access"
  shows "\<exists>u d' domain. ValidateEmail (sv_mail S) email = Inr (u_email u, domain) \<and> u \<in> set (t_users (sdb s)) \<and> ar_Compare (sv_argon S) password (u_password_hash u) = Inr True \<and> \<not> u_mfa_enabled u
    \<and> um_ID um = uuid_String (sv_uuid S) (u_id u)
    \<and> RequireAuth (sv_uuid S) (sv_jwt S) now' (cfg_JWTSecret (sv_cfg S)) (cfg_ServerURL (sv_cfg S)) (sv_cfg S) d
        = (Inr d' :: AuthPayload reaction + auth_request)
    \<and> rq_userID d' = Some (u_id u) \<and> rq_emailVerified d' = Some (u_email_verified u)"
proof -
  obtain a where l: "Login S now t salt \<lparr>lr_Email = email, lr_Password = password, lr_IP = rq_ip c\<rparr> s = (Inr (LoggedIn a), s')"
    and a: "re_User a = um" "re_AccessToken a = access"
    using assms(3) by (auto simp: auth_Login_def with_body_def answer_def signed_in_def toAuthResponse_def mapAuthServiceError_def reaction_defs
        split: prod.splits sum.splits LoginResult.splits option.splits)
  from Login_tokens [OF l] obtain u domain where e: "ValidateEmail (sv_mail S) email = Inr (u_email u, domain)"
    and u: "u \<in> set (t_users (sdb s))" "ar_Compare (sv_argon S) password (u_password_hash u) = Inr True"
      "\<not> u_mfa_enabled u" "um_ID um = uuid_String (sv_uuid S) (u_id u)"
    and tok: "NewAccessToken (sv_uuid S) (sv_jwt S) now (u_id u) (cfg_JWTSecret (sv_cfg S)) (cfg_JWTAccessTTL (sv_cfg S))
               (cfg_ServerURL (sv_cfg S)) (u_email_verified u) = Inr access" using a by auto
  from jwt_service.validate_new [OF assms(1) tok assms(4)] obtain cl where
    cl: "ValidateAccessToken (sv_jwt S) now' access (cfg_JWTSecret (sv_cfg S)) (cfg_ServerURL (sv_cfg S)) = Inr cl"
      "ac_Subject cl = uuid_String (sv_uuid S) (u_id u)" "ac_EmailVerified cl = u_email_verified u" by blast
  have p: "uuid_Parse (sv_uuid S) (ac_Subject cl) = Some (u_id u)" using uuid_text.parse_string [OF assms(2)] cl(2) by simp
  have cr: "credentials_of (sv_cfg S) d = (Inr (access, AuthSourceHeader) :: AuthPayload reaction + (string \<times> string))"
    unfolding credentials_of_ok assms(6) using bearer_of [OF assms(5)] by simp
  show ?thesis using e u cl p cr by (intro exI [of _ u] exI) (auto simp: RequireAuth_ok)
qed

section \<open>Witnesses\<close>

definition sample_request :: auth_request where
  "sample_request = \<lparr>rq_params = (\<lambda>_. []), rq_query = (\<lambda>_. []), rq_userID = None, rq_method = ''POST'', rq_header = (\<lambda>_. []),
     rq_cookie = (\<lambda>_. []), rq_ip = ''::1'', rq_emailVerified = None, rq_authSource = None\<rparr>"

lemma sample_auth_login:
  "\<exists>um access refresh cookies s'. auth_Login sample_service 1000 77 [] [] sample_request (Some (''ada@example.com'', ''correct horse'')) sample_site
     = ((Success (PAuth um access refresh), cookies), s') \<and> access \<noteq> []"
proof -
  obtain a s' where l: "Login sample_service 1000 77 [] \<lparr>lr_Email = ''ada@example.com'', lr_Password = ''correct horse'', lr_IP = ''::1''\<rparr>
      sample_site = (Inr (LoggedIn a), s')" using sample_login by blast
  from Login_tokens [OF l] obtain u v where "NewAccessToken ref_uuid ref_jwt 1000 u ''secret'' (cfg_JWTAccessTTL sample_config)
      ''https://home'' v = Inr (re_AccessToken a)" by auto
  then have "re_AccessToken a \<noteq> []"
    by (auto simp: NewAccessToken_def ref_jwt_def ref_token_def enc_str_def enc_nat_def)
  moreover have "auth_Login sample_service 1000 77 [] [] sample_request (Some (''ada@example.com'', ''correct horse'')) sample_site
      = ((Success (PAuth (re_User a) (re_AccessToken a) (re_RefreshToken a)), SetAuthCookies sample_config [] (re_AccessToken a) (re_RefreshToken a)), s')"
    using l by (simp add: auth_Login_def with_body_def answer_def signed_in_def toAuthResponse_def sample_request_def)
  ultimately show ?thesis by blast
qed

theorem login_authenticates_witness:
  "\<exists>um access refresh cookies s' d'.
     auth_Login sample_service 1000 77 [] [] sample_request (Some (''ada@example.com'', ''correct horse'')) sample_site
       = ((Success (PAuth um access refresh), cookies), s')
     \<and> RequireAuth ref_uuid ref_jwt 2000 ''secret'' ''https://home'' sample_config
         (sample_request\<lparr>rq_header := (\<lambda>_. [])(''Authorization'' := ''Bearer '' @ access)\<rparr>) = (Inr d' :: AuthPayload reaction + auth_request)
     \<and> rq_userID d' = Some 1"
proof -
  obtain um access refresh cookies s' where l: "auth_Login sample_service 1000 77 [] [] sample_request
      (Some (''ada@example.com'', ''correct horse'')) sample_site = ((Success (PAuth um access refresh), cookies), s')" and a: "access \<noteq> []"
    using sample_auth_login by blast
  let ?d = "sample_request\<lparr>rq_header := (\<lambda>_. [])(''Authorization'' := ''Bearer '' @ access)\<rparr>"
  have s: "jwt_service (sv_jwt sample_service) (\<lambda>_. True)" "uuid_text (sv_uuid sample_service)"
    by (simp_all add: ref_jwt_service.jwt_service_axioms ref_text.uuid_text_axioms)
  have t: "2000 + 1000 \<le> 1000 + cfg_JWTAccessTTL (sv_cfg sample_service)" by (simp add: sample_config_def)
  have "\<exists>d'. RequireAuth ref_uuid ref_jwt 2000 ''secret'' ''https://home'' sample_config ?d = (Inr d' :: AuthPayload reaction + auth_request)
     \<and> rq_userID d' = Some 1"
    using login_authenticates [OF s l t a, of ?d] by (auto simp: sample_email)
  then show ?thesis using l by blast
qed

theorem auth_chain_sound_witness:
  "\<exists>tok c1 c2 c3 u. RequireAuth ref_uuid ref_jwt 2000 ''secret'' ''https://home'' sample_config
        (sample_request\<lparr>rq_header := (\<lambda>_. [])(''Authorization'' := ''Bearer '' @ tok)\<rparr>) = (Inr c1 :: AuthPayload reaction + auth_request)
     \<and> RequireCSRF sample_config c1 = (Inr c2 :: AuthPayload reaction + auth_request)
     \<and> RequireVerifiedEmail c2 = (Inr c3 :: AuthPayload reaction + auth_request)
     \<and> UserID (request.truncate c3) = (Inr u :: AuthPayload reaction + uuid)"
proof -
  obtain tok where t: "NewAccessToken ref_uuid ref_jwt 1000 1 ''secret'' 900000 ''https://home'' True = Inr tok"
    by (simp add: NewAccessToken_def ref_jwt_def)
  then have ne: "tok \<noteq> []" by (auto simp: NewAccessToken_def ref_jwt_def ref_token_def enc_str_def enc_nat_def)
  from ref_jwt_service.validate_new [OF t, of 2000] obtain cl where
    cl: "ValidateAccessToken ref_jwt 2000 tok ''secret'' ''https://home'' = Inr cl" "ac_Subject cl = uuid_String ref_uuid 1" "ac_EmailVerified cl"
    by auto
  define d where "d = sample_request\<lparr>rq_header := (\<lambda>_. [])(''Authorization'' := ''Bearer '' @ tok)\<rparr>"
  have cr: "credentials_of sample_config d = (Inr (tok, AuthSourceHeader) :: AuthPayload reaction + (string \<times> string))"
    unfolding credentials_of_ok using bearer_of [OF ne] by (simp add: d_def)
  obtain c1 where r: "RequireAuth ref_uuid ref_jwt 2000 ''secret'' ''https://home'' sample_config d = (Inr c1 :: AuthPayload reaction + auth_request)"
      "rq_authSource c1 = Some AuthSourceHeader" "rq_emailVerified c1 = Some True"
    using cr cl by (simp add: RequireAuth_def)
  have x: "RequireCSRF sample_config c1 = (Inr c1 :: AuthPayload reaction + auth_request)"
    using r(2) by (simp add: RequireCSRF_def AuthSourceHeader_def AuthSourceCookie_def)
  have v: "RequireVerifiedEmail c1 = (Inr c1 :: AuthPayload reaction + auth_request)" using r(3) by (simp add: RequireVerifiedEmail_def)
  from auth_chain_sound [OF ref_jwt_service.jwt_service_axioms r(1) x v] obtain u where
    "UserID (request.truncate c1) = (Inr u :: AuthPayload reaction + uuid)" by blast
  then show ?thesis using r(1) x v unfolding d_def by blast
qed

end
