(* ===== verification/Handlers.thy ===== *)
theory Handlers
  imports Calls Http
begin

text \<open>
  A vocabulary for request handlers with early returns: a step reads and changes the state and
  either answers the request or gives a value to the rest of the handler.
\<close>

type_synonym ('p, 'a, 's) step = "'s \<Rightarrow> ('p reaction + 'a) \<times> 's"

definition stop :: "'p reaction \<Rightarrow> ('p, 'a, 's) step" where
  "stop rx s = (Inl rx, s)"

definition give :: "'a \<Rightarrow> ('p, 'a, 's) step" where
  "give x s = (Inr x, s)"

definition andthen :: "('p, 'a, 's) step \<Rightarrow> ('a \<Rightarrow> ('p, 'b, 's) step) \<Rightarrow> ('p, 'b, 's) step" where
  "andthen m k s = (case m s of (Inl rx, s') \<Rightarrow> (Inl rx, s') | (Inr x, s') \<Rightarrow> k x s')"

text \<open>A check that does not touch the state: parsing of parameters, identity of the caller.\<close>

definition checkh :: "'p reaction + 'a \<Rightarrow> ('p, 'a, 's) step" where
  "checkh r s = (r, s)"

text \<open>A validation, or a call, whose error is answered as \<open>f\<close> says.\<close>

definition valid :: "(error \<Rightarrow> 'p reaction) \<Rightarrow> 'a result \<Rightarrow> ('p, 'a, 's) step" where
  "valid f r s = (case r of Inl e \<Rightarrow> (Inl (f e), s) | Inr x \<Rightarrow> (Inr x, s))"

definition orfail :: "(error \<Rightarrow> 'p reaction) \<Rightarrow> ('a, 's) call \<Rightarrow> ('p, 'a, 's) step" where
  "orfail f m s = (case m s of (Inl e, s') \<Rightarrow> (Inl (f e), s') | (Inr x, s') \<Rightarrow> (Inr x, s'))"

text \<open>A call whose error is handed to the handler.\<close>

definition attempt :: "('a, 's) call \<Rightarrow> ('p, 'a result, 's) step" where
  "attempt m s = (case m s of (x, s') \<Rightarrow> (Inr x, s'))"

definition effect :: "('s \<Rightarrow> 's) \<Rightarrow> ('p, unit, 's) step" where
  "effect f s = (Inr (), f s)"

definition bodyh :: "'b option \<Rightarrow> ('p, 'b, 's) step" where
  "bodyh body = checkh (case body of None \<Rightarrow> Inl (Fail 400 InvalidBody ''Invalid request body'') | Some b \<Rightarrow> Inr b)"

definition guardh :: "bool \<Rightarrow> 'p reaction \<Rightarrow> ('p, unit, 's) step" where
  "guardh b rx = (if b then give () else stop rx)"

definition answerh :: "('p, 'p reaction, 's) step \<Rightarrow> 's \<Rightarrow> 'p reaction \<times> 's" where
  "answerh m s = (case m s of (Inl rx, s') \<Rightarrow> (rx, s') | (Inr rx, s') \<Rightarrow> (rx, s'))"

section \<open>Results\<close>

lemma step_eqs [simp]:
  "stop rx s = (y, s') \<longleftrightarrow> y = Inl rx \<and> s' = s" "give x s = (z, s') \<longleftrightarrow> z = Inr x \<and> s' = s"
  "checkh r s = (v, s') \<longleftrightarrow> v = r \<and> s' = s" "effect f s = (w, s') \<longleftrightarrow> w = Inr () \<and> s' = f s"
  by (auto simp: stop_def give_def checkh_def effect_def)

lemma andthen_ok:
  assumes "andthen m k s = (Inr y, s')"
  obtains x s1 where "m s = (Inr x, s1)" "k x s1 = (Inr y, s')"
  using assms by (auto simp: andthen_def split: prod.splits sum.splits)

lemma andthen_cases:
  assumes "andthen m k s = (r, s')"
  obtains (stopped) rx where "m s = (Inl rx, s')" "r = Inl rx" | (gone_on) x s1 where "m s = (Inr x, s1)" "k x s1 = (r, s')"
  using assms by (auto simp: andthen_def split: prod.splits sum.splits)

lemma andthen_Inr [simp]: "m s = (Inr x, s1) \<Longrightarrow> andthen m k s = k x s1"
  by (simp add: andthen_def)

lemma andthen_Inl [simp]: "m s = (Inl rx, s1) \<Longrightarrow> andthen m k s = (Inl rx, s1)"
  by (simp add: andthen_def)

lemma orfail_ok [simp]: "orfail f m s = (Inr x, s') \<longleftrightarrow> m s = (Inr x, s')"
  by (auto simp: orfail_def split: prod.splits sum.splits)

lemma orfail_Inl: "orfail f m s = (Inl rx, s') \<longleftrightarrow> (\<exists>e. m s = (Inl e, s') \<and> rx = f e)"
  by (auto simp: orfail_def split: prod.splits sum.splits)

lemma attempt_eq [simp]: "attempt m s = (y, s') \<longleftrightarrow> (\<exists>x. m s = (x, s') \<and> y = Inr x)"
  by (auto simp: attempt_def split: prod.splits)

lemma valid_ok [simp]: "valid f r s = (Inr x, s') \<longleftrightarrow> r = Inr x \<and> s' = s"
  by (auto simp: valid_def split: sum.splits)

lemma bodyh_ok [simp]: "bodyh body s = (Inr b, s') \<longleftrightarrow> body = Some b \<and> s' = s"
  by (auto simp: bodyh_def split: option.splits)

lemma guardh_ok [simp]: "guardh b rx s = (Inr (), s') \<longleftrightarrow> b \<and> s' = s"
  by (simp add: guardh_def)

section \<open>Refusals\<close>

text \<open>The early answers of a step are all refusals, so that a success is the end of the handler.\<close>

definition refuses :: "('p, 'a, 's) step \<Rightarrow> bool" where
  "refuses m \<longleftrightarrow> (\<forall>s rx s'. m s = (Inl rx, s') \<longrightarrow> \<not> ok_reaction rx)"

named_theorems refusing

lemma refuses_basic [refusing]: "refuses (give x)" "refuses (effect f)" "refuses (attempt m)"
  by (auto simp: refuses_def)

lemma refuses_stop [refusing]: "\<not> ok_reaction rx \<Longrightarrow> refuses (stop rx)"
  by (auto simp: refuses_def)

lemma refuses_check [refusing]: "(\<And>rx. r = Inl rx \<Longrightarrow> \<not> ok_reaction rx) \<Longrightarrow> refuses (checkh r)"
  by (auto simp: refuses_def)

lemma refuses_valid [refusing]: "(\<And>e. \<not> ok_reaction (f e)) \<Longrightarrow> refuses (valid f r)"
  by (auto simp: refuses_def valid_def split: sum.splits)

lemma refuses_orfail [refusing]: "(\<And>e. \<not> ok_reaction (f e)) \<Longrightarrow> refuses (orfail f m)"
  by (auto simp: refuses_def orfail_Inl)

lemma refuses_body [refusing]: "refuses (bodyh b)"
  by (auto simp: refuses_def bodyh_def split: option.splits)

lemma refuses_guard [refusing]: "\<not> ok_reaction rx \<Longrightarrow> refuses (guardh b rx)"
  by (auto simp: refuses_def guardh_def)

lemma refuses_andthen [refusing]: "refuses m \<Longrightarrow> (\<And>x. refuses (k x)) \<Longrightarrow> refuses (andthen m k)"
  unfolding refuses_def by (auto simp: andthen_def split: prod.splits sum.splits)

lemma refuses_case [refusing]:
  "refuses m1 \<Longrightarrow> refuses m2 \<Longrightarrow> refuses (if b then m1 else m2)"
  "refuses m1 \<Longrightarrow> (\<And>x. refuses (g x)) \<Longrightarrow> refuses (case y of None \<Rightarrow> m1 | Some x \<Rightarrow> g x)"
  "(\<And>x. refuses (g1 x)) \<Longrightarrow> (\<And>x. refuses (g x)) \<Longrightarrow> refuses (case z of Inl x \<Rightarrow> g1 x | Inr x \<Rightarrow> g x)"
  "(\<And>x1 x2. refuses (g2 x1 x2)) \<Longrightarrow> refuses (case w of (x1, x2) \<Rightarrow> g2 x1 x2)"
  by (simp_all split: option.splits sum.splits prod.splits)

lemma answerh_ok:
  assumes "answerh m s = (rx, s')" and "ok_reaction rx" and "refuses m"
  shows "m s = (Inr rx, s')"
  using assms by (auto simp: answerh_def refuses_def split: prod.splits sum.splits)

lemma UserID_refuses: "UserID c = Inl rx \<Longrightarrow> \<not> ok_reaction rx"
  by (rule UserID_fail)

section \<open>Properties that are kept\<close>

definition keepsh :: "('s \<Rightarrow> bool) \<Rightarrow> ('p, 'a, 's) step \<Rightarrow> bool" where
  "keepsh I m \<longleftrightarrow> (\<forall>s. I s \<longrightarrow> I (snd (m s)))"

named_theorems keepingh

lemma keepshI: "(\<And>s x s'. m s = (x, s') \<Longrightarrow> I s \<Longrightarrow> I s') \<Longrightarrow> keepsh I m"
  unfolding keepsh_def by (metis prod.collapse)

lemma keepshD: "keepsh I m \<Longrightarrow> m s = (x, s') \<Longrightarrow> I s \<Longrightarrow> I s'"
  unfolding keepsh_def by (metis snd_conv)

lemma keepsh_basic [keepingh]: "keepsh I (give x)" "keepsh I (stop rx)" "keepsh I (checkh r)" "keepsh I (valid f v)" "keepsh I (bodyh b)"
    "keepsh I (guardh g rx)"
  by (auto simp: keepsh_def give_def stop_def checkh_def valid_def bodyh_def guardh_def split: sum.splits)

lemma keepsh_effect: "(\<And>s. I s \<Longrightarrow> I (f s)) \<Longrightarrow> keepsh I (effect f)"
  by (simp add: keepsh_def effect_def)

lemma keepsh_calls [keepingh]: "keeps I m \<Longrightarrow> keepsh I (orfail f m)" "keeps I m \<Longrightarrow> keepsh I (attempt m)"
  by (rule keepshI; auto simp: orfail_def split: prod.splits sum.splits dest: keepsD)+

lemma keepsh_andthen [keepingh]: "keepsh I m \<Longrightarrow> (\<And>x. keepsh I (k x)) \<Longrightarrow> keepsh I (andthen m k)"
  by (rule keepshI) (erule andthen_cases; blast dest: keepshD)

lemma keepsh_case [keepingh]:
  "keepsh I m1 \<Longrightarrow> keepsh I m2 \<Longrightarrow> keepsh I (if b then m1 else m2)"
  "keepsh I m1 \<Longrightarrow> (\<And>x. keepsh I (g x)) \<Longrightarrow> keepsh I (case y of None \<Rightarrow> m1 | Some x \<Rightarrow> g x)"
  "(\<And>x. keepsh I (g1 x)) \<Longrightarrow> (\<And>x. keepsh I (g x)) \<Longrightarrow> keepsh I (case z of Inl x \<Rightarrow> g1 x | Inr x \<Rightarrow> g x)"
  "(\<And>x1 x2. keepsh I (g2 x1 x2)) \<Longrightarrow> keepsh I (case w of (x1, x2) \<Rightarrow> g2 x1 x2)"
  by (simp_all split: option.splits sum.splits prod.splits)

lemma keepsh_answer: "keepsh I m \<Longrightarrow> answerh m s = (rx, s') \<Longrightarrow> I s \<Longrightarrow> I s'"
  by (auto simp: answerh_def split: prod.splits sum.splits dest: keepshD)

end
