(* ===== verification/Invite.thy ===== *)
theory Invite
  imports Queries Keyset Role
begin

text \<open>
  \<open>internal/invite\<close>: validation and the repository over the \<open>invites\<close> table. The clock of the
  process and \<open>NOW()\<close> of the database are separate arguments; random numbers are arguments too.
\<close>

section \<open>Validation\<close>

definition invite_ErrNotFound :: error where "invite_ErrNotFound = Sentinel ''invite.ErrNotFound''"
definition invite_ErrExpired :: error where "invite_ErrExpired = Sentinel ''invite.ErrExpired''"
definition ErrMaxUsesReached :: error where "ErrMaxUsesReached = Sentinel ''invite.ErrMaxUsesReached''"
definition invite_ErrChannelNotFound :: error where "invite_ErrChannelNotFound = Sentinel ''invite.ErrChannelNotFound''"
definition ErrCodeLength :: error where "ErrCodeLength = Sentinel ''invite.ErrCodeLength''"
definition ErrInvalidMaxUses :: error where "ErrInvalidMaxUses = Sentinel ''invite.ErrInvalidMaxUses''"
definition ErrInvalidMaxAge :: error where "ErrInvalidMaxAge = Sentinel ''invite.ErrInvalidMaxAge''"

lemmas invite_errors = invite_ErrNotFound_def invite_ErrExpired_def ErrMaxUsesReached_def invite_ErrChannelNotFound_def
  ErrCodeLength_def ErrInvalidMaxUses_def ErrInvalidMaxAge_def

record invite_CreateParams =
  ip_ChannelID :: uuid
  ip_MaxUses :: "int option"
  ip_MaxAgeSeconds :: "int option"

definition ValidateMaxUses :: "int option \<Rightarrow> unit result" where
  "ValidateMaxUses v = (case v of None \<Rightarrow> Inr () | Some n \<Rightarrow> if n < 0 then Inl ErrInvalidMaxUses else Inr ())"

definition ValidateMaxAge :: "int option \<Rightarrow> unit result" where
  "ValidateMaxAge v = (case v of None \<Rightarrow> Inr () | Some n \<Rightarrow> if n < 0 then Inl ErrInvalidMaxAge else Inr ())"

text \<open>\<open>Invite.Validate\<close> at the time \<open>now\<close>.\<close>

definition invite_Validate :: "time \<Rightarrow> invite_row \<Rightarrow> unit result" where
  "invite_Validate now v =
     (if \<exists>t. iv_expires_at v = Some t \<and> \<not> t > now then Inl invite_ErrExpired
      else if \<exists>m. iv_max_uses v = Some m \<and> iv_use_count v \<ge> m then Inl ErrMaxUsesReached
      else Inr ())"

definition invite_ClampLimit :: "int \<Rightarrow> int" where
  "invite_ClampLimit limit = (if limit \<le> 0 then 50 else if limit > 100 then 100 else limit)"

section \<open>Repository\<close>

definition codeLength :: nat where "codeLength = 8"
definition maxCodeRetries :: nat where "maxCodeRetries = 3"

definition codeAlphabet :: string where
  "codeAlphabet = ''ABCDEFGHIJKLMNOPQRSTUVWXYZabcdefghijklmnopqrstuvwxyz0123456789''"

text \<open>\<open>rand.Int\<close> gives numbers below the length of the alphabet, or an error (\<open>None\<close>).\<close>

definition generateCode :: "nat list option \<Rightarrow> string result" where
  "generateCode draws =
     (case draws of
        None \<Rightarrow> Inl (Wrap ''crypto/rand'' (Ext ''rand''))
      | Some ns \<Rightarrow> Inr (map (\<lambda>n. codeAlphabet ! n) (take codeLength ns)))"

definition scanInvite :: "(invite_row option, db) call \<Rightarrow> (invite_row, db) call" where
  "scanInvite = scan_one ''scan invite''"

definition find_invite :: "string \<Rightarrow> db \<Rightarrow> invite_row option" where
  "find_invite code d = find (\<lambda>v. iv_code v = code) (t_invites d)"

definition insert_invite :: "uuid \<Rightarrow> time \<Rightarrow> uuid \<Rightarrow> invite_CreateParams \<Rightarrow> time option \<Rightarrow> string \<Rightarrow> (invite_row option, db) call" where
  "insert_invite newID now creator p expiresAt code d =
     (let row = \<lparr>iv_id = newID, iv_code = code, iv_channel_id = ip_ChannelID p, iv_creator_id = creator, iv_max_uses = ip_MaxUses p,
                 iv_use_count = 0, iv_max_age_seconds = ip_MaxAgeSeconds p, iv_expires_at = expiresAt, iv_created_at = now\<rparr>
      in if \<not> fits_int4 (ip_MaxUses p) \<or> \<not> fits_int4 (ip_MaxAgeSeconds p) then (Inl (Ext ''cannot encode into int4''), d)
         else if newID \<in> set (map iv_id (t_invites d)) \<or> code \<in> set (map iv_code (t_invites d)) then (Inl unique_violation, d)
         else if ip_ChannelID p \<notin> set (map ch_id (t_channels d)) \<or> creator \<notin> set (map u_id (t_users d))
         then (Inl foreign_key_violation, d)
         else (Inr (Some row), d\<lparr>t_invites := t_invites d @ [row]\<rparr>))"

text \<open>
  The loop over the attempts; each takes a fresh row identifier and fresh random numbers. The
  lifetime is added to the process clock; a lifetime that would overflow \<open>time.Duration\<close> does not
  fit the column either.
\<close>

fun create_attempts :: "time \<Rightarrow> uuid \<Rightarrow> invite_CreateParams \<Rightarrow> time option \<Rightarrow> (uuid \<times> nat list option) list \<Rightarrow> (invite_row, db) call" where
  "create_attempts dbnow creator p expiresAt [] = fail ErrCodeLength"
| "create_attempts dbnow creator p expiresAt ((newID, ns) # rest) =
     (case generateCode ns of
        Inl e \<Rightarrow> fail (Wrap ''generate invite code'' e)
      | Inr code \<Rightarrow>
          catchc (scanInvite (pg_stmt (insert_invite newID dbnow creator p expiresAt code)))
            (\<lambda>e. if IsForeignKeyViolation e then fail invite_ErrChannelNotFound
                 else if IsUniqueViolation e \<and> rest \<noteq> [] then create_attempts dbnow creator p expiresAt rest
                 else if IsUniqueViolation e then fail ErrCodeLength
                 else fail (Wrap ''insert invite'' e))
            ret)"

definition expiry_of :: "time \<Rightarrow> invite_CreateParams \<Rightarrow> time option" where
  "expiry_of now p = (case ip_MaxAgeSeconds p of Some n \<Rightarrow> if n > 0 then Some (now + n * 1000) else None | None \<Rightarrow> None)"

definition invite_Create ::
  "time \<Rightarrow> time \<Rightarrow> (uuid \<times> nat list option) list \<Rightarrow> uuid \<Rightarrow> invite_CreateParams \<Rightarrow> (invite_row, db) call" where
  "invite_Create now dbnow draws creator p =
     create_attempts dbnow creator p (expiry_of now p) (take maxCodeRetries draws)"

definition GetByCode :: "string \<Rightarrow> (invite_row, db) call" where
  "GetByCode code = or_missing invite_ErrNotFound ''query invite by code'' (scanInvite (pg_query (find_invite code)))"

text \<open>
  \<open>ORDER BY created_at DESC, id\<close>, and after a cursor the rows with
  \<open>(created_at, id) < (SELECT created_at, id ...)\<close>.
\<close>

definition invite_order :: "invite_row \<Rightarrow> time \<times> int" where
  "invite_order v = (- iv_created_at v, uint (iv_id v))"

definition invite_tuple :: "invite_row \<Rightarrow> time \<times> int" where
  "invite_tuple v = (iv_created_at v, uint (iv_id v))"

definition after_invite :: "uuid option \<Rightarrow> db \<Rightarrow> invite_row \<Rightarrow> bool" where
  "after_invite after d v =
     (case after of
        None \<Rightarrow> True
      | Some a \<Rightarrow>
          (case find (\<lambda>x. iv_id x = a) (t_invites d) of
             None \<Rightarrow> False
           | Some x \<Rightarrow> key_less (invite_tuple v) (invite_tuple x)))"

definition invite_rows :: "uuid option \<Rightarrow> int \<Rightarrow> db \<Rightarrow> invite_row list" where
  "invite_rows after limit d = take (nat limit) (sort_by invite_order (filter (after_invite after d) (t_invites d)))"

definition invite_List :: "uuid option \<Rightarrow> int \<Rightarrow> (invite_row list, db) call" where
  "invite_List after limit = rows_of ''query invites'' (invite_rows after limit)"

definition delete_invite :: "string \<Rightarrow> (nat, db) call" where
  "delete_invite code d =
     (Inr (length (filter (\<lambda>v. iv_code v = code) (t_invites d))), d\<lparr>t_invites := filter (\<lambda>v. iv_code v \<noteq> code) (t_invites d)\<rparr>)"

definition invite_Delete :: "string \<Rightarrow> (unit, db) call" where
  "invite_Delete code = affecting invite_ErrNotFound ''delete invite'' (delete_invite code)"

text \<open>The \<open>WHERE\<close> of the atomic update; \<open>use_count\<close> is a 32-bit column.\<close>

definition usable :: "time \<Rightarrow> invite_row \<Rightarrow> bool" where
  "usable now v \<longleftrightarrow> (\<forall>t. iv_expires_at v = Some t \<longrightarrow> t > now) \<and> (\<forall>m. iv_max_uses v = Some m \<longrightarrow> iv_use_count v < m)"

lemma usable_code [code]:
  "usable now v = ((case iv_expires_at v of None \<Rightarrow> True | Some t \<Rightarrow> t > now) \<and> (case iv_max_uses v of None \<Rightarrow> True | Some m \<Rightarrow> iv_use_count v < m))"
  by (simp add: usable_def split: option.splits)

definition used_once :: "invite_row \<Rightarrow> invite_row" where
  "used_once v = v\<lparr>iv_use_count := iv_use_count v + 1\<rparr>"

definition use_invite :: "time \<Rightarrow> string \<Rightarrow> (invite_row option, db) call" where
  "use_invite dbnow code d =
     (case find (\<lambda>v. iv_code v = code \<and> usable dbnow v) (t_invites d) of
        None \<Rightarrow> (Inr None, d)
      | Some v \<Rightarrow>
          (if iv_use_count v + 1 > max_int4 then (Inl numeric_out_of_range, d)
           else (Inr (Some (used_once v)),
                 d\<lparr>t_invites := updated_rows (\<lambda>x. iv_code x = code \<and> usable dbnow x) used_once (t_invites d)\<rparr>)))"

definition diagnoseUseFailure :: "time \<Rightarrow> string \<Rightarrow> (invite_row, db) call" where
  "diagnoseUseFailure now code =
     catchc (pg_query (find_invite code)) (\<lambda>e. fail (Wrap ''diagnose invite use failure'' e))
       (\<lambda>r. case r of
              None \<Rightarrow> fail invite_ErrNotFound
            | Some v \<Rightarrow> (case invite_Validate now v of Inl e \<Rightarrow> fail e | Inr _ \<Rightarrow> fail invite_ErrNotFound))"

definition Use :: "time \<Rightarrow> time \<Rightarrow> string \<Rightarrow> (invite_row, db) call" where
  "Use now dbnow code =
     catchc (scanInvite (pg_stmt (use_invite dbnow code)))
       (\<lambda>e. if errors_Is e pgx_ErrNoRows then diagnoseUseFailure now code else fail (Wrap ''use invite'' e)) ret"

end
