(* ===== verification/Joining.thy ===== *)
theory Joining
  imports Handlers Invite Onboarding Member_Http Users Server_Config
begin

text \<open>
  \<open>internal/api/invite.go\<close> and \<open>internal/api/onboarding.go\<close>: how a user becomes a member. A request joins
  through an invite or the open door and leaves a pending member, which the acceptance of the
  documents activates. \<open>now\<close> is the clock of the process and \<open>dbnow\<close> that of the database.
\<close>

section \<open>Invites\<close>

definition toInviteModel :: "uuid_lib \<Rightarrow> (time \<Rightarrow> string) \<Rightarrow> invite_row \<Rightarrow> InviteModel" where
  "toInviteModel U Z v =
     \<lparr>vm_ID = uuid_String U (iv_id v), vm_Code = iv_code v, vm_ChannelID = uuid_String U (iv_channel_id v),
      vm_CreatorID = uuid_String U (iv_creator_id v), vm_MaxUses = iv_max_uses v, vm_UseCount = iv_use_count v,
      vm_MaxAgeSeconds = iv_max_age_seconds v, vm_ExpiresAt = map_option Z (iv_expires_at v), vm_CreatedAt = Z (iv_created_at v)\<rparr>"

definition mapInviteError :: "error \<Rightarrow> 'p reaction" where
  "mapInviteError e =
     (if errors_Is e invite_ErrNotFound then Fail 404 (Coded ''UnknownInvite'') ''Invite not found''
      else if errors_Is e invite_ErrExpired then Fail 400 ValidationError ''Invite has expired''
      else if errors_Is e ErrMaxUsesReached then Fail 400 ValidationError ''Invite has reached its maximum number of uses''
      else if errors_Is e invite_ErrChannelNotFound then Fail 404 (Coded ''UnknownChannel'') ''Channel not found''
      else if errors_Is e ErrInvalidMaxUses then Fail 400 ValidationError ''max uses must be non-negative''
      else if errors_Is e ErrInvalidMaxAge then Fail 400 ValidationError ''max age seconds must be non-negative''
      else if errors_Is e ErrAlreadyMember then Fail 409 AlreadyMember ''You are already a member of this server''
      else internal_error)"

record CreateInviteRequest =
  ci_ChannelID :: string
  ci_MaxUses :: "int option"
  ci_MaxAgeSeconds :: "int option"

text \<open>\<open>uuid.Parse\<close> of a field of the body, with the answer to a malformed one.\<close>

definition parse_id :: "uuid_lib \<Rightarrow> Code \<Rightarrow> string \<Rightarrow> string \<Rightarrow> 'p reaction + uuid" where
  "parse_id U code msg s = (case uuid_Parse U s of None \<Rightarrow> Inl (Fail 400 code msg) | Some i \<Rightarrow> Inr i)"

definition CreateInvite ::
  "uuid_lib \<Rightarrow> proto \<Rightarrow> (time \<Rightarrow> string) \<Rightarrow> handler \<Rightarrow> time \<Rightarrow> time \<Rightarrow> (uuid \<times> nat list option) list \<Rightarrow> request
     \<Rightarrow> CreateInviteRequest option \<Rightarrow> 'r world \<Rightarrow> InviteModel reaction \<times> 'r world" where
  "CreateInvite U M Z h now dbnow draws c body = answerh
     (andthen (checkh (UserID c)) (\<lambda>userID.
      andthen (bodyh body) (\<lambda>b.
      andthen (checkh (parse_id U InvalidChannelID ''Invalid channel ID format'' (ci_ChannelID b))) (\<lambda>channelID.
      andthen (valid mapInviteError (ValidateMaxUses (ci_MaxUses b))) (\<lambda>_.
      andthen (valid mapInviteError (ValidateMaxAge (ci_MaxAgeSeconds b))) (\<lambda>_.
      andthen (orfail mapInviteError (on_db (invite_Create now dbnow draws userID
                 \<lparr>ip_ChannelID = channelID, ip_MaxUses = ci_MaxUses b, ip_MaxAgeSeconds = ci_MaxAgeSeconds b\<rparr>))) (\<lambda>v.
      andthen (effect (go_Record h (audit_entry userID ''invite.create'' ''invite'' (iv_id v)))) (\<lambda>_.
      andthen (effect (Enqueue h (ev M EvInviteCreate) (js_Invite M (toInviteModel U Z v)))) (\<lambda>_.
      give (SuccessStatus 201 (toInviteModel U Z v)))))))))))"

definition ListInvites ::
  "uuid_lib \<Rightarrow> (time \<Rightarrow> string) \<Rightarrow> request \<Rightarrow> 'r world \<Rightarrow> InviteModel list reaction \<times> 'r world" where
  "ListInvites U Z c = answerh
     (andthen (checkh (after_query U c)) (\<lambda>after.
      andthen (checkh (ParseIntQuery c ''limit'')) (\<lambda>rawLimit.
      andthen (orfail (\<lambda>_. internal_error) (on_db (invite_List after (invite_ClampLimit rawLimit)))) (\<lambda>vs.
      give (Success (map (toInviteModel U Z) vs))))))"

text \<open>The audit entry has no target identifier; it carries the code.\<close>

definition invite_delete_entry :: "uuid \<Rightarrow> string \<Rightarrow> Entry" where
  "invite_delete_entry userID code =
     (audit_entry userID ''invite.delete'' ''invite'' uuid_Nil)
       \<lparr>en_TargetID := None, en_Changes := Some (JObj [(''code'', JStr code)])\<rparr>"

definition DeleteInvite :: "proto \<Rightarrow> handler \<Rightarrow> request \<Rightarrow> 'r world \<Rightarrow> unit reaction \<times> 'r world" where
  "DeleteInvite M h c = answerh
     (andthen (checkh (UserID c)) (\<lambda>userID.
      (let code = rq_params c ''code''
       in andthen (orfail mapInviteError (on_db (invite_Delete code))) (\<lambda>_.
          andthen (effect (go_Record h (invite_delete_entry userID code))) (\<lambda>_.
          andthen (effect (Enqueue h (ev M EvInviteDelete) (js_InviteDelete M code))) (\<lambda>_.
          give (SendStatus 204)))))))"

text \<open>
  \<open>time.Since(u.CreatedAt) < time.Duration(n) * time.Second\<close>, in milliseconds; \<open>n\<close> is a 32-bit column,
  so the product does not overflow.
\<close>

definition too_new :: "time \<Rightarrow> onboarding_row \<Rightarrow> User \<Rightarrow> bool" where
  "too_new now cfg u \<longleftrightarrow> now - us_CreatedAt u < ob_min_account_age_seconds cfg * 1000"

definition too_new_reaction :: "'p reaction" where
  "too_new_reaction = Fail 400 ValidationError ''Your account is too new to join this server''"

definition banned_reaction :: "'p reaction" where
  "banned_reaction = Fail 403 (Coded ''Banned'') ''You are banned from this server''"

text \<open>The last part of both ways to join: a pending member, or the existing one.\<close>

definition join_member ::
  "uuid_lib \<Rightarrow> (time \<Rightarrow> string) \<Rightarrow> (error \<Rightarrow> MemberModel reaction) \<Rightarrow> time \<Rightarrow> uuid \<Rightarrow> (MemberModel, MemberModel reaction, 'r world) step" where
  "join_member U Z mapError dbnow userID =
     andthen (attempt (on_db (CreatePending dbnow userID))) (\<lambda>r.
       case r of
         Inr m \<Rightarrow> give (Success (member_ToModel U Z m))
       | Inl e \<Rightarrow>
           (if \<not> errors_Is e ErrAlreadyMember then stop (mapError e)
            else andthen (orfail (\<lambda>_. internal_error) (on_db (GetByUserIDAnyStatus userID))) (\<lambda>existing.
                 give (Success (member_ToModel U Z existing)))))"

definition JoinViaInvite ::
  "uuid_lib \<Rightarrow> (time \<Rightarrow> string) \<Rightarrow> time \<Rightarrow> time \<Rightarrow> request \<Rightarrow> 'r world \<Rightarrow> MemberModel reaction \<times> 'r world" where
  "JoinViaInvite U Z now dbnow c = answerh
     (andthen (checkh (UserID c)) (\<lambda>userID.
      andthen (orfail (\<lambda>_. internal_error) (on_db (IsBanned userID))) (\<lambda>banned.
      andthen (guardh (\<not> banned) banned_reaction) (\<lambda>_.
      (let code = rq_params c ''code''
       in andthen (orfail mapInviteError (on_db (GetByCode code))) (\<lambda>v.
          andthen (valid mapInviteError (invite_Validate now v)) (\<lambda>_.
          andthen (orfail (\<lambda>_. internal_error) (on_db (user_GetByID userID))) (\<lambda>u.
          andthen (guardh (us_EmailVerified u) (Fail 403 (Coded ''EmailNotVerified'') ''Email verification is required'')) (\<lambda>_.
          andthen (orfail (\<lambda>_. internal_error) (on_db onboarding_Get)) (\<lambda>cfg.
          andthen (guardh (\<not> (ob_min_account_age_seconds cfg > 0 \<and> too_new now cfg u)) too_new_reaction) (\<lambda>_.
          andthen (orfail mapInviteError (on_db (Use now dbnow code))) (\<lambda>_.
          join_member U Z mapInviteError dbnow userID))))))))))))"

section \<open>Onboarding\<close>

definition mapOnboardingError :: "error \<Rightarrow> 'p reaction" where
  "mapOnboardingError e =
     (if errors_Is e onboarding_ErrNotFound then Fail 404 (Coded ''NotFound'') ''Onboarding configuration not found''
      else if errors_Is e ErrOpenJoinDisabled then Fail 403 (Coded ''OpenJoinDisabled'') ''Open server joining is not enabled''
      else if errors_Is e ErrDocumentsIncomplete then Fail 400 ValidationError ''You must accept all required documents''
      else if errors_Is e ErrAlreadyMember then Fail 409 AlreadyMember ''You are already a member of this server''
      else if errors_Is e ErrNotPending then Fail 400 ValidationError ''Not in pending status''
      else internal_error)"

definition GetOnboarding :: "uuid_lib \<Rightarrow> DocumentStore \<Rightarrow> 'r world \<Rightarrow> OnboardingConfigModel reaction \<times> 'r world" where
  "GetOnboarding U docs = answerh
     (andthen (orfail (\<lambda>_. internal_error) (on_db onboarding_Get)) (\<lambda>cfg.
      give (Success (onboarding_ToModel U cfg (documents_ToModels docs)))))"

record UpdateOnboardingConfigRequest =
  uo_WelcomeChannelID :: "string option"
  uo_RequireEmailVerification :: "bool option"
  uo_OpenJoin :: "bool option"
  uo_MinAccountAgeSeconds :: "int option"
  uo_AutoRoles :: "string list option"

text \<open>A pointer to an identifier in a body: absent, empty to clear the reference, or the identifier.\<close>

definition ref_change :: "uuid_lib \<Rightarrow> string \<Rightarrow> string option \<Rightarrow> 'p reaction + (bool \<times> uuid option)" where
  "ref_change U msg s =
     (case s of
        None \<Rightarrow> Inr (False, None)
      | Some t \<Rightarrow>
          (if t = [] then Inr (True, None)
           else case uuid_Parse U t of None \<Rightarrow> Inl (Fail 400 ValidationError msg) | Some i \<Rightarrow> Inr (False, Some i)))"

fun parse_ids :: "uuid_lib \<Rightarrow> string \<Rightarrow> string list \<Rightarrow> 'p reaction + uuid list" where
  "parse_ids U msg [] = Inr []"
| "parse_ids U msg (s # ss) =
     (case uuid_Parse U s of
        None \<Rightarrow> Inl (Fail 400 ValidationError msg)
      | Some i \<Rightarrow> (case parse_ids U msg ss of Inl rx \<Rightarrow> Inl rx | Inr is \<Rightarrow> Inr (i # is)))"

definition UpdateOnboarding ::
  "uuid_lib \<Rightarrow> DocumentStore \<Rightarrow> handler \<Rightarrow> time \<Rightarrow> request \<Rightarrow> UpdateOnboardingConfigRequest option
     \<Rightarrow> 'r world \<Rightarrow> OnboardingConfigModel reaction \<times> 'r world" where
  "UpdateOnboarding U docs h dbnow c body = answerh
     (andthen (checkh (UserID c)) (\<lambda>userID.
      andthen (orfail (\<lambda>_. internal_error) (on_db server_Get)) (\<lambda>srv.
      andthen (guardh (c_owner_id srv = userID) (Fail 403 (Coded ''OwnerOnly'') ''Only the server owner can update onboarding settings'')) (\<lambda>_.
      andthen (bodyh body) (\<lambda>b.
      andthen (checkh (ref_change U ''Invalid welcome channel ID format'' (uo_WelcomeChannelID b))) (\<lambda>(clear, welcome).
      andthen (checkh (case uo_AutoRoles b of None \<Rightarrow> Inr [] | Some rs \<Rightarrow> parse_ids U ''Invalid auto role ID format'' rs)) (\<lambda>roles.
      andthen (orfail mapOnboardingError (on_db (onboarding_Update dbnow
                 \<lparr>ou_WelcomeChannelID = welcome, ou_SetWelcomeChannelNull = clear,
                  ou_RequireEmailVerification = uo_RequireEmailVerification b, ou_OpenJoin = uo_OpenJoin b,
                  ou_MinAccountAgeSeconds = uo_MinAccountAgeSeconds b, ou_AutoRoles = roles,
                  ou_SetAutoRoles = (uo_AutoRoles b \<noteq> None)\<rparr>))) (\<lambda>cfg.
      andthen (effect (go_Record h ((audit_entry userID ''onboarding.update'' ''onboarding'' uuid_Nil)\<lparr>en_TargetID := None\<rparr>))) (\<lambda>_.
      give (Success (onboarding_ToModel U cfg (documents_ToModels docs))))))))))))"

text \<open>Activation and the event for it, shared by the two endpoints that activate a member.\<close>

definition announce_member :: "uuid_lib \<Rightarrow> proto \<Rightarrow> (time \<Rightarrow> string) \<Rightarrow> handler \<Rightarrow> WithProfile \<Rightarrow> 'r world \<Rightarrow> 'r world" where
  "announce_member U M Z h m = Enqueue h (ev M EvMemberAdd) (js_Member M (member_ToModel U Z m))"

text \<open>The email check when the configuration asks for it; \<open>unverified\<close> is the answer to a user whose address is not.\<close>

definition email_check :: "onboarding_row \<Rightarrow> uuid \<Rightarrow> 'p reaction \<Rightarrow> ('p, unit, 'r world) step" where
  "email_check cfg userID unverified =
     (if ob_require_email_verification cfg
      then andthen (orfail (\<lambda>_. internal_error) (on_db (user_GetByID userID))) (\<lambda>u.
           guardh (us_EmailVerified u) unverified)
      else give ())"

definition AcceptOnboarding ::
  "uuid_lib \<Rightarrow> proto \<Rightarrow> (time \<Rightarrow> string) \<Rightarrow> DocumentStore \<Rightarrow> handler \<Rightarrow> time \<Rightarrow> request \<Rightarrow> string list option
     \<Rightarrow> 'r world \<Rightarrow> MemberModel reaction \<times> 'r world" where
  "AcceptOnboarding U M Z docs h dbnow c body = answerh
     (andthen (checkh (UserID c)) (\<lambda>userID.
      andthen (bodyh body) (\<lambda>slugs.
      andthen (orfail (\<lambda>_. internal_error) (on_db onboarding_Get)) (\<lambda>cfg.
      andthen (email_check cfg userID (Fail 400 (Coded ''EmailNotVerified'') ''You must verify your email address before joining'')) (\<lambda>_.
      andthen (guardh (\<not> ob_require_phone cfg) (Fail 400 ValidationError ''Phone verification is not yet supported'')) (\<lambda>_.
      andthen (guardh (\<not> ob_require_captcha cfg) (Fail 400 ValidationError ''Captcha verification is not yet supported'')) (\<lambda>_.
      andthen (guardh (set (ds_requiredSlugs docs) \<subseteq> set slugs)
                 (Fail 400 ValidationError ''You must accept all required documents to continue'')) (\<lambda>_.
      andthen (orfail (\<lambda>_. internal_error) (on_db (RecordAcceptances dbnow userID slugs))) (\<lambda>_.
      andthen (orfail mapOnboardingError (on_db (Activate dbnow userID (ob_auto_roles cfg)))) (\<lambda>m.
      andthen (effect (announce_member U M Z h m)) (\<lambda>_.
      give (Success (member_ToModel U Z m)))))))))))))"

definition GetAcceptance ::
  "(time \<Rightarrow> string) \<Rightarrow> request \<Rightarrow> 'r world \<Rightarrow> DocumentAcceptanceModel list reaction \<times> 'r world" where
  "GetAcceptance Z c = answerh
     (andthen (checkh (UserID c)) (\<lambda>userID.
      andthen (orfail (\<lambda>_. internal_error) (on_db (GetAcceptances userID))) (\<lambda>as.
      give (Success (map (\<lambda>a. \<lparr>dm_Slug = ac_Slug a, dm_AcceptedAt = Z (ac_AcceptedAt a)\<rparr>) as)))))"

definition JoinServer ::
  "uuid_lib \<Rightarrow> (time \<Rightarrow> string) \<Rightarrow> time \<Rightarrow> time \<Rightarrow> request \<Rightarrow> 'r world \<Rightarrow> MemberModel reaction \<times> 'r world" where
  "JoinServer U Z now dbnow c = answerh
     (andthen (checkh (UserID c)) (\<lambda>userID.
      andthen (orfail (\<lambda>_. internal_error) (on_db onboarding_Get)) (\<lambda>cfg.
      andthen (guardh (ob_open_join cfg) (Fail 403 (Coded ''OpenJoinDisabled'') ''Open server joining is not enabled'')) (\<lambda>_.
      andthen (orfail (\<lambda>_. internal_error) (on_db (IsBanned userID))) (\<lambda>banned.
      andthen (guardh (\<not> banned) banned_reaction) (\<lambda>_.
      andthen (if ob_min_account_age_seconds cfg > 0
               then andthen (orfail (\<lambda>_. internal_error) (on_db (user_GetByID userID))) (\<lambda>u. guardh (\<not> too_new now cfg u) too_new_reaction)
               else give ()) (\<lambda>_.
      join_member U Z mapOnboardingError dbnow userID)))))))"

definition GetOnboardingStatus ::
  "uuid_lib \<Rightarrow> proto \<Rightarrow> (time \<Rightarrow> string) \<Rightarrow> DocumentStore \<Rightarrow> handler \<Rightarrow> time \<Rightarrow> request
     \<Rightarrow> 'r world \<Rightarrow> OnboardingStep reaction \<times> 'r world" where
  "GetOnboardingStatus U M Z docs h dbnow c = answerh
     (andthen (checkh (UserID c)) (\<lambda>userID.
      andthen (orfail (\<lambda>_. internal_error) (on_db onboarding_Get)) (\<lambda>cfg.
      andthen (email_check cfg userID (Success OnboardingStepVerifyEmail)) (\<lambda>_.
      andthen (attempt (on_db (GetStatus userID))) (\<lambda>status.
      case status of
        Inl e \<Rightarrow> (if \<not> errors_Is e member_ErrNotFound then stop internal_error else give (Success OnboardingStepJoinServer))
      | Inr st \<Rightarrow>
          (if st \<noteq> Pending then give (Success OnboardingStepComplete)
           else if ds_requiredSlugs docs = []
           then andthen (attempt (on_db (Activate dbnow userID (ob_auto_roles cfg)))) (\<lambda>r.
                  case r of
                    Inl e \<Rightarrow> (if errors_Is e ErrNotPending then give (Success OnboardingStepComplete) else stop (mapOnboardingError e))
                  | Inr m \<Rightarrow> andthen (effect (announce_member U M Z h m)) (\<lambda>_. give (Success OnboardingStepComplete)))
           else give (Success OnboardingStepAcceptDocuments)))))))"

end
