(* ===== verification/Channels.thy ===== *)
theory Channels
  imports Queries Role
begin

text \<open>
  \<open>internal/category\<close> and \<open>internal/channel\<close>: validation and the repositories over the \<open>categories\<close> and
  \<open>channels\<close> tables. A row is the Go struct. Deleting a category clears the reference of its
  channels, deleting a channel takes its threads, attachments, read states and invites with it;
  triggers remove the permission overrides of both.
\<close>

section \<open>Categories\<close>

definition category_ErrNotFound :: error where "category_ErrNotFound = Sentinel ''category.ErrNotFound''"
definition category_ErrAlreadyExists :: error where "category_ErrAlreadyExists = Sentinel ''category.ErrAlreadyExists''"
definition category_ErrMaxCategoriesReached :: error where "category_ErrMaxCategoriesReached = Sentinel ''category.ErrMaxCategoriesReached''"
definition category_ErrNameLength :: error where "category_ErrNameLength = Sentinel ''category.ErrNameLength''"
definition category_ErrInvalidPosition :: error where "category_ErrInvalidPosition = Sentinel ''category.ErrInvalidPosition''"

record category_UpdateParams =
  cu_Name :: "string option"
  cu_Position :: "int option"

definition category_ValidateNameRequired :: "string \<Rightarrow> string result" where
  "category_ValidateNameRequired name =
     (let trimmed = TrimSpace name
      in if RuneCount trimmed < 1 \<or> RuneCount trimmed > 100 then Inl category_ErrNameLength else Inr trimmed)"

definition category_ValidateName :: "string option \<Rightarrow> string option result" where
  "category_ValidateName name =
     (case name of
        None \<Rightarrow> Inr None
      | Some s \<Rightarrow>
          (let trimmed = TrimSpace s
           in if RuneCount trimmed < 1 \<or> RuneCount trimmed > 100 then Inl category_ErrNameLength else Inr (Some trimmed)))"

definition category_ValidatePosition :: "int option \<Rightarrow> unit result" where
  "category_ValidatePosition pos =
     (case pos of None \<Rightarrow> Inr () | Some p \<Rightarrow> if p < 0 then Inl category_ErrInvalidPosition else Inr ())"

text \<open>\<open>COALESCE((SELECT MAX(position) FROM ...), -1) + 1\<close>\<close>

definition position_after :: "int list \<Rightarrow> int" where
  "position_after ps = (if ps = [] then -1 else Max (set ps)) + 1"

definition scanCategory :: "(category_row option, db) call \<Rightarrow> (category_row, db) call" where
  "scanCategory = scan_one ''scan category''"

definition find_category :: "uuid \<Rightarrow> db \<Rightarrow> category_row option" where
  "find_category i d = find (\<lambda>c. ca_id c = i) (t_categories d)"

definition category_List :: "(category_row list, db) call" where
  "category_List = rows_of ''query categories'' (\<lambda>d. sort_key ca_position (t_categories d))"

definition category_GetByID :: "uuid \<Rightarrow> (category_row, db) call" where
  "category_GetByID i = or_missing category_ErrNotFound ''query category by id'' (scanCategory (pg_query (find_category i)))"

definition insert_category :: "uuid \<Rightarrow> time \<Rightarrow> string \<Rightarrow> (category_row option, db) call" where
  "insert_category newID now name d =
     (let pos = position_after (map ca_position (t_categories d));
          row = \<lparr>ca_id = newID, ca_name = name, ca_position = pos, ca_created_at = now, ca_updated_at = now\<rparr>
      in if pos > max_int4 then (Inl numeric_out_of_range, d)
         else if newID \<in> set (map ca_id (t_categories d)) then (Inl unique_violation, d)
         else (Inr (Some row), d\<lparr>t_categories := t_categories d @ [row]\<rparr>))"

definition category_create_tx :: "uuid \<Rightarrow> time \<Rightarrow> string \<Rightarrow> int \<Rightarrow> (category_row, db) call" where
  "category_create_tx newID now name maxCategories =
     bindc (rows_of ''count categories'' (\<lambda>d. int (length (t_categories d)))) (\<lambda>n.
     if n \<ge> maxCategories then fail category_ErrMaxCategoriesReached
     else maperr (\<lambda>e. if IsUniqueViolation e then category_ErrAlreadyExists else Wrap ''insert category'' e)
            (scanCategory (pg_stmt (insert_category newID now name))))"

definition category_Create :: "uuid \<Rightarrow> time \<Rightarrow> string \<Rightarrow> int \<Rightarrow> (category_row, db) call" where
  "category_Create newID now name maxCategories = WithTx (category_create_tx newID now name maxCategories)"

definition updated_category :: "time \<Rightarrow> category_UpdateParams \<Rightarrow> category_row \<Rightarrow> category_row" where
  "updated_category now p c =
     c\<lparr>ca_name := (case cu_Name p of None \<Rightarrow> ca_name c | Some x \<Rightarrow> x),
       ca_position := (case cu_Position p of None \<Rightarrow> ca_position c | Some x \<Rightarrow> x), ca_updated_at := now\<rparr>"

text \<open>The constraint on the position is deferred to the end of the statement.\<close>

definition update_category :: "uuid \<Rightarrow> time \<Rightarrow> category_UpdateParams \<Rightarrow> (category_row option, db) call" where
  "update_category i now p d =
     (if \<not> fits_int4 (cu_Position p) then (Inl (Ext ''cannot encode into int4''), d)
      else case find_category i d of
             None \<Rightarrow> (Inr None, d)
           | Some c \<Rightarrow>
               (let c' = updated_category now p c
                in if ca_position c' \<in> set (map ca_position (filter (\<lambda>x. ca_id x \<noteq> i) (t_categories d)))
                   then (Inl unique_violation, d)
                   else (Inr (Some c'), d\<lparr>t_categories := updated_rows (\<lambda>x. ca_id x = i) (\<lambda>_. c') (t_categories d)\<rparr>)))"

definition category_Update :: "uuid \<Rightarrow> time \<Rightarrow> category_UpdateParams \<Rightarrow> (category_row, db) call" where
  "category_Update i now p =
     (if cu_Name p = None \<and> cu_Position p = None then category_GetByID i
      else maperr (\<lambda>e. if errors_Is e pgx_ErrNoRows then category_ErrNotFound
                       else if IsUniqueViolation e then category_ErrAlreadyExists
                       else Wrap ''update category'' e)
             (scanCategory (pg_stmt (update_category i now p))))"

definition delete_category :: "time \<Rightarrow> uuid \<Rightarrow> (nat, db) call" where
  "delete_category now i d =
     (let n = length (filter (\<lambda>c. ca_id c = i) (t_categories d))
      in if n = 0 then (Inr 0, d)
         else (Inr n, d\<lparr>t_categories := filter (\<lambda>c. ca_id c \<noteq> i) (t_categories d),
                        t_channels := updated_rows (\<lambda>c. ch_category_id c = Some i)
                                        (\<lambda>c. c\<lparr>ch_category_id := None, ch_updated_at := now\<rparr>) (t_channels d),
                        t_overrides := filter (\<lambda>v. \<not> (or_TargetType v = TargetCategory \<and> or_TargetID v = i)) (t_overrides d)\<rparr>))"

definition category_Delete :: "time \<Rightarrow> uuid \<Rightarrow> (unit, db) call" where
  "category_Delete now i = affecting category_ErrNotFound ''delete category'' (delete_category now i)"

section \<open>Channels\<close>

definition channel_ErrNotFound :: error where "channel_ErrNotFound = Sentinel ''channel.ErrNotFound''"
definition channel_ErrMaxChannelsReached :: error where "channel_ErrMaxChannelsReached = Sentinel ''channel.ErrMaxChannelsReached''"
definition channel_ErrNameLength :: error where "channel_ErrNameLength = Sentinel ''channel.ErrNameLength''"
definition channel_ErrInvalidType :: error where "channel_ErrInvalidType = Sentinel ''channel.ErrInvalidType''"
definition channel_ErrTopicLength :: error where "channel_ErrTopicLength = Sentinel ''channel.ErrTopicLength''"
definition channel_ErrInvalidSlowmode :: error where "channel_ErrInvalidSlowmode = Sentinel ''channel.ErrInvalidSlowmode''"
definition channel_ErrInvalidPosition :: error where "channel_ErrInvalidPosition = Sentinel ''channel.ErrInvalidPosition''"
definition channel_ErrCategoryNotFound :: error where "channel_ErrCategoryNotFound = Sentinel ''channel.ErrCategoryNotFound''"

definition channel_ToModel :: "uuid_lib \<Rightarrow> (time \<Rightarrow> string) \<Rightarrow> channel_row \<Rightarrow> ChannelModel" where
  "channel_ToModel U Z c =
     \<lparr>cm_ID = uuid_String U (ch_id c), cm_CategoryID = map_option (uuid_String U) (ch_category_id c),
      cm_CreatedBy = map_option (uuid_String U) (ch_created_by c), cm_Name = ch_name c, cm_Type = ch_type c, cm_Topic = ch_topic c,
      cm_Position = ch_position c, cm_SlowmodeSeconds = ch_slowmode_seconds c, cm_NSFW = ch_nsfw c,
      cm_CreatedAt = Z (ch_created_at c), cm_UpdatedAt = Z (ch_updated_at c)\<rparr>"

text \<open>The types are constants of the protocol package; the table's check constraint names the same five.\<close>

definition validTypes :: "string list" where
  "validTypes = [''text'', ''voice'', ''announcement'', ''forum'', ''stage'']"

record channel_CreateParams =
  cc_Name :: string
  cc_Type :: string
  cc_CategoryID :: "uuid option"
  cc_CreatedBy :: "uuid option"
  cc_Topic :: string
  cc_SlowmodeSeconds :: int
  cc_NSFW :: bool

record channel_UpdateParams =
  cx_Name :: "string option"
  cx_CategoryID :: "uuid option"
  cx_SetCategoryNull :: bool
  cx_Topic :: "string option"
  cx_Position :: "int option"
  cx_SlowmodeSeconds :: "int option"
  cx_NSFW :: "bool option"

definition channel_ValidateNameRequired :: "string \<Rightarrow> string result" where
  "channel_ValidateNameRequired name =
     (let trimmed = TrimSpace name
      in if RuneCount trimmed < 1 \<or> RuneCount trimmed > 100 then Inl channel_ErrNameLength else Inr trimmed)"

definition channel_ValidateName :: "string option \<Rightarrow> string option result" where
  "channel_ValidateName name =
     (case name of
        None \<Rightarrow> Inr None
      | Some s \<Rightarrow>
          (let trimmed = TrimSpace s
           in if RuneCount trimmed < 1 \<or> RuneCount trimmed > 100 then Inl channel_ErrNameLength else Inr (Some trimmed)))"

definition channel_ValidateType :: "string \<Rightarrow> unit result" where
  "channel_ValidateType t = (if t \<notin> set validTypes then Inl channel_ErrInvalidType else Inr ())"

definition channel_ValidateTopic :: "string option \<Rightarrow> unit result" where
  "channel_ValidateTopic topic =
     (case topic of None \<Rightarrow> Inr () | Some s \<Rightarrow> if RuneCount s > 1024 then Inl channel_ErrTopicLength else Inr ())"

definition channel_ValidateSlowmode :: "int option \<Rightarrow> unit result" where
  "channel_ValidateSlowmode seconds =
     (case seconds of None \<Rightarrow> Inr () | Some n \<Rightarrow> if n < 0 \<or> n > 21600 then Inl channel_ErrInvalidSlowmode else Inr ())"

definition channel_ValidatePosition :: "int option \<Rightarrow> unit result" where
  "channel_ValidatePosition pos =
     (case pos of None \<Rightarrow> Inr () | Some p \<Rightarrow> if p < 0 then Inl channel_ErrInvalidPosition else Inr ())"

definition scanChannel :: "(channel_row option, db) call \<Rightarrow> (channel_row, db) call" where
  "scanChannel = scan_one ''scan channel''"

definition find_channel :: "uuid \<Rightarrow> db \<Rightarrow> channel_row option" where
  "find_channel i d = find (\<lambda>c. ch_id c = i) (t_channels d)"

text \<open>\<open>ORDER BY position, created_at\<close>\<close>

definition channel_List :: "(channel_row list, db) call" where
  "channel_List = rows_of ''query channels'' (\<lambda>d. sort_key ch_position (sort_key ch_created_at (t_channels d)))"

definition channel_GetByID :: "uuid \<Rightarrow> (channel_row, db) call" where
  "channel_GetByID i = or_missing channel_ErrNotFound ''query channel by id'' (scanChannel (pg_query (find_channel i)))"

definition check_violation :: error where "check_violation = PgError ''23514''"

definition insert_channel :: "uuid \<Rightarrow> time \<Rightarrow> channel_CreateParams \<Rightarrow> (channel_row option, db) call" where
  "insert_channel newID now p d =
     (let pos = position_after (map ch_position (t_channels d));
          row = \<lparr>ch_id = newID, ch_category_id = cc_CategoryID p, ch_created_by = cc_CreatedBy p, ch_name = cc_Name p,
                 ch_type = cc_Type p, ch_topic = cc_Topic p, ch_position = pos, ch_slowmode_seconds = cc_SlowmodeSeconds p,
                 ch_nsfw = cc_NSFW p, ch_created_at = now, ch_updated_at = now\<rparr>
      in if pos > max_int4 then (Inl numeric_out_of_range, d)
         else if cc_Type p \<notin> set validTypes then (Inl check_violation, d)
         else if newID \<in> set (map ch_id (t_channels d)) then (Inl unique_violation, d)
         else if (\<exists>c. cc_CategoryID p = Some c \<and> find_category c d = None)
              \<or> (\<exists>u. cc_CreatedBy p = Some u \<and> u \<notin> set (map u_id (t_users d)))
         then (Inl foreign_key_violation, d)
         else (Inr (Some row), d\<lparr>t_channels := t_channels d @ [row]\<rparr>))"

definition channel_create_tx :: "uuid \<Rightarrow> time \<Rightarrow> channel_CreateParams \<Rightarrow> int \<Rightarrow> (channel_row, db) call" where
  "channel_create_tx newID now p maxChannels =
     bindc (rows_of ''count channels'' (\<lambda>d. int (length (t_channels d)))) (\<lambda>n.
     if n \<ge> maxChannels then fail channel_ErrMaxChannelsReached
     else bindc (case cc_CategoryID p of
                   None \<Rightarrow> ret True
                 | Some c \<Rightarrow> rows_of ''check category exists'' (\<lambda>d. find_category c d \<noteq> None)) (\<lambda>ok.
     if \<not> ok then fail channel_ErrCategoryNotFound
     else maperr (Wrap ''insert channel'') (scanChannel (pg_stmt (insert_channel newID now p)))))"

definition channel_Create :: "uuid \<Rightarrow> time \<Rightarrow> channel_CreateParams \<Rightarrow> int \<Rightarrow> (channel_row, db) call" where
  "channel_Create newID now p maxChannels = WithTx (channel_create_tx newID now p maxChannels)"

definition updated_channel :: "time \<Rightarrow> channel_UpdateParams \<Rightarrow> channel_row \<Rightarrow> channel_row" where
  "updated_channel now p c =
     c\<lparr>ch_name := (case cx_Name p of None \<Rightarrow> ch_name c | Some x \<Rightarrow> x),
       ch_category_id := (if cx_SetCategoryNull p then None else case cx_CategoryID p of None \<Rightarrow> ch_category_id c | Some x \<Rightarrow> Some x),
       ch_topic := (case cx_Topic p of None \<Rightarrow> ch_topic c | Some x \<Rightarrow> x),
       ch_position := (case cx_Position p of None \<Rightarrow> ch_position c | Some x \<Rightarrow> x),
       ch_slowmode_seconds := (case cx_SlowmodeSeconds p of None \<Rightarrow> ch_slowmode_seconds c | Some x \<Rightarrow> x),
       ch_nsfw := (case cx_NSFW p of None \<Rightarrow> ch_nsfw c | Some x \<Rightarrow> x), ch_updated_at := now\<rparr>"

definition update_channel :: "uuid \<Rightarrow> time \<Rightarrow> channel_UpdateParams \<Rightarrow> (channel_row option, db) call" where
  "update_channel i now p d =
     (if \<not> fits_int4 (cx_Position p) \<or> \<not> fits_int4 (cx_SlowmodeSeconds p) then (Inl (Ext ''cannot encode into int4''), d)
      else case find_channel i d of
             None \<Rightarrow> (Inr None, d)
           | Some c \<Rightarrow>
               (let c' = updated_channel now p c
                in if \<exists>cat. ch_category_id c' = Some cat \<and> ch_category_id c' \<noteq> ch_category_id c \<and> find_category cat d = None
                   then (Inl foreign_key_violation, d)
                   else (Inr (Some c'), d\<lparr>t_channels := updated_rows (\<lambda>x. ch_id x = i) (\<lambda>_. c') (t_channels d)\<rparr>)))"

definition channel_Update :: "uuid \<Rightarrow> time \<Rightarrow> channel_UpdateParams \<Rightarrow> (channel_row, db) call" where
  "channel_Update i now p =
     (if cx_Name p = None \<and> \<not> cx_SetCategoryNull p \<and> cx_CategoryID p = None \<and> cx_Topic p = None \<and> cx_Position p = None
         \<and> cx_SlowmodeSeconds p = None \<and> cx_NSFW p = None
      then channel_GetByID i
      else maperr (\<lambda>e. if errors_Is e pgx_ErrNoRows then channel_ErrNotFound
                       else if IsForeignKeyViolation e then channel_ErrCategoryNotFound
                       else Wrap ''update channel'' e)
             (scanChannel (pg_stmt (update_channel i now p))))"

definition delete_channel :: "time \<Rightarrow> uuid \<Rightarrow> (nat, db) call" where
  "delete_channel now i d =
     (let n = length (filter (\<lambda>c. ch_id c = i) (t_channels d))
      in if n = 0 then (Inr 0, d)
         else (Inr n, remove_threads now (\<lambda>t. th_channel_id t = i)
                (d\<lparr>t_channels := filter (\<lambda>c. ch_id c \<noteq> i) (t_channels d),
                   t_overrides := filter (\<lambda>v. \<not> (or_TargetType v = TargetChannel \<and> or_TargetID v = i)) (t_overrides d),
                   t_attachments := filter (\<lambda>a. mt_channel_id a \<noteq> i) (t_attachments d),
                   t_read_states := filter (\<lambda>r. rd_channel_id r \<noteq> i) (t_read_states d),
                   t_invites := filter (\<lambda>v. iv_channel_id v \<noteq> i) (t_invites d),
                   t_onboarding := updated_rows (\<lambda>c. ob_welcome_channel_id c = Some i)
                                     (\<lambda>c. c\<lparr>ob_welcome_channel_id := None, ob_updated_at := now\<rparr>) (t_onboarding d)\<rparr>)))"

definition channel_Delete :: "time \<Rightarrow> uuid \<Rightarrow> (unit, db) call" where
  "channel_Delete now i = affecting channel_ErrNotFound ''delete channel'' (delete_channel now i)"

end
