(* ===== verification/Channel_Http.thy ===== *)
theory Channel_Http
  imports Joining Channels
begin

text \<open>
  \<open>internal/api/channel.go\<close> and \<open>internal/api/category.go\<close>. The validators of optional names replace the value
  they point to, so that the trimmed name is what is stored.
\<close>

section \<open>Channels\<close>

definition mapChannelError :: "error \<Rightarrow> 'p reaction" where
  "mapChannelError e =
     (if errors_Is e channel_ErrNotFound then Fail 404 (Coded ''UnknownChannel'') ''Channel not found''
      else if errors_Is e channel_ErrNameLength then Fail 400 ValidationError ''channel name must be between 1 and 100 characters''
      else if errors_Is e channel_ErrInvalidType then Fail 400 ValidationError ''invalid channel type''
      else if errors_Is e channel_ErrTopicLength then Fail 400 ValidationError ''channel topic must be 1024 characters or fewer''
      else if errors_Is e channel_ErrInvalidSlowmode then Fail 400 ValidationError ''slowmode seconds must be between 0 and 21600''
      else if errors_Is e channel_ErrInvalidPosition then Fail 400 ValidationError ''position must be non-negative''
      else if errors_Is e channel_ErrCategoryNotFound then Fail 400 (Coded ''UnknownCategory'') ''category not found''
      else if errors_Is e channel_ErrMaxChannelsReached then Fail 400 (Coded ''MaxChannelsReached'') ''maximum number of channels reached''
      else internal_error)"

text \<open>The two flags of \<open>FilterPermitted\<close> and the channels are walked side by side.\<close>

definition listPermittedChannels ::
  "perm_lib \<Rightarrow> uuid_lib \<Rightarrow> 'r valkey \<Rightarrow> (time \<Rightarrow> string) \<Rightarrow> uuid \<Rightarrow> (ChannelModel list, ChannelModel list reaction, 'r world) step" where
  "listPermittedChannels P U V Z userID =
     andthen (orfail (\<lambda>_. internal_error) (on_db channel_List)) (\<lambda>all.
     andthen (orfail (\<lambda>_. internal_error) (FilterPermitted P PGStore (ValkeyCache U V) userID (map ch_id all) (ViewChannels P))) (\<lambda>permitted.
     give (Success (map (\<lambda>x. channel_ToModel U Z (fst x)) (filter snd (zip all permitted))))))"

definition listWelcomeChannel ::
  "uuid_lib \<Rightarrow> (time \<Rightarrow> string) \<Rightarrow> (ChannelModel list, ChannelModel list reaction, 'r world) step" where
  "listWelcomeChannel U Z =
     andthen (orfail (\<lambda>_. internal_error) (on_db onboarding_Get)) (\<lambda>cfg.
     case ob_welcome_channel_id cfg of
       None \<Rightarrow> give (Success [])
     | Some i \<Rightarrow>
         andthen (attempt (on_db (channel_GetByID i))) (\<lambda>r.
         case r of
           Inl e \<Rightarrow> (if errors_Is e channel_ErrNotFound then give (Success []) else stop internal_error)
         | Inr ch \<Rightarrow> give (Success [channel_ToModel U Z ch])))"

definition ListChannels ::
  "perm_lib \<Rightarrow> uuid_lib \<Rightarrow> 'r valkey \<Rightarrow> (time \<Rightarrow> string) \<Rightarrow> request \<Rightarrow> 'r world \<Rightarrow> ChannelModel list reaction \<times> 'r world" where
  "ListChannels P U V Z c = answerh
     (andthen (checkh (UserID c)) (\<lambda>userID.
      andthen (attempt (on_db (GetStatus userID))) (\<lambda>r.
      case r of
        Inl e \<Rightarrow> (if errors_Is e member_ErrNotFound then give (Success []) else stop internal_error)
      | Inr status \<Rightarrow> (if status = Pending then listWelcomeChannel U Z else listPermittedChannels P U V Z userID))))"

record CreateChannelRequest =
  cq_Name :: string
  cq_Type :: "string option"
  cq_CategoryID :: "string option"
  cq_Topic :: "string option"
  cq_SlowmodeSeconds :: "int option"
  cq_NSFW :: "bool option"

definition or_default :: "'a \<Rightarrow> 'a option \<Rightarrow> 'a" where
  "or_default x y = (case y of None \<Rightarrow> x | Some z \<Rightarrow> z)"

definition category_ref :: "uuid_lib \<Rightarrow> string option \<Rightarrow> 'p reaction + uuid option" where
  "category_ref U s =
     (case s of
        None \<Rightarrow> Inr None
      | Some t \<Rightarrow> (case uuid_Parse U t of
                     None \<Rightarrow> Inl (Fail 400 ValidationError ''Invalid category ID format'')
                   | Some i \<Rightarrow> Inr (Some i)))"

definition CreateChannel ::
  "uuid_lib \<Rightarrow> proto \<Rightarrow> (time \<Rightarrow> string) \<Rightarrow> handler \<Rightarrow> int \<Rightarrow> uuid \<Rightarrow> time \<Rightarrow> request \<Rightarrow> CreateChannelRequest option
     \<Rightarrow> 'r world \<Rightarrow> ChannelModel reaction \<times> 'r world" where
  "CreateChannel U M Z h maxChannels newID dbnow c body = answerh
     (andthen (checkh (UserID c)) (\<lambda>userID.
      andthen (bodyh body) (\<lambda>b.
      andthen (valid mapChannelError (channel_ValidateNameRequired (cq_Name b))) (\<lambda>name.
      (let chType = or_default ''text'' (cq_Type b)
       in andthen (valid mapChannelError (channel_ValidateType chType)) (\<lambda>_.
          andthen (valid mapChannelError (channel_ValidateTopic (cq_Topic b))) (\<lambda>_.
          andthen (valid mapChannelError (channel_ValidateSlowmode (cq_SlowmodeSeconds b))) (\<lambda>_.
          andthen (checkh (category_ref U (cq_CategoryID b))) (\<lambda>categoryID.
          andthen (orfail mapChannelError (on_db (channel_Create newID dbnow
                     \<lparr>cc_Name = name, cc_Type = chType, cc_CategoryID = categoryID, cc_CreatedBy = Some userID,
                      cc_Topic = or_default [] (cq_Topic b), cc_SlowmodeSeconds = or_default 0 (cq_SlowmodeSeconds b),
                      cc_NSFW = or_default False (cq_NSFW b)\<rparr> maxChannels))) (\<lambda>ch.
          andthen (effect (go_Record h (audit_entry userID ''channel.create'' ''channel'' (ch_id ch)))) (\<lambda>_.
          andthen (effect (Enqueue h (ev M EvChannelCreate) (js_Channel M (channel_ToModel U Z ch)))) (\<lambda>_.
          give (SuccessStatus 201 (channel_ToModel U Z ch))))))))))))))"

definition GetChannel :: "uuid_lib \<Rightarrow> (time \<Rightarrow> string) \<Rightarrow> request \<Rightarrow> 'r world \<Rightarrow> ChannelModel reaction \<times> 'r world" where
  "GetChannel U Z c = answerh
     (andthen (checkh (ParseUUIDParam U c ''channelID'' InvalidChannelID)) (\<lambda>i.
      andthen (orfail mapChannelError (on_db (channel_GetByID i))) (\<lambda>ch.
      give (Success (channel_ToModel U Z ch)))))"

record UpdateChannelRequest =
  cw_Name :: "string option"
  cw_CategoryID :: "string option"
  cw_Topic :: "string option"
  cw_Position :: "int option"
  cw_SlowmodeSeconds :: "int option"
  cw_NSFW :: "bool option"

definition UpdateChannel ::
  "uuid_lib \<Rightarrow> proto \<Rightarrow> (time \<Rightarrow> string) \<Rightarrow> handler \<Rightarrow> time \<Rightarrow> request \<Rightarrow> UpdateChannelRequest option
     \<Rightarrow> 'r world \<Rightarrow> ChannelModel reaction \<times> 'r world" where
  "UpdateChannel U M Z h dbnow c body = answerh
     (andthen (checkh (UserID c)) (\<lambda>userID.
      andthen (checkh (ParseUUIDParam U c ''channelID'' InvalidChannelID)) (\<lambda>i.
      andthen (bodyh body) (\<lambda>b.
      andthen (valid mapChannelError (channel_ValidateName (cw_Name b))) (\<lambda>name.
      andthen (valid mapChannelError (channel_ValidateTopic (cw_Topic b))) (\<lambda>_.
      andthen (valid mapChannelError (channel_ValidatePosition (cw_Position b))) (\<lambda>_.
      andthen (valid mapChannelError (channel_ValidateSlowmode (cw_SlowmodeSeconds b))) (\<lambda>_.
      andthen (checkh (ref_change U ''Invalid category ID format'' (cw_CategoryID b))) (\<lambda>(clear, category).
      andthen (orfail mapChannelError (on_db (channel_Update i dbnow
                 \<lparr>cx_Name = name, cx_CategoryID = category, cx_SetCategoryNull = clear, cx_Topic = cw_Topic b,
                  cx_Position = cw_Position b, cx_SlowmodeSeconds = cw_SlowmodeSeconds b, cx_NSFW = cw_NSFW b\<rparr>))) (\<lambda>ch.
      andthen (effect (go_Record h (audit_entry userID ''channel.update'' ''channel'' i))) (\<lambda>_.
      andthen (effect (Enqueue h (ev M EvChannelUpdate) (js_Channel M (channel_ToModel U Z ch)))) (\<lambda>_.
      give (Success (channel_ToModel U Z ch))))))))))))))"

definition DeleteChannel ::
  "uuid_lib \<Rightarrow> proto \<Rightarrow> handler \<Rightarrow> time \<Rightarrow> request \<Rightarrow> 'r world \<Rightarrow> unit reaction \<times> 'r world" where
  "DeleteChannel U M h dbnow c = answerh
     (andthen (checkh (UserID c)) (\<lambda>userID.
      andthen (checkh (ParseUUIDParam U c ''channelID'' InvalidChannelID)) (\<lambda>i.
      andthen (orfail mapChannelError (on_db (channel_Delete dbnow i))) (\<lambda>_.
      andthen (effect (go_Record h (audit_entry userID ''channel.delete'' ''channel'' i))) (\<lambda>_.
      andthen (effect (Enqueue h (ev M EvChannelDelete) (js_ChannelDelete M (uuid_String U i)))) (\<lambda>_.
      give (SendStatus 204)))))))"

section \<open>Categories\<close>

definition toCategoryModel :: "uuid_lib \<Rightarrow> (time \<Rightarrow> string) \<Rightarrow> category_row \<Rightarrow> CategoryModel" where
  "toCategoryModel U Z c =
     \<lparr>gm_ID = uuid_String U (ca_id c), gm_Name = ca_name c, gm_Position = ca_position c, gm_CreatedAt = Z (ca_created_at c),
      gm_UpdatedAt = Z (ca_updated_at c)\<rparr>"

definition mapCategoryError :: "error \<Rightarrow> 'p reaction" where
  "mapCategoryError e =
     (if errors_Is e category_ErrNotFound then Fail 404 (Coded ''UnknownCategory'') ''Category not found''
      else if errors_Is e category_ErrNameLength then Fail 400 ValidationError ''category name must be between 1 and 100 characters''
      else if errors_Is e category_ErrInvalidPosition then Fail 400 ValidationError ''position must be non-negative''
      else if errors_Is e category_ErrAlreadyExists then Fail 409 AlreadyExists ''category position already taken''
      else if errors_Is e category_ErrMaxCategoriesReached then Fail 400 (Coded ''MaxCategoriesReached'') ''maximum number of categories reached''
      else internal_error)"

definition ListCategories :: "uuid_lib \<Rightarrow> (time \<Rightarrow> string) \<Rightarrow> 'r world \<Rightarrow> CategoryModel list reaction \<times> 'r world" where
  "ListCategories U Z = answerh
     (andthen (orfail (\<lambda>_. internal_error) (on_db category_List)) (\<lambda>cats. give (Success (map (toCategoryModel U Z) cats))))"

definition CreateCategory ::
  "uuid_lib \<Rightarrow> (time \<Rightarrow> string) \<Rightarrow> handler \<Rightarrow> int \<Rightarrow> uuid \<Rightarrow> time \<Rightarrow> request \<Rightarrow> string option
     \<Rightarrow> 'r world \<Rightarrow> CategoryModel reaction \<times> 'r world" where
  "CreateCategory U Z h maxCategories newID dbnow c body = answerh
     (andthen (checkh (UserID c)) (\<lambda>userID.
      andthen (bodyh body) (\<lambda>b.
      andthen (valid mapCategoryError (category_ValidateNameRequired b)) (\<lambda>name.
      andthen (orfail mapCategoryError (on_db (category_Create newID dbnow name maxCategories))) (\<lambda>cat.
      andthen (effect (go_Record h (audit_entry userID ''category.create'' ''category'' (ca_id cat)))) (\<lambda>_.
      give (SuccessStatus 201 (toCategoryModel U Z cat))))))))"

definition UpdateCategory ::
  "uuid_lib \<Rightarrow> (time \<Rightarrow> string) \<Rightarrow> handler \<Rightarrow> time \<Rightarrow> request \<Rightarrow> category_UpdateParams option
     \<Rightarrow> 'r world \<Rightarrow> CategoryModel reaction \<times> 'r world" where
  "UpdateCategory U Z h dbnow c body = answerh
     (andthen (checkh (UserID c)) (\<lambda>userID.
      andthen (checkh (ParseUUIDParam U c ''categoryID'' ValidationError)) (\<lambda>i.
      andthen (bodyh body) (\<lambda>b.
      andthen (valid mapCategoryError (category_ValidateName (cu_Name b))) (\<lambda>name.
      andthen (valid mapCategoryError (category_ValidatePosition (cu_Position b))) (\<lambda>_.
      andthen (orfail mapCategoryError (on_db (category_Update i dbnow \<lparr>cu_Name = name, cu_Position = cu_Position b\<rparr>))) (\<lambda>cat.
      andthen (effect (go_Record h (audit_entry userID ''category.update'' ''category'' i))) (\<lambda>_.
      give (Success (toCategoryModel U Z cat))))))))))"

definition DeleteCategory ::
  "uuid_lib \<Rightarrow> handler \<Rightarrow> time \<Rightarrow> request \<Rightarrow> 'r world \<Rightarrow> unit reaction \<times> 'r world" where
  "DeleteCategory U h dbnow c = answerh
     (andthen (checkh (UserID c)) (\<lambda>userID.
      andthen (checkh (ParseUUIDParam U c ''categoryID'' ValidationError)) (\<lambda>i.
      andthen (orfail mapCategoryError (on_db (category_Delete dbnow i))) (\<lambda>_.
      andthen (effect (go_Record h (audit_entry userID ''category.delete'' ''category'' i))) (\<lambda>_.
      give (SendStatus 204))))))"

end
