(* ===== verification/Reactions.thy ===== *)
theory Reactions
  imports Queries Go_Strings Messages
begin

text \<open>
  \<open>internal/reaction\<close> and \<open>internal/emoji\<close>: reactions to messages and the custom emoji they may name.
\<close>

section \<open>Reactions\<close>

definition reaction_ErrNotFound :: error where "reaction_ErrNotFound = Sentinel ''reaction.ErrNotFound''"
definition ErrAlreadyReacted :: error where "ErrAlreadyReacted = Sentinel ''reaction.ErrAlreadyReacted''"

record Reaction = reaction_row +
  rj_Username :: string

record Summary =
  su_EmojiID :: "uuid option"
  su_EmojiUnicode :: "string option"
  su_Count :: int

text \<open>The key of the unique index, with \<open>COALESCE\<close> for the absent of the two columns.\<close>

definition reaction_key :: "reaction_row \<Rightarrow> uuid \<times> uuid \<times> uuid \<times> string" where
  "reaction_key r =
     (rx_message_id r, rx_user_id r, (case rx_emoji_id r of None \<Rightarrow> uuid_Nil | Some e \<Rightarrow> e),
      (case rx_emoji_unicode r of None \<Rightarrow> [] | Some s \<Rightarrow> s))"

definition insert_reaction :: "uuid \<Rightarrow> time \<Rightarrow> uuid \<Rightarrow> uuid \<Rightarrow> uuid option \<Rightarrow> string option \<Rightarrow> (reaction_row option, db) call" where
  "insert_reaction newID now msg user emojiID emojiUnicode d =
     (let row = \<lparr>rx_id = newID, rx_message_id = msg, rx_user_id = user, rx_emoji_id = emojiID, rx_emoji_unicode = emojiUnicode,
                 rx_created_at = now\<rparr>
      in if newID \<in> set (map rx_id (t_reactions d)) \<or> reaction_key row \<in> set (map reaction_key (t_reactions d))
         then (Inl unique_violation, d)
         else if msg \<notin> set (map ms_id (t_messages d)) \<or> user \<notin> set (map u_id (t_users d))
                 \<or> \<not> refers emojiID (map em_id (t_emoji d))
         then (Inl foreign_key_violation, d)
         else (Inr (Some row), d\<lparr>t_reactions := t_reactions d @ [row]\<rparr>))"

definition Add :: "uuid \<Rightarrow> time \<Rightarrow> uuid \<Rightarrow> uuid \<Rightarrow> uuid option \<Rightarrow> string option \<Rightarrow> (reaction_row option, db) call" where
  "Add newID now msg user emojiID emojiUnicode =
     maperr (\<lambda>e. if IsUniqueViolation e then ErrAlreadyReacted else Wrap ''add reaction'' e)
       (pg_stmt (insert_reaction newID now msg user emojiID emojiUnicode))"

text \<open>\<open>emoji_id = $3\<close> or \<open>emoji_unicode = $3\<close>; a comparison with \<open>NULL\<close> selects nothing.\<close>

definition of_emoji :: "uuid option \<Rightarrow> string option \<Rightarrow> reaction_row \<Rightarrow> bool" where
  "of_emoji emojiID emojiUnicode r \<longleftrightarrow>
     (case emojiID of Some e \<Rightarrow> rx_emoji_id r = Some e
      | None \<Rightarrow> (case emojiUnicode of None \<Rightarrow> False | Some s \<Rightarrow> rx_emoji_unicode r = Some s))"

definition delete_reactions :: "(reaction_row \<Rightarrow> bool) \<Rightarrow> (nat, db) call" where
  "delete_reactions P d = (Inr (length (filter P (t_reactions d))), d\<lparr>t_reactions := filter (\<lambda>r. \<not> P r) (t_reactions d)\<rparr>)"

definition Remove :: "uuid \<Rightarrow> uuid \<Rightarrow> uuid option \<Rightarrow> string option \<Rightarrow> (unit, db) call" where
  "Remove msg user emojiID emojiUnicode =
     affecting reaction_ErrNotFound ''remove reaction''
       (delete_reactions (\<lambda>r. rx_message_id r = msg \<and> rx_user_id r = user \<and> of_emoji emojiID emojiUnicode r))"

definition with_username :: "db \<Rightarrow> reaction_row \<Rightarrow> Reaction option" where
  "with_username d r =
     map_option (\<lambda>u. reaction_row.extend r (Reaction.fields (u_username u))) (find (\<lambda>u. u_id u = rx_user_id r) (t_users d))"

definition reactions_where :: "(reaction_row \<Rightarrow> bool) \<Rightarrow> db \<Rightarrow> Reaction list" where
  "reactions_where P d = List.map_filter (with_username d) (sort_key rx_created_at (filter P (t_reactions d)))"

definition reaction_ListByMessage :: "uuid \<Rightarrow> (Reaction list, db) call" where
  "reaction_ListByMessage msg = rows_of ''list reactions by message'' (reactions_where (\<lambda>r. rx_message_id r = msg))"

definition ListByEmoji :: "uuid \<Rightarrow> uuid option \<Rightarrow> string option \<Rightarrow> (Reaction list, db) call" where
  "ListByEmoji msg emojiID emojiUnicode =
     rows_of ''list reactions by emoji'' (reactions_where (\<lambda>r. rx_message_id r = msg \<and> of_emoji emojiID emojiUnicode r))"

definition emoji_of :: "reaction_row \<Rightarrow> uuid option \<times> string option" where
  "emoji_of r = (rx_emoji_id r, rx_emoji_unicode r)"

text \<open>
  \<open>GROUP BY message_id, emoji_id, emoji_unicode ORDER BY message_id, MIN(created_at)\<close>, for one message;
  groups that start at the same time come in any order.
\<close>

definition summaries :: "uuid \<Rightarrow> db \<Rightarrow> Summary list" where
  "summaries msg d =
     (let rs = filter (\<lambda>r. rx_message_id r = msg) (t_reactions d);
          group = (\<lambda>e. filter (\<lambda>r. emoji_of r = e) rs)
      in map (\<lambda>e. \<lparr>su_EmojiID = fst e, su_EmojiUnicode = snd e, su_Count = int (length (group e))\<rparr>)
           (sort_key (\<lambda>e. Min (set (map rx_created_at (group e)))) (remdups (map emoji_of rs))))"

definition SummariesByMessages :: "uuid list \<Rightarrow> (uuid \<Rightarrow> Summary list, db) call" where
  "SummariesByMessages msgs =
     (if msgs = [] then ret (\<lambda>_. [])
      else rows_of ''summarise reactions'' (\<lambda>d i. if i \<in> set msgs then summaries i d else []))"

text \<open>The key under which the reactions of a user are looked up.\<close>

definition reactionKey :: "uuid_lib \<Rightarrow> uuid option \<Rightarrow> string option \<Rightarrow> string" where
  "reactionKey U emojiID emojiUnicode =
     (case emojiID of Some e \<Rightarrow> ''custom:'' @ uuid_String U e | None \<Rightarrow> (case emojiUnicode of None \<Rightarrow> [] | Some s \<Rightarrow> s))"

definition user_reactions :: "uuid_lib \<Rightarrow> uuid \<Rightarrow> uuid \<Rightarrow> db \<Rightarrow> string list" where
  "user_reactions U msg user d =
     map (\<lambda>r. reactionKey U (rx_emoji_id r) (rx_emoji_unicode r))
       (filter (\<lambda>r. rx_message_id r = msg \<and> rx_user_id r = user \<and> emoji_of r \<noteq> (None, None)) (t_reactions d))"

definition UserReactionsByMessages :: "uuid_lib \<Rightarrow> uuid list \<Rightarrow> uuid \<Rightarrow> (uuid \<Rightarrow> string \<Rightarrow> bool, db) call" where
  "UserReactionsByMessages U msgs user =
     (if msgs = [] then ret (\<lambda>_ _. False)
      else rows_of ''query user reactions'' (\<lambda>d i k. i \<in> set msgs \<and> k \<in> set (user_reactions U i user d)))"

section \<open>Custom emoji\<close>

definition emoji_ErrNotFound :: error where "emoji_ErrNotFound = Sentinel ''emoji.ErrNotFound''"
definition ErrNameTaken :: error where "ErrNameTaken = Sentinel ''emoji.ErrNameTaken''"
definition ErrLimitReached :: error where "ErrLimitReached = Sentinel ''emoji.ErrLimitReached''"
definition ErrInvalidName :: error where "ErrInvalidName = Sentinel ''emoji.ErrInvalidName''"

record emoji_CreateParams =
  ep_Name :: string
  ep_Animated :: bool
  ep_StorageKey :: string
  ep_UploaderID :: uuid

text \<open>\<open>regexp\<close> \<open>^[a-zA-Z0-9_]{2,32}$\<close>\<close>

definition name_char :: "char \<Rightarrow> bool" where
  "name_char c \<longleftrightarrow> (97 \<le> byte c \<and> byte c \<le> 122) \<or> (65 \<le> byte c \<and> byte c \<le> 90) \<or> (48 \<le> byte c \<and> byte c \<le> 57) \<or> byte c = 95"

definition emoji_ValidateName :: "string \<Rightarrow> unit result" where
  "emoji_ValidateName name =
     (if list_all name_char name \<and> 2 \<le> length name \<and> length name \<le> 32 then Inr () else Inl ErrInvalidName)"

definition emoji_ToModel :: "uuid_lib \<Rightarrow> (time \<Rightarrow> string) \<Rightarrow> emoji_row \<Rightarrow> string \<Rightarrow> EmojiModel" where
  "emoji_ToModel U Z e url =
     \<lparr>ej_ID = uuid_String U (em_id e), ej_Name = em_name e, ej_Animated = em_animated e, ej_URL = url,
      ej_UploaderID = uuid_String U (em_uploader_id e), ej_CreatedAt = Z (em_created_at e)\<rparr>"

definition scanEmoji :: "(emoji_row option, db) call \<Rightarrow> (emoji_row, db) call" where
  "scanEmoji = scan_one ''scan emoji''"

definition insert_emoji :: "uuid \<Rightarrow> time \<Rightarrow> emoji_CreateParams \<Rightarrow> (emoji_row option, db) call" where
  "insert_emoji newID now p d =
     (let row = \<lparr>em_id = newID, em_name = ep_Name p, em_animated = ep_Animated p, em_storage_key = ep_StorageKey p,
                 em_uploader_id = ep_UploaderID p, em_created_at = now, em_updated_at = now\<rparr>
      in if newID \<in> set (map em_id (t_emoji d)) \<or> ep_Name p \<in> set (map em_name (t_emoji d)) then (Inl unique_violation, d)
         else if ep_UploaderID p \<notin> set (map u_id (t_users d)) then (Inl foreign_key_violation, d)
         else (Inr (Some row), d\<lparr>t_emoji := t_emoji d @ [row]\<rparr>))"

definition emoji_Create :: "uuid \<Rightarrow> time \<Rightarrow> emoji_CreateParams \<Rightarrow> (emoji_row, db) call" where
  "emoji_Create newID now p =
     maperr (\<lambda>e. if IsUniqueViolation e then ErrNameTaken else Wrap ''create emoji'' e)
       (scanEmoji (pg_stmt (insert_emoji newID now p)))"

definition emoji_GetByID :: "uuid \<Rightarrow> (emoji_row, db) call" where
  "emoji_GetByID i =
     or_missing emoji_ErrNotFound ''query emoji by id'' (scanEmoji (pg_query (\<lambda>d. find (\<lambda>e. em_id e = i) (t_emoji d))))"

definition GetByName :: "string \<Rightarrow> (emoji_row, db) call" where
  "GetByName name =
     or_missing emoji_ErrNotFound ''query emoji by name'' (scanEmoji (pg_query (\<lambda>d. find (\<lambda>e. em_name e = name) (t_emoji d))))"

text \<open>\<open>ORDER BY name\<close>: \<open>collate\<close> is the collation of the database.\<close>

definition emoji_List :: "(string \<Rightarrow> int) \<Rightarrow> (emoji_row list, db) call" where
  "emoji_List collate = rows_of ''list emoji'' (\<lambda>d. sort_key (\<lambda>e. collate (em_name e)) (t_emoji d))"

definition rename_emoji :: "time \<Rightarrow> uuid \<Rightarrow> string \<Rightarrow> (emoji_row option, db) call" where
  "rename_emoji now i name d =
     (case find (\<lambda>e. em_id e = i) (t_emoji d) of
        None \<Rightarrow> (Inr None, d)
      | Some e \<Rightarrow>
          (let e' = e\<lparr>em_name := name, em_updated_at := now\<rparr>
           in if name \<in> set (map em_name (filter (\<lambda>x. em_id x \<noteq> i) (t_emoji d))) then (Inl unique_violation, d)
              else (Inr (Some e'), d\<lparr>t_emoji := updated_rows (\<lambda>x. em_id x = i) (\<lambda>_. e') (t_emoji d)\<rparr>)))"

definition emoji_UpdateName :: "time \<Rightarrow> uuid \<Rightarrow> string \<Rightarrow> (emoji_row, db) call" where
  "emoji_UpdateName now i name =
     maperr (\<lambda>e. if errors_Is e pgx_ErrNoRows then emoji_ErrNotFound
                 else if IsUniqueViolation e then ErrNameTaken
                 else Wrap ''update emoji name'' e)
       (scanEmoji (pg_stmt (rename_emoji now i name)))"

definition emoji_Delete :: "uuid \<Rightarrow> (unit, db) call" where
  "emoji_Delete i =
     affecting emoji_ErrNotFound ''delete emoji''
       (\<lambda>d. (Inr (length (filter (\<lambda>e. em_id e = i) (t_emoji d))), remove_emoji (\<lambda>e. em_id e = i) d))"

definition emoji_Count :: "(int, db) call" where
  "emoji_Count = rows_of ''count emoji'' (\<lambda>d. int (length (t_emoji d)))"

end
