(* ===== verification/Threads.thy ===== *)
theory Threads
  imports Queries Keyset Go_Strings Messages
begin

text \<open>
  \<open>internal/thread\<close> and \<open>internal/readstate\<close>: threads hang off a message, at most one per message; a read
  state is how far a user has read a channel. A thread row is the Go struct, as is a read state row.
\<close>

section \<open>Threads\<close>

definition thread_ErrNotFound :: error where "thread_ErrNotFound = Sentinel ''thread.ErrNotFound''"
definition thread_ErrAlreadyExists :: error where "thread_ErrAlreadyExists = Sentinel ''thread.ErrAlreadyExists''"
definition ErrArchived :: error where "ErrArchived = Sentinel ''thread.ErrArchived''"
definition ErrLocked :: error where "ErrLocked = Sentinel ''thread.ErrLocked''"
definition thread_ErrNameLength :: error where "thread_ErrNameLength = Sentinel ''thread.ErrNameLength''"
definition ErrMessageNotFound :: error where "ErrMessageNotFound = Sentinel ''thread.ErrMessageNotFound''"

record thread_CreateParams =
  tp_ChannelID :: uuid
  tp_ParentMessageID :: uuid
  tp_Name :: string

record thread_UpdateParams =
  tu_Name :: "string option"
  tu_Archived :: "bool option"
  tu_Locked :: "bool option"

definition thread_ValidateNameRequired :: "string \<Rightarrow> string result" where
  "thread_ValidateNameRequired name =
     (let trimmed = TrimSpace name
      in if RuneCount trimmed < 1 \<or> RuneCount trimmed > 100 then Inl thread_ErrNameLength else Inr trimmed)"

definition thread_ValidateName :: "string option \<Rightarrow> string option result" where
  "thread_ValidateName name =
     (case name of
        None \<Rightarrow> Inr None
      | Some s \<Rightarrow>
          (let trimmed = TrimSpace s
           in if RuneCount trimmed < 1 \<or> RuneCount trimmed > 100 then Inl thread_ErrNameLength else Inr (Some trimmed)))"

definition thread_ClampLimit :: "int \<Rightarrow> int" where
  "thread_ClampLimit limit = (if limit \<le> 0 then 50 else if limit > 100 then 100 else limit)"

definition scanThread :: "(thread_row option, db) call \<Rightarrow> (thread_row, db) call" where
  "scanThread = scan_one ''scan thread''"

definition find_thread :: "uuid \<Rightarrow> db \<Rightarrow> thread_row option" where
  "find_thread i d = find (\<lambda>t. th_id t = i) (t_threads d)"

definition insert_thread :: "uuid \<Rightarrow> time \<Rightarrow> thread_CreateParams \<Rightarrow> (thread_row option, db) call" where
  "insert_thread newID now p d =
     (let row = \<lparr>th_id = newID, th_channel_id = tp_ChannelID p, th_parent_message_id = tp_ParentMessageID p, th_name = tp_Name p,
                 th_archived = False, th_locked = False, th_created_at = now, th_updated_at = now\<rparr>
      in if newID \<in> set (map th_id (t_threads d)) \<or> tp_ParentMessageID p \<in> set (map th_parent_message_id (t_threads d))
         then (Inl unique_violation, d)
         else if tp_ChannelID p \<notin> set (map ch_id (t_channels d)) \<or> tp_ParentMessageID p \<notin> set (map ms_id (t_messages d))
         then (Inl foreign_key_violation, d)
         else (Inr (Some row), d\<lparr>t_threads := t_threads d @ [row]\<rparr>))"

definition thread_create_tx :: "uuid \<Rightarrow> time \<Rightarrow> thread_CreateParams \<Rightarrow> (thread_row, db) call" where
  "thread_create_tx newID now p =
     bindc (rows_of ''check parent message'' (live_in (tp_ParentMessageID p) (tp_ChannelID p))) (\<lambda>exists.
     if \<not> exists then fail ErrMessageNotFound
     else maperr (\<lambda>e. if IsUniqueViolation e then thread_ErrAlreadyExists else Wrap ''insert thread'' e)
            (scanThread (pg_stmt (insert_thread newID now p))))"

definition thread_Create :: "uuid \<Rightarrow> time \<Rightarrow> thread_CreateParams \<Rightarrow> (thread_row, db) call" where
  "thread_Create newID now p = WithTx (thread_create_tx newID now p)"

definition thread_GetByID :: "uuid \<Rightarrow> (thread_row, db) call" where
  "thread_GetByID i = or_missing thread_ErrNotFound ''query thread by id'' (scanThread (pg_query (find_thread i)))"

definition thread_key :: "thread_row \<Rightarrow> time \<times> int" where
  "thread_key t = (- th_created_at t, - uint (th_id t))"

definition before_thread :: "uuid option \<Rightarrow> db \<Rightarrow> thread_row \<Rightarrow> bool" where
  "before_thread before d t =
     (case before of
        None \<Rightarrow> True
      | Some b \<Rightarrow> (case find_thread b d of None \<Rightarrow> False | Some x \<Rightarrow> key_less (thread_key x) (thread_key t)))"

definition thread_page :: "uuid \<Rightarrow> uuid option \<Rightarrow> int \<Rightarrow> db \<Rightarrow> thread_row list" where
  "thread_page channelID before limit d =
     take (nat limit) (sort_by thread_key (filter (\<lambda>t. th_channel_id t = channelID \<and> before_thread before d t) (t_threads d)))"

definition ListByChannel :: "uuid \<Rightarrow> uuid option \<Rightarrow> int \<Rightarrow> (thread_row list, db) call" where
  "ListByChannel channelID before limit = rows_of ''query threads'' (thread_page channelID before limit)"

definition updated_thread :: "time \<Rightarrow> thread_UpdateParams \<Rightarrow> thread_row \<Rightarrow> thread_row" where
  "updated_thread now p t =
     t\<lparr>th_name := (case tu_Name p of None \<Rightarrow> th_name t | Some x \<Rightarrow> x),
       th_archived := (case tu_Archived p of None \<Rightarrow> th_archived t | Some b \<Rightarrow> b),
       th_locked := (case tu_Locked p of None \<Rightarrow> th_locked t | Some b \<Rightarrow> b), th_updated_at := now\<rparr>"

definition update_thread :: "time \<Rightarrow> uuid \<Rightarrow> thread_UpdateParams \<Rightarrow> (thread_row option, db) call" where
  "update_thread now i p d =
     (Inr (map_option (updated_thread now p) (find_thread i d)),
      d\<lparr>t_threads := updated_rows (\<lambda>t. th_id t = i) (updated_thread now p) (t_threads d)\<rparr>)"

definition thread_update_tx :: "time \<Rightarrow> uuid \<Rightarrow> thread_UpdateParams \<Rightarrow> (thread_row, db) call" where
  "thread_update_tx now i p =
     bindc (or_missing thread_ErrNotFound ''fetch thread for update'' (scanThread (pg_query (find_thread i)))) (\<lambda>current.
     (let unlocking = (tu_Locked p = Some False)
      in if th_locked current \<and> \<not> unlocking then fail ErrLocked
         else maperr (Wrap ''update thread'') (scanThread (pg_stmt (update_thread now i p)))))"

definition thread_Update :: "time \<Rightarrow> uuid \<Rightarrow> thread_UpdateParams \<Rightarrow> (thread_row, db) call" where
  "thread_Update now i p =
     (if tu_Name p = None \<and> tu_Archived p = None \<and> tu_Locked p = None then thread_GetByID i
      else WithTx (thread_update_tx now i p))"

section \<open>Read states\<close>

definition ErrMessageNotInChannel :: error where "ErrMessageNotInChannel = Sentinel ''readstate.ErrMessageNotInChannel''"

definition readstate_ToModel :: "uuid_lib \<Rightarrow> read_state_row \<Rightarrow> ReadStateModel" where
  "readstate_ToModel U rs =
     \<lparr>rt_ChannelID = uuid_String U (rd_channel_id rs), rt_LastMessageID = map_option (uuid_String U) (rd_last_message_id rs),
      rt_MentionCount = rd_mention_count rs\<rparr>"

definition ListByUser :: "uuid \<Rightarrow> (read_state_row list, db) call" where
  "ListByUser user = rows_of ''query read states'' (\<lambda>d. filter (\<lambda>r. rd_user_id r = user) (t_read_states d))"

definition find_message :: "uuid \<Rightarrow> db \<Rightarrow> message_row option" where
  "find_message i d = find (\<lambda>m. ms_id m = i) (t_messages d)"

definition find_read_state :: "uuid \<Rightarrow> uuid \<Rightarrow> db \<Rightarrow> read_state_row option" where
  "find_read_state user ch d = find (\<lambda>r. rd_user_id r = user \<and> rd_channel_id r = ch) (t_read_states d)"

text \<open>The \<open>CASE\<close> of the upsert: the position moves to a message that is newer than the current one.\<close>

definition advanced :: "message_row \<Rightarrow> db \<Rightarrow> uuid option \<Rightarrow> uuid option" where
  "advanced nm d current =
     (case current of
        None \<Rightarrow> Some (ms_id nm)
      | Some l \<Rightarrow>
          (case find_message l d of
             None \<Rightarrow> Some (ms_id nm)
           | Some om \<Rightarrow> if ms_created_at nm > ms_created_at om then Some (ms_id nm) else current))"

definition ack :: "time \<Rightarrow> uuid \<Rightarrow> uuid \<Rightarrow> uuid \<Rightarrow> (read_state_row option, db) call" where
  "ack now user ch msg d =
     (case find (\<lambda>m. ms_id m = msg \<and> ms_channel_id m = ch \<and> ms_deleted_at m = None) (t_messages d) of
        None \<Rightarrow> (Inr None, d)
      | Some nm \<Rightarrow>
          (case find_read_state user ch d of
             None \<Rightarrow>
               (let row = \<lparr>rd_user_id = user, rd_channel_id = ch, rd_last_message_id = Some (ms_id nm), rd_mention_count = 0, rd_updated_at = now\<rparr>
                in if user \<notin> set (map u_id (t_users d)) \<or> ch \<notin> set (map ch_id (t_channels d)) then (Inl foreign_key_violation, d)
                   else (Inr (Some row), d\<lparr>t_read_states := t_read_states d @ [row]\<rparr>))
           | Some cur \<Rightarrow>
               (let row = cur\<lparr>rd_last_message_id := advanced nm d (rd_last_message_id cur), rd_mention_count := 0, rd_updated_at := now\<rparr>
                in (Inr (Some row),
                    d\<lparr>t_read_states := updated_rows (\<lambda>r. rd_user_id r = user \<and> rd_channel_id r = ch) (\<lambda>_. row) (t_read_states d)\<rparr>))))"

definition returning :: "('a option, db) call \<Rightarrow> ('a, db) call" where
  "returning q = bindc q (\<lambda>r. case r of None \<Rightarrow> fail pgx_ErrNoRows | Some x \<Rightarrow> ret x)"

definition Ack :: "time \<Rightarrow> uuid \<Rightarrow> uuid \<Rightarrow> uuid \<Rightarrow> (read_state_row, db) call" where
  "Ack now user ch msg = or_missing ErrMessageNotInChannel ''ack read state'' (returning (pg_stmt (ack now user ch msg)))"

definition DeleteByChannel :: "uuid \<Rightarrow> (unit, db) call" where
  "DeleteByChannel ch =
     maperr (Wrap ''delete read states by channel'')
       (pg_stmt (\<lambda>d. (Inr (), d\<lparr>t_read_states := filter (\<lambda>r. rd_channel_id r \<noteq> ch) (t_read_states d)\<rparr>)))"

end
