(* ===== verification/Message_Http.thy ===== *)
theory Message_Http
  imports Channel_Http Reactions Threads Presence
begin

text \<open>
  \<open>internal/api/message.go\<close>, \<open>errors.go\<close>, \<open>pin.go\<close> and the model of an attachment in \<open>attachment.go\<close>. A goroutine
  a handler starts is a value beside its answer, run later by \<open>run_go\<close>; the search index is a
  service outside the repository, so that the goroutines that feed it change nothing here.
\<close>

section \<open>Goroutines\<close>

datatype goroutine =
    GoIndexMessage string string string string int
  | GoUpdateMessage string string
  | GoDeleteMessage string
  | GoClearTyping uuid uuid

text \<open>An answer with the goroutines that were started; an early answer starts none.\<close>

definition answergo :: "('p, 'p reaction \<times> goroutine list, 's) step \<Rightarrow> 's \<Rightarrow> ('p reaction \<times> goroutine list) \<times> 's" where
  "answergo m s = (case m s of (Inl rx, s') \<Rightarrow> ((rx, []), s') | (Inr y, s') \<Rightarrow> (y, s'))"

definition typing_data :: "uuid_lib \<Rightarrow> uuid \<Rightarrow> uuid \<Rightarrow> TypingData" where
  "typing_data U channelID userID = \<lparr>yd_ChannelID = uuid_String U channelID, yd_UserID = uuid_String U userID\<rparr>"

fun run_go :: "uuid_lib \<Rightarrow> 'r valkey \<Rightarrow> proto \<Rightarrow> handler \<Rightarrow> goroutine \<Rightarrow> 'r world \<Rightarrow> 'r world" where
  "run_go U V M h (GoClearTyping channelID userID) w =
     (case on_vk (ClearTyping U V channelID userID) w of
        (Inl _, w1) \<Rightarrow> w1
      | (Inr existed, w1) \<Rightarrow>
          (if existed then Enqueue h (ev M EvTypingStop) (js_TypingStop M (typing_data U channelID userID)) w1 else w1))"
| "run_go U V M h _ w = w"

record message_handler =
  mh_handler :: handler
  mh_indexer :: bool
  mh_presence :: bool
  mh_maxContent :: int
  mh_maxAttachments :: int
  mh_baseURL :: string

section \<open>Models\<close>

text \<open>\<open>LocalStorage.URL\<close>\<close>

definition storage_URL :: "string \<Rightarrow> string \<Rightarrow> string" where
  "storage_URL baseURL key = baseURL @ ''/media/'' @ key"

definition toAttachmentModel :: "uuid_lib \<Rightarrow> string \<Rightarrow> attachment_row \<Rightarrow> AttachmentModel" where
  "toAttachmentModel U baseURL a =
     \<lparr>am_ID = uuid_String U (mt_id a), am_Filename = mt_filename a, am_URL = storage_URL baseURL (mt_storage_key a),
      am_Size = mt_size_bytes a, am_ContentType = mt_content_type a, am_Width = mt_width a, am_Height = mt_height a,
      am_ThumbnailURL = map_option (storage_URL baseURL) (mt_thumbnail_key a)\<rparr>"

record messageEnrichment =
  me_Attachments :: "attachment_row list"
  me_Summaries :: "Summary list"
  me_MyReactions :: "string \<Rightarrow> bool"

definition summary_model :: "uuid_lib \<Rightarrow> (string \<Rightarrow> bool) \<Rightarrow> Summary \<Rightarrow> ReactionSummaryModel" where
  "summary_model U mine s =
     \<lparr>rg_EmojiID = map_option (uuid_String U) (su_EmojiID s), rg_EmojiUnicode = su_EmojiUnicode s, rg_Count = su_Count s,
      rg_Me = mine (reactionKey U (su_EmojiID s) (su_EmojiUnicode s))\<rparr>"

definition buildMessageModel :: "uuid_lib \<Rightarrow> (time \<Rightarrow> string) \<Rightarrow> string \<Rightarrow> Message \<Rightarrow> messageEnrichment \<Rightarrow> MessageModel" where
  "buildMessageModel U Z baseURL m e =
     \<lparr>mo_ID = uuid_String U (ms_id m), mo_ChannelID = uuid_String U (ms_channel_id m),
      mo_Author = \<lparr>mu_ID = uuid_String U (ms_author_id m), mu_Username = mj_AuthorUsername m, mu_DisplayName = mj_AuthorDisplayName m,
                   mu_AvatarKey = mj_AuthorAvatarKey m\<rparr>,
      mo_Content = ms_content m, mo_Attachments = map (toAttachmentModel U baseURL) (me_Attachments e),
      mo_Reactions = map (summary_model U (me_MyReactions e)) (me_Summaries e),
      mo_ReplyToID = map_option (uuid_String U) (ms_reply_to_id m), mo_ThreadID = map_option (uuid_String U) (ms_thread_id m),
      mo_Pinned = ms_pinned m, mo_Encrypted = ms_encrypted m, mo_EditedAt = map_option Z (ms_edited_at m),
      mo_CreatedAt = Z (ms_created_at m)\<rparr>"

text \<open>A message without anything loaded beside it: no reactions, the given attachments.\<close>

definition bare :: "attachment_row list \<Rightarrow> messageEnrichment" where
  "bare as = \<lparr>me_Attachments = as, me_Summaries = [], me_MyReactions = (\<lambda>_. False)\<rparr>"

section \<open>Errors\<close>

definition mapMessageError :: "error \<Rightarrow> 'p reaction" where
  "mapMessageError e =
     (if errors_Is e message_ErrNotFound then Fail 404 (Coded ''UnknownMessage'') ''Message not found''
      else if errors_Is e ErrContentTooLong then Fail 400 ValidationError ''message content exceeds the maximum length''
      else if errors_Is e ErrEmptyContent then Fail 400 ValidationError ''message content must not be empty''
      else if errors_Is e ErrReplyNotFound then Fail 400 (Coded ''UnknownMessage'') ''reply target message not found''
      else if errors_Is e ErrNotAuthor then Fail 403 MissingPermissions ''You can only edit your own messages''
      else internal_error)"

text \<open>The other errors \<open>mapAttachmentError\<close> knows come from the upload of files.\<close>

definition media_ErrUnsupportedContentType :: error where "media_ErrUnsupportedContentType = Sentinel ''media.ErrUnsupportedContentType''"
definition media_ErrFileTooLarge :: error where "media_ErrFileTooLarge = Sentinel ''media.ErrFileTooLarge''"

definition mapAttachmentError :: "error \<Rightarrow> 'p reaction" where
  "mapAttachmentError e =
     (if errors_Is e attachment_ErrNotFound
      then Fail 400 (Coded ''UnknownAttachment'') ''One or more attachment IDs are invalid or unavailable''
      else if errors_Is e media_ErrUnsupportedContentType then Fail 400 (Coded ''UnsupportedContentType'') ''This file type is not allowed''
      else if errors_Is e media_ErrFileTooLarge then Fail 400 (Coded ''PayloadTooLarge'') ''File exceeds the maximum upload size''
      else internal_error)"

definition mapPinError :: "error \<Rightarrow> 'p reaction" where
  "mapPinError e =
     (if errors_Is e message_ErrNotFound then Fail 404 (Coded ''UnknownMessage'') ''Message not found''
      else if errors_Is e ErrAlreadyPinned then Fail 409 (Coded ''AlreadyPinned'') ''Message is already pinned''
      else if errors_Is e ErrNotPinned then Fail 409 (Coded ''NotPinned'') ''Message is not pinned''
      else internal_error)"

section \<open>Reading messages\<close>

definition before_query :: "uuid_lib \<Rightarrow> request \<Rightarrow> 'p reaction + uuid option" where
  "before_query U c =
     (let raw = rq_query c ''before''
      in if raw = [] then Inr None
         else case uuid_Parse U raw of
                None \<Rightarrow> Inl (Fail 400 ValidationError ''Invalid before parameter'')
              | Some i \<Rightarrow> Inr (Some i))"

text \<open>Attachments and reactions of all messages of a page, loaded in three queries.\<close>

definition enrich ::
  "uuid_lib \<Rightarrow> (time \<Rightarrow> string) \<Rightarrow> string \<Rightarrow> uuid \<Rightarrow> Message list \<Rightarrow> ('p, MessageModel list, 'r world) step" where
  "enrich U Z baseURL userID messages =
     (let ids = map ms_id messages
      in andthen (orfail (\<lambda>_. internal_error) (on_db (attachment_ListByMessages ids))) (\<lambda>attachmentMap.
         andthen (orfail (\<lambda>_. internal_error) (on_db (SummariesByMessages ids))) (\<lambda>reactionMap.
         andthen (orfail (\<lambda>_. internal_error) (on_db (UserReactionsByMessages U ids userID))) (\<lambda>userReactions.
         give (map (\<lambda>m. buildMessageModel U Z baseURL m
                 \<lparr>me_Attachments = attachmentMap (ms_id m), me_Summaries = reactionMap (ms_id m),
                  me_MyReactions = userReactions (ms_id m)\<rparr>) messages)))))"

definition ListMessages ::
  "uuid_lib \<Rightarrow> (time \<Rightarrow> string) \<Rightarrow> string \<Rightarrow> request \<Rightarrow> 'r world \<Rightarrow> MessageModel list reaction \<times> 'r world" where
  "ListMessages U Z baseURL c = answerh
     (andthen (checkh (ParseUUIDParam U c ''channelID'' InvalidChannelID)) (\<lambda>channelID.
      andthen (checkh (before_query U c)) (\<lambda>before.
      andthen (checkh (ParseIntQuery c ''limit'')) (\<lambda>rawLimit.
      andthen (orfail (\<lambda>_. internal_error) (on_db (message_List channelID before (message_ClampLimit rawLimit)))) (\<lambda>messages.
      andthen (checkh (UserID c)) (\<lambda>userID.
      andthen (enrich U Z baseURL userID messages) (\<lambda>result.
      give (Success result))))))))"

section \<open>Writing messages\<close>

record CreateMessageRequest =
  qm_Content :: string
  qm_ReplyToID :: "string option"
  qm_AttachmentIDs :: "string list"

text \<open>The content, which may be empty when there are attachments.\<close>

definition message_content :: "int \<Rightarrow> bool \<Rightarrow> string \<Rightarrow> ('p, string, 's) step" where
  "message_content maxContent hasAttachments content =
     checkh (case ValidateContent content maxContent of
               Inr s \<Rightarrow> Inr s
             | Inl e \<Rightarrow> (if errors_Is e ErrEmptyContent \<and> hasAttachments then Inr [] else Inl (mapMessageError e)))"

definition reply_ref :: "uuid_lib \<Rightarrow> string option \<Rightarrow> 'p reaction + uuid option" where
  "reply_ref U s =
     (case s of
        None \<Rightarrow> Inr None
      | Some t \<Rightarrow> (case uuid_Parse U t of
                     None \<Rightarrow> Inl (Fail 400 ValidationError ''Invalid reply_to_id format'')
                   | Some i \<Rightarrow> Inr (Some i)))"

definition link_attachments_step :: "uuid list \<Rightarrow> uuid \<Rightarrow> uuid \<Rightarrow> ('p, attachment_row list, 'r world) step" where
  "link_attachments_step ids msg userID =
     (if ids \<noteq> [] then orfail mapAttachmentError (on_db (LinkToMessage ids msg userID)) else give [])"

text \<open>What the two endpoints that create messages do with the body, once the channel is known.\<close>

definition post_message ::
  "uuid_lib \<Rightarrow> (time \<Rightarrow> string) \<Rightarrow> message_handler \<Rightarrow> uuid \<Rightarrow> time \<Rightarrow> uuid \<Rightarrow> uuid \<Rightarrow> uuid option \<Rightarrow> CreateMessageRequest
     \<Rightarrow> (MessageModel, Message \<times> MessageModel, 'r world) step" where
  "post_message U Z mh newID dbnow userID channelID threadID b =
     andthen (guardh (int (length (qm_AttachmentIDs b)) \<le> mh_maxAttachments mh)
                (Fail 400 ValidationError (''Too many attachments (maximum '' @ FormatInt (mh_maxAttachments mh) @ '')''))) (\<lambda>_.
     andthen (checkh (parse_ids U ''Invalid attachment_ids format'' (qm_AttachmentIDs b))) (\<lambda>attachmentIDs.
     andthen (message_content (mh_maxContent mh) (qm_AttachmentIDs b \<noteq> []) (qm_Content b)) (\<lambda>content.
     andthen (checkh (reply_ref U (qm_ReplyToID b))) (\<lambda>replyToID.
     andthen (orfail mapMessageError (on_db (message_Create newID dbnow
                \<lparr>mc_ChannelID = channelID, mc_AuthorID = userID, mc_Content = content, mc_ReplyToID = replyToID,
                 mc_ThreadID = threadID, mc_Encrypted = False\<rparr>))) (\<lambda>msg.
     andthen (link_attachments_step attachmentIDs (ms_id msg) userID) (\<lambda>linked.
     give (msg, buildMessageModel U Z (mh_baseURL mh) msg (bare linked))))))))"

definition CreateMessage ::
  "uuid_lib \<Rightarrow> proto \<Rightarrow> (time \<Rightarrow> string) \<Rightarrow> message_handler \<Rightarrow> uuid \<Rightarrow> time \<Rightarrow> request \<Rightarrow> CreateMessageRequest option
     \<Rightarrow> 'r world \<Rightarrow> (MessageModel reaction \<times> goroutine list) \<times> 'r world" where
  "CreateMessage U M Z mh newID dbnow c body = answergo
     (andthen (checkh (ParseUUIDParam U c ''channelID'' InvalidChannelID)) (\<lambda>channelID.
      andthen (checkh (UserID c)) (\<lambda>userID.
      andthen (bodyh body) (\<lambda>b.
      andthen (post_message U Z mh newID dbnow userID channelID None b) (\<lambda>(msg, result).
      andthen (effect (Enqueue (mh_handler mh) (ev M EvMessageCreate) (js_Message M result))) (\<lambda>_.
      give (SuccessStatus 201 result,
            (if mh_indexer mh
             then [GoIndexMessage (uuid_String U (ms_id msg)) (ms_content msg) (uuid_String U (ms_author_id msg))
                     (uuid_String U (ms_channel_id msg)) (ms_created_at msg div 1000)]
             else [])
            @ (if mh_presence mh \<and> h_gateway (mh_handler mh) then [GoClearTyping channelID userID] else []))))))))"

text \<open>The message of an edit with all that is loaded beside it.\<close>

definition full_model :: "uuid_lib \<Rightarrow> (time \<Rightarrow> string) \<Rightarrow> string \<Rightarrow> uuid \<Rightarrow> Message \<Rightarrow> (MessageModel, 'r world) call" where
  "full_model U Z baseURL userID msg =
     bindc (on_db (attachment_ListByMessage (ms_id msg))) (\<lambda>attachments.
     bindc (on_db (SummariesByMessages [ms_id msg])) (\<lambda>reactionMap.
     bindc (on_db (UserReactionsByMessages U [ms_id msg] userID)) (\<lambda>userReactions.
     ret (buildMessageModel U Z baseURL msg
            \<lparr>me_Attachments = attachments, me_Summaries = reactionMap (ms_id msg), me_MyReactions = userReactions (ms_id msg)\<rparr>))))"

definition EditMessage ::
  "uuid_lib \<Rightarrow> proto \<Rightarrow> (time \<Rightarrow> string) \<Rightarrow> message_handler \<Rightarrow> time \<Rightarrow> request \<Rightarrow> string option
     \<Rightarrow> 'r world \<Rightarrow> (MessageModel reaction \<times> goroutine list) \<times> 'r world" where
  "EditMessage U M Z mh dbnow c body = answergo
     (andthen (checkh (ParseUUIDParam U c ''messageID'' (Coded ''InvalidMessageID''))) (\<lambda>messageID.
      andthen (checkh (UserID c)) (\<lambda>userID.
      andthen (bodyh body) (\<lambda>b.
      andthen (valid mapMessageError (ValidateContent b (mh_maxContent mh))) (\<lambda>content.
      andthen (orfail mapMessageError (on_db (message_GetByID messageID))) (\<lambda>existing.
      andthen (guardh (ms_author_id existing = userID) (Fail 403 MissingPermissions ''You can only edit your own messages'')) (\<lambda>_.
      andthen (orfail mapMessageError (on_db (message_Update dbnow messageID content))) (\<lambda>msg.
      andthen (orfail (\<lambda>_. internal_error) (full_model U Z (mh_baseURL mh) userID msg)) (\<lambda>result.
      andthen (effect (Enqueue (mh_handler mh) (ev M EvMessageUpdate) (js_Message M result))) (\<lambda>_.
      give (Success result,
            if mh_indexer mh then [GoUpdateMessage (uuid_String U (ms_id msg)) (ms_content msg)] else [])))))))))))"

text \<open>Only a deletion by someone else is audited.\<close>

definition DeleteMessage ::
  "perm_lib \<Rightarrow> uuid_lib \<Rightarrow> 'r valkey \<Rightarrow> proto \<Rightarrow> message_handler \<Rightarrow> time \<Rightarrow> request
     \<Rightarrow> 'r world \<Rightarrow> (unit reaction \<times> goroutine list) \<times> 'r world" where
  "DeleteMessage P U V M mh dbnow c = answergo
     (andthen (checkh (ParseUUIDParam U c ''messageID'' (Coded ''InvalidMessageID''))) (\<lambda>messageID.
      andthen (checkh (UserID c)) (\<lambda>userID.
      andthen (orfail mapMessageError (on_db (message_GetByID messageID))) (\<lambda>existing.
      andthen (if ms_author_id existing \<noteq> userID
               then andthen (orfail (\<lambda>_. internal_error)
                      (HasPermission P PGStore (ValkeyCache U V) userID (ms_channel_id existing) (ManageMessages P))) (\<lambda>allowed.
                    guardh allowed (Fail 403 MissingPermissions ''You do not have permission to delete this message''))
               else give ()) (\<lambda>_.
      andthen (orfail mapMessageError (on_db (SoftDelete dbnow messageID userID))) (\<lambda>_.
      andthen (effect (if ms_author_id existing \<noteq> userID
                       then go_Record (mh_handler mh) (audit_entry userID ''message.delete'' ''message'' messageID) else id)) (\<lambda>_.
      andthen (effect (Enqueue (mh_handler mh) (ev M EvMessageDelete)
                 (js_MessageDelete M (uuid_String U messageID) (uuid_String U (ms_channel_id existing))))) (\<lambda>_.
      give (SendStatus 204, if mh_indexer mh then [GoDeleteMessage (uuid_String U messageID)] else [])))))))))"

section \<open>Pins\<close>

definition zero_message :: MessageModel where
  "zero_message =
     \<lparr>mo_ID = [], mo_ChannelID = [], mo_Author = \<lparr>mu_ID = [], mu_Username = [], mu_DisplayName = None, mu_AvatarKey = None\<rparr>,
      mo_Content = [], mo_Attachments = [], mo_Reactions = [], mo_ReplyToID = None, mo_ThreadID = None, mo_Pinned = False,
      mo_Encrypted = False, mo_EditedAt = None, mo_CreatedAt = []\<rparr>"

text \<open>
  \<open>fullMessageModel\<close>: when a query fails it writes a response of status 500 and returns the zero
  message together with the error of \<open>httputil.Fail\<close>, which is nil, since writing succeeded. The
  caller goes on with the zero message. The number is the status of the response so far.
\<close>

definition fullMessageModel ::
  "uuid_lib \<Rightarrow> (time \<Rightarrow> string) \<Rightarrow> string \<Rightarrow> uuid \<Rightarrow> Message \<Rightarrow> ('p, MessageModel \<times> nat, 'r world) step" where
  "fullMessageModel U Z baseURL userID msg =
     andthen (attempt (full_model U Z baseURL userID msg)) (\<lambda>r.
     give (case r of Inl _ \<Rightarrow> (zero_message, 500) | Inr result \<Rightarrow> (result, 200)))"

text \<open>\<open>httputil.Success\<close> writes the body and leaves the status as it is.\<close>

definition Success_over :: "nat \<Rightarrow> 'p \<Rightarrow> 'p reaction" where
  "Success_over status data = Respond \<lparr>rs_status = status, rs_body = SuccessResponse data\<rparr>"

text \<open>The two pin endpoints differ in the repository call, a message and the audited action.\<close>

definition change_pin ::
  "perm_lib \<Rightarrow> uuid_lib \<Rightarrow> 'r valkey \<Rightarrow> proto \<Rightarrow> (time \<Rightarrow> string) \<Rightarrow> message_handler \<Rightarrow> (uuid \<Rightarrow> (Message, db) call) \<Rightarrow> string \<Rightarrow> string
     \<Rightarrow> request \<Rightarrow> 'r world \<Rightarrow> MessageModel reaction \<times> 'r world" where
  "change_pin P U V M Z mh change denied action c = answerh
     (andthen (checkh (ParseUUIDParam U c ''messageID'' (Coded ''InvalidMessageID''))) (\<lambda>messageID.
      andthen (checkh (UserID c)) (\<lambda>userID.
      andthen (orfail mapPinError (on_db (message_GetByID messageID))) (\<lambda>existing.
      andthen (orfail (\<lambda>_. internal_error)
                 (HasPermission P PGStore (ValkeyCache U V) userID (ms_channel_id existing) (ManageMessages P))) (\<lambda>allowed.
      andthen (guardh allowed (Fail 403 MissingPermissions denied)) (\<lambda>_.
      andthen (orfail mapPinError (on_db (change messageID))) (\<lambda>msg.
      andthen (effect (go_Record (mh_handler mh) (audit_entry userID action ''message'' messageID))) (\<lambda>_.
      andthen (fullMessageModel U Z (mh_baseURL mh) userID msg) (\<lambda>(result, status).
      andthen (effect (Enqueue (mh_handler mh) (ev M EvMessageUpdate) (js_Message M result))) (\<lambda>_.
      give (Success_over status result)))))))))))"

definition PinMessage ::
  "perm_lib \<Rightarrow> uuid_lib \<Rightarrow> 'r valkey \<Rightarrow> proto \<Rightarrow> (time \<Rightarrow> string) \<Rightarrow> message_handler \<Rightarrow> time \<Rightarrow> request
     \<Rightarrow> 'r world \<Rightarrow> MessageModel reaction \<times> 'r world" where
  "PinMessage P U V M Z mh dbnow =
     change_pin P U V M Z mh (Pin dbnow) ''You do not have permission to pin messages in this channel'' ''message.pin''"

definition UnpinMessage ::
  "perm_lib \<Rightarrow> uuid_lib \<Rightarrow> 'r valkey \<Rightarrow> proto \<Rightarrow> (time \<Rightarrow> string) \<Rightarrow> message_handler \<Rightarrow> time \<Rightarrow> request
     \<Rightarrow> 'r world \<Rightarrow> MessageModel reaction \<times> 'r world" where
  "UnpinMessage P U V M Z mh dbnow =
     change_pin P U V M Z mh (Unpin dbnow) ''You do not have permission to unpin messages in this channel'' ''message.unpin''"

definition ListPins ::
  "uuid_lib \<Rightarrow> (time \<Rightarrow> string) \<Rightarrow> string \<Rightarrow> request \<Rightarrow> 'r world \<Rightarrow> MessageModel list reaction \<times> 'r world" where
  "ListPins U Z baseURL c = answerh
     (andthen (checkh (ParseUUIDParam U c ''channelID'' InvalidChannelID)) (\<lambda>channelID.
      andthen (checkh (UserID c)) (\<lambda>userID.
      andthen (orfail (\<lambda>_. internal_error) (on_db (ListPinned channelID))) (\<lambda>messages.
      andthen (enrich U Z baseURL userID messages) (\<lambda>result.
      give (Success result))))))"

end
