(* ===== verification/Thread_Http.thy ===== *)
theory Thread_Http
  imports Message_Http
begin

text \<open>
  \<open>internal/api/thread.go\<close>, \<open>reaction.go\<close>, \<open>readstate.go\<close>, \<open>typing.go\<close> and \<open>audit.go\<close>.
\<close>

section \<open>Threads\<close>

definition toThreadModel :: "uuid_lib \<Rightarrow> (time \<Rightarrow> string) \<Rightarrow> thread_row \<Rightarrow> ThreadModel" where
  "toThreadModel U Z t =
     \<lparr>tm_ID = uuid_String U (th_id t), tm_ChannelID = uuid_String U (th_channel_id t),
      tm_ParentMessageID = uuid_String U (th_parent_message_id t), tm_Name = th_name t, tm_Archived = th_archived t,
      tm_Locked = th_locked t, tm_CreatedAt = Z (th_created_at t), tm_UpdatedAt = Z (th_updated_at t)\<rparr>"

definition thread_archived :: "'p reaction" where
  "thread_archived = Fail 403 (Coded ''ThreadArchived'') ''This thread is archived''"

definition thread_locked :: "'p reaction" where
  "thread_locked = Fail 403 (Coded ''ThreadLocked'') ''This thread is locked''"

definition mapThreadError :: "error \<Rightarrow> 'p reaction" where
  "mapThreadError e =
     (if errors_Is e thread_ErrNotFound then Fail 404 (Coded ''UnknownThread'') ''Thread not found''
      else if errors_Is e thread_ErrAlreadyExists then Fail 409 (Coded ''ThreadExists'') ''A thread already exists for this message''
      else if errors_Is e ErrArchived then thread_archived
      else if errors_Is e ErrLocked then thread_locked
      else if errors_Is e thread_ErrNameLength then Fail 400 ValidationError ''thread name must be between 1 and 100 characters''
      else if errors_Is e ErrMessageNotFound then Fail 404 (Coded ''UnknownMessage'') ''Parent message not found''
      else internal_error)"

text \<open>\<open>resolver.HasPermission\<close> in a handler: an error is internal, a missing permission is refused.\<close>

definition permitted ::
  "perm_lib \<Rightarrow> uuid_lib \<Rightarrow> 'r valkey \<Rightarrow> uuid \<Rightarrow> uuid \<Rightarrow> perm \<Rightarrow> string \<Rightarrow> ('p, unit, 'r world) step" where
  "permitted P U V userID channelID p denied =
     andthen (orfail (\<lambda>_. internal_error) (HasPermission P PGStore (ValkeyCache U V) userID channelID p)) (\<lambda>allowed.
     guardh allowed (Fail 403 MissingPermissions denied))"

definition CreateThread ::
  "perm_lib \<Rightarrow> uuid_lib \<Rightarrow> 'r valkey \<Rightarrow> proto \<Rightarrow> (time \<Rightarrow> string) \<Rightarrow> handler \<Rightarrow> uuid \<Rightarrow> time \<Rightarrow> request \<Rightarrow> string option
     \<Rightarrow> 'r world \<Rightarrow> ThreadModel reaction \<times> 'r world" where
  "CreateThread P U V M Z h newID dbnow c body = answerh
     (andthen (checkh (ParseUUIDParam U c ''messageID'' (Coded ''InvalidMessageID''))) (\<lambda>messageID.
      andthen (checkh (UserID c)) (\<lambda>userID.
      andthen (bodyh body) (\<lambda>b.
      andthen (valid mapThreadError (thread_ValidateNameRequired b)) (\<lambda>name.
      andthen (orfail (\<lambda>e. if errors_Is e message_ErrNotFound then Fail 404 (Coded ''UnknownMessage'') ''Message not found''
                          else internal_error) (on_db (message_GetByID messageID))) (\<lambda>parentMsg.
      andthen (permitted P U V userID (ms_channel_id parentMsg) (CreateThreads P)
                 ''You do not have permission to create threads in this channel'') (\<lambda>_.
      andthen (orfail mapThreadError (on_db (thread_Create newID dbnow
                 \<lparr>tp_ChannelID = ms_channel_id parentMsg, tp_ParentMessageID = messageID, tp_Name = name\<rparr>))) (\<lambda>t.
      andthen (effect (Enqueue h (ev M EvThreadCreate) (js_Thread M (toThreadModel U Z t)))) (\<lambda>_.
      give (SuccessStatus 201 (toThreadModel U Z t)))))))))))"

definition ListThreads ::
  "uuid_lib \<Rightarrow> (time \<Rightarrow> string) \<Rightarrow> request \<Rightarrow> 'r world \<Rightarrow> ThreadModel list reaction \<times> 'r world" where
  "ListThreads U Z c = answerh
     (andthen (checkh (ParseUUIDParam U c ''channelID'' InvalidChannelID)) (\<lambda>channelID.
      andthen (checkh (before_query U c)) (\<lambda>before.
      andthen (checkh (ParseIntQuery c ''limit'')) (\<lambda>rawLimit.
      andthen (orfail (\<lambda>_. internal_error) (on_db (ListByChannel channelID before (thread_ClampLimit rawLimit)))) (\<lambda>threads.
      give (Success (map (toThreadModel U Z) threads)))))))"

definition GetThread ::
  "perm_lib \<Rightarrow> uuid_lib \<Rightarrow> 'r valkey \<Rightarrow> (time \<Rightarrow> string) \<Rightarrow> request \<Rightarrow> 'r world \<Rightarrow> ThreadModel reaction \<times> 'r world" where
  "GetThread P U V Z c = answerh
     (andthen (checkh (ParseUUIDParam U c ''threadID'' (Coded ''InvalidThreadID''))) (\<lambda>threadID.
      andthen (checkh (UserID c)) (\<lambda>userID.
      andthen (orfail mapThreadError (on_db (thread_GetByID threadID))) (\<lambda>t.
      andthen (permitted P U V userID (th_channel_id t) (ViewChannels P) ''You do not have permission to view this channel'') (\<lambda>_.
      give (Success (toThreadModel U Z t)))))))"

definition UpdateThread ::
  "perm_lib \<Rightarrow> uuid_lib \<Rightarrow> 'r valkey \<Rightarrow> proto \<Rightarrow> (time \<Rightarrow> string) \<Rightarrow> handler \<Rightarrow> time \<Rightarrow> request \<Rightarrow> thread_UpdateParams option
     \<Rightarrow> 'r world \<Rightarrow> ThreadModel reaction \<times> 'r world" where
  "UpdateThread P U V M Z h dbnow c body = answerh
     (andthen (checkh (ParseUUIDParam U c ''threadID'' (Coded ''InvalidThreadID''))) (\<lambda>threadID.
      andthen (checkh (UserID c)) (\<lambda>userID.
      andthen (orfail mapThreadError (on_db (thread_GetByID threadID))) (\<lambda>t.
      andthen (permitted P U V userID (th_channel_id t) (ManageChannels P)
                 ''You do not have permission to manage threads in this channel'') (\<lambda>_.
      andthen (bodyh body) (\<lambda>b.
      andthen (valid mapThreadError (thread_ValidateName (tu_Name b))) (\<lambda>name.
      andthen (orfail mapThreadError (on_db (thread_Update dbnow threadID (b\<lparr>tu_Name := name\<rparr>)))) (\<lambda>updated.
      andthen (effect (Enqueue h (ev M EvThreadUpdate) (js_Thread M (toThreadModel U Z updated)))) (\<lambda>_.
      give (Success (toThreadModel U Z updated)))))))))))"

definition ListThreadMessages ::
  "perm_lib \<Rightarrow> uuid_lib \<Rightarrow> 'r valkey \<Rightarrow> (time \<Rightarrow> string) \<Rightarrow> string \<Rightarrow> request \<Rightarrow> 'r world \<Rightarrow> MessageModel list reaction \<times> 'r world" where
  "ListThreadMessages P U V Z baseURL c = answerh
     (andthen (checkh (ParseUUIDParam U c ''threadID'' (Coded ''InvalidThreadID''))) (\<lambda>threadID.
      andthen (checkh (UserID c)) (\<lambda>userID.
      andthen (orfail mapThreadError (on_db (thread_GetByID threadID))) (\<lambda>t.
      andthen (permitted P U V userID (th_channel_id t) (ViewChannels P OR ReadMessageHistory P)
                 ''You do not have permission to read messages in this channel'') (\<lambda>_.
      andthen (checkh (before_query U c)) (\<lambda>before.
      andthen (checkh (ParseIntQuery c ''limit'')) (\<lambda>rawLimit.
      andthen (orfail (\<lambda>_. internal_error) (on_db (ListByThread threadID before (message_ClampLimit rawLimit)))) (\<lambda>messages.
      andthen (enrich U Z baseURL userID messages) (\<lambda>result.
      give (Success result))))))))))"

definition CreateThreadMessage ::
  "perm_lib \<Rightarrow> uuid_lib \<Rightarrow> 'r valkey \<Rightarrow> proto \<Rightarrow> (time \<Rightarrow> string) \<Rightarrow> message_handler \<Rightarrow> uuid \<Rightarrow> time \<Rightarrow> request
     \<Rightarrow> CreateMessageRequest option \<Rightarrow> 'r world \<Rightarrow> (MessageModel reaction \<times> goroutine list) \<times> 'r world" where
  "CreateThreadMessage P U V M Z mh newID dbnow c body = answergo
     (andthen (checkh (ParseUUIDParam U c ''threadID'' (Coded ''InvalidThreadID''))) (\<lambda>threadID.
      andthen (checkh (UserID c)) (\<lambda>userID.
      andthen (orfail mapThreadError (on_db (thread_GetByID threadID))) (\<lambda>t.
      andthen (guardh (\<not> th_archived t) thread_archived) (\<lambda>_.
      andthen (guardh (\<not> th_locked t) thread_locked) (\<lambda>_.
      andthen (permitted P U V userID (th_channel_id t) (SendMessagesThreads P)
                 ''You do not have permission to send messages in threads'') (\<lambda>_.
      andthen (bodyh body) (\<lambda>b.
      andthen (post_message U Z mh newID dbnow userID (th_channel_id t) (Some threadID) b) (\<lambda>(msg, result).
      andthen (effect (Enqueue (mh_handler mh) (ev M EvMessageCreate) (js_Message M result))) (\<lambda>_.
      give (SuccessStatus 201 result,
            if mh_presence mh \<and> h_gateway (mh_handler mh) then [GoClearTyping (th_channel_id t) userID] else [])))))))))))"

section \<open>Reactions\<close>

definition parseEmojiParam :: "uuid_lib \<Rightarrow> string \<Rightarrow> (uuid option \<times> string option) result" where
  "parseEmojiParam U param =
     (if param = [] then Inl (Ext ''emoji parameter is required'')
      else if take 7 param = ''custom:''
      then (case uuid_Parse U (drop 7 param) of
              None \<Rightarrow> Inl (Ext ''invalid custom emoji ID format'')
            | Some i \<Rightarrow> Inr (Some i, None))
      else Inr (None, Some param))"

definition emoji_param :: "uuid_lib \<Rightarrow> request \<Rightarrow> ('p, uuid option \<times> string option, 's) step" where
  "emoji_param U c =
     valid (\<lambda>e. Fail 400 ValidationError (case e of Ext m \<Rightarrow> m | _ \<Rightarrow> [])) (parseEmojiParam U (rq_params c ''emoji''))"

definition mapReactionError :: "error \<Rightarrow> 'p reaction" where
  "mapReactionError e =
     (if errors_Is e ErrAlreadyReacted then Fail 409 (Coded ''AlreadyReacted'') ''You have already reacted with this emoji''
      else if errors_Is e reaction_ErrNotFound then Fail 404 (Coded ''ReactionNotFound'') ''Reaction not found''
      else if errors_Is e message_ErrNotFound then Fail 404 (Coded ''UnknownMessage'') ''Message not found''
      else internal_error)"

definition reaction_data :: "uuid_lib \<Rightarrow> uuid \<Rightarrow> uuid \<Rightarrow> uuid \<Rightarrow> uuid option \<times> string option \<Rightarrow> ReactionData" where
  "reaction_data U messageID channelID userID e =
     \<lparr>xd_MessageID = uuid_String U messageID, xd_ChannelID = uuid_String U channelID, xd_UserID = uuid_String U userID,
      xd_EmojiID = map_option (uuid_String U) (fst e), xd_EmojiUnicode = snd e\<rparr>"

definition AddReaction ::
  "uuid_lib \<Rightarrow> proto \<Rightarrow> handler \<Rightarrow> uuid \<Rightarrow> time \<Rightarrow> request \<Rightarrow> 'r world \<Rightarrow> unit reaction \<times> 'r world" where
  "AddReaction U M h newID dbnow c = answerh
     (andthen (checkh (ParseUUIDParam U c ''channelID'' InvalidChannelID)) (\<lambda>channelID.
      andthen (checkh (ParseUUIDParam U c ''messageID'' (Coded ''InvalidMessageID''))) (\<lambda>messageID.
      andthen (checkh (UserID c)) (\<lambda>userID.
      andthen (emoji_param U c) (\<lambda>e.
      andthen (orfail mapReactionError (on_db (message_GetByID messageID))) (\<lambda>msg.
      andthen (guardh (ms_channel_id msg = channelID) (Fail 404 (Coded ''UnknownMessage'') ''Message not found in this channel'')) (\<lambda>_.
      andthen (case fst e of
                 None \<Rightarrow> give ()
               | Some i \<Rightarrow>
                   andthen (orfail (\<lambda>err. if errors_Is err emoji_ErrNotFound
                                          then Fail 404 (Coded ''UnknownEmoji'') ''Custom emoji not found'' else internal_error)
                              (on_db (emoji_GetByID i))) (\<lambda>_. give ())) (\<lambda>_.
      andthen (orfail mapReactionError (on_db (Add newID dbnow messageID userID (fst e) (snd e)))) (\<lambda>_.
      andthen (effect (Enqueue h (ev M EvReactionAdd) (js_ReactionAdd M (reaction_data U messageID channelID userID e)))) (\<lambda>_.
      give (SendStatus 204)))))))))))"

definition RemoveReaction ::
  "uuid_lib \<Rightarrow> proto \<Rightarrow> handler \<Rightarrow> request \<Rightarrow> 'r world \<Rightarrow> unit reaction \<times> 'r world" where
  "RemoveReaction U M h c = answerh
     (andthen (checkh (ParseUUIDParam U c ''channelID'' InvalidChannelID)) (\<lambda>channelID.
      andthen (checkh (ParseUUIDParam U c ''messageID'' (Coded ''InvalidMessageID''))) (\<lambda>messageID.
      andthen (checkh (UserID c)) (\<lambda>userID.
      andthen (emoji_param U c) (\<lambda>e.
      andthen (orfail mapReactionError (on_db (Remove messageID userID (fst e) (snd e)))) (\<lambda>_.
      andthen (effect (Enqueue h (ev M EvReactionRemove) (js_ReactionRemove M (reaction_data U messageID channelID userID e)))) (\<lambda>_.
      give (SendStatus 204))))))))"

text \<open>
  \<open>groupReactions\<close> keeps the order in which an emoji is first seen; \<open>counts\<close> maps the texts of both
  columns to the summary so far.
\<close>

definition reaction_text :: "uuid_lib \<Rightarrow> Reaction \<Rightarrow> string \<times> string" where
  "reaction_text U r =
     ((case rx_emoji_id r of None \<Rightarrow> [] | Some i \<Rightarrow> uuid_String U i), (case rx_emoji_unicode r of None \<Rightarrow> [] | Some s \<Rightarrow> s))"

definition group_one ::
  "uuid_lib \<Rightarrow> uuid \<Rightarrow> ((string \<times> string) \<times> ReactionSummaryModel) list \<Rightarrow> Reaction \<Rightarrow> ((string \<times> string) \<times> ReactionSummaryModel) list" where
  "group_one U me groups r =
     (let k = reaction_text U r;
          count = (\<lambda>s. s\<lparr>rg_Count := rg_Count s + 1, rg_Me := (rg_Me s \<or> rx_user_id r = me)\<rparr>);
          new = \<lparr>rg_EmojiID = map_option (uuid_String U) (rx_emoji_id r), rg_EmojiUnicode = rx_emoji_unicode r, rg_Count = 0, rg_Me = False\<rparr>
      in if k \<in> set (map fst groups) then map (\<lambda>g. if fst g = k then (k, count (snd g)) else g) groups
         else groups @ [(k, count new)])"

definition groupReactions :: "uuid_lib \<Rightarrow> uuid \<Rightarrow> Reaction list \<Rightarrow> ReactionSummaryModel list" where
  "groupReactions U me rs = map snd (foldl (group_one U me) [] rs)"

definition ListReactions ::
  "uuid_lib \<Rightarrow> request \<Rightarrow> 'r world \<Rightarrow> ReactionSummaryModel list reaction \<times> 'r world" where
  "ListReactions U c = answerh
     (andthen (checkh (ParseUUIDParam U c ''channelID'' InvalidChannelID)) (\<lambda>_.
      andthen (checkh (ParseUUIDParam U c ''messageID'' (Coded ''InvalidMessageID''))) (\<lambda>messageID.
      andthen (checkh (UserID c)) (\<lambda>userID.
      andthen (orfail (\<lambda>_. internal_error) (on_db (reaction_ListByMessage messageID))) (\<lambda>rs.
      give (Success (groupReactions U userID rs)))))))"

definition ListReactionUsers ::
  "uuid_lib \<Rightarrow> request \<Rightarrow> 'r world \<Rightarrow> ReactionUserModel list reaction \<times> 'r world" where
  "ListReactionUsers U c = answerh
     (andthen (checkh (ParseUUIDParam U c ''channelID'' InvalidChannelID)) (\<lambda>_.
      andthen (checkh (ParseUUIDParam U c ''messageID'' (Coded ''InvalidMessageID''))) (\<lambda>messageID.
      andthen (emoji_param U c) (\<lambda>e.
      andthen (orfail (\<lambda>_. internal_error) (on_db (ListByEmoji messageID (fst e) (snd e)))) (\<lambda>rs.
      give (Success (map (\<lambda>r. \<lparr>ru_UserID = uuid_String U (rx_user_id r), ru_Username = rj_Username r\<rparr>) rs)))))))"

section \<open>Read states\<close>

definition mapReadStateError :: "error \<Rightarrow> 'p reaction" where
  "mapReadStateError e =
     (if errors_Is e ErrMessageNotInChannel then Fail 400 (Coded ''InvalidMessageID'') ''Message does not exist in this channel''
      else internal_error)"

definition EnqueueTargeted :: "handler \<Rightarrow> string \<Rightarrow> json \<Rightarrow> uuid list \<Rightarrow> 'r world \<Rightarrow> 'r world" where
  "EnqueueTargeted h eventType data targets w =
     (if h_gateway h
      then w\<lparr>w_pub := enqueue \<lparr>jb_eventType = eventType, jb_data = data, jb_targets = targets\<rparr> (w_pub w)\<rparr>
      else w)"

definition AckHandler ::
  "uuid_lib \<Rightarrow> proto \<Rightarrow> handler \<Rightarrow> time \<Rightarrow> request \<Rightarrow> string option \<Rightarrow> 'r world \<Rightarrow> ReadStateModel reaction \<times> 'r world" where
  "AckHandler U M h dbnow c body = answerh
     (andthen (checkh (UserID c)) (\<lambda>userID.
      andthen (checkh (ParseUUIDParam U c ''channelID'' InvalidChannelID)) (\<lambda>channelID.
      andthen (bodyh body) (\<lambda>b.
      andthen (checkh (parse_id U (Coded ''InvalidMessageID'') ''Invalid message ID format'' b)) (\<lambda>messageID.
      andthen (orfail mapReadStateError (on_db (Ack dbnow userID channelID messageID))) (\<lambda>rs.
      andthen (effect (EnqueueTargeted h (ev M EvMessageAck)
                 (js_MessageAck M (uuid_String U channelID) (uuid_String U messageID)) [userID])) (\<lambda>_.
      give (Success (readstate_ToModel U rs)))))))))"

section \<open>Typing\<close>

definition StartTyping ::
  "uuid_lib \<Rightarrow> 'r valkey \<Rightarrow> proto \<Rightarrow> (time \<Rightarrow> string) \<Rightarrow> handler \<Rightarrow> time \<Rightarrow> request \<Rightarrow> 'r world \<Rightarrow> unit reaction \<times> 'r world" where
  "StartTyping U V M Z h now c = answerh
     (andthen (checkh (UserID c)) (\<lambda>userID.
      andthen (checkh (ParseUUIDParam U c ''channelID'' InvalidChannelID)) (\<lambda>channelID.
      andthen (orfail (\<lambda>_. internal_error) (on_vk (SetTyping U V channelID userID))) (\<lambda>created.
      andthen (effect (if created then Enqueue h (ev M EvTypingStart) (js_TypingStart M (typing_data U channelID userID) (Z now)) else id)) (\<lambda>_.
      give (SendStatus 204))))))"

definition StopTyping ::
  "uuid_lib \<Rightarrow> 'r valkey \<Rightarrow> proto \<Rightarrow> handler \<Rightarrow> request \<Rightarrow> 'r world \<Rightarrow> unit reaction \<times> 'r world" where
  "StopTyping U V M h c = answerh
     (andthen (checkh (UserID c)) (\<lambda>userID.
      andthen (checkh (ParseUUIDParam U c ''channelID'' InvalidChannelID)) (\<lambda>channelID.
      andthen (orfail (\<lambda>_. internal_error) (on_vk (ClearTyping U V channelID userID))) (\<lambda>existed.
      andthen (effect (if existed then Enqueue h (ev M EvTypingStop) (js_TypingStop M (typing_data U channelID userID)) else id)) (\<lambda>_.
      give (SendStatus 204))))))"

section \<open>The audit log\<close>

text \<open>An optional identifier in the query string.\<close>

definition id_query :: "uuid_lib \<Rightarrow> request \<Rightarrow> string \<Rightarrow> 'p reaction + uuid option" where
  "id_query U c param =
     (let raw = rq_query c param
      in if raw = [] then Inr None
         else case uuid_Parse U raw of
                None \<Rightarrow> Inl (Fail 400 ValidationError (''Invalid '' @ param @ '' parameter''))
              | Some i \<Rightarrow> Inr (Some i))"

record AuditLogEntryModel =
  ae_ID :: string
  ae_ActorID :: string
  ae_Action :: string
  ae_TargetType :: "string option"
  ae_TargetID :: "string option"
  ae_Changes :: "json option"
  ae_Reason :: "string option"
  ae_CreatedAt :: string

definition entry_ToModel :: "uuid_lib \<Rightarrow> (time \<Rightarrow> string) \<Rightarrow> Entry \<Rightarrow> AuditLogEntryModel" where
  "entry_ToModel U Z e =
     \<lparr>ae_ID = uuid_String U (en_ID e), ae_ActorID = (case en_ActorID e of None \<Rightarrow> [] | Some i \<Rightarrow> uuid_String U i),
      ae_Action = en_Action e, ae_TargetType = en_TargetType e, ae_TargetID = map_option (uuid_String U) (en_TargetID e),
      ae_Changes = en_Changes e, ae_Reason = en_Reason e, ae_CreatedAt = Z (en_CreatedAt e)\<rparr>"

definition ListAudit ::
  "uuid_lib \<Rightarrow> (time \<Rightarrow> string) \<Rightarrow> request \<Rightarrow> 'r world \<Rightarrow> AuditLogEntryModel list reaction \<times> 'r world" where
  "ListAudit U Z c = answerh
     (andthen (checkh (id_query U c ''actor_id'')) (\<lambda>actor.
      (let action = (if rq_query c ''action_type'' = [] then None else Some (rq_query c ''action_type''))
       in andthen (checkh (id_query U c ''target_id'')) (\<lambda>target.
          andthen (checkh (id_query U c ''before'')) (\<lambda>before.
          andthen (checkh (ParseIntQuery c ''limit'')) (\<lambda>rawLimit.
          andthen (orfail (\<lambda>_. internal_error) (on_db (audit_List
                     \<lparr>lp_ActorID = actor, lp_ActionType = action, lp_TargetID = target, lp_Before = before,
                      lp_Limit = ClampLimit rawLimit\<rparr>))) (\<lambda>entries.
          give (Success (map (entry_ToModel U Z) entries)))))))))"

end
