(* ===== verification/Reading.thy ===== *)
theory Reading
  imports Handlers Queries Joining Channels Messages Reactions Threads Member_Laws Auth_Laws
begin

text \<open>
  Steps that only read: they leave every table as it was, so that a change of the tables is the work
  of the steps that follow. The rules compose them along a handler or a repository call.
\<close>

section \<open>Calls of a repository\<close>

definition reads :: "('a, db) call \<Rightarrow> bool" where
  "reads m \<longleftrightarrow> (\<forall>d x d'. m d = (x, d') \<longrightarrow> tables d' = tables d)"

named_theorems reading

lemma readsD: "reads m \<Longrightarrow> m d = (x, d') \<Longrightarrow> tables d' = tables d"
  by (simp add: reads_def)

lemma readsI: "(\<And>d x d'. m d = (x, d') \<Longrightarrow> tables d' = tables d) \<Longrightarrow> reads m"
  by (simp add: reads_def)

lemma reads_basic [reading]: "reads (ret x)" "reads (fail e)" "reads (lift r)" "reads (pg_query f)"
  by (auto simp: reads_def dest: pg_query_tables)

lemma reads_bindc [reading]: "reads m \<Longrightarrow> (\<And>x. reads (g x)) \<Longrightarrow> reads (bindc m g)"
  unfolding reads_def by (auto elim!: bindc_cases; metis)

lemma reads_catchc [reading]: "reads m \<Longrightarrow> (\<And>e. reads (h e)) \<Longrightarrow> (\<And>x. reads (g x)) \<Longrightarrow> reads (catchc m h g)"
  unfolding reads_def by (auto elim!: catchc_cases; metis)

lemma reads_maperr [reading]: "reads m \<Longrightarrow> reads (maperr h m)"
  by (auto simp: reads_def maperr_def split: prod.splits sum.splits)

lemma reads_case [reading]:
  "reads m1 \<Longrightarrow> reads m2 \<Longrightarrow> reads (if b then m1 else m2)"
  "reads m1 \<Longrightarrow> (\<And>x. reads (g x)) \<Longrightarrow> reads (case y of None \<Rightarrow> m1 | Some x \<Rightarrow> g x)"
  "(\<And>x. reads (g1 x)) \<Longrightarrow> (\<And>x. reads (g x)) \<Longrightarrow> reads (case z of Inl x \<Rightarrow> g1 x | Inr x \<Rightarrow> g x)"
  by (simp_all split: option.splits sum.splits)

lemma reads_scan [reading]: "reads m \<Longrightarrow> reads (scan_one msg m)" and reads_rows [reading]: "reads (rows_of msg f)"
  unfolding scan_one_def rows_of_def by (intro reading | assumption)+

lemma reads_missing [reading]: "reads m \<Longrightarrow> reads (or_missing missing msg m)"
  unfolding or_missing_def by (intro reading)

lemma reads_repositories [reading]:
  "reads (user_GetByID u)" "reads (GetByUserIDAnyStatus u)" "reads (GetByUserID u)" "reads (IsBanned u)" "reads (GetStatus u)"
  by (auto intro!: readsI dest: read_tables GetByUserIDAnyStatus_tables GetByUserID_tables)
    (auto simp: IsBanned_def GetStatus_def split: prod.splits sum.splits option.splits dest: pg_query_tables)

lemma reads_onboarding [reading]: "reads onboarding_Get"
  unfolding onboarding_Get_def onboarding_scanConfig_def by (intro reading)

lemma reads_invite [reading]: "reads (GetByCode code)"
  unfolding GetByCode_def scanInvite_def by (intro reading)

lemma reads_diagnosis [reading]: "reads (diagnoseUseFailure now code)"
  unfolding diagnoseUseFailure_def by (intro reading)

section \<open>Steps of a handler\<close>

definition calm :: "('p, 'a, 'r world) step \<Rightarrow> bool" where
  "calm m \<longleftrightarrow> (\<forall>w x w'. m w = (x, w') \<longrightarrow> tables (w_db w') = tables (w_db w) \<and> w_vk w' = w_vk w \<and> w_pub w' = w_pub w \<and> w_audit w' = w_audit w)"

lemma calmI:
  "(\<And>w x w'. m w = (x, w') \<Longrightarrow> tables (w_db w') = tables (w_db w) \<and> w_vk w' = w_vk w \<and> w_pub w' = w_pub w \<and> w_audit w' = w_audit w)
     \<Longrightarrow> calm m"
  by (simp add: calm_def)

lemma calmD: "calm m \<Longrightarrow> m w = (x, w') \<Longrightarrow> tables (w_db w') = tables (w_db w) \<and> w_vk w' = w_vk w \<and> w_pub w' = w_pub w \<and> w_audit w' = w_audit w"
  by (simp add: calm_def)

lemma calm_basic [reading]:
  "calm (give x)" "calm (stop rx)" "calm (checkh r)" "calm (valid f v)" "calm (bodyh b)" "calm (guardh g rx)"
  by (auto intro!: calmI simp: valid_def bodyh_def guardh_def split: sum.splits if_splits)

lemma calm_calls [reading]: "reads m \<Longrightarrow> calm (orfail f (on_db m))" "reads m \<Longrightarrow> calm (attempt (on_db m))"
  by (rule calmI; auto simp: orfail_def split: prod.splits sum.splits dest!: on_dbD dest: readsD)+

lemma calm_andthen [reading]: "calm m \<Longrightarrow> (\<And>x. calm (k x)) \<Longrightarrow> calm (andthen m k)"
  by (rule calmI) (erule andthen_cases; metis calmD)

lemma calm_case [reading]:
  "calm m1 \<Longrightarrow> calm m2 \<Longrightarrow> calm (if b then m1 else m2)"
  "calm m1 \<Longrightarrow> (\<And>x. calm (g x)) \<Longrightarrow> calm (case y of None \<Rightarrow> m1 | Some x \<Rightarrow> g x)"
  "(\<And>x. calm (g1 x)) \<Longrightarrow> (\<And>x. calm (g x)) \<Longrightarrow> calm (case z of Inl x \<Rightarrow> g1 x | Inr x \<Rightarrow> g x)"
  "(\<And>x1 x2. calm (g2 x1 x2)) \<Longrightarrow> calm (case p of (x1, x2) \<Rightarrow> g2 x1 x2)"
  by (simp_all split: option.splits sum.splits prod.splits)

lemma calm_answer: "calm m \<Longrightarrow> answerh m w = (rx, w') \<Longrightarrow> tables (w_db w') = tables (w_db w)"
  by (auto simp: answerh_def split: prod.splits sum.splits dest: calmD)

text \<open>
  Backwards reasoning: what holds when a handler that was started in \<open>w0\<close> and now is in \<open>w\<close> goes on to an
  outcome \<open>C\<close>, to a change of the tables or to a success.
\<close>

definition reaching :: "'r world \<Rightarrow> ('p reaction \<Rightarrow> 'r world \<Rightarrow> bool) \<Rightarrow> ('p, 'p reaction, 'r world) step \<Rightarrow> 'r world
    \<Rightarrow> ('p reaction \<Rightarrow> 'r world \<Rightarrow> bool) \<Rightarrow> bool" where
  "reaching w0 C m w Q \<longleftrightarrow>
     (tables (w_db w) = tables (w_db w0) \<longrightarrow> (\<forall>rx w'. answerh m w = (rx, w') \<longrightarrow> C rx w' \<longrightarrow> Q rx w'))"

definition changed :: "'r world \<Rightarrow> 'p reaction \<Rightarrow> 'r world \<Rightarrow> bool" where
  "changed w0 rx w' \<longleftrightarrow> tables (w_db w') \<noteq> tables (w_db w0)"

definition acted :: "'r world \<Rightarrow> 'p reaction \<Rightarrow> 'r world \<Rightarrow> bool" where
  "acted w0 rx w' \<longleftrightarrow> ok_reaction rx \<or> tables (w_db w') \<noteq> tables (w_db w0)"

lemma reachingI:
  "(\<And>rx w'. tables (w_db w) = tables (w_db w0) \<Longrightarrow> answerh m w = (rx, w') \<Longrightarrow> C rx w' \<Longrightarrow> Q rx w') \<Longrightarrow> reaching w0 C m w Q"
  by (simp add: reaching_def)

lemma reachingD: "reaching w C m w Q \<Longrightarrow> answerh m w = (rx, w') \<Longrightarrow> C rx w' \<Longrightarrow> Q rx w'"
  by (simp add: reaching_def)

lemma answerh_andthen: "m w = (r, w1) \<Longrightarrow> answerh (andthen m k) w = (case r of Inl rx \<Rightarrow> (rx, w1) | Inr x \<Rightarrow> answerh (k x) w1)"
  by (auto simp: answerh_def andthen_def split: sum.split)

lemma reaching_andthen:
  assumes "calm m" and "\<And>rx w1. m w = (Inl rx, w1) \<Longrightarrow> tables (w_db w1) = tables (w_db w0) \<Longrightarrow> \<not> C rx w1"
    and "\<And>x w1. m w = (Inr x, w1) \<Longrightarrow> w_vk w1 = w_vk w \<Longrightarrow> tables (w_db w) = tables (w_db w0) \<Longrightarrow> reaching w0 C (k x) w1 Q"
  shows "reaching w0 C (andthen m k) w Q"
proof (rule reachingI)
  fix rx w' assume h: "tables (w_db w) = tables (w_db w0)" "answerh (andthen m k) w = (rx, w')" "C rx w'"
  obtain r w1 where m: "m w = (r, w1)" by fastforce
  with calmD [OF assms(1) m] h assms(2,3) show "Q rx w'"
    by (cases r) (auto simp: answerh_andthen reaching_def)
qed

lemma reaching_changed:
  "calm m \<Longrightarrow> (\<And>x w1. m w = (Inr x, w1) \<Longrightarrow> w_vk w1 = w_vk w \<Longrightarrow> tables (w_db w) = tables (w_db w0) \<Longrightarrow> reaching w0 (changed w0) (k x) w1 Q)
     \<Longrightarrow> reaching w0 (changed w0) (andthen m k) w Q"
  by (erule reaching_andthen) (simp_all add: changed_def)

lemma reaching_acted:
  "calm m \<Longrightarrow> refuses m \<Longrightarrow> (\<And>x w1. m w = (Inr x, w1) \<Longrightarrow> w_vk w1 = w_vk w \<Longrightarrow> tables (w_db w) = tables (w_db w0) \<Longrightarrow> reaching w0 (acted w0) (k x) w1 Q)
     \<Longrightarrow> reaching w0 (acted w0) (andthen m k) w Q"
  by (erule reaching_andthen) (auto simp: acted_def refuses_def)

lemma reaching_calm: "calm m \<Longrightarrow> reaching w0 (changed w0) m w Q"
  by (auto simp: reaching_def changed_def dest: calm_answer)

section \<open>What the calls read\<close>

lemma IsBanned_ok: "IsBanned u d = (Inr b, d') \<Longrightarrow> b \<longleftrightarrow> u \<in> b_user_id ` set (t_bans d)"
  by (auto simp: IsBanned_def split: prod.splits sum.splits dest!: pg_query_ok)

lemma user_GetByID_ok: "user_GetByID i d = (Inr u, d') \<Longrightarrow> \<exists>r. find_user i d = Some r \<and> u = to_User r"
  by (auto simp: user_GetByID_def scanUser_def scan_row_ok find_user_def split: prod.splits sum.splits if_splits dest!: pg_query_ok sym [of "Some _" "find _ _"])

lemma GetStatus_ok: "GetStatus u d = (Inr st, d') \<Longrightarrow> \<exists>m. find_member u d = Some m \<and> m_status m = st"
  by (auto simp: GetStatus_def split: prod.splits sum.splits option.splits dest!: pg_query_ok sym [of "Some _" "map_option _ _"])

lemma onboarding_Get_ok: "onboarding_Get d = (Inr cfg, d') \<Longrightarrow> first_row (t_onboarding d) = Some cfg"
  by (auto simp: onboarding_Get_def onboarding_scanConfig_def dest!: pg_query_ok)

lemma GetByCode_ok: "GetByCode code d = (Inr v, d') \<Longrightarrow> find_invite code d = Some v"
  by (auto simp: GetByCode_def scanInvite_def find_invite_def dest!: pg_query_ok)

text \<open>The same for a step of a handler that has left the tables as they were in \<open>w\<close>.\<close>

named_theorems seen

lemma tables_lookups:
  assumes "tables d' = tables d"
  shows "find_user u d' = find_user u d" "find_invite code d' = find_invite code d" "find_member u d' = find_member u d"
  using tables_fields [OF assms] by (simp_all add: find_user_def find_invite_def find_member_def)

lemma reads_seen:
  assumes "orfail f (on_db m) w1 = (Inr x, w2)" and "tables (w_db w1) = tables (w_db w)"
  shows "\<exists>d d'. m d = (Inr x, d') \<and> tables d = tables (w_db w)"
  using assms by (auto dest!: on_dbD)

lemma seen_banned [seen]:
  assumes "orfail f (on_db (IsBanned u)) w1 = (Inr b, w2)" and "tables (w_db w1) = tables (w_db w)"
  shows "b \<longleftrightarrow> u \<in> b_user_id ` set (t_bans (w_db w))"
  using reads_seen [OF assms] tables_fields(8) by (metis IsBanned_ok)

lemma seen_user [seen]:
  assumes "orfail f (on_db (user_GetByID u)) w1 = (Inr x, w2)" and "tables (w_db w1) = tables (w_db w)"
  shows "\<exists>r. find_user u (w_db w) = Some r \<and> x = to_User r"
  using reads_seen [OF assms] tables_fields(1) unfolding find_user_def by (metis user_GetByID_ok find_user_def)

lemma seen_onboarding [seen]:
  assumes "orfail f (on_db onboarding_Get) w1 = (Inr cfg, w2)" and "tables (w_db w1) = tables (w_db w)"
  shows "first_row (t_onboarding (w_db w)) = Some cfg"
  using reads_seen [OF assms] tables_fields(22) by (metis onboarding_Get_ok)

lemma seen_invite [seen]:
  assumes "orfail f (on_db (GetByCode code)) w1 = (Inr v, w2)" and "tables (w_db w1) = tables (w_db w)"
  shows "find_invite code (w_db w) = Some v"
  using reads_seen [OF assms] tables_fields(21) unfolding find_invite_def by (metis GetByCode_ok find_invite_def)

lemma seen_status [seen]:
  assumes "attempt (on_db (GetStatus u)) w1 = (Inr (Inr st), w2)" and "tables (w_db w1) = tables (w_db w)"
  shows "\<exists>m. find_member u (w_db w) = Some m \<and> m_status m = st"
  using assms(1) tables_lookups(3) [OF assms(2)] by (auto dest!: on_dbD GetStatus_ok)

lemma seen_checks [seen]:
  "checkh r w1 = (Inr x, w2) \<Longrightarrow> r = Inr x" "valid f v w1 = (Inr y, w2) \<Longrightarrow> v = Inr y" "bodyh body w1 = (Inr b, w2) \<Longrightarrow> body = Some b"
  "guardh g rx w1 = (Inr z, w2) \<Longrightarrow> g"
  by (auto simp: guardh_def split: if_splits)

end
