(* ===== verification/Content_Laws.thy ===== *)
theory Content_Laws
  imports Users_Laws Reading
begin

text \<open>
  Invariants of the tables that hold the contents of the server. The account calls write other
  tables, apart from what deleting an account cascades to: one law for that statement carries an
  invariant of the contents through every account call.
\<close>

section \<open>Handlers\<close>

context table_invariant
begin

lemma keeps_reads: "reads m \<Longrightarrow> keeps I m"
  by (rule keepsI) (use by_tables in \<open>blast dest: readsD\<close>)

lemma keepsh_calm: "calm m \<Longrightarrow> keepsh (\<lambda>w. I (w_db w)) m"
  by (rule keepshI) (use by_tables in \<open>blast dest: calmD\<close>)

lemma keepsh_db: "keeps I m \<Longrightarrow> keepsh (\<lambda>w. I (w_db w)) (orfail f (on_db m))" "keeps I m \<Longrightarrow> keepsh (\<lambda>w. I (w_db w)) (attempt (on_db m))"
  by (intro keepsh_calls keeps_on_db; assumption)+

lemma keepsh_after: "keepsh (\<lambda>w. I (w_db w)) (effect (go_Record h e))" "keepsh (\<lambda>w. I (w_db w)) (effect (Enqueue h t j))"
  by (rule keepsh_effect; simp add: go_Record_def Enqueue_def)+

lemmas keepsh_rules = keepsh_db keepsh_after keepingh

lemma answered: "answerh m w = (rx, w') \<Longrightarrow> I (w_db w) \<Longrightarrow> keepsh (\<lambda>w. I (w_db w)) m \<Longrightarrow> I (w_db w')"
  by (rule keepsh_answer)

end

lemma keepsh_valid: "(v = Inr () \<Longrightarrow> keepsh I (k ())) \<Longrightarrow> keepsh I (andthen (valid f v) k)"
  by (rule keepshI) (auto elim!: andthen_cases simp: valid_def split: sum.splits dest: keepshD)

section \<open>Contents\<close>

definition content :: "db \<Rightarrow> db" where
  "content d =
     d\<lparr>t_users := [], t_email_verifications := [], t_recovery_codes := [], t_login_attempts := [], t_tombstones := [], pg_outcomes := []\<rparr>"

lemma content_fields:
  assumes "content d = content d'"
  shows "t_members d = t_members d'" "t_channels d = t_channels d'" "t_roles d = t_roles d'" "t_member_roles d = t_member_roles d'"
    "t_overrides d = t_overrides d'" "t_bans d = t_bans d'" "t_categories d = t_categories d'" "t_messages d = t_messages d'"
    "t_attachments d = t_attachments d'" "t_threads d = t_threads d'" "t_reactions d = t_reactions d'" "t_read_states d = t_read_states d'"
    "t_emoji d = t_emoji d'" "t_invites d = t_invites d'" "t_onboarding d = t_onboarding d'" "t_acceptances d = t_acceptances d'"
    "t_server_config d = t_server_config d'" "t_direct d = t_direct d'"
  using assms by (cases d; cases d'; simp add: content_def)+

lemma content_outcomes [simp]: "content (d\<lparr>pg_outcomes := os\<rparr>) = content d"
  by (simp add: content_def)

lemma content_statements [simp]:
  "content (snd (update_user i f d)) = content d" "content (snd (insert_user n t p d)) = content d"
  "content (snd (insert_verification t i tok e d)) = content d" "content (snd (consume_verification t tok d)) = content d"
  "content (snd (invalidate_verifications t i d)) = content d" "content (snd (insert_login inet t m ip s d)) = content d"
  "content (snd (copy_codes ids i hs d)) = content d" "content (snd (delete_codes i d)) = content d"
  "content (snd (mark_code t c d)) = content d" "content (snd (insert_tombstone t b d)) = content d"
  "content (snd (purge_logins t d)) = content d" "content (snd (purge_tombstones t d)) = content d"
  by (simp_all add: content_def update_user_def insert_user_def insert_verification_def consume_verification_def invalidate_verifications_def
      insert_login_def copy_codes_def delete_codes_def mark_code_def insert_tombstone_def purge_logins_def purge_tombstones_def Let_def)

lemma user_ids_statements [simp]:
  "user_ids (snd (insert_verification t i tok e d)) = user_ids d" "user_ids (snd (consume_verification t tok d)) = user_ids d"
  "user_ids (snd (invalidate_verifications t i d)) = user_ids d" "user_ids (snd (insert_login inet t m ip s d)) = user_ids d"
  "user_ids (snd (copy_codes ids i hs d)) = user_ids d" "user_ids (snd (delete_codes i d)) = user_ids d"
  "user_ids (snd (mark_code t c d)) = user_ids d" "user_ids (snd (insert_tombstone t b d)) = user_ids d"
  "user_ids (snd (purge_logins t d)) = user_ids d" "user_ids (snd (purge_tombstones t d)) = user_ids d"
  by (simp_all add: user_ids_def insert_verification_def consume_verification_def invalidate_verifications_def
      insert_login_def copy_codes_def delete_codes_def mark_code_def insert_tombstone_def purge_logins_def purge_tombstones_def Let_def)

lemma user_ids_grow: "user_ids d \<subseteq> user_ids (snd (insert_user n t p d))"
  by (auto simp: insert_user_def user_ids_def)

locale content_invariant =
  fixes I :: "db \<Rightarrow> bool"
  assumes frame: "I d \<Longrightarrow> content d' = content d \<Longrightarrow> user_ids d \<subseteq> user_ids d' \<Longrightarrow> I d'"
    and removed: "I d \<Longrightarrow> I (without_user t i d)"
begin

lemma same_outcomes: "I (d\<lparr>pg_outcomes := os\<rparr>) = I d"
proof
  show "I (d\<lparr>pg_outcomes := os\<rparr>) \<Longrightarrow> I d" by (erule frame) (simp_all add: user_ids_def)
  show "I d \<Longrightarrow> I (d\<lparr>pg_outcomes := os\<rparr>)" by (erule frame) (simp_all add: user_ids_def)
qed

lemma deleted: "I d \<Longrightarrow> I (snd (delete_user t i d))"
  by (simp add: delete_user_def removed)

end

sublocale content_invariant \<subseteq> table_invariant I
  by unfold_locales (rule same_outcomes)

sublocale content_invariant \<subseteq> verification_statements I
  by unfold_locales (erule frame; simp add: user_ids_grow)+

sublocale content_invariant \<subseteq> user_statements I
  by unfold_locales (erule create_keeps replace_keeps deleted | (erule frame; simp))+

end
