(* ===== verification/Joining_Laws.thy ===== *)
theory Joining_Laws
  imports Content_Laws Channel_Http Role_Laws
begin

text \<open>
  How users become members: who is admitted, what an invite pays for, the limits an invite keeps,
  which steps activation demands, and where the endpoints disagree.
\<close>

section \<open>Invites\<close>

lemma pure_invite [simp]:
  "pure_stmt (insert_invite i t u p e code)" "pure_stmt (use_invite t code)" "pure_stmt (delete_invite code)"
  by (auto simp: pure_stmt_def insert_invite_def use_invite_def delete_invite_def Let_def split: option.splits)

text \<open>The tables after one more use of an invite.\<close>

definition invite_used :: "time \<Rightarrow> string \<Rightarrow> db \<Rightarrow> db" where
  "invite_used now code d = d\<lparr>t_invites := updated_rows (\<lambda>x. iv_code x = code \<and> usable now x) used_once (t_invites d)\<rparr>"

definition usable_invite :: "time \<Rightarrow> string \<Rightarrow> db \<Rightarrow> invite_row option" where
  "usable_invite now code d = find (\<lambda>v. iv_code v = code \<and> usable now v) (t_invites d)"

lemma use_invite_cases:
  "snd (use_invite now code d) = d \<or> snd (use_invite now code d) = invite_used now code d"
  by (auto simp: use_invite_def invite_used_def split: option.splits)

lemma Use_effect:
  assumes "Use now dbnow code d = (r, d')"
  shows "tables d' = tables d \<or> tables d' = tables (invite_used dbnow code d)"
proof -
  obtain y d1 where y: "pg_stmt (use_invite dbnow code) d = (y, d1)" by fastforce
  have "tables d' = tables d1"
    using assms y
    by (auto simp: Use_def catchc_def scanInvite_def scan_one_def bindc_def maperr_def split: sum.splits option.splits if_splits prod.splits
        dest: readsD [OF reads_diagnosis])
  with pg_stmt_effect [OF y pure_table_fun] use_invite_cases [of dbnow code d] show ?thesis by auto
qed

lemma Use_ok:
  assumes "Use now dbnow code d = (Inr v', d')"
  shows "\<exists>v. usable_invite dbnow code d = Some v \<and> v' = used_once v \<and> tables d' = tables (invite_used dbnow code d)"
proof -
  have "scanInvite (pg_stmt (use_invite dbnow code)) d = (Inr v', d')"
    using assms unfolding Use_def
    by (elim catchc_cases) (auto simp: diagnoseUseFailure_def catchc_def split: if_splits prod.splits sum.splits option.splits)
  then have "pg_stmt (use_invite dbnow code) d = (Inr (Some v'), d')" by (simp add: scanInvite_def)
  from pg_stmt_success [OF this] show ?thesis
    by (auto simp: use_invite_def usable_invite_def invite_used_def split: option.splits if_splits)
qed

section \<open>Admission\<close>

definition pending_member :: "time \<Rightarrow> uuid \<Rightarrow> member_row" where
  "pending_member now u =
     \<lparr>m_user_id = u, m_nickname = None, m_status = Pending, m_timeout_until = None, m_joined_at = now, m_onboarded_at = None\<rparr>"

lemma joined_members:
  assumes "fst (insert_pending now u d) = Inr ()"
  shows "t_members (joined now u d) = t_members d @ [pending_member now u]" "u \<notin> m_user_id ` set (t_members d)"
  using assms by (auto simp: joined_def insert_everyone_def insert_pending_def pending_member_def Let_def split: if_splits)

text \<open>The last part of a join adds a pending member or no row at all.\<close>

lemma join_member_effect:
  assumes "answerh (join_member U Z f dbnow u) w = (rx, w')"
  shows "t_members (w_db w') = t_members (w_db w)
    \<or> (u \<notin> m_user_id ` set (t_members (w_db w)) \<and> t_members (w_db w') = t_members (w_db w) @ [pending_member dbnow u])"
    and "t_invites (w_db w') = t_invites (w_db w)"
proof -
  obtain r d1 where c: "CreatePending dbnow u (w_db w) = (r, d1)" by fastforce
  have t: "tables (w_db w') = tables d1"
    using assms c
    by (auto simp: join_member_def answerh_def andthen_def attempt_def on_db_def orfail_def give_def stop_def
        split: prod.splits sum.splits if_splits dest: GetByUserIDAnyStatus_tables)
  have i: "t_invites (joined dbnow u (w_db w)) = t_invites (w_db w)"
    by (simp add: joined_def insert_everyone_def insert_pending_def Let_def)
  from CreatePending_effect [OF c] show "t_invites (w_db w') = t_invites (w_db w)"
    using t i tables_fields(21) by metis
  from CreatePending_effect [OF c]
  show "t_members (w_db w') = t_members (w_db w)
    \<or> (u \<notin> m_user_id ` set (t_members (w_db w)) \<and> t_members (w_db w') = t_members (w_db w) @ [pending_member dbnow u])"
  proof (elim disjE conjE)
    assume "tables d1 = tables (joined dbnow u (w_db w))" and p: "fst (insert_pending dbnow u (w_db w)) = Inr ()"
    then have "t_members (w_db w') = t_members (joined dbnow u (w_db w))" using t tables_fields(3) by metis
    with joined_members [OF p] show ?thesis by simp
  qed (use t tables_fields(3) in metis)
qed

definition old_enough :: "time \<Rightarrow> onboarding_row \<Rightarrow> user_row \<Rightarrow> bool" where
  "old_enough now cfg r \<longleftrightarrow> ob_min_account_age_seconds cfg \<le> 0 \<or> now - u_created_at r \<ge> ob_min_account_age_seconds cfg * 1000"

text \<open>An invite that admits: it is stored under the code, valid by the process clock and usable by the database's.\<close>

definition admits :: "time \<Rightarrow> time \<Rightarrow> string \<Rightarrow> db \<Rightarrow> bool" where
  "admits now dbnow code d \<longleftrightarrow>
     (\<exists>v. find_invite code d = Some v \<and> invite_Validate now v = Inr ()) \<and> usable_invite dbnow code d \<noteq> None"

lemma too_new_old: "\<not> (ob_min_account_age_seconds cfg > 0 \<and> too_new now cfg (to_User r)) \<Longrightarrow> old_enough now cfg r"
  by (auto simp: too_new_def old_enough_def to_User_def)

text \<open>Using an invite and joining, from a state with the tables of \<open>w\<close>.\<close>

lemma use_and_join:
  assumes "answerh (andthen (orfail f (on_db (Use now dbnow code))) (\<lambda>_. join_member U Z g dbnow u)) w1 = (rx, w')"
    and "tables (w_db w1) = tables (w_db w)"
  shows "t_members (w_db w') = t_members (w_db w)
      \<or> (usable_invite dbnow code (w_db w) \<noteq> None \<and> u \<notin> m_user_id ` set (t_members (w_db w))
         \<and> t_members (w_db w') = t_members (w_db w) @ [pending_member dbnow u])" (is ?members)
    and "t_invites (w_db w') = t_invites (w_db w) \<or> t_invites (w_db w') = t_invites (invite_used dbnow code (w_db w))" (is ?invites)
    and "ok_reaction rx \<longrightarrow> (\<forall>e. \<not> ok_reaction (f e :: MemberModel reaction)) \<longrightarrow>
      usable_invite dbnow code (w_db w) \<noteq> None \<and> t_invites (w_db w') = t_invites (invite_used dbnow code (w_db w))" (is ?used)
proof -
  obtain r d2 where u: "Use now dbnow code (w_db w1) = (r, d2)" by fastforce
  note same = tables_fields [OF assms(2)]
  have inv: "usable_invite dbnow code (w_db w1) = usable_invite dbnow code (w_db w)"
      "t_invites (invite_used dbnow code (w_db w1)) = t_invites (invite_used dbnow code (w_db w))"
    by (simp_all add: usable_invite_def invite_used_def same)
  have "?members \<and> ?invites \<and> ?used"
  proof (cases r)
    case (Inl e)
    then have "w_db w' = d2" "rx = f e" using assms(1) u by (auto simp: answerh_def andthen_def orfail_def on_db_def)
    moreover have "t_members d2 = t_members (w_db w)"
        "t_invites d2 = t_invites (w_db w) \<or> t_invites d2 = t_invites (invite_used dbnow code (w_db w))"
      using Use_effect [OF u] tables_fields(3,21) [of d2 "w_db w1"] tables_fields(3,21) [of d2 "invite_used dbnow code (w_db w1)"]
      by (auto simp: invite_used_def same)
    ultimately show ?thesis by auto
  next
    case (Inr v)
    then have a: "answerh (join_member U Z g dbnow u) (w1\<lparr>w_db := d2\<rparr>) = (rx, w')" using assms(1) u
      by (simp add: answerh_def andthen_def orfail_def on_db_def)
    from Use_ok [of now dbnow code "w_db w1" v d2] u Inr
    have v: "usable_invite dbnow code (w_db w1) \<noteq> None" and t: "tables d2 = tables (invite_used dbnow code (w_db w1))" by auto
    have "t_members d2 = t_members (w_db w)" "t_invites d2 = t_invites (invite_used dbnow code (w_db w))"
      using tables_fields(3,21) [OF t] inv same by (simp_all add: invite_used_def)
    then show ?thesis using join_member_effect [OF a] v inv(1) by simp
  qed
  then show ?members ?invites ?used by blast+
qed

lemma mapInviteError_refuses [simp]: "\<not> ok_reaction (mapInviteError e)"
  by (simp add: mapInviteError_def internal_error_def)

lemma mapOnboardingError_refuses [simp]: "\<not> ok_reaction (mapOnboardingError e)"
  by (simp add: mapOnboardingError_def internal_error_def)

lemma JoinViaInvite_core:
  assumes "\<And>u r cfg w1. rq_userID c = Some u \<Longrightarrow> u \<notin> b_user_id ` set (t_bans (w_db w)) \<Longrightarrow>
     (\<exists>v. find_invite (rq_params c ''code'') (w_db w) = Some v \<and> invite_Validate now v = Inr ()) \<Longrightarrow>
     find_user u (w_db w) = Some r \<Longrightarrow> u_email_verified r \<Longrightarrow> first_row (t_onboarding (w_db w)) = Some cfg \<Longrightarrow> old_enough now cfg r \<Longrightarrow>
     reaching w (acted w) (andthen (orfail mapInviteError (on_db (Use now dbnow (rq_params c ''code'')))) (\<lambda>_. join_member U Z mapInviteError dbnow u)) w1 Q"
    and "JoinViaInvite U Z now dbnow c w = (rx, w')" and "acted w rx w'"
  shows "Q rx w'"
  using assms(2,3) unfolding JoinViaInvite_def Let_def
  apply (rule reachingD [rotated])
  apply ((rule reaching_acted, (intro reading; fail)[1],
        (intro refusing; (erule UserID_refuses | simp add: internal_error_def banned_reaction_def too_new_reaction_def))[1])+)
  subgoal for u w1 b w2 _ w3 v w4 _ w5 us w6 _ w7 cfg w8 _ w9
   apply (drule seen, assumption?)+
   apply (clarsimp simp: UserID_ok)
   apply (rule assms(1))
   apply (assumption | auto simp: to_User_def too_new_def old_enough_def)+
   done
  done

section \<open>Limits of invites\<close>

text \<open>
  Codes and identifiers are unique, an invite is used at most as often as it allows, and it belongs to
  a channel and a user.
\<close>

definition invite_ok :: "invite_row \<Rightarrow> bool" where
  "invite_ok v \<longleftrightarrow> 0 \<le> iv_use_count v \<and> iv_use_count v \<le> max_int4 \<and> (\<forall>m. iv_max_uses v = Some m \<longrightarrow> iv_use_count v \<le> m)"

definition invites_ok :: "db \<Rightarrow> bool" where
  "invites_ok d \<longleftrightarrow>
     distinct (map iv_id (t_invites d)) \<and> distinct (map iv_code (t_invites d)) \<and> (\<forall>v \<in> set (t_invites d). invite_ok v
       \<and> iv_channel_id v \<in> ch_id ` set (t_channels d) \<and> iv_creator_id v \<in> user_ids d)"

interpretation invites: content_invariant invites_ok
proof unfold_locales
  fix d d' assume "invites_ok d" "content d' = content d" "user_ids d \<subseteq> user_ids d'"
  then show "invites_ok d'" using content_fields(2,14) [of d' d] by (auto simp: invites_ok_def)
next
  fix t i d assume h: "invites_ok d"
  have "ch_id ` set (t_channels (without_user t i d)) = ch_id ` set (t_channels d)"
  proof -
    have "t_channels (without_user t i d) = map (\<lambda>c. if ch_created_by c = Some i then c\<lparr>ch_created_by := None, ch_updated_at := t\<rparr> else c) (t_channels d)"
      by (simp add: without_user_def Let_def)
    then have "map ch_id (t_channels (without_user t i d)) = map ch_id (t_channels d)" by (simp only:) (rule map_if_same, simp)
    then show ?thesis by (metis set_map)
  qed
  moreover have "user_ids (without_user t i d) = user_ids d - {i}" "t_invites (without_user t i d) = filter (\<lambda>v. iv_creator_id v \<noteq> i) (t_invites d)"
    by (auto simp: without_user_def Let_def user_ids_def remove_messages_def remove_threads_def remove_emoji_def)
  ultimately show "invites_ok (without_user t i d)" using h by (auto simp: invites_ok_def distinct_map_filter)
qed

lemma invites_ok_statements:
  assumes "invites_ok d"
  shows "(\<forall>m. ip_MaxUses p = Some m \<longrightarrow> 0 \<le> m) \<Longrightarrow> invites_ok (snd (insert_invite i t u p e code d))"
    and "invites_ok (snd (use_invite t code d))" and "invites_ok (snd (delete_invite code d))" and "invites_ok (snd (delete_channel t ch d))"
proof -
  show "(\<forall>m. ip_MaxUses p = Some m \<longrightarrow> 0 \<le> m) \<Longrightarrow> invites_ok (snd (insert_invite i t u p e code d))"
    using assms by (auto simp: invites_ok_def insert_invite_def invite_ok_def max_int4_def user_ids_def Let_def)
  show "invites_ok (snd (delete_invite code d))"
    using assms by (auto simp: invites_ok_def delete_invite_def distinct_map_filter user_ids_def)
  show "invites_ok (snd (delete_channel t ch d))"
    using assms by (auto simp: invites_ok_def delete_channel_def distinct_map_filter user_ids_def remove_threads_def Let_def)
  show "invites_ok (snd (use_invite t code d))"
  proof (cases "usable_invite t code d")
    case None
    then show ?thesis using assms by (simp add: use_invite_def usable_invite_def)
  next
    case (Some v)
    then have v: "v \<in> set (t_invites d)" "iv_code v = code" by (auto simp: usable_invite_def find_Some_iff)
    have one: "x = v" if "x \<in> set (t_invites d)" "iv_code x = code" for x
      using assms that v by (auto simp: invites_ok_def distinct_map dest: inj_onD)
    have maps: "map iv_id (updated_rows P used_once xs) = map iv_id xs" "map iv_code (updated_rows P used_once xs) = map iv_code xs" for P xs
      by (simp_all add: updated_rows_def used_once_def)
    show ?thesis
    proof (cases "iv_use_count v + 1 > max_int4")
      case True
      then show ?thesis using assms Some by (simp add: use_invite_def usable_invite_def)
    next
      case False
      have "invite_ok (used_once x)" if "x \<in> set (t_invites d)" "iv_code x = code" "usable t x" for x
        using False assms that one [OF that(1,2)] by (auto simp: invites_ok_def invite_ok_def used_once_def usable_def)
      then show ?thesis
        using assms Some False maps
        by (auto simp: invites_ok_def use_invite_def usable_invite_def user_ids_def) (auto simp: updated_rows_def used_once_def split: if_splits)
    qed
  qed
qed

lemma create_keeps_invites:
  assumes "\<forall>m. ip_MaxUses p = Some m \<longrightarrow> 0 \<le> m"
  shows "keeps invites_ok (invite_Create now dbnow draws u p)"
proof -
  have "keeps invites_ok (create_attempts dbnow u p e ds)" for e ds
  proof (induction ds)
    case (Cons a ds)
    then show ?case
      by (cases a) (auto intro!: keeping invites.keeps_forms invites.keeps_stmt simp: scanInvite_def invites_ok_statements(1) [OF _ assms])
  qed (simp add: keeping)
  then show ?thesis by (simp add: invite_Create_def)
qed

inductive invite_request :: "uuid_lib \<Rightarrow> proto \<Rightarrow> (time \<Rightarrow> string) \<Rightarrow> 'r world \<Rightarrow> 'r world \<Rightarrow> bool" for U M Z where
  create: "CreateInvite U M Z h now dbnow draws c body w = (rx, w') \<Longrightarrow> invite_request U M Z w w'"
| delete: "DeleteInvite M h c w = (drx, w') \<Longrightarrow> invite_request U M Z w w'"
| join: "JoinViaInvite U Z now dbnow c w = (jrx, w') \<Longrightarrow> invite_request U M Z w w'"
| channel: "DeleteChannel U M h dbnow c w = (drx, w') \<Longrightarrow> invite_request U M Z w w'"
| account: "user_call d' d \<Longrightarrow> d' = w_db w \<Longrightarrow> invite_request U M Z w (w\<lparr>w_db := d\<rparr>)"

lemma other_calls_keep_invites:
  "keeps invites_ok (invite_Delete code)" "keeps invites_ok (channel_Delete dbnow i)" "keeps invites_ok (CreatePending dbnow u)"
  "keeps invites_ok (Use now dbnow code)"
proof -
  show "keeps invites_ok (invite_Delete code)"
    unfolding invite_Delete_def by (intro invites.keeps_forms invites.keeps_stmt invites_ok_statements)
  show "keeps invites_ok (channel_Delete dbnow i)"
    unfolding channel_Delete_def by (intro invites.keeps_forms invites.keeps_stmt invites_ok_statements)
  show "keeps invites_ok (Use now dbnow code)"
    unfolding Use_def scanInvite_def
    by (intro keeping invites.keeps_forms invites.keeps_stmt invites_ok_statements invites.keeps_reads reading)
  have "invites_ok (joined dbnow u d) = invites_ok d" for d
    by (simp add: invites_ok_def joined_def insert_everyone_def insert_pending_def user_ids_def Let_def)
  then show "keeps invites_ok (CreatePending dbnow u)"
    using CreatePending_effect invites.by_tables by (intro keepsI) metis
qed

lemma invite_request_ok:
  assumes "invite_request U M Z w w'" and "invites_ok (w_db w)"
  shows "invites_ok (w_db w')"
  using assms(1)
proof cases
  case (create h now dbnow draws c body rx)
  show ?thesis
    by (rule invites.answered [OF create [unfolded CreateInvite_def] assms(2)])
      (intro keepsh_valid invites.keepsh_rules create_keeps_invites; auto simp: ValidateMaxUses_def split: if_splits)
next
  case (delete h c drx)
  show ?thesis
    by (rule invites.answered [OF delete [unfolded DeleteInvite_def Let_def] assms(2)]) (intro invites.keepsh_rules other_calls_keep_invites)
next
  case (join now dbnow c jrx)
  show ?thesis
    by (rule invites.answered [OF join [unfolded JoinViaInvite_def join_member_def Let_def] assms(2)])
      (intro invites.keepsh_rules other_calls_keep_invites invites.keeps_reads reading)
next
  case (channel h dbnow c drx)
  show ?thesis
    by (rule invites.answered [OF channel [unfolded DeleteChannel_def] assms(2)]) (intro invites.keepsh_rules other_calls_keep_invites)
next
  case (account d)
  then show ?thesis using invites.user_call_inv assms(2) by simp
qed

section \<open>Joining through the open door\<close>

lemma seen_age [seen]:
  assumes "(if g then andthen (orfail f (on_db (user_GetByID u))) (\<lambda>x. guardh (\<not> too_new now cfg x) rx) else give ()) w1 = (Inr y, w2)"
    and "tables (w_db w1) = tables (w_db w)"
  shows "g \<longrightarrow> (\<exists>r. find_user u (w_db w) = Some r \<and> \<not> too_new now cfg (to_User r))"
  using assms by (auto split: if_splits elim!: andthen_ok dest!: seen_user seen_checks(4))

lemma JoinServer_core:
  assumes "\<And>u cfg w1. rq_userID c = Some u \<Longrightarrow> u \<notin> b_user_id ` set (t_bans (w_db w)) \<Longrightarrow>
     first_row (t_onboarding (w_db w)) = Some cfg \<Longrightarrow> ob_open_join cfg \<Longrightarrow>
     (ob_min_account_age_seconds cfg > 0 \<Longrightarrow> \<exists>r. find_user u (w_db w) = Some r \<and> old_enough now cfg r) \<Longrightarrow>
     reaching w (changed w) (join_member U Z mapOnboardingError dbnow u) w1 Q"
    and "JoinServer U Z now dbnow c w = (rx, w')" and "changed w rx w'"
  shows "Q rx w'"
  using assms(2,3) unfolding JoinServer_def
  apply (rule reachingD [rotated])
  apply ((rule reaching_changed, (intro reading; fail)[1])+)
  apply (drule seen, assumption?)+
  apply (rule assms(1))
  apply (assumption | auto simp: UserID_ok to_User_def too_new_def old_enough_def)+
  done

text \<open>
  C24. Who is admitted: when a request to join, through an invite or the open door, changes the table of
  members, the caller is known, is not banned and was no member, gets one pending row and nobody
  else's row changes; the account is old enough where that is asked for, and the server is open or the
  address is verified and an invite under the given code is valid. This holds whatever statements fail.
\<close>

theorem join_admission:
  fixes w :: "'r world"
  assumes "JoinViaInvite U Z now dbnow c w = (rx, w') \<or> JoinServer U Z now dbnow c w = (rx, w')"
    and "t_members (w_db w') \<noteq> t_members (w_db w)"
  shows "\<exists>u cfg. rq_userID c = Some u \<and> u \<notin> b_user_id ` set (t_bans (w_db w)) \<and> u \<notin> m_user_id ` set (t_members (w_db w))
    \<and> t_members (w_db w') = t_members (w_db w) @ [pending_member dbnow u] \<and> first_row (t_onboarding (w_db w)) = Some cfg
    \<and> (ob_min_account_age_seconds cfg \<le> 0 \<or> (\<exists>r. find_user u (w_db w) = Some r \<and> old_enough now cfg r))
    \<and> (ob_open_join cfg \<or> (\<exists>r. find_user u (w_db w) = Some r \<and> u_email_verified r) \<and> admits now dbnow (rq_params c ''code'') (w_db w))"
    (is "\<exists>u cfg. ?P u cfg w'")
proof -
  have ch: "changed w rx w'" using assms(2) tables_fields(3) unfolding changed_def by metis
  let ?Q = "\<lambda>rx w'. t_members (w_db w') = t_members (w_db w) \<or> (\<exists>u cfg. ?P u cfg w')"
  from assms(1) have "?Q rx w'"
  proof
    assume j: "JoinViaInvite U Z now dbnow c w = (rx, w')"
    have ac: "acted w rx w'" using ch by (simp add: acted_def changed_def)
    show ?thesis
    proof (rule JoinViaInvite_core [OF _ j ac], rule reachingI)
      fix u r cfg rx and w1 w'' :: "'r world"
      assume h: "rq_userID c = Some u" "u \<notin> b_user_id ` set (t_bans (w_db w))"
        "\<exists>v. find_invite (rq_params c ''code'') (w_db w) = Some v \<and> invite_Validate now v = Inr ()"
        "find_user u (w_db w) = Some r" "u_email_verified r" "first_row (t_onboarding (w_db w)) = Some cfg" "old_enough now cfg r"
        and t: "tables (w_db w1) = tables (w_db w)"
        and a: "answerh (andthen (orfail mapInviteError (on_db (Use now dbnow (rq_params c ''code'')))) (\<lambda>_. join_member U Z mapInviteError dbnow u)) w1 = (rx, w'')"
      show "?Q rx w''" using use_and_join(1) [OF a t] h by (auto simp: admits_def)
    qed
  next
    assume j: "JoinServer U Z now dbnow c w = (rx, w')"
    show ?thesis
    proof (rule JoinServer_core [OF _ j ch], rule reachingI)
      fix u cfg rx and w1 w'' :: "'r world"
      assume h: "rq_userID c = Some u" "u \<notin> b_user_id ` set (t_bans (w_db w))" "first_row (t_onboarding (w_db w)) = Some cfg" "ob_open_join cfg"
        "0 < ob_min_account_age_seconds cfg \<Longrightarrow> \<exists>r. find_user u (w_db w) = Some r \<and> old_enough now cfg r"
        and t: "tables (w_db w1) = tables (w_db w)" and a: "answerh (join_member U Z mapOnboardingError dbnow u) w1 = (rx, w'')"
      show "?Q rx w''"
        using join_member_effect(1) [OF a] h tables_fields(3) [OF t] by (cases "0 < ob_min_account_age_seconds cfg") auto
    qed
  qed
  with assms(2) show ?thesis by blast
qed

text \<open>
  C33. What a join through an invite costs: a successful request finds a usable invite under the code and
  uses it exactly once, also when the caller is a member already and no row of the members table
  changes.
\<close>

theorem join_uses_invite:
  fixes w :: "'r world"
  assumes "JoinViaInvite U Z now dbnow c w = (rx, w')" and "ok_reaction rx"
  shows "usable_invite dbnow (rq_params c ''code'') (w_db w) \<noteq> None
    \<and> t_invites (w_db w') = updated_rows (\<lambda>x. iv_code x = rq_params c ''code'' \<and> usable dbnow x) used_once (t_invites (w_db w))
    \<and> (\<exists>u. rq_userID c = Some u \<and> (u \<in> m_user_id ` set (t_members (w_db w)) \<longrightarrow> t_members (w_db w') = t_members (w_db w)))"
    (is "?P w'")
proof -
  have ac: "acted w rx w'" using assms(2) by (simp add: acted_def)
  have "ok_reaction rx \<longrightarrow> ?P w'"
  proof (rule JoinViaInvite_core [OF _ assms(1) ac], rule reachingI)
    fix u r cfg and rx :: "MemberModel reaction" and w1 w'' :: "'r world"
    assume u: "rq_userID c = Some u" and t: "tables (w_db w1) = tables (w_db w)"
      and a: "answerh (andthen (orfail mapInviteError (on_db (Use now dbnow (rq_params c ''code'')))) (\<lambda>_. join_member U Z mapInviteError dbnow u)) w1 = (rx, w'')"
    show "ok_reaction rx \<longrightarrow> ?P w''" using use_and_join(1,3) [OF a t] u by (auto simp: invite_used_def)
  qed
  with assms(2) show ?thesis by blast
qed

section \<open>Activation\<close>

lemma pure_acceptances [simp]: "pure_stmt (insert_acceptances now u slugs)"
  by (auto simp: pure_stmt_def insert_acceptances_def Let_def)

lemma RecordAcceptances_ok:
  assumes "RecordAcceptances now u slugs d = (Inr x, d')"
  shows "tables d' = tables (d\<lparr>t_acceptances := foldl (add_acceptance now u) (t_acceptances d) slugs\<rparr>)"
proof (cases slugs)
  case Nil
  then show ?thesis using assms by (cases d) (simp add: RecordAcceptances_def)
next
  case (Cons s ss)
  with assms have "pg_stmt (insert_acceptances now u slugs) d = (Inr x, d')" by (simp add: RecordAcceptances_def)
  from pg_stmt_success [OF this] show ?thesis by (auto simp: insert_acceptances_def Let_def split: if_splits)
qed

lemma RecordAcceptances_members: "RecordAcceptances now u slugs d = (x, d') \<Longrightarrow> t_members d' = t_members d"
proof (cases "slugs = []")
  case False
  assume "RecordAcceptances now u slugs d = (x, d')"
  then obtain y where "pg_stmt (insert_acceptances now u slugs) d = (y, d')"
    using False by (auto simp: RecordAcceptances_def maperr_def split: prod.splits sum.splits)
  from pg_stmt_effect [OF this pure_table_fun] show ?thesis
    using tables_fields(3) [of d' d] tables_fields(3) [of d' "snd (insert_acceptances now u slugs d)"]
    by (auto simp: insert_acceptances_def Let_def split: if_splits)
qed (simp add: RecordAcceptances_def)

lemma accepted_all:
  "set rows \<subseteq> set (foldl (add_acceptance now u) rows slugs)
   \<and> (\<forall>s \<in> set slugs. \<exists>a \<in> set (foldl (add_acceptance now u) rows slugs). da_user_id a = u \<and> da_slug a = s)"
proof (induction slugs arbitrary: rows)
  case (Cons s ss)
  have "\<exists>a \<in> set (add_acceptance now u rows s). da_user_id a = u \<and> da_slug a = s" "set rows \<subseteq> set (add_acceptance now u rows s)"
    by (auto simp: add_acceptance_def)
  then show ?case using Cons.IH [of "add_acceptance now u rows s"] by (simp add: subset_iff) metis
qed simp

text \<open>Activation gives all automatic roles or none; a role that is gone cannot be given.\<close>

lemma add_auto_roles_all:
  "add_auto_roles u rs d = (Inr y, d') \<Longrightarrow> t_members d' = t_members d \<and> t_acceptances d' = t_acceptances d
     \<and> set (t_member_roles d) \<subseteq> set (t_member_roles d')
     \<and> (\<forall>r \<in> set rs. \<lparr>mr_user_id = u, mr_role_id = r\<rparr> \<in> set (t_member_roles d')
          \<and> (r \<in> r_id ` set (t_roles d) \<or> \<lparr>mr_user_id = u, mr_role_id = r\<rparr> \<in> set (t_member_roles d)))"
proof (induction rs arbitrary: d)
  case (Cons r rs)
  let ?row = "\<lambda>r. \<lparr>mr_user_id = u, mr_role_id = r\<rparr>"
  from Cons.prems obtain d1 where s: "pg_stmt (add_member_role u r) d = (Inr (), d1)" and rest: "add_auto_roles u rs d1 = (Inr y, d')"
    by (auto split: prod.splits sum.splits)
  from pg_stmt_success [OF s] have f: "fst (add_member_role u r d) = Inr ()" and t: "tables d1 = tables (snd (add_member_role u r d))" by auto
  have d1: "t_members d1 = t_members d" "t_acceptances d1 = t_acceptances d" "t_roles d1 = t_roles d"
      "set (t_member_roles d1) = insert (?row r) (set (t_member_roles d))" "r \<in> r_id ` set (t_roles d) \<or> ?row r \<in> set (t_member_roles d)"
    using f tables_fields [OF t] by (auto simp: add_member_role_def Let_def split: if_splits)
  from Cons.IH [OF rest] show ?case unfolding d1 using d1(5) by auto
qed simp

lemma Activate_all:
  assumes "Activate now u rs d = (x, d')"
  shows "tables d' = tables d \<or> (t_members d' = t_members (activated now u d) \<and> t_acceptances d' = t_acceptances d
      \<and> (\<forall>r \<in> set rs. \<lparr>mr_user_id = u, mr_role_id = r\<rparr> \<in> set (t_member_roles d')
           \<and> (r \<in> r_id ` set (t_roles d) \<or> \<lparr>mr_user_id = u, mr_role_id = r\<rparr> \<in> set (t_member_roles d))))"
    and "x = Inr m \<Longrightarrow> \<forall>r \<in> set rs. r \<in> r_id ` set (t_roles d) \<or> \<lparr>mr_user_id = u, mr_role_id = r\<rparr> \<in> set (t_member_roles d)"
proof -
  obtain z d0 where z: "WithTx (activate_tx now u rs) d = (z, d0)" by fastforce
  have t: "tables d' = tables d0" and ok: "x = Inr m \<Longrightarrow> \<exists>v. z = Inr v"
    using assms z by (auto simp: Activate_def split: sum.splits dest: GetByUserIDAnyStatus_tables)
  have "tables d0 = tables d \<and> (\<exists>e. z = Inl e) \<or> (t_members d0 = t_members (activated now u d) \<and> t_acceptances d0 = t_acceptances d
      \<and> (\<forall>r \<in> set rs. \<lparr>mr_user_id = u, mr_role_id = r\<rparr> \<in> set (t_member_roles d0)
           \<and> (r \<in> r_id ` set (t_roles d) \<or> \<lparr>mr_user_id = u, mr_role_id = r\<rparr> \<in> set (t_member_roles d))))"
    using z
  proof (cases rule: WithTx_cases)
    case (committed d1 y d2)
    obtain d3 n where s1: "pg_stmt (update_members (\<lambda>m. m_user_id m = u \<and> m_status m = Pending)
        (\<lambda>m. m\<lparr>m_status := Active, m_onboarded_at := Some now\<rparr>)) d1 = (Inr n, d3)" and s2: "add_auto_roles u rs d3 = (Inr y, d2)"
      using committed(2) by (auto simp: activate_tx_def split: prod.splits sum.splits if_splits)
    have t3: "tables d3 = tables (activated now u d)"
      using pg_stmt_success_at(2) [OF s1 _ committed(1)] by (simp add: activated_def)
    have f: "t_member_roles d3 = t_member_roles d" "t_acceptances d3 = t_acceptances d" "t_roles d3 = t_roles d"
        "t_members d3 = t_members (activated now u d)"
      using tables_fields [OF t3] by (simp_all add: activated_def update_members_def)
    from add_auto_roles_all [OF s2] tables_fields(3,6,23) [OF committed(3)] show ?thesis unfolding f by auto
  qed auto
  then show "tables d' = tables d \<or> (t_members d' = t_members (activated now u d) \<and> t_acceptances d' = t_acceptances d
      \<and> (\<forall>r \<in> set rs. \<lparr>mr_user_id = u, mr_role_id = r\<rparr> \<in> set (t_member_roles d')
           \<and> (r \<in> r_id ` set (t_roles d) \<or> \<lparr>mr_user_id = u, mr_role_id = r\<rparr> \<in> set (t_member_roles d))))"
    and "x = Inr m \<Longrightarrow> \<forall>r \<in> set rs. r \<in> r_id ` set (t_roles d) \<or> \<lparr>mr_user_id = u, mr_role_id = r\<rparr> \<in> set (t_member_roles d)"
    using tables_fields(3,6,23) [OF t] t ok by auto
qed

lemma seen_email [seen]:
  assumes "email_check cfg u rx w1 = (Inr x, w2)" and "tables (w_db w1) = tables (w_db w)"
  shows "ob_require_email_verification cfg \<longrightarrow> (\<exists>r. find_user u (w_db w) = Some r \<and> u_email_verified r)"
  using assms unfolding email_check_def
  by (auto split: if_splits elim!: andthen_ok dest!: seen_user seen_checks(4) simp: to_User_def)

lemma reads_email [reading]: "calm (email_check cfg u rx)"
  unfolding email_check_def by (intro reading)

lemma refuses_email [refusing]: "\<not> ok_reaction rx \<Longrightarrow> refuses (email_check cfg u rx)"
  unfolding email_check_def by (intro refusing) (simp_all add: internal_error_def)

text \<open>The end of an activation: the call, the event, the answer.\<close>

definition activation :: "uuid_lib \<Rightarrow> proto \<Rightarrow> (time \<Rightarrow> string) \<Rightarrow> handler \<Rightarrow> time \<Rightarrow> uuid \<Rightarrow> uuid list \<Rightarrow> (MemberModel, MemberModel reaction, 'r world) step" where
  "activation U M Z h dbnow u rs =
     andthen (orfail mapOnboardingError (on_db (Activate dbnow u rs))) (\<lambda>m.
     andthen (effect (announce_member U M Z h m)) (\<lambda>_.
     give (Success (member_ToModel U Z m))))"

lemma AcceptOnboarding_core:
  assumes "\<And>u slugs cfg w1. rq_userID c = Some u \<Longrightarrow> body = Some slugs \<Longrightarrow> first_row (t_onboarding (w_db w)) = Some cfg \<Longrightarrow>
     (ob_require_email_verification cfg \<longrightarrow> (\<exists>r. find_user u (w_db w) = Some r \<and> u_email_verified r)) \<Longrightarrow>
     \<not> ob_require_phone cfg \<Longrightarrow> \<not> ob_require_captcha cfg \<Longrightarrow> set (ds_requiredSlugs docs) \<subseteq> set slugs \<Longrightarrow>
     reaching w (acted w) (andthen (orfail (\<lambda>_. internal_error) (on_db (RecordAcceptances dbnow u slugs))) (\<lambda>_.
       activation U M Z h dbnow u (ob_auto_roles cfg))) w1 Q"
    and "AcceptOnboarding U M Z docs h dbnow c body w = (rx, w')" and "acted w rx w'"
  shows "Q rx w'"
  using assms(2,3) unfolding AcceptOnboarding_def activation_def [symmetric]
  apply (rule reachingD [rotated])
  apply ((rule reaching_acted, (intro reading; fail)[1], (intro refusing; (erule UserID_refuses | simp add: internal_error_def))[1])+)
  apply (drule seen, assumption?)+
  apply (rule assms(1))
  apply (assumption | simp add: UserID_ok)+
  done

lemma activation_effect:
  assumes "answerh (andthen (orfail (\<lambda>_. internal_error) (on_db (RecordAcceptances dbnow u slugs))) (\<lambda>_. activation U M Z h dbnow u rs)) w1 = (rx, w')"
    and t: "tables (w_db w1) = tables (w_db w)"
  shows "t_members (w_db w') = t_members (w_db w) \<or> (t_members (w_db w') = t_members (activated dbnow u (w_db w))
      \<and> (\<forall>s \<in> set slugs. \<exists>a \<in> set (t_acceptances (w_db w')). da_user_id a = u \<and> da_slug a = s)
      \<and> (\<forall>r \<in> set rs. \<lparr>mr_user_id = u, mr_role_id = r\<rparr> \<in> set (t_member_roles (w_db w'))
           \<and> (r \<in> r_id ` set (t_roles (w_db w)) \<or> \<lparr>mr_user_id = u, mr_role_id = r\<rparr> \<in> set (t_member_roles (w_db w)))))" (is ?change)
    and "ok_reaction rx \<longrightarrow> (\<forall>r \<in> set rs. r \<in> r_id ` set (t_roles (w_db w)) \<or> \<lparr>mr_user_id = u, mr_role_id = r\<rparr> \<in> set (t_member_roles (w_db w)))" (is ?ok)
proof -
  obtain y d2 where r: "RecordAcceptances dbnow u slugs (w_db w1) = (y, d2)" by fastforce
  have "?change \<and> ?ok"
  proof (cases y)
    case (Inl e)
    then have "w_db w' = d2" "rx = internal_error" using assms(1) r by (auto simp: answerh_def andthen_def orfail_def on_db_def)
    then show ?thesis using RecordAcceptances_members [OF r] tables_fields(3) [OF t] by (simp add: internal_error_def)
  next
    case (Inr x)
    obtain z d3 where a: "Activate dbnow u rs d2 = (z, d3)" by fastforce
    have w': "tables (w_db w') = tables d3" and ok: "ok_reaction rx \<Longrightarrow> \<exists>m. z = Inr m"
      using assms(1) r a Inr
      by (auto simp: answerh_def andthen_def orfail_def on_db_def activation_def effect_def announce_member_def Enqueue_def give_def split: sum.splits)
    note t2 = RecordAcceptances_ok [OF r [unfolded Inr]]
    have d2: "t_members d2 = t_members (w_db w)" "t_roles d2 = t_roles (w_db w)" "t_member_roles d2 = t_member_roles (w_db w)"
        "\<forall>s \<in> set slugs. \<exists>a \<in> set (t_acceptances d2). da_user_id a = u \<and> da_slug a = s"
        "t_members (activated dbnow u d2) = t_members (activated dbnow u (w_db w))"
      using tables_fields [OF t2] tables_fields [OF t] accepted_all [of "t_acceptances (w_db w)" dbnow u slugs]
      by (simp_all add: activated_def update_members_def)
    show ?thesis
      using Activate_all [OF a] ok tables_fields(3,6,23) [OF w'] d2 tables_fields(3,23) [of d3 d2] by fastforce
  qed
  then show ?change ?ok by blast+
qed

text \<open>
  C26. What an activation demands: when accepting the documents changes the table of members, the caller is
  known, the address is verified if the configuration asks for it, neither phone nor captcha is asked
  for, all required documents are among the accepted ones, the acceptances are stored, every
  automatic role is held, and the pending row of the caller is the only one that changes.
\<close>

theorem activation_complete:
  fixes w :: "'r world"
  assumes "AcceptOnboarding U M Z docs h dbnow c body w = (rx, w')" and "t_members (w_db w') \<noteq> t_members (w_db w)"
  shows "\<exists>u slugs cfg. rq_userID c = Some u \<and> body = Some slugs \<and> first_row (t_onboarding (w_db w)) = Some cfg
    \<and> (ob_require_email_verification cfg \<longrightarrow> (\<exists>r. find_user u (w_db w) = Some r \<and> u_email_verified r))
    \<and> \<not> ob_require_phone cfg \<and> \<not> ob_require_captcha cfg
    \<and> set (ds_requiredSlugs docs) \<subseteq> da_slug ` {a \<in> set (t_acceptances (w_db w')). da_user_id a = u}
    \<and> (\<forall>r \<in> set (ob_auto_roles cfg). \<lparr>mr_user_id = u, mr_role_id = r\<rparr> \<in> set (t_member_roles (w_db w')))
    \<and> t_members (w_db w') = updated_rows (\<lambda>m. m_user_id m = u \<and> m_status m = Pending)
        (\<lambda>m. m\<lparr>m_status := Active, m_onboarded_at := Some dbnow\<rparr>) (t_members (w_db w))" (is "?P w'")
proof -
  have ac: "acted w rx w'" using assms(2) tables_fields(3) unfolding acted_def by metis
  have "t_members (w_db w') = t_members (w_db w) \<or> ?P w'"
  proof (rule AcceptOnboarding_core [OF _ assms(1) ac], rule reachingI)
    fix u slugs cfg and rx :: "MemberModel reaction" and w1 w'' :: "'r world"
    assume h: "rq_userID c = Some u" "body = Some slugs" "first_row (t_onboarding (w_db w)) = Some cfg"
      "ob_require_email_verification cfg \<longrightarrow> (\<exists>r. find_user u (w_db w) = Some r \<and> u_email_verified r)"
      "\<not> ob_require_phone cfg" "\<not> ob_require_captcha cfg" "set (ds_requiredSlugs docs) \<subseteq> set slugs"
      and t: "tables (w_db w1) = tables (w_db w)"
      and a: "answerh (andthen (orfail (\<lambda>_. internal_error) (on_db (RecordAcceptances dbnow u slugs))) (\<lambda>_.
        activation U M Z h dbnow u (ob_auto_roles cfg))) w1 = (rx, w'')"
    from activation_effect(1) [OF a t] show "t_members (w_db w'') = t_members (w_db w) \<or> ?P w''"
    proof
      assume e: "t_members (w_db w'') = t_members (activated dbnow u (w_db w))
        \<and> (\<forall>s \<in> set slugs. \<exists>a \<in> set (t_acceptances (w_db w'')). da_user_id a = u \<and> da_slug a = s)
        \<and> (\<forall>r \<in> set (ob_auto_roles cfg). \<lparr>mr_user_id = u, mr_role_id = r\<rparr> \<in> set (t_member_roles (w_db w''))
          \<and> (r \<in> r_id ` set (t_roles (w_db w)) \<or> \<lparr>mr_user_id = u, mr_role_id = r\<rparr> \<in> set (t_member_roles (w_db w))))"
      then have "set (ds_requiredSlugs docs) \<subseteq> da_slug ` {a \<in> set (t_acceptances (w_db w'')). da_user_id a = u}" using h(7) by fastforce
      with e h show ?thesis by (auto simp: activated_def update_members_def updated_rows_def)
    qed simp
  qed
  with assms(2) show ?thesis by blast
qed

section \<open>Where the endpoints disagree\<close>

lemma pure_delete_role: "pure_stmt (delete_role i)"
  by (auto simp: pure_stmt_def delete_role_def Let_def)

lemma role_Delete_ok:
  assumes "role_Delete i d = (Inr x, d')" and "distinct (map r_id (t_roles d))"
  shows "i \<notin> r_id ` set (t_roles d')" "\<lparr>mr_user_id = u, mr_role_id = i\<rparr> \<notin> set (t_member_roles d')" "t_onboarding d' = t_onboarding d"
proof -
  obtain n where s: "pg_stmt (delete_role i) d = (Inr n, d')" "n \<noteq> 0"
    using assms(1) by (auto simp: role_Delete_def split: prod.splits sum.splits option.splits if_splits)
  from pg_stmt_success [OF s(1) pure_delete_role] have f: "fst (delete_role i d) = Inr n" and t: "tables d' = tables (snd (delete_role i d))" by auto
  then obtain r where r: "r \<in> set (t_roles d)" "r_id r = i" "\<not> r_is_everyone r"
    using s(2) by (auto simp: delete_role_def Let_def filter_empty_conv split: if_splits)
  have only: "\<forall>x \<in> set (t_roles d). r_id x = i \<longrightarrow> x = r"
    using assms(2) r(1,2) by (metis distinct_map inj_onD)
  have e: "snd (delete_role i d) = d\<lparr>t_roles := filter (\<lambda>r. \<not> (r_id r = i \<and> \<not> r_is_everyone r)) (t_roles d),
      t_member_roles := filter (\<lambda>mr. mr_role_id mr \<noteq> i) (t_member_roles d),
      t_overrides := filter (\<lambda>v. \<not> (or_PrincipalType v = PrincipalRole \<and> or_PrincipalID v = i)) (t_overrides d)\<rparr>"
    using f s(2) by (simp add: delete_role_def Let_def split: if_splits)
  have left: "t_roles d' = filter (\<lambda>r. \<not> (r_id r = i \<and> \<not> r_is_everyone r)) (t_roles d)" using tables_fields(5) [OF t] unfolding e by simp
  show "i \<notin> r_id ` set (t_roles d')"
  proof
    assume "i \<in> r_id ` set (t_roles d')"
    then obtain x where "x \<in> set (t_roles d)" "r_id x = i" "\<not> (r_id x = i \<and> \<not> r_is_everyone x)" unfolding left by auto
    with only r(3) show False by blast
  qed
  show "\<lparr>mr_user_id = u, mr_role_id = i\<rparr> \<notin> set (t_member_roles d')" "t_onboarding d' = t_onboarding d"
    using tables_fields(6,22) [OF t] by (simp_all add: e)
qed

text \<open>
  C35. Deleting a role that new members receive automatically closes the door: the role stays in the
  configuration, no activation can give it, so after the deletion an acceptance of the documents is
  refused, whoever asks, and nobody becomes active.
\<close>

theorem deleted_auto_role_blocks:
  fixes w :: "'r world"
  assumes "role_Delete i d = (Inr (), w_db w)" and "distinct (map r_id (t_roles d))"
    and "first_row (t_onboarding d) = Some cfg" and "i \<in> set (ob_auto_roles cfg)"
    and "AcceptOnboarding U M Z docs h dbnow c body w = (rx, w')"
  shows "\<not> ok_reaction rx \<and> t_members (w_db w') = t_members (w_db w)"
proof (cases "acted w rx w'")
  case True
  show ?thesis
  proof (rule AcceptOnboarding_core [OF _ assms(5) True], rule reachingI)
    fix u slugs cfg' and rx :: "MemberModel reaction" and w1 w'' :: "'r world"
    assume c: "first_row (t_onboarding (w_db w)) = Some cfg'" and t: "tables (w_db w1) = tables (w_db w)"
      and a: "answerh (andthen (orfail (\<lambda>_. internal_error) (on_db (RecordAcceptances dbnow u slugs))) (\<lambda>_.
        activation U M Z h dbnow u (ob_auto_roles cfg'))) w1 = (rx, w'')"
    have "cfg' = cfg" using c role_Delete_ok(3) [OF assms(1,2)] assms(3) by simp
    then have none: "\<not> (\<forall>r \<in> set (ob_auto_roles cfg'). r \<in> r_id ` set (t_roles (w_db w)) \<or> \<lparr>mr_user_id = u, mr_role_id = r\<rparr> \<in> set (t_member_roles (w_db w)))"
      using assms(4) role_Delete_ok(1,2) [OF assms(1,2)] by blast
    have "\<not> ok_reaction rx" using activation_effect(2) [OF a t] none by (rule not_mono [THEN mp])
    moreover have "t_members (w_db w'') = t_members (w_db w)" using activation_effect(1) [OF a t] none by (elim disjE) (simp, meson)
    ultimately show "\<not> ok_reaction rx \<and> t_members (w_db w'') = t_members (w_db w)" ..
  qed
next
  case False
  then show ?thesis using tables_fields(3) [of "w_db w'" "w_db w"] by (auto simp: acted_def)
qed

lemma find_map_both:
  "(\<And>x. P x \<Longrightarrow> P (f x)) \<Longrightarrow> find P (map (\<lambda>x. if P x \<and> R x then f x else x) xs) = map_option (\<lambda>x. if R x then f x else x) (find P xs)"
  by (induction xs) auto

text \<open>
  C34. The status of the onboarding lets a member in whom the acceptance refuses: when a captcha or a phone
  number is asked for and no document is, accepting the documents changes nothing, yet asking for
  the status makes the pending member active.
\<close>

theorem status_activates_unchecked:
  assumes "pg_outcomes (w_db w) = []" and "rq_userID c = Some u" and "first_row (t_onboarding (w_db w)) = Some cfg"
    and "ob_require_captcha cfg \<or> ob_require_phone cfg" and "\<not> ob_require_email_verification cfg" and "ob_auto_roles cfg = []"
    and "ds_requiredSlugs docs = []" and "find_member u (w_db w) = Some m" and "m_status m = Pending"
  shows "\<not> ok_reaction (fst (AcceptOnboarding U M Z docs h dbnow c body w))
    \<and> tables (w_db (snd (AcceptOnboarding U M Z docs h dbnow c body w))) = tables (w_db w)
    \<and> find_member u (w_db (snd (GetOnboardingStatus U M Z docs h dbnow c w))) = Some (m\<lparr>m_status := Active, m_onboarded_at := Some dbnow\<rparr>)"
proof -
  obtain rx w' where a: "AcceptOnboarding U M Z docs h dbnow c body w = (rx, w')" by fastforce
  have "\<not> acted w rx w'"
  proof
    assume "acted w rx w'"
    with a show False
      by (rule AcceptOnboarding_core [where Q = "\<lambda>_ _. False", rotated]) (use assms(3,4) in auto)
  qed
  moreover have "find_member u (w_db (snd (GetOnboardingStatus U M Z docs h dbnow c w))) = Some (m\<lparr>m_status := Active, m_onboarded_at := Some dbnow\<rparr>)"
  proof -
    obtain z d1 where z: "Activate dbnow u [] (w_db w) = (z, d1)" by fastforce
    have g: "onboarding_Get (w_db w) = (Inr cfg, w_db w)" using assms(1,3) by (simp add: onboarding_Get_def onboarding_scanConfig_def)
    have e: "email_check cfg u (Success OnboardingStepVerifyEmail) w = (Inr (), w)" using assms(5) by (simp add: email_check_def)
    have st: "GetStatus u (w_db w) = (Inr Pending, w_db w)" using assms(1,8,9) by (simp add: GetStatus_def)
    have "w_db (snd (GetOnboardingStatus U M Z docs h dbnow c w)) = d1"
      using assms(2,6,7)
      by (simp add: GetOnboardingStatus_def answerh_def andthen_def checkh_def UserID_def orfail_def attempt_def on_db_def g e st z give_def
          stop_def effect_def announce_member_def Enqueue_def split: sum.split)
    moreover have "find_member u d1 = Some (m\<lparr>m_status := Active, m_onboarded_at := Some dbnow\<rparr>)"
    proof -
      have "m \<in> set (t_members (w_db w))" "m_user_id m = u" using find_Some_member [OF assms(8) [unfolded find_member_def]] by simp_all
      then have n: "filter (\<lambda>m. m_user_id m = u \<and> m_status m = Pending) (t_members (w_db w)) \<noteq> []" using assms(9) by (auto simp: filter_empty_conv)
      have "WithTx (activate_tx dbnow u []) (w_db w) = (Inr (), activated dbnow u (w_db w))"
        using assms(1) n by (simp add: WithTx_def activate_tx_def update_members_def activated_def)
      then have "tables d1 = tables (activated dbnow u (w_db w))"
        using z by (auto simp: Activate_def dest: GetByUserIDAnyStatus_tables)
      then have "find_member u d1 = find_member u (activated dbnow u (w_db w))" by (rule tables_lookups)
      then show ?thesis using assms(8,9) by (simp add: find_member_def activated_def update_members_def find_map_both)
    qed
    ultimately show ?thesis by simp
  qed
  ultimately show ?thesis using a by (simp add: acted_def)
qed

section \<open>Bounds and documents\<close>

text \<open>
  C25. An invite is never used more often than it allows: over every sequence of requests that create,
  delete or use invites or delete channels, and of calls on accounts, the use count of each invite
  stays between zero and its limit, no two invites share a code, and each belongs to an existing
  channel and user, whatever statements fail.
\<close>

theorem invite_uses_bounded:
  assumes "(invite_request U M Z)\<^sup>*\<^sup>* w w'" and "invites_ok (w_db w)"
  shows "distinct (map iv_code (t_invites (w_db w'))) \<and> (\<forall>v \<in> set (t_invites (w_db w')). 0 \<le> iv_use_count v
    \<and> (case iv_max_uses v of None \<Rightarrow> True | Some m \<Rightarrow> iv_use_count v \<le> m)
    \<and> iv_channel_id v \<in> ch_id ` set (t_channels (w_db w')) \<and> iv_creator_id v \<in> u_id ` set (t_users (w_db w')))"
proof -
  from assms have "invites_ok (w_db w')" by (induction rule: rtranclp_induct) (auto intro: invite_request_ok)
  then show ?thesis by (auto simp: invites_ok_def invite_ok_def user_ids_def split: option.splits)
qed

text \<open>
  C32. What is loaded of the documents, however \<open>sort.Slice\<close> arranges documents of the same
  position: a store read from a manifest holds exactly one document per entry, in an order
  of ascending positions, with the contents of a local file, valid and pairwise different
  slugs and a title, and its required slugs are those of the documents marked as required.
\<close>

theorem LoadDocuments_sound:
  assumes "LoadDocuments arrange unmarshal fs = Inr s" and "fs_manifest fs = Contents raw" and "sorts_by dc_Position arrange"
  shows "\<exists>es docs. unmarshal raw = Some es \<and> list_all2 (document_ok fs) es docs \<and> mset (ds_docs s) = mset docs
    \<and> sorted (map dc_Position (ds_docs s)) \<and> distinct (map dc_Slug (ds_docs s))
    \<and> set (ds_requiredSlugs s) = dc_Slug ` {d \<in> set (ds_docs s). dc_Required d}"
proof -
  from LoadDocuments_ok [OF assms(1,2)] obtain es docs where d: "unmarshal raw = Some es" "list_all2 (document_ok fs) es docs"
      "distinct (map dc_Slug docs)" "ds_docs s = arrange docs" "ds_requiredSlugs s = required_slugs docs" by blast
  have m: "mset (ds_docs s) = mset docs" and o: "sorted (map dc_Position (ds_docs s))"
    using assms(3) d(4) by (simp_all add: sorts_by_def)
  have "distinct (map dc_Slug (ds_docs s))" using d(3) m by (metis mset_eq_imp_distinct_iff mset_map)
  moreover have "set (ds_docs s) = set docs" using m by (rule mset_eq_setD)
  ultimately show ?thesis using d m o by (auto simp: required_slugs_def)
qed

section \<open>Examples\<close>

definition sample_onboarding :: "bool \<Rightarrow> bool \<Rightarrow> uuid list \<Rightarrow> onboarding_row" where
  "sample_onboarding open_join captcha roles =
     \<lparr>ob_id = 60, ob_welcome_channel_id = None, ob_require_email_verification = False, ob_open_join = open_join,
      ob_min_account_age_seconds = 0, ob_require_phone = False, ob_require_captcha = captcha, ob_auto_roles = roles,
      ob_created_at = 0, ob_updated_at = 0\<rparr>"

definition sample_invite :: invite_row where
  "sample_invite =
     \<lparr>iv_id = 70, iv_code = ''abc'', iv_channel_id = 10, iv_creator_id = 1, iv_max_uses = Some 2, iv_use_count = 0,
      iv_max_age_seconds = None, iv_expires_at = None, iv_created_at = 0\<rparr>"

definition joining_world :: "member_row list \<Rightarrow> onboarding_row \<Rightarrow> vstore world" where
  "joining_world ms cfg = sample_world\<lparr>w_db := sample_db\<lparr>t_members := ms, t_onboarding := [cfg], t_invites := [sample_invite]\<rparr>\<rparr>"

definition with_code :: "uuid \<Rightarrow> request" where
  "with_code u = \<lparr>rq_params = (\<lambda>_. ''abc''), rq_query = (\<lambda>_. []), rq_userID = Some u\<rparr>"

lemmas handler_eval = answerh_def andthen_def checkh_def orfail_def attempt_def valid_def bodyh_def guardh_def effect_def give_def stop_def
  on_db_def UserID_def

lemma onboarding_Get_eval [simp]:
  "pg_outcomes d = [] \<Longrightarrow> t_onboarding d = cfg # rest \<Longrightarrow> onboarding_Get d = (Inr cfg, d)"
  by (simp add: onboarding_Get_def onboarding_scanConfig_def first_row_def)

lemma AnyStatus_eval [simp]:
  "pg_outcomes d = [] \<Longrightarrow> GetByUserIDAnyStatus u d
     = (case member_row_query True u d of None \<Rightarrow> (Inl member_ErrNotFound, d) | Some p \<Rightarrow> (Inr p, d))"
  by (simp add: GetByUserIDAnyStatus_def scanWithProfile_def pgx_ErrNoRows_def split: option.split)

lemma joining_db [simp]:
  "pg_outcomes (w_db (joining_world ms cfg)) = []" "t_onboarding (w_db (joining_world ms cfg)) = [cfg]" "t_members (w_db (joining_world ms cfg)) = ms"
  "t_invites (w_db (joining_world ms cfg)) = [sample_invite]" "t_bans (w_db (joining_world ms cfg)) = []"
  "t_users (w_db (joining_world ms cfg)) = [sample_user 1 ''ada'', sample_user 2 ''bob'', sample_user 3 ''eve'']"
  "t_roles (w_db (joining_world ms cfg)) = [sample_role 30 ''everyone'' 0 1 True, sample_role 31 ''mod'' 1 4 False]"
  "t_member_roles (w_db (joining_world ms cfg)) = [\<lparr>mr_user_id = 2, mr_role_id = 31\<rparr>]"
  by (simp_all add: joining_world_def sample_db_def)

theorem join_admission_witness:
  "t_members (w_db (snd (JoinServer ref_uuid (\<lambda>_. []) 7 7 (with_code 3) (joining_world [] (sample_onboarding True False [])))))
     = [pending_member 7 3]"
proof -
  let ?w = "joining_world [] (sample_onboarding True False [])"
  let ?r = "JoinServer ref_uuid (\<lambda>_. []) 7 7 (with_code 3) ?w"
  have "t_members (w_db (snd ?r)) \<noteq> []"
    by (simp add: JoinServer_def handler_eval with_code_def sample_onboarding_def IsBanned_def join_member_def CreatePending_def
        WithTx_def create_pending_tx_def insert_pending_def insert_everyone_def user_exists_def sample_user_def sample_role_def
        Let_def member_row_query_def profile_def find_member_def)
  then show ?thesis
    using join_admission [of ref_uuid "\<lambda>_. []" 7 7 "with_code 3" ?w "fst ?r" "snd ?r"] by (auto simp: with_code_def)
qed

text \<open>A member joins a second time.\<close>

definition repeated_join :: "MemberModel reaction \<times> vstore world" where
  "repeated_join = JoinViaInvite ref_uuid (\<lambda>_. []) 7 7 (with_code 2) (joining_world [sample_member 2 Active] (sample_onboarding False False []))"

lemma member_joins_again: "ok_reaction (fst repeated_join)"
  by (simp add: repeated_join_def ErrAlreadyMember_def JoinViaInvite_def handler_eval with_code_def sample_onboarding_def IsBanned_def join_member_def CreatePending_def
      WithTx_def create_pending_tx_def insert_pending_def sample_member_def GetByCode_def find_invite_def sample_invite_def
      invite_Validate_def user_GetByID_def scanUser_def scan_row_def find_user_def sample_user_def to_User_def Use_def scanInvite_def use_invite_def usable_def
      used_once_def updated_rows_def max_int4_def unique_violation_def IsUniqueViolation_def rollback_def
      member_row_query_def profile_def find_member_def scan_one_def or_missing_def maperr_def bindc_def catchc_def ret_def Let_def)

theorem join_uses_invite_witness:
  "t_members (w_db (snd repeated_join)) = [sample_member 2 Active] \<and> map iv_use_count (t_invites (w_db (snd repeated_join))) = [1]"
  using join_uses_invite [OF repeated_join_def [symmetric, THEN trans, OF prod.collapse [symmetric]] member_joins_again]
  by (auto simp: with_code_def updated_rows_def sample_invite_def usable_def used_once_def sample_member_def)

lemma joining_invites_ok: "invites_ok (w_db (joining_world ms cfg))"
  by (simp add: invites_ok_def invite_ok_def sample_invite_def max_int4_def user_ids_def sample_user_def)
    (simp add: joining_world_def sample_db_def sample_channel_def)

theorem invite_uses_bounded_witness: "distinct (map iv_code (t_invites (w_db (snd repeated_join))))"
  using invite_uses_bounded [OF r_into_rtranclp [where r = "invite_request ref_uuid ref_proto (\<lambda>_. [])",
        OF invite_request.join [OF prod.collapse [symmetric]]] joining_invites_ok]
  unfolding repeated_join_def by blast

definition onboarded :: "MemberModel reaction \<times> vstore world" where
  "onboarded = AcceptOnboarding ref_uuid ref_proto (\<lambda>_. []) EmptyDocumentStore all_on 7 (with_code 3) (Some [])
     (joining_world [sample_member 3 Pending] (sample_onboarding False False [31]))"

theorem activation_complete_witness:
  "\<lparr>mr_user_id = 3, mr_role_id = 31\<rparr> \<in> set (t_member_roles (w_db (snd onboarded))) \<and> map m_status (t_members (w_db (snd onboarded))) = [Active]"
proof -
  let ?w = "joining_world [sample_member 3 Pending] (sample_onboarding False False [31])"
  have "t_members (w_db (snd onboarded)) \<noteq> t_members (w_db ?w)"
    by (simp add: onboarded_def AcceptOnboarding_def handler_eval with_code_def sample_onboarding_def email_check_def EmptyDocumentStore_def
        RecordAcceptances_def ret_def Activate_def WithTx_def activate_tx_def update_members_def sample_member_def add_member_role_def
        user_exists_def sample_user_def sample_role_def Let_def member_row_query_def profile_def find_member_def announce_member_def Enqueue_def)
  from activation_complete [OF onboarded_def [symmetric, THEN trans, OF prod.collapse [symmetric]] this] show ?thesis
    by (auto simp: with_code_def first_row_def sample_onboarding_def updated_rows_def sample_member_def)
qed

definition before_deletion :: "vstore world" where
  "before_deletion = joining_world [sample_member 3 Pending] (sample_onboarding False False [31])"

definition after_deletion :: "vstore world" where
  "after_deletion = before_deletion\<lparr>w_db := snd (role_Delete 31 (w_db before_deletion))\<rparr>"

theorem deleted_auto_role_blocks_witness:
  "\<not> ok_reaction (fst (AcceptOnboarding ref_uuid ref_proto (\<lambda>_. []) EmptyDocumentStore all_on 7 (with_code 3) (Some []) after_deletion))"
proof -
  have d: "role_Delete 31 (w_db before_deletion) = (Inr (), w_db after_deletion)"
    by (simp add: after_deletion_def before_deletion_def role_Delete_def delete_role_def sample_role_def Let_def)
  have ids: "distinct (map r_id (t_roles (w_db before_deletion)))" by (simp add: before_deletion_def sample_role_def)
  show ?thesis
    using deleted_auto_role_blocks [OF d ids, of "sample_onboarding False False [31]" ref_uuid ref_proto "\<lambda>_. []" EmptyDocumentStore all_on 7
        "with_code 3" "Some []", OF _ _ prod.collapse [symmetric]]
    by (simp add: before_deletion_def sample_onboarding_def first_row_def)
qed

definition captcha_world :: "vstore world" where
  "captcha_world = joining_world [sample_member 3 Pending] (sample_onboarding False True [])"

theorem status_activates_unchecked_witness:
  "\<not> ok_reaction (fst (AcceptOnboarding ref_uuid ref_proto (\<lambda>_. []) EmptyDocumentStore all_on 7 (with_code 3) (Some []) captcha_world))
    \<and> map_option m_status (find_member 3 (w_db (snd (GetOnboardingStatus ref_uuid ref_proto (\<lambda>_. []) EmptyDocumentStore all_on 7 (with_code 3) captcha_world))))
      = Some Active"
proof -
  have h: "find_member 3 (w_db captcha_world) = Some (sample_member 3 Pending)" by (simp add: captcha_world_def find_member_def sample_member_def)
  have "first_row (t_onboarding (w_db captcha_world)) = Some (sample_onboarding False True [])" by (simp add: captcha_world_def first_row_def)
  from status_activates_unchecked [OF _ _ this _ _ _ _ h, of "with_code 3" EmptyDocumentStore ref_uuid ref_proto "\<lambda>_. []" all_on 7 "Some []"]
  show ?thesis by (simp add: captcha_world_def with_code_def sample_onboarding_def EmptyDocumentStore_def sample_member_def)
qed

definition sample_files :: filesystem where
  "sample_files = \<lparr>fs_manifest = Contents ''m'', fs_document = (\<lambda>_. Contents ''rules'')\<rparr>"

definition sample_manifest :: "manifestEntry list" where
  "sample_manifest = [\<lparr>me_Slug = ''b'', me_Title = ''A'', me_File = ''b.md'', me_Position = 1, me_Required = True\<rparr>,
     \<lparr>me_Slug = ''a'', me_Title = ''A'', me_File = ''a.md'', me_Position = 0, me_Required = False\<rparr>,
     \<lparr>me_Slug = ''c'', me_Title = ''A'', me_File = ''c.md'', me_Position = 1, me_Required = False\<rparr>]"

text \<open>A sort that is not stable: it turns documents of the same position round.\<close>

definition backwards :: "Document list \<Rightarrow> Document list" where
  "backwards xs = sort_key dc_Position (rev xs)"

lemma backwards_sorts: "sorts_by dc_Position backwards"
  by (simp add: sorts_by_def backwards_def)

lemma sample_title: "TrimSpace ''A'' = ''A''"
  by (simp add: TrimSpace_def byte_def TrimLeft.simps [of "''A''"] TrimRight.simps [of "''A''"] DecodeRune_def IsSpace_def
      DecodeLastRune_def Let_def rune_size_def second_range_def)

theorem LoadDocuments_sound_witness:
  "\<exists>s. LoadDocuments backwards (\<lambda>_. Some sample_manifest) sample_files = Inr s \<and> map dc_Slug (ds_docs s) = [''a'', ''c'', ''b'']
     \<and> sorted (map dc_Position (ds_docs s)) \<and> set (ds_requiredSlugs s) \<subseteq> set (map dc_Slug (ds_docs s))"
proof -
  have "\<exists>s. LoadDocuments backwards (\<lambda>_. Some sample_manifest) sample_files = Inr s \<and> map dc_Slug (ds_docs s) = [''a'', ''c'', ''b'']"
    by (simp add: LoadDocuments_def sample_files_def sample_manifest_def validateManifestEntry_def sample_title slugPattern_def slug_first_def
        IsLocal_def byte_def backwards_def)
  then obtain s where "LoadDocuments backwards (\<lambda>_. Some sample_manifest) sample_files = Inr s
      \<and> map dc_Slug (ds_docs s) = [''a'', ''c'', ''b'']" by (elim exE)
  then have s: "LoadDocuments backwards (\<lambda>_. Some sample_manifest) sample_files = Inr s"
    "map dc_Slug (ds_docs s) = [''a'', ''c'', ''b'']" by simp_all
  from LoadDocuments_sound [OF s(1) _ backwards_sorts, of "''m''"] s show ?thesis by (auto simp: sample_files_def)
qed

end
