(* ===== verification/Writing.thy ===== *)
theory Writing
  imports Content_Laws Thread_Http Permission_Http
begin

text \<open>
  Steps around the one call of a handler that writes: permission checks before it, events, audit
  entries and the loading of models after it. They leave the tables alone, but may change the cache
  and the queues.
\<close>

section \<open>Steps that leave the tables alone\<close>

definition settled :: "('p, 'a, 'r world) step \<Rightarrow> bool" where
  "settled m \<longleftrightarrow> (\<forall>w x w'. m w = (x, w') \<longrightarrow> tables (w_db w') = tables (w_db w))"

named_theorems settling

lemma settledI: "(\<And>w x w'. m w = (x, w') \<Longrightarrow> tables (w_db w') = tables (w_db w)) \<Longrightarrow> settled m"
  by (simp add: settled_def)

lemma settledD: "settled m \<Longrightarrow> m w = (x, w') \<Longrightarrow> tables (w_db w') = tables (w_db w)"
  by (simp add: settled_def)

lemma settled_calm: "calm m \<Longrightarrow> settled m"
  by (auto intro!: settledI dest: calmD)

lemma settled_calls [settling]: "reads m \<Longrightarrow> settled (orfail f (on_db m))" "reads m \<Longrightarrow> settled (attempt (on_db m))"
  by (intro settled_calm reading; assumption)+

lemma settled_basic [settling]:
  "settled (give x)" "settled (stop rx)" "settled (checkh r)" "settled (valid f v)" "settled (bodyh b)" "settled (guardh g rx)"
  "settled (effect id)" "settled (effect (Enqueue h t j))" "settled (effect (go_Record h e))" "settled (effect (EnqueueTargeted h t j us))"
  by (auto intro!: settledI simp: Enqueue_def go_Record_def EnqueueTargeted_def valid_def bodyh_def guardh_def split: sum.splits)

lemma settled_andthen [settling]: "settled m \<Longrightarrow> (\<And>x. settled (k x)) \<Longrightarrow> settled (andthen m k)"
  by (rule settledI) (erule andthen_cases; metis settledD)

lemma settled_case [settling]:
  "settled m1 \<Longrightarrow> settled m2 \<Longrightarrow> settled (if b then m1 else m2)"
  "settled m1 \<Longrightarrow> (\<And>x. settled (g x)) \<Longrightarrow> settled (case y of None \<Rightarrow> m1 | Some x \<Rightarrow> g x)"
  "(\<And>x. settled (g1 x)) \<Longrightarrow> (\<And>x. settled (g x)) \<Longrightarrow> settled (case z of Inl x \<Rightarrow> g1 x | Inr x \<Rightarrow> g x)"
  "(\<And>x1 x2. settled (g2 x1 x2)) \<Longrightarrow> settled (case p of (x1, x2) \<Rightarrow> g2 x1 x2)"
  by (simp_all split: option.splits sum.splits prod.splits)

lemma settled_effect_if [settling]:
  "settled (effect f1 :: ('p, unit, 'r world) step) \<Longrightarrow> settled (effect f2 :: ('p, unit, 'r world) step)
     \<Longrightarrow> settled (effect (if b then f1 else f2) :: ('p, unit, 'r world) step)"
  by simp

lemma settled_world: "(\<And>w x w'. m w = (x, w') \<Longrightarrow> tables (w_db w') = tables (w_db w)) \<Longrightarrow> settled (orfail f m)"
  by (rule settledI) (auto simp: orfail_def split: prod.splits sum.splits)

section \<open>Permission checks\<close>

lemma HasPermission_tables:
  assumes "HasPermission P PGStore (ValkeyCache U V) u c p w = (x, w')"
  shows "tables (w_db w') = tables (w_db w)"
proof -
  have cache: "w_db (snd (on_vk f w)) = w_db w" for f :: "('c, 'a) call" and w :: "'a world"
    by (simp add: on_vk_def split: prod.split)
  have "tables (w_db w1) = tables (w_db w)" if "Resolve P PGStore (ValkeyCache U V) u c w = (y, w1)" for y w1
    using that cache [of "cache_Get U V u c" w] cache [of "cache_Set U V u c q" for q]
    by (auto simp: Resolve_def ValkeyCache_def split: prod.splits sum.splits option.splits dest!: compute_tables)
  with assms show ?thesis by (auto simp: HasPermission_def split: prod.splits sum.splits)
qed

lemma settled_permission [settling]:
  "settled (orfail f (HasPermission P PGStore (ValkeyCache U V) u c p))" "settled (permitted P U V u c p denied)"
proof -
  show "settled (orfail f (HasPermission P PGStore (ValkeyCache U V) u c p))" by (rule settled_world) (rule HasPermission_tables)
  then show "settled (permitted P U V u c p denied)" unfolding permitted_def by (intro settling) (rule settled_world, rule HasPermission_tables)
qed

text \<open>A user holds a permission in a channel: the effective permissions contain it.\<close>

definition holds :: "perm_lib \<Rightarrow> uuid \<Rightarrow> uuid \<Rightarrow> perm \<Rightarrow> db \<Rightarrow> bool" where
  "holds P u c p d \<longleftrightarrow> (\<exists>q. effective P (db_perm_data d) u c q \<and> pHas P q p)"

lemma HasPermission_holds:
  assumes "world_resolver P U V" and "world_coherent P U V w" and "c \<noteq> serverPermKey"
    and "HasPermission P PGStore (ValkeyCache U V) u c p w1 = (Inr True, w2)" and "tables (w_db w1) = tables (w_db w)" and "w_vk w1 = w_vk w"
  shows "holds P u c p (w_db w)"
proof -
  from HasPermission_ok [OF assms(4)] obtain q where q: "Resolve P PGStore (ValkeyCache U V) u c w1 = (Inr q, w2)" "pHas P q p" by blast
  have same: "db_perm_data (w_db w1) = db_perm_data (w_db w)" by (rule db_perm_data_tables [OF assms(5)])
  have "world_coherent P U V w1" using assms(2,6) same by (simp add: world_coherent_def)
  from world_resolver.world_Resolve [OF assms(1) _ assms(3) q(1)] this q(2) same show ?thesis
    by (auto simp: holds_def world_coherent_def)
qed

lemma permission_checked:
  assumes "andthen (orfail f (HasPermission P PGStore (ValkeyCache U V) u c p)) (\<lambda>allowed. guardh allowed rx) w1 = (Inr x, w2)"
    and "world_resolver P U V" and "world_coherent P U V w" and "c \<noteq> serverPermKey" and "tables (w_db w1) = tables (w_db w)" and "w_vk w1 = w_vk w"
  shows "holds P u c p (w_db w)"
  using assms(1) by (elim andthen_ok) (auto dest!: seen_checks(4) intro: HasPermission_holds [OF assms(2-4) _ assms(5,6)])

section \<open>The call that writes\<close>

lemma andthen_assoc: "andthen (andthen m k) g = andthen m (\<lambda>x. andthen (k x) g)"
  by (rule ext) (simp add: andthen_def split: prod.split sum.split)

lemma andthen_give [simp]: "andthen (give x) k = k x"
  by (rule ext) (simp add: andthen_def give_def)

lemma andthen_split: "andthen (case p of (a, b) \<Rightarrow> f a b) k = (case p of (a, b) \<Rightarrow> andthen (f a b) k)"
  by (simp split: prod.split)

text \<open>The answer of a handler that also starts goroutines.\<close>

lemma answergo_answerh: "answergo m w = ((rx, gos), w') \<Longrightarrow> answerh (andthen m (\<lambda>y. give (fst y))) w = (rx, w')"
  by (auto simp: answergo_def answerh_def andthen_def give_def split: prod.splits sum.splits)

lemma settled_answer: "settled m \<Longrightarrow> answerh m w = (rx, w') \<Longrightarrow> tables (w_db w') = tables (w_db w)"
  by (auto simp: answerh_def split: prod.splits sum.splits dest: settledD)

lemma reaching_settled:
  assumes "settled m" and "\<And>x w1. m w = (Inr x, w1) \<Longrightarrow> tables (w_db w) = tables (w_db w0) \<Longrightarrow> reaching w0 (changed w0) (k x) w1 Q"
  shows "reaching w0 (changed w0) (andthen m k) w Q"
proof (rule reachingI)
  fix rx w' assume h: "tables (w_db w) = tables (w_db w0)" "answerh (andthen m k) w = (rx, w')" "changed w0 rx w'"
  obtain r w1 where m: "m w = (r, w1)" by fastforce
  with settledD [OF assms(1) m] h assms(2) show "Q rx w'"
    by (cases r) (auto simp: answerh_andthen reaching_def changed_def)
qed

text \<open>A call is followed by steps that leave the tables alone: what the handler changes is what the call changes.\<close>

lemma write_then:
  assumes "answerh (andthen (orfail f (on_db c)) k) w = (rx, w')" and "\<And>x. settled (k x)"
  obtains y d where "c (w_db w) = (y, d)" "tables (w_db w') = tables d"
proof -
  obtain y d where c: "c (w_db w) = (y, d)" by fastforce
  have "tables (w_db w') = tables d"
  proof (cases y)
    case (Inr x)
    then have "answerh (k x) (w\<lparr>w_db := d\<rparr>) = (rx, w')" using assms(1) c by (simp add: answerh_andthen [where r = "Inr x"] orfail_def on_db_def)
    then show ?thesis using settled_answer [OF assms(2)] by fastforce
  qed (use assms(1) c in \<open>auto simp: answerh_def andthen_def orfail_def on_db_def\<close>)
  with c show thesis by (rule that)
qed

end
