(* ===== verification/Message_Laws.thy ===== *)
theory Message_Laws
  imports Writing Joining_Laws
begin

text \<open>
  What the message endpoints guarantee: who may edit and delete, how the pages of a channel add up,
  what a read position does, and where an answer says something else than what happened.
\<close>

section \<open>Reading and writing one message\<close>

lemma reads_message [reading]: "reads (message_GetByID i)"
  unfolding message_GetByID_def scanMessage_def by (intro reading)

lemma get_message_outcomes [simp]: "get_message i (d\<lparr>pg_outcomes := os\<rparr>) = get_message i d"
  by (simp add: get_message_def with_author_def [abs_def])

lemma get_message_tables: "tables d' = tables d \<Longrightarrow> get_message i d' = get_message i d"
  by (metis tables_eqD get_message_outcomes)

lemma message_GetByID_ok: "message_GetByID i d = (Inr m, d') \<Longrightarrow> get_message i d = Some m"
  by (auto simp: message_GetByID_def scanMessage_def dest!: pg_query_ok)

lemma seen_message [seen]:
  assumes "orfail f (on_db (message_GetByID i)) w1 = (Inr m, w2)" and "tables (w_db w1) = tables (w_db w)"
  shows "get_message i (w_db w) = Some m"
  using assms(1) get_message_tables [OF assms(2)] by (auto dest!: on_dbD message_GetByID_ok)

lemma get_message_Some:
  assumes "get_message i d = Some m"
  shows "\<exists>r \<in> set (t_messages d). ms_id r = i \<and> ms_deleted_at r = None \<and> ms_author_id r = ms_author_id m
    \<and> ms_channel_id r = ms_channel_id m \<and> ms_pinned r = ms_pinned m \<and> ms_id m = i"
proof -
  have "m \<in> set (List.map_filter (with_author d) (filter (\<lambda>m. ms_id m = i \<and> ms_deleted_at m = None) (t_messages d)))"
    using assms by (auto simp: get_message_def first_row_def split: list.splits)
  then show ?thesis by (auto simp: List.map_filter_def with_author_def authored_def message_row.extend_def)
qed

lemma pure_messages [simp]:
  "pure_stmt (update_messages now P f)" "pure_stmt (soft_delete now i u)" "pure_stmt (insert_message i now p)"
  by (auto simp: pure_stmt_def update_messages_def soft_delete_def insert_message_def Let_def)

text \<open>One message rewritten: the effect of an edit, a deletion or a pin.\<close>

definition rewritten :: "time \<Rightarrow> uuid \<Rightarrow> (message_row \<Rightarrow> message_row) \<Rightarrow> db \<Rightarrow> db" where
  "rewritten now i f d =
     d\<lparr>t_messages := updated_rows (\<lambda>m. ms_id m = i \<and> ms_deleted_at m = None) (\<lambda>m. (f m)\<lparr>ms_updated_at := now\<rparr>) (t_messages d)\<rparr>"

lemma rewritten_tables: "tables d' = tables d \<Longrightarrow> tables (rewritten now i f d') = tables (rewritten now i f d)"
  by (drule tables_eqD, erule ssubst) (simp add: rewritten_def tables_def)

lemma rewritten_once:
  assumes "tables d = tables d1 \<or> tables d = tables (rewritten now i f d1)" and "tables d1 = tables d0" and "tables d' = tables d"
    and "tables d' \<noteq> tables d0"
  shows "tables d' = tables (rewritten now i f d0)"
  using assms rewritten_tables [OF assms(2), of now i f] by metis

lemma affecting_effect:
  assumes "affecting missing msg f d = (x, d')" and "pure_stmt f"
  shows "tables d' = tables d \<or> tables d' = tables (snd (f d))"
proof -
  obtain y d1 where y: "pg_stmt f d = (y, d1)" by fastforce
  have "d' = d1" using assms(1) y by (auto simp: affecting_def bindc_def maperr_def split: sum.splits if_splits)
  with pg_stmt_effect [OF y pure_table_fun [OF assms(2)]] show ?thesis by simp
qed

lemma message_Update_effect:
  assumes "message_Update now i s d = (x, d')"
  shows "tables d' = tables d \<or> tables d' = tables (rewritten now i (\<lambda>m. m\<lparr>ms_content := s, ms_edited_at := Some now\<rparr>) d)"
proof -
  let ?u = "affecting message_ErrNotFound ''update message'' (update_messages now (\<lambda>m. ms_id m = i \<and> ms_deleted_at m = None)
    (\<lambda>m. m\<lparr>ms_content := s, ms_edited_at := Some now\<rparr>))"
  obtain y d1 where y: "?u d = (y, d1)" by fastforce
  have "tables d' = tables d1"
    using assms y by (auto simp: message_Update_def bindc_def split: sum.splits dest: readsD [OF reads_message])
  with affecting_effect [OF y] show ?thesis by (simp add: update_messages_def rewritten_def)
qed

lemma SoftDelete_effect:
  assumes "SoftDelete now i u d = (x, d')"
  shows "tables d' = tables d \<or> tables d' = tables (rewritten now i (\<lambda>m. m\<lparr>ms_deleted_at := Some now, ms_deleted_by := Some u\<rparr>) d)"
  using affecting_effect [OF assms [unfolded SoftDelete_def]]
  by (auto simp: soft_delete_def update_messages_def rewritten_def split: if_splits)

section \<open>Loading models\<close>

lemma reads_attachments [reading]: "reads (attachment_ListByMessage i)" "reads (attachment_ListByMessages is)"
  unfolding attachment_ListByMessage_def attachment_ListByMessages_def by (intro reading)+

lemma reads_summaries [reading]: "reads (SummariesByMessages is)"
  unfolding SummariesByMessages_def by (intro reading)

lemma reads_mine [reading]: "reads (UserReactionsByMessages U is u)"
  unfolding UserReactionsByMessages_def by (intro reading)

lemma full_model_tables: "full_model U Z base u m w = (x, w') \<Longrightarrow> tables (w_db w') = tables (w_db w)"
  by (auto simp: full_model_def elim!: bindc_cases dest!: on_dbD)
    (metis readsD reads_attachments(1) reads_summaries reads_mine)+

lemma settled_full_model [settling]:
  "settled (orfail f (full_model U Z base u m))" "settled (attempt (full_model U Z base u m))" "settled (fullMessageModel U Z base u m)"
proof -
  show a: "settled (attempt (full_model U Z base u m) :: ('p, MessageModel result, 'r world) step)" for f :: "'q"
    by (rule settledI) (auto dest: full_model_tables)
  show "settled (orfail f (full_model U Z base u m))" by (rule settled_world) (rule full_model_tables)
  show "settled (fullMessageModel U Z base u m)"
    unfolding fullMessageModel_def by (intro settling) (rule settledI, auto dest: full_model_tables)
qed

section \<open>Editing and deleting\<close>

text \<open>
  C27. Only the author edits a message: when an edit changes the tables, whatever statements fail, the caller
  wrote the live message the route names, the new content is the trimmed content of the body within
  its limits, and nothing but the content and the time stamps of that message changes.
\<close>

theorem EditMessage_author_only:
  fixes w :: "'r world"
  assumes "EditMessage U M Z mh dbnow c body w = ((rx, gos), w')" and "tables (w_db w') \<noteq> tables (w_db w)"
  shows "\<exists>u i b s m. rq_userID c = Some u \<and> uuid_Parse U (rq_params c ''messageID'') = Some i \<and> body = Some b
    \<and> ValidateContent b (mh_maxContent mh) = Inr s \<and> m \<in> set (t_messages (w_db w)) \<and> ms_id m = i \<and> ms_deleted_at m = None \<and> ms_author_id m = u
    \<and> tables (w_db w') = tables (rewritten dbnow i (\<lambda>m. m\<lparr>ms_content := s, ms_edited_at := Some dbnow\<rparr>) (w_db w))" (is "?P w'")
  using answergo_answerh [OF assms(1) [unfolded EditMessage_def]] assms(2) unfolding changed_def [of w rx w', symmetric] andthen_assoc andthen_give
  apply (rule reachingD [rotated])
  apply ((rule reaching_changed, (intro reading; fail)[1])+)
  subgoal for i w1 u w2 b w3 s w4 ex w5 x w6
   apply (drule seen, assumption?)+
   apply (rule reachingI, erule write_then, (intro settling; simp))
   subgoal premises h for rx w' y d
   proof -
     from h have u: "message_Update dbnow i s (w_db w6) = (y, d)" and m: "get_message i (w_db w) = Some ex" by blast+
     have "tables (w_db w') = tables (rewritten dbnow i (\<lambda>m. m\<lparr>ms_content := s, ms_edited_at := Some dbnow\<rparr>) (w_db w))"
       by (rule rewritten_once [OF message_Update_effect [OF u]]) (use h changed_def in blast)+
     with get_message_Some [OF m] h show ?thesis unfolding UserID_ok ParseUUIDParam_ok by metis
   qed
   done
  done

definition moderated_message :: "perm_lib \<Rightarrow> uuid \<Rightarrow> message_row \<Rightarrow> db \<Rightarrow> bool" where
  "moderated_message P u m d \<longleftrightarrow> ms_author_id m = u \<or> holds P u (ms_channel_id m) (ManageMessages P) d"

text \<open>
  C28. Who deletes a message: when a deletion changes the tables, the caller wrote the live message the route
  names or holds the permission to manage messages in its channel, and that message is marked as
  deleted by the caller while every other row stays.
\<close>

theorem DeleteMessage_authorised:
  fixes w :: "'r world"
  assumes "world_resolver P U V" and "world_coherent P U V w" and "\<forall>m \<in> set (t_messages (w_db w)). ms_channel_id m \<noteq> serverPermKey"
    and "DeleteMessage P U V M mh dbnow c w = ((rx, gos), w')" and "tables (w_db w') \<noteq> tables (w_db w)"
  shows "\<exists>u i m. rq_userID c = Some u \<and> uuid_Parse U (rq_params c ''messageID'') = Some i
    \<and> m \<in> set (t_messages (w_db w)) \<and> ms_id m = i \<and> ms_deleted_at m = None \<and> moderated_message P u m (w_db w)
    \<and> tables (w_db w') = tables (rewritten dbnow i (\<lambda>m. m\<lparr>ms_deleted_at := Some dbnow, ms_deleted_by := Some u\<rparr>) (w_db w))" (is "?P w'")
  using answergo_answerh [OF assms(4) [unfolded DeleteMessage_def]] assms(5) unfolding changed_def [of w rx w', symmetric] andthen_assoc andthen_give
  apply (rule reachingD [rotated])
  apply ((rule reaching_changed, (intro reading; fail)[1])+)
  apply (rule reaching_settled, (intro settling)[1])
  subgoal for i w1 u w2 ex w3 x w4
   apply (drule seen, assumption?)+
   apply (rule reachingI, erule write_then, (intro settling; simp))
   subgoal premises h for rx w' y d
   proof -
     from h have u: "SoftDelete dbnow i u (w_db w4) = (y, d)" and m: "get_message i (w_db w) = Some ex" by blast+
     from get_message_Some [OF m] obtain r where r: "r \<in> set (t_messages (w_db w))" "ms_id r = i" "ms_deleted_at r = None"
       "ms_author_id r = ms_author_id ex" "ms_channel_id r = ms_channel_id ex" by blast
     have ch: "ms_channel_id ex \<noteq> serverPermKey" using assms(3) r(1,5) by metis
     have vk: "w_vk w3 = w_vk w" using h by simp
     have "ms_author_id ex = u \<or> holds P u (ms_channel_id ex) (ManageMessages P) (w_db w)"
       using h permission_checked [OF _ assms(1,2) ch _ vk] by (auto split: if_splits)
     then have "moderated_message P u r (w_db w)" using r by (simp add: moderated_message_def)
     moreover have "tables (w_db w') = tables (rewritten dbnow i (\<lambda>m. m\<lparr>ms_deleted_at := Some dbnow, ms_deleted_by := Some u\<rparr>) (w_db w))"
       by (rule rewritten_once [OF SoftDelete_effect [OF u]]) (use h changed_def in blast)+
     ultimately show ?thesis using r h unfolding UserID_ok ParseUUIDParam_ok by blast
   qed
   done
  done

section \<open>Paging\<close>

text \<open>A client reads page after page, with the last row of a page as the cursor of the next, until a page is empty.\<close>

fun walk :: "nat \<Rightarrow> (uuid option \<Rightarrow> 'a list) \<Rightarrow> ('a \<Rightarrow> uuid) \<Rightarrow> uuid option \<Rightarrow> 'a list" where
  "walk 0 page key cursor = []"
| "walk (Suc k) page key cursor =
     (let p = page cursor in if p = [] then [] else p @ walk k page key (Some (key (last p))))"

lemma map_filter_nth:
  "j < length (List.map_filter f xs) \<Longrightarrow>
     \<exists>i < length xs. f (xs ! i) = Some (List.map_filter f xs ! j) \<and> List.map_filter f (drop (Suc i) xs) = drop (Suc j) (List.map_filter f xs)"
proof (induction xs arbitrary: j)
  case (Cons x xs)
  show ?case
  proof (cases "f x")
    case None
    then obtain i where "i < length xs" "f (xs ! i) = Some (List.map_filter f xs ! j)"
        "List.map_filter f (drop (Suc i) xs) = drop (Suc j) (List.map_filter f xs)" using Cons by (auto simp: List.map_filter_simps)
    with None show ?thesis by (intro exI [of _ "Suc i"]) (simp add: List.map_filter_simps)
  next
    case (Some y)
    show ?thesis
    proof (cases j)
      case 0
      with Some show ?thesis by (intro exI [of _ 0]) (simp add: List.map_filter_simps)
    next
      case (Suc j')
      then obtain i where "i < length xs" "f (xs ! i) = Some (List.map_filter f xs ! j')"
          "List.map_filter f (drop (Suc i) xs) = drop (Suc j') (List.map_filter f xs)" using Cons Some by (auto simp: List.map_filter_simps)
      with Some Suc show ?thesis by (intro exI [of _ "Suc i"]) (simp add: List.map_filter_simps)
    qed
  qed
qed (simp add: List.map_filter_simps)

text \<open>Pages that start at the first row, and after row \<open>i\<close> continue with the next, add up to all rows.\<close>

lemma walk_all:
  assumes first: "page None = take n (List.map_filter f rows)"
    and nexts: "\<And>i y. i < length rows \<Longrightarrow> f (rows ! i) = Some y \<Longrightarrow> page (Some (key y)) = take n (List.map_filter f (drop (Suc i) rows))"
    and n: "n \<noteq> 0" and k: "length rows \<le> k"
  shows "walk (Suc k) page key None = List.map_filter f rows"
proof -
  have "walk (Suc k) page key c = List.map_filter f (drop s rows)"
    if "page c = take n (List.map_filter f (drop s rows))" "length (drop s rows) \<le> k" for c s k
    using that
  proof (induction k arbitrary: c s)
    case (Suc k)
    let ?ys = "List.map_filter f (drop s rows)"
    show ?case
    proof (cases "?ys = []")
      case False
      let ?j = "min n (length ?ys) - 1"
      have p: "page c = take (Suc ?j) ?ys" "?j < length ?ys" using Suc.prems(1) False n by (auto simp: min_def)
      then have l: "last (page c) = ?ys ! ?j" "page c \<noteq> []" by (simp_all add: take_Suc_conv_app_nth)
      from map_filter_nth [OF p(2)] obtain i where i: "i < length (drop s rows)" "f (drop s rows ! i) = Some (?ys ! ?j)"
          "List.map_filter f (drop (Suc i) (drop s rows)) = drop (Suc ?j) ?ys" by blast
      have "page (Some (key (?ys ! ?j))) = take n (List.map_filter f (drop (Suc (s + i)) rows))"
        by (rule nexts) (use i in auto)
      moreover have "length (drop (Suc (s + i)) rows) \<le> k" using Suc.prems(2) i(1) by simp
      ultimately have "walk (Suc k) page key (Some (key (?ys ! ?j))) = List.map_filter f (drop (Suc (s + i)) rows)"
        by (rule Suc.IH)
      also have "\<dots> = drop (Suc ?j) ?ys" using i(3) by (simp add: add.commute)
      finally show ?thesis using l p(1) by (simp add: Let_def)
    qed (use Suc.prems(1) in simp)
  qed (simp add: List.map_filter_simps)
  from this [of None 0 k] first k show ?thesis by simp
qed

lemma length_insort_by: "length (insort_by k x xs) = Suc (length xs)"
  by (induction xs) auto

lemma length_sort_by: "length (sort_by k xs) = length xs"
  by (induction xs) (simp_all add: sort_by_def length_insort_by)

text \<open>The messages of a channel or a thread in the order in which they are listed.\<close>

definition history :: "(message_row \<Rightarrow> bool) \<Rightarrow> db \<Rightarrow> message_row list" where
  "history P d = sort_by message_key (filter (\<lambda>m. P m \<and> ms_deleted_at m = None) (t_messages d))"

lemma message_pages:
  assumes "distinct (map ms_id (t_messages d))"
  shows "message_page P None n d = take (nat n) (List.map_filter (with_author d) (history P d))"
    and "i < length (history P d) \<Longrightarrow>
      message_page P (Some (ms_id (history P d ! i))) n d = take (nat n) (List.map_filter (with_author d) (drop (Suc i) (history P d)))"
proof -
  show "message_page P None n d = take (nat n) (List.map_filter (with_author d) (history P d))"
    by (simp add: message_page_def history_def before_message_def)
  assume i: "i < length (history P d)"
  let ?x = "history P d ! i"
  have "?x \<in> set (t_messages d)" using nth_mem [OF i] by (auto simp: history_def)
  then have "find (\<lambda>x. ms_id x = ms_id ?x) (t_messages d) = Some ?x"
    by (rule find_unique [OF assms, where k = "ms_id ?x"]) simp_all
  then have "filter (\<lambda>m. P m \<and> ms_deleted_at m = None \<and> before_message (Some (ms_id ?x)) d m) (t_messages d)
    = filter (\<lambda>m. (P m \<and> ms_deleted_at m = None) \<and> key_less (message_key ?x) (message_key m)) (t_messages d)"
    by (simp add: before_message_def)
  moreover have "distinct (map message_key (t_messages d))"
    using assms by (auto simp: distinct_map message_key_def inj_on_def word_uint_eq_iff)
  ultimately show "message_page P (Some (ms_id ?x)) n d = take (nat n) (List.map_filter (with_author d) (drop (Suc i) (history P d)))"
    using keyset_page [of message_key "t_messages d" i "\<lambda>m. P m \<and> ms_deleted_at m = None"] i
    by (simp add: message_page_def history_def)
qed

text \<open>
  C29. Reading a channel back: pages of any size, each fetched with the last message of the one before as
  the cursor, add up to the messages of the channel that are not deleted, each exactly once and the
  newest first; messages of the same time are not lost between pages.
\<close>

theorem message_List_walk:
  assumes "distinct (map ms_id (t_messages d))" and "pg_outcomes d = []" and "1 \<le> n" and "length (t_messages d) \<le> k"
  shows "walk (Suc k) (\<lambda>c. projr (fst (message_List ch c n d))) ms_id None
    = List.map_filter (with_author d) (history (\<lambda>m. ms_channel_id m = ch) d)"
proof (rule walk_all [where n = "nat n"])
  let ?P = "\<lambda>m. ms_channel_id m = ch"
  have page: "projr (fst (message_List ch c n d)) = message_page ?P c n d" for c
    using assms(2) by (simp add: message_List_def rows_of_def maperr_def)
  show "projr (fst (message_List ch None n d)) = take (nat n) (List.map_filter (with_author d) (history ?P d))"
    unfolding page by (rule message_pages(1) [OF assms(1)])
  show "projr (fst (message_List ch (Some (ms_id y)) n d)) = take (nat n) (List.map_filter (with_author d) (drop (Suc i) (history ?P d)))"
    if i: "i < length (history ?P d)" and y: "with_author d (history ?P d ! i) = Some y" for i y
  proof -
    have "ms_id y = ms_id (history ?P d ! i)" using y by (auto simp: with_author_def authored_def message_row.extend_def)
    with message_pages(2) [OF assms(1) i] show ?thesis by (simp add: page)
  qed
  have "length (history ?P d) \<le> length (t_messages d)" by (simp add: history_def length_sort_by)
  then show "length (history ?P d) \<le> k" using assms(4) by simp
qed (use assms(3) in simp)

section \<open>Read positions\<close>

lemma find_map_other: "(\<And>x. H x \<Longrightarrow> \<not> P x \<and> \<not> P (g x)) \<Longrightarrow> find P (map (\<lambda>x. if H x then g x else x) xs) = find P xs"
  by (induction xs) auto

lemma pure_ack [simp]: "pure_stmt (ack now u ch msg)"
  by (auto simp: pure_stmt_def ack_def Let_def find_read_state_def advanced_def find_message_def split: option.split)

lemma Ack_effect:
  assumes "Ack now u ch msg d = (x, d')"
  shows "tables d' = tables d \<or> tables d' = tables (snd (ack now u ch msg d))"
proof -
  obtain y d1 where y: "pg_stmt (ack now u ch msg) d = (y, d1)" by fastforce
  have "d' = d1" using assms y
    by (auto simp: Ack_def or_missing_def maperr_def returning_def bindc_def split: sum.splits option.splits prod.splits)
  with pg_stmt_effect [OF y pure_table_fun] show ?thesis by simp
qed

lemma find_message_live:
  assumes "distinct (map ms_id (t_messages d))"
    and "find (\<lambda>m. ms_id m = msg \<and> ms_channel_id m = ch \<and> ms_deleted_at m = None) (t_messages d) = Some nm"
  shows "find_message msg d = Some nm \<and> ms_id nm = msg"
proof -
  have nm: "nm \<in> set (t_messages d)" "ms_id nm = msg" using find_Some_member [OF assms(2)] by simp_all
  then show ?thesis unfolding find_message_def by (intro conjI find_unique [OF assms(1), where k = msg]) simp_all
qed

text \<open>
  C30. A read position only moves forward: whatever message is acknowledged and whatever the database does
  with the statement, the position of the user in the channel stays or moves to a message that is
  not older, and nobody else's position changes.
\<close>

theorem Ack_forward:
  assumes "Ack now u ch msg d = (x, d')" and "distinct (map ms_id (t_messages d))"
    and "find_read_state u ch d = Some r" and "rd_last_message_id r = Some l" and "find_message l d = Some om"
  shows "(\<exists>r' nm. find_read_state u ch d' = Some r' \<and> rd_last_message_id r' = Some (ms_id nm) \<and> find_message (ms_id nm) d' = Some nm
      \<and> ms_created_at om \<le> ms_created_at nm \<and> ms_id nm \<in> {l, msg})
    \<and> (v \<noteq> u \<or> c \<noteq> ch \<longrightarrow> find_read_state v c d' = find_read_state v c d)"
proof -
  have om: "ms_id om = l" using find_Some_member [OF assms(5) [unfolded find_message_def]] by simp
  from Ack_effect [OF assms(1)] show ?thesis
  proof
    assume t: "tables d' = tables d"
    show ?thesis using tables_fields(15,19) [OF t] assms om by (auto simp: find_read_state_def find_message_def)
  next
    assume t: "tables d' = tables (snd (ack now u ch msg d))"
    show ?thesis
    proof (cases "find (\<lambda>m. ms_id m = msg \<and> ms_channel_id m = ch \<and> ms_deleted_at m = None) (t_messages d)")
      case None
      then have "t_messages d' = t_messages d" "t_read_states d' = t_read_states d" using tables_fields(15,19) [OF t] by (simp_all add: ack_def)
      then show ?thesis using assms om by (auto simp: find_read_state_def find_message_def)
    next
      case (Some nm)
      let ?row = "r\<lparr>rd_last_message_id := advanced nm d (Some l), rd_mention_count := 0, rd_updated_at := now\<rparr>"
      have f: "t_messages d' = t_messages d"
          "t_read_states d' = map (\<lambda>x. if rd_user_id x = u \<and> rd_channel_id x = ch then ?row else x) (t_read_states d)"
        using tables_fields(15,19) [OF t] Some assms(3,4) by (simp_all add: ack_def updated_rows_def Let_def)
      note nm = find_message_live [OF assms(2) Some]
      have key: "rd_user_id ?row = u" "rd_channel_id ?row = ch"
        using find_Some_member [OF assms(3) [unfolded find_read_state_def]] by simp_all
      have "find_read_state u ch d' = Some ?row"
        using assms(3) key unfolding find_read_state_def f(2) by (subst find_map_update) auto
      moreover have "find_read_state v c d' = find_read_state v c d" if "v \<noteq> u \<or> c \<noteq> ch" for v c
        unfolding find_read_state_def f(2) using that key by (intro find_map_other) auto
      moreover have "\<exists>n. advanced nm d (Some l) = Some (ms_id n) \<and> find_message (ms_id n) d' = Some n \<and> ms_created_at om \<le> ms_created_at n
          \<and> ms_id n \<in> {l, msg}"
        using nm om assms(5) f(1) by (auto simp: advanced_def find_message_def)
      ultimately show ?thesis by auto
    qed
  qed
qed

section \<open>Answers that hide what happened\<close>

text \<open>Refusals of an endpoint that are not the one for an attachment that cannot be linked.\<close>

definition unknown_attachment :: "'p reaction" where
  "unknown_attachment = Fail 400 (Coded ''UnknownAttachment'') ''One or more attachment IDs are invalid or unavailable''"

definition other_refusal :: "('p, 'a, 's) step \<Rightarrow> bool" where
  "other_refusal m \<longleftrightarrow> (\<forall>s rx s'. m s = (Inl rx, s') \<longrightarrow> rx \<noteq> unknown_attachment)"

lemma other_refusalI: "(\<And>s rx s'. m s = (Inl rx, s') \<Longrightarrow> rx \<noteq> unknown_attachment) \<Longrightarrow> other_refusal m"
  by (simp add: other_refusal_def)

definition refused_attachment :: "'p reaction \<Rightarrow> 'r world \<Rightarrow> bool" where
  "refused_attachment rx w' \<longleftrightarrow> rx = unknown_attachment"

lemma reaching_unknown:
  "calm m \<Longrightarrow> other_refusal m \<Longrightarrow> (\<And>x w1. m w = (Inr x, w1) \<Longrightarrow> w_vk w1 = w_vk w \<Longrightarrow> tables (w_db w) = tables (w_db w0) \<Longrightarrow> reaching w0 refused_attachment (k x) w1 Q)
     \<Longrightarrow> reaching w0 refused_attachment (andthen m k) w Q"
  by (erule reaching_andthen) (auto simp: refused_attachment_def other_refusal_def)

lemma message_Create_ok:
  assumes "message_Create newID now p d = (Inr m, d')"
  shows "ms_id m = newID \<and> newID \<notin> set (map ms_id (t_messages d)) \<and> (\<exists>row. ms_id row = newID \<and> t_messages d' = t_messages d @ [row])"
proof -
  from assms [unfolded message_Create_def] show ?thesis
  proof (cases rule: WithTx_cases)
    case (committed d1 y d2)
    from committed(2) obtain row d3 d4 u where s: "pg_stmt (insert_message newID now p) d3 = (Inr row, d4)" and t3: "tables d3 = tables d1"
        and t2: "tables d2 = tables d4" and y: "y = authored row u"
      unfolding message_create_tx_def
      by (elim bindc_ok) (auto split: if_splits option.splits elim!: bindc_ok, (metis pg_query_tables rows_of_tables)+)
    have i: "fst (insert_message newID now p d) = Inr row" "tables d4 = tables (snd (insert_message newID now p d))"
      using pg_stmt_success_at [OF s] t3 committed(1) by simp_all
    then have "newID \<notin> set (map ms_id (t_messages d))" "ms_id row = newID" "t_messages d4 = t_messages d @ [row]"
      using tables_fields(15) [OF i(2)] by (auto simp: insert_message_def Let_def split: if_splits)
    moreover have "t_messages d' = t_messages d4" using tables_fields(15) committed(3) t2 by metis
    moreover have "m = y" using committed(4) by auto
    ultimately show ?thesis using y by (auto simp: authored_def message_row.extend_def)
  qed simp
qed

lemma LinkToMessage_messages: "LinkToMessage ids msg u d = (x, d') \<Longrightarrow> t_messages d' = t_messages d"
proof -
  assume l: "LinkToMessage ids msg u d = (x, d')"
  obtain y d1 where y: "pg_stmt (link_attachments ids msg u) d = (y, d1)" by fastforce
  have "d' = d1" using l y by (auto simp: LinkToMessage_def bindc_def maperr_def split: sum.splits if_splits)
  have "pure_stmt (link_attachments ids msg u)" by (auto simp: pure_stmt_def link_attachments_def Let_def)
  from pg_stmt_effect [OF y pure_table_fun [OF this]] have "t_messages d1 = t_messages d \<or> t_messages d1 = t_messages (snd (link_attachments ids msg u d))"
    using tables_fields(15) by metis
  then show ?thesis unfolding \<open>d' = d1\<close> by (simp add: link_attachments_def Let_def split: if_splits)
qed

named_theorems other_refusals

lemma parse_ids_refusal: "parse_ids U t ids = Inl rx \<Longrightarrow> rx = Fail 400 ValidationError t"
  by (induction ids) (auto split: option.splits sum.splits)

lemma mapMessageError_other [simp]: "mapMessageError e \<noteq> unknown_attachment" "unknown_attachment \<noteq> mapMessageError e"
  by (simp_all add: mapMessageError_def unknown_attachment_def Fail_def internal_error_def)

lemma other_refusal_steps [other_refusals]:
  "other_refusal (checkh (ParseUUIDParam U c ''channelID'' InvalidChannelID))" "other_refusal (checkh (UserID c))" "other_refusal (bodyh body)"
  "other_refusal (guardh g (Fail 400 ValidationError t))" "other_refusal (checkh (parse_ids U t ids))"
  "other_refusal (message_content n hasAtt s)" "other_refusal (checkh (reply_ref U r))" "other_refusal (orfail mapMessageError m)"
proof -
  show "other_refusal (checkh (ParseUUIDParam U c ''channelID'' InvalidChannelID))"
    by (auto intro!: other_refusalI simp: ParseUUIDParam_def unknown_attachment_def Fail_def split: option.splits)
  show "other_refusal (checkh (UserID c))" by (auto intro!: other_refusalI simp: UserID_def unknown_attachment_def Fail_def split: option.splits)
  show "other_refusal (bodyh body)" by (auto intro!: other_refusalI simp: bodyh_def unknown_attachment_def Fail_def split: option.splits)
  show "other_refusal (guardh g (Fail 400 ValidationError t))" by (auto intro!: other_refusalI simp: guardh_def unknown_attachment_def Fail_def)
  show "other_refusal (checkh (parse_ids U t ids))" by (auto intro!: other_refusalI simp: unknown_attachment_def dest!: parse_ids_refusal [OF sym]) (simp add: Fail_def)
  show "other_refusal (message_content n hasAtt s)"
    by (auto intro!: other_refusalI simp: message_content_def split: sum.splits if_splits)
  show "other_refusal (checkh (reply_ref U r))"
    by (auto intro!: other_refusalI simp: reply_ref_def unknown_attachment_def Fail_def split: option.splits)
  show "other_refusal (orfail mapMessageError m)" by (auto intro!: other_refusalI simp: orfail_Inl)
qed

lemma keepsh_link: "keepsh (\<lambda>w. t_messages (w_db w) = X) (link_attachments_step ids m u)"
  unfolding link_attachments_step_def
  by (intro keepingh keepsI) (auto dest!: on_dbD LinkToMessage_messages)

lemma keepsh_stored: "keepsh (\<lambda>w. t_messages (w_db w) = X) (effect (Enqueue h t j))"
  by (rule keepsh_effect) (simp add: Enqueue_def)

lemma created_then:
  assumes "answerh (andthen (orfail f (on_db c)) k) w = (rx, w')" and "c (w_db w) = (Inr x, d)"
    and "keepsh (\<lambda>w. t_messages (w_db w) = X) (k x)" and "t_messages d = X"
  shows "t_messages (w_db w') = X"
  using assms(1,2,4) keepsh_answer [OF assms(3), of "w\<lparr>w_db := d\<rparr>" rx w']
  by (simp add: answerh_andthen [where r = "Inr x" and w = w] orfail_def on_db_def)

lemma calm_content [reading]: "calm (message_content n hasAtt s)"
  unfolding message_content_def by (rule reading)

text \<open>
  C36. A refused message is posted all the same: when posting is answered with the error for an attachment that
  cannot be linked, the message has been stored all the same and stays, under the identifier it was given.
\<close>

theorem refused_message_stored:
  fixes w :: "'r world"
  assumes "CreateMessage U M Z mh newID dbnow c body w = ((unknown_attachment, gos), w')"
  shows "\<exists>row. ms_id row = newID \<and> t_messages (w_db w') = t_messages (w_db w) @ [row]" (is "?P w'")
proof -
  have c: "refused_attachment (unknown_attachment :: MessageModel reaction) w'" by (simp add: refused_attachment_def)
  show ?thesis
    using answergo_answerh [OF assms [unfolded CreateMessage_def post_message_def]] c unfolding andthen_assoc andthen_give
    apply (rule reachingD [rotated])
    apply ((rule reaching_unknown, (intro reading; fail)[1], (intro other_refusals)[1])+)
    subgoal for ch w1 u w2 b w3 x1 w4 ids w5 s w6 reply w7
     apply (rule reachingI)
     subgoal premises h for rx w'
     proof -
       let ?p = "\<lparr>mc_ChannelID = ch, mc_AuthorID = u, mc_Content = s, mc_ReplyToID = reply, mc_ThreadID = None, mc_Encrypted = False\<rparr>"
       obtain y d where y: "message_Create newID dbnow ?p (w_db w7) = (y, d)" by fastforce
       have t: "t_messages (w_db w7) = t_messages (w_db w)" using h by (blast dest: tables_fields(15))
       show ?thesis
       proof (cases y)
         case (Inl e)
         have "rx = mapMessageError e" using h y Inl by (auto simp: answerh_def andthen_def orfail_def on_db_def)
         moreover have "rx = unknown_attachment" using h unfolding refused_attachment_def by blast
         ultimately show ?thesis by simp
       next
         case (Inr msg)
         have "t_messages (w_db w') = t_messages d"
           by (rule created_then [OF h(23) y [unfolded Inr]]) (intro keepingh keepsh_link keepsh_stored, rule refl)
         with message_Create_ok [OF y [unfolded Inr]] t show ?thesis by auto
       qed
     qed
     done
    done
qed

lemma Pin_ok:
  assumes "Pin now i d = (Inr m, d')"
  shows "\<exists>row \<in> set (t_messages d'). ms_id row = i \<and> ms_pinned row"
proof -
  let ?P = "\<lambda>m. ms_id m = i \<and> ms_deleted_at m = None \<and> ms_pinned m = (\<not> True)"
  let ?u = "update_messages now ?P (\<lambda>m. m\<lparr>ms_pinned := True\<rparr>)"
  obtain n d1 where n: "pg_stmt ?u d = (Inr n, d1)" and rest: "(if n = 0
     then catchc (message_GetByID i) (\<lambda>_. fail message_ErrNotFound) (\<lambda>m. if ms_pinned m = True then fail ErrAlreadyPinned else fail message_ErrNotFound)
     else message_GetByID i) d1 = (Inr m, d')"
    using assms unfolding Pin_def set_pinned_def by (elim bindc_ok) simp
  have "n \<noteq> 0" and t: "tables d' = tables d1"
    using rest by (auto split: if_splits elim!: catchc_cases dest: readsD [OF reads_message])
  from pg_stmt_success [OF n] have n': "n = length (filter ?P (t_messages d))" and t1: "tables d1 = tables (snd (?u d))"
    by (simp_all add: update_messages_def)
  then obtain x where x: "x \<in> set (t_messages d)" "?P x" using \<open>n \<noteq> 0\<close> by (auto simp: filter_empty_conv)
  have "t_messages d' = updated_rows ?P (\<lambda>m. m\<lparr>ms_pinned := True, ms_updated_at := now\<rparr>) (t_messages d)"
    using tables_fields(15) [OF t] tables_fields(15) [OF t1] by (simp add: update_messages_def)
  moreover have "x\<lparr>ms_pinned := True, ms_updated_at := now\<rparr> \<in> set (updated_rows ?P (\<lambda>m. m\<lparr>ms_pinned := True, ms_updated_at := now\<rparr>) (t_messages d))"
    using x unfolding updated_rows_def set_map by (intro image_eqI [of _ _ x]) simp_all
  ultimately show ?thesis using x(2) by (intro bexI [of _ "x\<lparr>ms_pinned := True, ms_updated_at := now\<rparr>"]) simp_all
qed

text \<open>
  C37. A pin whose message cannot be loaded again. The caller may manage the messages of the
  channel, \<open>Pin\<close> succeeded, and the reload by \<open>fullMessageModel\<close> fails on a query: then the response
  is the zero message under status 500, the message is pinned all the same, and the event that
  is queued announces the zero message to everybody.
\<close>

theorem pin_announces_nothing:
  fixes w :: "'r world"
  assumes "uuid_Parse U (rq_params c ''messageID'') = Some i" and "rq_userID c = Some u"
    and "message_GetByID i (w_db w) = (Inr existing, d1)"
    and "HasPermission P PGStore (ValkeyCache U V) u (ms_channel_id existing) (ManageMessages P) (w\<lparr>w_db := d1\<rparr>) = (Inr True, w2)"
    and "Pin dbnow i (w_db w2) = (Inr msg, d3)"
    and "full_model U Z (mh_baseURL mh) u msg
           (go_Record (mh_handler mh) (audit_entry u ''message.pin'' ''message'' i) (w2\<lparr>w_db := d3\<rparr>)) = (Inl e, w4)"
  shows "PinMessage P U V M Z mh dbnow c w =
      (Respond \<lparr>rs_status = 500, rs_body = SuccessResponse zero_message\<rparr>,
       Enqueue (mh_handler mh) (ev M EvMessageUpdate) (js_Message M zero_message) w4)
    \<and> (\<exists>row \<in> set (t_messages (w_db w4)). ms_id row = i \<and> ms_pinned row)"
proof -
  have "on_db (message_GetByID i) w = (Inr existing, w\<lparr>w_db := d1\<rparr>)" "on_db (Pin dbnow i) w2 = (Inr msg, w2\<lparr>w_db := d3\<rparr>)"
    using assms(3,5) by simp_all
  then have "PinMessage P U V M Z mh dbnow c w =
      (Respond \<lparr>rs_status = 500, rs_body = SuccessResponse zero_message\<rparr>,
       Enqueue (mh_handler mh) (ev M EvMessageUpdate) (js_Message M zero_message) w4)"
    using assms(1,2,4,6)
    by (simp add: PinMessage_def change_pin_def answerh_def andthen_def checkh_def orfail_def attempt_def guardh_def
        effect_def give_def ParseUUIDParam_def UserID_def fullMessageModel_def Success_over_def)
  moreover have "t_messages (w_db w4) = t_messages d3"
    using tables_fields(15) [OF full_model_tables [OF assms(6)]] by (simp add: go_Record_def)
  ultimately show ?thesis using Pin_ok [OF assms(5)] by auto
qed

section \<open>Examples\<close>

definition sample_message :: "uuid \<Rightarrow> uuid \<Rightarrow> time \<Rightarrow> message_row" where
  "sample_message i author t =
     \<lparr>ms_id = i, ms_channel_id = 10, ms_author_id = author, ms_content = ''hello'', ms_edited_at = None, ms_reply_to_id = None,
      ms_thread_id = None, ms_pinned = False, ms_deleted_at = None, ms_deleted_by = None, ms_encrypted = False,
      ms_created_at = t, ms_updated_at = t\<rparr>"

definition sample_position :: read_state_row where
  "sample_position = \<lparr>rd_user_id = 2, rd_channel_id = 10, rd_last_message_id = Some 80, rd_mention_count = 3, rd_updated_at = 1\<rparr>"

definition content_world :: "outcome list \<Rightarrow> vstore world" where
  "content_world os = sample_world\<lparr>w_db := sample_db\<lparr>t_messages := [sample_message 80 2 1, sample_message 81 3 2],
     t_read_states := [sample_position], pg_outcomes := os\<rparr>\<rparr>"

lemma content_db [simp]:
  "t_messages (w_db (content_world os)) = [sample_message 80 2 1, sample_message 81 3 2]" "pg_outcomes (w_db (content_world os)) = os"
  "t_users (w_db (content_world os)) = [sample_user 1 ''ada'', sample_user 2 ''bob'', sample_user 3 ''eve'']"
  "t_read_states (w_db (content_world os)) = [sample_position]" "t_attachments (w_db (content_world os)) = []"
  by (simp_all add: content_world_def sample_db_def empty_db_def)

definition sample_mh :: message_handler where
  "sample_mh = \<lparr>mh_handler = all_on, mh_indexer = False, mh_presence = False, mh_maxContent = 100, mh_maxAttachments = 10, mh_baseURL = []\<rparr>"

definition on_message :: "uuid \<Rightarrow> uuid \<Rightarrow> request" where
  "on_message u i = \<lparr>rq_params = (\<lambda>_. uuid_String ref_uuid i), rq_query = (\<lambda>_. []), rq_userID = Some u\<rparr>"

lemma sample_content: "ValidateContent ''A'' 100 = Inr ''A''"
  by (simp add: ValidateContent_def sample_title RuneCount.simps DecodeRune_def byte_def rune_size_def second_range_def Let_def)

lemma message_GetByID_eval [simp]:
  "pg_outcomes d = [] \<Longrightarrow> message_GetByID i d = (case get_message i d of None \<Rightarrow> (Inl message_ErrNotFound, d) | Some m \<Rightarrow> (Inr m, d))"
  by (simp add: message_GetByID_def scanMessage_def or_missing_def scan_one_def maperr_def bindc_def fail_def ret_def pgx_ErrNoRows_def split: option.split)

lemmas message_eval = get_message_def List.map_filter_simps with_author_def authored_def message_row.extend_def Message.fields_def first_row_def
  sample_message_def sample_user_def message_Update_def SoftDelete_def affecting_def update_messages_def updated_rows_def bindc_def maperr_def ret_def fail_def

definition edited :: "(MessageModel reaction \<times> goroutine list) \<times> vstore world" where
  "edited = EditMessage ref_uuid ref_proto (\<lambda>_. []) sample_mh 7 (on_message 2 80) (Some ''A'') (content_world [])"

theorem EditMessage_author_only_witness:
  "map ms_content (t_messages (w_db (snd edited))) = [''A'', ''hello'']"
proof -
  have "map ms_content (t_messages (w_db (snd edited))) \<noteq> [''hello'', ''hello'']"
    by (simp add: edited_def EditMessage_def answergo_def handler_eval ParseUUIDParam_def on_message_def sample_mh_def sample_content message_eval)
      (auto simp: handler_eval Enqueue_def split: prod.splits sum.splits dest!: full_model_tables tables_fields(15))
  then have "tables (w_db (snd edited)) \<noteq> tables (w_db (content_world []))"
    using tables_fields(15) [of "w_db (snd edited)" "w_db (content_world [])"] by (auto simp: sample_message_def)
  moreover have "EditMessage ref_uuid ref_proto (\<lambda>_. []) sample_mh 7 (on_message 2 80) (Some ''A'') (content_world [])
      = ((fst (fst edited), snd (fst edited)), snd edited)" by (simp add: edited_def)
  ultimately have "\<exists>u i b s m. rq_userID (on_message 2 80) = Some u \<and> uuid_Parse ref_uuid (rq_params (on_message 2 80) ''messageID'') = Some i
      \<and> Some ''A'' = Some b \<and> ValidateContent b (mh_maxContent sample_mh) = Inr s \<and> m \<in> set (t_messages (w_db (content_world []))) \<and> ms_id m = i
      \<and> ms_deleted_at m = None \<and> ms_author_id m = u
      \<and> tables (w_db (snd edited)) = tables (rewritten 7 i (\<lambda>m. m\<lparr>ms_content := s, ms_edited_at := Some 7\<rparr>) (w_db (content_world [])))"
    by (intro EditMessage_author_only)
  then
  obtain s where "ValidateContent ''A'' 100 = Inr s"
      "tables (w_db (snd edited)) = tables (rewritten 7 80 (\<lambda>m. m\<lparr>ms_content := s, ms_edited_at := Some 7\<rparr>) (w_db (content_world [])))"
    by (auto simp: on_message_def sample_mh_def)
  then show ?thesis
    using sample_content tables_fields(15) [of "w_db (snd edited)"] by (simp add: rewritten_def updated_rows_def sample_message_def)
qed

definition deleted :: "(unit reaction \<times> goroutine list) \<times> vstore world" where
  "deleted = DeleteMessage ref_perm ref_uuid mem_valkey ref_proto sample_mh 7 (on_message 1 80) (content_world [])"

lemma content_coherent: "world_coherent P U mem_valkey (content_world os)"
  by (simp add: world_coherent_def coherent_def cache_view_def content_world_def sample_world_def mem_valkey_def)

lemma owner_manages:
  assumes "w_vk w = vempty" and "t_server_config (w_db w) = t_server_config sample_db" and "pg_outcomes (w_db w) = [] \<or> hd (pg_outcomes (w_db w)) = Done"
  shows "\<exists>w1. HasPermission ref_perm PGStore (ValkeyCache ref_uuid mem_valkey) 1 10 (ManageMessages ref_perm) w = (Inr True, w1)
    \<and> w_db w1 = (w_db w)\<lparr>pg_outcomes := tl (pg_outcomes (w_db w))\<rparr>"
proof -
  have "w_db w\<lparr>pg_outcomes := []\<rparr> = w_db w" if "pg_outcomes (w_db w) = []" using that by (cases "w_db w") simp
  then show ?thesis
    using assms
    by (cases "pg_outcomes (w_db w)")
      (auto simp: HasPermission_def Resolve_def ValkeyCache_def on_vk_def on_db_def compute_def basePermissions_def PGStore_def pg_IsOwner_def
        pg_query_def pg_stmt_def sample_db_def ref_perm_def split: prod.split)
qed

theorem DeleteMessage_authorised_witness:
  "moderated_message ref_perm 1 (sample_message 80 2 1) (w_db (content_world []))
   \<and> map ms_deleted_by (t_messages (w_db (snd deleted))) = [Some 1, None]"
proof -
  have "w_db (content_world [])\<lparr>pg_outcomes := []\<rparr> = w_db (content_world [])" by (simp add: content_world_def)
  then obtain w1 where p: "HasPermission ref_perm PGStore (ValkeyCache ref_uuid mem_valkey) 1 10 (ManageMessages ref_perm) (content_world []) = (Inr True, w1)"
      and w1: "w_db w1 = w_db (content_world [])"
    using owner_manages [of "content_world []"] by (auto simp: content_world_def sample_world_def)
  have "map ms_deleted_by (t_messages (w_db (snd deleted))) \<noteq> [None, None]"
    by (simp add: deleted_def DeleteMessage_def answergo_def handler_eval ParseUUIDParam_def on_message_def sample_mh_def message_eval p w1 soft_delete_def
        go_Record_def Enqueue_def)
  then have "tables (w_db (snd deleted)) \<noteq> tables (w_db (content_world []))"
    using tables_fields(15) [of "w_db (snd deleted)" "w_db (content_world [])"] by (auto simp: sample_message_def)
  moreover have "DeleteMessage ref_perm ref_uuid mem_valkey ref_proto sample_mh 7 (on_message 1 80) (content_world [])
      = ((fst (fst deleted), snd (fst deleted)), snd deleted)" by (simp add: deleted_def)
  moreover have "\<forall>m \<in> set (t_messages (w_db (content_world []))). ms_channel_id m \<noteq> serverPermKey"
    by (simp add: sample_message_def serverPermKey_def uuid_Nil_def)
  ultimately have "\<exists>u i m. rq_userID (on_message 1 80) = Some u \<and> uuid_Parse ref_uuid (rq_params (on_message 1 80) ''messageID'') = Some i
      \<and> m \<in> set (t_messages (w_db (content_world []))) \<and> ms_id m = i \<and> ms_deleted_at m = None \<and> moderated_message ref_perm u m (w_db (content_world []))
      \<and> tables (w_db (snd deleted)) = tables (rewritten 7 i (\<lambda>m. m\<lparr>ms_deleted_at := Some 7, ms_deleted_by := Some u\<rparr>) (w_db (content_world [])))"
    by (intro DeleteMessage_authorised [OF mem_resolver.world_resolver_axioms content_coherent])
  then obtain m where "m \<in> set (t_messages (w_db (content_world [])))" "ms_id m = 80" "moderated_message ref_perm 1 m (w_db (content_world []))"
      "tables (w_db (snd deleted)) = tables (rewritten 7 80 (\<lambda>m. m\<lparr>ms_deleted_at := Some 7, ms_deleted_by := Some 1\<rparr>) (w_db (content_world [])))"
    by (auto simp: on_message_def)
  then show ?thesis
    using tables_fields(15) [of "w_db (snd deleted)"] by (auto simp: rewritten_def updated_rows_def sample_message_def)
qed

lemma content_messages_distinct: "distinct (map ms_id (t_messages (w_db (content_world os))))"
  by (simp add: sample_message_def)

theorem message_List_walk_witness:
  "map ms_id (walk 3 (\<lambda>c. projr (fst (message_List 10 c 1 (w_db (content_world []))))) ms_id None) = [81, 80]"
proof -
  have h: "history (\<lambda>m. ms_channel_id m = 10) (w_db (content_world [])) = [sample_message 81 3 2, sample_message 80 2 1]"
    by (simp add: history_def sort_by_def message_key_def key_less_def sample_message_def)
  have "Suc 2 = (3::nat)" by simp
  with message_List_walk [OF content_messages_distinct, of "[]" 1 2 10] show ?thesis
    by (simp add: h message_eval)
qed

theorem Ack_forward_witness:
  "map_option rd_last_message_id (find_read_state 2 10 (snd (Ack 7 2 10 81 (w_db (content_world []))))) \<noteq> None"
proof -
  have r: "find_read_state 2 10 (w_db (content_world [])) = Some sample_position" "rd_last_message_id sample_position = Some 80"
      "find_message 80 (w_db (content_world [])) = Some (sample_message 80 2 1)"
    by (simp_all add: find_read_state_def find_message_def sample_position_def sample_message_def)
  from Ack_forward [OF prod.collapse [symmetric] content_messages_distinct r, of 7 81 2 10] show ?thesis by auto
qed

definition refused :: "(MessageModel reaction \<times> goroutine list) \<times> vstore world" where
  "refused = CreateMessage ref_uuid ref_proto (\<lambda>_. []) sample_mh 82 7 (on_message 2 10)
     (Some \<lparr>qm_Content = ''A'', qm_ReplyToID = None, qm_AttachmentIDs = [uuid_String ref_uuid 99]\<rparr>) (content_world [])"

theorem refused_message_stored_witness: "map ms_id (t_messages (w_db (snd refused))) = [80, 81, 82]"
proof -
  have "fst (fst refused) = unknown_attachment"
    by (simp add: refused_def CreateMessage_def post_message_def answergo_def handler_eval ParseUUIDParam_def on_message_def sample_mh_def
        message_content_def sample_content reply_ref_def message_Create_def WithTx_def message_create_tx_def insert_message_def link_attachments_step_def
        LinkToMessage_def link_attachments_def mapAttachmentError_def unknown_attachment_def attachment_ErrNotFound_def message_eval Let_def refers_def scan_one_def)
  then have "refused = ((unknown_attachment, snd (fst refused)), snd refused)" by (metis prod.collapse)
  from refused_message_stored [OF this [unfolded refused_def], folded refused_def] show ?thesis by (auto simp: sample_message_def)
qed

text \<open>A query of a message whose statement runs before statements that fail.\<close>

lemma message_GetByID_next:
  "pg_outcomes d = Done # os \<Longrightarrow>
     message_GetByID i d = (case get_message i d of None \<Rightarrow> (Inl message_ErrNotFound, d\<lparr>pg_outcomes := os\<rparr>) | Some m \<Rightarrow> (Inr m, d\<lparr>pg_outcomes := os\<rparr>))"
  by (simp add: message_GetByID_def scanMessage_def or_missing_def scan_one_def maperr_def bindc_def fail_def ret_def pgx_ErrNoRows_def pg_query_def pg_stmt_def
      get_message_def first_row_def with_author_def [abs_def] split: option.split)

lemma content_reads: "content_world (x # os)\<lparr>w_db := w_db (content_world (x # os))\<lparr>pg_outcomes := os\<rparr>\<rparr> = content_world os"
  by (simp add: content_world_def)

definition pinned :: "MessageModel reaction \<times> vstore world" where
  "pinned = PinMessage ref_perm ref_uuid mem_valkey ref_proto (\<lambda>_. []) sample_mh 7 (on_message 1 80)
     (content_world [Done, Done, Done, Done, NotRun])"

lemma full_model_lost:
  assumes "pg_outcomes (w_db w) = NotRun # os"
  shows "\<exists>e w'. full_model U Z base u m w = (Inl e, w')"
  using assms by (simp add: full_model_def attachment_ListByMessage_def rows_of_def pg_query_def pg_stmt_def bindc_def on_db_def maperr_def)

theorem pin_announces_nothing_witness:
  "fst pinned = Respond \<lparr>rs_status = 500, rs_body = SuccessResponse zero_message\<rparr>
   \<and> (\<exists>row. row \<in> set (t_messages (w_db (snd pinned))) \<and> ms_id row = 80 \<and> ms_pinned row)"
proof -
  let ?w = "content_world [Done, Done, Done, Done, NotRun]"
  obtain w1 where p: "HasPermission ref_perm PGStore (ValkeyCache ref_uuid mem_valkey) 1 10 (ManageMessages ref_perm) (content_world [Done, Done, Done, NotRun])
        = (Inr True, w1)" and w1: "w_db w1 = w_db (content_world [Done, Done, NotRun])"
    using owner_manages [of "content_world [Done, Done, Done, NotRun]"] by (auto simp: content_world_def sample_world_def sample_db_def)
  obtain existing where g: "message_GetByID 80 (w_db ?w) = (Inr existing, (w_db ?w)\<lparr>pg_outcomes := [Done, Done, Done, NotRun]\<rparr>)"
      "ms_channel_id existing = 10"
    by (simp add: message_GetByID_next message_eval)
  obtain msg d3 where pin: "Pin 7 80 (w_db w1) = (Inr msg, d3)" "pg_outcomes d3 = [NotRun]"
    by (simp add: w1 Pin_def set_pinned_def message_eval message_GetByID_next bindc_def maperr_def update_messages_def pg_stmt_def)
  obtain e w4 where f: "full_model ref_uuid (\<lambda>_. []) (mh_baseURL sample_mh) 1 msg
      (go_Record (mh_handler sample_mh) (audit_entry 1 ''message.pin'' ''message'' 80) (w1\<lparr>w_db := d3\<rparr>)) = (Inl e, w4)"
    using full_model_lost [of "go_Record (mh_handler sample_mh) (audit_entry 1 ''message.pin'' ''message'' 80) (w1\<lparr>w_db := d3\<rparr>)" "[]"] pin(2)
    by fastforce
  from pin_announces_nothing [OF _ _ g(1) _ pin(1) f, where c = "on_message 1 80" and P = ref_perm and V = mem_valkey and M = ref_proto]
  show ?thesis using p g(2) by (auto simp: pinned_def on_message_def content_reads Enqueue_def)
qed

end
