(* ===== verification/Reaction_Laws.thy ===== *)
theory Reaction_Laws
  imports Message_Laws
begin

text \<open>
  Two ways to summarise reactions: the database groups the reactions of many messages for the pages of a
  channel, \<open>groupReactions\<close> groups those of one message in the process. They agree.
\<close>

section \<open>Grouping in the process\<close>

text \<open>A reaction names a custom emoji or a Unicode one, whose text is not that of a custom one.\<close>

definition one_emoji :: "uuid option \<Rightarrow> string option \<Rightarrow> bool" where
  "one_emoji e s \<longleftrightarrow> (case (e, s) of (Some _, None) \<Rightarrow> True | (None, Some t) \<Rightarrow> take 7 t \<noteq> ''custom:'' | _ \<Rightarrow> False)"

definition emoji_pair :: "'a reaction_row_scheme \<Rightarrow> uuid option \<times> string option" where
  "emoji_pair r = (rx_emoji_id r, rx_emoji_unicode r)"

definition pair_text :: "uuid_lib \<Rightarrow> uuid option \<times> string option \<Rightarrow> string \<times> string" where
  "pair_text U e = ((case fst e of None \<Rightarrow> [] | Some i \<Rightarrow> uuid_String U i), (case snd e of None \<Rightarrow> [] | Some s \<Rightarrow> s))"

lemma reaction_text_pair: "reaction_text U r = pair_text U (emoji_pair r)"
  by (simp add: reaction_text_def pair_text_def emoji_pair_def)

definition of_pair :: "uuid_lib \<Rightarrow> uuid \<Rightarrow> 'a reaction_row_scheme list \<Rightarrow> uuid option \<times> string option \<Rightarrow> ReactionSummaryModel" where
  "of_pair U me rs e =
     \<lparr>rg_EmojiID = map_option (uuid_String U) (fst e), rg_EmojiUnicode = snd e,
      rg_Count = int (length (filter (\<lambda>r. emoji_pair r = e) rs)), rg_Me = (\<exists>r \<in> set rs. emoji_pair r = e \<and> rx_user_id r = me)\<rparr>"

text \<open>The different elements of a list in the order in which they are first seen.\<close>

definition firsts :: "'a list \<Rightarrow> 'a list" where
  "firsts xs = rev (remdups (rev xs))"

lemma firsts_simps [simp]: "firsts [] = []" "firsts (xs @ [x]) = (if x \<in> set xs then firsts xs else firsts xs @ [x])"
  "set (firsts xs) = set xs" "distinct (firsts xs)"
  by (simp_all add: firsts_def)

context uuid_text
begin

lemma pair_text_inj:
  assumes "one_emoji (fst e) (snd e)" and "one_emoji (fst e') (snd e')" and "pair_text U e = pair_text U e'"
  shows "e = e'"
proof -
  have inj: "uuid_String U i = uuid_String U j \<Longrightarrow> i = j" for i j by (metis parse_string option.inject)
  have "uuid_String U i \<noteq> []" "[] \<noteq> uuid_String U i" for i using string_length [of i] by (metis list.size(3) zero_neq_numeral)+
  then show ?thesis using assms inj
    by (cases e; cases e') (auto simp: one_emoji_def pair_text_def split: option.splits)
qed

lemma group_fold:
  assumes "\<forall>r \<in> set rs. one_emoji (rx_emoji_id r) (rx_emoji_unicode r)"
  shows "foldl (group_one U me) [] rs = map (\<lambda>e. (pair_text U e, of_pair U me rs e)) (firsts (map emoji_pair rs))"
  using assms
proof (induction rs rule: rev_induct)
  case (snoc r rs)
  let ?es = "firsts (map emoji_pair rs)"
  have ok: "\<forall>e \<in> set ?es. one_emoji (fst e) (snd e)" "one_emoji (fst (emoji_pair r)) (snd (emoji_pair r))"
    using snoc.prems by (auto simp: emoji_pair_def)
  have same: "pair_text U e = pair_text U (emoji_pair r) \<longleftrightarrow> e = emoji_pair r" if "e \<in> set ?es" for e
    using pair_text_inj ok that by blast
  have IH: "foldl (group_one U me) [] rs = map (\<lambda>e. (pair_text U e, of_pair U me rs e)) ?es" using snoc by simp
  have step: "foldl (group_one U me) [] (rs @ [r]) = group_one U me (map (\<lambda>e. (pair_text U e, of_pair U me rs e)) ?es) r"
    unfolding IH [symmetric] by simp
  show ?case
  proof (cases "emoji_pair r \<in> set ?es")
    case True
    then have "pair_text U (emoji_pair r) \<in> set (map fst (map (\<lambda>e. (pair_text U e, of_pair U me rs e)) ?es))" by (auto simp: image_iff)
    moreover have "map (\<lambda>g. if fst g = pair_text U (emoji_pair r) then (pair_text U (emoji_pair r), (snd g)\<lparr>rg_Count := rg_Count (snd g) + 1,
          rg_Me := (rg_Me (snd g) \<or> rx_user_id r = me)\<rparr>) else g) (map (\<lambda>e. (pair_text U e, of_pair U me rs e)) ?es)
        = map (\<lambda>e. (pair_text U e, of_pair U me (rs @ [r]) e)) ?es"
      using same by (auto simp: of_pair_def)
    ultimately show ?thesis using True unfolding step by (simp add: group_one_def reaction_text_pair Let_def)
  next
    case False
    have "pair_text U (emoji_pair r) \<notin> set (map fst (map (\<lambda>e. (pair_text U e, of_pair U me rs e)) ?es))"
    proof
      assume "pair_text U (emoji_pair r) \<in> set (map fst (map (\<lambda>e. (pair_text U e, of_pair U me rs e)) ?es))"
      then obtain e where "e \<in> set ?es" "pair_text U e = pair_text U (emoji_pair r)" unfolding map_map set_map by fastforce
      with same False show False by blast
    qed
    moreover have "filter (\<lambda>x. emoji_pair x = emoji_pair r) rs = []" "\<not> (\<exists>x \<in> set rs. emoji_pair x = emoji_pair r \<and> rx_user_id x = me)"
      using False by (auto simp: filter_empty_conv image_iff)
    moreover have "map (\<lambda>e. (pair_text U e, of_pair U me rs e)) ?es = map (\<lambda>e. (pair_text U e, of_pair U me (rs @ [r]) e)) ?es"
      using False by (auto simp: of_pair_def)
    ultimately show ?thesis using False
      unfolding step by (simp add: group_one_def reaction_text_pair Let_def) (auto simp: of_pair_def emoji_pair_def)
  qed
qed simp

lemma groupReactions_eq:
  assumes "\<forall>r \<in> set rs. one_emoji (rx_emoji_id r) (rx_emoji_unicode r)"
  shows "groupReactions U me rs = map (of_pair U me rs) (firsts (map emoji_pair rs))"
  by (simp add: groupReactions_def group_fold [OF assms])

lemma reactionKey_inj:
  assumes "one_emoji (fst e) (snd e)" and "one_emoji (fst e') (snd e')" and "reactionKey U (fst e) (snd e) = reactionKey U (fst e') (snd e')"
  shows "e = e'"
proof -
  have inj: "uuid_String U i = uuid_String U j \<Longrightarrow> i = j" for i j by (metis parse_string option.inject)
  have "take 7 (''custom:'' @ uuid_String U i) = ''custom:''" for i by simp
  then show ?thesis using assms inj
    by (cases e; cases e') (auto simp: one_emoji_def reactionKey_def split: option.splits)
qed

lemma summary_of_pair:
  assumes "\<forall>r \<in> set (t_reactions d). one_emoji (rx_emoji_id r) (rx_emoji_unicode r)"
    and rs: "rs = filter (\<lambda>r. rx_message_id r = i) (t_reactions d)" and e: "e \<in> set (map emoji_of rs)"
  shows "summary_model U (\<lambda>k. k \<in> set (user_reactions U i me d))
     \<lparr>su_EmojiID = fst e, su_EmojiUnicode = snd e, su_Count = int (length (filter (\<lambda>r. emoji_of r = e) rs))\<rparr> = of_pair U me rs e"
proof -
  have one: "one_emoji (rx_emoji_id r) (rx_emoji_unicode r)" if "r \<in> set rs" for r using assms(1) that by (simp add: rs)
  have some: "emoji_of r \<noteq> (None, None)" if "r \<in> set rs" for r using one [OF that] by (auto simp: emoji_of_def one_emoji_def split: option.splits)
  have one_e: "one_emoji (fst e) (snd e)" using e one by (auto simp: emoji_of_def)
  have "reactionKey U (fst e) (snd e) \<in> set (user_reactions U i me d) \<longleftrightarrow> (\<exists>r \<in> set rs. emoji_pair r = e \<and> rx_user_id r = me)"
  proof
    assume "reactionKey U (fst e) (snd e) \<in> set (user_reactions U i me d)"
    then obtain r where r: "r \<in> set rs" "rx_user_id r = me" "reactionKey U (fst e) (snd e) = reactionKey U (rx_emoji_id r) (rx_emoji_unicode r)"
      by (auto simp: user_reactions_def rs)
    then have "emoji_pair r = e" using reactionKey_inj [of e "emoji_pair r"] one one_e by (simp add: emoji_pair_def)
    with r show "\<exists>r \<in> set rs. emoji_pair r = e \<and> rx_user_id r = me" by blast
  next
    assume "\<exists>r \<in> set rs. emoji_pair r = e \<and> rx_user_id r = me"
    then obtain r where "r \<in> set rs" "emoji_pair r = e" "rx_user_id r = me" by blast
    with some show "reactionKey U (fst e) (snd e) \<in> set (user_reactions U i me d)"
      by (auto simp: user_reactions_def rs emoji_pair_def image_iff)
  qed
  then show ?thesis by (simp add: summary_model_def of_pair_def emoji_of_def emoji_pair_def)
qed

end

section \<open>Agreement\<close>

lemma map_filter_eq_map: "(\<And>x. x \<in> set xs \<Longrightarrow> f x = Some (g x)) \<Longrightarrow> List.map_filter f xs = map g xs"
  by (induction xs) (auto simp: List.map_filter_simps)

lemma length_filter_sort: "length (filter P (sort_key k xs)) = length (filter P xs)"
  by (metis mset_filter mset_sort size_mset)

text \<open>
  C31. Two summaries agree: for every message, grouping its reactions in the process, as the list of
  reactions does, gives the same emoji with the same counts and the same mark for the caller as the
  grouping of the database that fills the messages of a page.
\<close>

theorem reaction_summaries_agree:
  assumes "uuid_text U" and "\<forall>r \<in> set (t_reactions d). one_emoji (rx_emoji_id r) (rx_emoji_unicode r) \<and> rx_user_id r \<in> u_id ` set (t_users d)"
  shows "mset (groupReactions U me (reactions_where (\<lambda>r. rx_message_id r = i) d))
    = mset (map (summary_model U (\<lambda>k. k \<in> set (user_reactions U i me d))) (summaries i d))"
proof -
  let ?rs = "filter (\<lambda>r. rx_message_id r = i) (t_reactions d)"
  let ?g = "\<lambda>r. the (with_username d r)"
  let ?xs = "sort_key rx_created_at ?rs"
  have g: "with_username d r = Some (?g r)" "emoji_pair (?g r) = emoji_pair r" "rx_user_id (?g r) = rx_user_id r" if "r \<in> set ?rs" for r
  proof -
    have "rx_user_id r \<in> u_id ` set (t_users d)" using assms(2) that by simp
    then have "find (\<lambda>u. u_id u = rx_user_id r) (t_users d) \<noteq> None" by (auto simp: find_None_iff)
    then obtain u where "find (\<lambda>u. u_id u = rx_user_id r) (t_users d) = Some u" by blast
    then show "with_username d r = Some (?g r)" "emoji_pair (?g r) = emoji_pair r" "rx_user_id (?g r) = rx_user_id r"
      by (simp_all add: with_username_def emoji_pair_def reaction_row.extend_def)
  qed
  have rs: "reactions_where (\<lambda>r. rx_message_id r = i) d = map ?g ?xs"
    unfolding reactions_where_def by (rule map_filter_eq_map) (use g(1) in simp)
  have pairs: "map emoji_pair (map ?g ?xs) = map emoji_pair ?xs" using g(2) by simp
  have "\<forall>r \<in> set (map ?g ?xs). one_emoji (rx_emoji_id r) (rx_emoji_unicode r)"
    using g(2) assms(2) by (auto simp: emoji_pair_def)
  from uuid_text.groupReactions_eq [OF assms(1) this, of me]
  have group: "groupReactions U me (map ?g ?xs) = map (of_pair U me (map ?g ?xs)) (firsts (map emoji_pair ?xs))" unfolding pairs .
  have same: "of_pair U me (map ?g ?xs) e = of_pair U me ?rs e" for e
  proof -
    have "filter (\<lambda>r. emoji_pair (?g r) = e) ?xs = filter (\<lambda>r. emoji_pair r = e) ?xs" by (rule filter_cong) (use g(2) in auto)
    then have "length (filter (\<lambda>r. emoji_pair r = e) (map ?g ?xs)) = length (filter (\<lambda>r. emoji_pair r = e) ?rs)"
      using length_filter_sort [of "\<lambda>r. emoji_pair r = e" rx_created_at ?rs] by (simp add: filter_map comp_def)
    moreover have "(\<exists>r \<in> set (map ?g ?xs). emoji_pair r = e \<and> rx_user_id r = me) \<longleftrightarrow> (\<exists>r \<in> set ?rs. emoji_pair r = e \<and> rx_user_id r = me)"
      using g(2,3) by auto
    ultimately show ?thesis by (simp add: of_pair_def)
  qed
  let ?es = "sort_key (\<lambda>e. Min (set (map rx_created_at (filter (\<lambda>r. emoji_of r = e) ?rs)))) (remdups (map emoji_of ?rs))"
  have "map (summary_model U (\<lambda>k. k \<in> set (user_reactions U i me d))) (summaries i d) = map (of_pair U me ?rs) ?es"
    using uuid_text.summary_of_pair [OF assms(1) _ refl, where d = d and i = i and me = me] assms(2) by (auto simp: summaries_def Let_def)
  moreover have "mset (firsts (map emoji_pair ?xs)) = mset ?es"
    unfolding set_eq_iff_mset_eq_distinct [symmetric, OF firsts_simps(4) distinct_sort [THEN iffD2, OF distinct_remdups]]
    by (simp add: emoji_of_def [abs_def] emoji_pair_def [abs_def])
  ultimately show ?thesis unfolding rs group ext [of "of_pair U me (map ?g ?xs)", OF same] by (simp only: mset_map)
qed

definition sample_reaction :: "uuid \<Rightarrow> uuid \<Rightarrow> string \<Rightarrow> time \<Rightarrow> reaction_row" where
  "sample_reaction i u e t =
     \<lparr>rx_id = i, rx_message_id = 80, rx_user_id = u, rx_emoji_id = None, rx_emoji_unicode = Some e, rx_created_at = t\<rparr>"

definition reacted_db :: db where
  "reacted_db = sample_db\<lparr>t_reactions := [sample_reaction 90 2 ''A'' 5, sample_reaction 91 3 ''A'' 4, sample_reaction 92 3 ''B'' 6]\<rparr>"

theorem reaction_summaries_agree_witness:
  "mset (groupReactions ref_uuid 3 (reactions_where (\<lambda>r. rx_message_id r = 80) reacted_db))
    = {#\<lparr>rg_EmojiID = None, rg_EmojiUnicode = Some ''A'', rg_Count = 2, rg_Me = True\<rparr>,
       \<lparr>rg_EmojiID = None, rg_EmojiUnicode = Some ''B'', rg_Count = 1, rg_Me = True\<rparr>#}"
proof -
  have "\<forall>r \<in> set (t_reactions reacted_db). one_emoji (rx_emoji_id r) (rx_emoji_unicode r) \<and> rx_user_id r \<in> u_id ` set (t_users reacted_db)"
    by (auto simp: reacted_db_def sample_reaction_def one_emoji_def sample_db_def sample_user_def)
  from reaction_summaries_agree [OF ref_text.uuid_text_axioms this, of 3 80] show ?thesis
    by (simp add: reacted_db_def sample_reaction_def summaries_def summary_model_def user_reactions_def emoji_of_def reactionKey_def Let_def)
qed

end
