(* ===== verification/Direct.thy ===== *)
theory Direct
  imports Queries Channels
begin

text \<open>
  \<open>internal/dm\<close>: channels for direct messages of two users and of groups, over \<open>dm_channels\<close> and
  \<open>dm_participants\<close>. A row is the Go struct; \<open>newID\<close> is the identifier the database generates. PostgreSQL
  does not allow \<open>FOR UPDATE\<close> in a query with an aggregate, so such a statement ends with an error
  before it reads anything (SQLSTATE 0A000, feature not supported).
\<close>

section \<open>Constants\<close>

definition TypeDM :: string where "TypeDM = ''dm''"
definition TypeGroupDM :: string where "TypeGroupDM = ''group_dm''"

definition MaxGroupDMParticipants :: nat where "MaxGroupDMParticipants = 10"

definition ErrDMNotFound :: error where "ErrDMNotFound = Sentinel ''dm.ErrDMNotFound''"
definition ErrAlreadyParticipant :: error where "ErrAlreadyParticipant = Sentinel ''dm.ErrAlreadyParticipant''"
definition ErrNotParticipant :: error where "ErrNotParticipant = Sentinel ''dm.ErrNotParticipant''"
definition ErrGroupDMFull :: error where "ErrGroupDMFull = Sentinel ''dm.ErrGroupDMFull''"
definition ErrNotOwner :: error where "ErrNotOwner = Sentinel ''dm.ErrNotOwner''"

lemmas dm_errors = ErrDMNotFound_def ErrAlreadyParticipant_def ErrNotParticipant_def ErrGroupDMFull_def ErrNotOwner_def

definition feature_not_supported :: error where
  "feature_not_supported = PgError ''0A000''"

text \<open>\<open>SELECT COUNT(*) ... FOR UPDATE\<close>\<close>

definition count_for_update :: "(nat, db) call" where
  "count_for_update d = (Inl feature_not_supported, d)"

section \<open>Rows\<close>

definition takes_part :: "uuid \<Rightarrow> uuid \<Rightarrow> db \<Rightarrow> bool" where
  "takes_part ch u d \<longleftrightarrow> (\<exists>p \<in> set (t_dm_participants (t_direct d)). dp_dm_channel_id p = ch \<and> dp_user_id p = u)"

text \<open>The query has no order; the first match in the order of the table stands for its \<open>LIMIT 1\<close>.\<close>

definition existing_dm :: "uuid \<Rightarrow> uuid \<Rightarrow> db \<Rightarrow> dm_channel_row option" where
  "existing_dm a b d =
     find (\<lambda>c. dc_type c = TypeDM \<and> takes_part (dc_id c) a d \<and> takes_part (dc_id c) b d) (t_dm_channels (t_direct d))"

definition insert_dm_channel :: "uuid \<Rightarrow> time \<Rightarrow> string \<Rightarrow> string option \<Rightarrow> uuid option \<Rightarrow> (dm_channel_row, db) call" where
  "insert_dm_channel newID now typ name owner d =
     (let row = \<lparr>dc_id = newID, dc_type = typ, dc_name = name, dc_owner_id = owner, dc_created_at = now, dc_updated_at = now\<rparr>
      in if newID \<in> dc_id ` set (t_dm_channels (t_direct d)) then (Inl unique_violation, d)
         else if owner \<noteq> None \<and> the owner \<notin> u_id ` set (t_users d) then (Inl foreign_key_violation, d)
         else (Inr row, d\<lparr>t_direct := (t_direct d)\<lparr>t_dm_channels := t_dm_channels (t_direct d) @ [row]\<rparr>\<rparr>))"

definition insert_participant :: "time \<Rightarrow> uuid \<Rightarrow> uuid \<Rightarrow> (unit, db) call" where
  "insert_participant now ch u d =
     (if takes_part ch u d then (Inl unique_violation, d)
      else if ch \<notin> dc_id ` set (t_dm_channels (t_direct d)) \<or> u \<notin> u_id ` set (t_users d) then (Inl foreign_key_violation, d)
      else (Inr (), d\<lparr>t_direct := (t_direct d)\<lparr>t_dm_participants := t_dm_participants (t_direct d)
                     @ [\<lparr>dp_dm_channel_id = ch, dp_user_id = u, dp_joined_at = now\<rparr>]\<rparr>\<rparr>))"

fun insert_participants :: "time \<Rightarrow> uuid \<Rightarrow> uuid list \<Rightarrow> (unit, db) call" where
  "insert_participants now ch [] = ret ()"
| "insert_participants now ch (u # us) =
     bindc (maperr (Wrap ''insert participant'') (pg_stmt (insert_participant now ch u))) (\<lambda>_. insert_participants now ch us)"

definition delete_participant :: "uuid \<Rightarrow> uuid \<Rightarrow> (nat, db) call" where
  "delete_participant ch u d =
     (let P = (\<lambda>p. dp_dm_channel_id p = ch \<and> dp_user_id p = u)
      in (Inr (length (filter P (t_dm_participants (t_direct d)))),
          d\<lparr>t_direct := (t_direct d)\<lparr>t_dm_participants := filter (\<lambda>p. \<not> P p) (t_dm_participants (t_direct d))\<rparr>\<rparr>))"

section \<open>The repository\<close>

definition create_dm_tx :: "uuid \<Rightarrow> time \<Rightarrow> uuid \<Rightarrow> uuid \<Rightarrow> (dm_channel_row, db) call" where
  "create_dm_tx newID now creator recipient =
     bindc (rows_of ''check existing dm'' (existing_dm creator recipient)) (\<lambda>old.
     case old of
       Some ch \<Rightarrow> ret ch
     | None \<Rightarrow>
         bindc (maperr (Wrap ''insert dm channel'') (pg_stmt (insert_dm_channel newID now TypeDM None None))) (\<lambda>ch.
         bindc (insert_participants now (dc_id ch) [creator, recipient]) (\<lambda>_.
         ret ch)))"

definition CreateDM :: "uuid \<Rightarrow> time \<Rightarrow> uuid \<Rightarrow> uuid \<Rightarrow> (dm_channel_row, db) call" where
  "CreateDM newID now creator recipient = WithTx (create_dm_tx newID now creator recipient)"

text \<open>Each identifier once, in the order of its first occurrence.\<close>

fun unique_from :: "uuid set \<Rightarrow> uuid list \<Rightarrow> uuid list" where
  "unique_from seen [] = []"
| "unique_from seen (i # is) = (if i \<in> seen then unique_from seen is else i # unique_from (insert i seen) is)"

definition uniqueUUIDs :: "uuid list \<Rightarrow> uuid list" where
  "uniqueUUIDs is = unique_from {} is"

record CreateGroupDMParams =
  gp_OwnerID :: uuid
  gp_Name :: string
  gp_ParticipantIDs :: "uuid list"

definition create_group_tx :: "uuid \<Rightarrow> time \<Rightarrow> CreateGroupDMParams \<Rightarrow> uuid list \<Rightarrow> (dm_channel_row, db) call" where
  "create_group_tx newID now p participants =
     bindc (maperr (Wrap ''insert group dm channel'')
              (pg_stmt (insert_dm_channel newID now TypeGroupDM (Some (gp_Name p)) (Some (gp_OwnerID p))))) (\<lambda>ch.
     bindc (insert_participants now (dc_id ch) participants) (\<lambda>_.
     ret ch))"

definition CreateGroupDM :: "uuid \<Rightarrow> time \<Rightarrow> CreateGroupDMParams \<Rightarrow> (dm_channel_row, db) call" where
  "CreateGroupDM newID now p =
     (let participants = uniqueUUIDs (gp_ParticipantIDs p @ [gp_OwnerID p])
      in if length participants > MaxGroupDMParticipants then fail ErrGroupDMFull
         else WithTx (create_group_tx newID now p participants))"

definition dm_GetByID :: "uuid \<Rightarrow> (dm_channel_row, db) call" where
  "dm_GetByID i =
     bindc (maperr (Wrap ''get dm channel'') (pg_query (\<lambda>d. find (\<lambda>c. dc_id c = i) (t_dm_channels (t_direct d))))) (\<lambda>r.
     case r of None \<Rightarrow> fail ErrDMNotFound | Some c \<Rightarrow> ret c)"

definition ListForUser :: "uuid \<Rightarrow> (dm_channel_row list, db) call" where
  "ListForUser u =
     rows_of ''list dm channels''
       (\<lambda>d. sort_key (\<lambda>c. - dc_updated_at c) (filter (\<lambda>c. takes_part (dc_id c) u d) (t_dm_channels (t_direct d))))"

definition add_participant_tx :: "time \<Rightarrow> uuid \<Rightarrow> uuid \<Rightarrow> (unit, db) call" where
  "add_participant_tx now ch u =
     bindc (maperr (Wrap ''count participants'') (pg_stmt count_for_update)) (\<lambda>count.
     if count \<ge> MaxGroupDMParticipants then fail ErrGroupDMFull
     else maperr (\<lambda>e. if IsUniqueViolation e then ErrAlreadyParticipant else Wrap ''insert participant'' e)
            (pg_stmt (insert_participant now ch u)))"

definition dm_AddParticipant :: "time \<Rightarrow> uuid \<Rightarrow> uuid \<Rightarrow> (unit, db) call" where
  "dm_AddParticipant now ch u = WithTx (add_participant_tx now ch u)"

definition dm_RemoveParticipant :: "uuid \<Rightarrow> uuid \<Rightarrow> (unit, db) call" where
  "dm_RemoveParticipant ch u = affecting ErrNotParticipant ''delete participant'' (delete_participant ch u)"

definition participants_of :: "uuid \<Rightarrow> db \<Rightarrow> participant_row list" where
  "participants_of ch d = sort_key dp_joined_at (filter (\<lambda>p. dp_dm_channel_id p = ch) (t_dm_participants (t_direct d)))"

definition ListParticipants :: "uuid \<Rightarrow> (participant_row list, db) call" where
  "ListParticipants ch = rows_of ''list participants'' (participants_of ch)"

definition IsParticipant :: "uuid \<Rightarrow> uuid \<Rightarrow> (bool, db) call" where
  "IsParticipant ch u = rows_of ''check participant'' (takes_part ch u)"

definition peers_of :: "uuid \<Rightarrow> db \<Rightarrow> uuid list" where
  "peers_of u d = remdups (map dp_user_id (filter (\<lambda>p. takes_part (dp_dm_channel_id p) u d \<and> dp_user_id p \<noteq> u) (t_dm_participants (t_direct d))))"

definition ListDMPeers :: "uuid \<Rightarrow> (uuid list, db) call" where
  "ListDMPeers u = rows_of ''list dm peers'' (peers_of u)"

end
