(* ===== verification/Base64.thy ===== *)
theory Base64
  imports Prelude
begin

text \<open>
  \<open>encoding/base64\<close> of the standard library: \<open>EncodeToString\<close> and \<open>DecodeString\<close> of \<open>StdEncoding\<close>, with
  padding, and of \<open>RawStdEncoding\<close>, without. A byte string is a list of characters. Decoding is
  not strict: the unused low bits of the last character are ignored, line ends anywhere are skipped.
\<close>

definition b64_char :: "nat \<Rightarrow> char" where
  "b64_char n =
     char_of (if n < 26 then n + 65 else if n < 52 then n + 71 else if n < 62 then n - 4 else if n = 62 then 43 else 47 :: nat)"

definition b64_value :: "char \<Rightarrow> nat option" where
  "b64_value c =
     (let n = of_char c :: nat
      in if 65 \<le> n \<and> n \<le> 90 then Some (n - 65)
         else if 97 \<le> n \<and> n \<le> 122 then Some (n - 71)
         else if 48 \<le> n \<and> n \<le> 57 then Some (n + 4)
         else if n = 43 then Some 62
         else if n = 47 then Some 63
         else None)"

text \<open>Three bytes are four digits of six bits.\<close>

definition digits_of :: "nat \<Rightarrow> nat list" where
  "digits_of v = [v div 262144, v div 4096 mod 64, v div 64 mod 64, v mod 64]"

definition bytes_value :: "char \<Rightarrow> char \<Rightarrow> char \<Rightarrow> nat" where
  "bytes_value a b c = of_char a * 65536 + of_char b * 256 + of_char c"

definition bytes_of :: "nat \<Rightarrow> char list" where
  "bytes_of v = [char_of (v div 65536), char_of (v div 256), char_of v]"

fun b64_encode :: "bool \<Rightarrow> string \<Rightarrow> string" where
  "b64_encode pad [] = []"
| "b64_encode pad [a] = map b64_char (take 2 (digits_of (bytes_value a (char_of (0::nat)) (char_of (0::nat))))) @ (if pad then ''=='' else [])"
| "b64_encode pad [a, b] = map b64_char (take 3 (digits_of (bytes_value a b (char_of (0::nat))))) @ (if pad then ''='' else [])"
| "b64_encode pad (a # b # c # bs) = map b64_char (digits_of (bytes_value a b c)) @ b64_encode pad bs"

text \<open>The first \<open>n\<close> of the bytes that up to four digits encode; missing digits are zero.\<close>

definition decode_digits :: "nat \<Rightarrow> char list \<Rightarrow> string option" where
  "decode_digits n cs =
     (if None \<in> set (map b64_value cs) then None
      else Some (take n (bytes_of (foldl (\<lambda>v x. v * 64 + x) 0 (map (the \<circ> b64_value) cs @ replicate (4 - length cs) 0)))))"

fun decode_quanta :: "bool \<Rightarrow> char list \<Rightarrow> string option" where
  "decode_quanta pad [] = Some []"
| "decode_quanta pad [a] = None"
| "decode_quanta pad [a, b] = (if pad then None else decode_digits 1 [a, b])"
| "decode_quanta pad [a, b, c] = (if pad then None else decode_digits 2 [a, b, c])"
| "decode_quanta pad (a # b # c # d # cs) =
     (if pad \<and> d = CHR ''='' \<and> cs = []
      then (if c = CHR ''='' then decode_digits 1 [a, b] else decode_digits 2 [a, b, c])
      else (case decode_digits 3 [a, b, c, d] of
              None \<Rightarrow> None
            | Some bs \<Rightarrow> map_option ((@) bs) (decode_quanta pad cs)))"

definition b64_decode :: "bool \<Rightarrow> string \<Rightarrow> string option" where
  "b64_decode pad s = decode_quanta pad (filter (\<lambda>c. c \<noteq> CHR 0x0A \<and> c \<noteq> CHR 0x0D) s)"

abbreviation EncodeStd :: "string \<Rightarrow> string" where "EncodeStd \<equiv> b64_encode True"
abbreviation EncodeRaw :: "string \<Rightarrow> string" where "EncodeRaw \<equiv> b64_encode False"
abbreviation DecodeStd :: "string \<Rightarrow> string option" where "DecodeStd \<equiv> b64_decode True"
abbreviation DecodeRaw :: "string \<Rightarrow> string option" where "DecodeRaw \<equiv> b64_decode False"

section \<open>Decoding inverts encoding\<close>

lemma of_char_bound: "(of_char c :: nat) < 256"
  by simp

lemma b64_value_char [simp]: "n < 64 \<Longrightarrow> b64_value (b64_char n) = Some n"
  by (auto simp: b64_value_def b64_char_def Let_def)

lemma b64_char_code: "n < 64 \<Longrightarrow> (of_char (b64_char n) :: nat) \<in> {43, 47} \<union> {48..57} \<union> {65..90} \<union> {97..122}"
  by (auto simp: b64_char_def)

lemma b64_char_plain: "n < 64 \<Longrightarrow> b64_char n \<noteq> CHR ''='' \<and> b64_char n \<noteq> CHR 0x0A \<and> b64_char n \<noteq> CHR 0x0D"
  by (auto dest!: b64_char_code)

lemma digits_bound: "v < 16777216 \<Longrightarrow> x \<in> set (digits_of v) \<Longrightarrow> x < 64"
  by (auto simp: digits_of_def less_mult_imp_div_less)

lemma value_bound: "bytes_value a b c < 16777216"
  using of_char_bound [of a] of_char_bound [of b] of_char_bound [of c] unfolding bytes_value_def by linarith

lemma digits_value: "v < 16777216 \<Longrightarrow> foldl (\<lambda>v x. v * 64 + x) 0 (digits_of v) = v"
proof -
  have "v div 4096 = v div 64 div 64" "v div 262144 = v div 64 div 64 div 64"
    using div_mult2_eq [of v 64 64] div_mult2_eq [of v 4096 64] by simp_all
  then have "v div 262144 * 64 + v div 4096 mod 64 = v div 64 div 64" "v div 64 div 64 * 64 + v div 64 mod 64 = v div 64" "v div 64 * 64 + v mod 64 = v"
    by (simp_all only: div_mult_mod_eq)
  then show ?thesis by (simp add: digits_of_def)
qed

lemma char_of_last: "char_of (n * 256 + of_char c :: nat) = c"
proof -
  have "(n * 256 + of_char c) mod 256 = (of_char c :: nat)" by (subst mod_mult_self3) (rule of_char_mod_256)
  then show ?thesis by (metis char_of_mod_256 char_of_char)
qed

lemma bytes_of_value [simp]: "bytes_of (bytes_value a b c) = [a, b, c]"
proof -
  have "(of_char a * 65536 + of_char b * 256 + of_char c) div 65536 = (of_char a :: nat)"
    "(of_char a * 65536 + of_char b * 256 + of_char c) div 256 = (of_char a * 256 + of_char b :: nat)"
    using of_char_bound [of b] of_char_bound [of c] by linarith+
  moreover have "char_of (of_char a * 256 + of_char b :: nat) = b" "char_of (of_char a * 65536 + of_char b * 256 + of_char c :: nat) = c"
    using char_of_last [of "of_char a" b] char_of_last [of "of_char a * 256 + of_char b" c] by (simp_all add: add_mult_distrib mult.assoc)
  ultimately show ?thesis by (simp add: bytes_of_def bytes_value_def)
qed

lemma decode_bytes:
  assumes "k \<le> 4" and "drop k (digits_of (bytes_value a b c)) = replicate (4 - k) 0"
  shows "decode_digits n (map b64_char (take k (digits_of (bytes_value a b c)))) = Some (take n [a, b, c])"
proof -
  let ?ds = "digits_of (bytes_value a b c)"
  have ds: "x < 64" if "x \<in> set (take k ?ds)" for x using that digits_bound [OF value_bound] by (meson in_set_takeD)
  then have "map b64_value (map b64_char (take k ?ds)) = map Some (take k ?ds)" by simp
  moreover have "map (the \<circ> b64_value) (map b64_char (take k ?ds)) = take k ?ds" using ds by (simp add: map_idI)
  moreover have "length ?ds = 4" by (simp add: digits_of_def)
  then have "take k ?ds @ replicate (4 - length (map b64_char (take k ?ds))) 0 = ?ds"
    using assms by (metis append_take_drop_id length_map length_take min.absorb2)
  ultimately show ?thesis by (auto simp: decode_digits_def digits_value [OF value_bound] simp del: map_map)
qed

lemma plain_digits: "\<forall>d \<in> set (map b64_char (digits_of (bytes_value a b c))). d \<noteq> CHR ''='' \<and> d \<noteq> CHR 0x0A \<and> d \<noteq> CHR 0x0D"
  using digits_bound [OF value_bound] b64_char_plain by fastforce

lemma encoded_plain: "\<forall>d \<in> set (b64_encode pad s). d \<noteq> CHR 0x0A \<and> d \<noteq> CHR 0x0D"
proof (induction pad s rule: b64_encode.induct)
  case (2 pad a)
  then show ?case using plain_digits [of a "char_of (0::nat)" "char_of (0::nat)"] by (simp add: digits_of_def)
next
  case (3 pad a b)
  then show ?case using plain_digits [of a b "char_of (0::nat)"] by (simp add: digits_of_def)
next
  case (4 pad a b c bs)
  then show ?case using plain_digits [of a b c] by (simp add: ball_Un)
qed simp

lemma four_digits: obtains w x y z where "digits_of v = [w, x, y, z]"
  by (simp add: digits_of_def)

lemma decode_quanta_encode: "decode_quanta pad (b64_encode pad s) = Some s"
proof (induction pad s rule: b64_encode.induct)
  case (2 pad a)
  let ?v = "bytes_value a (char_of (0::nat)) (char_of (0::nat))"
  obtain w x y z where d: "digits_of ?v = [w, x, y, z]" by (rule four_digits)
  have "drop 2 (digits_of ?v) = replicate (4 - 2) 0" by (simp add: digits_of_def bytes_value_def numeral_2_eq_2)
  from decode_bytes [OF _ this, of 1] show ?case by (simp add: d)
next
  case (3 pad a b)
  let ?v = "bytes_value a b (char_of (0::nat))"
  obtain w x y z where d: "digits_of ?v = [w, x, y, z]" by (rule four_digits)
  have "drop 3 (digits_of ?v) = replicate (4 - 3) 0" by (simp add: digits_of_def bytes_value_def)
  from decode_bytes [OF _ this, of 2] plain_digits [of a b "char_of (0::nat)"] show ?case by (simp add: d)
next
  case (4 pad a b c bs)
  obtain w x y z where d: "digits_of (bytes_value a b c) = [w, x, y, z]" by (rule four_digits)
  from decode_bytes [of 4 a b c 3] plain_digits [of a b c] 4 show ?case by (simp add: d)
qed simp

lemma b64_roundtrip [simp]: "b64_decode pad (b64_encode pad s) = Some s"
  using encoded_plain [of pad s] by (simp add: b64_decode_def decode_quanta_encode filter_id_conv [THEN iffD2])

end
