(* ===== verification/Keys.thy ===== *)
theory Keys
  imports Direct Base64 Onboarding
begin

text \<open>
  \<open>internal/e2ee\<close>: registered devices, their signed and one-time pre-keys and the per-device keys of
  messages, over \<open>user_devices\<close>, \<open>e2ee_signed_pre_keys\<close>, \<open>e2ee_one_time_pre_keys\<close> and \<open>dm_message_keys\<close>. Keys are
  byte strings. An error made with \<open>%w\<close> is \<open>Wrap\<close> with the whole text. \<open>COPY\<close> stores all rows or none.
\<close>

section \<open>Constants and validation\<close>

definition ErrDeviceNotFound :: error where "ErrDeviceNotFound = Sentinel ''e2ee.ErrDeviceNotFound''"
definition ErrKeyBundleIncomplete :: error where "ErrKeyBundleIncomplete = Sentinel ''e2ee.ErrKeyBundleIncomplete''"
definition ErrNoDevices :: error where "ErrNoDevices = Sentinel ''e2ee.ErrNoDevices''"
definition ErrInvalidKeyLength :: error where "ErrInvalidKeyLength = Sentinel ''e2ee.ErrInvalidKeyLength''"
definition ErrInvalidSignature :: error where "ErrInvalidSignature = Sentinel ''e2ee.ErrInvalidSignature''"
definition ErrDuplicateKeyID :: error where "ErrDuplicateKeyID = Sentinel ''e2ee.ErrDuplicateKeyID''"
definition ErrBatchTooLarge :: error where "ErrBatchTooLarge = Sentinel ''e2ee.ErrBatchTooLarge''"
definition ErrDuplicateDevice :: error where "ErrDuplicateDevice = Sentinel ''e2ee.ErrDuplicateDevice''"
definition ErrMaxDevicesReached :: error where "ErrMaxDevicesReached = Sentinel ''e2ee.ErrMaxDevicesReached''"

lemmas e2ee_errors = ErrDeviceNotFound_def ErrKeyBundleIncomplete_def ErrNoDevices_def ErrInvalidKeyLength_def ErrInvalidSignature_def
  ErrDuplicateKeyID_def ErrBatchTooLarge_def ErrDuplicateDevice_def ErrMaxDevicesReached_def

definition KeyLength :: nat where "KeyLength = 32"
definition SignatureLength :: nat where "SignatureLength = 64"
definition MaxOPKBatch :: nat where "MaxOPKBatch = 100"

text \<open>\<open>Error()\<close> of the errors whose text reaches a response.\<close>

definition sentinel_text :: "error \<Rightarrow> string" where
  "sentinel_text e =
     (if e = ErrInvalidKeyLength then ''public key must be exactly 32 bytes''
      else if e = ErrInvalidSignature then ''signature must be exactly 64 bytes''
      else if e = ErrDuplicateKeyID then ''key ID already exists for this device''
      else if e = ErrBatchTooLarge then ''one-time pre-key batch exceeds the maximum size''
      else if e = ErrDuplicateDevice then ''device already registered for this user''
      else if e = ErrMaxDevicesReached then ''user has reached the maximum number of devices''
      else [])"

fun error_text :: "error \<Rightarrow> string" where
  "error_text (Wrap t e) = t"
| "error_text e = sentinel_text e"

definition show_count :: "nat \<Rightarrow> string" where
  "show_count n = FormatInt (int n)"

definition ValidatePublicKey :: "string \<Rightarrow> unit result" where
  "ValidatePublicKey key =
     (if length key \<noteq> KeyLength
      then Inl (Wrap (sentinel_text ErrInvalidKeyLength @ '': got '' @ show_count (length key) @ '' bytes'') ErrInvalidKeyLength)
      else Inr ())"

definition ValidateSignature :: "string \<Rightarrow> unit result" where
  "ValidateSignature sig =
     (if length sig \<noteq> SignatureLength
      then Inl (Wrap (sentinel_text ErrInvalidSignature @ '': got '' @ show_count (length sig) @ '' bytes'') ErrInvalidSignature)
      else Inr ())"

record UploadOPKParams =
  uk_KeyID :: int
  uk_PublicKey :: string

fun validate_each :: "nat \<Rightarrow> UploadOPKParams list \<Rightarrow> unit result" where
  "validate_each i [] = Inr ()"
| "validate_each i (k # ks) =
     (case ValidatePublicKey (uk_PublicKey k) of
        Inl e \<Rightarrow> Inl (Wrap (''key at index '' @ show_count i @ '': '' @ error_text e) e)
      | Inr _ \<Rightarrow> validate_each (Suc i) ks)"

definition ValidateOPKBatch :: "UploadOPKParams list \<Rightarrow> nat \<Rightarrow> unit result" where
  "ValidateOPKBatch keys maxBatch =
     (if keys = [] then Inl (Wrap (sentinel_text ErrBatchTooLarge @ '': batch must not be empty'') ErrBatchTooLarge)
      else if length keys > maxBatch
      then Inl (Wrap (sentinel_text ErrBatchTooLarge @ '': '' @ show_count (length keys) @ '' keys exceeds limit of '' @ show_count maxBatch) ErrBatchTooLarge)
      else validate_each 0 keys)"

section \<open>Devices\<close>

record RegisterDeviceParams =
  dq_UserID :: uuid
  dq_DeviceID :: uuid
  dq_Label :: "string option"
  dq_IdentityKey :: string

definition insert_device :: "uuid \<Rightarrow> time \<Rightarrow> RegisterDeviceParams \<Rightarrow> (device_row, db) call" where
  "insert_device newID now p d =
     (let row = \<lparr>dv_id = newID, dv_user_id = dq_UserID p, dv_device_id = dq_DeviceID p, dv_label = dq_Label p,
                 dv_identity_key = dq_IdentityKey p, dv_created_at = now, dv_updated_at = now\<rparr>
      in if length (dq_IdentityKey p) \<noteq> 32 then (Inl check_violation, d)
         else if \<exists>v \<in> set (t_devices (t_direct d)). dv_id v = newID \<or> (dv_user_id v = dq_UserID p \<and> dv_device_id v = dq_DeviceID p)
         then (Inl unique_violation, d)
         else if dq_UserID p \<notin> u_id ` set (t_users d) then (Inl foreign_key_violation, d)
         else (Inr row, d\<lparr>t_direct := (t_direct d)\<lparr>t_devices := t_devices (t_direct d) @ [row]\<rparr>\<rparr>))"

definition register_device_tx :: "nat \<Rightarrow> uuid \<Rightarrow> time \<Rightarrow> RegisterDeviceParams \<Rightarrow> (device_row, db) call" where
  "register_device_tx maxDevices newID now p =
     bindc (maperr (Wrap ''count devices'') (pg_stmt count_for_update)) (\<lambda>count.
     if count \<ge> maxDevices then fail ErrMaxDevicesReached
     else maperr (\<lambda>e. if IsUniqueViolation e then ErrDuplicateDevice else Wrap ''insert device'' e)
            (pg_stmt (insert_device newID now p)))"

definition e2ee_RegisterDevice :: "nat \<Rightarrow> uuid \<Rightarrow> time \<Rightarrow> RegisterDeviceParams \<Rightarrow> (device_row, db) call" where
  "e2ee_RegisterDevice maxDevices newID now p = WithTx (register_device_tx maxDevices newID now p)"

definition devices_of :: "uuid \<Rightarrow> db \<Rightarrow> device_row list" where
  "devices_of u d = sort_key dv_created_at (filter (\<lambda>v. dv_user_id v = u) (t_devices (t_direct d)))"

definition e2ee_ListDevices :: "uuid \<Rightarrow> (device_row list, db) call" where
  "e2ee_ListDevices u = rows_of ''list devices'' (devices_of u)"

text \<open>One device, or the sentinel when there is none.\<close>

definition one_device :: "string \<Rightarrow> (device_row option, db) call \<Rightarrow> (device_row, db) call" where
  "one_device msg q = bindc (maperr (Wrap msg) q) (\<lambda>r. case r of None \<Rightarrow> fail ErrDeviceNotFound | Some v \<Rightarrow> ret v)"

definition find_device :: "uuid \<Rightarrow> uuid \<Rightarrow> db \<Rightarrow> device_row option" where
  "find_device u deviceID d = find (\<lambda>v. dv_user_id v = u \<and> dv_device_id v = deviceID) (t_devices (t_direct d))"

definition GetDeviceByDeviceID :: "uuid \<Rightarrow> uuid \<Rightarrow> (device_row, db) call" where
  "GetDeviceByDeviceID u deviceID = one_device ''get device'' (pg_query (find_device u deviceID))"

definition delete_device :: "uuid \<Rightarrow> (nat, db) call" where
  "delete_device i d =
     (Inr (length (filter (\<lambda>v. dv_id v = i) (t_devices (t_direct d)))),
      d\<lparr>t_direct := remove_devices (\<lambda>v. dv_id v = i) (t_direct d)\<rparr>)"

definition e2ee_RemoveDevice :: "uuid \<Rightarrow> (unit, db) call" where
  "e2ee_RemoveDevice i = affecting ErrDeviceNotFound ''delete device'' (delete_device i)"

definition set_identity_key :: "time \<Rightarrow> uuid \<Rightarrow> string \<Rightarrow> (device_row option, db) call" where
  "set_identity_key now i key d =
     (if length key \<noteq> 32 \<and> (\<exists>v \<in> set (t_devices (t_direct d)). dv_id v = i) then (Inl check_violation, d)
      else let vs = updated_rows (\<lambda>v. dv_id v = i) (\<lambda>v. v\<lparr>dv_identity_key := key, dv_updated_at := now\<rparr>) (t_devices (t_direct d))
           in (Inr (find (\<lambda>v. dv_id v = i) vs), d\<lparr>t_direct := (t_direct d)\<lparr>t_devices := vs\<rparr>\<rparr>))"

definition e2ee_UpdateIdentityKey :: "time \<Rightarrow> uuid \<Rightarrow> string \<Rightarrow> (device_row, db) call" where
  "e2ee_UpdateIdentityKey now i key = one_device ''update identity key'' (pg_stmt (set_identity_key now i key))"

section \<open>Pre-keys\<close>

record UploadSignedPreKeyParams =
  us_DeviceRowID :: uuid
  us_KeyID :: int
  us_PublicKey :: string
  us_Signature :: string

definition deactivate_keys :: "uuid \<Rightarrow> (unit, db) call" where
  "deactivate_keys dev d =
     (Inr (), d\<lparr>t_direct := (t_direct d)\<lparr>t_signed_pre_keys :=
        updated_rows (\<lambda>k. sk_device_id k = dev \<and> sk_active k) (\<lambda>k. k\<lparr>sk_active := False\<rparr>) (t_signed_pre_keys (t_direct d))\<rparr>\<rparr>)"

definition insert_signed_key :: "uuid \<Rightarrow> time \<Rightarrow> UploadSignedPreKeyParams \<Rightarrow> (unit, db) call" where
  "insert_signed_key newID now p d =
     (let row = \<lparr>sk_id = newID, sk_device_id = us_DeviceRowID p, sk_key_id = us_KeyID p, sk_public_key = us_PublicKey p,
                 sk_signature = us_Signature p, sk_active = True, sk_created_at = now\<rparr>
      in if \<not> fits_int4 (Some (us_KeyID p)) then (Inl (Ext ''cannot encode into int4''), d)
         else if length (us_PublicKey p) \<noteq> 32 \<or> length (us_Signature p) \<noteq> 64 then (Inl check_violation, d)
         else if \<exists>k \<in> set (t_signed_pre_keys (t_direct d)). sk_id k = newID \<or> (sk_device_id k = us_DeviceRowID p \<and> sk_key_id k = us_KeyID p)
         then (Inl unique_violation, d)
         else if us_DeviceRowID p \<notin> dv_id ` set (t_devices (t_direct d)) then (Inl foreign_key_violation, d)
         else (Inr (), d\<lparr>t_direct := (t_direct d)\<lparr>t_signed_pre_keys := t_signed_pre_keys (t_direct d) @ [row]\<rparr>\<rparr>))"

definition e2ee_UploadSignedPreKey :: "uuid \<Rightarrow> time \<Rightarrow> UploadSignedPreKeyParams \<Rightarrow> (unit, db) call" where
  "e2ee_UploadSignedPreKey newID now p = WithTx
     (bindc (maperr (Wrap ''deactivate old spk'') (pg_stmt (deactivate_keys (us_DeviceRowID p)))) (\<lambda>_.
      maperr (\<lambda>e. if IsUniqueViolation e then ErrDuplicateKeyID else Wrap ''insert spk'' e)
        (pg_stmt (insert_signed_key newID now p))))"

text \<open>The rows of a batch; the \<open>n\<close>th gets the identifier \<open>ids n\<close>.\<close>

definition batch_rows :: "(nat \<Rightarrow> uuid) \<Rightarrow> time \<Rightarrow> uuid \<Rightarrow> UploadOPKParams list \<Rightarrow> one_time_key_row list" where
  "batch_rows ids now dev keys =
     map2 (\<lambda>n k. \<lparr>ok_id = ids n, ok_device_id = dev, ok_key_id = uk_KeyID k, ok_public_key = uk_PublicKey k, ok_created_at = now\<rparr>)
       [0..<length keys] keys"

definition opk_key :: "one_time_key_row \<Rightarrow> uuid \<times> int" where
  "opk_key k = (ok_device_id k, ok_key_id k)"

definition copy_one_time_keys :: "(nat \<Rightarrow> uuid) \<Rightarrow> time \<Rightarrow> uuid \<Rightarrow> UploadOPKParams list \<Rightarrow> (unit, db) call" where
  "copy_one_time_keys ids now dev keys d =
     (let ks = t_one_time_pre_keys (t_direct d) @ batch_rows ids now dev keys
      in if \<exists>k \<in> set keys. \<not> fits_int4 (Some (uk_KeyID k)) then (Inl (Ext ''cannot encode into int4''), d)
         else if \<exists>k \<in> set keys. length (uk_PublicKey k) \<noteq> 32 then (Inl check_violation, d)
         else if \<not> distinct (map ok_id ks) \<or> \<not> distinct (map opk_key ks) then (Inl unique_violation, d)
         else if keys \<noteq> [] \<and> dev \<notin> dv_id ` set (t_devices (t_direct d)) then (Inl foreign_key_violation, d)
         else (Inr (), d\<lparr>t_direct := (t_direct d)\<lparr>t_one_time_pre_keys := ks\<rparr>\<rparr>))"

definition e2ee_UploadOneTimePreKeys :: "(nat \<Rightarrow> uuid) \<Rightarrow> time \<Rightarrow> uuid \<Rightarrow> UploadOPKParams list \<Rightarrow> (unit, db) call" where
  "e2ee_UploadOneTimePreKeys ids now dev keys =
     maperr (\<lambda>e. if IsUniqueViolation e then ErrDuplicateKeyID else Wrap ''copy one-time pre-keys'' e)
       (pg_stmt (copy_one_time_keys ids now dev keys))"

definition CountOneTimePreKeys :: "uuid \<Rightarrow> (nat, db) call" where
  "CountOneTimePreKeys dev =
     rows_of ''count one-time pre-keys'' (\<lambda>d. length (filter (\<lambda>k. ok_device_id k = dev) (t_one_time_pre_keys (t_direct d))))"

section \<open>Key bundles\<close>

record DeviceKeyBundle =
  bk_Device :: device_row
  bk_SignedPreKey :: signed_key_row
  bk_OneTimePreKey :: "one_time_key_row option"

record UserKeyBundle =
  bu_UserID :: uuid
  bu_Devices :: "DeviceKeyBundle list"

text \<open>A device has at most one active key; the first in the order of the table stands for \<open>LIMIT 1\<close>.\<close>

definition active_key :: "uuid \<Rightarrow> db \<Rightarrow> signed_key_row option" where
  "active_key dev d = find (\<lambda>k. sk_device_id k = dev \<and> sk_active k) (t_signed_pre_keys (t_direct d))"

definition next_one_time_key :: "uuid \<Rightarrow> db \<Rightarrow> one_time_key_row option" where
  "next_one_time_key dev d = first_row (sort_key ok_key_id (filter (\<lambda>k. ok_device_id k = dev) (t_one_time_pre_keys (t_direct d))))"

definition consume_one_time_key :: "uuid \<Rightarrow> (one_time_key_row option, db) call" where
  "consume_one_time_key dev d =
     (case next_one_time_key dev d of
        None \<Rightarrow> (Inr None, d)
      | Some k \<Rightarrow> (Inr (Some k),
                   d\<lparr>t_direct := (t_direct d)\<lparr>t_one_time_pre_keys := filter (\<lambda>x. ok_id x \<noteq> ok_id k) (t_one_time_pre_keys (t_direct d))\<rparr>\<rparr>))"

fun collect_bundles :: "uuid_lib \<Rightarrow> device_row list \<Rightarrow> (DeviceKeyBundle list, db) call" where
  "collect_bundles U [] = ret []"
| "collect_bundles U (dev # devs) =
     bindc (maperr (Wrap (''fetch spk for device '' @ uuid_String U (dv_id dev))) (pg_query (active_key (dv_id dev)))) (\<lambda>spk.
     case spk of
       None \<Rightarrow> collect_bundles U devs
     | Some k \<Rightarrow>
         bindc (maperr (Wrap (''consume opk for device '' @ uuid_String U (dv_id dev))) (pg_stmt (consume_one_time_key (dv_id dev)))) (\<lambda>opk.
         bindc (collect_bundles U devs) (\<lambda>bs.
         ret (\<lparr>bk_Device = dev, bk_SignedPreKey = k, bk_OneTimePreKey = opk\<rparr> # bs))))"

definition FetchUserKeyBundle :: "uuid_lib \<Rightarrow> uuid \<Rightarrow> (UserKeyBundle, db) call" where
  "FetchUserKeyBundle U target = WithTx
     (bindc (rows_of ''list devices'' (devices_of target)) (\<lambda>devices.
      if devices = [] then fail ErrNoDevices
      else bindc (collect_bundles U devices) (\<lambda>bundles.
           ret \<lparr>bu_UserID = target, bu_Devices = bundles\<rparr>)))"

section \<open>Message keys\<close>

text \<open>The Go map from device to key as an association list without duplicates.\<close>

definition copy_message_keys :: "uuid \<Rightarrow> (uuid \<times> string) list \<Rightarrow> (unit, db) call" where
  "copy_message_keys msg keys d =
     (let rows = map (\<lambda>(dev, key). \<lparr>mk_message_id = msg, mk_device_id = dev, mk_encrypted_key = key\<rparr>) keys
      in if \<exists>k \<in> set (t_message_keys (t_direct d)). mk_message_id k = msg \<and> mk_device_id k \<in> fst ` set keys then (Inl unique_violation, d)
         else if msg \<notin> ms_id ` set (t_messages d) \<or> \<not> fst ` set keys \<subseteq> dv_id ` set (t_devices (t_direct d)) then (Inl foreign_key_violation, d)
         else (Inr (), d\<lparr>t_direct := (t_direct d)\<lparr>t_message_keys := t_message_keys (t_direct d) @ rows\<rparr>\<rparr>))"

definition StoreMessageKeys :: "uuid \<Rightarrow> (uuid \<times> string) list \<Rightarrow> (unit, db) call" where
  "StoreMessageKeys msg keys =
     (if keys = [] then ret () else maperr (Wrap ''copy message keys'') (pg_stmt (copy_message_keys msg keys)))"

definition stored_key :: "uuid \<Rightarrow> uuid \<Rightarrow> db \<Rightarrow> string option" where
  "stored_key msg dev d =
     map_option mk_encrypted_key (find (\<lambda>k. mk_message_id k = msg \<and> mk_device_id k = dev) (t_message_keys (t_direct d)))"

definition GetMessageKeyForDevice :: "uuid \<Rightarrow> uuid \<Rightarrow> (string option, db) call" where
  "GetMessageKeyForDevice msg dev = rows_of ''get message key'' (stored_key msg dev)"

definition GetMessageKeysBatch :: "uuid list \<Rightarrow> uuid \<Rightarrow> (uuid \<Rightarrow> string option, db) call" where
  "GetMessageKeysBatch msgs dev =
     (if msgs = [] then ret (\<lambda>_. None)
      else rows_of ''batch get message keys'' (\<lambda>d i. if i \<in> set msgs then stored_key i dev d else None))"

end
