(* ===== verification/Direct_Http.thy ===== *)
theory Direct_Http
  imports Keys Thread_Http
begin

text \<open>
  \<open>internal/api/dm.go\<close>: direct message channels, their participants and their messages. The handler is
  constructed with all its repositories (\<open>cmd/uncord/routes.go\<close>), so the tests of these for \<open>nil\<close> are
  true; the gateway is optional. \<open>Z\<close> formats a time, \<open>newID\<close> and \<open>dbnow\<close> come from the database.
\<close>

section \<open>Access\<close>

definition RequireParticipant :: "uuid_lib \<Rightarrow> request \<Rightarrow> 'r world \<Rightarrow> 'p reaction \<times> 'r world" where
  "RequireParticipant U c = answerh
     (andthen (checkh (UserID c)) (\<lambda>userID.
      andthen (checkh (ParseUUIDParam U c ''channelID'' InvalidChannelID)) (\<lambda>channelID.
      andthen (orfail (\<lambda>_. internal_error) (on_db (IsParticipant channelID userID))) (\<lambda>ok.
      andthen (guardh ok (Fail 403 (Coded ''NotParticipant'') ''You are not a participant of this DM channel'')) (\<lambda>_.
      give Next)))))"

definition mapDMError :: "error \<Rightarrow> 'p reaction" where
  "mapDMError e =
     (if errors_Is e ErrDMNotFound then Fail 404 (Coded ''UnknownDMChannel'') ''DM channel not found''
      else if errors_Is e ErrAlreadyParticipant then Fail 409 (Coded ''AlreadyParticipant'') ''User is already a participant''
      else if errors_Is e ErrNotParticipant then Fail 404 (Coded ''NotParticipant'') ''User is not a participant''
      else if errors_Is e ErrGroupDMFull then Fail 409 (Coded ''GroupDMFull'') ''Group DM is full''
      else if errors_Is e ErrNotOwner then Fail 403 (Coded ''NotDMOwner'') ''Only the group DM owner can perform this action''
      else internal_error)"

section \<open>Channels\<close>

record dmChannelModel =
  dj_ID :: string
  dj_Type :: string
  dj_Name :: "string option"
  dj_OwnerID :: "string option"
  dj_CreatedAt :: string
  dj_UpdatedAt :: string

definition dmChannelToModel :: "uuid_lib \<Rightarrow> (time \<Rightarrow> string) \<Rightarrow> dm_channel_row \<Rightarrow> dmChannelModel" where
  "dmChannelToModel U Z ch =
     \<lparr>dj_ID = uuid_String U (dc_id ch), dj_Type = dc_type ch, dj_Name = dc_name ch,
      dj_OwnerID = map_option (uuid_String U) (dc_owner_id ch), dj_CreatedAt = Z (dc_created_at ch), dj_UpdatedAt = Z (dc_updated_at ch)\<rparr>"

text \<open>Its JSON form, from the tags of the struct; absent pointers are omitted.\<close>

definition dmChannel_json :: "dmChannelModel \<Rightarrow> json" where
  "dmChannel_json m =
     JObj ([(''id'', JStr (dj_ID m)), (''type'', JStr (dj_Type m))]
       @ (case dj_Name m of None \<Rightarrow> [] | Some s \<Rightarrow> [(''name'', JStr s)])
       @ (case dj_OwnerID m of None \<Rightarrow> [] | Some s \<Rightarrow> [(''owner_id'', JStr s)])
       @ [(''created_at'', JStr (dj_CreatedAt m)), (''updated_at'', JStr (dj_UpdatedAt m))])"

record CreateDMChannelBody =
  qd_RecipientID :: string
  qd_Name :: string
  qd_Recipients :: "string list"

definition participantUserIDs :: "participant_row list \<Rightarrow> uuid list" where
  "participantUserIDs = map dp_user_id"

text \<open>The participants to notify; when they cannot be listed the slice is nil.\<close>

definition event_participants :: "uuid \<Rightarrow> ('p, uuid list, 'r world) step" where
  "event_participants ch =
     andthen (attempt (on_db (ListParticipants ch))) (\<lambda>r.
     give (participantUserIDs (case r of Inl _ \<Rightarrow> [] | Inr ps \<Rightarrow> ps)))"

definition create_group_dm ::
  "uuid_lib \<Rightarrow> proto \<Rightarrow> (time \<Rightarrow> string) \<Rightarrow> handler \<Rightarrow> uuid \<Rightarrow> time \<Rightarrow> uuid \<Rightarrow> CreateDMChannelBody
     \<Rightarrow> (dmChannelModel, dmChannelModel reaction, 'r world) step" where
  "create_group_dm U M Z h newID dbnow userID b =
     andthen (guardh (qd_Name b \<noteq> []) (Fail 400 ValidationError ''Group DM requires a name'')) (\<lambda>_.
     andthen (checkh (parse_ids U ''Invalid recipient ID format'' (qd_Recipients b))) (\<lambda>participantIDs.
     andthen (orfail mapDMError (on_db (CreateGroupDM newID dbnow
                \<lparr>gp_OwnerID = userID, gp_Name = qd_Name b, gp_ParticipantIDs = participantIDs\<rparr>))) (\<lambda>ch.
     andthen (event_participants (dc_id ch)) (\<lambda>targets.
     andthen (effect (EnqueueTargeted h (ev M EvDMChannelCreate) (dmChannel_json (dmChannelToModel U Z ch)) targets)) (\<lambda>_.
     give (SuccessStatus 201 (dmChannelToModel U Z ch)))))))"

definition create_direct_dm ::
  "uuid_lib \<Rightarrow> proto \<Rightarrow> (time \<Rightarrow> string) \<Rightarrow> handler \<Rightarrow> uuid \<Rightarrow> time \<Rightarrow> uuid \<Rightarrow> CreateDMChannelBody
     \<Rightarrow> (dmChannelModel, dmChannelModel reaction, 'r world) step" where
  "create_direct_dm U M Z h newID dbnow userID b =
     andthen (checkh (parse_id U ValidationError ''Invalid recipient_id format'' (qd_RecipientID b))) (\<lambda>recipientID.
     andthen (orfail mapDMError (on_db (CreateDM newID dbnow userID recipientID))) (\<lambda>ch.
     andthen (effect (EnqueueTargeted h (ev M EvDMChannelCreate) (dmChannel_json (dmChannelToModel U Z ch)) [userID, recipientID])) (\<lambda>_.
     give (SuccessStatus 201 (dmChannelToModel U Z ch)))))"

definition CreateDMChannel ::
  "uuid_lib \<Rightarrow> proto \<Rightarrow> (time \<Rightarrow> string) \<Rightarrow> handler \<Rightarrow> uuid \<Rightarrow> time \<Rightarrow> request \<Rightarrow> CreateDMChannelBody option
     \<Rightarrow> 'r world \<Rightarrow> dmChannelModel reaction \<times> 'r world" where
  "CreateDMChannel U M Z h newID dbnow c body = answerh
     (andthen (checkh (UserID c)) (\<lambda>userID.
      andthen (bodyh body) (\<lambda>b.
      if qd_Name b \<noteq> [] \<or> qd_Recipients b \<noteq> [] then create_group_dm U M Z h newID dbnow userID b
      else create_direct_dm U M Z h newID dbnow userID b)))"

definition ListDMChannels ::
  "uuid_lib \<Rightarrow> (time \<Rightarrow> string) \<Rightarrow> request \<Rightarrow> 'r world \<Rightarrow> dmChannelModel list reaction \<times> 'r world" where
  "ListDMChannels U Z c = answerh
     (andthen (checkh (UserID c)) (\<lambda>userID.
      andthen (orfail (\<lambda>_. internal_error) (on_db (ListForUser userID))) (\<lambda>channels.
      give (Success (map (dmChannelToModel U Z) channels)))))"

definition GetDMChannel ::
  "uuid_lib \<Rightarrow> (time \<Rightarrow> string) \<Rightarrow> request \<Rightarrow> 'r world \<Rightarrow> dmChannelModel reaction \<times> 'r world" where
  "GetDMChannel U Z c = answerh
     (andthen (checkh (ParseUUIDParam U c ''channelID'' InvalidChannelID)) (\<lambda>channelID.
      andthen (orfail mapDMError (on_db (dm_GetByID channelID))) (\<lambda>ch.
      give (Success (dmChannelToModel U Z ch)))))"

section \<open>Participants\<close>

definition not_dm_owner :: "string \<Rightarrow> 'p reaction" where
  "not_dm_owner what = Fail 403 (Coded ''NotDMOwner'') (''Only the group DM owner can '' @ what @ '' participants'')"

text \<open>The body is the text of \<open>user_id\<close>.\<close>

definition AddParticipant ::
  "uuid_lib \<Rightarrow> time \<Rightarrow> request \<Rightarrow> string option \<Rightarrow> 'r world \<Rightarrow> unit reaction \<times> 'r world" where
  "AddParticipant U dbnow c body = answerh
     (andthen (checkh (UserID c)) (\<lambda>userID.
      andthen (checkh (ParseUUIDParam U c ''channelID'' InvalidChannelID)) (\<lambda>channelID.
      andthen (orfail mapDMError (on_db (dm_GetByID channelID))) (\<lambda>ch.
      andthen (guardh (dc_type ch = TypeGroupDM) (Fail 400 ValidationError ''Cannot add participants to a 1:1 DM'')) (\<lambda>_.
      andthen (guardh (dc_owner_id ch = Some userID) (not_dm_owner ''add'')) (\<lambda>_.
      andthen (bodyh body) (\<lambda>b.
      andthen (checkh (parse_id U ValidationError ''Invalid user_id format'' b)) (\<lambda>targetID.
      andthen (orfail mapDMError (on_db (dm_AddParticipant dbnow channelID targetID))) (\<lambda>_.
      give (SendStatus 204))))))))))"

definition RemoveParticipant :: "uuid_lib \<Rightarrow> request \<Rightarrow> 'r world \<Rightarrow> unit reaction \<times> 'r world" where
  "RemoveParticipant U c = answerh
     (andthen (checkh (UserID c)) (\<lambda>userID.
      andthen (checkh (ParseUUIDParam U c ''channelID'' InvalidChannelID)) (\<lambda>channelID.
      andthen (orfail mapDMError (on_db (dm_GetByID channelID))) (\<lambda>ch.
      andthen (guardh (dc_type ch = TypeGroupDM) (Fail 400 ValidationError ''Cannot remove participants from a 1:1 DM'')) (\<lambda>_.
      andthen (checkh (ParseUUIDParam U c ''userID'' ValidationError)) (\<lambda>targetID.
      andthen (guardh (targetID = userID \<or> dc_owner_id ch = Some userID) (not_dm_owner ''remove'')) (\<lambda>_.
      andthen (orfail mapDMError (on_db (dm_RemoveParticipant channelID targetID))) (\<lambda>_.
      give (SendStatus 204)))))))))"

section \<open>Messages\<close>

text \<open>The model of a message with the key for one device, as the text of \<open>encrypted_key\<close>.\<close>

record KeyedMessageModel = MessageModel +
  mo_MessageKeys :: "string list"

definition dm_message_model :: "uuid_lib \<Rightarrow> (time \<Rightarrow> string) \<Rightarrow> Message \<Rightarrow> MessageModel" where
  "dm_message_model U Z m =
     \<lparr>mo_ID = uuid_String U (ms_id m), mo_ChannelID = uuid_String U (ms_channel_id m),
      mo_Author = \<lparr>mu_ID = uuid_String U (ms_author_id m), mu_Username = mj_AuthorUsername m, mu_DisplayName = mj_AuthorDisplayName m,
                   mu_AvatarKey = mj_AuthorAvatarKey m\<rparr>,
      mo_Content = ms_content m, mo_Attachments = [], mo_Reactions = [],
      mo_ReplyToID = map_option (uuid_String U) (ms_reply_to_id m), mo_ThreadID = None,
      mo_Pinned = ms_pinned m, mo_Encrypted = ms_encrypted m, mo_EditedAt = map_option Z (ms_edited_at m),
      mo_CreatedAt = Z (ms_created_at m)\<rparr>"

definition dmMessageToModel :: "uuid_lib \<Rightarrow> (time \<Rightarrow> string) \<Rightarrow> Message \<Rightarrow> (uuid \<Rightarrow> string option) \<Rightarrow> KeyedMessageModel" where
  "dmMessageToModel U Z m keyMap =
     MessageModel.extend (dm_message_model U Z m)
       (KeyedMessageModel.fields (case keyMap (ms_id m) of None \<Rightarrow> [] | Some key \<Rightarrow> [EncodeRaw key]))"

text \<open>The header \<open>X-Device-ID\<close> is an argument; an absent header is empty.\<close>

definition resolveDeviceRowID :: "uuid_lib \<Rightarrow> request \<Rightarrow> string \<Rightarrow> ('p, uuid option, 'r world) step" where
  "resolveDeviceRowID U c header =
     (if header = [] then give None
      else case uuid_Parse U header of
             None \<Rightarrow> give None
           | Some deviceID \<Rightarrow>
               (case rq_userID c of
                  None \<Rightarrow> give None
                | Some userID \<Rightarrow>
                    andthen (attempt (on_db (GetDeviceByDeviceID userID deviceID))) (\<lambda>r.
                    give (case r of Inl _ \<Rightarrow> None | Inr dev \<Rightarrow> Some (dv_id dev)))))"

text \<open>Keys that cannot be read are logged and left out.\<close>

definition keys_for :: "uuid option \<Rightarrow> uuid list \<Rightarrow> ('p, uuid \<Rightarrow> string option, 'r world) step" where
  "keys_for deviceRowID msgIDs =
     (case deviceRowID of
        None \<Rightarrow> give (\<lambda>_. None)
      | Some dev \<Rightarrow>
          andthen (attempt (on_db (GetMessageKeysBatch msgIDs dev))) (\<lambda>r.
          give (case r of Inl _ \<Rightarrow> (\<lambda>_. None) | Inr keyMap \<Rightarrow> keyMap)))"

definition dm_ListMessages ::
  "uuid_lib \<Rightarrow> (time \<Rightarrow> string) \<Rightarrow> request \<Rightarrow> string \<Rightarrow> 'r world \<Rightarrow> KeyedMessageModel list reaction \<times> 'r world" where
  "dm_ListMessages U Z c deviceHeader = answerh
     (andthen (checkh (ParseUUIDParam U c ''channelID'' InvalidChannelID)) (\<lambda>channelID.
      andthen (checkh (before_query U c)) (\<lambda>before.
      andthen (checkh (ParseIntQuery c ''limit'')) (\<lambda>rawLimit.
      andthen (orfail (\<lambda>_. internal_error) (on_db (message_List channelID before (message_ClampLimit rawLimit)))) (\<lambda>messages.
      andthen (resolveDeviceRowID U c deviceHeader) (\<lambda>deviceRowID.
      andthen (keys_for deviceRowID (map ms_id messages)) (\<lambda>keyMap.
      give (Success (map (\<lambda>m. dmMessageToModel U Z m keyMap) messages)))))))))"

record EncryptedMessageKey =
  qk_DeviceID :: string
  qk_EncryptedKey :: string

record CreateDMMessageRequest =
  qn_Content :: string
  qn_ReplyToID :: "string option"
  qn_MessageKeys :: "EncryptedMessageKey list"

text \<open>A key whose device or text cannot be read is skipped; the last one for a device wins.\<close>

fun message_keys :: "uuid_lib \<Rightarrow> EncryptedMessageKey list \<Rightarrow> (uuid \<times> string) list \<Rightarrow> (uuid \<times> string) list" where
  "message_keys U [] keys = keys"
| "message_keys U (mk # mks) keys =
     (case uuid_Parse U (qk_DeviceID mk) of
        None \<Rightarrow> message_keys U mks keys
      | Some dev \<Rightarrow>
          (case DecodeRaw (qk_EncryptedKey mk) of
             None \<Rightarrow> message_keys U mks keys
           | Some key \<Rightarrow> message_keys U mks (AList.update dev key keys)))"

text \<open>A failure to store the keys is logged.\<close>

definition store_keys :: "uuid_lib \<Rightarrow> uuid \<Rightarrow> EncryptedMessageKey list \<Rightarrow> ('p, unit, 'r world) step" where
  "store_keys U msg mks =
     andthen (attempt (on_db (StoreMessageKeys msg (message_keys U mks [])))) (\<lambda>_. give ())"

definition dispatch_dm_message ::
  "uuid_lib \<Rightarrow> proto \<Rightarrow> (time \<Rightarrow> string) \<Rightarrow> handler \<Rightarrow> uuid \<Rightarrow> Message \<Rightarrow> ('p, unit, 'r world) step" where
  "dispatch_dm_message U M Z h channelID msg =
     (if h_gateway h
      then andthen (event_participants channelID) (\<lambda>targets.
           effect (EnqueueTargeted h (ev M EvDMMessageCreate) (js_Message M (dm_message_model U Z msg)) targets))
      else give ())"

definition SendMessage ::
  "uuid_lib \<Rightarrow> proto \<Rightarrow> (time \<Rightarrow> string) \<Rightarrow> handler \<Rightarrow> int \<Rightarrow> uuid \<Rightarrow> time \<Rightarrow> request \<Rightarrow> CreateDMMessageRequest option
     \<Rightarrow> 'r world \<Rightarrow> KeyedMessageModel reaction \<times> 'r world" where
  "SendMessage U M Z h maxContent newID dbnow c body = answerh
     (andthen (checkh (UserID c)) (\<lambda>userID.
      andthen (checkh (ParseUUIDParam U c ''channelID'' InvalidChannelID)) (\<lambda>channelID.
      andthen (bodyh body) (\<lambda>b.
      andthen (valid mapMessageError (ValidateContent (qn_Content b) maxContent)) (\<lambda>content.
      andthen (checkh (reply_ref U (qn_ReplyToID b))) (\<lambda>replyToID.
      andthen (orfail mapMessageError (on_db (message_Create newID dbnow
                 \<lparr>mc_ChannelID = channelID, mc_AuthorID = userID, mc_Content = content, mc_ReplyToID = replyToID,
                  mc_ThreadID = None, mc_Encrypted = True\<rparr>))) (\<lambda>msg.
      andthen (store_keys U (ms_id msg) (qn_MessageKeys b)) (\<lambda>_.
      andthen (dispatch_dm_message U M Z h channelID msg) (\<lambda>_.
      give (SuccessStatus 201 (dmMessageToModel U Z msg (\<lambda>_. None))))))))))))"

end
