(* ===== verification/Keys_Http.thy ===== *)
theory Keys_Http
  imports Direct_Http
begin

text \<open>\<open>internal/api/e2ee.go\<close>: devices, pre-keys and key bundles.\<close>

record e2ee_handler =
  eh_handler :: handler
  eh_maxDevices :: nat
  eh_opkThreshold :: int

definition mapE2EEError :: "error \<Rightarrow> 'p reaction" where
  "mapE2EEError e =
     (if errors_Is e ErrInvalidKeyLength \<or> errors_Is e ErrInvalidSignature then Fail 400 (Coded ''InvalidKeyMaterial'') (error_text e)
      else if errors_Is e ErrBatchTooLarge then Fail 400 (Coded ''OPKBatchTooLarge'') (error_text e)
      else if errors_Is e ErrDuplicateKeyID \<or> errors_Is e ErrDuplicateDevice then Fail 409 (Coded ''DuplicateKeyID'') (error_text e)
      else if errors_Is e ErrMaxDevicesReached then Fail 409 (Coded ''MaxDevicesReached'') (error_text e)
      else if errors_Is e ErrKeyBundleIncomplete \<or> errors_Is e ErrNoDevices
      then Fail 404 (Coded ''KeyBundleIncomplete'') ''No complete key bundles available''
      else if errors_Is e ErrDeviceNotFound then Fail 404 (Coded ''UnknownDevice'') ''Device not found''
      else internal_error)"

definition deviceToModel :: "uuid_lib \<Rightarrow> (time \<Rightarrow> string) \<Rightarrow> device_row \<Rightarrow> DeviceModel" where
  "deviceToModel U Z d =
     \<lparr>vj_ID = uuid_String U (dv_id d), vj_DeviceID = uuid_String U (dv_device_id d),
      vj_Label = (case dv_label d of None \<Rightarrow> [] | Some s \<Rightarrow> s), vj_IdentityKey = EncodeRaw (dv_identity_key d),
      vj_CreatedAt = Z (dv_created_at d)\<rparr>"

definition bundleToModel :: "uuid_lib \<Rightarrow> UserKeyBundle \<Rightarrow> UserKeyBundleModel" where
  "bundleToModel U b =
     \<lparr>kx_UserID = uuid_String U (bu_UserID b),
      kx_Devices = map (\<lambda>x.
        \<lparr>kb_DeviceID = uuid_String U (dv_device_id (bk_Device x)), kb_IdentityKey = EncodeRaw (dv_identity_key (bk_Device x)),
         kb_SignedPreKeyID = sk_key_id (bk_SignedPreKey x), kb_SignedPreKey = EncodeRaw (sk_public_key (bk_SignedPreKey x)),
         kb_Signature = EncodeRaw (sk_signature (bk_SignedPreKey x)),
         kb_OneTimeKeyID = map_option ok_key_id (bk_OneTimePreKey x),
         kb_OneTimeKey = map_option (\<lambda>k. EncodeRaw (ok_public_key k)) (bk_OneTimePreKey x)\<rparr>) (bu_Devices b)\<rparr>"

text \<open>A field in base64, or the refusal that names it.\<close>

definition decoded :: "string \<Rightarrow> string \<Rightarrow> ('p, string, 's) step" where
  "decoded field s =
     checkh (case DecodeRaw s of
               None \<Rightarrow> Inl (Fail 400 (Coded ''InvalidKeyMaterial'') (''Invalid base64 encoding for '' @ field))
             | Some bs \<Rightarrow> Inr bs)"

definition notifyIdentityKeyChanged ::
  "uuid_lib \<Rightarrow> proto \<Rightarrow> handler \<Rightarrow> uuid \<Rightarrow> uuid \<Rightarrow> string \<Rightarrow> ('p, unit, 'r world) step" where
  "notifyIdentityKeyChanged U M h userID deviceID identityKey =
     (if h_gateway h
      then andthen (attempt (on_db (ListDMPeers userID))) (\<lambda>r.
           case r of
             Inl _ \<Rightarrow> give ()
           | Inr peers \<Rightarrow>
               if peers = [] then give ()
               else effect (EnqueueTargeted h (ev M EvIdentityKeyChanged)
                      (js_IdentityKeyChanged M \<lparr>ik_UserID = uuid_String U userID, ik_DeviceID = uuid_String U deviceID,
                         ik_IdentityKey = EncodeRaw identityKey\<rparr>) peers))
      else give ())"

section \<open>Devices\<close>

record RegisterDeviceRequest =
  qe_DeviceID :: string
  qe_Label :: string
  qe_IdentityKey :: string

definition RegisterDevice ::
  "uuid_lib \<Rightarrow> proto \<Rightarrow> (time \<Rightarrow> string) \<Rightarrow> e2ee_handler \<Rightarrow> uuid \<Rightarrow> time \<Rightarrow> request \<Rightarrow> RegisterDeviceRequest option
     \<Rightarrow> 'r world \<Rightarrow> DeviceModel reaction \<times> 'r world" where
  "RegisterDevice U M Z eh newID dbnow c body = answerh
     (andthen (checkh (UserID c)) (\<lambda>userID.
      andthen (bodyh body) (\<lambda>b.
      andthen (checkh (parse_id U ValidationError ''Invalid device_id format'' (qe_DeviceID b))) (\<lambda>deviceID.
      andthen (decoded ''identity_key'' (qe_IdentityKey b)) (\<lambda>identityKey.
      andthen (valid mapE2EEError (ValidatePublicKey identityKey)) (\<lambda>_.
      andthen (orfail mapE2EEError (on_db (e2ee_RegisterDevice (eh_maxDevices eh) newID dbnow
                 \<lparr>dq_UserID = userID, dq_DeviceID = deviceID, dq_Label = (if qe_Label b = [] then None else Some (qe_Label b)),
                  dq_IdentityKey = identityKey\<rparr>))) (\<lambda>dev.
      andthen (notifyIdentityKeyChanged U M (eh_handler eh) userID deviceID identityKey) (\<lambda>_.
      give (SuccessStatus 201 (deviceToModel U Z dev))))))))))"

definition ListDevices ::
  "uuid_lib \<Rightarrow> (time \<Rightarrow> string) \<Rightarrow> request \<Rightarrow> 'r world \<Rightarrow> DeviceModel list reaction \<times> 'r world" where
  "ListDevices U Z c = answerh
     (andthen (checkh (UserID c)) (\<lambda>userID.
      andthen (orfail (\<lambda>_. internal_error) (on_db (e2ee_ListDevices userID))) (\<lambda>devices.
      give (Success (map (deviceToModel U Z) devices)))))"

text \<open>The caller and the device of the route.\<close>

definition own_device :: "uuid_lib \<Rightarrow> request \<Rightarrow> ('p, uuid \<times> uuid, 's) step" where
  "own_device U c =
     andthen (checkh (UserID c)) (\<lambda>userID.
     andthen (checkh (ParseUUIDParam U c ''deviceID'' ValidationError)) (\<lambda>deviceID.
     give (userID, deviceID)))"

definition RemoveDevice :: "uuid_lib \<Rightarrow> request \<Rightarrow> 'r world \<Rightarrow> unit reaction \<times> 'r world" where
  "RemoveDevice U c = answerh
     (andthen (own_device U c) (\<lambda>(userID, deviceID).
      andthen (orfail mapE2EEError (on_db (GetDeviceByDeviceID userID deviceID))) (\<lambda>dev.
      andthen (orfail mapE2EEError (on_db (e2ee_RemoveDevice (dv_id dev)))) (\<lambda>_.
      give (SendStatus 204)))))"

text \<open>The body is the text of \<open>identity_key\<close>.\<close>

definition UpdateIdentityKey ::
  "uuid_lib \<Rightarrow> proto \<Rightarrow> e2ee_handler \<Rightarrow> time \<Rightarrow> request \<Rightarrow> string option \<Rightarrow> 'r world \<Rightarrow> unit reaction \<times> 'r world" where
  "UpdateIdentityKey U M eh dbnow c body = answerh
     (andthen (own_device U c) (\<lambda>(userID, deviceID).
      andthen (bodyh body) (\<lambda>b.
      andthen (decoded ''identity_key'' b) (\<lambda>identityKey.
      andthen (valid mapE2EEError (ValidatePublicKey identityKey)) (\<lambda>_.
      andthen (orfail mapE2EEError (on_db (GetDeviceByDeviceID userID deviceID))) (\<lambda>dev.
      andthen (orfail mapE2EEError (on_db (e2ee_UpdateIdentityKey dbnow (dv_id dev) identityKey))) (\<lambda>_.
      andthen (notifyIdentityKeyChanged U M (eh_handler eh) userID deviceID identityKey) (\<lambda>_.
      give (SendStatus 204)))))))))"

section \<open>Pre-keys\<close>

record UploadSignedPreKeyRequest =
  qs_KeyID :: int
  qs_PublicKey :: string
  qs_Signature :: string

definition UploadSignedPreKey ::
  "uuid_lib \<Rightarrow> uuid \<Rightarrow> time \<Rightarrow> request \<Rightarrow> UploadSignedPreKeyRequest option \<Rightarrow> 'r world \<Rightarrow> unit reaction \<times> 'r world" where
  "UploadSignedPreKey U newID dbnow c body = answerh
     (andthen (own_device U c) (\<lambda>(userID, deviceID).
      andthen (bodyh body) (\<lambda>b.
      andthen (decoded ''public_key'' (qs_PublicKey b)) (\<lambda>publicKey.
      andthen (valid mapE2EEError (ValidatePublicKey publicKey)) (\<lambda>_.
      andthen (decoded ''signature'' (qs_Signature b)) (\<lambda>signature.
      andthen (valid mapE2EEError (ValidateSignature signature)) (\<lambda>_.
      andthen (orfail mapE2EEError (on_db (GetDeviceByDeviceID userID deviceID))) (\<lambda>dev.
      andthen (orfail mapE2EEError (on_db (e2ee_UploadSignedPreKey newID dbnow
                 \<lparr>us_DeviceRowID = dv_id dev, us_KeyID = qs_KeyID b, us_PublicKey = publicKey, us_Signature = signature\<rparr>))) (\<lambda>_.
      give (SendStatus 204))))))))))"

text \<open>The keys of a batch: their identifiers and their text in base64.\<close>

fun decode_batch :: "(int \<times> string) list \<Rightarrow> UploadOPKParams list option" where
  "decode_batch [] = Some []"
| "decode_batch ((i, s) # ks) =
     (case DecodeRaw s of
        None \<Rightarrow> None
      | Some key \<Rightarrow> map_option ((#) \<lparr>uk_KeyID = i, uk_PublicKey = key\<rparr>) (decode_batch ks))"

definition UploadOneTimePreKeys ::
  "uuid_lib \<Rightarrow> (nat \<Rightarrow> uuid) \<Rightarrow> time \<Rightarrow> request \<Rightarrow> (int \<times> string) list option \<Rightarrow> 'r world \<Rightarrow> unit reaction \<times> 'r world" where
  "UploadOneTimePreKeys U ids dbnow c body = answerh
     (andthen (own_device U c) (\<lambda>(userID, deviceID).
      andthen (bodyh body) (\<lambda>preKeys.
      andthen (checkh (case decode_batch preKeys of
                 None \<Rightarrow> Inl (Fail 400 (Coded ''InvalidKeyMaterial'') ''Invalid base64 encoding for pre_key public_key'')
               | Some ks \<Rightarrow> Inr ks)) (\<lambda>keys.
      andthen (valid mapE2EEError (ValidateOPKBatch keys MaxOPKBatch)) (\<lambda>_.
      andthen (orfail mapE2EEError (on_db (GetDeviceByDeviceID userID deviceID))) (\<lambda>dev.
      andthen (orfail mapE2EEError (on_db (e2ee_UploadOneTimePreKeys ids dbnow (dv_id dev) keys))) (\<lambda>_.
      give (SendStatus 204))))))))"

text \<open>The response holds the number.\<close>

definition GetKeyCount :: "uuid_lib \<Rightarrow> request \<Rightarrow> 'r world \<Rightarrow> nat reaction \<times> 'r world" where
  "GetKeyCount U c = answerh
     (andthen (own_device U c) (\<lambda>(userID, deviceID).
      andthen (orfail mapE2EEError (on_db (GetDeviceByDeviceID userID deviceID))) (\<lambda>dev.
      andthen (orfail (\<lambda>_. internal_error) (on_db (CountOneTimePreKeys (dv_id dev)))) (\<lambda>count.
      give (Success count)))))"

section \<open>Bundles\<close>

text \<open>A count that fails is logged and the device passed over.\<close>

fun low_keys ::
  "uuid_lib \<Rightarrow> proto \<Rightarrow> e2ee_handler \<Rightarrow> uuid \<Rightarrow> DeviceKeyBundle list \<Rightarrow> ('p, unit, 'r world) step" where
  "low_keys U M eh target [] = give ()"
| "low_keys U M eh target (b # bs) =
     andthen (attempt (on_db (CountOneTimePreKeys (dv_id (bk_Device b))))) (\<lambda>r.
     andthen (case r of
                Inl _ \<Rightarrow> give ()
              | Inr n \<Rightarrow>
                  if int n \<le> eh_opkThreshold eh
                  then effect (EnqueueTargeted (eh_handler eh) (ev M EvKeyBundleLow)
                         (js_KeyBundleLow M \<lparr>kl_DeviceID = uuid_String U (dv_device_id (bk_Device b)), kl_Remaining = int n\<rparr>) [target])
                  else give ()) (\<lambda>_.
     low_keys U M eh target bs))"

definition FetchKeyBundle ::
  "uuid_lib \<Rightarrow> proto \<Rightarrow> e2ee_handler \<Rightarrow> request \<Rightarrow> 'r world \<Rightarrow> UserKeyBundleModel reaction \<times> 'r world" where
  "FetchKeyBundle U M eh c = answerh
     (andthen (checkh (ParseUUIDParam U c ''userID'' ValidationError)) (\<lambda>target.
      andthen (orfail mapE2EEError (on_db (FetchUserKeyBundle U target))) (\<lambda>bundle.
      andthen (if h_gateway (eh_handler eh) then low_keys U M eh target (bu_Devices bundle) else give ()) (\<lambda>_.
      give (Success (bundleToModel U bundle))))))"

end
