(* ===== verification/Direct_Laws.thy ===== *)
theory Direct_Laws
  imports Keys_Http
begin

text \<open>
  Who takes part in a group for direct messages: exactly the caller and the recipients of the request
  that created it, who are also the only ones the routes of the channel let through.
\<close>

section \<open>Rows of a new group\<close>

lemma pure_insert_participant: "pure_stmt (insert_participant now ch u)"
  by (auto simp: pure_stmt_def insert_participant_def takes_part_def)

lemma insert_participant_ok:
  assumes "pg_stmt (insert_participant now ch u) d = (Inr (), d')"
  shows "t_direct d' = (t_direct d)\<lparr>t_dm_participants := t_dm_participants (t_direct d)
      @ [\<lparr>dp_dm_channel_id = ch, dp_user_id = u, dp_joined_at = now\<rparr>]\<rparr>"
proof -
  from pg_stmt_success [OF assms pure_insert_participant]
  have s: "fst (insert_participant now ch u d) = Inr ()" and t: "t_direct d' = t_direct (snd (insert_participant now ch u d))"
    using tables_fields(24) by blast+
  from s show ?thesis unfolding t by (auto simp: insert_participant_def split: if_splits)
qed

lemma insert_participants_ok:
  assumes "insert_participants now ch us d = (Inr (), d')"
  shows "t_dm_channels (t_direct d') = t_dm_channels (t_direct d)"
    and "takes_part c u d' \<longleftrightarrow> takes_part c u d \<or> c = ch \<and> u \<in> set us"
proof -
  have "t_dm_channels (t_direct d') = t_dm_channels (t_direct d) \<and> (takes_part c u d' \<longleftrightarrow> takes_part c u d \<or> c = ch \<and> u \<in> set us)"
    using assms
  proof (induction us arbitrary: d)
    case (Cons x us)
    from Cons.prems obtain d1 where x: "pg_stmt (insert_participant now ch x) d = (Inr (), d1)"
      and r: "insert_participants now ch us d1 = (Inr (), d')"
      by (auto elim!: bindc_ok)
    show ?case using Cons.IH [OF r] insert_participant_ok [OF x] by (auto simp: takes_part_def)
  qed (simp add: ret_def)
  then show "t_dm_channels (t_direct d') = t_dm_channels (t_direct d)"
    "takes_part c u d' \<longleftrightarrow> takes_part c u d \<or> c = ch \<and> u \<in> set us" by blast+
qed

lemma insert_dm_channel_ok:
  assumes "pg_stmt (insert_dm_channel newID now typ name owner) d = (Inr ch, d')"
  shows "ch = \<lparr>dc_id = newID, dc_type = typ, dc_name = name, dc_owner_id = owner, dc_created_at = now, dc_updated_at = now\<rparr>"
    and "newID \<notin> dc_id ` set (t_dm_channels (t_direct d))"
    and "t_direct d' = (t_direct d)\<lparr>t_dm_channels := t_dm_channels (t_direct d) @ [ch]\<rparr>"
proof -
  have "pure_stmt (insert_dm_channel newID now typ name owner)" by (auto simp: pure_stmt_def insert_dm_channel_def Let_def)
  from pg_stmt_success [OF assms this]
  have s: "fst (insert_dm_channel newID now typ name owner d) = Inr ch"
    and t: "t_direct d' = t_direct (snd (insert_dm_channel newID now typ name owner d))"
    using tables_fields(24) by blast+
  from s show "ch = \<lparr>dc_id = newID, dc_type = typ, dc_name = name, dc_owner_id = owner, dc_created_at = now, dc_updated_at = now\<rparr>"
    "newID \<notin> dc_id ` set (t_dm_channels (t_direct d))"
    "t_direct d' = (t_direct d)\<lparr>t_dm_channels := t_dm_channels (t_direct d) @ [ch]\<rparr>"
    unfolding t by (auto simp: insert_dm_channel_def Let_def split: if_splits)
qed

lemma unique_from_ok: "set (unique_from S xs) = set xs - S \<and> distinct (unique_from S xs)"
  by (induction S xs rule: unique_from.induct) auto

lemma uniqueUUIDs_ok [simp]: "set (uniqueUUIDs xs) = set xs" "length (uniqueUUIDs xs) = card (set xs)"
  using unique_from_ok [of "{}" xs] distinct_card [of "unique_from {} xs"] by (simp_all add: uniqueUUIDs_def)

lemma takes_part_tables: "t_direct d = t_direct d' \<Longrightarrow> takes_part c u d \<longleftrightarrow> takes_part c u d'"
  by (simp add: takes_part_def)

lemma CreateGroupDM_ok:
  assumes "CreateGroupDM newID now p d = (Inr ch, d')"
  shows "ch = \<lparr>dc_id = newID, dc_type = TypeGroupDM, dc_name = Some (gp_Name p), dc_owner_id = Some (gp_OwnerID p),
               dc_created_at = now, dc_updated_at = now\<rparr>"
    and "newID \<notin> dc_id ` set (t_dm_channels (t_direct d))"
    and "t_dm_channels (t_direct d') = t_dm_channels (t_direct d) @ [ch]"
    and "takes_part c u d' \<longleftrightarrow> takes_part c u d \<or> c = newID \<and> u \<in> insert (gp_OwnerID p) (set (gp_ParticipantIDs p))"
    and "card (insert (gp_OwnerID p) (set (gp_ParticipantIDs p))) \<le> MaxGroupDMParticipants"
proof -
  let ?us = "uniqueUUIDs (gp_ParticipantIDs p @ [gp_OwnerID p])"
  from assms have n: "card (insert (gp_OwnerID p) (set (gp_ParticipantIDs p))) \<le> MaxGroupDMParticipants"
    and w: "WithTx (create_group_tx newID now p ?us) d = (Inr ch, d')"
    by (auto simp: CreateGroupDM_def Let_def fail_def split: if_splits)
  from w obtain d1 d2 where d1: "tables d1 = tables d" and tx: "create_group_tx newID now p ?us d1 = (Inr ch, d2)"
    and d2: "tables d' = tables d2"
    by (cases rule: WithTx_cases) auto
  from tx obtain d3 where i: "pg_stmt (insert_dm_channel newID now TypeGroupDM (Some (gp_Name p)) (Some (gp_OwnerID p))) d1 = (Inr ch, d3)"
    and ps: "insert_participants now (dc_id ch) ?us d3 = (Inr (), d2)"
    unfolding create_group_tx_def by (auto elim!: bindc_ok simp: ret_def)
  note i = insert_dm_channel_ok [OF i]
  note ps = insert_participants_ok [OF ps]
  note same = tables_fields(24) [OF d1] tables_fields(24) [OF d2]
  show "ch = \<lparr>dc_id = newID, dc_type = TypeGroupDM, dc_name = Some (gp_Name p), dc_owner_id = Some (gp_OwnerID p),
               dc_created_at = now, dc_updated_at = now\<rparr>" by (rule i(1))
  then have id: "dc_id ch = newID" by simp
  show "newID \<notin> dc_id ` set (t_dm_channels (t_direct d))" using i(2) same by simp
  show "t_dm_channels (t_direct d') = t_dm_channels (t_direct d) @ [ch]" using i(3) ps(1) same by simp
  have "takes_part c u d3 \<longleftrightarrow> takes_part c u d" using i(3) same by (simp add: takes_part_def)
  then show "takes_part c u d' \<longleftrightarrow> takes_part c u d \<or> c = newID \<and> u \<in> insert (gp_OwnerID p) (set (gp_ParticipantIDs p))"
    using ps(2) [of c u] takes_part_tables [OF same(2)] by (auto simp: id)
  show "card (insert (gp_OwnerID p) (set (gp_ParticipantIDs p))) \<le> MaxGroupDMParticipants" by (rule n)
qed

section \<open>The requests\<close>

lemma parse_ids_ok: "parse_ids U msg ss = Inr is \<Longrightarrow> map (uuid_Parse U) ss = map Some is"
  by (induction ss arbitrary: "is") (auto split: option.splits sum.splits)

lemma parse_ids_refuses: "parse_ids U msg ss = Inl rx \<Longrightarrow> rx = Fail 400 ValidationError msg"
  by (induction ss) (auto split: option.splits sum.splits)

lemma participants_set: "set (participantUserIDs (participants_of ch d)) = {u. takes_part ch u d}"
  by (auto simp: participantUserIDs_def participants_of_def takes_part_def)

lemma RequireParticipant_Next:
  assumes "RequireParticipant U c w = (Next, w')" and "uuid_Parse U (rq_params c ''channelID'') = Some ch"
  shows "\<exists>u. rq_userID c = Some u \<and> takes_part ch u (w_db w)"
proof -
  obtain u where u: "rq_userID c = Some u"
    using assms(1) by (auto simp: RequireParticipant_def answerh_def andthen_def checkh_def UserID_def split: option.splits)
  obtain b w1 where q: "on_db (IsParticipant ch u) w = (b, w1)" by fastforce
  have "b = Inr True"
    using assms u q
    by (auto simp: RequireParticipant_def answerh_def andthen_def checkh_def UserID_def ParseUUIDParam_def orfail_def guardh_def
        stop_def internal_error_def split: sum.splits if_splits)
  with on_dbD [OF q] have "IsParticipant ch u (w_db w) = (Inr True, w_db w1)" by simp
  then have "takes_part ch u (w_db w)"
    unfolding IsParticipant_def by (auto dest!: rows_of_ok simp: takes_part_def)
  with u show ?thesis by blast
qed

lemma refuses_create [refusing]:
  "refuses (create_group_dm U M Z h newID dbnow me b)" "refuses (create_direct_dm U M Z h newID dbnow me b)"
  unfolding create_group_dm_def create_direct_dm_def event_participants_def
  by (intro refusing; auto simp: mapDMError_def internal_error_def parse_id_def split: option.splits dest!: parse_ids_refuses)+

lemma event_participants_ok:
  assumes "event_participants ch w = (Inr targets, w')"
  shows "tables (w_db w') = tables (w_db w)
    \<and> (set targets = {u. takes_part ch u (w_db w)} \<or> targets = [] \<and> (\<exists>e. ListParticipants ch (w_db w) = (Inl e, w_db w')))"
proof -
  obtain r w1 where r: "on_db (ListParticipants ch) w = (r, w1)" by fastforce
  from assms r have t: "targets = participantUserIDs (case r of Inl _ \<Rightarrow> [] | Inr ps \<Rightarrow> ps)" "w' = w1"
    by (auto simp: event_participants_def andthen_def attempt_def give_def)
  from on_dbD [OF r] have l: "ListParticipants ch (w_db w) = (r, w_db w1)" by simp
  then have "tables (w_db w1) = tables (w_db w)" unfolding ListParticipants_def by (rule rows_of_tables)
  moreover have "set targets = {u. takes_part ch u (w_db w)}" if "r = Inr ps" for ps
  proof -
    have "ps = participants_of ch (w_db w)"
      using rows_of_ok [OF l [unfolded that ListParticipants_def]] by (simp add: participants_of_def)
    with that t(1) participants_set show ?thesis by simp
  qed
  ultimately show ?thesis using t l by (cases r) (auto simp: participantUserIDs_def)
qed

section \<open>Properties\<close>


definition dm_request :: "uuid \<Rightarrow> request" where
  "dm_request u = \<lparr>rq_params = (\<lambda>_. uuid_String ref_uuid 90), rq_query = (\<lambda>_. []), rq_userID = Some u\<rparr>"

definition group_body :: CreateDMChannelBody where
  "group_body = \<lparr>qd_RecipientID = [], qd_Name = ''raid'', qd_Recipients = [uuid_String ref_uuid 1, uuid_String ref_uuid 3]\<rparr>"

text \<open>User 2 creates a group with 1 and 3.\<close>

definition grouped :: "outcome list \<Rightarrow> dmChannelModel reaction \<times> vstore world" where
  "grouped os = CreateDMChannel ref_uuid ref_proto (\<lambda>_. []) sample_handler 90 5 (dm_request 2) (Some group_body)
     (sample_world\<lparr>w_db := sample_db\<lparr>pg_outcomes := os\<rparr>\<rparr>)"

lemmas group_eval = grouped_def CreateDMChannel_def create_group_dm_def answerh_def andthen_def checkh_def bodyh_def guardh_def orfail_def
  attempt_def effect_def give_def UserID_def dm_request_def group_body_def CreateGroupDM_def create_group_tx_def uniqueUUIDs_def
  MaxGroupDMParticipants_def WithTx_def insert_dm_channel_def insert_participant_def takes_part_def bindc_def maperr_def ret_def
  event_participants_def ListParticipants_def rows_of_def EnqueueTargeted_def on_db_def SuccessStatus_def no_direct_def
  pg_query_def pg_stmt_def Let_def

lemma grouped_created: "\<exists>resp. fst (grouped []) = Respond resp \<and> rs_status resp = 201"
  by (simp add: group_eval sample_defs)

lemma grouped_unlisted:
  "map jb_targets (p_queue (w_pub (snd (grouped (replicate 6 Done @ [NotRun]))))) = [[]]"
  by (simp add: group_eval sample_defs numeral_eq_Suc enqueue_def select_send_def NewPublisher_def participantUserIDs_def)


end
