(* ===== verification/Settings_Sync.thy ===== *)
theory Settings_Sync
  imports Keys Message_Http
begin

text \<open>
  \<open>internal/settingsync\<close> and \<open>internal/api/settingsync.go\<close>: an encrypted blob of settings per user with a
  version that has to grow.
\<close>

section \<open>Validation\<close>

definition settings_ErrNotFound :: error where "settings_ErrNotFound = Sentinel ''settingsync.ErrNotFound''"
definition ErrVersionConflict :: error where "ErrVersionConflict = Sentinel ''settingsync.ErrVersionConflict''"
definition ErrSaltLength :: error where "ErrSaltLength = Sentinel ''settingsync.ErrSaltLength''"
definition ErrNonceLength :: error where "ErrNonceLength = Sentinel ''settingsync.ErrNonceLength''"
definition ErrBlobTooLarge :: error where "ErrBlobTooLarge = Sentinel ''settingsync.ErrBlobTooLarge''"
definition ErrBlobEmpty :: error where "ErrBlobEmpty = Sentinel ''settingsync.ErrBlobEmpty''"
definition ErrVersionInvalid :: error where "ErrVersionInvalid = Sentinel ''settingsync.ErrVersionInvalid''"

lemmas settings_errors = settings_ErrNotFound_def ErrVersionConflict_def ErrSaltLength_def ErrNonceLength_def ErrBlobTooLarge_def
  ErrBlobEmpty_def ErrVersionInvalid_def

definition MaxBlobSize :: nat where "MaxBlobSize = 65536"

record UpsertParams =
  ub_EncryptedBlob :: string
  ub_Salt :: string
  ub_Nonce :: string
  ub_BlobVersion :: int

definition ValidateUpsertParams :: "UpsertParams \<Rightarrow> unit result" where
  "ValidateUpsertParams p =
     (if ub_EncryptedBlob p = [] then Inl ErrBlobEmpty
      else if length (ub_EncryptedBlob p) > MaxBlobSize then Inl ErrBlobTooLarge
      else if length (ub_Salt p) \<noteq> 16 then Inl ErrSaltLength
      else if length (ub_Nonce p) \<noteq> 12 then Inl ErrNonceLength
      else if ub_BlobVersion p < 1 then Inl ErrVersionInvalid
      else Inr ())"

section \<open>The repository\<close>

definition find_settings :: "uuid \<Rightarrow> db \<Rightarrow> settings_row option" where
  "find_settings u d = find (\<lambda>y. sy_user_id y = u) (t_synced_settings (t_direct d))"

definition scanBlob :: "(settings_row option, db) call \<Rightarrow> (settings_row, db) call" where
  "scanBlob = scan_one ''scan synced settings blob''"

definition settings_Get :: "uuid \<Rightarrow> (settings_row, db) call" where
  "settings_Get u = or_missing settings_ErrNotFound ''query synced settings'' (scanBlob (pg_query (find_settings u)))"

text \<open>
  \<open>INSERT ... ON CONFLICT (user_id) DO UPDATE ... WHERE EXCLUDED.blob_version > ... RETURNING\<close>: no row is
  returned when the stored version is not smaller.
\<close>

definition upsert_settings :: "time \<Rightarrow> uuid \<Rightarrow> UpsertParams \<Rightarrow> (settings_row option, db) call" where
  "upsert_settings now u p d =
     (let row = \<lparr>sy_user_id = u, sy_encrypted_blob = ub_EncryptedBlob p, sy_salt = ub_Salt p, sy_nonce = ub_Nonce p,
                 sy_blob_version = ub_BlobVersion p, sy_updated_at = now\<rparr>;
          stored = t_synced_settings (t_direct d)
      in if \<not> fits_int4 (Some (ub_BlobVersion p)) then (Inl (Ext ''cannot encode into int4''), d)
         else if length (ub_Salt p) \<noteq> 16 \<or> length (ub_Nonce p) \<noteq> 12 \<or> length (ub_EncryptedBlob p) > 65536 then (Inl check_violation, d)
         else case find_settings u d of
                Some old \<Rightarrow>
                  if ub_BlobVersion p > sy_blob_version old
                  then (Inr (Some row),
                        d\<lparr>t_direct := (t_direct d)\<lparr>t_synced_settings := updated_rows (\<lambda>y. sy_user_id y = u) (\<lambda>_. row) stored\<rparr>\<rparr>)
                  else (Inr None, d)
              | None \<Rightarrow>
                  if u \<notin> u_id ` set (t_users d) then (Inl foreign_key_violation, d)
                  else (Inr (Some row), d\<lparr>t_direct := (t_direct d)\<lparr>t_synced_settings := stored @ [row]\<rparr>\<rparr>))"

definition settings_Upsert :: "time \<Rightarrow> uuid \<Rightarrow> UpsertParams \<Rightarrow> (settings_row, db) call" where
  "settings_Upsert now u p =
     or_missing ErrVersionConflict ''upsert synced settings'' (scanBlob (pg_stmt (upsert_settings now u p)))"

definition delete_settings :: "uuid \<Rightarrow> (nat, db) call" where
  "delete_settings u d =
     (let stored = t_synced_settings (t_direct d)
      in (Inr (length (filter (\<lambda>y. sy_user_id y = u) stored)),
          d\<lparr>t_direct := (t_direct d)\<lparr>t_synced_settings := filter (\<lambda>y. sy_user_id y \<noteq> u) stored\<rparr>\<rparr>))"

definition settings_Delete :: "uuid \<Rightarrow> (unit, db) call" where
  "settings_Delete u = affecting settings_ErrNotFound ''delete synced settings'' (delete_settings u)"

section \<open>The endpoints\<close>

definition mapSettingSyncError :: "error \<Rightarrow> 'p reaction" where
  "mapSettingSyncError e =
     (if errors_Is e settings_ErrNotFound then Fail 404 (Coded ''SyncedSettingsNotFound'') ''No synced settings stored''
      else if errors_Is e ErrVersionConflict
      then Fail 409 (Coded ''SyncedSettingsVersionConflict'') ''blob version must be higher than the current stored version''
      else if errors_Is e ErrSaltLength then Fail 400 ValidationError ''salt must be exactly 16 bytes''
      else if errors_Is e ErrNonceLength then Fail 400 ValidationError ''nonce must be exactly 12 bytes''
      else if errors_Is e ErrBlobTooLarge then Fail 400 (Coded ''PayloadTooLarge'') ''encrypted blob must not exceed 65536 bytes''
      else if errors_Is e ErrBlobEmpty then Fail 400 ValidationError ''encrypted blob must not be empty''
      else if errors_Is e ErrVersionInvalid then Fail 400 ValidationError ''blob version must be at least 1''
      else internal_error)"

definition GetSettings :: "(time \<Rightarrow> string) \<Rightarrow> request \<Rightarrow> 'r world \<Rightarrow> SyncedSettingsModel reaction \<times> 'r world" where
  "GetSettings Z c = answerh
     (andthen (checkh (UserID c)) (\<lambda>userID.
      andthen (orfail mapSettingSyncError (on_db (settings_Get userID))) (\<lambda>blob.
      give (Success
        \<lparr>zs_EncryptedBlob = EncodeStd (sy_encrypted_blob blob), zs_Salt = EncodeStd (sy_salt blob), zs_Nonce = EncodeStd (sy_nonce blob),
         zs_BlobVersion = sy_blob_version blob, zs_UpdatedAt = Z (sy_updated_at blob)\<rparr>))))"

record PutSyncedSettingsRequest =
  qp_EncryptedBlob :: string
  qp_Salt :: string
  qp_Nonce :: string
  qp_BlobVersion :: int

definition std_decoded :: "string \<Rightarrow> string \<Rightarrow> ('p, string, 's) step" where
  "std_decoded field s =
     checkh (case DecodeStd s of
               None \<Rightarrow> Inl (Fail 400 ValidationError (''Invalid base64 in '' @ field))
             | Some bs \<Rightarrow> Inr bs)"

text \<open>The response holds the version and the time of the update.\<close>

definition PutSettings ::
  "(time \<Rightarrow> string) \<Rightarrow> time \<Rightarrow> request \<Rightarrow> PutSyncedSettingsRequest option \<Rightarrow> 'r world \<Rightarrow> (int \<times> string) reaction \<times> 'r world" where
  "PutSettings Z dbnow c body = answerh
     (andthen (checkh (UserID c)) (\<lambda>userID.
      andthen (bodyh body) (\<lambda>b.
      andthen (std_decoded ''encrypted_blob'' (qp_EncryptedBlob b)) (\<lambda>encryptedBlob.
      andthen (std_decoded ''salt'' (qp_Salt b)) (\<lambda>salt.
      andthen (std_decoded ''nonce'' (qp_Nonce b)) (\<lambda>nonce.
      let params = \<lparr>ub_EncryptedBlob = encryptedBlob, ub_Salt = salt, ub_Nonce = nonce, ub_BlobVersion = qp_BlobVersion b\<rparr>
      in andthen (valid mapSettingSyncError (ValidateUpsertParams params)) (\<lambda>_.
         andthen (orfail mapSettingSyncError (on_db (settings_Upsert dbnow userID params))) (\<lambda>blob.
         give (Success (sy_blob_version blob, Z (sy_updated_at blob)))))))))))"

definition DeleteSettings :: "request \<Rightarrow> 'r world \<Rightarrow> unit reaction \<times> 'r world" where
  "DeleteSettings c = answerh
     (andthen (checkh (UserID c)) (\<lambda>userID.
      andthen (orfail mapSettingSyncError (on_db (settings_Delete userID))) (\<lambda>_.
      give (SendStatus 204))))"

end
