(* ===== verification/Spec2Isabelle.thy ===== *)
theory Spec2Isabelle
  imports Gateway_Dispatch Member_Http_Laws Auth_Http_Laws Thread_Http Joining_Laws Message_Laws Reaction_Laws
    Direct_Laws Settings_Sync
begin

text \<open>
  A verification development for \<open>uncord-server\<close>, a self-hosted chat server.

  \<^bold>\<open>The program.\<close> Handlers under \<open>internal/api\<close> answer HTTP requests: they validate input, call a repository
  over PostgreSQL, start an audit goroutine, queue a gateway event and publish a cache
  invalidation over Valkey. \<open>internal/permission\<close> computes what a user may do, with a cache in Valkey
  that subscribers clear when an invalidation arrives. \<open>internal/gateway\<close> keeps WebSocket
  connections and distributes events to the users who may see them. \<open>internal/auth\<close> issues the tokens
  both rely on. \<open>World\<close> is the state one process works on: tables, Valkey, publisher queue, audit goroutines
  that were started. The theorems quantify over the fate of every database statement (run, not
  run, or run with its reply lost) and of every Valkey command.

  \<^bold>\<open>Shared theories.\<close> \<open>Prelude\<close> holds results, errors with wrapping, JSON, integers as text and list
  lemmas; \<open>Keyset\<close> the laws of keyset pagination; \<open>Go_Strings\<close> UTF-8 decoding, \<open>utf8.RuneCountInString\<close> and
  \<open>strings.TrimSpace\<close>; \<open>Extern\<close> the parameters for code outside the repository with the locales \<open>perm_bits\<close>
  and \<open>uuid_text\<close> stating what is relied on; \<open>Protocol\<close> the models of the protocol package; \<open>Valkey\<close> the server's
  commands with the locale \<open>valkey_service\<close> and an in-memory instance; \<open>Database\<close> the tables of
  \<open>001_initial_schema.sql\<close>, \<open>pg_stmt\<close>, \<open>pg_query\<close> and \<open>WithTx\<close> of \<open>internal/postgres\<close>; \<open>Sample\<close> a small server for
  concrete runs.

  \<^bold>\<open>Permissions.\<close> \<open>Permission_Store\<close> (\<open>store.go\<close>, \<open>pg_store.go\<close>; locale \<open>perm_store\<close>), \<open>Permission_Cache\<close> (\<open>cache.go\<close>; locales
  \<open>perm_cache\<close>, \<open>valkey_cache\<close>), \<open>Permission_Resolver\<close> (\<open>resolver.go\<close>; locales \<open>resolver\<close>, \<open>world_resolver\<close>),
  \<open>Permission_Invalidate\<close> (\<open>invalidate.go\<close>) and \<open>Permission_Http\<close> (\<open>middleware.go\<close>, \<open>api/permission.go\<close>). \<open>effective\<close> says
  bit by bit which permissions a user has in a channel; \<open>coherent\<close> says that every cached value is the
  effective one. The code computes \<open>effective\<close> through a coherent cache and keeps it coherent, and each
  endpoint that changes the data publishes one invalidation: \<open>published\<close> reads off the server's publications
  what was sent, and the subscriber's loop \<open>Run\<close> over it makes the cache coherent again.

  \<^bold>\<open>Gateway.\<close> \<open>Gateway_Publisher\<close> (\<open>publisher.go\<close>, as a step relation over the queue and its workers, which keeps every
  job in one of its lists),
  \<open>Gateway_Session\<close> (\<open>session.go\<close>), \<open>Gateway_Client\<close> (\<open>client.go\<close>, \<open>frame.go\<close>, \<open>close_codes.go\<close>), \<open>Gateway_Hub\<close> (\<open>hub.go\<close>),
  \<open>Gateway_Registry\<close> (reachable states of the hub and its connection invariant), \<open>Gateway_Dispatch\<close> (who receives
  an event). \<open>Presence\<close> models \<open>internal/presence\<close>.

  \<^bold>\<open>Authentication.\<close> \<open>Auth_Tokens\<close> (\<open>refresh.go\<close> with its Lua scripts, \<open>gateway_ticket.go\<close>, \<open>mfa_ticket.go\<close>,
  \<open>mfa_pending.go\<close>) and \<open>Auth_Jwt\<close> (\<open>jwt.go\<close>; locale \<open>jwt_service\<close>): tokens and tickets are used once, revocation
  reaches every token of a user. The steps \<open>refresh_step\<close> are the operations of the token store, and a token that was
  rotated stays refused along every run of them that does not draw its identifier again. \<open>Auth_Crypto\<close> models \<open>validation.go\<close>, \<open>password.go\<close>, \<open>hmac.go\<close> and \<open>mfa_crypto.go\<close> (locales
  \<open>argon_service\<close>, \<open>crypto_service\<close>), \<open>Auth_Service\<close> all of \<open>service.go\<close>, written with the combinators of \<open>Calls\<close>.
  \<open>Auth_Laws\<close> holds the step relation of the service and the locale \<open>service_invariant\<close>. \<open>Retention\<close> adds the periodic
  clean-up \<open>purgeExpiredData\<close> of \<open>cmd/uncord/main.go\<close>, which may remove old tombstones, and the steps of the
  whole server (\<open>site_step\<close>). \<open>Auth_Props\<close> holds the properties: a login needs the password and the second
  factor, a deleted address stays refused while its tombstone is kept, who registered can log in, what
  a replayed token does.

  \<^bold>\<open>Accounts and the server.\<close> \<open>Users\<close> (\<open>internal/user\<close>), \<open>Users_Laws\<close> (the locales \<open>user_writes\<close> and \<open>user_statements\<close> that
  carry an invariant through every call) and \<open>Account_Laws\<close> (the joint invariant of accounts and members,
  email verification, purging). \<open>Server_Config\<close> models \<open>internal/server\<close> and \<open>api/server.go\<close>, \<open>Blocklist\<close>
  \<open>internal/disposable\<close>.

  \<^bold>\<open>Roles and members.\<close> \<open>Role\<close> and \<open>Role_Laws\<close> (\<open>internal/role\<close>, \<open>api/role.go\<close>), \<open>Member\<close> and \<open>Member_Laws\<close>
  (\<open>internal/member\<close>), \<open>Member_Http\<close> and \<open>Member_Http_Laws\<close> (\<open>api/member.go\<close>): invariants of the tables over all
  sequences of requests or calls, the hierarchy of roles, atomic bans, paging, the list of the
  members of a channel. \<open>AuditLog\<close> models \<open>internal/audit\<close> and \<open>Http\<close> \<open>httputil/response.go\<close>.

  \<^bold>\<open>Registration, login and accounts over HTTP.\<close> \<open>Auth_Http\<close> models \<open>auth/middleware.go\<close>, \<open>api/auth.go\<close>,
  \<open>api/mfa.go\<close> and \<open>api/user.go\<close>; \<open>Auth_Http_Laws\<close> proves what their endpoints answer.

  \<^bold>\<open>Channels, invites and messages.\<close> \<open>Handlers\<close> sequences the steps of a handler (the first refusal is the
  answer) and \<open>Queries\<close> the row queries of the repositories, with the locale \<open>table_invariant\<close> for what every
  statement keeps. On them stand \<open>Channels\<close> (\<open>internal/channel\<close>, \<open>internal/category\<close>) and \<open>Channel_Http\<close>
  (\<open>api/channel.go\<close>, \<open>api/category.go\<close>); \<open>Invite\<close> (\<open>internal/invite\<close>), \<open>Onboarding\<close> (\<open>internal/onboarding\<close>) and \<open>Joining\<close>
  (\<open>api/invite.go\<close>, \<open>api/onboarding.go\<close>); \<open>Messages\<close> (\<open>internal/message\<close>, \<open>internal/attachment\<close>), \<open>Reactions\<close>
  (\<open>internal/reaction\<close>, \<open>internal/readstate\<close>, \<open>internal/typing\<close> and the look-ups of \<open>internal/emoji\<close>), \<open>Threads\<close> (\<open>internal/thread\<close>),
  \<open>Message_Http\<close> (\<open>api/message.go\<close>, \<open>api/pin.go\<close>) and \<open>Thread_Http\<close> (\<open>api/thread.go\<close>, \<open>api/reaction.go\<close>,
  \<open>api/readstate.go\<close>, \<open>api/typing.go\<close>, \<open>api/audit.go\<close>). A text column accepts every string, and the goroutines
  a handler starts are values in \<open>World\<close>. \<open>LoadDocuments\<close> takes the sort as an argument, since \<open>sort.Slice\<close> is not stable.

  \<^bold>\<open>Direct messages, keys and settings.\<close> \<open>Direct\<close> (\<open>internal/dm\<close>) and \<open>Direct_Http\<close> (\<open>api/dm.go\<close>), \<open>Keys\<close>
  (\<open>internal/e2ee\<close>) and \<open>Keys_Http\<close> (\<open>api/e2ee.go\<close>), \<open>Settings_Sync\<close> (\<open>internal/settingsync\<close>, \<open>api/settingsync.go\<close>);
  \<open>Base64\<close> is the encoding of the standard library, with its round trip. \<open>Direct_Laws\<close> proves who takes part in a new group, whom
  its routes let through and at whom its event is targeted. A \<open>SELECT COUNT(*) ... FOR UPDATE\<close> is
  refused by PostgreSQL, and the statement is modelled so (\<open>count_for_update\<close>).

  \<^bold>\<open>What their laws show.\<close> \<open>Reading\<close> follows a handler through its reads (\<open>reading\<close>, \<open>reaching\<close>: every way to an
  effect passes the earlier guards), \<open>Writing\<close> through its permission checks and its single write
  (\<open>settled\<close>), \<open>Content_Laws\<close> carries an invariant of the tables through every request of these handlers
  (locale \<open>content_invariant\<close>, which extends to \<open>table_invariant\<close>, \<open>verification_statements\<close> and \<open>user_statements\<close>). On
  them \<open>Joining_Laws\<close> proves who is admitted, who is made active and how often an invite is used,
  \<open>Message_Laws\<close> who edits, deletes and pins, that paging through a channel loses nothing and that read
  positions move forward, and \<open>Reaction_Laws\<close> that the two ways to summarise reactions agree.

  \<^bold>\<open>Loops.\<close> The loops over SCAN cursors (\<open>scanAndDelete\<close>) and over batches of members
  (\<open>channel_members_loop\<close>) and the loops that purge old rows (\<open>purge_loop\<close>) are partial functions whose value \<open>None\<close> means that they do not return; it is
  proved that they return. All other loops are structural recursions; no definition of the model uses
  fuel (\<open>walk\<close> of \<open>Message_Laws\<close>, which fetches page after page, takes the number of pages and the theorems say how
  many are enough).

  \<^bold>\<open>Not modelled.\<close> Routing and start-up (\<open>cmd/uncord\<close> except the clean-up, most of \<open>internal/config\<close>,
  \<open>internal/bootstrap\<close>), clients of external services (\<open>internal/media\<close>, \<open>internal/email\<close>, \<open>internal/search\<close>,
  \<open>internal/valkey\<close>), rendering (\<open>internal/page\<close>), uploads (in \<open>api/attachment.go\<close>, \<open>api/image_upload.go\<close>) and the endpoints of
  custom emoji (\<open>api/emoji.go\<close>).
\<close>

end
